(* ===== verification/Prelude.thy ===== *)
theory Prelude
  imports Complex_Main "HOL-Library.Sublist" "HOL-Library.Char_ord" "HOL-Library.List_Lexorder"
begin

text \<open>
  Shared vocabulary of the development: Python strings and their methods, exceptions as
  sums, SQL-like operations on lists of rows, clock readings, and the interfaces (locales)
  that several components satisfy.

  A Python \<^verbatim>\<open>str\<close> is the list of bytes of its UTF-8 encoding, so that byte limits are
  lengths. White space is the ASCII white space of \<^verbatim>\<open>str.strip\<close>. A Python \<^verbatim>\<open>float\<close> is an
  exact rational.
\<close>

named_theorems frame_simps \<open>what an operation on one table leaves alone\<close>
named_theorems inv_intros \<open>preservation of the invariants of the hub\<close>

section \<open>Strings\<close>

definition is_space :: "char \<Rightarrow> bool" where
  "is_space c = (let n = (of_char c :: nat) in n = 32 \<or> (9 \<le> n \<and> n \<le> 13) \<or> (28 \<le> n \<and> n \<le> 31))"

definition lstrip :: "string \<Rightarrow> string" where
  "lstrip s = dropWhile is_space s"

definition rstrip :: "string \<Rightarrow> string" where
  "rstrip s = rev (dropWhile is_space (rev s))"

definition strip :: "string \<Rightarrow> string" where
  "strip s = rstrip (lstrip s)"

definition rstrip_char :: "char \<Rightarrow> string \<Rightarrow> string" where
  "rstrip_char c s = rev (dropWhile (\<lambda>d. d = c) (rev s))"

definition lower_char :: "char \<Rightarrow> char" where
  "lower_char c = (let n = (of_char c :: nat) in if 65 \<le> n \<and> n \<le> 90 then char_of (n + 32) else c)"

definition upper_char :: "char \<Rightarrow> char" where
  "upper_char c = (let n = (of_char c :: nat) in if 97 \<le> n \<and> n \<le> 122 then char_of (n - 32) else c)"

definition lower :: "string \<Rightarrow> string" where
  "lower s = map lower_char s"

definition upper :: "string \<Rightarrow> string" where
  "upper s = map upper_char s"

definition startswith :: "string \<Rightarrow> string \<Rightarrow> bool" where
  "startswith s p = (take (length p) s = p)"

fun contains :: "string \<Rightarrow> string \<Rightarrow> bool" where
  "contains [] p = (p = [])"
| "contains (c # s) p = (startswith (c # s) p \<or> contains s p)"

text \<open>\<^verbatim>\<open>s[:n]\<close> counts characters: a byte that continues one goes with it.\<close>

definition continues :: "char \<Rightarrow> bool" where
  "continues c = (let n = (of_char c :: nat) in 128 \<le> n \<and> n < 192)"

fun py_take :: "nat \<Rightarrow> string \<Rightarrow> string" where
  "py_take n [] = []"
| "py_take n (c # s) = (if continues c then c # py_take n s else (case n of 0 \<Rightarrow> [] | Suc k \<Rightarrow> c # py_take k s))"

definition is_digit :: "char \<Rightarrow> bool" where
  "is_digit c = (let n = (of_char c :: nat) in 48 \<le> n \<and> n \<le> 57)"

definition is_lower :: "char \<Rightarrow> bool" where
  "is_lower c = (let n = (of_char c :: nat) in 97 \<le> n \<and> n \<le> 122)"

definition is_upper :: "char \<Rightarrow> bool" where
  "is_upper c = (let n = (of_char c :: nat) in 65 \<le> n \<and> n \<le> 90)"

definition is_alnum :: "char \<Rightarrow> bool" where
  "is_alnum c = (is_digit c \<or> is_lower c \<or> is_upper c)"

definition is_hex :: "char \<Rightarrow> bool" where
  "is_hex c = (is_digit c \<or> (let n = (of_char c :: nat) in (97 \<le> n \<and> n \<le> 102) \<or> (65 \<le> n \<and> n \<le> 70)))"

text \<open>The same on the bits of the character, for evaluation.\<close>

lemma char_class_code [code]:
  "is_digit (Char b0 b1 b2 b3 b4 b5 b6 b7) = (b4 \<and> b5 \<and> \<not> b6 \<and> \<not> b7 \<and> (\<not> b3 \<or> \<not> b2 \<and> \<not> b1))"
  "is_lower (Char b0 b1 b2 b3 b4 b5 b6 b7) = (b5 \<and> b6 \<and> \<not> b7 \<and> (b0 \<or> b1 \<or> b2 \<or> b3 \<or> b4) \<and>
     (\<not> b3 \<or> \<not> b4 \<or> (\<not> b2 \<and> (\<not> b0 \<or> \<not> b1))))"
  "is_upper (Char b0 b1 b2 b3 b4 b5 b6 b7) = (\<not> b5 \<and> b6 \<and> \<not> b7 \<and> (b0 \<or> b1 \<or> b2 \<or> b3 \<or> b4) \<and>
     (\<not> b3 \<or> \<not> b4 \<or> (\<not> b2 \<and> (\<not> b0 \<or> \<not> b1))))"
  "is_hex (Char b0 b1 b2 b3 b4 b5 b6 b7) =
     (b4 \<and> b5 \<and> \<not> b6 \<and> \<not> b7 \<and> (\<not> b3 \<or> \<not> b2 \<and> \<not> b1) \<or>
      \<not> b3 \<and> \<not> b4 \<and> b6 \<and> \<not> b7 \<and> (b0 \<or> b1 \<or> b2) \<and> \<not> (b0 \<and> b1 \<and> b2))"
  "is_space (Char b0 b1 b2 b3 b4 b5 b6 b7) = (\<not> b6 \<and> \<not> b7 \<and>
     (b5 \<and> \<not> b4 \<and> \<not> b3 \<and> \<not> b2 \<and> \<not> b1 \<and> \<not> b0 \<or> \<not> b5 \<and> b4 \<and> b3 \<and> b2 \<or>
      \<not> b5 \<and> \<not> b4 \<and> b3 \<and> (b0 \<or> b1 \<or> b2) \<and> (\<not> b2 \<or> \<not> b1)))"
  by (cases b0; cases b1; cases b2; cases b3; cases b4; cases b5; cases b6; cases b7;
      simp add: is_digit_def is_lower_def is_upper_def is_hex_def is_space_def)+

lemma of_char_bit5:
  "of_char (Char b0 b1 b2 b3 b4 True b6 b7) = (of_char (Char b0 b1 b2 b3 b4 False b6 b7) + 32 :: nat)"
  by simp

lemma case_code [code]:
  "lower_char (Char b0 b1 b2 b3 b4 b5 b6 b7) =
     (if is_upper (Char b0 b1 b2 b3 b4 b5 b6 b7) then Char b0 b1 b2 b3 b4 True b6 b7 else Char b0 b1 b2 b3 b4 b5 b6 b7)"
  "upper_char (Char b0 b1 b2 b3 b4 b5 b6 b7) =
     (if is_lower (Char b0 b1 b2 b3 b4 b5 b6 b7) then Char b0 b1 b2 b3 b4 False b6 b7 else Char b0 b1 b2 b3 b4 b5 b6 b7)"
proof -
  let ?c = "Char b0 b1 b2 b3 b4 b5 b6 b7"
  have lo: "lower_char ?c = (if is_upper ?c then char_of (of_char ?c + 32 :: nat) else ?c)"
    by (simp only: lower_char_def is_upper_def Let_def)
  show "lower_char ?c = (if is_upper ?c then Char b0 b1 b2 b3 b4 True b6 b7 else ?c)"
  proof (cases "is_upper ?c")
    case True
    then have "b5 = False" by (simp only: char_class_code simp_thms)
    with True show ?thesis unfolding lo by (simp only: if_True of_char_bit5 [symmetric] char_of_char)
  qed (simp only: lo if_False)
  have up: "upper_char ?c = (if is_lower ?c then char_of (of_char ?c - 32 :: nat) else ?c)"
    by (simp only: upper_char_def is_lower_def Let_def)
  show "upper_char ?c = (if is_lower ?c then Char b0 b1 b2 b3 b4 False b6 b7 else ?c)"
  proof (cases "is_lower ?c")
    case True
    then have "b5 = True" by (simp only: char_class_code simp_thms)
    with True show ?thesis unfolding up by (simp only: if_True of_char_bit5 add_diff_cancel_right' char_of_char)
  qed (simp only: up if_False)
qed

fun show_nat :: "nat \<Rightarrow> string" where
  "show_nat n = (if n < 10 then [char_of (48 + n)] else show_nat (n div 10) @ [char_of (48 + n mod 10)])"

declare show_nat.simps [simp del]

definition show_int :: "int \<Rightarrow> string" where
  "show_int i = (if i < 0 then ''-'' @ show_nat (nat (- i)) else show_nat (nat i))"

lemma is_space_lower_char [simp]: "is_space (lower_char c) = is_space c"
  by (auto simp: is_space_def lower_char_def Let_def)

lemma strip_Nil [simp]: "strip [] = []"
  by (simp add: strip_def lstrip_def rstrip_def)

lemma strip_inside:
  assumes "\<not> is_space (hd s)" "\<not> is_space (last s)" "s \<noteq> []"
  shows "strip s = s"
proof -
  have "dropWhile is_space s = s" using assms(1,3) by (cases s) simp_all
  moreover have "dropWhile is_space (rev s) = rev s" using assms(2,3) by (cases "rev s") (simp_all add: last_rev [symmetric] hd_rev)
  ultimately show ?thesis by (simp add: strip_def lstrip_def rstrip_def)
qed

lemma strip_ends: "strip t \<noteq> [] \<Longrightarrow> \<not> is_space (hd (strip t)) \<and> \<not> is_space (last (strip t))"
proof -
  assume n: "strip t \<noteq> []"
  let ?l = "dropWhile is_space t" and ?m = "dropWhile is_space (rev (dropWhile is_space t))"
  have m: "?m \<noteq> []" using n by (simp add: strip_def rstrip_def lstrip_def)
  have "\<not> is_space (hd ?m)" using hd_dropWhile [OF m] .
  then have "\<not> is_space (last (strip t))" using m by (simp add: strip_def rstrip_def lstrip_def last_rev)
  moreover have "\<not> is_space (hd (strip t))"
  proof -
    obtain k where "rev ?l = k @ ?m" using takeWhile_dropWhile_id by metis
    then have l: "?l = rev ?m @ rev k" by (metis rev_append rev_rev_ident)
    have "rev ?m \<noteq> []" using m by simp
    then have "?l \<noteq> []" "hd ?l = hd (rev ?m)" by (subst l, simp)+
    then show ?thesis using hd_dropWhile [of is_space t] by (simp add: strip_def rstrip_def lstrip_def)
  qed
  ultimately show ?thesis by blast
qed

lemma strip_strip [simp]: "strip (strip t) = strip t"
proof (cases "strip t = []")
  case False
  note e = strip_ends [OF False]
  then have "dropWhile is_space (strip t) = strip t" "dropWhile is_space (rev (strip t)) = rev (strip t)"
    using False by (auto simp: dropWhile_eq_self_iff hd_rev)
  then show ?thesis by (simp add: strip_def [of "strip t"] rstrip_def lstrip_def)
qed simp

section \<open>Exceptions as sums\<close>

definition ebind :: "'e + 'a \<Rightarrow> ('a \<Rightarrow> 'e + 'b) \<Rightarrow> 'e + 'b" where
  "ebind m f = (case m of Inl e \<Rightarrow> Inl e | Inr x \<Rightarrow> f x)"

definition guard_that :: "bool \<Rightarrow> 'e \<Rightarrow> 'e + unit" where
  "guard_that b e = (if b then Inr () else Inl e)"

definition from_option :: "'e \<Rightarrow> 'a option \<Rightarrow> 'e + 'a" where
  "from_option e v = (case v of None \<Rightarrow> Inl e | Some x \<Rightarrow> Inr x)"

lemma ebind_Inl [simp]: "ebind (Inl e) f = Inl e"
  by (simp add: ebind_def)

lemma ebind_Inr [simp]: "ebind (Inr x) f = f x"
  by (simp add: ebind_def)

lemma ebind_eq_Inr [simp]: "ebind m f = Inr y \<longleftrightarrow> (\<exists>x. m = Inr x \<and> f x = Inr y)"
  by (cases m) auto

lemma ebind_eq_Inl: "ebind m f = Inl e \<longleftrightarrow> m = Inl e \<or> (\<exists>x. m = Inr x \<and> f x = Inl e)"
  by (cases m) auto

lemma guard_that_Inr [simp]: "guard_that b e = Inr u \<longleftrightarrow> b"
  by (simp add: guard_that_def)

lemma guard_that_simps [simp]: "guard_that True e = Inr ()" "guard_that False e = Inl e"
  by (simp_all add: guard_that_def)

lemma from_option_Inr [simp]: "from_option e v = Inr x \<longleftrightarrow> v = Some x"
  by (cases v) (auto simp: from_option_def)

lemma from_option_simps [simp]:
  "from_option e None = Inl e" "from_option e (Some x) = Inr x"
  by (simp_all add: from_option_def)

section \<open>Rows of a table\<close>

definition update_where :: "('r \<Rightarrow> bool) \<Rightarrow> ('r \<Rightarrow> 'r) \<Rightarrow> 'r list \<Rightarrow> 'r list" where
  "update_where P f rows = map (\<lambda>r. if P r then f r else r) rows"

text \<open>\<^verbatim>\<open>SELECT ... WHERE P ORDER BY k LIMIT 1\<close>; equal keys keep their insertion order.\<close>

definition first_by :: "('r \<Rightarrow> 'k::linorder) \<Rightarrow> ('r \<Rightarrow> bool) \<Rightarrow> 'r list \<Rightarrow> 'r option" where
  "first_by k P rows = (case sort_key k (filter P rows) of [] \<Rightarrow> None | r # _ \<Rightarrow> Some r)"

lemma update_where_Nil [simp]: "update_where P f [] = []"
  by (simp add: update_where_def)

lemma length_update_where [simp]: "length (update_where P f rows) = length rows"
  by (simp add: update_where_def)

lemma map_key_update_where [simp]:
  "(\<And>r. key (f r) = key r) \<Longrightarrow> map key (update_where P f rows) = map key rows"
  by (simp add: update_where_def)

lemma set_update_where: "set (update_where P f rows) = (\<lambda>r. if P r then f r else r) ` set rows"
  by (simp add: update_where_def)

lemma find_map_key:
  "(\<And>r. key (f r) = key r) \<Longrightarrow>
   find (\<lambda>r. key r = k) (map f rows) = map_option f (find (\<lambda>r. key r = k) rows)"
  by (induction rows) auto

lemma find_update_where_key:
  assumes "\<And>r. key (f r) = key r"
  shows "find (\<lambda>r. key r = k) (update_where P f rows)
       = map_option (\<lambda>r. if P r then f r else r) (find (\<lambda>r. key r = k) rows)"
  unfolding update_where_def by (rule find_map_key) (simp add: assms)

lemma find_SomeD: "find P xs = Some x \<Longrightarrow> x \<in> set xs \<and> P x"
  by (metis find_Some_iff nth_mem)

lemma find_key_distinct:
  "distinct (map key rows) \<Longrightarrow> r \<in> set rows \<Longrightarrow> find (\<lambda>x. key x = key r) rows = Some r"
  by (induction rows) force+

lemma find_append: "find P (xs @ ys) = (case find P xs of None \<Rightarrow> find P ys | Some x \<Rightarrow> Some x)"
  by (induction xs) auto

lemma find_Some_unique:
  assumes "x \<in> set xs" "P x" "\<And>y. y \<in> set xs \<Longrightarrow> P y \<Longrightarrow> y = x"
  shows "find P xs = Some x"
proof (cases "find P xs")
  case None
  with assms(1,2) show ?thesis by (simp add: find_None_iff)
next
  case (Some y)
  with find_SomeD [OF Some] assms(3) [of y] show ?thesis by simp
qed

lemma distinct_filter_map_inj:
  assumes "distinct (filter (\<lambda>s. s \<noteq> None) (map f xs))" "x \<in> set xs" "f x = Some v" "y \<in> set xs" "f y = Some v"
  shows "x = y"
  using assms(1,2,4)
proof (induction xs)
  case (Cons z zs)
  show ?case
  proof (cases "f z = Some v")
    case True
    then have "Some v \<notin> f ` set zs" using Cons.prems(1) by auto
    then have "u \<notin> set zs" if "f u = Some v" for u using that by (metis imageI)
    then show ?thesis using Cons.prems assms(3,5) by auto
  next
    case False
    then show ?thesis using Cons assms(3,5) by (auto split: if_splits)
  qed
qed simp

lemma first_by_None: "first_by k P rows = None \<longleftrightarrow> (\<forall>r \<in> set rows. \<not> P r)"
proof -
  have "first_by k P rows = None \<longleftrightarrow> sort_key k (filter P rows) = []"
    by (auto simp: first_by_def split: list.splits)
  also have "\<dots> \<longleftrightarrow> filter P rows = []"
    by (metis length_0_conv length_sort)
  finally show ?thesis by (simp add: filter_empty_conv)
qed

lemma first_by_Some:
  assumes "first_by k P rows = Some r"
  shows "r \<in> set rows" "P r" "\<And>x. x \<in> set rows \<Longrightarrow> P x \<Longrightarrow> k r \<le> k x"
proof -
  from assms obtain rs where rs: "sort_key k (filter P rows) = r # rs"
    by (auto simp: first_by_def split: list.splits)
  then have eq: "set (r # rs) = {x \<in> set rows. P x}"
    by (metis set_filter set_sort)
  then show "r \<in> set rows" "P r" by auto
  fix x assume "x \<in> set rows" "P x"
  with eq have "x \<in> set (r # rs)" by blast
  moreover have "sorted (map k (r # rs))" using rs by (metis sorted_sort_key)
  ultimately show "k r \<le> k x" by auto
qed

lemma first_by_sorted: "sorted (map k rows) \<Longrightarrow> first_by k P rows = find P rows"
proof (induction rows)
  case (Cons r rows)
  have "sorted (map k (filter P (r # rows)))"
    using Cons.prems sorted_filter by blast
  then have "sort_key k (filter P (r # rows)) = filter P (r # rows)"
    by (rule sort_key_id_if_sorted)
  with Cons show ?case
    by (auto simp: first_by_def sorted_filter sort_key_id_if_sorted split: list.splits)
qed (simp add: first_by_def)

section \<open>Time\<close>

text \<open>
  A moment is the number of microseconds since the epoch, the resolution of \<^verbatim>\<open>datetime\<close>. A
  stored timestamp has milliseconds, and its fixed-width text sorts as the number does.
\<close>

type_synonym moment = int
type_synonym iso = int

definition to_iso :: "moment \<Rightarrow> iso" where
  "to_iso m = m div 1000"

definition parse_timestamp :: "iso \<Rightarrow> moment" where
  "parse_timestamp t = t * 1000"

text \<open>\<^verbatim>\<open>timedelta(seconds=s)\<close> rounds to microseconds, ties to even.\<close>

definition round_half_even :: "rat \<Rightarrow> int" where
  "round_half_even q =
     (let f = floor q; d = q - of_int f
      in if d < 1/2 then f else if d > 1/2 then f + 1 else if even f then f else f + 1)"

definition seconds :: "rat \<Rightarrow> int" where
  "seconds s = round_half_even (s * 1000000)"

definition minutes :: "rat \<Rightarrow> int" where
  "minutes m = round_half_even (m * 60000000)"

lemma to_iso_mono: "a \<le> b \<Longrightarrow> to_iso a \<le> to_iso b"
  by (simp add: to_iso_def zdiv_mono1)

lemma to_iso_parse [simp]: "to_iso (parse_timestamp t) = t"
  by (simp add: to_iso_def parse_timestamp_def)

lemma parse_to_iso_le: "parse_timestamp (to_iso m) \<le> m"
  unfolding to_iso_def parse_timestamp_def by (simp add: mult.commute minus_mod_eq_mult_div [symmetric])

lemma parse_timestamp_le [simp]: "parse_timestamp a \<le> parse_timestamp b \<longleftrightarrow> a \<le> b"
  by (simp add: parse_timestamp_def)

lemma parse_le_iff: "parse_timestamp t \<le> m \<longleftrightarrow> t \<le> to_iso m"
proof -
  have "m = 1000 * (m div 1000) + m mod 1000" by simp
  moreover have "0 \<le> m mod 1000" "m mod 1000 < 1000" by simp_all
  ultimately show ?thesis unfolding to_iso_def parse_timestamp_def by linarith
qed

lemma round_half_even_of_int [simp]: "round_half_even (of_int i) = i"
  by (simp add: round_half_even_def Let_def)

lemma round_half_even_nonneg: "0 \<le> q \<Longrightarrow> 0 \<le> round_half_even q"
  by (auto simp: round_half_even_def Let_def)

lemma round_half_even_mono: "p \<le> q \<Longrightarrow> round_half_even p \<le> round_half_even q"
proof -
  assume le: "p \<le> q"
  let ?f = "floor p" and ?g = "floor q"
  have fg: "?f \<le> ?g" using le by (rule floor_mono)
  show ?thesis
  proof (cases "?f = ?g")
    case True
    with le show ?thesis by (auto simp: round_half_even_def Let_def)
  next
    case False
    with fg have "?f + 1 \<le> ?g" by simp
    then show ?thesis by (auto simp: round_half_even_def Let_def)
  qed
qed

lemma seconds_mono: "p \<le> q \<Longrightarrow> seconds p \<le> seconds q"
  by (simp add: seconds_def round_half_even_mono)

lemma minutes_mono: "p \<le> q \<Longrightarrow> minutes p \<le> minutes q"
  by (simp add: minutes_def round_half_even_mono)

section \<open>What an operation reads from outside\<close>

text \<open>
  The n-th reading of the wall clock within one operation, the n-th fresh \<^verbatim>\<open>uuid4().hex\<close>, and
  the text \<^verbatim>\<open>repr\<close> prints for a float. Nothing is assumed of them: readings may go backwards
  and identifiers may collide.
\<close>

record env =
  now_at :: "nat \<Rightarrow> moment"
  uuid_at :: "nat \<Rightarrow> string"
  float_repr :: "rat \<Rightarrow> string"

definition now_iso :: "env \<Rightarrow> nat \<Rightarrow> iso" where
  "now_iso e n = to_iso (now_at e n)"

section \<open>Interfaces\<close>

text \<open>A closed enumeration stored by its text.\<close>

locale enum_codec =
  fixes enc :: "'e \<Rightarrow> string" and dec :: "string \<Rightarrow> 'e option"
  assumes dec_enc: "dec (enc x) = Some x"
    and enc_dec: "dec s = Some x \<Longrightarrow> enc x = s"
begin

lemma enc_inj: "enc x = enc y \<longleftrightarrow> x = y"
  by (metis dec_enc option.inject)

lemma dec_Some_iff: "dec s = Some x \<longleftrightarrow> s = enc x"
  using dec_enc enc_dec by auto

lemma dec_None_iff: "dec s = None \<longleftrightarrow> s \<notin> range enc"
  by (metis dec_enc enc_dec option.distinct(1) not_Some_eq rangeE rangeI)

end

text \<open>A table whose rows are found by their primary key.\<close>

locale keyed_table =
  fixes get :: "'d \<Rightarrow> 'k \<Rightarrow> 'r option"
    and ins :: "'r \<Rightarrow> 'd \<Rightarrow> 'd"
    and upd :: "'k \<Rightarrow> ('r \<Rightarrow> 'r) \<Rightarrow> 'd \<Rightarrow> 'd"
    and key :: "'r \<Rightarrow> 'k"
  assumes get_key: "get d k = Some r \<Longrightarrow> key r = k"
    and get_ins: "get (ins r d) k =
      (case get d k of Some x \<Rightarrow> Some x | None \<Rightarrow> if key r = k then Some r else None)"
    and get_upd: "(\<And>r. key (f r) = key r) \<Longrightarrow>
      get (upd k f d) k' = (if k' = k then map_option f (get d k') else get d k')"
begin

lemma get_ins_fresh: "get d (key r) = None \<Longrightarrow> get (ins r d) = (get d)(key r \<mapsto> r)"
  by (rule ext) (auto simp: get_ins split: option.splits)

lemma get_ins_old: "get d k = Some x \<Longrightarrow> get (ins r d) k = Some x"
  by (simp add: get_ins)

lemma get_upd_same:
  "(\<And>r. key (f r) = key r) \<Longrightarrow> get d k = Some r \<Longrightarrow> get (upd k f d) k = Some (f r)"
  by (simp add: get_upd)

lemma get_upd_other:
  "(\<And>r. key (f r) = key r) \<Longrightarrow> k' \<noteq> k \<Longrightarrow> get (upd k f d) k' = get d k'"
  by (simp add: get_upd)

lemma get_upd_dom:
  "(\<And>r. key (f r) = key r) \<Longrightarrow> (get (upd k f d) k' = None) = (get d k' = None)"
  by (simp add: get_upd)

end

text \<open>A transition system with an invariant.\<close>

locale invariant_system =
  fixes init :: "'a" and step :: "'a \<Rightarrow> 'a \<Rightarrow> bool" and inv :: "'a \<Rightarrow> bool"
  assumes inv_init: "inv init"
    and inv_step: "inv s \<Longrightarrow> step s t \<Longrightarrow> inv t"
begin

lemma inv_steps: "inv s \<Longrightarrow> step\<^sup>*\<^sup>* s t \<Longrightarrow> inv t"
proof -
  assume "step\<^sup>*\<^sup>* s t" and "inv s"
  then show "inv t" by (induction rule: rtranclp_induct) (auto intro: inv_step)
qed

lemma inv_reachable: "step\<^sup>*\<^sup>* init t \<Longrightarrow> inv t"
  using inv_init inv_steps by blast

end

text \<open>An invariant system whose steps also move along a preorder.\<close>

locale evolving_system = invariant_system +
  fixes le :: "'a \<Rightarrow> 'a \<Rightarrow> bool"
  assumes le_refl: "le s s"
    and le_trans: "le s t \<Longrightarrow> le t u \<Longrightarrow> le s u"
    and step_le: "inv s \<Longrightarrow> step s t \<Longrightarrow> le s t"
begin

lemma steps_le: "inv s \<Longrightarrow> step\<^sup>*\<^sup>* s t \<Longrightarrow> le s t"
proof -
  assume "step\<^sup>*\<^sup>* s t" and s: "inv s"
  then show "le s t"
  proof (induction rule: rtranclp_induct)
    case (step t u)
    then have "le t u" using step_le inv_steps [OF s] by blast
    with step show ?case using le_trans by blast
  qed (rule le_refl)
qed

lemma reachable_le: "step\<^sup>*\<^sup>* init s \<Longrightarrow> step\<^sup>*\<^sup>* s t \<Longrightarrow> le s t"
  using inv_reachable steps_le by blast

end

end
