(* ===== verification/Json.thy ===== *)
theory Json
  imports Prelude
begin

text \<open>
  JSON values as the hub stores and measures them, dictionaries with Python's update order,
  the compact text whose length the payload caps bound, Python's \<^verbatim>\<open>==\<close> on decoded JSON, and
  the metadata key namespace of \<^verbatim>\<open>constants.py\<close> and \<^verbatim>\<open>store.py\<close>. A column holding JSON text
  is modelled by the value it decodes to.
\<close>

datatype json =
    JNull
  | JBool bool
  | JInt int
  | JFloat rat
  | JStr string
  | JList "json list"
  | JObj "(string \<times> json) list"

type_synonym dict = "(string \<times> json) list"

section \<open>Dictionaries\<close>

fun dict_set :: "string \<Rightarrow> json \<Rightarrow> dict \<Rightarrow> dict" where
  "dict_set k v [] = [(k, v)]"
| "dict_set k v ((k', w) # d) = (if k' = k then (k, v) # d else (k', w) # dict_set k v d)"

fun dict_merge :: "dict \<Rightarrow> dict \<Rightarrow> dict" where
  "dict_merge d [] = d"
| "dict_merge d ((k, v) # r) = dict_merge (dict_set k v d) r"

definition dict_get :: "string \<Rightarrow> dict \<Rightarrow> json option" where
  "dict_get k d = map_of d k"

definition dict_has :: "string \<Rightarrow> dict \<Rightarrow> bool" where
  "dict_has k d = (dict_get k d \<noteq> None)"

lemma dict_get_Nil [simp]: "dict_get k [] = None"
  by (simp add: dict_get_def)

lemma dict_get_Cons [simp]: "dict_get k ((k', v) # d) = (if k' = k then Some v else dict_get k d)"
  by (simp add: dict_get_def)

lemma dict_get_set [simp]: "dict_get k (dict_set k' v d) = (if k = k' then Some v else dict_get k d)"
  by (induction k' v d rule: dict_set.induct) auto

lemma keys_dict_set: "fst ` set (dict_set k v d) = insert k (fst ` set d)"
  by (induction k v d rule: dict_set.induct) auto

lemma distinct_dict_set: "distinct (map fst d) \<Longrightarrow> distinct (map fst (dict_set k v d))"
proof (induction k v d rule: dict_set.induct)
  case (2 k v k' w d)
  show ?case
  proof (cases "k' = k")
    case False
    with 2 have "distinct (map fst (dict_set k v d))" "k' \<notin> fst ` set (dict_set k v d)"
      by (simp_all add: keys_dict_set)
    with False show ?thesis by simp
  qed (use 2 in simp)
qed simp

lemma distinct_dict_merge: "distinct (map fst d) \<Longrightarrow> distinct (map fst (dict_merge d r))"
  by (induction d r rule: dict_merge.induct) (auto simp: distinct_dict_set)

lemma dict_get_merge:
  "distinct (map fst r) \<Longrightarrow>
   dict_get k (dict_merge d r) = (case dict_get k r of Some v \<Rightarrow> Some v | None \<Rightarrow> dict_get k d)"
proof (induction d r rule: dict_merge.induct)
  case (2 d k' v r)
  have "dict_get k' r = None" using "2.prems" by (auto simp: dict_get_def map_of_eq_None_iff)
  with 2 show ?case by (auto split: option.splits)
qed simp

section \<open>Text and size\<close>

definition hex_digit :: "nat \<Rightarrow> char" where
  "hex_digit n = (if n < 10 then char_of (48 + n) else char_of (87 + n))"

definition escape_char :: "char \<Rightarrow> string" where
  "escape_char c = (let n = (of_char c :: nat) in
     if n = 34 then [CHR 0x5C, CHR 0x22] else if n = 92 then [CHR 0x5C, CHR 0x5C]
     else if n = 10 then [CHR 0x5C, CHR ''n''] else if n = 13 then [CHR 0x5C, CHR ''r'']
     else if n = 9 then [CHR 0x5C, CHR ''t''] else if n = 12 then [CHR 0x5C, CHR ''f'']
     else if n = 8 then [CHR 0x5C, CHR ''b'']
     else if n < 32 then [CHR 0x5C] @ ''u00'' @ [hex_digit (n div 16), hex_digit (n mod 16)]
     else [c])"

text \<open>The same on the bits of the character, for evaluation.\<close>

lemma control_char: "(of_char (Char b0 b1 b2 b3 b4 b5 b6 b7) :: nat) < 32 \<longleftrightarrow> \<not> b5 \<and> \<not> b6 \<and> \<not> b7"
  by (cases b0; cases b1; cases b2; cases b3; cases b4; cases b5; cases b6; cases b7; simp)

lemma escape_char_code [code]:
  "escape_char c = (
     if c = CHR 0x22 then [CHR 0x5C, CHR 0x22] else if c = CHR 0x5C then [CHR 0x5C, CHR 0x5C]
     else (case c of Char b0 b1 b2 b3 b4 b5 b6 b7 \<Rightarrow> if b5 \<or> b6 \<or> b7 then [c]
     else if c = CHR 0x0A then [CHR 0x5C, CHR ''n''] else if c = CHR 0x0D then [CHR 0x5C, CHR ''r'']
     else if c = CHR 0x09 then [CHR 0x5C, CHR ''t''] else if c = CHR 0x0C then [CHR 0x5C, CHR ''f'']
     else if c = CHR 0x08 then [CHR 0x5C, CHR ''b'']
     else [CHR 0x5C] @ ''u00'' @ [hex_digit (of_char c div 16), hex_digit (of_char c mod 16)]))"
proof -
  obtain b0 b1 b2 b3 b4 b5 b6 b7 where c: "c = Char b0 b1 b2 b3 b4 b5 b6 b7" by (cases c)
  have eqs: "(of_char c :: nat) = 34 \<longleftrightarrow> c = CHR 0x22" "(of_char c :: nat) = 92 \<longleftrightarrow> c = CHR 0x5C"
    "(of_char c :: nat) = 10 \<longleftrightarrow> c = CHR 0x0A" "(of_char c :: nat) = 13 \<longleftrightarrow> c = CHR 0x0D"
    "(of_char c :: nat) = 9 \<longleftrightarrow> c = CHR 0x09" "(of_char c :: nat) = 12 \<longleftrightarrow> c = CHR 0x0C"
    "(of_char c :: nat) = 8 \<longleftrightarrow> c = CHR 0x08"
    using of_char_eq_iff [of c "CHR 0x22", where ?'a = nat] of_char_eq_iff [of c "CHR 0x5C", where ?'a = nat]
      of_char_eq_iff [of c "CHR 0x0A", where ?'a = nat] of_char_eq_iff [of c "CHR 0x0D", where ?'a = nat]
      of_char_eq_iff [of c "CHR 0x09", where ?'a = nat] of_char_eq_iff [of c "CHR 0x0C", where ?'a = nat]
      of_char_eq_iff [of c "CHR 0x08", where ?'a = nat] by (simp_all del: of_char_eq_iff)
  have ctl: "(of_char c :: nat) < 32 \<longleftrightarrow> \<not> (b5 \<or> b6 \<or> b7)" by (simp add: c control_char del: of_char_Char)
  have big: "c = CHR 0x0A \<or> c = CHR 0x0D \<or> c = CHR 0x09 \<or> c = CHR 0x0C \<or> c = CHR 0x08 \<Longrightarrow> \<not> (b5 \<or> b6 \<or> b7)"
    by (auto simp: c)
  have sel: "(case c of Char a0 a1 a2 a3 a4 a5 a6 a7 \<Rightarrow> if a5 \<or> a6 \<or> a7 then x else y) =
      (if b5 \<or> b6 \<or> b7 then x else y)" for x y :: string
    by (simp only: c char.case)
  note esc = escape_char_def [unfolded Let_def, of c, unfolded eqs ctl]
  show ?thesis
  proof (cases "b5 \<or> b6 \<or> b7")
    case True
    with big have n: "c \<noteq> CHR 0x0A" "c \<noteq> CHR 0x0D" "c \<noteq> CHR 0x09" "c \<noteq> CHR 0x0C" "c \<noteq> CHR 0x08" by blast+
    show ?thesis unfolding esc sel by (simp only: n True if_True if_False simp_thms)
  next
    case False
    show ?thesis unfolding esc sel by (simp only: False if_True if_False simp_thms)
  qed
qed

definition quote_text :: "string \<Rightarrow> string" where
  "quote_text s = [CHR 0x22] @ concat (map escape_char s) @ [CHR 0x22]"

fun join :: "string \<Rightarrow> string list \<Rightarrow> string" where
  "join sep [] = []"
| "join sep [x] = x"
| "join sep (x # y # r) = x @ sep @ join sep (y # r)"

text \<open>\<^verbatim>\<open>json.dumps(v, ensure_ascii=False, separators=(",", ":"), sort_keys=True)\<close>\<close>

fun json_text :: "(rat \<Rightarrow> string) \<Rightarrow> json \<Rightarrow> string"
and json_texts :: "(rat \<Rightarrow> string) \<Rightarrow> json list \<Rightarrow> string list"
and json_items :: "(rat \<Rightarrow> string) \<Rightarrow> (string \<times> json) list \<Rightarrow> (string \<times> string) list" where
  "json_text fr JNull = ''null''"
| "json_text fr (JBool b) = (if b then ''true'' else ''false'')"
| "json_text fr (JInt i) = show_int i"
| "json_text fr (JFloat q) = fr q"
| "json_text fr (JStr s) = quote_text s"
| "json_text fr (JList xs) = ''['' @ join '','' (json_texts fr xs) @ '']''"
| "json_text fr (JObj d) =
     ''{'' @ join '','' (map (\<lambda>(k, t). quote_text k @ '':'' @ t) (sort_key fst (json_items fr d))) @ ''}''"
| "json_texts fr [] = []"
| "json_texts fr (x # xs) = json_text fr x # json_texts fr xs"
| "json_items fr [] = []"
| "json_items fr ((k, v) # d) = (k, json_text fr v) # json_items fr d"

definition json_size_bytes :: "env \<Rightarrow> json \<Rightarrow> nat" where
  "json_size_bytes e v = length (json_text (float_repr e) v)"

lemma escape_char_longer: "1 \<le> length (escape_char c)"
  by (simp add: escape_char_def Let_def)

lemma quote_text_longer: "length s + 2 \<le> length (quote_text s)"
proof -
  have "length s \<le> length (concat (map escape_char s))"
  proof (induction s)
    case (Cons c s)
    with escape_char_longer [of c] show ?case by simp
  qed simp
  then show ?thesis by (simp add: quote_text_def)
qed

lemma size_of_JStr: "length s + 2 \<le> json_size_bytes e (JStr s)"
  using quote_text_longer [of s] by (simp add: json_size_bytes_def)

section \<open>Python equality and truth of decoded values\<close>

fun num_of :: "json \<Rightarrow> rat option" where
  "num_of (JBool b) = Some (if b then 1 else 0)"
| "num_of (JInt i) = Some (of_int i)"
| "num_of (JFloat q) = Some q"
| "num_of _ = None"

fun json_eq :: "json \<Rightarrow> json \<Rightarrow> bool"
and json_list_eq :: "json list \<Rightarrow> json list \<Rightarrow> bool"
and json_obj_sub :: "(string \<times> json) list \<Rightarrow> (string \<times> json) list \<Rightarrow> bool" where
  "json_eq JNull y = (y = JNull)"
| "json_eq (JStr s) y = (y = JStr s)"
| "json_eq (JList xs) y = (case y of JList ys \<Rightarrow> json_list_eq xs ys | _ \<Rightarrow> False)"
| "json_eq (JObj d) y = (case y of JObj d' \<Rightarrow> length d = length d' \<and> json_obj_sub d d' | _ \<Rightarrow> False)"
| "json_eq (JBool b) y = (num_of y = Some (if b then 1 else 0))"
| "json_eq (JInt i) y = (num_of y = Some (of_int i))"
| "json_eq (JFloat q) y = (num_of y = Some q)"
| "json_list_eq [] ys = (ys = [])"
| "json_list_eq (x # xs) ys = (case ys of [] \<Rightarrow> False | y # ys' \<Rightarrow> json_eq x y \<and> json_list_eq xs ys')"
| "json_obj_sub [] d' = True"
| "json_obj_sub ((k, v) # d) d' =
     (case map_of d' k of None \<Rightarrow> False | Some w \<Rightarrow> json_eq v w \<and> json_obj_sub d d')"

fun wf_json :: "json \<Rightarrow> bool"
and wf_jsons :: "json list \<Rightarrow> bool"
and wf_items :: "(string \<times> json) list \<Rightarrow> bool" where
  "wf_json (JList xs) = wf_jsons xs"
| "wf_json (JObj d) = (distinct (map fst d) \<and> wf_items d)"
| "wf_json _ = True"
| "wf_jsons [] = True"
| "wf_jsons (x # xs) = (wf_json x \<and> wf_jsons xs)"
| "wf_items [] = True"
| "wf_items ((k, v) # d) = (wf_json v \<and> wf_items d)"

lemma json_eq_refl_all:
  "wf_json v \<Longrightarrow> json_eq v v"
  "wf_jsons xs \<Longrightarrow> json_list_eq xs xs"
  "wf_items d \<Longrightarrow> distinct (map fst d') \<Longrightarrow> set d \<subseteq> set d' \<Longrightarrow> json_obj_sub d d'"
proof (induction v and xs and d arbitrary: and and d' rule: wf_json_wf_jsons_wf_items.induct)
qed auto

lemma json_eq_refl: "wf_json v \<Longrightarrow> json_eq v v"
  by (rule json_eq_refl_all)

lemma json_eq_JStr [simp]: "json_eq v (JStr s) \<longleftrightarrow> v = JStr s"
  by (cases v) auto

fun truthy :: "json \<Rightarrow> bool" where
  "truthy JNull = False"
| "truthy (JBool b) = b"
| "truthy (JInt i) = (i \<noteq> 0)"
| "truthy (JFloat q) = (q \<noteq> 0)"
| "truthy (JStr s) = (s \<noteq> [])"
| "truthy (JList xs) = (xs \<noteq> [])"
| "truthy (JObj d) = (d \<noteq> [])"

fun truthy_opt :: "json option \<Rightarrow> bool" where
  "truthy_opt None = False"
| "truthy_opt (Some v) = truthy v"

definition jopt :: "string option \<Rightarrow> json" where
  "jopt v = (case v of None \<Rightarrow> JNull | Some s \<Rightarrow> JStr s)"

section \<open>Metadata keys\<close>

abbreviation "K_KIND \<equiv> ''hub.kind''"
abbreviation "K_AGENT \<equiv> ''hub.agent''"
abbreviation "K_CAPABILITIES \<equiv> ''hub.capabilities''"
abbreviation "K_HARNESS \<equiv> ''hub.harness''"
abbreviation "K_HARNESS_VERSION \<equiv> ''hub.harness_version''"
abbreviation "K_PROVIDER \<equiv> ''hub.provider''"
abbreviation "K_MODEL \<equiv> ''hub.model''"
abbreviation "K_MODEL_SOURCE \<equiv> ''hub.model_source''"
abbreviation "K_DECLARED_MODEL \<equiv> ''hub.declared_model''"
abbreviation "K_WORKSPACE_ID \<equiv> ''hub.workspace_id''"
abbreviation "K_STATUS \<equiv> ''hub.status''"
abbreviation "K_TIMEOUT \<equiv> ''hub.timeout''"
abbreviation "K_TIMEOUT_S \<equiv> ''hub.timeout_s''"
abbreviation "K_RETRY \<equiv> ''hub.retry_as_message_id''"
abbreviation "K_RELEASE \<equiv> ''hub.release''"
abbreviation "K_RESULT \<equiv> ''hub.result''"
abbreviation "K_ROLE \<equiv> ''hub.role''"
abbreviation "K_TITLE \<equiv> ''hub.title''"
abbreviation "K_ASSIGNEE \<equiv> ''hub.assignee''"
abbreviation "K_LEASE_EXPIRES \<equiv> ''hub.lease_expires''"
abbreviation "K_PR_HEAD_SHA \<equiv> ''hub.pr_head_sha''"
abbreviation "K_ARTIFACTS \<equiv> ''hub.artifacts''"
abbreviation "K_STATE \<equiv> ''hub.state''"
abbreviation "K_SENDER \<equiv> ''hub.sender''"
abbreviation "K_TS \<equiv> ''hub.ts''"
abbreviation "K_SCHEMA_VERSION \<equiv> ''hub.schema_version''"
abbreviation "K_OPERATION_ID \<equiv> ''hub.operation_id''"
abbreviation "K_WORKER_INSTANCE_ID \<equiv> ''hub.worker_instance_id''"
abbreviation "K_CURRENT_TASK_ID \<equiv> ''hub.current_task_id''"
abbreviation "K_ACCEPTED \<equiv> ''hub.accepted''"

definition LEGACY_KEY_MAP :: "(string \<times> string) list" where
  "LEGACY_KEY_MAP = [
     (''kind'', K_KIND), (''agent'', K_AGENT), (''capabilities'', K_CAPABILITIES),
     (''status'', K_STATUS), (''timeout'', K_TIMEOUT), (''timeout_s'', K_TIMEOUT_S),
     (''retry_as_message_id'', K_RETRY), (''message_id'', K_RETRY), (''release'', K_RELEASE),
     (''result'', K_RESULT), (''role'', K_ROLE), (''title'', K_TITLE), (''assignee'', K_ASSIGNEE),
     (''lease_expires'', K_LEASE_EXPIRES), (''artifacts'', K_ARTIFACTS), (''state'', K_STATE),
     (''sender'', K_SENDER), (''ts'', K_TS), (''worker_instance_id'', K_WORKER_INSTANCE_ID),
     (''current_task_id'', K_CURRENT_TASK_ID)]"

definition normalize_key :: "string \<Rightarrow> string" where
  "normalize_key k = (case map_of LEGACY_KEY_MAP k of Some k' \<Rightarrow> k'
     | None \<Rightarrow> if \<not> startswith k ''hub.'' then ''hub.'' @ k else k)"

definition normalize_metadata :: "dict \<Rightarrow> dict" where
  "normalize_metadata md = dict_merge [] (map (\<lambda>(k, v). (normalize_key k, v)) md)"

definition normalize_part :: "dict \<Rightarrow> dict" where
  "normalize_part part = (case dict_get ''metadata'' part of
     Some (JObj md) \<Rightarrow> dict_set ''metadata'' (JObj (normalize_metadata md)) part
   | _ \<Rightarrow> part)"

lemma legacy_key_map_entries:
  "list_all (\<lambda>(k, k'). \<not> startswith k ''hub.'' \<and> startswith k' ''hub.'') LEGACY_KEY_MAP"
  by code_simp

lemma legacy_key_map_entry:
  assumes "map_of LEGACY_KEY_MAP k = Some k'"
  shows "\<not> startswith k ''hub.'' \<and> startswith k' ''hub.''"
proof -
  from assms have "(k, k') \<in> set LEGACY_KEY_MAP" by (rule map_of_SomeD)
  with legacy_key_map_entries show ?thesis by (auto simp only: list_all_iff split_beta fst_conv snd_conv)
qed

lemma normalize_key_namespaced: "startswith (normalize_key k) ''hub.''"
proof (cases "map_of LEGACY_KEY_MAP k")
  case None
  then show ?thesis by (simp add: normalize_key_def startswith_def)
next
  case (Some k')
  then show ?thesis using legacy_key_map_entry by (simp add: normalize_key_def)
qed

lemma legacy_keys_not_namespaced: "startswith k ''hub.'' \<Longrightarrow> map_of LEGACY_KEY_MAP k = None"
  using legacy_key_map_entry by (metis not_None_eq)

lemma normalize_key_idem: "startswith k ''hub.'' \<Longrightarrow> normalize_key k = k"
  by (simp add: normalize_key_def legacy_keys_not_namespaced)

definition text_part :: "string \<Rightarrow> dict \<Rightarrow> json" where
  "text_part text metadata = JObj ([(''kind'', JStr ''text''), (''text'', JStr text)] @
     (if metadata \<noteq> [] then [(''metadata'', JObj (normalize_metadata metadata))] else []))"

end
