(* ===== verification/Models.thy ===== *)
theory Models
  imports Json
begin

text \<open>
  \<^verbatim>\<open>models.py\<close>: the closed enumerations with their stored texts, the worker profile, the
  typed results with the validation pydantic performs for them (fields in declaration order,
  then the \<^verbatim>\<open>model_validator\<close>), and the workflow policy rails. A validation error carries the
  location of the first offending field.
\<close>

definition UNKNOWN :: string where
  "UNKNOWN = ''unknown''"

section \<open>Enumerations\<close>

datatype workflow_status = Active | Paused | Done | Escalated

fun workflow_status_value :: "workflow_status \<Rightarrow> string" where
  "workflow_status_value Active = ''active''"
| "workflow_status_value Paused = ''paused''"
| "workflow_status_value Done = ''done''"
| "workflow_status_value Escalated = ''escalated''"

datatype agent_status = Idle | Busy | Released_status | Lost

fun agent_status_value :: "agent_status \<Rightarrow> string" where
  "agent_status_value Idle = ''idle''"
| "agent_status_value Busy = ''busy''"
| "agent_status_value Released_status = ''released''"
| "agent_status_value Lost = ''lost''"

datatype task_state = Submitted | Working | Input_required | Completed | Failed | Canceled

fun task_state_value :: "task_state \<Rightarrow> string" where
  "task_state_value Submitted = ''submitted''"
| "task_state_value Working = ''working''"
| "task_state_value Input_required = ''input-required''"
| "task_state_value Completed = ''completed''"
| "task_state_value Failed = ''failed''"
| "task_state_value Canceled = ''canceled''"

datatype event_kind =
    Agent_checked_in | Task_progress | Task_completed | Task_failed
  | Worker_question | Lease_expired | Agent_lost

fun event_kind_value :: "event_kind \<Rightarrow> string" where
  "event_kind_value Agent_checked_in = ''agent_checked_in''"
| "event_kind_value Task_progress = ''task_progress''"
| "event_kind_value Task_completed = ''task_completed''"
| "event_kind_value Task_failed = ''task_failed''"
| "event_kind_value Worker_question = ''worker_question''"
| "event_kind_value Lease_expired = ''lease_expired''"
| "event_kind_value Agent_lost = ''agent_lost''"

datatype event_state = Queued | Delivered | Acked

datatype task_role = Role_implementer | Role_reviewer | Role_rebase

fun task_role_value :: "task_role \<Rightarrow> string" where
  "task_role_value Role_implementer = ''implementer''"
| "task_role_value Role_reviewer = ''reviewer''"
| "task_role_value Role_rebase = ''rebase''"

datatype implementer_outcome = Outcome_completed | Outcome_blocked | Outcome_failed

fun outcome_value :: "implementer_outcome \<Rightarrow> string" where
  "outcome_value Outcome_completed = ''completed''"
| "outcome_value Outcome_blocked = ''blocked''"
| "outcome_value Outcome_failed = ''failed''"

datatype reviewer_verdict = Approved | Changes_requested | Verdict_blocked | Verdict_failed

fun verdict_value :: "reviewer_verdict \<Rightarrow> string" where
  "verdict_value Approved = ''approved''"
| "verdict_value Changes_requested = ''changes_requested''"
| "verdict_value Verdict_blocked = ''blocked''"
| "verdict_value Verdict_failed = ''failed''"

datatype model_source = Source_declared | Source_env | Source_unknown

fun model_source_value :: "model_source \<Rightarrow> string" where
  "model_source_value Source_declared = ''declared''"
| "model_source_value Source_env = ''env''"
| "model_source_value Source_unknown = ''unknown''"

text \<open>\<^verbatim>\<open>Enum(value)\<close>: the member with that value, among the members in order.\<close>

definition enum_parse :: "('e \<Rightarrow> string) \<Rightarrow> 'e list \<Rightarrow> string \<Rightarrow> 'e option" where
  "enum_parse val members s = find (\<lambda>m. val m = s) members"

definition parse_task_role :: "string \<Rightarrow> task_role option" where
  "parse_task_role = enum_parse task_role_value [Role_implementer, Role_reviewer, Role_rebase]"

definition parse_outcome :: "string \<Rightarrow> implementer_outcome option" where
  "parse_outcome = enum_parse outcome_value [Outcome_completed, Outcome_blocked, Outcome_failed]"

definition parse_verdict :: "string \<Rightarrow> reviewer_verdict option" where
  "parse_verdict =
     enum_parse verdict_value [Approved, Changes_requested, Verdict_blocked, Verdict_failed]"

definition parse_model_source :: "string \<Rightarrow> model_source option" where
  "parse_model_source =
     enum_parse model_source_value [Source_declared, Source_env, Source_unknown]"

lemma enum_parse_sound: "enum_parse val ms s = Some x \<Longrightarrow> val x = s"
  by (auto simp: enum_parse_def dest: find_SomeD)

interpretation role_codec: enum_codec task_role_value parse_task_role
proof
  fix x s
  show "parse_task_role (task_role_value x) = Some x"
    by (cases x) (simp_all add: parse_task_role_def enum_parse_def)
  show "parse_task_role s = Some x \<Longrightarrow> task_role_value x = s"
    by (simp add: parse_task_role_def enum_parse_sound)
qed

interpretation outcome_codec: enum_codec outcome_value parse_outcome
proof
  fix x s
  show "parse_outcome (outcome_value x) = Some x"
    by (cases x) (simp_all add: parse_outcome_def enum_parse_def)
  show "parse_outcome s = Some x \<Longrightarrow> outcome_value x = s"
    by (simp add: parse_outcome_def enum_parse_sound)
qed

interpretation verdict_codec: enum_codec verdict_value parse_verdict
proof
  fix x s
  show "parse_verdict (verdict_value x) = Some x"
    by (cases x) (simp_all add: parse_verdict_def enum_parse_def)
  show "parse_verdict s = Some x \<Longrightarrow> verdict_value x = s"
    by (simp add: parse_verdict_def enum_parse_sound)
qed

interpretation source_codec: enum_codec model_source_value parse_model_source
proof
  fix x s
  show "parse_model_source (model_source_value x) = Some x"
    by (cases x) (simp_all add: parse_model_source_def enum_parse_def)
  show "parse_model_source s = Some x \<Longrightarrow> model_source_value x = s"
    by (simp add: parse_model_source_def enum_parse_sound)
qed

section \<open>Profiles\<close>

record agent_profile =
  harness :: string
  harness_version :: string
  provider :: string
  model :: string
  model_source :: model_source
  capabilities :: "string list"
  workspace_id :: "string option"
  declared_model :: string

definition DEFAULT_PROFILE :: agent_profile where
  "DEFAULT_PROFILE = \<lparr>harness = UNKNOWN, harness_version = UNKNOWN, provider = UNKNOWN,
     model = UNKNOWN, model_source = Source_unknown, capabilities = [], workspace_id = None,
     declared_model = UNKNOWN\<rparr>"

section \<open>Patterns\<close>

definition sha_fullmatch :: "string \<Rightarrow> bool" where
  "sha_fullmatch s = (length s = 40 \<and> list_all is_hex s)"

definition finding_id_ok :: "string \<Rightarrow> bool" where
  "finding_id_ok s = (case s of [] \<Rightarrow> False | c # rest \<Rightarrow> c = CHR ''r'' \<and>
     takeWhile is_digit rest \<noteq> [] \<and>
     (case dropWhile is_digit rest of [] \<Rightarrow> False
      | d # ds \<Rightarrow> d = CHR ''-'' \<and> ds \<noteq> [] \<and> list_all is_digit ds))"

section \<open>Field validators\<close>

datatype validation_error = Field_error "string list" | Validator_error string

definition under :: "string \<Rightarrow> validation_error + 'a \<Rightarrow> validation_error + 'a" where
  "under k r = (case r of Inl (Field_error loc) \<Rightarrow> Inl (Field_error (k # loc)) | _ \<Rightarrow> r)"

definition as_str :: "json \<Rightarrow> validation_error + string" where
  "as_str v = (case v of JStr s \<Rightarrow> Inr s | _ \<Rightarrow> Inl (Field_error []))"

definition as_pattern :: "(string \<Rightarrow> bool) \<Rightarrow> json \<Rightarrow> validation_error + string" where
  "as_pattern p v = (case v of JStr s \<Rightarrow> if p s then Inr s else Inl (Field_error []) | _ \<Rightarrow> Inl (Field_error []))"

definition as_enum :: "(string \<Rightarrow> 'e option) \<Rightarrow> json \<Rightarrow> validation_error + 'e" where
  "as_enum dec v = (case v of JStr s \<Rightarrow> from_option (Field_error []) (dec s) | _ \<Rightarrow> Inl (Field_error []))"

definition as_optional :: "(json \<Rightarrow> validation_error + 'a) \<Rightarrow> json \<Rightarrow> validation_error + 'a option" where
  "as_optional f v = (if v = JNull then Inr None else ebind (f v) (\<lambda>x. Inr (Some x)))"

fun as_items :: "(json \<Rightarrow> validation_error + 'a) \<Rightarrow> nat \<Rightarrow> json list \<Rightarrow> validation_error + 'a list" where
  "as_items f i [] = Inr []"
| "as_items f i (v # vs) =
     ebind (under (show_nat i) (f v)) (\<lambda>x. ebind (as_items f (Suc i) vs) (\<lambda>xs. Inr (x # xs)))"

definition as_list :: "(json \<Rightarrow> validation_error + 'a) \<Rightarrow> json \<Rightarrow> validation_error + 'a list" where
  "as_list f v = (case v of JList vs \<Rightarrow> as_items f 0 vs | _ \<Rightarrow> Inl (Field_error []))"

definition required :: "string \<Rightarrow> (json \<Rightarrow> validation_error + 'a) \<Rightarrow> dict \<Rightarrow> validation_error + 'a" where
  "required k f d = under k (case dict_get k d of None \<Rightarrow> Inl (Field_error []) | Some v \<Rightarrow> f v)"

definition defaulted :: "string \<Rightarrow> 'a \<Rightarrow> (json \<Rightarrow> validation_error + 'a) \<Rightarrow> dict \<Rightarrow> validation_error + 'a" where
  "defaulted k x f d = under k (case dict_get k d of None \<Rightarrow> Inr x | Some v \<Rightarrow> f v)"

lemma under_Inr [simp]: "under k r = Inr x \<longleftrightarrow> r = Inr x"
  by (auto simp: under_def split: sum.splits validation_error.splits)

lemma under_of_Inr [simp]: "under k (Inr x) = Inr x"
  by simp

lemma as_str_Inr [simp]: "as_str v = Inr s \<longleftrightarrow> v = JStr s"
  by (auto simp: as_str_def split: json.splits)

lemma as_pattern_Inr [simp]: "as_pattern p v = Inr s \<longleftrightarrow> v = JStr s \<and> p s"
  by (auto simp: as_pattern_def split: json.splits if_splits)

lemma as_enum_Inr [simp]: "as_enum dec v = Inr x \<longleftrightarrow> (\<exists>s. v = JStr s \<and> dec s = Some x)"
  by (auto simp: as_enum_def split: json.splits)

lemma as_items_map: "(\<And>x. x \<in> set xs \<Longrightarrow> f (enc x) = Inr x) \<Longrightarrow> as_items f i (map enc xs) = Inr xs"
  by (induction xs arbitrary: i) auto

lemma as_items_all:
  "as_items f i vs = Inr xs \<Longrightarrow> (\<And>v x. f v = Inr x \<Longrightarrow> P x) \<Longrightarrow> list_all P xs"
  by (induction vs arbitrary: i xs) auto

section \<open>Typed results\<close>

record test_result =
  command :: string
  t_status :: string

record finding =
  f_id :: string
  f_text :: string

definition as_test :: "json \<Rightarrow> validation_error + test_result" where
  "as_test v = (case v of JObj d \<Rightarrow>
     ebind (required ''command'' as_str d) (\<lambda>c.
     ebind (required ''status'' as_str d) (\<lambda>s. Inr \<lparr>command = c, t_status = s\<rparr>))
   | _ \<Rightarrow> Inl (Field_error []))"

definition as_finding :: "json \<Rightarrow> validation_error + finding" where
  "as_finding v = (case v of JObj d \<Rightarrow>
     ebind (required ''id'' (as_pattern finding_id_ok) d) (\<lambda>i.
     ebind (required ''text'' as_str d) (\<lambda>t. Inr \<lparr>f_id = i, f_text = t\<rparr>))
   | _ \<Rightarrow> Inl (Field_error []))"

record implementer_result =
  i_outcome :: implementer_outcome
  i_pr_url :: "string option"
  i_head_sha :: "string option"
  i_commits :: "string list"
  i_tests :: "test_result list"
  i_blocker :: "string option"
  i_resolved :: "string list option"
  i_disputed :: "string list option"
  i_summary :: string

record reviewer_result =
  r_verdict :: reviewer_verdict
  r_pr_url :: "string option"
  r_review_url :: "string option"
  r_reviewed_head_sha :: "string option"
  r_blocking :: "finding list"
  r_nonblocking :: "finding list"
  r_tests :: "test_result list option"
  r_summary :: string

record rebase_result =
  b_outcome :: implementer_outcome
  b_pr_url :: "string option"
  b_head_sha :: "string option"
  b_conflict_files :: "string list"
  b_resolution_summary :: "string option"
  b_tests :: "test_result list"
  b_blocker :: "string option"
  b_summary :: string

datatype task_result =
    Implementer_result implementer_result
  | Reviewer_result reviewer_result
  | Rebase_result rebase_result

definition validate_completed_implementer :: "implementer_result \<Rightarrow> validation_error + implementer_result" where
  "validate_completed_implementer r =
     (if i_outcome r = Outcome_completed then
        (if (case i_pr_url r of None \<Rightarrow> True | Some u \<Rightarrow> strip u = []) then
           Inl (Validator_error ''completed implementer result requires pr_url'')
         else if (case i_head_sha r of None \<Rightarrow> True | Some h \<Rightarrow> \<not> sha_fullmatch h) then
           Inl (Validator_error ''completed implementer result requires head_sha'')
         else Inr r)
      else Inr r)"

definition implementer_validate :: "dict \<Rightarrow> validation_error + implementer_result" where
  "implementer_validate d =
     ebind (required ''outcome'' (as_enum parse_outcome) d) (\<lambda>oc.
     ebind (defaulted ''pr_url'' None (as_optional as_str) d) (\<lambda>u.
     ebind (defaulted ''head_sha'' None (as_optional (as_pattern sha_fullmatch)) d) (\<lambda>h.
     ebind (defaulted ''commits'' [] (as_list as_str) d) (\<lambda>cs.
     ebind (defaulted ''tests'' [] (as_list as_test) d) (\<lambda>ts.
     ebind (defaulted ''blocker'' None (as_optional as_str) d) (\<lambda>b.
     ebind (defaulted ''resolved_finding_ids'' None (as_optional (as_list as_str)) d) (\<lambda>rs.
     ebind (defaulted ''disputed_finding_ids'' None (as_optional (as_list as_str)) d) (\<lambda>ds.
     ebind (required ''summary'' as_str d) (\<lambda>s.
     validate_completed_implementer
       \<lparr>i_outcome = oc, i_pr_url = u, i_head_sha = h, i_commits = cs, i_tests = ts, i_blocker = b,
        i_resolved = rs, i_disputed = ds, i_summary = s\<rparr>)))))))))"

definition validate_approved :: "reviewer_result \<Rightarrow> validation_error + reviewer_result" where
  "validate_approved r =
     (if r_verdict r = Approved then
        (if (case r_reviewed_head_sha r of None \<Rightarrow> True | Some h \<Rightarrow> \<not> sha_fullmatch h) then
           Inl (Validator_error ''approved reviewer result requires reviewed_head_sha'')
         else if 0 < length (r_blocking r) then
           Inl (Validator_error ''approved reviewer result requires blocking_findings to be empty'')
         else Inr r)
      else Inr r)"

definition reviewer_validate :: "dict \<Rightarrow> validation_error + reviewer_result" where
  "reviewer_validate d =
     ebind (required ''verdict'' (as_enum parse_verdict) d) (\<lambda>v.
     ebind (defaulted ''pr_url'' None (as_optional as_str) d) (\<lambda>u.
     ebind (defaulted ''review_url'' None (as_optional as_str) d) (\<lambda>ru.
     ebind (defaulted ''reviewed_head_sha'' None (as_optional (as_pattern sha_fullmatch)) d) (\<lambda>h.
     ebind (defaulted ''blocking_findings'' [] (as_list as_finding) d) (\<lambda>bf.
     ebind (defaulted ''nonblocking_findings'' [] (as_list as_finding) d) (\<lambda>nf.
     ebind (defaulted ''tests'' None (as_optional (as_list as_test)) d) (\<lambda>ts.
     ebind (required ''summary'' as_str d) (\<lambda>s.
     validate_approved
       \<lparr>r_verdict = v, r_pr_url = u, r_review_url = ru, r_reviewed_head_sha = h, r_blocking = bf,
        r_nonblocking = nf, r_tests = ts, r_summary = s\<rparr>))))))))"

definition validate_completed_rebase :: "rebase_result \<Rightarrow> validation_error + rebase_result" where
  "validate_completed_rebase r =
     (if b_outcome r = Outcome_completed then
        (if (case b_head_sha r of None \<Rightarrow> True | Some h \<Rightarrow> \<not> sha_fullmatch h) then
           Inl (Validator_error ''completed rebase result requires head_sha'')
         else if b_conflict_files r \<noteq> [] \<and>
             (case b_resolution_summary r of None \<Rightarrow> True | Some s \<Rightarrow> strip s = []) then
           Inl (Validator_error ''rebase result with conflict_files requires resolution_summary'')
         else Inr r)
      else Inr r)"

definition rebase_validate :: "dict \<Rightarrow> validation_error + rebase_result" where
  "rebase_validate d =
     ebind (required ''outcome'' (as_enum parse_outcome) d) (\<lambda>oc.
     ebind (defaulted ''pr_url'' None (as_optional as_str) d) (\<lambda>u.
     ebind (defaulted ''head_sha'' None (as_optional (as_pattern sha_fullmatch)) d) (\<lambda>h.
     ebind (defaulted ''conflict_files'' [] (as_list as_str) d) (\<lambda>cf.
     ebind (defaulted ''resolution_summary'' None (as_optional as_str) d) (\<lambda>rs.
     ebind (defaulted ''tests'' [] (as_list as_test) d) (\<lambda>ts.
     ebind (defaulted ''blocker'' None (as_optional as_str) d) (\<lambda>b.
     ebind (required ''summary'' as_str d) (\<lambda>s.
     validate_completed_rebase
       \<lparr>b_outcome = oc, b_pr_url = u, b_head_sha = h, b_conflict_files = cf,
        b_resolution_summary = rs, b_tests = ts, b_blocker = b, b_summary = s\<rparr>))))))))"

subsection \<open>model_dump\<close>

definition strs :: "string list \<Rightarrow> json" where
  "strs xs = JList (map JStr xs)"

definition test_dump :: "test_result \<Rightarrow> json" where
  "test_dump t = JObj [(''command'', JStr (command t)), (''status'', JStr (t_status t))]"

definition finding_dump :: "finding \<Rightarrow> json" where
  "finding_dump f = JObj [(''id'', JStr (f_id f)), (''text'', JStr (f_text f))]"

definition opt_dump :: "('a \<Rightarrow> json) \<Rightarrow> 'a option \<Rightarrow> json" where
  "opt_dump f v = (case v of None \<Rightarrow> JNull | Some x \<Rightarrow> f x)"

definition implementer_dump :: "implementer_result \<Rightarrow> dict" where
  "implementer_dump r = [
     (''outcome'', JStr (outcome_value (i_outcome r))), (''pr_url'', opt_dump JStr (i_pr_url r)),
     (''head_sha'', opt_dump JStr (i_head_sha r)), (''commits'', strs (i_commits r)),
     (''tests'', JList (map test_dump (i_tests r))), (''blocker'', opt_dump JStr (i_blocker r)),
     (''resolved_finding_ids'', opt_dump strs (i_resolved r)),
     (''disputed_finding_ids'', opt_dump strs (i_disputed r)), (''summary'', JStr (i_summary r))]"

definition reviewer_dump :: "reviewer_result \<Rightarrow> dict" where
  "reviewer_dump r = [
     (''verdict'', JStr (verdict_value (r_verdict r))), (''pr_url'', opt_dump JStr (r_pr_url r)),
     (''review_url'', opt_dump JStr (r_review_url r)),
     (''reviewed_head_sha'', opt_dump JStr (r_reviewed_head_sha r)),
     (''blocking_findings'', JList (map finding_dump (r_blocking r))),
     (''nonblocking_findings'', JList (map finding_dump (r_nonblocking r))),
     (''tests'', opt_dump (\<lambda>ts. JList (map test_dump ts)) (r_tests r)),
     (''summary'', JStr (r_summary r))]"

definition rebase_dump :: "rebase_result \<Rightarrow> dict" where
  "rebase_dump r = [
     (''outcome'', JStr (outcome_value (b_outcome r))), (''pr_url'', opt_dump JStr (b_pr_url r)),
     (''head_sha'', opt_dump JStr (b_head_sha r)), (''conflict_files'', strs (b_conflict_files r)),
     (''resolution_summary'', opt_dump JStr (b_resolution_summary r)),
     (''tests'', JList (map test_dump (b_tests r))), (''blocker'', opt_dump JStr (b_blocker r)),
     (''summary'', JStr (b_summary r))]"

definition result_dump :: "task_result \<Rightarrow> dict" where
  "result_dump r = (case r of Implementer_result x \<Rightarrow> implementer_dump x
     | Reviewer_result x \<Rightarrow> reviewer_dump x | Rebase_result x \<Rightarrow> rebase_dump x)"

definition result_summary :: "task_result \<Rightarrow> string" where
  "result_summary r = (case r of Implementer_result x \<Rightarrow> i_summary x
     | Reviewer_result x \<Rightarrow> r_summary x | Rebase_result x \<Rightarrow> b_summary x)"

text \<open>What the validators guarantee of a result object, and that a dump parses back.\<close>

definition implementer_ok :: "implementer_result \<Rightarrow> bool" where
  "implementer_ok r = (pred_option sha_fullmatch (i_head_sha r) \<and>
     (i_outcome r = Outcome_completed \<longrightarrow> i_head_sha r \<noteq> None \<and> (\<exists>u. i_pr_url r = Some u \<and> strip u \<noteq> [])))"

definition reviewer_ok :: "reviewer_result \<Rightarrow> bool" where
  "reviewer_ok r = (pred_option sha_fullmatch (r_reviewed_head_sha r) \<and>
     list_all (\<lambda>f. finding_id_ok (f_id f)) (r_blocking r) \<and>
     list_all (\<lambda>f. finding_id_ok (f_id f)) (r_nonblocking r) \<and>
     (r_verdict r = Approved \<longrightarrow> r_reviewed_head_sha r \<noteq> None \<and> r_blocking r = []))"

definition rebase_ok :: "rebase_result \<Rightarrow> bool" where
  "rebase_ok r = (pred_option sha_fullmatch (b_head_sha r) \<and>
     (b_outcome r = Outcome_completed \<longrightarrow> b_head_sha r \<noteq> None \<and>
        (b_conflict_files r \<noteq> [] \<longrightarrow> (\<exists>s. b_resolution_summary r = Some s \<and> strip s \<noteq> []))))"

definition result_ok :: "task_result \<Rightarrow> bool" where
  "result_ok r = (case r of Implementer_result x \<Rightarrow> implementer_ok x
     | Reviewer_result x \<Rightarrow> reviewer_ok x | Rebase_result x \<Rightarrow> rebase_ok x)"

lemma as_list_strs [simp]: "as_list as_str (strs xs) = Inr xs"
  by (simp add: as_list_def strs_def as_items_map)

lemma as_test_dump [simp]: "as_test (test_dump t) = Inr t"
  by (simp add: as_test_def test_dump_def required_def as_str_def)

lemma as_tests_dump [simp]: "as_list as_test (JList (map test_dump ts)) = Inr ts"
  by (simp add: as_list_def as_items_map)

lemma as_finding_dump: "finding_id_ok (f_id f) \<Longrightarrow> as_finding (finding_dump f) = Inr f"
  by (simp add: as_finding_def finding_dump_def required_def as_str_def as_pattern_def)

lemma as_findings_dump:
  "list_all (\<lambda>f. finding_id_ok (f_id f)) fs \<Longrightarrow>
   as_list as_finding (JList (map finding_dump fs)) = Inr fs"
  by (simp add: as_list_def as_items_map as_finding_dump list_all_iff)

lemma as_optional_dump:
  "(\<And>x. v = Some x \<Longrightarrow> f (enc x) = Inr x \<and> enc x \<noteq> JNull) \<Longrightarrow> as_optional f (opt_dump enc v) = Inr v"
  by (cases v) (auto simp: as_optional_def opt_dump_def)

lemma as_optional_str [simp]: "as_optional as_str (opt_dump JStr v) = Inr v"
  by (rule as_optional_dump) simp

lemma as_optional_sha:
  "pred_option sha_fullmatch v \<Longrightarrow> as_optional (as_pattern sha_fullmatch) (opt_dump JStr v) = Inr v"
  by (rule as_optional_dump) auto

lemma as_optional_strs [simp]: "as_optional (as_list as_str) (opt_dump strs v) = Inr v"
  by (rule as_optional_dump) (simp, simp add: strs_def)

lemma as_optional_tests [simp]:
  "as_optional (as_list as_test) (opt_dump (\<lambda>ts. JList (map test_dump ts)) v) = Inr v"
  by (rule as_optional_dump) simp

lemma as_enum_codec [simp]:
  "as_enum parse_outcome (JStr (outcome_value oc)) = Inr oc"
  "as_enum parse_verdict (JStr (verdict_value v)) = Inr v"
  by (simp_all add: outcome_codec.dec_enc verdict_codec.dec_enc)

lemmas field_simps_model = required_def defaulted_def

lemma implementer_validate_dump:
  "implementer_ok r \<Longrightarrow> implementer_validate (implementer_dump r) = Inr r"
  by (cases r) (auto simp: implementer_validate_def implementer_dump_def field_simps_model
    as_optional_sha implementer_ok_def validate_completed_implementer_def as_str_def)

lemma reviewer_validate_dump:
  "reviewer_ok r \<Longrightarrow> reviewer_validate (reviewer_dump r) = Inr r"
  by (cases r) (auto simp: reviewer_validate_def reviewer_dump_def field_simps_model
    as_optional_sha as_findings_dump reviewer_ok_def validate_approved_def as_str_def)

lemma rebase_validate_dump:
  "rebase_ok r \<Longrightarrow> rebase_validate (rebase_dump r) = Inr r"
  by (cases r) (auto simp: rebase_validate_def rebase_dump_def field_simps_model
    as_optional_sha rebase_ok_def validate_completed_rebase_def as_str_def)

end
