(* ===== verification/Policy.thy ===== *)
theory Policy
  imports Models
begin

text \<open>
  The workflow policy of \<^verbatim>\<open>models.py\<close> (\<^verbatim>\<open>WorkflowPolicy\<close>, \<^verbatim>\<open>RolePolicy\<close>: strict types, unknown
  keys forbidden) and what \<^verbatim>\<open>store._validated_workflow_policy\<close> keeps of it: the supplied keys
  only, in field order.
\<close>

fun is_bool :: "json \<Rightarrow> bool" where
  "is_bool (JBool b) = True"
| "is_bool _ = False"

fun is_pos_int :: "json \<Rightarrow> bool" where
  "is_pos_int (JInt i) = (0 < i)"
| "is_pos_int _ = False"

fun is_pos_number :: "json \<Rightarrow> bool" where
  "is_pos_number (JInt i) = (0 < i)"
| "is_pos_number (JFloat q) = (0 < q)"
| "is_pos_number _ = False"

fun is_str :: "json \<Rightarrow> bool" where
  "is_str (JStr s) = True"
| "is_str _ = False"

fun is_str_list :: "json \<Rightarrow> bool" where
  "is_str_list (JList xs) = list_all is_str xs"
| "is_str_list _ = False"

definition is_merge_method :: "json \<Rightarrow> bool" where
  "is_merge_method v = (v = JStr ''merge'' \<or> v = JStr ''squash'' \<or> v = JStr ''rebase'')"

definition ROLE_POLICY_FIELDS :: "(string \<times> (json \<Rightarrow> bool)) list" where
  "ROLE_POLICY_FIELDS = [
     (''reviewer_harness_differs'', is_bool), (''reviewer_provider_differs'', is_bool),
     (''implementer_capabilities'', is_str_list), (''reviewer_capabilities'', is_str_list)]"

text \<open>The locations pydantic reports: bad supplied fields in field order, then forbidden keys.\<close>

definition field_errors :: "(string \<times> (json \<Rightarrow> bool)) list \<Rightarrow> dict \<Rightarrow> string list" where
  "field_errors fds d =
     [k. (k, ok) \<leftarrow> fds, case dict_get k d of None \<Rightarrow> False | Some v \<Rightarrow> \<not> ok v] @
     [k. (k, v) \<leftarrow> d, k \<notin> fst ` set fds]"

fun role_policy_ok :: "json \<Rightarrow> bool" where
  "role_policy_ok (JObj d) = (field_errors ROLE_POLICY_FIELDS d = [])"
| "role_policy_ok _ = False"

definition POLICY_FIELDS :: "(string \<times> (json \<Rightarrow> bool)) list" where
  "POLICY_FIELDS = [
     (''max_review_rounds'', is_pos_int), (''merge_method'', is_merge_method),
     (''allow_no_ci'', is_bool), (''role_policy'', role_policy_ok),
     (''pairing_wait_s'', is_pos_number), (''max_wall_minutes'', is_pos_number),
     (''max_task_lease_min'', is_pos_number)]"

text \<open>\<^verbatim>\<open>model_dump(exclude_unset=True)\<close>: the supplied fields in declaration order.\<close>

definition supplied :: "(string \<times> (json \<Rightarrow> bool)) list \<Rightarrow> dict \<Rightarrow> dict" where
  "supplied fds d =
     [(k, v). (k, ok) \<leftarrow> fds, v \<leftarrow> (case dict_get k d of None \<Rightarrow> [] | Some v \<Rightarrow> [v])]"

definition dump_field :: "string \<times> json \<Rightarrow> string \<times> json" where
  "dump_field kv = (case kv of (k, v) \<Rightarrow>
     (k, case v of JObj d \<Rightarrow> JObj (supplied ROLE_POLICY_FIELDS d) | _ \<Rightarrow> v))"

definition validated_workflow_policy :: "dict option \<Rightarrow> string list + dict" where
  "validated_workflow_policy policy = (let d = (case policy of None \<Rightarrow> [] | Some d \<Rightarrow> d) in
     case field_errors POLICY_FIELDS d of
       [] \<Rightarrow> Inr (map dump_field (supplied POLICY_FIELDS d))
     | errs \<Rightarrow> Inl errs)"

definition DEFAULT_MAX_TASK_LEASE_MIN :: rat where
  "DEFAULT_MAX_TASK_LEASE_MIN = 120"

text \<open>The rail \<^verbatim>\<open>max_task_lease_min\<close> as \<^verbatim>\<open>_max_task_lease_min\<close> reads it from a stored policy.\<close>

definition policy_lease_min :: "dict \<Rightarrow> rat" where
  "policy_lease_min policy = (case dict_get ''max_task_lease_min'' policy of
     Some (JInt i) \<Rightarrow> if 0 < i then of_int i else DEFAULT_MAX_TASK_LEASE_MIN
   | Some (JFloat q) \<Rightarrow> if 0 < q then q else DEFAULT_MAX_TASK_LEASE_MIN
   | _ \<Rightarrow> DEFAULT_MAX_TASK_LEASE_MIN)"

lemma policy_lease_min_pos [simp]: "0 < policy_lease_min p"
  by (auto simp: policy_lease_min_def DEFAULT_MAX_TASK_LEASE_MIN_def split: option.splits json.splits)

lemma validated_policy_ok:
  assumes "validated_workflow_policy policy = Inr d"
  shows "\<exists>d0. field_errors POLICY_FIELDS d0 = [] \<and> d = map dump_field (supplied POLICY_FIELDS d0)"
  using assms by (auto simp: validated_workflow_policy_def Let_def split: list.splits)

end
