(* ===== verification/Tables.thy ===== *)
theory Tables
  imports Policy
begin

text \<open>
  The durable state: the rows of the tables of \<^verbatim>\<open>database.SCHEMA\<close>, the \<^verbatim>\<open>AUTOINCREMENT\<close>
  counters of \<^verbatim>\<open>sqlite_sequence\<close>, lookups by primary key and single-row updates. A table is the
  list of its rows in insertion order. The rows double as the frozen records of \<^verbatim>\<open>store.py\<close>
  (\<^verbatim>\<open>AgentRecord\<close>, \<^verbatim>\<open>TaskRecord\<close>, ...); columns that hold JSON text hold the decoded value.
\<close>

record workflow_row =
  w_id :: string
  w_goal :: string
  w_status :: workflow_status
  w_policy :: dict
  w_created :: iso

record agent_row =
  a_name :: string
  a_profile :: agent_profile
  a_status :: agent_status
  a_context_id :: string
  a_last_seen :: iso
  a_instance :: string
  a_last_heartbeat :: iso
  a_last_progress_at :: "iso option"
  a_current_task :: "string option"
  a_checkin_addr :: "string option"
  a_last_addr :: "string option"

record task_row =
  t_id :: string
  t_workflow :: string
  t_assignee :: "string option"
  t_role :: string
  t_title :: string
  t_instructions :: string
  t_state :: task_state
  t_lease_expires :: "iso option"
  t_lease_duration_s :: rat
  t_result :: "dict option"
  t_created :: iso
  t_updated :: iso
  t_pr_head_sha :: "string option"
  t_source_event :: "nat option"

datatype direction = To_alice | From_alice

record message_row =
  m_id :: nat
  m_task :: "string option"
  m_context :: string
  m_sender :: string
  m_direction :: direction
  m_parts :: "json list"
  m_ts :: iso

record event_row =
  e_id :: nat
  e_kind :: event_kind
  e_payload :: dict
  e_ts :: iso
  e_state :: event_state
  e_delivery_id :: "string option"
  e_attempts :: nat
  e_delivered_at :: "iso option"
  e_delivery_expires :: "iso option"
  e_acked_at :: "iso option"

record decision_row =
  d_id :: nat
  d_ts :: iso
  d_summary :: string
  d_rationale :: string
  d_key :: "string option"

record operation_row =
  o_actor :: string
  o_operation_id :: string
  o_payload_hash :: string
  o_response :: string
  o_created :: iso

record hub_db =
  workflows :: "workflow_row list"
  agents :: "agent_row list"
  tasks :: "task_row list"
  messages :: "message_row list"
  events :: "event_row list"
  decisions :: "decision_row list"
  operations :: "operation_row list"
  message_seq :: nat
  event_seq :: nat
  decision_seq :: nat

definition empty_db :: hub_db where
  "empty_db = \<lparr>workflows = [], agents = [], tasks = [], messages = [], events = [], decisions = [],
     operations = [], message_seq = 0, event_seq = 0, decision_seq = 0\<rparr>"

section \<open>Lookups and updates\<close>

definition agent_of :: "hub_db \<Rightarrow> string \<Rightarrow> agent_row option" where
  "agent_of db n = find (\<lambda>a. a_name a = n) (agents db)"

definition ins_agent :: "agent_row \<Rightarrow> hub_db \<Rightarrow> hub_db" where
  "ins_agent a db = db\<lparr>agents := agents db @ [a]\<rparr>"

definition upd_agent :: "string \<Rightarrow> (agent_row \<Rightarrow> agent_row) \<Rightarrow> hub_db \<Rightarrow> hub_db" where
  "upd_agent n f db = db\<lparr>agents := update_where (\<lambda>a. a_name a = n) f (agents db)\<rparr>"

definition task_of :: "hub_db \<Rightarrow> string \<Rightarrow> task_row option" where
  "task_of db i = find (\<lambda>t. t_id t = i) (tasks db)"

definition ins_task :: "task_row \<Rightarrow> hub_db \<Rightarrow> hub_db" where
  "ins_task t db = db\<lparr>tasks := tasks db @ [t]\<rparr>"

definition upd_task :: "string \<Rightarrow> (task_row \<Rightarrow> task_row) \<Rightarrow> hub_db \<Rightarrow> hub_db" where
  "upd_task i f db = db\<lparr>tasks := update_where (\<lambda>t. t_id t = i) f (tasks db)\<rparr>"

definition event_of :: "hub_db \<Rightarrow> nat \<Rightarrow> event_row option" where
  "event_of db i = find (\<lambda>v. e_id v = i) (events db)"

definition ins_event :: "event_row \<Rightarrow> hub_db \<Rightarrow> hub_db" where
  "ins_event v db = db\<lparr>events := events db @ [v]\<rparr>"

definition upd_event :: "nat \<Rightarrow> (event_row \<Rightarrow> event_row) \<Rightarrow> hub_db \<Rightarrow> hub_db" where
  "upd_event i f db = db\<lparr>events := update_where (\<lambda>v. e_id v = i) f (events db)\<rparr>"

definition operation_of :: "hub_db \<Rightarrow> string \<Rightarrow> string \<Rightarrow> operation_row option" where
  "operation_of db actor op = find (\<lambda>r. o_actor r = actor \<and> o_operation_id r = op) (operations db)"

definition workflow_row_of :: "hub_db \<Rightarrow> workflow_row option" where
  "workflow_row_of db = first_by w_created (\<lambda>_. True) (workflows db)"

lemma find_Cons_append: "find P (xs @ [x]) = (case find P xs of Some y \<Rightarrow> Some y | None \<Rightarrow> if P x then Some x else None)"
  by (simp add: find_append split: option.splits)

interpretation agent_tbl: keyed_table agent_of ins_agent upd_agent a_name
proof
  show "a_name r = k" if "agent_of d k = Some r" for d k r
    using that by (auto simp: agent_of_def dest: find_SomeD)
  show "agent_of (ins_agent r d) k = (case agent_of d k of Some x \<Rightarrow> Some x
      | None \<Rightarrow> if a_name r = k then Some r else None)" for r d k
    by (simp add: agent_of_def ins_agent_def find_Cons_append)
  show "agent_of (upd_agent k f d) k' = (if k' = k then map_option f (agent_of d k') else agent_of d k')"
    if "\<And>r. a_name (f r) = a_name r" for f k k' d
    using find_update_where_key [of a_name f k' "\<lambda>a. a_name a = k" "agents d"] that
    by (cases "find (\<lambda>a. a_name a = k') (agents d)")
      (auto simp: agent_of_def upd_agent_def dest: find_SomeD)
qed

interpretation task_tbl: keyed_table task_of ins_task upd_task t_id
proof
  show "t_id r = k" if "task_of d k = Some r" for d k r
    using that by (auto simp: task_of_def dest: find_SomeD)
  show "task_of (ins_task r d) k = (case task_of d k of Some x \<Rightarrow> Some x
      | None \<Rightarrow> if t_id r = k then Some r else None)" for r d k
    by (simp add: task_of_def ins_task_def find_Cons_append)
  show "task_of (upd_task k f d) k' = (if k' = k then map_option f (task_of d k') else task_of d k')"
    if "\<And>r. t_id (f r) = t_id r" for f k k' d
    using find_update_where_key [of t_id f k' "\<lambda>a. t_id a = k" "tasks d"] that
    by (cases "find (\<lambda>a. t_id a = k') (tasks d)")
      (auto simp: task_of_def upd_task_def dest: find_SomeD)
qed

interpretation event_tbl: keyed_table event_of ins_event upd_event e_id
proof
  show "e_id r = k" if "event_of d k = Some r" for d k r
    using that by (auto simp: event_of_def dest: find_SomeD)
  show "event_of (ins_event r d) k = (case event_of d k of Some x \<Rightarrow> Some x
      | None \<Rightarrow> if e_id r = k then Some r else None)" for r d k
    by (simp add: event_of_def ins_event_def find_Cons_append)
  show "event_of (upd_event k f d) k' = (if k' = k then map_option f (event_of d k') else event_of d k')"
    if "\<And>r. e_id (f r) = e_id r" for f k k' d
    using find_update_where_key [of e_id f k' "\<lambda>a. e_id a = k" "events d"] that
    by (cases "find (\<lambda>a. e_id a = k') (events d)")
      (auto simp: event_of_def upd_event_def dest: find_SomeD)
qed

lemma agent_of_name: "agent_of db n = Some a \<Longrightarrow> a_name a = n"
  by (rule agent_tbl.get_key)

lemma task_of_id: "task_of db i = Some t \<Longrightarrow> t_id t = i"
  by (rule task_tbl.get_key)

lemma agent_of_mem: "agent_of db n = Some a \<Longrightarrow> a \<in> set (agents db)"
  by (auto simp: agent_of_def dest: find_SomeD)

lemma task_of_mem: "task_of db i = Some t \<Longrightarrow> t \<in> set (tasks db)"
  by (auto simp: task_of_def dest: find_SomeD)

section \<open>Frames: what the table operations leave alone\<close>

lemma agent_frames [frame_simps, simp]:
  "workflows (ins_agent a db) = workflows db" "tasks (ins_agent a db) = tasks db"
  "messages (ins_agent a db) = messages db" "events (ins_agent a db) = events db"
  "decisions (ins_agent a db) = decisions db" "operations (ins_agent a db) = operations db"
  "message_seq (ins_agent a db) = message_seq db" "event_seq (ins_agent a db) = event_seq db"
  "decision_seq (ins_agent a db) = decision_seq db"
  "workflows (upd_agent n f db) = workflows db" "tasks (upd_agent n f db) = tasks db"
  "messages (upd_agent n f db) = messages db" "events (upd_agent n f db) = events db"
  "decisions (upd_agent n f db) = decisions db" "operations (upd_agent n f db) = operations db"
  "message_seq (upd_agent n f db) = message_seq db" "event_seq (upd_agent n f db) = event_seq db"
  "decision_seq (upd_agent n f db) = decision_seq db"
  by (simp_all add: ins_agent_def upd_agent_def)

lemma task_frames [frame_simps, simp]:
  "workflows (ins_task t db) = workflows db" "agents (ins_task t db) = agents db"
  "messages (ins_task t db) = messages db" "events (ins_task t db) = events db"
  "decisions (ins_task t db) = decisions db" "operations (ins_task t db) = operations db"
  "message_seq (ins_task t db) = message_seq db" "event_seq (ins_task t db) = event_seq db"
  "decision_seq (ins_task t db) = decision_seq db"
  "workflows (upd_task i g db) = workflows db" "agents (upd_task i g db) = agents db"
  "messages (upd_task i g db) = messages db" "events (upd_task i g db) = events db"
  "decisions (upd_task i g db) = decisions db" "operations (upd_task i g db) = operations db"
  "message_seq (upd_task i g db) = message_seq db" "event_seq (upd_task i g db) = event_seq db"
  "decision_seq (upd_task i g db) = decision_seq db"
  by (simp_all add: ins_task_def upd_task_def)

lemma event_frames [frame_simps, simp]:
  "workflows (ins_event v db) = workflows db" "agents (ins_event v db) = agents db"
  "tasks (ins_event v db) = tasks db" "messages (ins_event v db) = messages db"
  "decisions (ins_event v db) = decisions db" "operations (ins_event v db) = operations db"
  "message_seq (ins_event v db) = message_seq db" "event_seq (ins_event v db) = event_seq db"
  "decision_seq (ins_event v db) = decision_seq db"
  "workflows (upd_event i h db) = workflows db" "agents (upd_event i h db) = agents db"
  "tasks (upd_event i h db) = tasks db" "messages (upd_event i h db) = messages db"
  "decisions (upd_event i h db) = decisions db" "operations (upd_event i h db) = operations db"
  "message_seq (upd_event i h db) = message_seq db" "event_seq (upd_event i h db) = event_seq db"
  "decision_seq (upd_event i h db) = decision_seq db"
  by (simp_all add: ins_event_def upd_event_def)

lemma lookup_cong:
  "agents d = agents db \<Longrightarrow> agent_of d = agent_of db"
  "tasks d = tasks db \<Longrightarrow> task_of d = task_of db"
  "events d = events db \<Longrightarrow> event_of d = event_of db"
  "operations d = operations db \<Longrightarrow> operation_of d = operation_of db"
  "workflows d = workflows db \<Longrightarrow> workflow_row_of d = workflow_row_of db"
  by (auto simp: agent_of_def task_of_def event_of_def operation_of_def workflow_row_of_def fun_eq_iff)

lemma lookup_frames [frame_simps, simp]:
  "task_of (ins_agent a db) = task_of db" "task_of (upd_agent n f db) = task_of db"
  "task_of (ins_event v db) = task_of db" "task_of (upd_event j h db) = task_of db"
  "agent_of (ins_task t db) = agent_of db" "agent_of (upd_task i g db) = agent_of db"
  "agent_of (ins_event v db) = agent_of db" "agent_of (upd_event j h db) = agent_of db"
  "operation_of (ins_agent a db) = operation_of db" "operation_of (upd_agent n f db) = operation_of db"
  "operation_of (ins_task t db) = operation_of db" "operation_of (upd_task i g db) = operation_of db"
  "operation_of (ins_event v db) = operation_of db" "operation_of (upd_event j h db) = operation_of db"
  by (auto intro!: lookup_cong)

end
