(* ===== verification/StoreCore.thy ===== *)
theory StoreCore
  imports Tables
begin

text \<open>
  The private helpers of \<^verbatim>\<open>store.HubStore\<close>, which every operation composes. An operation runs
  in one \<^verbatim>\<open>with database(path)\<close> block: an exception rolls the block back, so a refusal
  \<open>Inl err\<close> carries no new state, and a success carries the new database and the wakeup
  keys notified after the commit. The argument \<open>n\<close> of a helper is the number of the clock
  reading it takes within the operation.
\<close>

datatype store_error =
    Not_found string
  | Conflict string
  | Idempotency_conflict string
  | Duplicate_agent string
  | Payload_too_large string
  | Invalid_policy "string list"
  | Value_error string
  | Invalid_result validation_error
  | Integrity_error string

type_synonym 'a outcome = "store_error + ('a \<times> hub_db \<times> string list)"

definition DEFAULT_LEASE_MIN :: rat where
  "DEFAULT_LEASE_MIN = 30"

definition MAX_MESSAGE_PART_BYTES :: nat where
  "MAX_MESSAGE_PART_BYTES = 16 * 1024"

definition MAX_TYPED_RESULT_BYTES :: nat where
  "MAX_TYPED_RESULT_BYTES = 32 * 1024"

text \<open>The caps as integers, for evaluation.\<close>

lemma max_typed_code [code_unfold]:
  "MAX_TYPED_RESULT_BYTES < n \<longleftrightarrow> (32768 :: int) < int n" "n \<le> MAX_TYPED_RESULT_BYTES \<longleftrightarrow> int n \<le> 32768"
  by (simp_all add: MAX_TYPED_RESULT_BYTES_def)

lemma max_part_code [code_unfold]:
  "MAX_MESSAGE_PART_BYTES < n \<longleftrightarrow> (16384 :: int) < int n" "n \<le> MAX_MESSAGE_PART_BYTES \<longleftrightarrow> int n \<le> 16384"
  by (simp_all add: MAX_MESSAGE_PART_BYTES_def)

definition context_key :: "string \<Rightarrow> string" where
  "context_key c = ''context:'' @ c"

definition task_key :: "string \<Rightarrow> string" where
  "task_key t = ''task:'' @ t"

definition EVENT_KEY :: string where
  "EVENT_KEY = ''events''"

definition TERMINAL_STATES :: "task_state list" where
  "TERMINAL_STATES = [Completed, Failed, Canceled]"

definition OPEN_STATES :: "task_state list" where
  "OPEN_STATES = [Submitted, Working, Input_required]"

definition terminal :: "task_state \<Rightarrow> bool" where
  "terminal s = (s \<in> set TERMINAL_STATES)"

lemma terminal_iff: "terminal s \<longleftrightarrow> s = Completed \<or> s = Failed \<or> s = Canceled"
  by (simp add: terminal_def TERMINAL_STATES_def)

lemma open_iff: "s \<in> set OPEN_STATES \<longleftrightarrow> \<not> terminal s"
  by (cases s) (simp_all add: OPEN_STATES_def terminal_iff)

lemma terminal_simps [simp]:
  "terminal Completed" "terminal Failed" "terminal Canceled"
  "\<not> terminal Submitted" "\<not> terminal Working" "\<not> terminal Input_required"
  by (simp_all add: terminal_iff)

lemma wakeup_keys_distinct:
  "context_key c \<noteq> task_key t" "context_key c \<noteq> EVENT_KEY" "task_key t \<noteq> EVENT_KEY"
  by (simp_all add: context_key_def task_key_def EVENT_KEY_def)

section \<open>Required rows\<close>

definition require_workflow :: "hub_db \<Rightarrow> string \<Rightarrow> store_error + string" where
  "require_workflow db operation = (case workflow_row_of db of
     None \<Rightarrow> Inl (Conflict (''workflow is not initialized; call initialize_workflow(goal, policy) before ''
       @ operation))
   | Some w \<Rightarrow> Inr (w_id w))"

definition require_agent :: "hub_db \<Rightarrow> string \<Rightarrow> store_error + agent_row" where
  "require_agent db n = from_option (Not_found (''unknown agent: '' @ n)) (agent_of db n)"

definition require_task :: "hub_db \<Rightarrow> string \<Rightarrow> store_error + task_row" where
  "require_task db i = from_option (Not_found (''unknown task: '' @ i)) (task_of db i)"

definition require_open_task :: "hub_db \<Rightarrow> string \<Rightarrow> store_error + task_row" where
  "require_open_task db i = ebind (require_task db i) (\<lambda>t.
     if terminal (t_state t) then
       Inl (Conflict (''task '' @ i @ '' is already '' @ task_state_value (t_state t)))
     else Inr t)"

definition open_task_id :: "hub_db \<Rightarrow> string option \<Rightarrow> string option" where
  "open_task_id db tid = (case tid of None \<Rightarrow> None | Some i \<Rightarrow>
     (case task_of db i of None \<Rightarrow> None
      | Some t \<Rightarrow> if terminal (t_state t) then None else Some i))"

definition task_context_id :: "hub_db \<Rightarrow> task_row \<Rightarrow> store_error + string" where
  "task_context_id db t = (case t_assignee t of None \<Rightarrow> Inr []
     | Some n \<Rightarrow> ebind (require_agent db n) (\<lambda>a. Inr (a_context_id a)))"

definition max_task_lease_min :: "hub_db \<Rightarrow> string \<Rightarrow> rat" where
  "max_task_lease_min db wid = (case find (\<lambda>w. w_id w = wid) (workflows db) of
     None \<Rightarrow> DEFAULT_MAX_TASK_LEASE_MIN
   | Some w \<Rightarrow> policy_lease_min (w_policy w))"

section \<open>Transcript, events and task transitions\<close>

fun check_parts :: "env \<Rightarrow> nat \<Rightarrow> json list \<Rightarrow> store_error + unit" where
  "check_parts e i [] = Inr ()"
| "check_parts e i (p # ps) =
     (if MAX_MESSAGE_PART_BYTES < json_size_bytes e p then
        Inl (Payload_too_large (''message part '' @ show_nat i @ '' is '' @
          show_nat (json_size_bytes e p) @ '' bytes; maximum is '' @
          show_nat MAX_MESSAGE_PART_BYTES @ '' bytes. Store work product in GitHub and '' @
          ''send a URL or compact reference instead.''))
      else check_parts e (Suc i) ps)"

definition add_message ::
  "env \<Rightarrow> nat \<Rightarrow> hub_db \<Rightarrow> string option \<Rightarrow> string \<Rightarrow> string \<Rightarrow> direction \<Rightarrow> json list
   \<Rightarrow> store_error + (nat \<times> hub_db)" where
  "add_message e n db tid ctx sender dir parts =
     ebind (check_parts e 1 parts) (\<lambda>_.
       let i = Suc (message_seq db) in
       Inr (i, db\<lparr>messages := messages db @ [\<lparr>m_id = i, m_task = tid, m_context = ctx,
             m_sender = sender, m_direction = dir, m_parts = parts, m_ts = now_iso e n\<rparr>],
           message_seq := i\<rparr>))"

definition add_event ::
  "env \<Rightarrow> nat \<Rightarrow> hub_db \<Rightarrow> event_kind \<Rightarrow> dict \<Rightarrow> nat \<times> hub_db" where
  "add_event e n db kind payload =
     (let i = Suc (event_seq db) in
      (i, (ins_event \<lparr>e_id = i, e_kind = kind, e_payload = payload, e_ts = now_iso e n,
             e_state = Queued, e_delivery_id = None, e_attempts = 0, e_delivered_at = None,
             e_delivery_expires = None, e_acked_at = None\<rparr> db)\<lparr>event_seq := i\<rparr>))"

definition set_state :: "env \<Rightarrow> nat \<Rightarrow> hub_db \<Rightarrow> string \<Rightarrow> task_state \<Rightarrow> hub_db" where
  "set_state e n db i st = upd_task i (\<lambda>t. t\<lparr>t_state := st, t_updated := now_iso e n\<rparr>) db"

definition finish :: "env \<Rightarrow> nat \<Rightarrow> hub_db \<Rightarrow> string \<Rightarrow> task_state \<Rightarrow> dict option \<Rightarrow> hub_db" where
  "finish e n db i st payload =
     (let db1 = upd_task i (\<lambda>t. t\<lparr>t_state := st, t_updated := now_iso e n,
                  t_lease_expires := None, t_result := payload\<rparr>) db
      in db1\<lparr>agents := update_where (\<lambda>a. a_current_task a = Some i)
           (\<lambda>a. a\<lparr>a_status := (if a_status a = Busy then Idle else a_status a),
                  a_current_task := None\<rparr>) (agents db1)\<rparr>)"

definition record_progress_at :: "env \<Rightarrow> nat \<Rightarrow> hub_db \<Rightarrow> string \<Rightarrow> hub_db" where
  "record_progress_at e n db name =
     upd_agent name (\<lambda>a. a\<lparr>a_last_progress_at := Some (now_iso e n)\<rparr>) db"

text \<open>\<^verbatim>\<open>INSERT INTO operation\<close>; \<open>(actor, operation_id)\<close> is the primary key.\<close>

definition ins_operation :: "env \<Rightarrow> nat \<Rightarrow> hub_db \<Rightarrow> string \<Rightarrow> string \<Rightarrow> string \<Rightarrow> string \<Rightarrow> hub_db" where
  "ins_operation e n db actor op hash resp =
     db\<lparr>operations := operations db @ [\<lparr>o_actor = actor, o_operation_id = op,
        o_payload_hash = hash, o_response = resp, o_created = now_iso e n\<rparr>]\<rparr>"

text \<open>The idempotency check at the head of the three worker mutations.\<close>

definition replayed ::
  "hub_db \<Rightarrow> string \<Rightarrow> string option \<Rightarrow> string option \<Rightarrow> store_error + string option" where
  "replayed db actor op hash = (case (op, hash) of
     (Some i, Some h) \<Rightarrow> (case operation_of db actor i of
         None \<Rightarrow> Inr None
       | Some r \<Rightarrow> if o_payload_hash r \<noteq> h then
           Inl (Idempotency_conflict (''operation '' @ i @ '' already executed with different payload''))
         else Inr (Some (o_response r)))
   | _ \<Rightarrow> Inr None)"

text \<open>What an idempotent mutation returns: the bare record, or a pair with the freshness flag.\<close>

datatype 'r reply = Bare 'r | Pair_json string bool | Pair_obj 'r bool

definition record_reply ::
  "env \<Rightarrow> nat \<Rightarrow> hub_db \<Rightarrow> string \<Rightarrow> string option \<Rightarrow> string option \<Rightarrow> ('r \<Rightarrow> string) option \<Rightarrow> 'r
   \<Rightarrow> 'r reply \<times> hub_db" where
  "record_reply e n db actor op hash builder r = (case (op, hash, builder) of
     (Some i, Some h, Some build) \<Rightarrow>
       (Pair_json (build r) True, ins_operation e n db actor i h (build r))
   | (None, _, _) \<Rightarrow> (Bare r, db)
   | _ \<Rightarrow> (Pair_obj r True, db))"

section \<open>Their effects\<close>

lemma require_agent_Inr [simp]: "require_agent db n = Inr a \<longleftrightarrow> agent_of db n = Some a"
  by (simp add: require_agent_def)

lemma require_task_Inr [simp]: "require_task db i = Inr t \<longleftrightarrow> task_of db i = Some t"
  by (simp add: require_task_def)

lemma require_open_task_Inr [simp]:
  "require_open_task db i = Inr t \<longleftrightarrow> task_of db i = Some t \<and> \<not> terminal (t_state t)"
  by (auto simp: require_open_task_def)

lemma open_task_id_Some [simp]:
  "open_task_id db tid = Some i \<longleftrightarrow>
   tid = Some i \<and> (\<exists>t. task_of db i = Some t \<and> \<not> terminal (t_state t))"
  by (auto simp: open_task_id_def split: option.splits)

lemma check_parts_Inr:
  "check_parts e i ps = Inr u \<longleftrightarrow> list_all (\<lambda>p. json_size_bytes e p \<le> MAX_MESSAGE_PART_BYTES) ps"
  by (induction ps arbitrary: i) auto

lemma add_message_Inr:
  "add_message e n db tid ctx sender dir parts = Inr (i, db') \<longleftrightarrow>
   list_all (\<lambda>p. json_size_bytes e p \<le> MAX_MESSAGE_PART_BYTES) parts \<and> i = Suc (message_seq db) \<and>
   db' = db\<lparr>messages := messages db @ [\<lparr>m_id = i, m_task = tid, m_context = ctx, m_sender = sender,
       m_direction = dir, m_parts = parts, m_ts = now_iso e n\<rparr>], message_seq := i\<rparr>"
  by (auto simp: add_message_def check_parts_Inr Let_def)

lemma add_message_frames:
  assumes "add_message e n db tid ctx sender dir parts = Inr (i, db')"
  shows "workflows db' = workflows db" "agents db' = agents db" "tasks db' = tasks db"
    "events db' = events db" "decisions db' = decisions db" "operations db' = operations db"
    "event_seq db' = event_seq db" "decision_seq db' = decision_seq db"
    "agent_of db' = agent_of db" "task_of db' = task_of db" "event_of db' = event_of db"
    "operation_of db' = operation_of db" "workflow_row_of db' = workflow_row_of db"
  using assms by (auto simp: add_message_Inr intro!: lookup_cong)

lemma messages_record_frames [frame_simps, simp]:
  "agent_of (db\<lparr>messages := ms, message_seq := i\<rparr>) = agent_of db"
  "task_of (db\<lparr>messages := ms, message_seq := i\<rparr>) = task_of db"
  "event_of (db\<lparr>messages := ms, message_seq := i\<rparr>) = event_of db"
  "operation_of (db\<lparr>messages := ms, message_seq := i\<rparr>) = operation_of db"
  by (auto intro!: lookup_cong)

lemma add_event_frames [frame_simps, simp]:
  "workflows (snd (add_event e n db k p)) = workflows db"
  "agents (snd (add_event e n db k p)) = agents db"
  "tasks (snd (add_event e n db k p)) = tasks db"
  "messages (snd (add_event e n db k p)) = messages db"
  "decisions (snd (add_event e n db k p)) = decisions db"
  "operations (snd (add_event e n db k p)) = operations db"
  "message_seq (snd (add_event e n db k p)) = message_seq db"
  "decision_seq (snd (add_event e n db k p)) = decision_seq db"
  "agent_of (snd (add_event e n db k p)) = agent_of db"
  "task_of (snd (add_event e n db k p)) = task_of db"
  "operation_of (snd (add_event e n db k p)) = operation_of db"
  "workflow_row_of (snd (add_event e n db k p)) = workflow_row_of db"
  by (auto simp: add_event_def Let_def ins_event_def intro!: lookup_cong)

lemma add_event_effect [simp]:
  "fst (add_event e n db k p) = Suc (event_seq db)"
  "event_seq (snd (add_event e n db k p)) = Suc (event_seq db)"
  "events (snd (add_event e n db k p)) = events db @ [\<lparr>e_id = Suc (event_seq db), e_kind = k,
     e_payload = p, e_ts = now_iso e n, e_state = Queued, e_delivery_id = None, e_attempts = 0,
     e_delivered_at = None, e_delivery_expires = None, e_acked_at = None\<rparr>]"
  by (simp_all add: add_event_def Let_def ins_event_def)

lemma set_state_effect [simp]:
  "task_of (set_state e n db i st) j =
   (if j = i then map_option (\<lambda>t. t\<lparr>t_state := st, t_updated := now_iso e n\<rparr>) (task_of db j)
    else task_of db j)"
  by (simp add: set_state_def task_tbl.get_upd)

lemma set_state_frames [frame_simps, simp]:
  "workflows (set_state e n db i st) = workflows db" "agents (set_state e n db i st) = agents db"
  "messages (set_state e n db i st) = messages db" "events (set_state e n db i st) = events db"
  "decisions (set_state e n db i st) = decisions db"
  "operations (set_state e n db i st) = operations db"
  "message_seq (set_state e n db i st) = message_seq db"
  "event_seq (set_state e n db i st) = event_seq db"
  "decision_seq (set_state e n db i st) = decision_seq db"
  "agent_of (set_state e n db i st) = agent_of db"
  "operation_of (set_state e n db i st) = operation_of db"
  by (simp_all add: set_state_def)

lemma finish_frames [frame_simps, simp]:
  "workflows (finish e n db i st p) = workflows db"
  "messages (finish e n db i st p) = messages db" "events (finish e n db i st p) = events db"
  "decisions (finish e n db i st p) = decisions db"
  "operations (finish e n db i st p) = operations db"
  "message_seq (finish e n db i st p) = message_seq db"
  "event_seq (finish e n db i st p) = event_seq db"
  "decision_seq (finish e n db i st p) = decision_seq db"
  "operation_of (finish e n db i st p) = operation_of db"
  by (auto simp: finish_def Let_def intro!: lookup_cong)

lemma finish_task_of [simp]:
  "task_of (finish e n db i st p) j =
   (if j = i then map_option (\<lambda>t. t\<lparr>t_state := st, t_updated := now_iso e n, t_lease_expires := None,
        t_result := p\<rparr>) (task_of db j)
    else task_of db j)"
proof -
  have "task_of (finish e n db i st p) = task_of (upd_task i (\<lambda>t. t\<lparr>t_state := st,
      t_updated := now_iso e n, t_lease_expires := None, t_result := p\<rparr>) db)"
    by (rule lookup_cong) (simp add: finish_def Let_def)
  then show ?thesis by (simp add: task_tbl.get_upd)
qed

definition freed :: "string \<Rightarrow> agent_row \<Rightarrow> agent_row" where
  "freed i a = (if a_current_task a = Some i then
     a\<lparr>a_status := (if a_status a = Busy then Idle else a_status a), a_current_task := None\<rparr> else a)"

lemma finish_agent_of [simp]:
  "agent_of (finish e n db i st p) m = map_option (freed i) (agent_of db m)"
proof -
  have "agent_of (finish e n db i st p) m =
      find (\<lambda>a. a_name a = m) (update_where (\<lambda>a. a_current_task a = Some i)
        (\<lambda>a. a\<lparr>a_status := (if a_status a = Busy then Idle else a_status a), a_current_task := None\<rparr>)
        (agents db))"
    by (simp add: finish_def Let_def agent_of_def)
  also have "\<dots> = map_option (freed i) (agent_of db m)"
    by (subst find_update_where_key) (auto simp: agent_of_def freed_def [abs_def])
  finally show ?thesis .
qed

lemma freed_simps [simp]:
  "a_name (freed i a) = a_name a" "a_context_id (freed i a) = a_context_id a"
  "a_instance (freed i a) = a_instance a" "a_profile (freed i a) = a_profile a"
  "a_last_heartbeat (freed i a) = a_last_heartbeat a" "a_last_seen (freed i a) = a_last_seen a"
  by (simp_all add: freed_def)

lemma freed_status: "a_status (freed i a) = Idle \<or> a_status (freed i a) = a_status a"
  by (simp add: freed_def)

lemma ins_operation_frames [frame_simps, simp]:
  "workflows (ins_operation e n db ac op h r) = workflows db"
  "agents (ins_operation e n db ac op h r) = agents db"
  "tasks (ins_operation e n db ac op h r) = tasks db"
  "messages (ins_operation e n db ac op h r) = messages db"
  "events (ins_operation e n db ac op h r) = events db"
  "decisions (ins_operation e n db ac op h r) = decisions db"
  "message_seq (ins_operation e n db ac op h r) = message_seq db"
  "event_seq (ins_operation e n db ac op h r) = event_seq db"
  "decision_seq (ins_operation e n db ac op h r) = decision_seq db"
  "agent_of (ins_operation e n db ac op h r) = agent_of db"
  "task_of (ins_operation e n db ac op h r) = task_of db"
  by (auto simp: ins_operation_def intro!: lookup_cong)

lemma ins_operation_lookup [simp]:
  "operation_of (ins_operation e n db ac op h r) ac' op' =
   (case operation_of db ac' op' of Some x \<Rightarrow> Some x
    | None \<Rightarrow> if ac = ac' \<and> op = op' then Some \<lparr>o_actor = ac, o_operation_id = op,
        o_payload_hash = h, o_response = r, o_created = now_iso e n\<rparr> else None)"
  by (cases "find (\<lambda>r. o_actor r = ac' \<and> o_operation_id r = op') (operations db)")
    (auto simp: operation_of_def ins_operation_def find_Cons_append)

lemma record_reply_frames [simp]:
  "workflows (snd (record_reply e n db ac op h b r)) = workflows db"
  "agents (snd (record_reply e n db ac op h b r)) = agents db"
  "tasks (snd (record_reply e n db ac op h b r)) = tasks db"
  "messages (snd (record_reply e n db ac op h b r)) = messages db"
  "events (snd (record_reply e n db ac op h b r)) = events db"
  "decisions (snd (record_reply e n db ac op h b r)) = decisions db"
  "message_seq (snd (record_reply e n db ac op h b r)) = message_seq db"
  "event_seq (snd (record_reply e n db ac op h b r)) = event_seq db"
  "decision_seq (snd (record_reply e n db ac op h b r)) = decision_seq db"
  "agent_of (snd (record_reply e n db ac op h b r)) = agent_of db"
  "task_of (snd (record_reply e n db ac op h b r)) = task_of db"
  by (auto simp: record_reply_def split: option.splits)

end
