(* ===== verification/StoreAgents.thy ===== *)
theory StoreAgents
  imports StoreCore
begin

text \<open>
  The workflow and agent operations of \<^verbatim>\<open>store.HubStore\<close>: \<^verbatim>\<open>initialize_workflow\<close>,
  \<^verbatim>\<open>set_workflow_status\<close>, \<^verbatim>\<open>log_decision\<close>, \<^verbatim>\<open>get_state\<close>, \<^verbatim>\<open>check_in\<close>, \<^verbatim>\<open>heartbeat\<close> and
  \<^verbatim>\<open>release_agent\<close>.
\<close>

section \<open>Workflow\<close>

definition initialize_workflow :: "env \<Rightarrow> hub_db \<Rightarrow> string \<Rightarrow> dict option \<Rightarrow> string outcome" where
  "initialize_workflow e db goal policy =
     (case validated_workflow_policy policy of
        Inl locs \<Rightarrow> Inl (Invalid_policy locs)
      | Inr requested \<Rightarrow>
          (case workflow_row_of db of
             None \<Rightarrow> let wid = uuid_at e 0 in
               Inr (wid, db\<lparr>workflows := workflows db @ [\<lparr>w_id = wid, w_goal = goal,
                 w_status = Active, w_policy = requested, w_created = now_iso e 0\<rparr>]\<rparr>, [])
           | Some w \<Rightarrow>
               if w_goal w \<noteq> goal \<or> \<not> json_eq (JObj (w_policy w)) (JObj requested) then
                 Inl (Conflict (''workflow is already initialized with status='' @
                   workflow_status_value (w_status w) @ '', goal='' @ w_goal w @
                   '', and a different goal or policy''))
               else Inr (w_id w, db, [])))"

definition set_workflow_status :: "env \<Rightarrow> hub_db \<Rightarrow> workflow_status \<Rightarrow> string \<Rightarrow> unit outcome" where
  "set_workflow_status e db status summary =
     ebind (require_workflow db ''set_workflow_status'') (\<lambda>wid.
       if (case find (\<lambda>w. w_id w = wid) (workflows db) of
             None \<Rightarrow> False | Some w \<Rightarrow> w_status w = status) then Inr ((), db, [])
       else let i = Suc (decision_seq db) in
         Inr ((), db\<lparr>workflows := update_where (\<lambda>w. w_id w = wid) (\<lambda>w. w\<lparr>w_status := status\<rparr>)
                   (workflows db),
                 decisions := decisions db @ [\<lparr>d_id = i, d_ts = now_iso e 0, d_summary = summary,
                   d_rationale = ''Workflow status set to '' @ workflow_status_value status,
                   d_key = None\<rparr>],
                 decision_seq := i\<rparr>, []))"

definition log_decision ::
  "env \<Rightarrow> hub_db \<Rightarrow> string \<Rightarrow> string \<Rightarrow> string option \<Rightarrow> nat outcome" where
  "log_decision e db summary rationale key =
     (case (case key of None \<Rightarrow> None | Some k \<Rightarrow> find (\<lambda>d. d_key d = Some k) (decisions db)) of
        Some d \<Rightarrow> Inr (d_id d, db, [])
      | None \<Rightarrow> let i = Suc (decision_seq db) in
          Inr (i, db\<lparr>decisions := decisions db @ [\<lparr>d_id = i, d_ts = now_iso e 0,
              d_summary = summary, d_rationale = rationale, d_key = key\<rparr>], decision_seq := i\<rparr>, []))"

section \<open>Reading the state\<close>

definition model_mismatch :: "model_source \<Rightarrow> string \<Rightarrow> string \<Rightarrow> bool" where
  "model_mismatch src m declared = (src = Source_env \<and> declared \<notin> {UNKNOWN, m})"

definition age_seconds :: "iso option \<Rightarrow> moment \<Rightarrow> rat option" where
  "age_seconds t now = map_option (\<lambda>v. max 0 (of_int (now - parse_timestamp v) / 1000000)) t"

record agent_summary =
  g_agent :: agent_row
  g_model_mismatch :: bool
  g_heartbeat_age_s :: "rat option"
  g_progress_age_s :: "rat option"

record hub_state =
  s_workflow :: "workflow_row option"
  s_agents :: "agent_summary list"
  s_tasks :: "task_row list"
  s_queued_events :: nat
  s_unacked_delivered :: "event_row list"

text \<open>A task summary has no instructions: \<^verbatim>\<open>summary.pop("instructions")\<close>.\<close>

definition get_state :: "env \<Rightarrow> hub_db \<Rightarrow> hub_state" where
  "get_state e db = \<lparr>
     s_workflow = workflow_row_of db,
     s_agents = map (\<lambda>a. \<lparr>g_agent = a,
         g_model_mismatch = model_mismatch (model_source (a_profile a)) (model (a_profile a))
           (declared_model (a_profile a)),
         g_heartbeat_age_s = age_seconds (Some (a_last_heartbeat a)) (now_at e 0),
         g_progress_age_s = age_seconds (a_last_progress_at a) (now_at e 0)\<rparr>)
       (sort_key a_name (agents db)),
     s_tasks = map (\<lambda>t. t\<lparr>t_instructions := []\<rparr>) (sort_key t_created (tasks db)),
     s_queued_events = length (filter (\<lambda>v. e_state v = Queued) (events db)),
     s_unacked_delivered = sort_key e_id (filter (\<lambda>v. e_state v = Delivered) (events db))\<rparr>"

section \<open>Check-in\<close>

definition profile_payload :: "agent_profile \<Rightarrow> dict" where
  "profile_payload p = [
     (''harness'', JStr (harness p)), (''harness_version'', JStr (harness_version p)),
     (''provider'', JStr (provider p)), (''model'', JStr (model p)),
     (''model_source'', JStr (model_source_value (model_source p))),
     (''declared_model'', JStr (declared_model p)),
     (''model_mismatch'', JBool (model_mismatch (model_source p) (model p) (declared_model p))),
     (''capabilities'', JList (map JStr (capabilities p))),
     (''workspace_id'', jopt (workspace_id p))]"

definition readmitted :: "agent_status \<Rightarrow> string option \<Rightarrow> agent_status" where
  "readmitted previous open_task =
     (if previous = Released_status then Released_status
      else if (case open_task of None \<Rightarrow> False | Some i \<Rightarrow> i \<noteq> []) then Busy else Idle)"

definition live :: "agent_row \<Rightarrow> bool" where
  "live a = (a_status a = Idle \<or> a_status a = Busy)"

definition workspace_owner :: "hub_db \<Rightarrow> string option \<Rightarrow> string \<Rightarrow> agent_row option" where
  "workspace_owner db ws name = (case ws of None \<Rightarrow> None
     | Some w \<Rightarrow> find (\<lambda>a. workspace_id (a_profile a) = Some w \<and> live a \<and> a_name a \<noteq> name) (agents db))"

text \<open>The row the transaction leaves for \<open>name\<close>: a new one, or the returning worker's.\<close>

definition check_in_row ::
  "env \<Rightarrow> hub_db \<Rightarrow> string \<Rightarrow> agent_profile \<Rightarrow> string \<Rightarrow> string option
   \<Rightarrow> store_error + hub_db" where
  "check_in_row e db name profile instance_id remote_addr =
     (let now = now_iso e 0 in
      case agent_of db name of
        None \<Rightarrow>
          (let ctx = uuid_at e 1 in
           if ctx \<in> a_context_id ` set (agents db) then Inl (Integrity_error ''agent.context_id'')
           else Inr (ins_agent \<lparr>a_name = name, a_profile = profile, a_status = Idle,
             a_context_id = ctx, a_last_seen = now, a_instance = instance_id,
             a_last_heartbeat = now, a_last_progress_at = None, a_current_task = None,
             a_checkin_addr = remote_addr, a_last_addr = remote_addr\<rparr> db))
      | Some row \<Rightarrow>
          (if live row \<and> a_instance row \<noteq> [] then
             Inl (Duplicate_agent (''agent '' @ name @ '' already has a live worker instance''))
           else
             let current = open_task_id db (a_current_task row) in
             Inr (upd_agent name (\<lambda>a. a\<lparr>a_status := readmitted (a_status row) current,
               a_last_seen := now, a_instance := instance_id, a_last_heartbeat := now,
               a_last_progress_at := (if a_status row = Lost then None else a_last_progress_at row),
               a_current_task := current, a_profile := profile,
               a_checkin_addr := remote_addr, a_last_addr := remote_addr\<rparr>) db)))"

definition check_in ::
  "env \<Rightarrow> hub_db \<Rightarrow> string \<Rightarrow> agent_profile \<Rightarrow> string option \<Rightarrow> string option \<Rightarrow> string option
   \<Rightarrow> (agent_row \<Rightarrow> string) option \<Rightarrow> string option \<Rightarrow> agent_row reply outcome" where
  "check_in e db name profile worker_instance_id operation_id payload_hash builder remote_addr =
     (let instance_id = (case worker_instance_id of None \<Rightarrow> uuid_at e 0
                         | Some i \<Rightarrow> if i = [] then uuid_at e 0 else i) in
      ebind (replayed db name operation_id payload_hash) (\<lambda>prior.
        case prior of Some resp \<Rightarrow> Inr (Pair_json resp False, db, [])
        | None \<Rightarrow>
          (case workspace_owner db (workspace_id profile) name of
             Some owner \<Rightarrow> Inl (Duplicate_agent (''workspace '' @
               (case workspace_id profile of None \<Rightarrow> [] | Some w \<Rightarrow> w) @
               '' is occupied by live agent '' @ a_name owner))
           | None \<Rightarrow>
              ebind (check_in_row e db name profile instance_id remote_addr) (\<lambda>db1.
              ebind (require_agent db1 name) (\<lambda>row.
              ebind (add_message e 1 db1 None (a_context_id row) name To_alice
                [text_part ''READY'' (dict_merge [(K_KIND, JStr ''check_in'')]
                  (map (\<lambda>(k, v). (''hub.'' @ k, v)) (profile_payload profile)))]) (\<lambda>(mid, db2).
              let db3 = snd (add_event e 2 db2 Agent_checked_in
                    (dict_merge (dict_merge [(''agent'', JStr name)] (profile_payload profile))
                      [(''context_id'', JStr (a_context_id row)),
                       (''worker_instance_id'', JStr instance_id)])) in
              ebind (require_agent db3 name) (\<lambda>agent.
              let (res, db4) = record_reply e 3 db3 name operation_id payload_hash builder agent in
              Inr (res, db4, [EVENT_KEY]))))))))"

definition agent_by_name :: "hub_db \<Rightarrow> string \<Rightarrow> agent_row option" where
  "agent_by_name db n = agent_of db n"

definition agent_by_context :: "hub_db \<Rightarrow> string \<Rightarrow> agent_row option" where
  "agent_by_context db c = find (\<lambda>a. a_context_id a = c) (agents db)"

definition list_agents :: "hub_db \<Rightarrow> agent_row list" where
  "list_agents db = sort_key a_name (agents db)"

section \<open>Heartbeat\<close>

definition beat_agent :: "iso \<Rightarrow> string option \<Rightarrow> agent_row \<Rightarrow> agent_row" where
  "beat_agent now addr a = a\<lparr>a_last_heartbeat := max (a_last_heartbeat a) now,
     a_last_seen := max (a_last_seen a) now,
     a_last_addr := (case addr of None \<Rightarrow> a_last_addr a | Some r \<Rightarrow> Some r)\<rparr>"

text \<open>The lease the matching task is left with.\<close>

definition renewed_lease :: "moment \<Rightarrow> moment \<Rightarrow> rat \<Rightarrow> moment \<Rightarrow> moment" where
  "renewed_lease now cap duration_s current =
     (if current \<le> now then current
      else if cap \<le> now then cap
      else min (max (now + seconds duration_s) current) cap)"

text \<open>\<^verbatim>\<open>max_task_lease_min or self._max_task_lease_min(...)\<close>\<close>

definition cap_minutes :: "hub_db \<Rightarrow> string \<Rightarrow> rat option \<Rightarrow> rat" where
  "cap_minutes db wid lease_min = (case lease_min of None \<Rightarrow> max_task_lease_min db wid
     | Some m \<Rightarrow> if m = 0 then max_task_lease_min db wid else m)"

definition heartbeat ::
  "env \<Rightarrow> hub_db \<Rightarrow> string \<Rightarrow> string \<Rightarrow> string option \<Rightarrow> rat option \<Rightarrow> string option \<Rightarrow> bool outcome" where
  "heartbeat e db name worker_instance_id current_task_id lease_min remote_addr =
     (let now = now_at e 0; iso_now = now_iso e 0 in
      ebind (require_agent db name) (\<lambda>agent.
        if a_instance agent \<noteq> worker_instance_id \<or> a_status agent = Lost then Inr (False, db, [])
        else let db1 = upd_agent name (beat_agent iso_now remote_addr) db in
          if (case current_task_id of None \<Rightarrow> True | Some i \<Rightarrow> i = []) \<or>
             a_current_task agent \<noteq> current_task_id then Inr (True, db1, [])
          else ebind (require_task db1 (the current_task_id)) (\<lambda>task.
            case t_lease_expires task of None \<Rightarrow> Inr (True, db1, [])
            | Some expires \<Rightarrow>
                if t_assignee task \<noteq> Some name \<or> terminal (t_state task) then Inr (True, db1, [])
                else let current = parse_timestamp expires;
                  cap = parse_timestamp (t_created task) + minutes (cap_minutes db1 (t_workflow task) lease_min);
                  renewed = renewed_lease now cap (t_lease_duration_s task) current
                in if current \<le> now then Inr (True, db1, [])
                   else if cap \<le> now \<or> renewed \<noteq> current then
                     Inr (True, upd_task (t_id task) (\<lambda>t. t\<lparr>t_lease_expires := Some (to_iso renewed),
                       t_updated := iso_now\<rparr>) db1, [])
                   else Inr (True, db1, []))))"

section \<open>Release\<close>

definition release_agent :: "hub_db \<Rightarrow> string \<Rightarrow> agent_row outcome" where
  "release_agent db name =
     ebind (require_agent db name) (\<lambda>agent.
       if a_status agent = Released_status then Inr (agent, db, [])
       else let db1 = upd_agent name (\<lambda>a. a\<lparr>a_status := Released_status\<rparr>) db in
         ebind (require_agent db1 name) (\<lambda>released.
           Inr (released, db1, [context_key (a_context_id agent)])))"

end
