(* ===== verification/StoreTasks.thy ===== *)
theory StoreTasks
  imports StoreAgents
begin

text \<open>
  The task operations of \<^verbatim>\<open>store.HubStore\<close>: assignment and its idempotent replay, claiming,
  progress, questions and replies, results, cancellation and Alice's manual override.
\<close>

section \<open>Assignment\<close>

definition assignment_metadata :: "string \<Rightarrow> string \<Rightarrow> string option \<Rightarrow> dict" where
  "assignment_metadata role title head =
     [(K_KIND, JStr ''assignment''), (K_ROLE, JStr role), (K_TITLE, JStr title)] @
     (case head of None \<Rightarrow> [] | Some h \<Rightarrow> [(K_PR_HEAD_SHA, JStr h)])"

text \<open>An exact replay of an event-driven call returns the task it created.\<close>

definition same_assignment ::
  "task_row \<Rightarrow> string \<Rightarrow> string \<Rightarrow> string \<Rightarrow> string \<Rightarrow> string \<Rightarrow> rat \<Rightarrow> string option \<Rightarrow> bool" where
  "same_assignment t wid agent role title instructions duration_s head =
     (t_workflow t = wid \<and> t_assignee t = Some agent \<and> t_role t = role \<and> t_title t = title \<and>
      t_instructions t = instructions \<and> t_lease_duration_s t = duration_s \<and> t_pr_head_sha t = head)"

definition source_task ::
  "hub_db \<Rightarrow> nat option \<Rightarrow> string \<Rightarrow> string \<Rightarrow> string \<Rightarrow> string \<Rightarrow> string \<Rightarrow> rat \<Rightarrow> string option
   \<Rightarrow> store_error + task_row option" where
  "source_task db source wid agent role title instructions duration_s head =
     (case source of None \<Rightarrow> Inr None
      | Some ev \<Rightarrow>
          (case event_of db ev of
             None \<Rightarrow> Inl (Not_found (''unknown source event: '' @ show_nat ev))
           | Some _ \<Rightarrow>
              (case find (\<lambda>t. t_source_event t = Some ev) (tasks db) of
                 None \<Rightarrow> Inr None
               | Some t \<Rightarrow>
                   if same_assignment t wid agent role title instructions duration_s head
                   then Inr (Some t)
                   else Inl (Idempotency_conflict (''source event '' @ show_nat ev @
                     '' already assigned task '' @ t_id t @ '' with a different payload'')))))"

definition require_idle :: "hub_db \<Rightarrow> string \<Rightarrow> store_error + agent_row" where
  "require_idle db agent = ebind (require_agent db agent) (\<lambda>a.
     if a_status a \<noteq> Idle then
       (case open_task_id db (a_current_task a) of
          Some held \<Rightarrow> Inl (Conflict (''agent '' @ agent @ '' already holds task '' @ held))
        | None \<Rightarrow> Inl (Conflict (''agent '' @ agent @ '' is '' @ agent_status_value (a_status a) @
            '', not idle; it must check in again before it can be given work'')))
     else Inr a)"

definition assign_task ::
  "env \<Rightarrow> hub_db \<Rightarrow> string \<Rightarrow> string \<Rightarrow> string \<Rightarrow> string \<Rightarrow> rat \<Rightarrow> string option \<Rightarrow> nat option
   \<Rightarrow> task_row outcome" where
  "assign_task e db agent role title instructions lease_min pr_head_sha source_event_id =
     (if (case pr_head_sha of None \<Rightarrow> False | Some h \<Rightarrow> \<not> sha_fullmatch h) then
        Inl (Value_error ''pr_head_sha must be a 40-character hex commit SHA'')
      else
        let head = map_option lower pr_head_sha; now = now_at e 0 in
        ebind (require_workflow db ''assign_task'') (\<lambda>wid.
        let effective_lease_min = min lease_min (max_task_lease_min db wid) in
        ebind (source_task db source_event_id wid agent role title instructions
                 (effective_lease_min * 60) head) (\<lambda>existing.
        case existing of Some t \<Rightarrow> Inr (t, db, [])
        | None \<Rightarrow>
           ebind (require_idle db agent) (\<lambda>record.
           let tid = uuid_at e 0 in
           if tid \<in> t_id ` set (tasks db) then Inl (Integrity_error ''task.id'')
           else
             let db1 = ins_task \<lparr>t_id = tid, t_workflow = wid, t_assignee = Some agent,
                   t_role = role, t_title = title, t_instructions = instructions,
                   t_state = Submitted,
                   t_lease_expires = Some (to_iso (now + minutes effective_lease_min)),
                   t_lease_duration_s = effective_lease_min * 60, t_result = None,
                   t_created = to_iso now, t_updated = to_iso now, t_pr_head_sha = head,
                   t_source_event = source_event_id\<rparr> db;
                 db2 = upd_agent agent (\<lambda>a. a\<lparr>a_status := Busy, a_current_task := Some tid\<rparr>) db1 in
             ebind (add_message e 1 db2 (Some tid) (a_context_id record) ''alice'' From_alice
               [text_part instructions (assignment_metadata role title head)]) (\<lambda>(mid, db3).
             ebind (require_task db3 tid) (\<lambda>task.
             Inr (task, db3, [context_key (a_context_id record)])))))))"

datatype claim = Claimed task_row | Released_claim string

definition claim_assignment :: "env \<Rightarrow> hub_db \<Rightarrow> string \<Rightarrow> claim option outcome" where
  "claim_assignment e db name =
     ebind (require_agent db name) (\<lambda>agent.
       if a_status agent = Released_status then Inr (Some (Released_claim name), db, [])
       else case first_by t_created (\<lambda>t. t_assignee t = Some name \<and> t_state t = Submitted) (tasks db) of
         None \<Rightarrow> Inr (None, db, [])
       | Some t \<Rightarrow> let db1 = set_state e 0 db (t_id t) Working in
           ebind (require_task db1 (t_id t)) (\<lambda>task. Inr (Some (Claimed task), db1, [])))"

definition task_history :: "hub_db \<Rightarrow> string \<Rightarrow> int option \<Rightarrow> message_row list" where
  "task_history db tid limit =
     (let history = map (\<lambda>m. m\<lparr>m_parts := [JObj (normalize_part d). JObj d \<leftarrow> m_parts m]\<rparr>)
            (sort_key m_id (filter (\<lambda>m. m_task m = Some tid) (messages db))) in
      case limit of None \<Rightarrow> history
      | Some l \<Rightarrow> if 0 \<le> l then drop (length history - nat l) history else history)"

section \<open>Progress\<close>

definition record_progress ::
  "env \<Rightarrow> hub_db \<Rightarrow> string \<Rightarrow> string \<Rightarrow> string \<Rightarrow> string option \<Rightarrow> string option
   \<Rightarrow> (unit \<Rightarrow> string) option \<Rightarrow> unit reply outcome" where
  "record_progress e db task_id agent note operation_id payload_hash builder =
     ebind (replayed db agent operation_id payload_hash) (\<lambda>prior.
       case prior of Some resp \<Rightarrow> Inr (Pair_json resp False, db, [])
       | None \<Rightarrow>
          ebind (require_open_task db task_id) (\<lambda>task.
          ebind (require_agent db agent) (\<lambda>record.
          ebind (add_message e 0 db (Some (t_id task)) (a_context_id record) agent To_alice
                   [text_part note [(K_KIND, JStr ''progress'')]]) (\<lambda>(mid, db1).
          let db2 = snd (add_event e 1 db1 Task_progress
                [(''task_id'', JStr (t_id task)), (''agent'', JStr agent), (''note'', JStr note)]);
              db3 = record_progress_at e 2 db2 agent;
              (res, db4) = record_reply e 3 db3 agent operation_id payload_hash builder ()
          in Inr (res, db4, [EVENT_KEY])))))"

section \<open>Questions and replies\<close>

text \<open>
  \<^verbatim>\<open>_part_metadata\<close> reads parts the store has written itself, whose metadata is an object or absent
  (\<open>normalize_part\<close>); of any other truthy value the source would raise, which no stored part reaches.
\<close>

fun part_metadata :: "json \<Rightarrow> dict" where
  "part_metadata (JObj d) = (case dict_get ''metadata'' (normalize_part d) of
     Some (JObj md) \<Rightarrow> md | _ \<Rightarrow> [])"
| "part_metadata _ = []"

definition is_question :: "message_row \<Rightarrow> bool" where
  "is_question m = list_ex (\<lambda>p. dict_get K_KIND (part_metadata p) = Some (JStr ''question'')) (m_parts m)"

definition is_question_sent_as :: "string \<Rightarrow> message_row \<Rightarrow> bool" where
  "is_question_sent_as sent_as m = list_ex (\<lambda>p.
     dict_get K_KIND (part_metadata p) = Some (JStr ''question'') \<and>
     dict_get K_RETRY (part_metadata p) = Some (JStr sent_as)) (m_parts m)"

definition to_alice :: "string \<Rightarrow> message_row \<Rightarrow> bool" where
  "to_alice tid m = (m_task m = Some tid \<and> m_direction m = To_alice)"

definition from_alice :: "string \<Rightarrow> message_row \<Rightarrow> bool" where
  "from_alice tid m = (m_task m = Some tid \<and> m_direction m = From_alice)"

definition asked_question :: "hub_db \<Rightarrow> string \<Rightarrow> string \<Rightarrow> nat option" where
  "asked_question db tid sent_as = (if sent_as = [] then None
     else map_option m_id
       (first_by m_id (\<lambda>m. to_alice tid m \<and> is_question_sent_as sent_as m) (messages db)))"

definition open_question ::
  "env \<Rightarrow> hub_db \<Rightarrow> string \<Rightarrow> string \<Rightarrow> string \<Rightarrow> string \<Rightarrow> nat outcome" where
  "open_question e db task_id agent question sent_as =
     ebind (require_open_task db task_id) (\<lambda>task.
     ebind (require_agent db agent) (\<lambda>record.
     case asked_question db (t_id task) sent_as of
       Some asked \<Rightarrow> Inr (asked, db, [])
     | None \<Rightarrow>
         ebind (add_message e 0 db (Some (t_id task)) (a_context_id record) agent To_alice
           [text_part question [(K_KIND, JStr ''question''), (K_RETRY, JStr sent_as)]]) (\<lambda>(mid, db1).
         let db2 = set_state e 1 db1 (t_id task) Input_required;
             db3 = snd (add_event e 2 db2 Worker_question
                [(''task_id'', JStr (t_id task)), (''agent'', JStr agent),
                 (''question'', JStr question), (''message_id'', JInt (int mid))])
         in Inr (mid, db3, [EVENT_KEY]))))"

definition newest_question :: "hub_db \<Rightarrow> string \<Rightarrow> nat option" where
  "newest_question db tid = map_option m_id
     (find is_question (rev (sort_key m_id (filter (to_alice tid) (messages db)))))"

definition reply :: "env \<Rightarrow> hub_db \<Rightarrow> string \<Rightarrow> string \<Rightarrow> nat \<Rightarrow> bool outcome" where
  "reply e db task_id text message_id =
     ebind (require_task db task_id) (\<lambda>task.
       if t_state task \<noteq> Input_required then Inr (False, db, [])
       else if newest_question db (t_id task) \<noteq> Some message_id then Inr (False, db, [])
       else if first_by m_id (\<lambda>m. from_alice (t_id task) m \<and> message_id < m_id m) (messages db) \<noteq> None
         then Inr (False, db, [])
       else
         ebind (task_context_id db task) (\<lambda>ctx.
         ebind (add_message e 0 db (Some (t_id task)) ctx ''alice'' From_alice
                  [text_part text [(K_KIND, JStr ''reply'')]]) (\<lambda>(mid, db1).
         Inr (True, set_state e 1 db1 (t_id task) Working, [task_key task_id]))))"

definition pending_reply :: "hub_db \<Rightarrow> string \<Rightarrow> nat \<Rightarrow> message_row option" where
  "pending_reply db tid after = first_by m_id (\<lambda>m. from_alice tid m \<and> after < m_id m) (messages db)"

section \<open>Plain reads and the operation table\<close>

definition get_task :: "hub_db \<Rightarrow> string \<Rightarrow> task_row option" where
  "get_task db tid = task_of db tid"

definition context_of_task :: "hub_db \<Rightarrow> string \<Rightarrow> store_error + string" where
  "context_of_task db tid = ebind (require_task db tid) (task_context_id db)"

definition list_tasks :: "hub_db \<Rightarrow> task_row list" where
  "list_tasks db = sort_key t_created (tasks db)"

definition get_operation :: "hub_db \<Rightarrow> string \<Rightarrow> string \<Rightarrow> operation_row option" where
  "get_operation db actor operation_id = operation_of db actor operation_id"

text \<open>A second row under the same primary key is refused by the database.\<close>

definition record_operation ::
  "env \<Rightarrow> hub_db \<Rightarrow> string \<Rightarrow> string \<Rightarrow> string \<Rightarrow> string \<Rightarrow> unit outcome" where
  "record_operation e db actor operation_id payload_hash response_json =
     (if operation_of db actor operation_id \<noteq> None then Inl (Integrity_error ''operation.actor, operation.operation_id'')
      else Inr ((), ins_operation e 0 db actor operation_id payload_hash response_json, []))"

section \<open>Results\<close>

datatype submitted_result = Typed task_result | Mapping dict | Status task_state

definition typed_status :: "task_result \<Rightarrow> task_state" where
  "typed_status r = (case r of
     Implementer_result x \<Rightarrow> if i_outcome x = Outcome_completed then Completed else Failed
   | Rebase_result x \<Rightarrow> if b_outcome x = Outcome_completed then Completed else Failed
   | Reviewer_result x \<Rightarrow>
       if r_verdict x \<in> {Approved, Changes_requested} then Completed else Failed)"

definition too_large :: "nat \<Rightarrow> store_error" where
  "too_large n = Payload_too_large (''typed result is '' @ show_nat n @ '' bytes; maximum is '' @
     show_nat MAX_TYPED_RESULT_BYTES @ '' bytes. Store work product in GitHub and '' @
     ''submit only references and compact metadata.'')"

definition invalid_result :: "validation_error + 'a \<Rightarrow> store_error + 'a" where
  "invalid_result r = (case r of Inl v \<Rightarrow> Inl (Invalid_result v) | Inr x \<Rightarrow> Inr x)"

text \<open>The payload stored, the transcript summary and the terminal state of a submission.\<close>

definition interpret_result ::
  "env \<Rightarrow> submitted_result \<Rightarrow> string \<Rightarrow> dict list \<Rightarrow> store_error + (dict \<times> string \<times> task_state)" where
  "interpret_result e r summary artifacts =
     (let of_typed = (\<lambda>t. (result_dump t, result_summary t, typed_status t)) in
      case r of
        Typed t \<Rightarrow> Inr (of_typed t)
      | Mapping d \<Rightarrow>
          (if MAX_TYPED_RESULT_BYTES < json_size_bytes e (JObj d) then
             Inl (too_large (json_size_bytes e (JObj d)))
           else if dict_has ''outcome'' d then
             ebind (invalid_result (implementer_validate d)) (\<lambda>x. Inr (of_typed (Implementer_result x)))
           else if dict_has ''verdict'' d then
             ebind (invalid_result (reviewer_validate d)) (\<lambda>x. Inr (of_typed (Reviewer_result x)))
           else Inl (Conflict ''result mapping must contain outcome or verdict''))
      | Status s \<Rightarrow>
          (if s \<notin> {Completed, Failed} then
             Inl (Conflict (''a result must be completed or failed, got '' @ task_state_value s))
           else Inr ([(''status'', JStr (task_state_value s)), (''summary'', JStr summary),
                      (''artifacts'', JList (map JObj artifacts))], summary, s)))"

definition result_transcript_part :: "env \<Rightarrow> string \<Rightarrow> task_state \<Rightarrow> json" where
  "result_transcript_part e summary status =
     (let metadata = [(K_KIND, JStr ''result''), (K_STATUS, JStr (task_state_value status))];
          part = text_part summary metadata in
      if json_size_bytes e part \<le> MAX_MESSAGE_PART_BYTES then part
      else text_part ''Typed result recorded; full summary is retained in the task result.'' metadata)"

definition submit_result ::
  "env \<Rightarrow> hub_db \<Rightarrow> string \<Rightarrow> string \<Rightarrow> submitted_result option \<Rightarrow> string \<Rightarrow> dict list
   \<Rightarrow> task_state option \<Rightarrow> string option \<Rightarrow> string option \<Rightarrow> (task_row \<Rightarrow> string) option
   \<Rightarrow> task_row reply outcome" where
  "submit_result e db task_id agent result summary artifacts status operation_id payload_hash builder =
     (case (case result of Some r \<Rightarrow> Some r | None \<Rightarrow> map_option Status status) of
        None \<Rightarrow> Inl (Conflict ''submit_result requires result or status'')
      | Some actual \<Rightarrow>
        ebind (interpret_result e actual summary artifacts) (\<lambda>(payload, result_summary, terminal_status).
        if MAX_TYPED_RESULT_BYTES < json_size_bytes e (JObj payload) then
          Inl (too_large (json_size_bytes e (JObj payload)))
        else
        ebind (replayed db agent operation_id payload_hash) (\<lambda>prior.
        case prior of Some resp \<Rightarrow> Inr (Pair_json resp False, db, [])
        | None \<Rightarrow>
           ebind (require_open_task db task_id) (\<lambda>task.
           ebind (require_agent db agent) (\<lambda>record.
           ebind (add_message e 0 db (Some (t_id task)) (a_context_id record) agent To_alice
                    [result_transcript_part e result_summary terminal_status]) (\<lambda>(mid, db1).
           let db2 = finish e 1 db1 (t_id task) terminal_status (Some payload);
               event_payload = dict_set ''result'' (JObj payload)
                 (dict_merge [(''task_id'', JStr (t_id task)), (''agent'', JStr agent),
                    (''summary'', JStr result_summary)] payload);
               db3 = snd (add_event e 2 db2
                 (if terminal_status = Completed then Task_completed else Task_failed) event_payload) in
           ebind (require_task db3 (t_id task)) (\<lambda>finished.
           let (res, db4) = record_reply e 3 db3 agent operation_id payload_hash builder finished
           in Inr (res, db4, [EVENT_KEY]))))))))"

section \<open>Ending a task by hand\<close>

definition set_task_state :: "env \<Rightarrow> hub_db \<Rightarrow> string \<Rightarrow> task_state \<Rightarrow> string \<Rightarrow> task_row outcome" where
  "set_task_state e db task_id state note =
     (if state \<notin> {Canceled, Failed} then
        Inl (Conflict ''manual overrides accept only canceled or failed'')
      else
        ebind (require_open_task db task_id) (\<lambda>task.
        ebind (task_context_id db task) (\<lambda>ctx.
        ebind (add_message e 0 db (Some task_id) ctx ''alice'' From_alice
                 [text_part note [(K_KIND, JStr ''state_override'')]]) (\<lambda>(mid, db1).
        let db2 = finish e 1 db1 task_id state
              (Some [(''status'', JStr (task_state_value state)), (''summary'', JStr note)]) in
        ebind (require_task db2 task_id) (\<lambda>res.
        Inr (res, db2, [task_key task_id, context_key ctx]))))))"

definition cancel_task :: "env \<Rightarrow> hub_db \<Rightarrow> string \<Rightarrow> task_row outcome" where
  "cancel_task e db task_id =
     ebind (require_task db task_id) (\<lambda>task.
       if terminal (t_state task) then
         Inl (Conflict (''task '' @ task_id @ '' is already '' @ task_state_value (t_state task)))
       else
         ebind (task_context_id db task) (\<lambda>ctx.
         let db1 = finish e 0 db (t_id task) Canceled None in
         ebind (require_task db1 (t_id task)) (\<lambda>canceled.
         Inr (canceled, db1, task_key task_id # (if ctx \<noteq> [] then [context_key ctx] else [])))))"

end
