(* ===== verification/StoreEvents.thy ===== *)
theory StoreEvents
  imports StoreTasks
begin

text \<open>
  Alice's inbox (\<^verbatim>\<open>append_event\<close>, \<^verbatim>\<open>lease_next_event\<close>, \<^verbatim>\<open>ack_event\<close>, \<^verbatim>\<open>pending_events\<close>) and the
  sweeper's pass (\<^verbatim>\<open>sweep\<close>, \<^verbatim>\<open>_expire_leases\<close>, \<^verbatim>\<open>_lose_agents\<close>) of \<^verbatim>\<open>store.HubStore\<close>.
\<close>

definition DEFAULT_EVENT_LEASE_S :: rat where
  "DEFAULT_EVENT_LEASE_S = 600"

definition append_event :: "env \<Rightarrow> hub_db \<Rightarrow> event_kind \<Rightarrow> dict \<Rightarrow> event_row option outcome" where
  "append_event e db kind payload =
     (let (i, db1) = add_event e 0 db kind payload in
      Inr (event_of db1 i, db1, [EVENT_KEY]))"

definition delivered_as :: "string \<Rightarrow> event_row \<Rightarrow> bool" where
  "delivered_as did v = (e_delivery_id v = Some did \<and> e_state v = Delivered)"

definition ack_event :: "env \<Rightarrow> hub_db \<Rightarrow> string option \<Rightarrow> bool outcome" where
  "ack_event e db delivery_id = (case delivery_id of
     None \<Rightarrow> Inr (False, db, [])
   | Some did \<Rightarrow>
       if did = [] then Inr (False, db, [])
       else if find (delivered_as did) (events db) = None then Inr (False, db, [])
       else Inr (True, db\<lparr>events := update_where (delivered_as did)
              (\<lambda>v. v\<lparr>e_state := Acked, e_acked_at := Some (now_iso e 0)\<rparr>) (events db)\<rparr>, []))"

definition eligible :: "iso \<Rightarrow> event_row \<Rightarrow> bool" where
  "eligible now v = (e_state v = Queued \<or>
     e_state v = Delivered \<and> (case e_delivery_expires v of None \<Rightarrow> False | Some x \<Rightarrow> x \<le> now))"

definition lease_row :: "string \<Rightarrow> iso \<Rightarrow> iso \<Rightarrow> event_row \<Rightarrow> event_row" where
  "lease_row did now expires v = v\<lparr>e_state := Delivered, e_delivery_id := Some did,
     e_attempts := e_attempts v + 1, e_delivered_at := Some now, e_delivery_expires := Some expires\<rparr>"

definition lease_next_event :: "env \<Rightarrow> rat \<Rightarrow> hub_db \<Rightarrow> rat option \<Rightarrow> event_row option outcome" where
  "lease_next_event e default_lease_s db lease_s =
     (let effective = (case lease_s of None \<Rightarrow> default_lease_s | Some s \<Rightarrow> s);
          now = now_iso e 0;
          expires = to_iso (now_at e 0 + seconds effective);
          delivery_id = uuid_at e 0 in
      case first_by e_id (eligible now) (events db) of
        None \<Rightarrow> Inr (None, db, [])
      | Some v \<Rightarrow> let db1 = upd_event (e_id v) (lease_row delivery_id now expires) db in
          Inr (event_of db1 (e_id v), db1, []))"

definition pending_events :: "hub_db \<Rightarrow> nat" where
  "pending_events db = length (filter (\<lambda>v. e_state v = Queued) (events db))"

text \<open>\<^verbatim>\<open>SELECT MIN(delivery_expires)\<close> skips NULL; the floor of 0.01 s keeps a wait from spinning.\<close>

definition earliest_delivery_expires_s :: "env \<Rightarrow> hub_db \<Rightarrow> rat option" where
  "earliest_delivery_expires_s e db =
     (case [x. v \<leftarrow> events db, e_state v = Delivered, x \<leftarrow> (case e_delivery_expires v of None \<Rightarrow> [] | Some x \<Rightarrow> [x])] of
        [] \<Rightarrow> None
      | x # xs \<Rightarrow> Some (max (1/100)
          (of_int (parse_timestamp (foldl min x xs) - now_at e 0) / 1000000)))"

section \<open>The sweep\<close>

definition overdue :: "iso \<Rightarrow> task_row \<Rightarrow> bool" where
  "overdue now t = (t_state t \<in> set OPEN_STATES \<and>
     (case t_lease_expires t of None \<Rightarrow> False | Some x \<Rightarrow> x \<le> now))"

definition expire_row :: "env \<Rightarrow> nat \<Rightarrow> hub_db \<Rightarrow> task_row \<Rightarrow> nat \<times> hub_db" where
  "expire_row e n db row =
     add_event e (n + 1) (upd_task (t_id row) (\<lambda>t. t\<lparr>t_lease_expires := None,
         t_updated := now_iso e n\<rparr>) db) Lease_expired
       [(''task_id'', JStr (t_id row)), (''agent'', jopt (t_assignee row)),
        (''lease_expires'', case t_lease_expires row of None \<Rightarrow> JNull | Some x \<Rightarrow> JInt x)]"

fun expire_rows :: "env \<Rightarrow> nat \<Rightarrow> hub_db \<Rightarrow> task_row list \<Rightarrow> nat list \<times> hub_db" where
  "expire_rows e n db [] = ([], db)"
| "expire_rows e n db (row # rows) =
     (let (i, db1) = expire_row e n db row; (is, db2) = expire_rows e (n + 2) db1 rows
      in (i # is, db2))"

definition expire_leases :: "env \<Rightarrow> nat \<Rightarrow> hub_db \<Rightarrow> iso \<Rightarrow> nat list \<times> hub_db" where
  "expire_leases e n db now = expire_rows e n db (filter (overdue now) (tasks db))"

definition LOST_REASON :: string where
  "LOST_REASON = ''worker_lost''"

definition lost_payload :: "string \<Rightarrow> dict" where
  "lost_payload name = [(''status'', JStr (task_state_value Failed)),
     (''summary'', JStr (''worker '' @ name @ '' stopped heartbeating'')),
     (''reason'', JStr LOST_REASON), (''artifacts'', JList [])]"

definition lose_row :: "env \<Rightarrow> nat \<Rightarrow> hub_db \<Rightarrow> agent_row \<Rightarrow> nat \<times> hub_db" where
  "lose_row e n db agent =
     (let db1 = upd_agent (a_name agent) (\<lambda>a. a\<lparr>a_status := Lost\<rparr>) db;
          task_id = open_task_id db1 (a_current_task agent);
          db2 = (case task_id of None \<Rightarrow> db1
                 | Some i \<Rightarrow> finish e n db1 i Failed (Some (lost_payload (a_name agent))))
      in add_event e (n + 1) db2 Agent_lost
           [(''agent'', JStr (a_name agent)), (''task_id'', jopt task_id),
            (''last_heartbeat'', JInt (a_last_heartbeat agent))])"

fun lose_rows :: "env \<Rightarrow> nat \<Rightarrow> hub_db \<Rightarrow> agent_row list \<Rightarrow> nat list \<times> hub_db" where
  "lose_rows e n db [] = ([], db)"
| "lose_rows e n db (row # rows) =
     (let (i, db1) = lose_row e n db row; (is, db2) = lose_rows e (n + 2) db1 rows
      in (i # is, db2))"

definition silent :: "iso \<Rightarrow> agent_row \<Rightarrow> bool" where
  "silent cutoff a = (live a \<and> a_last_heartbeat a \<le> cutoff)"

definition lose_agents :: "env \<Rightarrow> nat \<Rightarrow> hub_db \<Rightarrow> iso \<Rightarrow> nat list \<times> hub_db" where
  "lose_agents e n db cutoff = lose_rows e n db (filter (silent cutoff) (agents db))"

text \<open>
  The clock readings of a sweep: 0 is \<^verbatim>\<open>now\<close>, then two for each overdue task, then two for
  each silent agent.
\<close>

definition sweep :: "env \<Rightarrow> hub_db \<Rightarrow> rat \<Rightarrow> event_row list outcome" where
  "sweep e db lost_after_s =
     (let now = now_at e 0;
          (expired, db1) = expire_leases e 1 db (to_iso now);
          cutoff = to_iso (now - seconds lost_after_s);
          (lost, db2) = lose_agents e (1 + 2 * length expired) db1 cutoff;
          emitted = expired @ lost in
      if emitted = [] then Inr ([], db2, [])
      else Inr (sort_key e_id (filter (\<lambda>v. e_id v \<in> set emitted) (events db2)), db2, [EVENT_KEY]))"

end
