(* ===== verification/HubInv.thy ===== *)
theory HubInv
  imports StoreEvents
begin

text \<open>
  The invariant of the durable state and its preservation by the primitive writes that the
  operations of the store compose. \<open>rows_ok\<close> is what the schema's keys and counters
  guarantee, \<open>coupled\<close> ties the open tasks to the agents that hold them, \<open>tasks_ok\<close>,
  \<open>events_ok\<close> and \<open>questions_ok\<close> describe single rows and the transcript, and
  \<open>workspaces_ok\<close> says that no two live agents share a workspace.
\<close>

section \<open>The invariant\<close>

definition rows_ok :: "hub_db \<Rightarrow> bool" where
  "rows_ok db = (
     length (workflows db) \<le> 1 \<and>
     distinct (map a_name (agents db)) \<and> distinct (map a_context_id (agents db)) \<and>
     distinct (map t_id (tasks db)) \<and>
     distinct (filter (\<lambda>s. s \<noteq> None) (map t_source_event (tasks db))) \<and>
     sorted_wrt (<) (map m_id (messages db)) \<and> list_all (\<lambda>i. i \<le> message_seq db) (map m_id (messages db)) \<and>
     sorted_wrt (<) (map e_id (events db)) \<and> list_all (\<lambda>i. i \<le> event_seq db) (map e_id (events db)) \<and>
     sorted_wrt (<) (map d_id (decisions db)) \<and> list_all (\<lambda>i. i \<le> decision_seq db) (map d_id (decisions db)) \<and>
     distinct (map (\<lambda>r. (o_actor r, o_operation_id r)) (operations db)))"

lemma rows_okD:
  assumes "rows_ok db"
  shows "length (workflows db) \<le> 1" "distinct (map a_name (agents db))" "distinct (map a_context_id (agents db))"
    "distinct (map t_id (tasks db))" "distinct (filter (\<lambda>s. s \<noteq> None) (map t_source_event (tasks db)))"
    "sorted_wrt (<) (map m_id (messages db))" "\<forall>m \<in> set (messages db). m_id m \<le> message_seq db"
    "sorted_wrt (<) (map e_id (events db))" "\<forall>v \<in> set (events db). e_id v \<le> event_seq db"
    "distinct (map (\<lambda>r. (o_actor r, o_operation_id r)) (operations db))"
  using assms unfolding rows_ok_def list_all_iff by simp_all

definition coupled :: "hub_db \<Rightarrow> bool" where
  "coupled db = (
     (\<forall>n a i. agent_of db n = Some a \<longrightarrow> a_current_task a = Some i \<longrightarrow>
        (\<exists>t. task_of db i = Some t \<and> \<not> terminal (t_state t) \<and> t_assignee t = Some n)) \<and>
     (\<forall>i t. task_of db i = Some t \<longrightarrow> \<not> terminal (t_state t) \<longrightarrow>
        (\<exists>n a. t_assignee t = Some n \<and> agent_of db n = Some a \<and> a_current_task a = Some i)) \<and>
     (\<forall>n a. agent_of db n = Some a \<longrightarrow>
        (a_status a = Busy \<longrightarrow> a_current_task a \<noteq> None) \<and>
        (a_status a = Idle \<or> a_status a = Lost \<longrightarrow> a_current_task a = None)))"

definition task_ok :: "task_row \<Rightarrow> bool" where
  "task_ok t = (t_id t \<noteq> [] \<and> (terminal (t_state t) \<longrightarrow> t_lease_expires t = None) \<and>
     (\<not> terminal (t_state t) \<longrightarrow> t_result t = None))"

definition tasks_ok :: "hub_db \<Rightarrow> bool" where
  "tasks_ok db = (\<forall>t \<in> set (tasks db). task_ok t \<and> t_workflow t \<in> w_id ` set (workflows db))"

definition event_ok :: "event_row \<Rightarrow> bool" where
  "event_ok v = ((e_state v = Queued \<longleftrightarrow> e_delivery_id v = None) \<and>
     (e_state v \<noteq> Queued \<longrightarrow> e_delivered_at v \<noteq> None \<and> e_delivery_expires v \<noteq> None \<and> 0 < e_attempts v) \<and>
     (e_state v = Acked \<longleftrightarrow> e_acked_at v \<noteq> None))"

definition events_ok :: "hub_db \<Rightarrow> bool" where
  "events_ok db = list_all event_ok (events db)"

definition references_ok :: "hub_db \<Rightarrow> bool" where
  "references_ok db = (
     (\<forall>m \<in> set (messages db). \<forall>i. m_task m = Some i \<longrightarrow> i \<in> t_id ` set (tasks db)) \<and>
     (\<forall>t \<in> set (tasks db). \<forall>v. t_source_event t = Some v \<longrightarrow> v \<in> e_id ` set (events db)))"

text \<open>The newest question of the task is unanswered.\<close>

definition awaiting :: "hub_db \<Rightarrow> string \<Rightarrow> bool" where
  "awaiting db i = (\<exists>q. newest_question db i = Some q \<and>
     (\<forall>m \<in> set (messages db). from_alice i m \<longrightarrow> m_id m < q))"

definition questions_ok :: "hub_db \<Rightarrow> bool" where
  "questions_ok db = (\<forall>i t. task_of db i = Some t \<longrightarrow> t_state t = Input_required \<longrightarrow> awaiting db i)"

definition workspaces_ok :: "hub_db \<Rightarrow> bool" where
  "workspaces_ok db = (\<forall>n m a b w. agent_of db n = Some a \<longrightarrow> agent_of db m = Some b \<longrightarrow>
     live a \<longrightarrow> live b \<longrightarrow> workspace_id (a_profile a) = Some w \<longrightarrow>
     workspace_id (a_profile b) = Some w \<longrightarrow> n = m)"

definition hub_ok :: "hub_db \<Rightarrow> bool" where
  "hub_ok db = (rows_ok db \<and> coupled db \<and> tasks_ok db \<and> events_ok db \<and> references_ok db \<and>
     questions_ok db \<and> workspaces_ok db)"

lemma hub_ok_empty: "hub_ok empty_db"
  by (simp add: hub_ok_def rows_ok_def coupled_def tasks_ok_def events_ok_def references_ok_def
      questions_ok_def workspaces_ok_def empty_db_def agent_of_def task_of_def)

lemma agent_of_iff: "rows_ok db \<Longrightarrow> agent_of db n = Some a \<longleftrightarrow> a \<in> set (agents db) \<and> a_name a = n"
  by (auto simp: rows_ok_def agent_of_def find_key_distinct dest: find_SomeD)

lemma task_of_iff: "rows_ok db \<Longrightarrow> task_of db i = Some t \<longleftrightarrow> t \<in> set (tasks db) \<and> t_id t = i"
  by (auto simp: rows_ok_def task_of_def find_key_distinct dest: find_SomeD)

lemma sorted_wrt_less_distinct: "sorted_wrt (<) (map k xs) \<Longrightarrow> distinct (map k xs)" for k :: "'a \<Rightarrow> nat"
  by (simp add: strict_sorted_iff)

lemma event_of_iff: "rows_ok db \<Longrightarrow> event_of db i = Some v \<longleftrightarrow> v \<in> set (events db) \<and> e_id v = i"
  by (auto simp: rows_ok_def event_of_def find_key_distinct sorted_wrt_less_distinct dest: find_SomeD)

section \<open>Lists behind the primitive writes\<close>

lemma agents_lists [simp]:
  "agents (upd_agent n f db) = update_where (\<lambda>a. a_name a = n) f (agents db)"
  "agents (ins_agent a db) = agents db @ [a]"
  "agents (finish e k db i st p) = map (freed i) (agents db)"
  by (simp_all add: upd_agent_def ins_agent_def finish_def Let_def update_where_def freed_def [abs_def])

definition finished_row :: "iso \<Rightarrow> task_state \<Rightarrow> dict option \<Rightarrow> task_row \<Rightarrow> task_row" where
  "finished_row now st p t = t\<lparr>t_state := st, t_updated := now, t_lease_expires := None, t_result := p\<rparr>"

lemma tasks_lists [simp]:
  "tasks (upd_task i g db) = update_where (\<lambda>t. t_id t = i) g (tasks db)"
  "tasks (ins_task t db) = tasks db @ [t]"
  "tasks (finish e k db i st p) = update_where (\<lambda>t. t_id t = i) (finished_row (now_iso e k) st p) (tasks db)"
  "tasks (set_state e k db i st) =
     update_where (\<lambda>t. t_id t = i) (\<lambda>t. t\<lparr>t_state := st, t_updated := now_iso e k\<rparr>) (tasks db)"
  by (simp_all add: upd_task_def ins_task_def finish_def Let_def finished_row_def [abs_def] set_state_def)

lemma events_lists [simp]:
  "events (upd_event i h db) = update_where (\<lambda>v. e_id v = i) h (events db)"
  by (simp add: upd_event_def)

lemma finished_row_simps [simp]:
  "t_id (finished_row now st p t) = t_id t" "t_workflow (finished_row now st p t) = t_workflow t"
  "t_source_event (finished_row now st p t) = t_source_event t"
  "t_state (finished_row now st p t) = st" "t_lease_expires (finished_row now st p t) = None"
  "t_result (finished_row now st p t) = p" "t_assignee (finished_row now st p t) = t_assignee t"
  by (simp_all add: finished_row_def)

lemma map_freed [simp]:
  "map a_name (map (freed i) xs) = map a_name xs" "map a_context_id (map (freed i) xs) = map a_context_id xs"
  by simp_all

lemma key_update_where:
  assumes "\<And>r. key (f r) = key r"
  shows "key ` set (update_where P f rows) = key ` set rows"
proof -
  have "set (map key (update_where P f rows)) = set (map key rows)" using assms by simp
  then show ?thesis by simp
qed

section \<open>Congruence: what each conjunct reads\<close>

lemma coupled_cong: "agent_of d = agent_of db \<Longrightarrow> task_of d = task_of db \<Longrightarrow> coupled d = coupled db"
  by (simp add: coupled_def)

lemma workspaces_cong: "agent_of d = agent_of db \<Longrightarrow> workspaces_ok d = workspaces_ok db"
  by (simp add: workspaces_ok_def)

lemma awaiting_cong: "messages d = messages db \<Longrightarrow> awaiting d = awaiting db"
  by (simp add: awaiting_def newest_question_def fun_eq_iff)

lemma rows_ok_cong:
  "length (workflows d) = length (workflows db) \<Longrightarrow> map a_name (agents d) = map a_name (agents db) \<Longrightarrow>
   map a_context_id (agents d) = map a_context_id (agents db) \<Longrightarrow> map t_id (tasks d) = map t_id (tasks db) \<Longrightarrow>
   map t_source_event (tasks d) = map t_source_event (tasks db) \<Longrightarrow>
   messages d = messages db \<Longrightarrow> message_seq d = message_seq db \<Longrightarrow>
   map e_id (events d) = map e_id (events db) \<Longrightarrow> event_seq d = event_seq db \<Longrightarrow>
   decisions d = decisions db \<Longrightarrow> decision_seq d = decision_seq db \<Longrightarrow>
   operations d = operations db \<Longrightarrow> rows_ok d = rows_ok db"
  by (simp only: rows_ok_def)

lemma references_ok_cong:
  "messages d = messages db \<Longrightarrow> map t_id (tasks d) = map t_id (tasks db) \<Longrightarrow>
   map t_source_event (tasks d) = map t_source_event (tasks db) \<Longrightarrow>
   map e_id (events d) = map e_id (events db) \<Longrightarrow> references_ok d = references_ok db"
proof -
  have *: "references_ok db = (
     (\<forall>m \<in> set (messages db). \<forall>i. m_task m = Some i \<longrightarrow> i \<in> set (map t_id (tasks db))) \<and>
     (\<forall>s \<in> set (map t_source_event (tasks db)). \<forall>v. s = Some v \<longrightarrow> v \<in> set (map e_id (events db))))" for db
    by (simp add: references_ok_def)
  assume "messages d = messages db" "map t_id (tasks d) = map t_id (tasks db)"
    "map t_source_event (tasks d) = map t_source_event (tasks db)"
    "map e_id (events d) = map e_id (events db)"
  then show ?thesis by (simp only: *)
qed

section \<open>Messages, events, operations\<close>

lemma rows_ok_add_event: "rows_ok db \<Longrightarrow> rows_ok (snd (add_event e n db k p))"
  by (auto simp: rows_ok_def sorted_wrt_append list_all_iff)

lemma references_ok_add_event: "references_ok db \<Longrightarrow> references_ok (snd (add_event e n db k p))"
  by (force simp: references_ok_def)

lemma hub_ok_add_event [inv_intros]: "hub_ok db \<Longrightarrow> hub_ok (snd (add_event e n db k p))"
  by (simp add: hub_ok_def rows_ok_add_event references_ok_add_event tasks_ok_def events_ok_def
      event_ok_def questions_ok_def awaiting_def newest_question_def coupled_def workspaces_ok_def)

lemma rows_ok_add_message:
  "add_message e n db tid ctx sender dir parts = Inr (i, db') \<Longrightarrow> rows_ok db \<Longrightarrow> rows_ok db'"
  by (auto simp: add_message_Inr rows_ok_def sorted_wrt_append list_all_iff)

lemma references_ok_add_message:
  "add_message e n db tid ctx sender dir parts = Inr (i, db') \<Longrightarrow> references_ok db \<Longrightarrow>
   (\<forall>j. tid = Some j \<longrightarrow> j \<in> t_id ` set (tasks db)) \<Longrightarrow> references_ok db'"
  by (auto simp: add_message_Inr references_ok_def)

text \<open>
  A new message leaves the questions of every other task alone; for its own task only a
  message to Alice does.
\<close>

lemma newest_question_snoc:
  assumes "rows_ok db" and "add_message e n db tid ctx sender dir parts = Inr (i, db')"
  shows "newest_question db' j =
    (if tid = Some j \<and> dir = To_alice \<and>
        is_question \<lparr>m_id = i, m_task = tid, m_context = ctx, m_sender = sender, m_direction = dir,
          m_parts = parts, m_ts = now_iso e n\<rparr>
     then Some i else newest_question db j)"
proof -
  let ?m = "\<lparr>m_id = i, m_task = tid, m_context = ctx, m_sender = sender, m_direction = dir,
          m_parts = parts, m_ts = now_iso e n\<rparr>"
  have ms: "messages db' = messages db @ [?m]" using assms(2) by (simp add: add_message_Inr)
  have srt: "sorted_wrt (<) (map m_id (messages db'))"
    using rows_ok_add_message [OF assms(2,1)] by (simp add: rows_ok_def)
  have id: "sort_key m_id (filter P ms) = filter P ms" if "sorted_wrt (<) (map m_id ms)" for P ms
  proof -
    have "sorted (map m_id (filter P ms))"
      using that by (simp add: strict_sorted_iff sorted_filter)
    then show ?thesis by (rule sort_key_id_if_sorted)
  qed
  have srt0: "sorted_wrt (<) (map m_id (messages db))" using assms(1) by (simp add: rows_ok_def)
  show ?thesis
    unfolding newest_question_def id [OF srt] id [OF srt0] unfolding ms
    by (auto simp: to_alice_def)
qed

lemma awaiting_add_message:
  assumes "rows_ok db" and add: "add_message e n db tid ctx sender dir parts = Inr (i, db')"
  shows "tid \<noteq> Some j \<Longrightarrow> awaiting db' j = awaiting db j"
    and "tid = Some j \<Longrightarrow> dir = To_alice \<Longrightarrow> awaiting db j \<Longrightarrow> awaiting db' j"
    and "tid = Some j \<Longrightarrow> dir = To_alice \<Longrightarrow>
      is_question \<lparr>m_id = i, m_task = tid, m_context = ctx, m_sender = sender, m_direction = dir,
          m_parts = parts, m_ts = now_iso e n\<rparr> \<Longrightarrow> awaiting db' j"
proof -
  note nq = newest_question_snoc [OF assms, of j]
  have ms: "messages db' = messages db @ [\<lparr>m_id = i, m_task = tid, m_context = ctx,
      m_sender = sender, m_direction = dir, m_parts = parts, m_ts = now_iso e n\<rparr>]"
    and i: "i = Suc (message_seq db)"
    using add by (simp_all add: add_message_Inr)
  have le: "m_id m < i" if "m \<in> set (messages db)" for m
    using that assms(1) i by (auto simp: rows_ok_def list_all_iff le_imp_less_Suc)
  show "tid \<noteq> Some j \<Longrightarrow> awaiting db' j = awaiting db j"
    by (auto simp: awaiting_def nq ms from_alice_def)
  show "tid = Some j \<Longrightarrow> dir = To_alice \<Longrightarrow> awaiting db j \<Longrightarrow> awaiting db' j"
    using le by (auto simp: awaiting_def nq ms from_alice_def)
  show "tid = Some j \<Longrightarrow> dir = To_alice \<Longrightarrow> is_question \<lparr>m_id = i, m_task = tid, m_context = ctx,
      m_sender = sender, m_direction = dir, m_parts = parts, m_ts = now_iso e n\<rparr> \<Longrightarrow> awaiting db' j"
    using le by (auto simp: awaiting_def nq ms from_alice_def)
qed

lemma rows_ok_record_reply:
  assumes "rows_ok db" and "replayed db actor op hash = Inr None"
  shows "rows_ok (snd (record_reply e n db actor op hash b r))"
proof -
  have "operation_of db actor i = None" if "op = Some i" "hash = Some h" for i h
    using assms(2) that by (auto simp: replayed_def split: option.splits if_splits)
  then have "(actor, i) \<notin> (\<lambda>r. (o_actor r, o_operation_id r)) ` set (operations db)"
    if "op = Some i" "hash = Some h" for i h
    using that by (auto simp: operation_of_def find_None_iff)
  then show ?thesis using assms(1)
    by (auto simp: record_reply_def ins_operation_def rows_ok_def split: option.splits)
qed

lemma hub_ok_record_reply [inv_intros]:
  assumes "hub_ok db" and "replayed db actor op hash = Inr None"
  shows "hub_ok (snd (record_reply e n db actor op hash b r))"
  using assms rows_ok_record_reply [of db actor op hash e n b r]
  by (simp add: hub_ok_def tasks_ok_def events_ok_def references_ok_def questions_ok_def
      awaiting_def newest_question_def coupled_def workspaces_ok_def)

end
