(* ===== verification/HubAgents.thy ===== *)
theory HubAgents
  imports HubInv
begin

text \<open>Every workflow and agent operation keeps the invariant of the durable state.\<close>

lemma hub_okI:
  "rows_ok db \<Longrightarrow> coupled db \<Longrightarrow> tasks_ok db \<Longrightarrow> events_ok db \<Longrightarrow> references_ok db \<Longrightarrow>
   questions_ok db \<Longrightarrow> workspaces_ok db \<Longrightarrow> hub_ok db"
  by (simp add: hub_ok_def)

lemma hub_okD:
  assumes "hub_ok db"
  shows "rows_ok db" "coupled db" "tasks_ok db" "events_ok db" "references_ok db"
    "questions_ok db" "workspaces_ok db"
  using assms by (simp_all add: hub_ok_def)

lemma questions_ok_cong:
  "messages d = messages db \<Longrightarrow> task_of d = task_of db \<Longrightarrow> questions_ok d = questions_ok db"
  using awaiting_cong [of d db] by (simp add: questions_ok_def)

lemma tasks_ok_cong:
  "tasks d = tasks db \<Longrightarrow> w_id ` set (workflows d) = w_id ` set (workflows db) \<Longrightarrow> tasks_ok d = tasks_ok db"
  by (simp add: tasks_ok_def)

lemma coupled_agentD:
  "coupled db \<Longrightarrow> agent_of db n = Some a \<Longrightarrow> a_current_task a = Some i \<Longrightarrow>
   \<exists>t. task_of db i = Some t \<and> \<not> terminal (t_state t) \<and> t_assignee t = Some n"
  unfolding coupled_def by blast

lemma coupled_taskD:
  "coupled db \<Longrightarrow> task_of db i = Some t \<Longrightarrow> \<not> terminal (t_state t) \<Longrightarrow>
   \<exists>n a. t_assignee t = Some n \<and> agent_of db n = Some a \<and> a_current_task a = Some i"
  unfolding coupled_def by blast

lemma coupled_statusD:
  "coupled db \<Longrightarrow> agent_of db n = Some a \<Longrightarrow>
   (a_status a = Busy \<longrightarrow> a_current_task a \<noteq> None) \<and>
   (a_status a = Idle \<or> a_status a = Lost \<longrightarrow> a_current_task a = None)"
  unfolding coupled_def by blast

lemma coupledI:
  assumes "\<And>n a i. agent_of db n = Some a \<Longrightarrow> a_current_task a = Some i \<Longrightarrow>
      \<exists>t. task_of db i = Some t \<and> \<not> terminal (t_state t) \<and> t_assignee t = Some n"
    and "\<And>i t. task_of db i = Some t \<Longrightarrow> \<not> terminal (t_state t) \<Longrightarrow>
      \<exists>n a. t_assignee t = Some n \<and> agent_of db n = Some a \<and> a_current_task a = Some i"
    and "\<And>n a. agent_of db n = Some a \<Longrightarrow> (a_status a = Busy \<longrightarrow> a_current_task a \<noteq> None) \<and>
      (a_status a = Idle \<or> a_status a = Lost \<longrightarrow> a_current_task a = None)"
  shows "coupled db"
  using assms unfolding coupled_def by blast

lemma coupled_open_task_id:
  assumes "coupled db" "agent_of db n = Some a"
  shows "open_task_id db (a_current_task a) = a_current_task a"
proof (cases "a_current_task a")
  case (Some i)
  with coupled_agentD [OF assms Some] show ?thesis by (auto simp: open_task_id_def)
qed (simp add: open_task_id_def)

lemma task_id_nonempty: "tasks_ok db \<Longrightarrow> task_of db i = Some t \<Longrightarrow> i \<noteq> []"
  using task_of_mem task_of_id by (fastforce simp: tasks_ok_def task_ok_def)

section \<open>Updating one agent row\<close>

lemma rows_ok_upd_agent:
  "(\<And>a. a_name (f a) = a_name a) \<Longrightarrow> (\<And>a. a_context_id (f a) = a_context_id a) \<Longrightarrow>
   rows_ok (upd_agent n f db) = rows_ok db"
  by (rule rows_ok_cong) simp_all

lemma hub_ok_upd_agent:
  assumes ok: "hub_ok db" and f: "\<And>a. a_name (f a) = a_name a" "\<And>a. a_context_id (f a) = a_context_id a"
    and cur: "\<And>a. agent_of db n = Some a \<Longrightarrow> a_current_task (f a) = a_current_task a"
    and st: "\<And>a. agent_of db n = Some a \<Longrightarrow> (a_status (f a) = Busy \<longrightarrow> a_current_task a \<noteq> None) \<and>
        (a_status (f a) = Idle \<or> a_status (f a) = Lost \<longrightarrow> a_current_task a = None)"
    and ws: "\<And>a b m w. agent_of db n = Some a \<Longrightarrow> live (f a) \<Longrightarrow> workspace_id (a_profile (f a)) = Some w \<Longrightarrow>
        agent_of db m = Some b \<Longrightarrow> live b \<Longrightarrow> workspace_id (a_profile b) = Some w \<Longrightarrow> m = n"
  shows "hub_ok (upd_agent n f db)"
proof (rule hub_okI)
  note D = hub_okD [OF ok]
  have get: "agent_of (upd_agent n f db) m = (if m = n then map_option f (agent_of db m) else agent_of db m)" for m
    by (rule agent_tbl.get_upd) (rule f)
  show "rows_ok (upd_agent n f db)" using D(1) rows_ok_upd_agent [OF f] by simp
  show "coupled (upd_agent n f db)"
  proof (rule coupledI, unfold lookup_frames)
    fix m a i assume "agent_of (upd_agent n f db) m = Some a" "a_current_task a = Some i"
    then obtain b where "agent_of db m = Some b" "a_current_task b = Some i"
      using cur by (auto simp: get split: if_splits)
    then show "\<exists>t. task_of db i = Some t \<and> \<not> terminal (t_state t) \<and> t_assignee t = Some m"
      by (rule coupled_agentD [OF D(2)])
  next
    fix i t assume t: "task_of db i = Some t" "\<not> terminal (t_state t)"
    then obtain m a where m: "t_assignee t = Some m" "agent_of db m = Some a" "a_current_task a = Some i"
      using coupled_taskD [OF D(2)] by blast
    show "\<exists>m a. t_assignee t = Some m \<and> agent_of (upd_agent n f db) m = Some a \<and> a_current_task a = Some i"
      using m cur [of a] by (cases "m = n") (auto simp: get)
  next
    fix m a assume a: "agent_of (upd_agent n f db) m = Some a"
    show "(a_status a = Busy \<longrightarrow> a_current_task a \<noteq> None) \<and>
        (a_status a = Idle \<or> a_status a = Lost \<longrightarrow> a_current_task a = None)"
    proof (cases "m = n")
      case True
      with a obtain b where b: "agent_of db n = Some b" "a = f b" by (auto simp: get)
      show ?thesis using st [OF b(1)] cur [OF b(1)] by (simp only: b(2))
    next
      case False
      with a show ?thesis using coupled_statusD [OF D(2)] by (simp add: get)
    qed
  qed
  show "tasks_ok (upd_agent n f db)" using D(3) by (simp add: tasks_ok_def)
  show "events_ok (upd_agent n f db)" using D(4) by (simp add: events_ok_def)
  show "references_ok (upd_agent n f db)" using D(5) by (simp add: references_ok_def)
  show "questions_ok (upd_agent n f db)" using D(6) questions_ok_cong [of "upd_agent n f db" db] by simp
  show "workspaces_ok (upd_agent n f db)"
    using D(7) ws unfolding workspaces_ok_def get
    by (auto split: if_splits)
qed

section \<open>Workflow operations\<close>

lemma initialize_workflow_ok [inv_intros]:
  assumes "initialize_workflow e db goal policy = Inr (wid, db', ks)" and ok: "hub_ok db"
  shows "hub_ok db'"
proof (cases "workflow_row_of db")
  case None
  then have "workflows db = []" by (auto simp: workflow_row_of_def first_by_None)
  with ok have "tasks db = []" by (cases "tasks db") (auto simp: hub_ok_def tasks_ok_def)
  have db': "db' = db\<lparr>workflows := workflows db'\<rparr>" "length (workflows db') = 1"
    using assms(1) None \<open>workflows db = []\<close> by (auto simp: initialize_workflow_def Let_def split: sum.splits)
  have [simp]: "agent_of db' = agent_of db" "task_of db' = task_of db"
    by (rule lookup_cong, subst db'(1), simp)+
  have fr: "messages db' = messages db" "tasks db' = tasks db" "events db' = events db"
    "agents db' = agents db" "decisions db' = decisions db" "operations db' = operations db"
    "message_seq db' = message_seq db" "event_seq db' = event_seq db" "decision_seq db' = decision_seq db"
    by (subst db'(1), simp)+
  show ?thesis using ok db'(2) \<open>tasks db = []\<close>
    by (simp add: hub_ok_def rows_ok_def coupled_def tasks_ok_def events_ok_def references_ok_def
        questions_ok_def awaiting_def newest_question_def workspaces_ok_def fr)
next
  case (Some w)
  with assms have "db' = db" by (auto simp: initialize_workflow_def split: sum.splits if_splits)
  with ok show ?thesis by simp
qed

lemma hub_ok_decisions:
  assumes ok: "hub_ok db" and ids: "w_id ` set ws = w_id ` set (workflows db)" "length ws = length (workflows db)"
  shows "hub_ok (db\<lparr>workflows := ws, decisions := decisions db @ [\<lparr>d_id = Suc (decision_seq db),
     d_ts = ts, d_summary = s, d_rationale = r, d_key = k\<rparr>], decision_seq := Suc (decision_seq db)\<rparr>)"
    (is "hub_ok ?d")
proof -
  have [simp]: "agent_of ?d = agent_of db" "task_of ?d = task_of db"
    by (rule lookup_cong, simp)+
  show ?thesis using ok ids
    by (auto simp: hub_ok_def rows_ok_def coupled_def tasks_ok_def events_ok_def references_ok_def
        questions_ok_def awaiting_def newest_question_def workspaces_ok_def sorted_wrt_append list_all_iff)
qed

lemma set_workflow_status_ok [inv_intros]:
  assumes "set_workflow_status e db status summary = Inr (u, db', ks)" and "hub_ok db"
  shows "hub_ok db'"
proof -
  obtain wid where "db' = db \<or> db' = db\<lparr>workflows := update_where (\<lambda>w. w_id w = wid)
        (\<lambda>w. w\<lparr>w_status := status\<rparr>) (workflows db),
      decisions := decisions db @ [\<lparr>d_id = Suc (decision_seq db), d_ts = now_iso e 0, d_summary = summary,
        d_rationale = ''Workflow status set to '' @ workflow_status_value status, d_key = None\<rparr>],
      decision_seq := Suc (decision_seq db)\<rparr>"
    using assms(1) by (auto simp: set_workflow_status_def Let_def split: if_splits)
  moreover have "w_id ` set (update_where (\<lambda>w. w_id w = wid) (\<lambda>w. w\<lparr>w_status := status\<rparr>) (workflows db))
      = w_id ` set (workflows db)"
    by (rule key_update_where) simp
  ultimately show ?thesis using assms(2) hub_ok_decisions [OF assms(2)] by auto
qed

lemma log_decision_ok [inv_intros]:
  assumes "log_decision e db summary rationale key = Inr (i, db', ks)" and "hub_ok db"
  shows "hub_ok db'"
proof -
  have "db' = db \<or> db' = db\<lparr>workflows := workflows db, decisions := decisions db @ [\<lparr>d_id = Suc (decision_seq db),
      d_ts = now_iso e 0, d_summary = summary, d_rationale = rationale, d_key = key\<rparr>],
      decision_seq := Suc (decision_seq db)\<rparr>"
    using assms(1) by (auto simp: log_decision_def Let_def split: option.splits)
  then show ?thesis using assms(2) hub_ok_decisions [OF assms(2), of "workflows db"] by auto
qed

section \<open>Agent operations\<close>

lemma hub_ok_ins_agent:
  assumes ok: "hub_ok db" and fresh: "agent_of db (a_name a) = None" "a_context_id a \<notin> a_context_id ` set (agents db)"
    and idle: "a_current_task a = None" "a_status a = Idle"
    and ws: "\<And>b m w. workspace_id (a_profile a) = Some w \<Longrightarrow> agent_of db m = Some b \<Longrightarrow> live b \<Longrightarrow>
        workspace_id (a_profile b) = Some w \<Longrightarrow> m = a_name a"
  shows "hub_ok (ins_agent a db)"
proof (rule hub_okI)
  note D = hub_okD [OF ok]
  have get: "agent_of (ins_agent a db) = (agent_of db)(a_name a \<mapsto> a)"
    by (rule agent_tbl.get_ins_fresh) (rule fresh)
  have "a_name a \<notin> a_name ` set (agents db)"
    using fresh(1) by (auto simp: agent_of_def find_None_iff)
  then show "rows_ok (ins_agent a db)" using D(1) fresh(2) by (simp add: rows_ok_def)
  show "coupled (ins_agent a db)"
  proof (rule coupledI, unfold lookup_frames get)
    fix n b i assume "((agent_of db)(a_name a \<mapsto> a)) n = Some b" "a_current_task b = Some i"
    then have "agent_of db n = Some b" using idle by (auto split: if_splits)
    then show "\<exists>t. task_of db i = Some t \<and> \<not> terminal (t_state t) \<and> t_assignee t = Some n"
      using \<open>a_current_task b = Some i\<close> by (rule coupled_agentD [OF D(2)])
  next
    fix i t assume "task_of db i = Some t" "\<not> terminal (t_state t)"
    then obtain n b where "t_assignee t = Some n" "agent_of db n = Some b" "a_current_task b = Some i"
      using coupled_taskD [OF D(2)] by blast
    moreover from this have "n \<noteq> a_name a" using fresh(1) by auto
    ultimately show "\<exists>n b. t_assignee t = Some n \<and> ((agent_of db)(a_name a \<mapsto> a)) n = Some b \<and>
        a_current_task b = Some i" by auto
  next
    fix n b assume "((agent_of db)(a_name a \<mapsto> a)) n = Some b"
    then show "(a_status b = Busy \<longrightarrow> a_current_task b \<noteq> None) \<and>
        (a_status b = Idle \<or> a_status b = Lost \<longrightarrow> a_current_task b = None)"
      using idle coupled_statusD [OF D(2), of n b] by (auto split: if_splits)
  qed
  show "workspaces_ok (ins_agent a db)"
    using D(7) ws fresh(1) unfolding workspaces_ok_def get
    by (auto simp: fun_upd_apply split: if_splits)
  show "tasks_ok (ins_agent a db)" "events_ok (ins_agent a db)" "references_ok (ins_agent a db)"
    using D by (simp_all add: tasks_ok_def events_ok_def references_ok_def)
  show "questions_ok (ins_agent a db)" using D(6) questions_ok_cong [of "ins_agent a db" db] by simp
qed

lemma workspace_owner_None:
  "workspace_owner db (Some w) name = None \<Longrightarrow> agent_of db m = Some b \<Longrightarrow> live b \<Longrightarrow>
   workspace_id (a_profile b) = Some w \<Longrightarrow> m = name"
  using agent_of_mem [of db m b] agent_of_name [of db m b]
  by (auto simp: workspace_owner_def find_None_iff)

lemma check_in_row_ok:
  assumes row: "check_in_row e db name profile inst addr = Inr db'" and ok: "hub_ok db"
    and own: "workspace_owner db (workspace_id profile) name = None"
  shows "hub_ok db'"
proof (cases "agent_of db name")
  case None
  with row have "uuid_at e 1 \<notin> a_context_id ` set (agents db)" and
    "db' = ins_agent \<lparr>a_name = name, a_profile = profile, a_status = Idle,
       a_context_id = uuid_at e 1, a_last_seen = now_iso e 0, a_instance = inst,
       a_last_heartbeat = now_iso e 0, a_last_progress_at = None, a_current_task = None,
       a_checkin_addr = addr, a_last_addr = addr\<rparr> db"
    by (auto simp: check_in_row_def Let_def split: if_splits)
  then show ?thesis
    using ok None own by (auto intro!: hub_ok_ins_agent dest: workspace_owner_None)
next
  case (Some r)
  note row0 = this and D = hub_okD [OF ok]
  from Some row have db': "db' = upd_agent name (\<lambda>a. a\<lparr>a_status := readmitted (a_status r) (a_current_task r),
      a_last_seen := now_iso e 0, a_instance := inst, a_last_heartbeat := now_iso e 0,
      a_last_progress_at := (if a_status r = Lost then None else a_last_progress_at r),
      a_current_task := a_current_task r, a_profile := profile, a_checkin_addr := addr, a_last_addr := addr\<rparr>) db"
    by (auto simp: check_in_row_def Let_def coupled_open_task_id [OF D(2) Some] split: if_splits)
  have st: "(readmitted (a_status r) (a_current_task r) = Busy \<longrightarrow> a_current_task r \<noteq> None) \<and>
      (readmitted (a_status r) (a_current_task r) = Idle \<or> readmitted (a_status r) (a_current_task r) = Lost \<longrightarrow>
        a_current_task r = None)"
  proof (cases "a_current_task r")
    case (Some i)
    then obtain t where "task_of db i = Some t" using coupled_agentD [OF D(2) row0 Some] by blast
    then have "i \<noteq> []" by (rule task_id_nonempty [OF D(3)])
    with Some show ?thesis by (simp add: readmitted_def)
  qed (simp add: readmitted_def)
  show ?thesis unfolding db'
    by (rule hub_ok_upd_agent [OF ok]) (use Some st own in \<open>auto dest: workspace_owner_None\<close>)
qed

lemma questions_ok_add_message_None:
  "rows_ok db \<Longrightarrow> add_message e n db None ctx sender dir parts = Inr (i, db') \<Longrightarrow>
   questions_ok db \<Longrightarrow> questions_ok db'"
  by (simp add: questions_ok_def awaiting_add_message(1) add_message_frames)

lemma hub_ok_add_message_None:
  assumes "add_message e n db None ctx sender dir parts = Inr (i, db')" and "hub_ok db"
  shows "hub_ok db'"
  using assms rows_ok_add_message [OF assms(1)] references_ok_add_message [OF assms(1)]
    questions_ok_add_message_None [OF _ assms(1)] add_message_frames [OF assms(1)]
    coupled_cong [of db' db] workspaces_cong [of db' db]
  by (simp add: hub_ok_def tasks_ok_def events_ok_def)

lemma replayed_cong: "operations d = operations db \<Longrightarrow> replayed d = replayed db"
proof -
  assume "operations d = operations db"
  then have "operation_of d = operation_of db" by (rule lookup_cong)
  then show ?thesis by (intro ext) (simp only: replayed_def)
qed

lemma check_in_cases:
  assumes ci: "check_in e db name profile inst op hash builder addr = Inr (r, db', ks)"
  obtains (replay) resp where "replayed db name op hash = Inr (Some resp)" "r = Pair_json resp False"
      "db' = db" "ks = []"
  | (fresh) i db1 row parts mid db2 pay db3 agent where
      "i = (case inst of None \<Rightarrow> uuid_at e 0 | Some i \<Rightarrow> if i = [] then uuid_at e 0 else i)"
      "replayed db name op hash = Inr None" "workspace_owner db (workspace_id profile) name = None"
      "check_in_row e db name profile i addr = Inr db1" "agent_of db1 name = Some row"
      "add_message e 1 db1 None (a_context_id row) name To_alice parts = Inr (mid, db2)"
      "db3 = snd (add_event e 2 db2 Agent_checked_in pay)" "agent_of db3 name = Some agent"
      "(r, db') = record_reply e 3 db3 name op hash builder agent" "ks = [EVENT_KEY]"
proof -
  define i where "i = (case inst of None \<Rightarrow> uuid_at e 0 | Some i \<Rightarrow> if i = [] then uuid_at e 0 else i)"
  note c1 = ci [unfolded check_in_def Let_def, folded i_def]
  from c1 obtain prior where prior: "replayed db name op hash = Inr prior" by auto
  show thesis
  proof (cases prior)
    case (Some resp)
    with c1 prior show thesis by (intro replay) auto
  next
    case None
    note c2 = c1 [unfolded prior None ebind_Inr option.case]
    from c2 have own: "workspace_owner db (workspace_id profile) name = None"
      by (cases "workspace_owner db (workspace_id profile) name") simp_all
    note c3 = c2 [unfolded own option.case]
    from c3 obtain db1 where row: "check_in_row e db name profile i addr = Inr db1" by auto
    note c4 = c3 [unfolded row ebind_Inr]
    from c4 obtain rw where rw: "require_agent db1 name = Inr rw"
      by (cases "require_agent db1 name") simp_all
    note c5 = c4 [unfolded rw ebind_Inr]
    let ?parts = "[text_part ''READY'' (dict_merge [(K_KIND, JStr ''check_in'')]
                  (map (\<lambda>(k, v). (''hub.'' @ k, v)) (profile_payload profile)))]"
    from c5 obtain mid db2 where
      msg: "add_message e 1 db1 None (a_context_id rw) name To_alice ?parts = Inr (mid, db2)"
      by (cases "add_message e 1 db1 None (a_context_id rw) name To_alice ?parts") auto
    let ?pay = "dict_merge (dict_merge [(''agent'', JStr name)] (profile_payload profile))
                      [(''context_id'', JStr (a_context_id rw)), (''worker_instance_id'', JStr i)]"
    define db3 where "db3 = snd (add_event e 2 db2 Agent_checked_in ?pay)"
    note c6 = c5 [unfolded msg ebind_Inr prod.case, folded db3_def]
    from c6 obtain agent where agent: "require_agent db3 name = Inr agent"
      by (cases "require_agent db3 name") simp_all
    note c7 = c6 [unfolded agent ebind_Inr case_prod_beta]
    from rw agent have rw': "agent_of db1 name = Some rw" "agent_of db3 name = Some agent" by simp_all
    have fin: "(r, db') = record_reply e 3 db3 name op hash builder agent" "ks = [EVENT_KEY]"
      using c7 by (auto simp: prod_eq_iff)
    show thesis
      by (rule fresh [OF i_def _ own row rw'(1) msg db3_def rw'(2) fin]) (simp add: prior None)
  qed
qed

lemma check_in_ok [inv_intros]:
  assumes ci: "check_in e db name profile inst op hash builder addr = Inr (r, db', ks)" and ok: "hub_ok db"
  shows "hub_ok db'"
  using ci
proof (cases rule: check_in_cases)
  case (fresh i db1 row parts mid db2 pay db3 agent)
  have "operations db2 = operations db"
    using fresh(4) add_message_frames [OF fresh(6)]
    by (auto simp: check_in_row_def Let_def split: option.splits if_splits)
  then have "replayed db3 name op hash = Inr None"
    using replayed_cong [of db3 db] fresh(2,7) by simp
  moreover have "hub_ok db3" unfolding fresh(7)
    by (intro hub_ok_add_event hub_ok_add_message_None [OF fresh(6)] check_in_row_ok [OF fresh(4) ok fresh(3)])
  ultimately have "hub_ok (snd (record_reply e 3 db3 name op hash builder agent))" by (rule hub_ok_record_reply [rotated])
  then show ?thesis by (metis fresh(9) snd_conv)
qed (use ok in simp)

lemma release_agent_ok [inv_intros]:
  assumes "release_agent db name = Inr (r, db', ks)" and ok: "hub_ok db"
  shows "hub_ok db'"
proof -
  have "db' = db \<or> db' = upd_agent name (\<lambda>a. a\<lparr>a_status := Released_status\<rparr>) db"
    using assms(1) by (auto simp: release_agent_def Let_def split: if_splits)
  moreover have "hub_ok (upd_agent name (\<lambda>a. a\<lparr>a_status := Released_status\<rparr>) db)"
    by (rule hub_ok_upd_agent [OF ok]) (auto simp: live_def)
  ultimately show ?thesis using ok by auto
qed

end
