(* ===== verification/HubTasks.thy ===== *)
theory HubTasks
  imports HubAgents
begin

text \<open>
  Every task, inbox and sweep operation keeps the invariant. Between a message to a worker
  and the state change it announces the transcript and the task disagree for one task;
  \<open>hub_ok_but i\<close> is the invariant with that clause suspended for task \<open>i\<close>.
\<close>

definition hub_ok_but :: "string \<Rightarrow> hub_db \<Rightarrow> bool" where
  "hub_ok_but i db = (rows_ok db \<and> coupled db \<and> tasks_ok db \<and> events_ok db \<and> references_ok db \<and>
     workspaces_ok db \<and> (\<forall>j t. j \<noteq> i \<longrightarrow> task_of db j = Some t \<longrightarrow> t_state t = Input_required \<longrightarrow> awaiting db j))"

lemma hub_ok_weaken: "hub_ok db \<Longrightarrow> hub_ok_but i db"
  by (simp add: hub_ok_def hub_ok_but_def questions_ok_def)

lemma hub_ok_close:
  "hub_ok_but i db \<Longrightarrow> (\<And>t. task_of db i = Some t \<Longrightarrow> t_state t = Input_required \<Longrightarrow> awaiting db i) \<Longrightarrow> hub_ok db"
  by (auto simp: hub_ok_def hub_ok_but_def questions_ok_def) metis

lemma hub_ok_butD:
  assumes "hub_ok_but i db"
  shows "rows_ok db" "coupled db" "tasks_ok db" "events_ok db" "references_ok db" "workspaces_ok db"
    "\<And>j t. j \<noteq> i \<Longrightarrow> task_of db j = Some t \<Longrightarrow> t_state t = Input_required \<Longrightarrow> awaiting db j"
  using assms by (auto simp: hub_ok_but_def)

lemma hub_ok_but_add_message:
  assumes msg: "add_message e n db (Some i) ctx sender dir parts = Inr (mid, db')"
    and ok: "hub_ok_but i db" and t: "task_of db i = Some t"
  shows "hub_ok_but i db'"
proof -
  note D = hub_ok_butD [OF ok] and F = add_message_frames [OF msg]
  have "i \<in> t_id ` set (tasks db)" using task_of_mem [OF t] task_of_id [OF t] by auto
  then show ?thesis
    unfolding hub_ok_but_def
    using rows_ok_add_message [OF msg D(1)] references_ok_add_message [OF msg D(5)]
      coupled_cong [OF F(9,10)] workspaces_cong [OF F(9)] awaiting_add_message(1) [OF D(1) msg] D
    by (simp add: F tasks_ok_def events_ok_def)
qed

section \<open>Updating one task row\<close>

lemma hub_ok_but_upd_task:
  assumes ok: "hub_ok_but i db"
    and f: "\<And>t. t_id (f t) = t_id t" "\<And>t. t_workflow (f t) = t_workflow t"
      "\<And>t. t_source_event (f t) = t_source_event t" "\<And>t. t_assignee (f t) = t_assignee t"
    and st: "\<And>t. task_of db i = Some t \<Longrightarrow> terminal (t_state (f t)) = terminal (t_state t) \<and> task_ok (f t)"
  shows "hub_ok_but i (upd_task i f db)"
proof -
  note D = hub_ok_butD [OF ok]
  have get: "task_of (upd_task i f db) j = (if j = i then map_option f (task_of db j) else task_of db j)" for j
    by (rule task_tbl.get_upd) (rule f)
  have tasks: "map t_id (tasks (upd_task i f db)) = map t_id (tasks db)"
    "map t_source_event (tasks (upd_task i f db)) = map t_source_event (tasks db)"
    using f by simp_all
  have "rows_ok (upd_task i f db)" using D(1) rows_ok_cong [of "upd_task i f db" db] tasks by simp
  moreover have "references_ok (upd_task i f db)"
    using D(5) references_ok_cong [of "upd_task i f db" db] tasks by simp
  moreover have "coupled (upd_task i f db)"
  proof (rule coupledI, unfold lookup_frames)
    fix n a j assume "agent_of db n = Some a" "a_current_task a = Some j"
    then obtain t where "task_of db j = Some t" "\<not> terminal (t_state t)" "t_assignee t = Some n"
      using coupled_agentD [OF D(2)] by blast
    then show "\<exists>t. task_of (upd_task i f db) j = Some t \<and> \<not> terminal (t_state t) \<and> t_assignee t = Some n"
      using st f by (auto simp: get)
  next
    fix j t assume t: "task_of (upd_task i f db) j = Some t" "\<not> terminal (t_state t)"
    then obtain u where "task_of db j = Some u" "\<not> terminal (t_state u)" "t_assignee u = t_assignee t"
      using st f by (auto simp: get split: if_splits)
    then show "\<exists>n a. t_assignee t = Some n \<and> agent_of db n = Some a \<and> a_current_task a = Some j"
      using coupled_taskD [OF D(2)] by metis
  qed (use coupled_statusD [OF D(2)] in blast)
  moreover have "tasks_ok (upd_task i f db)"
    using D(3) st task_of_iff [OF D(1)] f by (auto simp: tasks_ok_def set_update_where)
  moreover have "events_ok (upd_task i f db)" using D(4) by (simp add: events_ok_def)
  moreover have "workspaces_ok (upd_task i f db)" using D(6) by (simp add: workspaces_ok_def)
  moreover have "awaiting (upd_task i f db) = awaiting db" by (rule awaiting_cong) simp
  ultimately show ?thesis unfolding hub_ok_but_def using D(7) by (simp add: get)
qed

lemma hub_ok_upd_task:
  assumes ok: "hub_ok db"
    and f: "\<And>t. t_id (f t) = t_id t" "\<And>t. t_workflow (f t) = t_workflow t"
      "\<And>t. t_source_event (f t) = t_source_event t" "\<And>t. t_assignee (f t) = t_assignee t"
    and st: "\<And>t. task_of db i = Some t \<Longrightarrow> t_state (f t) = t_state t \<and> task_ok (f t)"
  shows "hub_ok (upd_task i f db)"
proof (rule hub_ok_close [of i])
  show "hub_ok_but i (upd_task i f db)"
    by (rule hub_ok_but_upd_task [OF hub_ok_weaken [OF ok] f]) (use st in auto)
  fix t assume "task_of (upd_task i f db) i = Some t" "t_state t = Input_required"
  then obtain u where "task_of db i = Some u" "t_state u = Input_required"
    using st by (auto simp: task_tbl.get_upd f)
  then have "awaiting db i" using ok by (simp add: hub_ok_def questions_ok_def)
  moreover have "awaiting (upd_task i f db) = awaiting db" by (rule awaiting_cong) simp
  ultimately show "awaiting (upd_task i f db) i" by simp
qed

lemma task_okD: "tasks_ok db \<Longrightarrow> task_of db i = Some t \<Longrightarrow> task_ok t"
  using task_of_mem by (auto simp: tasks_ok_def)

lemma hub_ok_but_set_state:
  assumes ok: "hub_ok_but i db" and t: "task_of db i = Some t" "\<not> terminal (t_state t)" and st: "\<not> terminal st"
  shows "hub_ok_but i (set_state e n db i st)"
  unfolding set_state_def
  by (rule hub_ok_but_upd_task [OF ok])
    (use t st task_okD [OF hub_ok_butD(3) [OF ok] t(1)] in \<open>auto simp: task_ok_def\<close>)

lemma hub_ok_finish:
  assumes ok: "hub_ok_but i db" and st: "terminal st"
  shows "hub_ok (finish e n db i st p)"
proof -
  note D = hub_ok_butD [OF ok]
  let ?d = "finish e n db i st p"
  have "rows_ok ?d" using D(1) rows_ok_cong [of ?d db] by simp
  moreover have "references_ok ?d" using D(5) references_ok_cong [of ?d db] by simp
  moreover have "coupled ?d"
  proof (rule coupledI)
    fix m a j assume a: "agent_of ?d m = Some a" "a_current_task a = Some j"
    then obtain b where b: "agent_of db m = Some b" "a = freed i b" by auto
    with a(2) have j: "j \<noteq> i" "a_current_task b = Some j" by (auto simp: freed_def split: if_splits)
    then show "\<exists>t. task_of ?d j = Some t \<and> \<not> terminal (t_state t) \<and> t_assignee t = Some m"
      using coupled_agentD [OF D(2) b(1) j(2)] by simp
  next
    fix j t assume t: "task_of ?d j = Some t" "\<not> terminal (t_state t)"
    with st have j: "j \<noteq> i" by auto
    with t have "task_of db j = Some t" by simp
    then obtain m a where "t_assignee t = Some m" "agent_of db m = Some a" "a_current_task a = Some j"
      using coupled_taskD [OF D(2)] t(2) by blast
    then show "\<exists>m a. t_assignee t = Some m \<and> agent_of ?d m = Some a \<and> a_current_task a = Some j"
      using j by (auto simp: freed_def)
  next
    fix m a assume "agent_of ?d m = Some a"
    then obtain b where "agent_of db m = Some b" "a = freed i b" by auto
    then show "(a_status a = Busy \<longrightarrow> a_current_task a \<noteq> None) \<and>
        (a_status a = Idle \<or> a_status a = Lost \<longrightarrow> a_current_task a = None)"
      using coupled_statusD [OF D(2), of m b] by (auto simp: freed_def)
  qed
  moreover have "tasks_ok ?d" using D(3) st
    by (auto simp: tasks_ok_def task_ok_def set_update_where)
  moreover have "events_ok ?d" using D(4) by (simp add: events_ok_def)
  moreover have "workspaces_ok ?d"
  proof -
    have "live (freed i a) = live a" for a by (auto simp: live_def freed_def)
    then show ?thesis using D(6) unfolding workspaces_ok_def finish_agent_of map_option_eq_Some by force
  qed
  moreover have "questions_ok ?d"
    unfolding questions_ok_def
  proof (intro allI impI)
    fix j t assume t: "task_of ?d j = Some t" "t_state t = Input_required"
    have "j \<noteq> i" using t st by auto
    with t have "awaiting db j" using D(7) by simp
    moreover have "awaiting ?d = awaiting db" by (rule awaiting_cong) simp
    ultimately show "awaiting ?d j" by simp
  qed
  ultimately show ?thesis by (simp add: hub_ok_def)
qed

section \<open>Heartbeat\<close>

lemma hub_ok_beat: "hub_ok db \<Longrightarrow> hub_ok (upd_agent name (beat_agent now addr) db)"
  by (rule hub_ok_upd_agent)
    (auto simp: beat_agent_def live_def hub_ok_def workspaces_ok_def dest: coupled_statusD)

lemma heartbeat_cases:
  assumes "heartbeat e db name inst cur lease addr = Inr (b, db', ks)"
  obtains "db' = db" "\<not> b"
  | a where "agent_of db name = Some a" "b" "a_instance a = inst" "a_status a \<noteq> Lost"
      "db' = upd_agent name (beat_agent (now_iso e 0) addr) db"
  | a i t x cap where "agent_of db name = Some a" "b" "a_instance a = inst" "a_status a \<noteq> Lost"
      "cur = Some i" "a_current_task a = Some i" "task_of db i = Some t" "t_assignee t = Some name"
      "\<not> terminal (t_state t)" "t_lease_expires t = Some x" "now_at e 0 < parse_timestamp x"
      "cap = parse_timestamp (t_created t) + minutes (cap_minutes db (t_workflow t) lease)"
      "db' = upd_task i (\<lambda>u. u\<lparr>t_lease_expires := Some (to_iso (renewed_lease (now_at e 0) cap
           (t_lease_duration_s t) (parse_timestamp x))), t_updated := now_iso e 0\<rparr>)
         (upd_agent name (beat_agent (now_iso e 0) addr) db)"
proof -
  have lm: "cap_minutes (upd_agent name f db) = cap_minutes db" for f
    by (intro ext) (simp only: cap_minutes_def max_task_lease_min_def agent_frames)
  obtain a where a: "agent_of db name = Some a"
    using assms by (auto simp: heartbeat_def Let_def)
  show thesis
  proof (cases "a_instance a \<noteq> inst \<or> a_status a = Lost")
    case True
    with a assms that(1) show thesis by (auto simp: heartbeat_def Let_def)
  next
    case False
    note live = this
    show thesis
    proof (cases "\<exists>i. cur = Some i \<and> i \<noteq> [] \<and> a_current_task a = cur")
      case False
      with a assms live that(2) show thesis
        by (auto simp: heartbeat_def Let_def split: option.splits if_splits)
    next
      case True
      then obtain i where i: "cur = Some i" "i \<noteq> []" "a_current_task a = Some i" by auto
      from assms a live i obtain t where t: "task_of db i = Some t"
        by (auto simp: heartbeat_def Let_def)
      show thesis
      proof (cases "t_lease_expires t")
        case None
        with assms a live i t that(2) show thesis by (auto simp: heartbeat_def Let_def)
      next
        case (Some x)
        then show thesis
          using assms a live i t that(2) that(3) [OF a _ _ _ i(1,3) t _ _ Some _ refl] task_of_id [OF t]
          by (auto simp: heartbeat_def Let_def lm split: if_splits)
      qed
    qed
  qed
qed

lemma heartbeat_ok [inv_intros]:
  assumes hb: "heartbeat e db name inst cur lease addr = Inr (b, db', ks)" and ok: "hub_ok db"
  shows "hub_ok db'"
  using hb
proof (cases rule: heartbeat_cases)
  case (3 a i t x cap)
  show ?thesis unfolding 3(13)
    by (rule hub_ok_upd_task [OF hub_ok_beat [OF ok]])
      (use 3 task_okD [OF hub_okD(3) [OF ok] 3(7)] in \<open>auto simp: task_ok_def\<close>)
qed (use ok in \<open>auto intro: hub_ok_beat\<close>)

section \<open>Assignment and claiming\<close>

lemma task_of_None: "task_of db i = None \<longleftrightarrow> i \<notin> t_id ` set (tasks db)"
  by (auto simp: task_of_def find_None_iff image_iff)

lemma source_task_None:
  assumes "source_task db src w a r ti ins d h = Inr None"
  shows "\<forall>v. src = Some v \<longrightarrow> event_of db v \<noteq> None" "src = None \<or> src \<notin> t_source_event ` set (tasks db)"
proof -
  show "\<forall>v. src = Some v \<longrightarrow> event_of db v \<noteq> None"
    using assms by (cases src; cases "event_of db (the src)") (auto simp: source_task_def)
  show "src = None \<or> src \<notin> t_source_event ` set (tasks db)"
  proof (cases src)
    case (Some v)
    have "find (\<lambda>t. t_source_event t = Some v) (tasks db) = None"
      using assms Some by (cases "find (\<lambda>t. t_source_event t = Some v) (tasks db)")
        (simp_all add: source_task_def split: option.splits if_splits)
    then show ?thesis using Some by (auto simp: find_None_iff)
  qed simp
qed

lemma assign_task_fresh:
  assumes "assign_task e db agent role title instr lease head src = Inr (t, db', ks)"
  obtains (replay) w where "db' = db" "ks = []" "src \<noteq> None" "workflow_row_of db = Some w"
      "source_task db src (w_id w) agent role title instr
        (min lease (max_task_lease_min db (w_id w)) * 60) (map_option lower head) = Inr (Some t)"
  | (fresh) w a row mid where
      "workflow_row_of db = Some w" "agent_of db agent = Some a" "a_status a = Idle"
      "uuid_at e 0 \<notin> t_id ` set (tasks db)" "\<forall>v. src = Some v \<longrightarrow> event_of db v \<noteq> None"
      "src = None \<or> src \<notin> t_source_event ` set (tasks db)"
      "t_id row = uuid_at e 0" "t_workflow row = w_id w" "t_assignee row = Some agent"
      "t_state row = Submitted" "t_result row = None" "t_source_event row = src"
      "t_role row = role" "t_title row = title" "t_instructions row = instr"
      "t_lease_duration_s row = min lease (max_task_lease_min db (w_id w)) * 60"
      "t_pr_head_sha row = map_option lower head"
      "t_created row = to_iso (now_at e 0)"
      "t_lease_expires row = Some (to_iso (now_at e 0 + minutes (min lease (max_task_lease_min db (w_id w)))))"
      "add_message e 1 (upd_agent agent (\<lambda>a. a\<lparr>a_status := Busy, a_current_task := Some (t_id row)\<rparr>)
         (ins_task row db)) (Some (t_id row)) (a_context_id a) ''alice'' From_alice
         [text_part instr (assignment_metadata role title (map_option lower head))] = Inr (mid, db')"
      "t = row" "ks = [context_key (a_context_id a)]"
proof -
  obtain w where w: "workflow_row_of db = Some w"
    using assms by (cases "workflow_row_of db")
      (auto simp: assign_task_def Let_def require_workflow_def split: if_splits)
  obtain ex where ex: "source_task db src (w_id w) agent role title instr
      (min lease (max_task_lease_min db (w_id w)) * 60) (map_option lower head) = Inr ex"
    using assms w by (auto simp: assign_task_def Let_def require_workflow_def split: if_splits)
  show thesis
  proof (cases ex)
    case (Some u)
    with ex have "src \<noteq> None" by (cases src) (simp_all add: source_task_def)
    with assms w ex Some show thesis
      by (intro replay [of w]) (auto simp: assign_task_def Let_def require_workflow_def split: if_splits)
  next
    case None
    define row where "row = \<lparr>t_id = uuid_at e 0, t_workflow = w_id w, t_assignee = Some agent,
       t_role = role, t_title = title, t_instructions = instr, t_state = Submitted,
       t_lease_expires = Some (to_iso (now_at e 0 + minutes (min lease (max_task_lease_min db (w_id w))))),
       t_lease_duration_s = min lease (max_task_lease_min db (w_id w)) * 60, t_result = None,
       t_created = to_iso (now_at e 0), t_updated = to_iso (now_at e 0),
       t_pr_head_sha = map_option lower head, t_source_event = src\<rparr>"
    note src = source_task_None [OF ex [unfolded None]]
    from assms w ex None obtain a mid where a: "agent_of db agent = Some a" "a_status a = Idle"
      and tid: "uuid_at e 0 \<notin> t_id ` set (tasks db)"
      and msg: "add_message e 1 (upd_agent agent (\<lambda>a. a\<lparr>a_status := Busy, a_current_task := Some (t_id row)\<rparr>)
         (ins_task row db)) (Some (t_id row)) (a_context_id a) ''alice'' From_alice
         [text_part instr (assignment_metadata role title (map_option lower head))] = Inr (mid, db')"
      and fin: "task_of db' (t_id row) = Some t" "ks = [context_key (a_context_id a)]"
      by (auto simp: assign_task_def Let_def require_workflow_def require_idle_def row_def
          split: if_splits option.splits)
    have "task_of db (t_id row) = None"
      using tid by (simp add: task_of_None row_def)
    then have "task_of db' (t_id row) = Some row"
      using add_message_frames(10) [OF msg] by (simp add: task_tbl.get_ins_fresh)
    with fin(1) have "t = row" by simp
    show thesis
      by (rule fresh [OF w a tid src _ _ _ _ _ _ _ _ _ _ _ _ _ msg \<open>t = row\<close> fin(2)]) (simp_all add: row_def)
  qed
qed

lemma workflow_row_of_mem: "workflow_row_of db = Some w \<Longrightarrow> w \<in> set (workflows db)"
  unfolding workflow_row_of_def by (rule first_by_Some)

lemma hub_ok_assigned:
  assumes ok: "hub_ok db" and w: "t_workflow row \<in> w_id ` set (workflows db)"
    and a: "agent_of db n = Some a" "a_status a = Idle"
    and fresh: "t_id row \<notin> t_id ` set (tasks db)" "t_id row \<noteq> []"
    and src: "\<forall>v. t_source_event row = Some v \<longrightarrow> event_of db v \<noteq> None"
      "t_source_event row = None \<or> t_source_event row \<notin> t_source_event ` set (tasks db)"
    and row: "t_assignee row = Some n" "t_state row = Submitted" "t_result row = None"
  shows "hub_ok (upd_agent n (\<lambda>a. a\<lparr>a_status := Busy, a_current_task := Some (t_id row)\<rparr>) (ins_task row db))"
    (is "hub_ok ?d")
proof (rule hub_okI)
  note D = hub_okD [OF ok]
  have None: "task_of db (t_id row) = None"
    using fresh(1) by (simp add: task_of_None)
  have tk0: "task_of (ins_task row db) = (task_of db)(t_id row \<mapsto> row)"
    by (rule task_tbl.get_ins_fresh [OF None])
  then have tk: "task_of ?d = (task_of db)(t_id row \<mapsto> row)" by simp
  have ag: "agent_of ?d m = (if m = n then map_option
      (\<lambda>a. a\<lparr>a_status := Busy, a_current_task := Some (t_id row)\<rparr>) (agent_of db m) else agent_of db m)" for m
    by (subst agent_tbl.get_upd) simp_all
  have idle: "a_current_task a = None" using coupled_statusD [OF D(2) a(1)] a(2) by simp
  show "rows_ok ?d" using D(1) fresh src(2) by (auto simp: rows_ok_def)
  show "coupled ?d"
  proof (rule coupledI)
    fix m b i assume b: "agent_of ?d m = Some b" "a_current_task b = Some i"
    show "\<exists>t. task_of ?d i = Some t \<and> \<not> terminal (t_state t) \<and> t_assignee t = Some m"
    proof (cases "m = n")
      case True
      with b a row tk show ?thesis by (auto simp: ag)
    next
      case False
      with b have "agent_of db m = Some b" by (simp add: ag)
      then obtain t where "task_of db i = Some t" "\<not> terminal (t_state t)" "t_assignee t = Some m"
        using coupled_agentD [OF D(2)] b(2) by blast
      with None tk show ?thesis by auto
    qed
  next
    fix i t assume t: "task_of ?d i = Some t" "\<not> terminal (t_state t)"
    show "\<exists>m b. t_assignee t = Some m \<and> agent_of ?d m = Some b \<and> a_current_task b = Some i"
    proof (cases "i = t_id row")
      case True
      with t tk have "t = row" by simp
      with row a ag [of n] True show ?thesis by auto
    next
      case False
      with t tk obtain m b where m: "t_assignee t = Some m" "agent_of db m = Some b" "a_current_task b = Some i"
        using coupled_taskD [OF D(2), of i t] by (auto simp: None)
      with a idle have "m \<noteq> n" by auto
      with m show ?thesis by (auto simp: ag)
    qed
  next
    fix m b assume "agent_of ?d m = Some b"
    then show "(a_status b = Busy \<longrightarrow> a_current_task b \<noteq> None) \<and>
        (a_status b = Idle \<or> a_status b = Lost \<longrightarrow> a_current_task b = None)"
      using coupled_statusD [OF D(2), of m b] by (auto simp: ag split: if_splits)
  qed
  show "tasks_ok ?d" using D(3) w row fresh(2) by (auto simp: tasks_ok_def task_ok_def)
  show "events_ok ?d" using D(4) by (simp add: events_ok_def)
  show "references_ok ?d"
    using D(5) src(1) by (fastforce simp: references_ok_def event_of_def find_None_iff image_iff)
  show "questions_ok ?d"
    using D(6) row(2) awaiting_cong [of ?d db] by (auto simp: questions_ok_def tk0 split: if_splits)
  show "workspaces_ok ?d"
    using D(7) a unfolding workspaces_ok_def ag live_def by (auto split: if_splits)
qed

text \<open>\<^verbatim>\<open>uuid4().hex\<close> is never empty.\<close>

definition env_ok :: "env \<Rightarrow> bool" where
  "env_ok e = (\<forall>n. uuid_at e n \<noteq> [])"

lemma assign_task_ok [inv_intros]:
  assumes asg: "assign_task e db agent role title instr lease head src = Inr (t, db', ks)"
    and ok: "hub_ok db" and e: "env_ok e"
  shows "hub_ok db'"
  using asg
proof (cases rule: assign_task_fresh)
  case (replay w)
  with ok show ?thesis by simp
next
  case (fresh w a row mid)
  let ?d = "upd_agent agent (\<lambda>a. a\<lparr>a_status := Busy, a_current_task := Some (t_id row)\<rparr>) (ins_task row db)"
  have "t_workflow row \<in> w_id ` set (workflows db)" using workflow_row_of_mem fresh by simp
  then have d: "hub_ok ?d"
    by (rule hub_ok_assigned [OF ok _ fresh(2,3)]) (use fresh e in \<open>auto simp: env_ok_def\<close>)
  have "task_of db (t_id row) = None" using fresh(4,7) by (simp add: task_of_None)
  then have tk: "task_of ?d (t_id row) = Some row" by (simp add: task_tbl.get_ins_fresh)
  have "hub_ok_but (t_id row) db'"
    by (rule hub_ok_but_add_message [OF fresh(20) hub_ok_weaken [OF d] tk])
  then show ?thesis
    by (rule hub_ok_close) (use add_message_frames(10) [OF fresh(20)] tk fresh(10) in simp)
qed

lemma hub_ok_set_state_working:
  assumes ok: "hub_ok_but i db" and t: "task_of db i = Some t" "\<not> terminal (t_state t)"
  shows "hub_ok (set_state e n db i Working)"
  by (rule hub_ok_close [OF hub_ok_but_set_state [OF ok t]]) auto

lemma claim_assignment_ok [inv_intros]:
  assumes "claim_assignment e db name = Inr (c, db', ks)" and ok: "hub_ok db"
  shows "hub_ok db'"
proof -
  consider "db' = db" | t where "t \<in> set (tasks db)" "t_state t = Submitted" "db' = set_state e 0 db (t_id t) Working"
    using assms(1) by (auto simp: claim_assignment_def Let_def dest: first_by_Some split: if_splits option.splits)
  then show ?thesis
  proof cases
    case (2 t)
    then have "task_of db (t_id t) = Some t" by (simp add: task_of_iff [OF hub_okD(1) [OF ok]])
    then show ?thesis
      unfolding 2(3) by (rule hub_ok_set_state_working [OF hub_ok_weaken [OF ok]]) (simp add: 2)
  qed (use ok in simp)
qed

end
