(* ===== verification/HubReplies.thy ===== *)
theory HubReplies
  imports HubTasks
begin

text \<open>
  Progress, questions and replies, results, overrides and cancellation keep the invariant.
\<close>

lemma text_part_kind:
  "part_metadata (text_part txt [(K_KIND, k), (K_RETRY, v)]) = [(K_KIND, k), (K_RETRY, v)]"
proof -
  have key: "normalize_key K_KIND = K_KIND" "normalize_key K_RETRY = K_RETRY" by code_simp+
  have md: "normalize_metadata [(K_KIND, k), (K_RETRY, v)] = [(K_KIND, k), (K_RETRY, v)]"
    by (simp add: normalize_metadata_def key)
  show ?thesis by (simp add: text_part_def md normalize_part_def)
qed

lemma is_question_question:
  "is_question \<lparr>m_id = i, m_task = t, m_context = c, m_sender = s, m_direction = d,
     m_parts = [text_part q [(K_KIND, JStr ''question''), (K_RETRY, v)]], m_ts = ts\<rparr>"
  by (simp add: is_question_def text_part_kind)

lemma hub_ok_add_message_to_alice:
  assumes msg: "add_message e n db (Some i) ctx sender To_alice parts = Inr (mid, db')"
    and ok: "hub_ok db" and t: "task_of db i = Some t"
  shows "hub_ok db'"
  by (rule hub_ok_close [OF hub_ok_but_add_message [OF msg hub_ok_weaken [OF ok] t]])
    (use awaiting_add_message(2) [OF hub_okD(1) [OF ok] msg refl refl] ok add_message_frames(10) [OF msg] in
      \<open>auto simp: hub_ok_def questions_ok_def\<close>)

lemma hub_ok_progress_at: "hub_ok db \<Longrightarrow> hub_ok (record_progress_at e n db name)"
  unfolding record_progress_at_def
  by (rule hub_ok_upd_agent) (auto simp: live_def hub_ok_def workspaces_ok_def dest: coupled_statusD)

lemma record_progress_cases:
  assumes rp: "record_progress e db tid agent note op hash builder = Inr (r, db', ks)"
  obtains (replay) resp where "replayed db agent op hash = Inr (Some resp)" "r = Pair_json resp False"
      "db' = db" "ks = []"
  | (fresh) t a mid db1 db3 where "replayed db agent op hash = Inr None" "task_of db tid = Some t"
      "\<not> terminal (t_state t)" "agent_of db agent = Some a"
      "add_message e 0 db (Some tid) (a_context_id a) agent To_alice
         [text_part note [(K_KIND, JStr ''progress'')]] = Inr (mid, db1)"
      "db3 = record_progress_at e 2 (snd (add_event e 1 db1 Task_progress
         [(''task_id'', JStr tid), (''agent'', JStr agent), (''note'', JStr note)])) agent"
      "(r, db') = record_reply e 3 db3 agent op hash builder ()" "ks = [EVENT_KEY]"
proof -
  from rp obtain prior where prior: "replayed db agent op hash = Inr prior"
    by (auto simp: record_progress_def)
  show thesis
  proof (cases prior)
    case (Some resp)
    with rp prior show thesis by (intro replay) (auto simp: record_progress_def)
  next
    case None
    with rp prior obtain t a where t: "task_of db tid = Some t" "\<not> terminal (t_state t)" "agent_of db agent = Some a"
      by (auto simp: record_progress_def)
    note id = task_of_id [OF t(1)]
    have req: "require_open_task db tid = Inr t" "require_agent db agent = Inr a" using t by simp_all
    from rp prior None id req obtain mid db1 where
      msg: "add_message e 0 db (Some tid) (a_context_id a) agent To_alice
         [text_part note [(K_KIND, JStr ''progress'')]] = Inr (mid, db1)"
      by (simp add: record_progress_def Let_def split_paired_all) fastforce
    from rp prior None id req msg show thesis
      by (intro fresh [OF _ t msg refl]) (auto simp: record_progress_def Let_def prod_eq_iff case_prod_beta)
  qed
qed

lemma record_progress_ok [inv_intros]:
  assumes rp: "record_progress e db tid agent note op hash builder = Inr (r, db', ks)" and ok: "hub_ok db"
  shows "hub_ok db'"
  using rp
proof (cases rule: record_progress_cases)
  case (fresh t a mid db1 db3)
  note msg = fresh(5)
  have "replayed db3 agent op hash = Inr None"
    using replayed_cong [of db3 db] fresh add_message_frames [OF msg] by (simp add: record_progress_at_def)
  moreover have "hub_ok db3" unfolding fresh(6)
    by (intro hub_ok_progress_at hub_ok_add_event hub_ok_add_message_to_alice [OF msg ok fresh(2)])
  ultimately have "hub_ok (snd (record_reply e 3 db3 agent op hash builder ()))" by (rule hub_ok_record_reply [rotated])
  then show ?thesis by (metis fresh(7) snd_conv)
qed (use ok in simp)

lemma open_question_cases:
  assumes "open_question e db tid agent question sent_as = Inr (q, db', ks)"
  obtains (retry) "asked_question db tid sent_as = Some q" "db' = db" "ks = []"
  | (fresh) t a db1 where "asked_question db tid sent_as = None"
      "task_of db tid = Some t" "\<not> terminal (t_state t)" "agent_of db agent = Some a"
      "add_message e 0 db (Some tid) (a_context_id a) agent To_alice
         [text_part question [(K_KIND, JStr ''question''), (K_RETRY, JStr sent_as)]] = Inr (q, db1)"
      "db' = snd (add_event e 2 (set_state e 1 db1 tid Input_required) Worker_question
         [(''task_id'', JStr tid), (''agent'', JStr agent), (''question'', JStr question),
          (''message_id'', JInt (int q))])" "ks = [EVENT_KEY]"
proof -
  from assms obtain t a where t: "task_of db tid = Some t" "\<not> terminal (t_state t)" "agent_of db agent = Some a"
    by (auto simp: open_question_def)
  have id: "t_id t = tid" by (rule task_of_id [OF t(1)])
  show thesis
  proof (cases "asked_question db tid sent_as")
    case None
    have req: "require_open_task db tid = Inr t" "require_agent db agent = Inr a" using t by simp_all
    from assms id None req obtain db1 where
      msg: "add_message e 0 db (Some tid) (a_context_id a) agent To_alice
         [text_part question [(K_KIND, JStr ''question''), (K_RETRY, JStr sent_as)]] = Inr (q, db1)"
      by (simp add: open_question_def Let_def split_paired_all) fastforce
    from assms id None req msg show thesis
      by (intro fresh [OF None t msg]) (simp_all add: open_question_def Let_def)
  next
    case (Some q')
    with assms t id show thesis
      by (intro retry) (auto simp: open_question_def Let_def require_open_task_def require_task_def require_agent_def)
  qed
qed

lemma open_question_ok [inv_intros]:
  assumes oq: "open_question e db tid agent question sent_as = Inr (q, db', ks)" and ok: "hub_ok db"
  shows "hub_ok db'"
  using oq
proof (cases rule: open_question_cases)
  case (fresh t a db1)
  note msg = fresh(5)
  have t1: "task_of db1 tid = Some t" using fresh(2) add_message_frames(10) [OF msg] by simp
  have "hub_ok_but tid db1" by (rule hub_ok_but_add_message [OF msg hub_ok_weaken [OF ok] fresh(2)])
  then have "hub_ok_but tid (set_state e 1 db1 tid Input_required)"
    by (rule hub_ok_but_set_state [OF _ t1 fresh(3)]) simp
  moreover have "awaiting db1 tid"
    by (rule awaiting_add_message(3) [OF hub_okD(1) [OF ok] msg refl refl is_question_question])
  moreover have "awaiting (set_state e 1 db1 tid Input_required) = awaiting db1"
    by (rule awaiting_cong) simp
  ultimately have "hub_ok (set_state e 1 db1 tid Input_required)" by (intro hub_ok_close) auto
  then show ?thesis unfolding fresh(6) by (rule hub_ok_add_event)
qed (use ok in simp)

lemma reply_cases:
  assumes "reply e db tid text q = Inr (b, db', ks)"
  obtains (refused) "\<not> b" "db' = db" "ks = []"
  | (sent) t ctx mid db1 where "b" "task_of db tid = Some t" "t_state t = Input_required"
      "newest_question db tid = Some q" "\<forall>m \<in> set (messages db). \<not> (from_alice tid m \<and> q < m_id m)"
      "task_context_id db t = Inr ctx"
      "add_message e 0 db (Some tid) ctx ''alice'' From_alice [text_part text [(K_KIND, JStr ''reply'')]] = Inr (mid, db1)"
      "db' = set_state e 1 db1 tid Working" "ks = [task_key tid]"
proof -
  from assms obtain t where t: "task_of db tid = Some t" by (auto simp: reply_def)
  note id = task_of_id [OF t]
  have req: "require_task db tid = Inr t" using t by simp
  let ?go = "t_state t = Input_required \<and> newest_question db tid = Some q \<and>
    first_by m_id (\<lambda>m. from_alice tid m \<and> q < m_id m) (messages db) = None"
  show thesis
  proof (cases ?go)
    case False
    with assms req id show thesis by (intro refused) (auto simp: reply_def split: if_splits)
  next
    case True
    with assms req id obtain ctx mid db1 where ctx: "task_context_id db t = Inr ctx" and
      msg: "add_message e 0 db (Some tid) ctx ''alice'' From_alice
        [text_part text [(K_KIND, JStr ''reply'')]] = Inr (mid, db1)"
      by (simp add: reply_def split_paired_all) fastforce
    have none: "\<forall>m \<in> set (messages db). \<not> (from_alice tid m \<and> q < m_id m)"
      using True by (simp add: first_by_None)
    from assms req id True ctx msg show thesis
      by (intro sent [OF _ t _ _ none ctx msg]) (simp_all add: reply_def)
  qed
qed

lemma reply_ok [inv_intros]:
  assumes r: "reply e db tid text q = Inr (b, db', ks)" and ok: "hub_ok db"
  shows "hub_ok db'"
  using r
proof (cases rule: reply_cases)
  case (sent t ctx mid db1)
  have "task_of db1 tid = Some t" using sent(2) add_message_frames(10) [OF sent(7)] by simp
  then show ?thesis unfolding sent(8)
    by (rule hub_ok_set_state_working [OF hub_ok_but_add_message [OF sent(7) hub_ok_weaken [OF ok] sent(2)]])
      (simp add: sent(3))
qed (use ok in simp)

section \<open>The operation table\<close>

lemma hub_ok_ins_operation:
  assumes "hub_ok db" "operation_of db ac op = None"
  shows "hub_ok (ins_operation e n db ac op h resp)"
proof -
  have "replayed db ac (Some op) (Some h) = Inr None" using assms(2) by (simp add: replayed_def)
  from hub_ok_record_reply [OF assms(1) this, of e n "Some (\<lambda>_. resp)" "()"]
  show ?thesis by (simp add: record_reply_def)
qed

lemma record_operation_cases:
  assumes "record_operation e db ac op h resp = Inr (r, db', ks)"
  shows "operation_of db ac op = None \<and> db' = ins_operation e 0 db ac op h resp \<and> ks = []"
  using assms by (auto simp: record_operation_def split: if_splits)

lemma record_operation_ok [inv_intros]:
  "record_operation e db ac op h resp = Inr (r, db', ks) \<Longrightarrow> hub_ok db \<Longrightarrow> hub_ok db'"
  by (auto dest!: record_operation_cases intro: hub_ok_ins_operation)

section \<open>Results, overrides, cancellation\<close>

lemma typed_status_terminal: "terminal (typed_status r)"
  by (auto simp: typed_status_def split: task_result.splits)

lemma interpret_result_terminal:
  "interpret_result e r summary artifacts = Inr (payload, s, st) \<Longrightarrow> terminal st"
  using typed_status_terminal
  by (cases r) (auto simp: interpret_result_def Let_def split: if_splits)

lemma submit_result_cases:
  assumes sr: "submit_result e db tid agent result summary artifacts status op hash builder = Inr (r, db', ks)"
  obtains (replay) resp where "replayed db agent op hash = Inr (Some resp)" "r = Pair_json resp False"
      "db' = db" "ks = []"
  | (fresh) actual payload sum st t a mid db1 db3 fin kind where
      "(case result of Some r \<Rightarrow> Some r | None \<Rightarrow> map_option Status status) = Some actual"
      "interpret_result e actual summary artifacts = Inr (payload, sum, st)"
      "json_size_bytes e (JObj payload) \<le> MAX_TYPED_RESULT_BYTES"
      "replayed db agent op hash = Inr None" "task_of db tid = Some t"
      "\<not> terminal (t_state t)" "agent_of db agent = Some a"
      "add_message e 0 db (Some tid) (a_context_id a) agent To_alice [result_transcript_part e sum st] = Inr (mid, db1)"
      "kind = (if st = Completed then Task_completed else Task_failed)"
      "db3 = snd (add_event e 2 (finish e 1 db1 tid st (Some payload)) kind
         (dict_set ''result'' (JObj payload) (dict_merge [(''task_id'', JStr tid), (''agent'', JStr agent),
                    (''summary'', JStr sum)] payload)))"
      "task_of db3 tid = Some fin"
      "(r, db') = record_reply e 3 db3 agent op hash builder fin" "ks = [EVENT_KEY]"
proof -
  from sr obtain actual where actual:
    "(case result of Some r \<Rightarrow> Some r | None \<Rightarrow> map_option Status status) = Some actual"
    by (cases "case result of Some r \<Rightarrow> Some r | None \<Rightarrow> map_option Status status") (auto simp: submit_result_def)
  from sr actual obtain payload sum st where ir: "interpret_result e actual summary artifacts = Inr (payload, sum, st)"
    by (simp add: submit_result_def) blast
  from sr actual ir have size: "json_size_bytes e (JObj payload) \<le> MAX_TYPED_RESULT_BYTES"
    by (simp add: submit_result_def split: if_splits)
  note sr1 = sr [unfolded submit_result_def actual option.case ir ebind_Inr prod.case]
  from sr1 size obtain prior where prior: "replayed db agent op hash = Inr prior"
    by auto
  show thesis
  proof (cases prior)
    case (Some resp)
    with sr1 size prior show thesis by (intro replay) auto
  next
    case None
    with sr1 size prior obtain t a where
      t: "task_of db tid = Some t" "\<not> terminal (t_state t)" "agent_of db agent = Some a"
      by auto
    note id = task_of_id [OF t(1)]
    have req: "require_open_task db tid = Inr t" "require_agent db agent = Inr a" using t by simp_all
    from sr1 size prior None id req obtain mid db1 where
      msg: "add_message e 0 db (Some tid) (a_context_id a) agent To_alice [result_transcript_part e sum st] = Inr (mid, db1)"
      by (simp add: Let_def split_paired_all) fastforce
    define db3 where "db3 = snd (add_event e 2 (finish e 1 db1 tid st (Some payload))
      (if st = Completed then Task_completed else Task_failed)
      (dict_set ''result'' (JObj payload) (dict_merge [(''task_id'', JStr tid), (''agent'', JStr agent),
                    (''summary'', JStr sum)] payload)))"
    have "task_of db1 tid = Some t" using t(1) add_message_frames(10) [OF msg] by simp
    then obtain fin where fin: "task_of db3 tid = Some fin" by (simp add: db3_def)
    have "(r, db') = record_reply e 3 db3 agent op hash builder fin" "ks = [EVENT_KEY]"
      using sr1 size prior None id req msg fin
      by (auto simp: Let_def case_prod_beta prod_eq_iff db3_def)
    then show thesis
      using prior None by (intro fresh [OF actual ir size _ t msg refl db3_def fin]) simp_all
  qed
qed

lemma submit_result_ok [inv_intros]:
  assumes sr: "submit_result e db tid agent result summary artifacts status op hash builder = Inr (r, db', ks)"
    and ok: "hub_ok db"
  shows "hub_ok db'"
  using sr
proof (cases rule: submit_result_cases)
  case (fresh actual payload sum st t a mid db1 db3 fin kind)
  note msg = fresh(8)
  have "replayed db3 agent op hash = Inr None"
    using replayed_cong [of db3 db] fresh(4,10) add_message_frames [OF msg] by simp
  moreover have "hub_ok db3" unfolding fresh(10)
    by (intro hub_ok_add_event hub_ok_finish hub_ok_but_add_message [OF msg hub_ok_weaken [OF ok] fresh(5)]
        interpret_result_terminal [OF fresh(2)])
  ultimately have "hub_ok (snd (record_reply e 3 db3 agent op hash builder fin))" by (rule hub_ok_record_reply [rotated])
  then show ?thesis by (metis fresh(12) snd_conv)
qed (use ok in simp)

lemma set_task_state_cases:
  assumes "set_task_state e db tid st note = Inr (r, db', ks)"
  obtains t ctx mid db1 where "st = Canceled \<or> st = Failed" "task_of db tid = Some t"
    "\<not> terminal (t_state t)" "task_context_id db t = Inr ctx"
    "add_message e 0 db (Some tid) ctx ''alice'' From_alice [text_part note [(K_KIND, JStr ''state_override'')]] = Inr (mid, db1)"
    "db' = finish e 1 db1 tid st (Some [(''status'', JStr (task_state_value st)), (''summary'', JStr note)])"
    "task_of db' tid = Some r" "ks = [task_key tid, context_key ctx]"
proof -
  from assms have st: "st = Canceled \<or> st = Failed" by (auto simp: set_task_state_def split: if_splits)
  then have "st \<notin> {Canceled, Failed} \<longleftrightarrow> False" by auto
  note a1 = assms [unfolded set_task_state_def this if_False]
  from a1 obtain t where t0: "require_open_task db tid = Inr t" by auto
  note a2 = a1 [unfolded t0 ebind_Inr]
  from a2 obtain ctx where ctx: "task_context_id db t = Inr ctx" by auto
  note a3 = a2 [unfolded ctx ebind_Inr]
  from a3 obtain mid db1 where
    msg: "add_message e 0 db (Some tid) ctx ''alice'' From_alice [text_part note [(K_KIND, JStr ''state_override'')]] = Inr (mid, db1)"
    by (cases "add_message e 0 db (Some tid) ctx ''alice'' From_alice [text_part note [(K_KIND, JStr ''state_override'')]]")
      auto
  have t: "task_of db tid = Some t" "\<not> terminal (t_state t)" using t0 by simp_all
  show thesis
    by (rule that [OF st t ctx msg]) (use a3 [unfolded msg ebind_Inr prod.case] in \<open>auto simp: Let_def\<close>)
qed

lemma set_task_state_ok [inv_intros]:
  assumes s: "set_task_state e db tid st note = Inr (r, db', ks)" and ok: "hub_ok db"
  shows "hub_ok db'"
  using s
proof (cases rule: set_task_state_cases)
  case (1 t ctx mid db1)
  have "terminal st" using 1(1) by auto
  then show ?thesis unfolding 1(6)
    by (intro hub_ok_finish hub_ok_but_add_message [OF 1(5) hub_ok_weaken [OF ok] 1(2)])
qed

lemma cancel_task_cases:
  assumes "cancel_task e db tid = Inr (r, db', ks)"
  obtains t ctx where "task_of db tid = Some t" "\<not> terminal (t_state t)" "task_context_id db t = Inr ctx"
    "db' = finish e 0 db tid Canceled None" "task_of db' tid = Some r"
    "ks = task_key tid # (if ctx \<noteq> [] then [context_key ctx] else [])"
proof -
  from assms obtain t where t: "task_of db tid = Some t" by (auto simp: cancel_task_def)
  note id = task_of_id [OF t]
  from assms t obtain ctx where ctx: "\<not> terminal (t_state t)" "task_context_id db t = Inr ctx"
    by (auto simp: cancel_task_def require_task_def split: if_splits)
  show thesis
    by (rule that [OF t ctx]) (use assms t ctx id in \<open>auto simp: cancel_task_def require_task_def Let_def\<close>)
qed

lemma cancel_task_ok [inv_intros]:
  assumes c: "cancel_task e db tid = Inr (r, db', ks)" and ok: "hub_ok db"
  shows "hub_ok db'"
  using c
proof (cases rule: cancel_task_cases)
  case (1 t ctx)
  show ?thesis unfolding 1(4) by (rule hub_ok_finish [OF hub_ok_weaken [OF ok]]) simp
qed

end
