(* ===== verification/HubSweep.thy ===== *)
theory HubSweep
  imports HubReplies
begin

text \<open>
  Alice's inbox and the sweeper keep the invariant.
\<close>

lemma append_event_ok [inv_intros]:
  assumes "append_event e db kind payload = Inr (r, db', ks)" and ok: "hub_ok db"
  shows "hub_ok db'"
  using assms hub_ok_add_event [OF ok] by (auto simp: append_event_def Let_def case_prod_beta)

lemma hub_ok_events:
  assumes ok: "hub_ok db" and f: "\<And>v. e_id (f v) = e_id v" "\<And>v. v \<in> set (events db) \<Longrightarrow> event_ok v \<Longrightarrow> P v \<Longrightarrow> event_ok (f v)"
  shows "hub_ok (db\<lparr>events := update_where P f (events db)\<rparr>)" (is "hub_ok ?d")
proof -
  note D = hub_okD [OF ok]
  have ids: "map e_id (update_where P f (events db)) = map e_id (events db)"
    using f(1) by (simp add: update_where_def)
  have look: "agent_of ?d = agent_of db" "task_of ?d = task_of db" by (auto intro!: lookup_cong)
  have "rows_ok ?d" using D(1) rows_ok_cong [of ?d db] ids by simp
  moreover have "references_ok ?d" using D(5) references_ok_cong [of ?d db] ids by simp
  moreover have "events_ok ?d" using D(4) f(2) by (auto simp: events_ok_def list_all_iff set_update_where)
  moreover have "awaiting ?d = awaiting db" by (rule awaiting_cong) simp
  moreover have "coupled ?d" "workspaces_ok ?d"
    using D(2,7) coupled_cong [OF look] workspaces_cong [OF look(1)] by blast+
  moreover have "tasks_ok ?d" using D(3) by (simp add: tasks_ok_def)
  ultimately show ?thesis
    using D(6) look(2) by (simp add: hub_ok_def questions_ok_def)
qed

lemma ack_event_ok [inv_intros]:
  assumes "ack_event e db did = Inr (r, db', ks)" and ok: "hub_ok db"
  shows "hub_ok db'"
proof -
  have "hub_ok (db\<lparr>events := update_where (delivered_as d)
      (\<lambda>v. v\<lparr>e_state := Acked, e_acked_at := Some (now_iso e 0)\<rparr>) (events db)\<rparr>)" for d
    by (rule hub_ok_events [OF ok]) (auto simp: event_ok_def delivered_as_def)
  then show ?thesis using assms by (auto simp: ack_event_def split: option.splits if_splits)
qed

lemma lease_next_event_cases:
  assumes "lease_next_event e dflt db lease = Inr (r, db', ks)"
  obtains (none) "r = None" "db' = db" "ks = []" "\<forall>v \<in> set (events db). \<not> eligible (now_iso e 0) v"
  | (leased) v expires where "first_by e_id (eligible (now_iso e 0)) (events db) = Some v"
      "expires = to_iso (now_at e 0 + seconds (case lease of None \<Rightarrow> dflt | Some s \<Rightarrow> s))"
      "db' = upd_event (e_id v) (lease_row (uuid_at e 0) (now_iso e 0) expires) db"
      "r = event_of db' (e_id v)" "ks = []"
  using assms
  by (cases "first_by e_id (eligible (now_iso e 0)) (events db)")
    (auto simp: lease_next_event_def Let_def first_by_None)

lemma lease_next_event_ok [inv_intros]:
  assumes l: "lease_next_event e dflt db lease = Inr (r, db', ks)" and ok: "hub_ok db"
  shows "hub_ok db'"
  using l
proof (cases rule: lease_next_event_cases)
  case (leased v expires)
  have el: "eligible (now_iso e 0) v" "v \<in> set (events db)" using leased(1) by (auto dest: first_by_Some)
  have "hub_ok (db\<lparr>events := update_where (\<lambda>u. e_id u = e_id v)
      (lease_row (uuid_at e 0) (now_iso e 0) expires) (events db)\<rparr>)"
  proof (rule hub_ok_events [OF ok])
    fix u assume u: "u \<in> set (events db)" "event_ok u" "e_id u = e_id v"
    then have "u = v" using event_of_iff [OF hub_okD(1) [OF ok]] el(2) by (metis option.inject)
    then show "event_ok (lease_row (uuid_at e 0) (now_iso e 0) expires u)"
      using u(2) el(1) by (auto simp: lease_row_def event_ok_def eligible_def)
  qed (simp add: lease_row_def)
  then show ?thesis unfolding leased(3) upd_event_def .
qed (use ok in simp)

section \<open>The sweep\<close>

lemma expire_row_ok:
  assumes "hub_ok db"
  shows "hub_ok (snd (expire_row e n db row))"
  unfolding expire_row_def
  by (intro hub_ok_add_event hub_ok_upd_task [OF assms])
    (use task_okD [OF hub_okD(3) [OF assms]] in \<open>auto simp: task_ok_def\<close>)

lemma expire_rows_Cons:
  "expire_rows e n db (row # rows) =
     (fst (expire_row e n db row) # fst (expire_rows e (n + 2) (snd (expire_row e n db row)) rows),
      snd (expire_rows e (n + 2) (snd (expire_row e n db row)) rows))"
  by (simp add: Let_def case_prod_beta)

lemma lose_rows_Cons:
  "lose_rows e n db (row # rows) =
     (fst (lose_row e n db row) # fst (lose_rows e (n + 2) (snd (lose_row e n db row)) rows),
      snd (lose_rows e (n + 2) (snd (lose_row e n db row)) rows))"
  by (simp add: Let_def case_prod_beta)

lemmas rows_Cons = expire_rows_Cons lose_rows_Cons

declare expire_rows.simps(2) [simp del] lose_rows.simps(2) [simp del]

lemma expire_rows_ok: "hub_ok db \<Longrightarrow> hub_ok (snd (expire_rows e n db rows))"
  by (induction rows arbitrary: n db) (simp_all add: rows_Cons expire_row_ok)

lemma expire_row_agents [simp]: "agents (snd (expire_row e n db row)) = agents db"
  by (simp add: expire_row_def)

lemma expire_rows_agents: "agents (snd (expire_rows e n db rows)) = agents db"
  by (induction rows arbitrary: n db) (simp_all add: rows_Cons)

abbreviation "mark_lost \<equiv> (\<lambda>a. a\<lparr>a_status := Lost\<rparr>)"

lemma finish_mark_lost:
  "finish e k (upd_agent n mark_lost db) i st p = upd_agent n mark_lost (finish e k db i st p)"
  by (auto simp: finish_def upd_agent_def upd_task_def update_where_def Let_def)

lemma hub_ok_mark_lost:
  assumes "hub_ok db" "\<And>a. agent_of db n = Some a \<Longrightarrow> a_current_task a = None"
  shows "hub_ok (upd_agent n mark_lost db)"
  by (rule hub_ok_upd_agent [OF assms(1)]) (auto simp: assms(2) live_def)

lemma lose_row_closed:
  assumes ok: "hub_ok db" and a: "agent_of db (a_name a) = Some a"
  shows "snd (lose_row e n db a) = snd (add_event e (n + 1) (upd_agent (a_name a) mark_lost
      (case a_current_task a of None \<Rightarrow> db
       | Some i \<Rightarrow> finish e n db i Failed (Some (lost_payload (a_name a))))) Agent_lost
     [(''agent'', JStr (a_name a)), (''task_id'', jopt (a_current_task a)),
            (''last_heartbeat'', JInt (a_last_heartbeat a))])"
proof -
  have "open_task_id (upd_agent (a_name a) mark_lost db) = open_task_id db"
    by (intro ext) (simp only: open_task_id_def lookup_frames)
  then have "open_task_id (upd_agent (a_name a) mark_lost db) (a_current_task a) = a_current_task a"
    using coupled_open_task_id [OF hub_okD(2) [OF ok] a] by simp
  then show ?thesis
    unfolding lose_row_def Let_def by (simp only: finish_mark_lost split: option.split) simp
qed

lemma lose_row_ok:
  assumes ok: "hub_ok db" and a: "agent_of db (a_name a) = Some a"
  shows "hub_ok (snd (lose_row e n db a))"
  unfolding lose_row_closed [OF ok a]
proof (intro hub_ok_add_event hub_ok_mark_lost)
  show "hub_ok (case a_current_task a of None \<Rightarrow> db
       | Some i \<Rightarrow> finish e n db i Failed (Some (lost_payload (a_name a))))"
    using ok by (auto intro!: hub_ok_finish hub_ok_weaken split: option.splits)
  fix b assume "agent_of (case a_current_task a of None \<Rightarrow> db
       | Some i \<Rightarrow> finish e n db i Failed (Some (lost_payload (a_name a)))) (a_name a) = Some b"
  with a show "a_current_task b = None" by (auto simp: freed_def split: option.splits)
qed

text \<open>A silent agent that has not been reached yet still has the row the pass selected.\<close>

lemma lose_row_other:
  assumes ok: "hub_ok db" and a: "agent_of db (a_name a) = Some a"
    and b: "agent_of db (a_name b) = Some b" "a_name b \<noteq> a_name a"
  shows "agent_of (snd (lose_row e n db a)) (a_name b) = Some b"
proof -
  have "freed i b = b" if "a_current_task a = Some i" for i
  proof -
    have "a_current_task b \<noteq> Some i"
      using coupled_agentD [OF hub_okD(2) [OF ok] a that] coupled_agentD [OF hub_okD(2) [OF ok] b(1), of i] b(2)
      by auto
    then show ?thesis by (simp add: freed_def)
  qed
  then show ?thesis
    unfolding lose_row_closed [OF ok a] using b
    by (simp add: agent_tbl.get_upd split: option.splits)
qed

lemma lose_rows_ok:
  assumes "hub_ok db" "distinct (map a_name rows)" "\<forall>a \<in> set rows. agent_of db (a_name a) = Some a"
  shows "hub_ok (snd (lose_rows e n db rows))"
  using assms
proof (induction rows arbitrary: n db)
  case (Cons a rows)
  have a: "agent_of db (a_name a) = Some a" using Cons.prems by simp
  have "agent_of (snd (lose_row e n db a)) (a_name b) = Some b" if "b \<in> set rows" for b
  proof (rule lose_row_other [OF Cons.prems(1) a])
    show "agent_of db (a_name b) = Some b" using Cons.prems(3) that by simp
    show "a_name b \<noteq> a_name a" using Cons.prems(2) that by (metis distinct.simps(2) imageI image_set list.simps(9))
  qed
  then have keep: "\<forall>b \<in> set rows. agent_of (snd (lose_row e n db a)) (a_name b) = Some b" by blast
  have "distinct (map a_name rows)" using Cons.prems(2) by simp
  then have "hub_ok (snd (lose_rows e (n + 2) (snd (lose_row e n db a)) rows))"
    by (rule Cons.IH [OF lose_row_ok [OF Cons.prems(1) a] _ keep])
  then show ?case by (simp add: rows_Cons)
qed simp

lemma sweep_cases:
  assumes "sweep e db lost_after = Inr (r, db', ks)"
  obtains expired lost db1 where
    "(expired, db1) = expire_leases e 1 db (now_iso e 0)"
    "(lost, db') = lose_agents e (1 + 2 * length expired) db1 (to_iso (now_at e 0 - seconds lost_after))"
    "r = sort_key e_id (filter (\<lambda>v. e_id v \<in> set (expired @ lost)) (events db'))"
    "ks = (if expired @ lost = [] then [] else [EVENT_KEY])"
proof -
  obtain expired db1 where 1: "(expired, db1) = expire_leases e 1 db (now_iso e 0)" by (metis surj_pair)
  obtain lost db2 where
    2: "(lost, db2) = lose_agents e (1 + 2 * length expired) db1 (to_iso (now_at e 0 - seconds lost_after))"
    by (metis surj_pair)
  have "sweep e db lost_after = (if expired @ lost = [] then Inr ([], db2, [])
      else Inr (sort_key e_id (filter (\<lambda>v. e_id v \<in> set (expired @ lost)) (events db2)), db2, [EVENT_KEY]))"
    unfolding sweep_def Let_def now_iso_def [symmetric] 1 [symmetric] prod.case 2 [symmetric] by (rule refl)
  with assms have "db2 = db'" "ks = (if expired @ lost = [] then [] else [EVENT_KEY])"
    "r = sort_key e_id (filter (\<lambda>v. e_id v \<in> set (expired @ lost)) (events db'))"
    by (auto split: if_splits)
  with that [OF 1, of lost] 2 show thesis by simp
qed

lemma sweep_ok [inv_intros]:
  assumes s: "sweep e db lost_after = Inr (r, db', ks)" and ok: "hub_ok db"
  shows "hub_ok db'"
  using s
proof (cases rule: sweep_cases)
  case (1 expired lost db1)
  have "db1 = snd (expire_rows e 1 db (filter (overdue (now_iso e 0)) (tasks db)))"
    using 1(1) by (metis expire_leases_def snd_conv)
  then have ok1: "hub_ok db1" using expire_rows_ok [OF ok] by simp
  note R = hub_okD(1) [OF ok1]
  have db': "db' = snd (lose_rows e (1 + 2 * length expired) db1
      (filter (silent (to_iso (now_at e 0 - seconds lost_after))) (agents db1)))"
    using 1(2) by (metis lose_agents_def snd_conv)
  show ?thesis unfolding db'
    by (rule lose_rows_ok [OF ok1])
      (use R agent_of_iff [OF R] in \<open>auto simp: rows_ok_def distinct_map_filter\<close>)
qed

end
