(* ===== verification/HubEvolution.thy ===== *)
theory HubEvolution
  imports HubSweep
begin

text \<open>
  What never goes backwards: every operation only appends rows, leaves the identifying fields
  of the rows it finds, never reopens a terminal task, never un-acknowledges or requeues an
  event and never re-admits a released agent. \<open>evolves\<close> is the preorder of these facts.
\<close>

definition grows :: "('r \<Rightarrow> 'r \<Rightarrow> bool) \<Rightarrow> 'r list \<Rightarrow> 'r list \<Rightarrow> bool" where
  "grows R xs ys = (length xs \<le> length ys \<and> (\<forall>i < length xs. R (xs ! i) (ys ! i)))"

lemma grows_refl [simp]: "(\<And>x. R x x) \<Longrightarrow> grows R xs xs"
  by (simp add: grows_def)

lemma grows_trans:
  "(\<And>x y z. R x y \<Longrightarrow> R y z \<Longrightarrow> R x z) \<Longrightarrow> grows R xs ys \<Longrightarrow> grows R ys zs \<Longrightarrow> grows R xs zs"
  unfolding grows_def by (metis le_trans less_le_trans)

lemma grows_append: "(\<And>x. R x x) \<Longrightarrow> grows R xs (xs @ zs)"
  by (simp add: grows_def nth_append)

lemma grows_map: "(\<And>x. x \<in> set xs \<Longrightarrow> R x (f x)) \<Longrightarrow> grows R xs (map f xs)"
  by (simp add: grows_def)

lemma grows_update_where:
  "(\<And>x. R x x) \<Longrightarrow> (\<And>x. x \<in> set xs \<Longrightarrow> P x \<Longrightarrow> R x (f x)) \<Longrightarrow> grows R xs (update_where P f xs)"
  unfolding update_where_def by (rule grows_map) simp

lemma grows_eq_append: "grows (=) xs ys \<Longrightarrow> \<exists>zs. ys = xs @ zs"
proof (rule exI [of _ "drop (length xs) ys"])
  assume "grows (=) xs ys"
  then have "take (length xs) ys = xs" by (auto simp: grows_def intro: nth_equalityI)
  then show "ys = xs @ drop (length xs) ys" by (metis append_take_drop_id)
qed

lemma grows_mem: "grows R xs ys \<Longrightarrow> x \<in> set xs \<Longrightarrow> \<exists>y \<in> set ys. R x y"
  unfolding grows_def by (metis in_set_conv_nth less_le_trans nth_mem)

section \<open>One row\<close>

text \<open>The columns that are written once.\<close>

definition task_core :: "task_row \<Rightarrow> task_row" where
  "task_core t = t\<lparr>t_state := Submitted, t_lease_expires := None, t_result := None, t_updated := 0\<rparr>"

definition workflow_core :: "workflow_row \<Rightarrow> workflow_row" where
  "workflow_core w = w\<lparr>w_status := Active\<rparr>"

definition task_evolves :: "task_row \<Rightarrow> task_row \<Rightarrow> bool" where
  "task_evolves t u = (
     task_core u = task_core t \<and>
     (terminal (t_state t) \<longrightarrow> u = t) \<and> (t_state u = Submitted \<longrightarrow> t_state t = Submitted))"

definition agent_evolves :: "agent_row \<Rightarrow> agent_row \<Rightarrow> bool" where
  "agent_evolves a b = (a_name b = a_name a \<and> a_context_id b = a_context_id a \<and>
     (a_status a = Released_status \<longrightarrow> a_status b = Released_status))"

definition event_evolves :: "event_row \<Rightarrow> event_row \<Rightarrow> bool" where
  "event_evolves v w = (e_id w = e_id v \<and> e_kind w = e_kind v \<and> e_payload w = e_payload v \<and>
     e_ts w = e_ts v \<and> e_attempts v \<le> e_attempts w \<and>
     (e_state v = Acked \<longrightarrow> w = v) \<and> (e_state w = Queued \<longrightarrow> e_state v = Queued))"

definition workflow_evolves :: "workflow_row \<Rightarrow> workflow_row \<Rightarrow> bool" where
  "workflow_evolves w x = (workflow_core x = workflow_core w)"

lemma row_evolves_refl [simp]: "task_evolves t t" "agent_evolves a a" "event_evolves v v" "workflow_evolves w w"
  by (simp_all add: task_evolves_def agent_evolves_def event_evolves_def workflow_evolves_def)

lemma task_evolves_trans: "task_evolves t u \<Longrightarrow> task_evolves u v \<Longrightarrow> task_evolves t v"
  unfolding task_evolves_def by metis

lemma agent_evolves_trans: "agent_evolves a b \<Longrightarrow> agent_evolves b c \<Longrightarrow> agent_evolves a c"
  by (simp add: agent_evolves_def)

lemma event_evolves_trans: "event_evolves a b \<Longrightarrow> event_evolves b c \<Longrightarrow> event_evolves a c"
  unfolding event_evolves_def by (metis le_trans)

lemma workflow_evolves_trans: "workflow_evolves a b \<Longrightarrow> workflow_evolves b c \<Longrightarrow> workflow_evolves a c"
  by (simp add: workflow_evolves_def)

lemma task_core_fields:
  "t_id (task_core t) = t_id t" "t_workflow (task_core t) = t_workflow t"
  "t_assignee (task_core t) = t_assignee t" "t_role (task_core t) = t_role t"
  "t_title (task_core t) = t_title t" "t_instructions (task_core t) = t_instructions t"
  "t_lease_duration_s (task_core t) = t_lease_duration_s t" "t_created (task_core t) = t_created t"
  "t_pr_head_sha (task_core t) = t_pr_head_sha t" "t_source_event (task_core t) = t_source_event t"
  by (simp_all add: task_core_def)

lemma task_evolvesD:
  assumes "task_evolves t u"
  shows "t_id u = t_id t" "t_workflow u = t_workflow t" "t_assignee u = t_assignee t" "t_role u = t_role t"
    "t_title u = t_title t" "t_instructions u = t_instructions t" "t_lease_duration_s u = t_lease_duration_s t"
    "t_created u = t_created t" "t_pr_head_sha u = t_pr_head_sha t" "t_source_event u = t_source_event t"
    "terminal (t_state t) \<Longrightarrow> u = t" "t_state u = Submitted \<Longrightarrow> t_state t = Submitted"
proof -
  have c: "task_core u = task_core t" using assms by (simp add: task_evolves_def)
  show "t_id u = t_id t" "t_workflow u = t_workflow t" "t_assignee u = t_assignee t" "t_role u = t_role t"
    "t_title u = t_title t" "t_instructions u = t_instructions t" "t_lease_duration_s u = t_lease_duration_s t"
    "t_created u = t_created t" "t_pr_head_sha u = t_pr_head_sha t" "t_source_event u = t_source_event t"
    by (metis c task_core_fields(1), metis c task_core_fields(2), metis c task_core_fields(3),
        metis c task_core_fields(4), metis c task_core_fields(5), metis c task_core_fields(6),
        metis c task_core_fields(7), metis c task_core_fields(8), metis c task_core_fields(9),
        metis c task_core_fields(10))
qed (use assms in \<open>simp_all add: task_evolves_def\<close>)

lemma workflow_coreD:
  assumes "workflow_core x = workflow_core w"
  shows "w_id x = w_id w" "w_goal x = w_goal w" "w_policy x = w_policy w" "w_created x = w_created w"
proof -
  have c: "w_id (workflow_core v) = w_id v" "w_goal (workflow_core v) = w_goal v"
    "w_policy (workflow_core v) = w_policy v" "w_created (workflow_core v) = w_created v" for v
    by (simp_all add: workflow_core_def)
  show "w_id x = w_id w" "w_goal x = w_goal w" "w_policy x = w_policy w" "w_created x = w_created w"
    by (metis assms c(1), metis assms c(2), metis assms c(3), metis assms c(4))
qed

section \<open>The database\<close>

definition evolves :: "hub_db \<Rightarrow> hub_db \<Rightarrow> bool" where
  "evolves db d = (
     grows workflow_evolves (workflows db) (workflows d) \<and> grows agent_evolves (agents db) (agents d) \<and>
     grows task_evolves (tasks db) (tasks d) \<and> grows (=) (messages db) (messages d) \<and>
     grows event_evolves (events db) (events d) \<and> grows (=) (decisions db) (decisions d) \<and>
     grows (=) (operations db) (operations d) \<and>
     message_seq db \<le> message_seq d \<and> event_seq db \<le> event_seq d \<and> decision_seq db \<le> decision_seq d)"

lemma evolvesD:
  assumes "evolves db d"
  shows "grows workflow_evolves (workflows db) (workflows d)" "grows agent_evolves (agents db) (agents d)"
    "grows task_evolves (tasks db) (tasks d)" "grows (=) (messages db) (messages d)"
    "grows event_evolves (events db) (events d)" "grows (=) (decisions db) (decisions d)"
    "grows (=) (operations db) (operations d)"
    "message_seq db \<le> message_seq d" "event_seq db \<le> event_seq d" "decision_seq db \<le> decision_seq d"
  using assms unfolding evolves_def by simp_all

lemma evolves_refl [simp]: "evolves db db"
  by (simp add: evolves_def)

lemma grows_workflows_trans: "grows workflow_evolves xs ys \<Longrightarrow> grows workflow_evolves ys zs \<Longrightarrow> grows workflow_evolves xs zs"
  by (rule grows_trans [of workflow_evolves]) (blast intro: workflow_evolves_trans)+

lemma grows_agents_trans: "grows agent_evolves xs ys \<Longrightarrow> grows agent_evolves ys zs \<Longrightarrow> grows agent_evolves xs zs"
  by (rule grows_trans [of agent_evolves]) (blast intro: agent_evolves_trans)+

lemma grows_tasks_trans: "grows task_evolves xs ys \<Longrightarrow> grows task_evolves ys zs \<Longrightarrow> grows task_evolves xs zs"
  by (rule grows_trans [of task_evolves]) (blast intro: task_evolves_trans)+

lemma grows_events_trans: "grows event_evolves xs ys \<Longrightarrow> grows event_evolves ys zs \<Longrightarrow> grows event_evolves xs zs"
  by (rule grows_trans [of event_evolves]) (blast intro: event_evolves_trans)+

lemma grows_eq_trans: "grows (=) xs ys \<Longrightarrow> grows (=) ys zs \<Longrightarrow> grows (=) xs zs"
  by (rule grows_trans [of "(=)"]) (blast intro: trans)+

lemmas grows_rows_trans = grows_workflows_trans grows_agents_trans grows_tasks_trans grows_events_trans grows_eq_trans

lemma evolves_trans:
  assumes ab: "evolves a b" and bc: "evolves b c"
  shows "evolves a c"
  unfolding evolves_def
proof (intro conjI)
  note A = ab [unfolded evolves_def] and B = bc [unfolded evolves_def]
  show "grows workflow_evolves (workflows a) (workflows c)" using A B by (blast intro: grows_rows_trans(1))
  show "grows agent_evolves (agents a) (agents c)" using A B by (blast intro: grows_rows_trans(2))
  show "grows task_evolves (tasks a) (tasks c)" using A B by (blast intro: grows_rows_trans(3))
  show "grows event_evolves (events a) (events c)" using A B by (blast intro: grows_rows_trans(4))
  show "grows (=) (messages a) (messages c)" using A B by (blast intro: grows_rows_trans(5))
  show "grows (=) (decisions a) (decisions c)" using A B by (blast intro: grows_rows_trans(5))
  show "grows (=) (operations a) (operations c)" using A B by (blast intro: grows_rows_trans(5))
qed (use ab bc in \<open>simp_all add: evolves_def\<close>)

lemma evolves_upd_agent:
  "(\<And>a. agent_evolves a (f a)) \<Longrightarrow> evolves db (upd_agent n f db)"
  by (simp add: evolves_def grows_update_where)

lemma evolves_upd_agent_at:
  "(\<And>a. a \<in> set (agents db) \<Longrightarrow> a_name a = n \<Longrightarrow> agent_evolves a (f a)) \<Longrightarrow> evolves db (upd_agent n f db)"
  by (simp add: evolves_def grows_update_where)

lemma evolves_ins_agent: "evolves db (ins_agent a db)"
  by (simp add: evolves_def grows_append)

lemma evolves_ins_task: "evolves db (ins_task t db)"
  by (simp add: evolves_def grows_append)

lemma evolves_upd_task:
  assumes "rows_ok db" "\<And>t. task_of db i = Some t \<Longrightarrow> task_evolves t (f t)"
  shows "evolves db (upd_task i f db)"
  using assms task_of_iff [OF assms(1)] by (simp add: evolves_def grows_update_where)

lemma evolves_add_message: "add_message e n db tid ctx sender dir parts = Inr (mid, db') \<Longrightarrow> evolves db db'"
  by (auto simp: add_message_Inr evolves_def grows_append)

lemma evolves_add_event: "evolves db (snd (add_event e n db k p))"
  by (simp add: evolves_def grows_append)

lemma evolves_record_reply: "evolves db (snd (record_reply e n db actor op hash b r))"
  by (auto simp: record_reply_def ins_operation_def evolves_def grows_append split: option.splits)

lemma evolves_set_state:
  assumes "rows_ok db" "task_of db i = Some t" "\<not> terminal (t_state t)" "st \<noteq> Submitted"
  shows "evolves db (set_state e n db i st)"
  unfolding set_state_def by (rule evolves_upd_task [OF assms(1)]) (use assms in \<open>simp add: task_evolves_def task_core_def\<close>)

lemma evolves_finish:
  assumes "rows_ok db" "task_of db i = Some t" "\<not> terminal (t_state t)" "terminal st"
  shows "evolves db (finish e n db i st p)"
proof -
  have "grows task_evolves (tasks db) (tasks (finish e n db i st p))"
    unfolding tasks_lists
  proof (rule grows_update_where)
    fix x assume "x \<in> set (tasks db)" "t_id x = i"
    then have "x = t" using assms(2) task_of_iff [OF assms(1)] by (metis option.inject)
    then show "task_evolves x (finished_row (now_iso e n) st p x)"
      using assms(3,4) by (auto simp: task_evolves_def finished_row_def task_core_def)
  qed simp
  moreover have "agent_evolves a (freed i a)" for a by (simp add: agent_evolves_def freed_def)
  ultimately show ?thesis by (simp add: evolves_def grows_map)
qed

section \<open>Every operation\<close>

named_theorems evolution

lemma initialize_workflow_evolves [evolution]:
  "initialize_workflow e db goal policy = Inr (r, db', ks) \<Longrightarrow> evolves db db'"
  by (auto simp: initialize_workflow_def Let_def evolves_def grows_append split: sum.splits option.splits if_splits)

lemma set_workflow_status_evolves [evolution]:
  assumes "set_workflow_status e db st summary = Inr (r, db', ks)"
  shows "evolves db db'"
proof -
  have "evolves db (db\<lparr>workflows := update_where P (\<lambda>w. w\<lparr>w_status := st\<rparr>) (workflows db),
      decisions := decisions db @ ds, decision_seq := Suc (decision_seq db)\<rparr>)" for P ds
    by (simp add: evolves_def grows_append grows_update_where workflow_evolves_def workflow_core_def)
  then show ?thesis using assms by (auto simp: set_workflow_status_def Let_def split: if_splits)
qed

lemma log_decision_evolves [evolution]:
  "log_decision e db summary rationale key = Inr (r, db', ks) \<Longrightarrow> evolves db db'"
  by (auto simp: log_decision_def Let_def evolves_def grows_append split: option.splits)

lemma record_operation_evolves [evolution]:
  assumes "record_operation e db ac op h resp = Inr (r, db', ks)"
  shows "evolves db db'"
  using record_operation_cases [OF assms] by (simp add: evolves_def ins_operation_def grows_append)

lemma check_in_row_evolves:
  assumes "check_in_row e db name profile i addr = Inr db'" "rows_ok db"
  shows "evolves db db'"
proof (cases "agent_of db name")
  case None
  with assms show ?thesis by (auto simp: check_in_row_def Let_def evolves_ins_agent split: if_splits)
next
  case (Some row)
  have "a = row" if "a \<in> set (agents db)" "a_name a = name" for a
    using that Some agent_of_iff [OF assms(2)] by (metis option.inject)
  then have "evolves db (upd_agent name (\<lambda>a. a\<lparr>a_status := readmitted (a_status row) cur,
      a_last_seen := n1, a_instance := i, a_last_heartbeat := n2, a_last_progress_at := lp,
      a_current_task := cur, a_profile := profile, a_checkin_addr := addr, a_last_addr := addr\<rparr>) db)" for cur n1 n2 lp
    by (auto simp: evolves_def agent_evolves_def readmitted_def intro!: grows_update_where)
  with assms(1) Some show ?thesis by (auto simp: check_in_row_def Let_def split: if_splits)
qed

lemma evolves_reply:
  assumes "evolves db db3" "(r, db') = record_reply e n db3 actor op hash b x"
  shows "evolves db db'"
  using evolves_trans [OF assms(1) evolves_record_reply] assms(2) by (metis snd_conv)

lemma check_in_evolves [evolution]:
  assumes ci: "check_in e db name profile inst op hash builder addr = Inr (r, db', ks)" and ok: "hub_ok db"
  shows "evolves db db'"
  using ci
proof (cases rule: check_in_cases)
  case (fresh i db1 row parts mid db2 pay db3 agent)
  have "evolves db db3" unfolding fresh(7)
    by (rule evolves_trans [OF evolves_trans [OF check_in_row_evolves [OF fresh(4) hub_okD(1) [OF ok]]
        evolves_add_message [OF fresh(6)]] evolves_add_event])
  then show ?thesis using fresh(9) by (rule evolves_reply)
qed simp

lemma heartbeat_evolves [evolution]:
  assumes hb: "heartbeat e db name inst cur lease addr = Inr (b, db', ks)" and ok: "hub_ok db"
  shows "evolves db db'"
proof -
  have beat: "evolves db (upd_agent n (beat_agent now a) db)" for n now a
    by (rule evolves_upd_agent) (simp add: agent_evolves_def beat_agent_def)
  from hb show ?thesis
  proof (cases rule: heartbeat_cases)
    case (3 a i t x cap)
    show ?thesis unfolding 3(13)
    proof (rule evolves_trans [OF beat evolves_upd_task])
      show "rows_ok (upd_agent name (beat_agent (now_iso e 0) addr) db)"
        by (rule hub_okD(1) [OF hub_ok_beat [OF ok]])
      fix u assume "task_of (upd_agent name (beat_agent (now_iso e 0) addr) db) i = Some u"
      then have "u = t" using 3(7) by simp
      then show "task_evolves u (u\<lparr>t_lease_expires := l, t_updated := now_iso e 0\<rparr>)" for l
        using 3(9) by (simp add: task_evolves_def task_core_def)
    qed
  qed (simp_all add: beat)
qed

lemma release_agent_evolves [evolution]:
  assumes "release_agent db name = Inr (r, db', ks)"
  shows "evolves db db'"
proof -
  have "evolves db (upd_agent name (\<lambda>a. a\<lparr>a_status := Released_status\<rparr>) db)"
    by (rule evolves_upd_agent) (simp add: agent_evolves_def)
  with assms show ?thesis by (auto simp: release_agent_def Let_def split: if_splits)
qed

lemma assign_task_evolves [evolution]:
  assumes asg: "assign_task e db agent role title instr lease head src = Inr (t, db', ks)"
    and ok: "hub_ok db"
  shows "evolves db db'"
  using asg
proof (cases rule: assign_task_fresh)
  case (fresh w a row mid)
  have "evolves (ins_task row db) (upd_agent agent (\<lambda>a. a\<lparr>a_status := Busy,
      a_current_task := Some (t_id row)\<rparr>) (ins_task row db))"
  proof (rule evolves_upd_agent_at)
    fix b assume "b \<in> set (agents (ins_task row db))" "a_name b = agent"
    then have "b = a" using fresh(2) agent_of_iff [OF hub_okD(1) [OF ok]] by simp (metis option.inject)
    then show "agent_evolves b (b\<lparr>a_status := Busy, a_current_task := Some (t_id row)\<rparr>)"
      using fresh(3) by (simp add: agent_evolves_def)
  qed
  then show ?thesis
    by (rule evolves_trans [OF evolves_trans [OF evolves_ins_task] evolves_add_message [OF fresh(20)]])
qed simp

lemma claim_assignment_evolves [evolution]:
  assumes "claim_assignment e db name = Inr (c, db', ks)" and ok: "hub_ok db"
  shows "evolves db db'"
proof -
  consider "db' = db" | t where "t \<in> set (tasks db)" "t_state t = Submitted" "db' = set_state e 0 db (t_id t) Working"
    using assms(1) by (auto simp: claim_assignment_def Let_def dest: first_by_Some split: if_splits option.splits)
  then show ?thesis
  proof cases
    case (2 t)
    note R = hub_okD(1) [OF ok]
    have "task_of db (t_id t) = Some t" using 2(1) by (simp add: task_of_iff [OF R])
    then show ?thesis
      unfolding 2(3) by (rule evolves_set_state [OF R]) (simp_all add: 2)
  qed simp
qed

lemma record_progress_evolves [evolution]:
  assumes rp: "record_progress e db tid agent note op hash builder = Inr (r, db', ks)"
  shows "evolves db db'"
  using rp
proof (cases rule: record_progress_cases)
  case (fresh t a mid db1 db3)
  have "evolves d (record_progress_at e 2 d agent)" for d
    unfolding record_progress_at_def by (rule evolves_upd_agent) (simp add: agent_evolves_def)
  then have "evolves db db3" unfolding fresh(6)
    by (rule evolves_trans [OF evolves_trans [OF evolves_add_message [OF fresh(5)] evolves_add_event]])
  then show ?thesis using fresh(7) by (rule evolves_reply)
qed simp

lemma open_question_evolves [evolution]:
  assumes oq: "open_question e db tid agent question sent_as = Inr (q, db', ks)" and ok: "hub_ok db"
  shows "evolves db db'"
  using oq
proof (cases rule: open_question_cases)
  case (fresh t a db1)
  note msg = fresh(5)
  have "rows_ok db1" by (rule rows_ok_add_message [OF msg hub_okD(1) [OF ok]])
  moreover have "task_of db1 tid = Some t" using fresh(2) add_message_frames(10) [OF msg] by simp
  ultimately have "evolves db1 (set_state e 1 db1 tid Input_required)"
    by (rule evolves_set_state) (simp_all add: fresh(3))
  then show ?thesis unfolding fresh(6)
    by (rule evolves_trans [OF evolves_trans [OF evolves_add_message [OF msg]] evolves_add_event])
qed simp

lemma reply_evolves [evolution]:
  assumes r: "reply e db tid text q = Inr (b, db', ks)" and ok: "hub_ok db"
  shows "evolves db db'"
  using r
proof (cases rule: reply_cases)
  case (sent t ctx mid db1)
  note msg = sent(7)
  have "rows_ok db1" by (rule rows_ok_add_message [OF msg hub_okD(1) [OF ok]])
  moreover have "task_of db1 tid = Some t" using sent(2) add_message_frames(10) [OF msg] by simp
  ultimately have "evolves db1 (set_state e 1 db1 tid Working)"
    by (rule evolves_set_state) (simp_all add: sent(3))
  then show ?thesis unfolding sent(8) by (rule evolves_trans [OF evolves_add_message [OF msg]])
qed simp

lemma submit_result_evolves [evolution]:
  assumes sr: "submit_result e db tid agent result summary artifacts status op hash builder = Inr (r, db', ks)"
    and ok: "hub_ok db"
  shows "evolves db db'"
  using sr
proof (cases rule: submit_result_cases)
  case (fresh actual payload sum st t a mid db1 db3 fin kind)
  note msg = fresh(8)
  have "rows_ok db1" by (rule rows_ok_add_message [OF msg hub_okD(1) [OF ok]])
  moreover have "task_of db1 tid = Some t" using fresh(5) add_message_frames(10) [OF msg] by simp
  ultimately have "evolves db1 (finish e 1 db1 tid st (Some payload))"
    by (rule evolves_finish [OF _ _ fresh(6) interpret_result_terminal [OF fresh(2)]])
  then have "evolves db db3" unfolding fresh(10)
    by (rule evolves_trans [OF evolves_trans [OF evolves_add_message [OF msg]] evolves_add_event])
  then show ?thesis using fresh(12) by (rule evolves_reply)
qed simp

lemma set_task_state_evolves [evolution]:
  assumes s: "set_task_state e db tid st note = Inr (r, db', ks)" and ok: "hub_ok db"
  shows "evolves db db'"
  using s
proof (cases rule: set_task_state_cases)
  case (1 t ctx mid db1)
  note msg = 1(5)
  have "rows_ok db1" by (rule rows_ok_add_message [OF msg hub_okD(1) [OF ok]])
  moreover have "task_of db1 tid = Some t" using 1(2) add_message_frames(10) [OF msg] by simp
  moreover have "terminal st" using 1(1) by auto
  ultimately show ?thesis unfolding 1(6)
    by (intro evolves_trans [OF evolves_add_message [OF msg]] evolves_finish [OF _ _ 1(3)])
qed

lemma cancel_task_evolves [evolution]:
  assumes c: "cancel_task e db tid = Inr (r, db', ks)" and ok: "hub_ok db"
  shows "evolves db db'"
  using c
proof (cases rule: cancel_task_cases)
  case (1 t ctx)
  show ?thesis unfolding 1(4) by (rule evolves_finish [OF hub_okD(1) [OF ok] 1(1,2)]) simp
qed

lemma append_event_evolves [evolution]:
  "append_event e db kind payload = Inr (r, db', ks) \<Longrightarrow> evolves db db'"
  using evolves_add_event by (auto simp: append_event_def Let_def case_prod_beta)

lemma evolves_events:
  "(\<And>v. v \<in> set (events db) \<Longrightarrow> P v \<Longrightarrow> event_evolves v (f v)) \<Longrightarrow>
   evolves db (db\<lparr>events := update_where P f (events db)\<rparr>)"
  by (simp add: evolves_def grows_update_where)

lemma ack_event_evolves [evolution]:
  assumes "ack_event e db did = Inr (r, db', ks)"
  shows "evolves db db'"
proof -
  have "evolves db (db\<lparr>events := update_where (delivered_as d)
      (\<lambda>v. v\<lparr>e_state := Acked, e_acked_at := Some (now_iso e 0)\<rparr>) (events db)\<rparr>)" for d
    by (rule evolves_events) (simp add: event_evolves_def delivered_as_def)
  then show ?thesis using assms by (auto simp: ack_event_def split: option.splits if_splits)
qed

lemma lease_next_event_evolves [evolution]:
  assumes l: "lease_next_event e dflt db lease = Inr (r, db', ks)" and ok: "hub_ok db"
  shows "evolves db db'"
  using l
proof (cases rule: lease_next_event_cases)
  case (leased v expires)
  have el: "eligible (now_iso e 0) v" "v \<in> set (events db)" using leased(1) by (auto dest: first_by_Some)
  show ?thesis unfolding leased(3) upd_event_def
  proof (rule evolves_events)
    fix u assume "u \<in> set (events db)" "e_id u = e_id v"
    then have "u = v" using event_of_iff [OF hub_okD(1) [OF ok]] el(2) by (metis option.inject)
    then show "event_evolves u (lease_row (uuid_at e 0) (now_iso e 0) expires u)"
      using el(1) by (auto simp: lease_row_def event_evolves_def eligible_def)
  qed
qed simp

text \<open>The rows a sweep selected are still open, and still theirs, when it reaches them.\<close>

lemma expire_row_evolves:
  assumes "hub_ok db" "task_of db (t_id row) = Some t" "\<not> terminal (t_state t)"
  shows "evolves db (snd (expire_row e n db row))"
  unfolding expire_row_def
  by (rule evolves_trans [OF evolves_upd_task [OF hub_okD(1) [OF assms(1)]] evolves_add_event])
    (use assms in \<open>simp add: task_evolves_def task_core_def\<close>)

lemma expire_row_task_of:
  "task_of (snd (expire_row e n db row)) i = (if i = t_id row
     then map_option (\<lambda>t. t\<lparr>t_lease_expires := None, t_updated := now_iso e n\<rparr>) (task_of db i)
     else task_of db i)"
  by (simp add: expire_row_def task_tbl.get_upd)

lemma expire_rows_evolves:
  assumes "hub_ok db" "\<forall>row \<in> set rows. \<exists>t. task_of db (t_id row) = Some t \<and> \<not> terminal (t_state t)"
  shows "evolves db (snd (expire_rows e n db rows))"
  using assms
proof (induction rows arbitrary: n db)
  case (Cons row rows)
  obtain t where "task_of db (t_id row) = Some t" "\<not> terminal (t_state t)" using Cons.prems by auto
  then have "evolves db (snd (expire_row e n db row))" by (rule expire_row_evolves [OF Cons.prems(1)])
  moreover have "evolves (snd (expire_row e n db row)) (snd (expire_rows e (n + 2) (snd (expire_row e n db row)) rows))"
    by (rule Cons.IH [OF expire_row_ok [OF Cons.prems(1)]]) (use Cons.prems(2) in \<open>auto simp: expire_row_task_of\<close>)
  ultimately show ?case unfolding rows_Cons snd_conv by (rule evolves_trans)
qed simp

lemma lose_row_evolves:
  assumes ok: "hub_ok db" and a: "agent_of db (a_name a) = Some a" and l: "live a"
  shows "evolves db (snd (lose_row e n db a))"
proof -
  let ?d = "case a_current_task a of None \<Rightarrow> db
       | Some i \<Rightarrow> finish e n db i Failed (Some (lost_payload (a_name a)))"
  note R = hub_okD(1) [OF ok]
  have 1: "evolves db ?d"
  proof (cases "a_current_task a")
    case (Some i)
    obtain t where "task_of db i = Some t" "\<not> terminal (t_state t)"
      using coupled_agentD [OF hub_okD(2) [OF ok] a Some] by blast
    with Some show ?thesis by (simp add: evolves_finish [OF R])
  qed simp
  have "agent_evolves b (mark_lost b)" if "b \<in> set (agents ?d)" "a_name b = a_name a" for b
  proof -
    from that obtain i where "b = freed i a \<or> b = a"
      using a agent_of_iff [OF R] by (auto split: option.splits) (metis option.inject)+
    then have "a_status b \<noteq> Released_status" using l by (auto simp: live_def freed_def split: if_splits)
    then show ?thesis by (simp add: agent_evolves_def)
  qed
  then have 2: "evolves ?d (upd_agent (a_name a) mark_lost ?d)" by (rule evolves_upd_agent_at)
  show ?thesis unfolding lose_row_closed [OF ok a]
    by (rule evolves_trans [OF evolves_trans [OF 1 2] evolves_add_event])
qed

lemma lose_rows_evolves:
  assumes "hub_ok db" "distinct (map a_name rows)" "\<forall>a \<in> set rows. agent_of db (a_name a) = Some a \<and> live a"
  shows "evolves db (snd (lose_rows e n db rows))"
  using assms
proof (induction rows arbitrary: n db)
  case (Cons a rows)
  have a: "agent_of db (a_name a) = Some a" "live a" using Cons.prems by simp_all
  have keep: "agent_of (snd (lose_row e n db a)) (a_name b) = Some b \<and> live b" if "b \<in> set rows" for b
  proof -
    have "a_name b \<noteq> a_name a" using Cons.prems(2) that by simp (metis imageI)
    then show ?thesis using lose_row_other [OF Cons.prems(1) a(1)] Cons.prems(3) that by simp
  qed
  have "evolves (snd (lose_row e n db a)) (snd (lose_rows e (n + 2) (snd (lose_row e n db a)) rows))"
    by (rule Cons.IH [OF lose_row_ok [OF Cons.prems(1) a(1)]]) (use Cons.prems keep in auto)
  then show ?case unfolding rows_Cons snd_conv
    by (rule evolves_trans [OF lose_row_evolves [OF Cons.prems(1) a]])
qed simp

lemma sweep_evolves [evolution]:
  assumes s: "sweep e db lost_after = Inr (r, db', ks)" and ok: "hub_ok db"
  shows "evolves db db'"
  using s
proof (cases rule: sweep_cases)
  case (1 expired lost db1)
  note R0 = hub_okD(1) [OF ok]
  have db1: "db1 = snd (expire_rows e 1 db (filter (overdue (now_iso e 0)) (tasks db)))"
    using 1(1) by (metis expire_leases_def snd_conv)
  then have ok1: "hub_ok db1" using expire_rows_ok [OF ok] by simp
  note R = hub_okD(1) [OF ok1]
  have e1: "evolves db db1" unfolding db1
    by (rule expire_rows_evolves [OF ok]) (auto simp: task_of_iff [OF R0] overdue_def open_iff)
  have db': "db' = snd (lose_rows e (1 + 2 * length expired) db1
      (filter (silent (to_iso (now_at e 0 - seconds lost_after))) (agents db1)))"
    using 1(2) by (metis lose_agents_def snd_conv)
  have "evolves db1 db'" unfolding db'
    by (rule lose_rows_evolves [OF ok1])
      (use R agent_of_iff [OF R] in \<open>auto simp: rows_ok_def distinct_map_filter silent_def\<close>)
  with e1 show ?thesis by (rule evolves_trans)
qed

end
