(* ===== verification/HubSystem.thy ===== *)
theory HubSystem
  imports HubEvolution
begin

text \<open>
  The hub as a transition system: any sequence of committed store operations, with any clock
  and any fresh identifiers, from the empty database, each with the wakeup keys it notifies. A
  failing operation is rolled back, so it is no step.
\<close>

inductive hub_does :: "hub_db \<Rightarrow> hub_db \<Rightarrow> string list \<Rightarrow> bool" where
  Initialize: "initialize_workflow e db goal policy = Inr (r, db', ks) \<Longrightarrow> hub_does db db' ks"
| Workflow_status: "set_workflow_status e db st summary = Inr (r, db', ks) \<Longrightarrow> hub_does db db' ks"
| Decision: "log_decision e db summary rationale key = Inr (r, db', ks) \<Longrightarrow> hub_does db db' ks"
| Check_in: "check_in e db name profile inst op hash builder addr = Inr (r, db', ks) \<Longrightarrow> hub_does db db' ks"
| Heartbeat: "heartbeat e db name inst cur lease addr = Inr (r, db', ks) \<Longrightarrow> hub_does db db' ks"
| Release: "release_agent db name = Inr (r, db', ks) \<Longrightarrow> hub_does db db' ks"
| Assign: "env_ok e \<Longrightarrow> assign_task e db agent role title instr lease head src = Inr (r, db', ks) \<Longrightarrow> hub_does db db' ks"
| Claim: "claim_assignment e db name = Inr (r, db', ks) \<Longrightarrow> hub_does db db' ks"
| Progress: "record_progress e db tid agent note op hash pbuilder = Inr (r, db', ks) \<Longrightarrow> hub_does db db' ks"
| Question: "open_question e db tid agent question sent_as = Inr (r, db', ks) \<Longrightarrow> hub_does db db' ks"
| Reply: "reply e db tid text q = Inr (r, db', ks) \<Longrightarrow> hub_does db db' ks"
| Result: "submit_result e db tid agent result summary artifacts status op hash rbuilder = Inr (r, db', ks) \<Longrightarrow>
    hub_does db db' ks"
| Override: "set_task_state e db tid st note = Inr (r, db', ks) \<Longrightarrow> hub_does db db' ks"
| Cancel: "cancel_task e db tid = Inr (r, db', ks) \<Longrightarrow> hub_does db db' ks"
| Append: "append_event e db kind payload = Inr (r, db', ks) \<Longrightarrow> hub_does db db' ks"
| Lease: "lease_next_event e dflt db lease = Inr (r, db', ks) \<Longrightarrow> hub_does db db' ks"
| Ack: "ack_event e db did = Inr (r, db', ks) \<Longrightarrow> hub_does db db' ks"
| Sweep: "sweep e db lost_after = Inr (r, db', ks) \<Longrightarrow> hub_does db db' ks"
| Operation: "record_operation e db ac op h resp = Inr (r, db', ks) \<Longrightarrow> hub_does db db' ks"

definition hub_step :: "hub_db \<Rightarrow> hub_db \<Rightarrow> bool" where
  "hub_step db db' = (\<exists>ks. hub_does db db' ks)"

lemma hub_stepI: "hub_does db db' ks \<Longrightarrow> hub_step db db'"
  by (auto simp: hub_step_def)

abbreviation hub_steps :: "hub_db \<Rightarrow> hub_db \<Rightarrow> bool" where
  "hub_steps \<equiv> hub_step\<^sup>*\<^sup>*"

abbreviation hub_reachable :: "hub_db \<Rightarrow> bool" where
  "hub_reachable \<equiv> hub_steps empty_db"

lemma hub_step_ok: "hub_ok db \<Longrightarrow> hub_step db db' \<Longrightarrow> hub_ok db'"
  unfolding hub_step_def by (elim exE; erule hub_does.cases) (blast intro: inv_intros)+

lemma hub_step_evolves: "hub_ok db \<Longrightarrow> hub_step db db' \<Longrightarrow> evolves db db'"
  unfolding hub_step_def by (elim exE; erule hub_does.cases) (blast intro: evolution)+

interpretation hub: evolving_system empty_db hub_step hub_ok evolves
  by unfold_locales (fact hub_ok_empty, blast intro: hub_step_ok, simp, blast intro: evolves_trans,
      blast intro: hub_step_evolves)

lemmas hub_reachable_ok = hub.inv_reachable
lemmas hub_reachable_evolves = hub.reachable_le

section \<open>Rows seen again later\<close>

lemma grows_keyed:
  assumes "grows R xs ys" "distinct (map key ys)" "x \<in> set xs" "\<And>x y. R x y \<Longrightarrow> key y = key x"
  shows "\<exists>y. find (\<lambda>r. key r = key x) ys = Some y \<and> R x y"
proof -
  obtain y where "y \<in> set ys" "R x y" using grows_mem [OF assms(1,3)] by blast
  then show ?thesis using find_key_distinct [OF assms(2)] assms(4) by (metis (full_types))
qed

lemma evolves_task_of:
  assumes "hub_ok db" "hub_ok d" "evolves db d" "task_of db i = Some t"
  obtains u where "task_of d i = Some u" "task_evolves t u"
proof -
  note t = task_of_mem [OF assms(4)] task_of_id [OF assms(4)]
  have "\<exists>u. find (\<lambda>r. t_id r = t_id t) (tasks d) = Some u \<and> task_evolves t u"
    by (rule grows_keyed [OF evolvesD(3) [OF assms(3)] rows_okD(4) [OF hub_okD(1) [OF assms(2)]] t(1) task_evolvesD(1)])
  then show thesis using that t(2) by (auto simp: task_of_def)
qed

lemma evolves_agent_of:
  assumes "hub_ok d" "evolves db d" "agent_of db n = Some a"
  obtains b where "agent_of d n = Some b" "agent_evolves a b"
proof -
  have a: "a \<in> set (agents db)" "a_name a = n" using assms(3) by (auto simp: agent_of_def dest: find_SomeD)
  have "\<exists>b. find (\<lambda>r. a_name r = a_name a) (agents d) = Some b \<and> agent_evolves a b"
    by (rule grows_keyed [OF evolvesD(2) [OF assms(2)] rows_okD(2) [OF hub_okD(1) [OF assms(1)]] a(1)])
      (simp add: agent_evolves_def)
  then show thesis using that a(2) by (auto simp: agent_of_def)
qed

lemma evolves_event_of:
  assumes "hub_ok d" "evolves db d" "event_of db i = Some v"
  obtains w where "event_of d i = Some w" "event_evolves v w"
proof -
  have v: "v \<in> set (events db)" "e_id v = i" using assms(3) by (auto simp: event_of_def dest: find_SomeD)
  have "\<exists>w. find (\<lambda>r. e_id r = e_id v) (events d) = Some w \<and> event_evolves v w"
    by (rule grows_keyed [OF evolvesD(5) [OF assms(2)]
          sorted_wrt_less_distinct [OF rows_okD(8) [OF hub_okD(1) [OF assms(1)]]] v(1)])
      (simp add: event_evolves_def)
  then show thesis using that v(2) by (auto simp: event_of_def)
qed

lemma find_prefix: "find P xs = Some x \<Longrightarrow> find P (xs @ ys) = Some x"
  by (induction xs) auto

lemma evolves_operation_of:
  assumes "evolves db d" "operation_of db ac op = Some r"
  shows "operation_of d ac op = Some r"
proof -
  obtain zs where "operations d = operations db @ zs"
    using grows_eq_append [OF evolvesD(7) [OF assms(1)]] by blast
  with assms(2) show ?thesis by (simp add: operation_of_def find_prefix)
qed

lemma evolves_messages: "evolves db d \<Longrightarrow> \<exists>ms. messages d = messages db @ ms"
  by (rule grows_eq_append [OF evolvesD(4)])

lemma evolves_workflow:
  assumes "hub_ok d" "evolves db d" "workflow_row_of db = Some w"
  obtains x where "workflow_row_of d = Some x" "workflow_core x = workflow_core w"
    "workflows db = [w]" "workflows d = [x]"
proof -
  have "w \<in> set (workflows db)" using assms(3) by (rule workflow_row_of_mem)
  then have w: "workflows db \<noteq> []" by auto
  then have g: "0 < length (workflows db)" "length (workflows db) \<le> length (workflows d)" "length (workflows d) \<le> 1"
    "workflow_evolves (workflows db ! 0) (workflows d ! 0)"
    using evolvesD(1) [OF assms(2)] rows_okD(1) [OF hub_okD(1) [OF assms(1)]] by (simp_all add: grows_def)
  from g obtain x where x: "workflows d = [x]" by (cases "workflows d") auto
  moreover from g x have "workflows db = [w]"
    using \<open>w \<in> set (workflows db)\<close> by (cases "workflows db") auto
  ultimately show thesis using that g(4) by (simp add: workflow_row_of_def first_by_def workflow_evolves_def)
qed

section \<open>Exactly-once operations\<close>

lemma replayed_None_operation: "replayed db ac (Some op) (Some h) = Inr None \<Longrightarrow> operation_of db ac op = None"
  by (auto simp: replayed_def split: option.splits if_splits)

lemma record_reply_recorded:
  assumes "(r, d) = record_reply e n db ac (Some op) (Some h) (Some b) x"
    and "replayed db ac (Some op) (Some h) = Inr None"
  obtains row where "operation_of d ac op = Some row" "o_payload_hash row = h" "o_response row = b x"
    "r = Pair_json (b x) True"
  using assms replayed_None_operation [OF assms(2)] by (simp add: record_reply_def)

lemma replayed_later:
  assumes "operation_of db ac op = Some row" "evolves db d"
  shows "replayed d ac (Some op) (Some (o_payload_hash row)) = Inr (Some (o_response row))"
    and "h \<noteq> o_payload_hash row \<Longrightarrow> \<exists>m. replayed d ac (Some op) (Some h) = Inl (Idempotency_conflict m)"
  using evolves_operation_of [OF assms(2,1)] by (auto simp: replayed_def)

end
