(* ===== verification/Samples.thy ===== *)
theory Samples
  imports HubSystem
begin

text \<open>
  Concrete inputs for the witnesses: a clock that ticks by the second, an environment whose
  identifiers differ by call, and one small workflow followed from initialisation to an
  answered question. Each state is given as its rows; the lemmas show that the operations
  produce it, so every one of them is reachable.
\<close>

definition sample_env :: "nat \<Rightarrow> env" where
  "sample_env k = \<lparr>now_at = (\<lambda>n. (int k * 100 + int n) * 1000000),
     uuid_at = (\<lambda>n. ''id'' @ show_nat (k * 10 + n)), float_repr = (\<lambda>q. ''0.0'')\<rparr>"

lemma sample_env_ok: "env_ok (sample_env k)"
  by (simp add: env_ok_def sample_env_def)

definition sample_bob :: agent_row where
  "sample_bob = \<lparr>a_name = ''bob'', a_profile = DEFAULT_PROFILE, a_status = Idle,
     a_context_id = ''id21'', a_last_seen = 200000, a_instance = ''i1'', a_last_heartbeat = 200000,
     a_last_progress_at = None, a_current_task = None, a_checkin_addr = None, a_last_addr = None\<rparr>"

definition sample_task :: task_row where
  "sample_task = \<lparr>t_id = ''id30'', t_workflow = ''id10'', t_assignee = Some ''bob'',
     t_role = ''implementer'', t_title = ''title'', t_instructions = ''do it'', t_state = Submitted,
     t_lease_expires = Some 2100000, t_lease_duration_s = 1800, t_result = None, t_created = 300000,
     t_updated = 300000, t_pr_head_sha = None, t_source_event = Some 1\<rparr>"

definition sample_messages :: "message_row list" where
  "sample_messages = [
     \<lparr>m_id = 1, m_task = None, m_context = ''id21'', m_sender = ''bob'', m_direction = To_alice,
       m_parts = [text_part ''READY'' (dict_merge [(K_KIND, JStr ''check_in'')]
         (map (\<lambda>(k, v). (''hub.'' @ k, v)) (profile_payload DEFAULT_PROFILE)))], m_ts = 201000\<rparr>,
     \<lparr>m_id = 2, m_task = Some ''id30'', m_context = ''id21'', m_sender = ''alice'', m_direction = From_alice,
       m_parts = [text_part ''do it'' (assignment_metadata ''implementer'' ''title'' None)], m_ts = 301000\<rparr>,
     \<lparr>m_id = 3, m_task = Some ''id30'', m_context = ''id21'', m_sender = ''bob'', m_direction = To_alice,
       m_parts = [text_part ''why'' [(K_KIND, JStr ''question''), (K_RETRY, JStr ''r1'')]], m_ts = 500000\<rparr>,
     \<lparr>m_id = 4, m_task = Some ''id30'', m_context = ''id21'', m_sender = ''alice'', m_direction = From_alice,
       m_parts = [text_part ''because'' [(K_KIND, JStr ''reply'')]], m_ts = 600000\<rparr>]"

definition sample_event :: "nat \<Rightarrow> event_kind \<Rightarrow> dict \<Rightarrow> iso \<Rightarrow> event_row" where
  "sample_event i k p ts = \<lparr>e_id = i, e_kind = k, e_payload = p, e_ts = ts, e_state = Queued,
     e_delivery_id = None, e_attempts = 0, e_delivered_at = None, e_delivery_expires = None,
     e_acked_at = None\<rparr>"

definition sample_events :: "event_row list" where
  "sample_events = [
     sample_event 1 Agent_checked_in
       (dict_merge (dict_merge [(''agent'', JStr ''bob'')] (profile_payload DEFAULT_PROFILE))
          [(''context_id'', JStr ''id21''), (''worker_instance_id'', JStr ''i1'')]) 202000,
     sample_event 2 Worker_question [(''task_id'', JStr ''id30''), (''agent'', JStr ''bob''),
       (''question'', JStr ''why''), (''message_id'', JInt 3)] 502000]"

definition db_initialized :: hub_db where
  "db_initialized = empty_db\<lparr>workflows := [\<lparr>w_id = ''id10'', w_goal = ''goal'', w_status = Active,
     w_policy = [], w_created = 100000\<rparr>]\<rparr>"

definition db_checked_in :: hub_db where
  "db_checked_in = db_initialized\<lparr>agents := [sample_bob], messages := take 1 sample_messages,
     events := take 1 sample_events, message_seq := 1, event_seq := 1,
     operations := [\<lparr>o_actor = ''bob'', o_operation_id = ''op1'', o_payload_hash = ''h1'',
       o_response = ''admitted'', o_created = 203000\<rparr>]\<rparr>"

definition db_assigned :: hub_db where
  "db_assigned = db_checked_in\<lparr>agents := [sample_bob\<lparr>a_status := Busy, a_current_task := Some ''id30''\<rparr>],
     tasks := [sample_task], messages := take 2 sample_messages, message_seq := 2\<rparr>"

definition db_claimed :: hub_db where
  "db_claimed = db_assigned\<lparr>tasks := [sample_task\<lparr>t_state := Working, t_updated := 400000\<rparr>]\<rparr>"

definition db_asked :: hub_db where
  "db_asked = db_claimed\<lparr>tasks := [sample_task\<lparr>t_state := Input_required, t_updated := 501000\<rparr>],
     messages := take 3 sample_messages, message_seq := 3, events := sample_events, event_seq := 2\<rparr>"

definition db_answered :: hub_db where
  "db_answered = db_asked\<lparr>tasks := [sample_task\<lparr>t_state := Working, t_updated := 601000\<rparr>],
     messages := sample_messages, message_seq := 4\<rparr>"

lemma outcome_committed:
  assumes "map_sum id (\<lambda>(r, d, ks). (r, ks)) x = Inr (r, ks)"
  obtains d where "x = Inr (r, d, ks)"
  using assms by (cases x) auto

section \<open>The operations that produce them\<close>

lemma initialized_result:
  "initialize_workflow (sample_env 1) empty_db ''goal'' None = Inr (''id10'', db_initialized, [])"
  by code_simp

lemma checked_in_result:
  "check_in (sample_env 2) db_initialized ''bob'' DEFAULT_PROFILE (Some ''i1'') (Some ''op1'') (Some ''h1'')
     (Some (\<lambda>a. ''admitted'')) None = Inr (Pair_json ''admitted'' True, db_checked_in, [EVENT_KEY])"
  by code_simp

lemma assigned_result:
  "assign_task (sample_env 3) db_checked_in ''bob'' ''implementer'' ''title'' ''do it'' 30 None (Some 1)
     = Inr (sample_task, db_assigned, [context_key ''id21''])"
  by code_simp

lemma claimed_result:
  "claim_assignment (sample_env 4) db_assigned ''bob''
     = Inr (Some (Claimed (sample_task\<lparr>t_state := Working, t_updated := 400000\<rparr>)), db_claimed, [])"
  by code_simp

lemma asked_result:
  "open_question (sample_env 5) db_claimed ''id30'' ''bob'' ''why'' ''r1'' = Inr (3, db_asked, [EVENT_KEY])"
  by code_simp

lemma answered_result:
  "reply (sample_env 6) db_asked ''id30'' ''because'' 3 = Inr (True, db_answered, [task_key ''id30''])"
  by code_simp

lemma initialized_reachable: "hub_reachable db_initialized"
  using hub_stepI [OF hub_does.Initialize [OF initialized_result]] by blast

lemma checked_in_reachable: "hub_reachable db_checked_in"
  using initialized_reachable hub_stepI [OF hub_does.Check_in [OF checked_in_result]] by (rule rtranclp.rtrancl_into_rtrancl)

lemma assigned_reachable: "hub_reachable db_assigned"
  using checked_in_reachable hub_stepI [OF hub_does.Assign [OF sample_env_ok assigned_result]] by (rule rtranclp.rtrancl_into_rtrancl)

lemma claimed_reachable: "hub_reachable db_claimed"
  using assigned_reachable hub_stepI [OF hub_does.Claim [OF claimed_result]] by (rule rtranclp.rtrancl_into_rtrancl)

lemma asked_reachable: "hub_reachable db_asked"
  using claimed_reachable hub_stepI [OF hub_does.Question [OF asked_result]] by (rule rtranclp.rtrancl_into_rtrancl)

lemma answered_reachable: "hub_reachable db_answered"
  using asked_reachable hub_stepI [OF hub_does.Reply [OF answered_result]] by (rule rtranclp.rtrancl_into_rtrancl)

end
