(* ===== verification/HubPromises.thy ===== *)
theory HubPromises
  imports Samples
begin

text \<open>
  What the operations promise their callers across time: retries after any history, the
  order of the inbox, questions and answers, and the result of a sweep.
\<close>

section \<open>Messages in order\<close>

lemma messages_find:
  assumes "rows_ok db"
  shows "first_by m_id P (messages db) = find P (messages db)"
proof (rule first_by_sorted)
  show "sorted (map m_id (messages db))" using rows_okD(6) [OF assms] by (simp add: strict_sorted_iff)
qed

lemma events_find:
  assumes "rows_ok db"
  shows "first_by e_id P (events db) = find P (events db)"
proof (rule first_by_sorted)
  show "sorted (map e_id (events db))" using rows_okD(8) [OF assms] by (simp add: strict_sorted_iff)
qed

section \<open>Questions\<close>

lemma asked_question_later:
  assumes ok: "rows_ok db1" "rows_ok d" and ev: "evolves db1 d" and a: "asked_question db1 tid s = Some m"
  shows "asked_question d tid s = Some m"
proof -
  obtain ms where "messages d = messages db1 @ ms" using evolves_messages [OF ev] by blast
  then show ?thesis
    using a unfolding asked_question_def messages_find [OF ok(1)] messages_find [OF ok(2)]
    by (auto simp: find_append split: if_splits)
qed

lemma is_question_sent_as_question:
  "is_question_sent_as v \<lparr>m_id = i, m_task = t, m_context = c, m_sender = s, m_direction = d,
     m_parts = [text_part q [(K_KIND, JStr ''question''), (K_RETRY, JStr v)]], m_ts = ts\<rparr>"
  by (simp add: is_question_sent_as_def text_part_kind)

lemma open_question_asked:
  assumes oq: "open_question e db tid agent q s = Inr (m, db1, ks)" and ok: "hub_ok db" and s: "s \<noteq> []"
  shows "asked_question db1 tid s = Some m"
  using oq
proof (cases rule: open_question_cases)
  case (fresh t a db0)
  note msg = fresh(5)
  let ?m = "\<lparr>m_id = m, m_task = Some tid, m_context = a_context_id a, m_sender = agent, m_direction = To_alice,
     m_parts = [text_part q [(K_KIND, JStr ''question''), (K_RETRY, JStr s)]], m_ts = now_iso e 0\<rparr>"
  have ms: "messages db1 = messages db @ [?m]" using msg unfolding fresh(6) by (simp add: add_message_Inr)
  have "to_alice tid ?m \<and> is_question_sent_as s ?m"
    using is_question_sent_as_question by (simp add: to_alice_def)
  moreover have "find (\<lambda>m. to_alice tid m \<and> is_question_sent_as s m) (messages db) = None"
    using fresh(1) s by (simp add: asked_question_def messages_find hub_okD(1) [OF ok])
  ultimately have "find (\<lambda>m. to_alice tid m \<and> is_question_sent_as s m) (messages db1) = Some ?m"
    unfolding ms by (simp add: find_append)
  then show ?thesis
    using s hub_okD(1) [OF open_question_ok [OF oq ok]] by (simp add: asked_question_def messages_find)
qed simp

lemma open_question_retry:
  assumes "task_of db tid = Some t" "\<not> terminal (t_state t)" "agent_of db agent = Some a"
    and "asked_question db tid s = Some m"
  shows "open_question e db tid agent q s = Inr (m, db, [])"
  using assms task_of_id [OF assms(1)]
  by (simp add: open_question_def require_open_task_def require_task_def require_agent_def)

section \<open>Replies\<close>

lemma newest_question_le: "rows_ok db \<Longrightarrow> newest_question db tid = Some q \<Longrightarrow> q \<le> message_seq db"
proof -
  assume ok: "rows_ok db" and "newest_question db tid = Some q"
  then obtain m where "find is_question (rev (sort_key m_id (filter (to_alice tid) (messages db)))) = Some m" "m_id m = q"
    by (auto simp: newest_question_def)
  then have "m \<in> set (messages db)" by (auto dest!: find_SomeD)
  then show ?thesis using rows_okD(7) [OF ok] \<open>m_id m = q\<close> by auto
qed

lemma reply_answered:
  assumes r: "reply e db tid text q = Inr (True, db1, ks)" and ok: "rows_ok db"
  shows "\<exists>m \<in> set (messages db1). from_alice tid m \<and> q < m_id m"
  using r
proof (cases rule: reply_cases)
  case (sent t ctx mid db0)
  have "q < mid" using newest_question_le [OF ok sent(4)] sent(7) by (simp add: add_message_Inr)
  then show ?thesis using sent(7) unfolding sent(8) by (auto simp: add_message_Inr from_alice_def)
qed simp

lemma reply_refused:
  assumes "task_of d tid = Some t" and "\<exists>m \<in> set (messages d). from_alice tid m \<and> q < m_id m"
  shows "reply e d tid text q = Inr (False, d, [])"
  using assms task_of_id [OF assms(1)]
  by (auto simp: reply_def require_task_def first_by_None)

lemma reply_accepts:
  assumes ok: "hub_ok db" and t: "task_of db tid = Some t" "t_state t = Input_required"
    and size: "json_size_bytes e (text_part text [(K_KIND, JStr ''reply'')]) \<le> MAX_MESSAGE_PART_BYTES"
  obtains q db' where "newest_question db tid = Some q" "reply e db tid text q = Inr (True, db', [task_key tid])"
    "\<And>q'. q' \<noteq> q \<Longrightarrow> reply e db tid text q' = Inr (False, db, [])"
proof -
  have "awaiting db tid" using ok t by (simp add: hub_ok_def questions_ok_def)
  then obtain q where q: "newest_question db tid = Some q"
    and none: "\<forall>m \<in> set (messages db). from_alice tid m \<longrightarrow> m_id m < q" by (auto simp: awaiting_def)
  have "first_by m_id (\<lambda>m. from_alice tid m \<and> q < m_id m) (messages db) = None"
    using none by (auto simp: first_by_None)
  moreover obtain n a where a: "t_assignee t = Some n" "agent_of db n = Some a"
    using coupled_taskD [OF hub_okD(2) [OF ok] t(1)] t(2) by auto
  moreover from a have "task_context_id db t = Inr (a_context_id a)" by (simp add: task_context_id_def)
  moreover obtain mid db1 where "add_message e 0 db (Some tid) (a_context_id a) ''alice'' From_alice
      [text_part text [(K_KIND, JStr ''reply'')]] = Inr (mid, db1)"
    using size by (simp add: add_message_Inr)
  ultimately have "reply e db tid text q = Inr (True, set_state e 1 db1 tid Working, [task_key tid])"
    using t q task_of_id [OF t(1)] by (simp add: reply_def require_task_def)
  moreover have "reply e db tid text q' = Inr (False, db, [])" if "q' \<noteq> q" for q'
    using that t q task_of_id [OF t(1)] by (simp add: reply_def require_task_def)
  ultimately show thesis using q that by blast
qed

section \<open>Assignments\<close>

lemma max_task_lease_min_later:
  assumes "hub_ok d" "evolves db d" "workflow_row_of db = Some w"
  shows "max_task_lease_min d (w_id w) = max_task_lease_min db (w_id w)"
proof -
  from evolves_workflow [OF assms] obtain x where x: "workflow_core x = workflow_core w" "workflows db = [w]" "workflows d = [x]" by blast
  show ?thesis by (simp add: max_task_lease_min_def x(2,3) workflow_coreD [OF x(1)])
qed

lemma source_task_hit:
  assumes ok: "rows_ok db" and t: "task_of db i = Some t" "t_source_event t = Some v"
    and ev: "event_of db v \<noteq> None" and same: "same_assignment t w a r ti ins d h"
  shows "source_task db (Some v) w a r ti ins d h = Inr (Some t)"
proof -
  have t': "t \<in> set (tasks db)" using task_of_mem [OF t(1)] .
  have "find (\<lambda>t. t_source_event t = Some v) (tasks db) = Some t"
  proof (rule find_Some_unique)
    show "t \<in> set (tasks db)" "t_source_event t = Some v" using t t' by simp_all
  next
    fix u assume u: "u \<in> set (tasks db)" "t_source_event u = Some v"
    show "u = t"
      by (rule distinct_filter_map_inj [OF rows_okD(5) [OF ok] u t' t(2)])
  qed
  with ev same show ?thesis by (auto simp: source_task_def)
qed

end
