(* ===== verification/HubInbox.thy ===== *)
theory HubInbox
  imports HubPromises
begin

text \<open>
  The inbox: every operation but a lease and an acknowledgement only appends events, a lease
  hands out the oldest eligible one, and a sweep reports each overdue task and each silent
  agent once.
\<close>

definition events_added :: "hub_db \<Rightarrow> hub_db \<Rightarrow> string list \<Rightarrow> bool" where
  "events_added db d ks = (\<exists>vs. events d = events db @ vs \<and> (vs \<noteq> [] \<longrightarrow> EVENT_KEY \<in> set ks))"

named_theorems inbox

lemma events_added_refl [simp]: "events d = events db \<Longrightarrow> events_added db d ks"
  by (simp add: events_added_def)

lemma events_added_event: "events d = events db \<Longrightarrow> EVENT_KEY \<in> set ks \<Longrightarrow> events_added db (snd (add_event e n d k p)) ks"
  by (simp add: events_added_def)

lemma events_added_reply:
  "(r, d) = record_reply e n db3 actor op hash b x \<Longrightarrow> events_added db db3 ks \<Longrightarrow> events_added db d ks"
  by (auto simp: events_added_def dest: arg_cong [of _ _ snd])

lemma simple_events_added [inbox]:
  "initialize_workflow e db goal policy = Inr (r1, db', ks) \<Longrightarrow> events_added db db' ks"
  "set_workflow_status e db st summary = Inr (r2, db', ks) \<Longrightarrow> events_added db db' ks"
  "log_decision e db summary rationale key = Inr (r3, db', ks) \<Longrightarrow> events_added db db' ks"
  "release_agent db name = Inr (r4, db', ks) \<Longrightarrow> events_added db db' ks"
  "claim_assignment e db name = Inr (r5, db', ks) \<Longrightarrow> events_added db db' ks"
  "append_event e db kind payload = Inr (r6, db', ks) \<Longrightarrow> events_added db db' ks"
proof -
  show "initialize_workflow e db goal policy = Inr (r1, db', ks) \<Longrightarrow> events_added db db' ks"
    by (auto simp: initialize_workflow_def Let_def split: sum.splits option.splits if_splits)
  show "set_workflow_status e db st summary = Inr (r2, db', ks) \<Longrightarrow> events_added db db' ks"
    by (auto simp: set_workflow_status_def Let_def split: if_splits)
  show "log_decision e db summary rationale key = Inr (r3, db', ks) \<Longrightarrow> events_added db db' ks"
    by (auto simp: log_decision_def Let_def split: option.splits)
  show "release_agent db name = Inr (r4, db', ks) \<Longrightarrow> events_added db db' ks"
    by (auto simp: release_agent_def Let_def split: if_splits)
  show "claim_assignment e db name = Inr (r5, db', ks) \<Longrightarrow> events_added db db' ks"
    by (auto simp: claim_assignment_def Let_def split: if_splits option.splits)
  show "append_event e db kind payload = Inr (r6, db', ks) \<Longrightarrow> events_added db db' ks"
    using events_added_event [of db db] by (auto simp: append_event_def Let_def case_prod_beta)
qed

lemma record_operation_events_added [inbox]:
  "record_operation e db ac op h resp = Inr (r, db', ks) \<Longrightarrow> events_added db db' ks"
  by (drule record_operation_cases) simp

lemma check_in_events_added [inbox]:
  assumes "check_in e db name profile inst op hash builder addr = Inr (r, db', ks)"
  shows "events_added db db' ks"
  using assms
proof (cases rule: check_in_cases)
  case (fresh i db1 row parts mid db2 pay db3 agent)
  have "events db2 = events db"
    using fresh(4) add_message_frames [OF fresh(6)]
    by (auto simp: check_in_row_def Let_def split: option.splits if_splits)
  with fresh(7) have "events_added db db3 [EVENT_KEY]" by (simp add: events_added_event)
  then show ?thesis unfolding fresh(10) by (rule events_added_reply [OF fresh(9)])
qed simp

lemma heartbeat_events_added [inbox]:
  "heartbeat e db name inst cur lease addr = Inr (r, db', ks) \<Longrightarrow> events_added db db' ks"
  by (erule heartbeat_cases) simp_all

lemma assign_task_events_added [inbox]:
  assumes "assign_task e db agent role title instr lease head src = Inr (t, db', ks)"
  shows "events_added db db' ks"
  using assms
proof (cases rule: assign_task_fresh)
  case (fresh w a row mid)
  then show ?thesis using add_message_frames [OF fresh(20)] by simp
qed simp

lemma record_progress_events_added [inbox]:
  assumes "record_progress e db tid agent note op hash builder = Inr (r, db', ks)"
  shows "events_added db db' ks"
  using assms
proof (cases rule: record_progress_cases)
  case (fresh t a mid db1 db3)
  have "events_added db db3 [EVENT_KEY]"
    using add_message_frames [OF fresh(5)] by (simp add: fresh(6) record_progress_at_def events_added_def)
  then show ?thesis unfolding fresh(8) by (rule events_added_reply [OF fresh(7)])
qed simp

lemma open_question_events_added [inbox]:
  assumes "open_question e db tid agent q s = Inr (r, db', ks)"
  shows "events_added db db' ks"
  using assms
proof (cases rule: open_question_cases)
  case (fresh t a db1)
  then show ?thesis using add_message_frames [OF fresh(5)] by (simp add: events_added_event)
qed simp

lemma reply_events_added [inbox]:
  assumes "reply e db tid text q = Inr (r, db', ks)"
  shows "events_added db db' ks"
  using assms
proof (cases rule: reply_cases)
  case (sent t ctx mid db1)
  then show ?thesis using add_message_frames [OF sent(7)] by simp
qed simp

lemma submit_result_events_added [inbox]:
  assumes "submit_result e db tid agent result summary artifacts status op hash builder = Inr (r, db', ks)"
  shows "events_added db db' ks"
  using assms
proof (cases rule: submit_result_cases)
  case (fresh actual payload sum st t a mid db1 db3 fin kind)
  have "events_added db db3 [EVENT_KEY]"
    using add_message_frames [OF fresh(8)] by (simp add: fresh(10) events_added_event)
  then show ?thesis unfolding fresh(13) by (rule events_added_reply [OF fresh(12)])
qed simp

lemma set_task_state_events_added [inbox]:
  assumes "set_task_state e db tid st note = Inr (r, db', ks)"
  shows "events_added db db' ks"
  using assms
proof (cases rule: set_task_state_cases)
  case (1 t ctx mid db1)
  then show ?thesis using add_message_frames [OF 1(5)] by simp
qed

lemma cancel_task_events_added [inbox]:
  "cancel_task e db tid = Inr (r, db', ks) \<Longrightarrow> events_added db db' ks"
  by (erule cancel_task_cases) simp

section \<open>The sweep\<close>

text \<open>What the sweep reports of an overdue task and of a silent agent.\<close>

definition expired_report :: "task_row \<Rightarrow> event_kind \<times> dict \<times> event_state" where
  "expired_report t = (Lease_expired, [(''task_id'', JStr (t_id t)), (''agent'', jopt (t_assignee t)),
     (''lease_expires'', case t_lease_expires t of None \<Rightarrow> JNull | Some x \<Rightarrow> JInt x)], Queued)"

definition lost_report :: "agent_row \<Rightarrow> event_kind \<times> dict \<times> event_state" where
  "lost_report a = (Agent_lost, [(''agent'', JStr (a_name a)), (''task_id'', jopt (a_current_task a)),
     (''last_heartbeat'', JInt (a_last_heartbeat a))], Queued)"

abbreviation reported :: "event_row \<Rightarrow> event_kind \<times> dict \<times> event_state" where
  "reported v \<equiv> (e_kind v, e_payload v, e_state v)"

lemma add_event_row:
  "\<exists>v. events (snd (add_event e n db k p)) = events db @ [v] \<and> fst (add_event e n db k p) = e_id v \<and>
     reported v = (k, p, Queued)"
  by (rule exI [of _ "\<lparr>e_id = Suc (event_seq db), e_kind = k, e_payload = p, e_ts = now_iso e n,
     e_state = Queued, e_delivery_id = None, e_attempts = 0, e_delivered_at = None,
     e_delivery_expires = None, e_acked_at = None\<rparr>"]) simp

lemma expire_row_events:
  obtains v where "events (snd (expire_row e n db row)) = events db @ [v]" "fst (expire_row e n db row) = e_id v"
    "reported v = expired_report row"
proof -
  let ?d = "upd_task (t_id row) (\<lambda>t. t\<lparr>t_lease_expires := None, t_updated := now_iso e n\<rparr>) db"
  have "events ?d = events db" by simp
  with that show thesis
    unfolding expire_row_def expired_report_def using add_event_row [of e "n + 1" ?d Lease_expired] by metis
qed

lemma expire_rows_events:
  "\<exists>vs. events (snd (expire_rows e n db rows)) = events db @ vs \<and>
     map reported vs = map expired_report rows \<and> fst (expire_rows e n db rows) = map e_id vs"
proof (induction rows arbitrary: n db)
  case (Cons row rows)
  let ?d = "snd (expire_row e n db row)"
  obtain v where d: "events ?d = events db @ [v]" "fst (expire_row e n db row) = e_id v" "reported v = expired_report row"
    by (rule expire_row_events)
  obtain vs where "events (snd (expire_rows e (n + 2) ?d rows)) = events ?d @ vs"
    "map reported vs = map expired_report rows" "fst (expire_rows e (n + 2) ?d rows) = map e_id vs"
    using Cons.IH by blast
  with d show ?case by (intro exI [of _ "v # vs"]) (simp add: rows_Cons)
qed simp

lemma lose_row_events:
  assumes "hub_ok db" "agent_of db (a_name a) = Some a"
  obtains v where "events (snd (lose_row e n db a)) = events db @ [v]" "fst (lose_row e n db a) = e_id v"
    "reported v = lost_report a"
proof -
  let ?u = "upd_agent (a_name a) mark_lost db"
  let ?d = "case open_task_id ?u (a_current_task a) of
      None \<Rightarrow> ?u | Some i \<Rightarrow> finish e n ?u i Failed (Some (lost_payload (a_name a)))"
  have "open_task_id ?u = open_task_id db" by (intro ext) (simp only: open_task_id_def lookup_frames)
  then have i: "open_task_id ?u (a_current_task a) = a_current_task a"
    using coupled_open_task_id [OF hub_okD(2) [OF assms(1)] assms(2)] by simp
  have d: "events ?d = events db" by (simp split: option.splits)
  let ?p = "[(''agent'', JStr (a_name a)), (''task_id'', jopt (a_current_task a)), (''last_heartbeat'', JInt (a_last_heartbeat a))]"
  have l: "lose_row e n db a = add_event e (n + 1) ?d Agent_lost ?p"
    unfolding lose_row_def Let_def i ..
  obtain v where v: "events (snd (add_event e (n + 1) ?d Agent_lost ?p)) = events ?d @ [v]"
    "fst (add_event e (n + 1) ?d Agent_lost ?p) = e_id v" "reported v = (Agent_lost, ?p, Queued)"
    using add_event_row [of e "n + 1" ?d Agent_lost ?p] by blast
  show thesis
  proof (rule that [of v])
    show "events (snd (lose_row e n db a)) = events db @ [v]" unfolding l v(1) d ..
    show "fst (lose_row e n db a) = e_id v" unfolding l v(2) ..
    show "reported v = lost_report a" unfolding lost_report_def by (rule v(3))
  qed
qed

lemma lose_rows_events:
  assumes "hub_ok db" "distinct (map a_name rows)" "\<forall>a \<in> set rows. agent_of db (a_name a) = Some a"
  shows "\<exists>vs. events (snd (lose_rows e n db rows)) = events db @ vs \<and>
     map reported vs = map lost_report rows \<and> fst (lose_rows e n db rows) = map e_id vs"
  using assms
proof (induction rows arbitrary: n db)
  case (Cons row rows)
  let ?d = "snd (lose_row e n db row)"
  have a: "agent_of db (a_name row) = Some row" using Cons.prems by simp
  obtain v where d: "events ?d = events db @ [v]" "fst (lose_row e n db row) = e_id v" "reported v = lost_report row"
    by (rule lose_row_events [OF Cons.prems(1) a])
  have "agent_of ?d (a_name b) = Some b" if "b \<in> set rows" for b
  proof (rule lose_row_other [OF Cons.prems(1) a])
    show "agent_of db (a_name b) = Some b" using Cons.prems(3) that by simp
    show "a_name b \<noteq> a_name row" using Cons.prems(2) that by (metis distinct.simps(2) imageI image_set list.simps(9))
  qed
  then have keep: "\<forall>b \<in> set rows. agent_of ?d (a_name b) = Some b" by (intro ballI)
  have "distinct (map a_name rows)" using Cons.prems(2) by simp
  from Cons.IH [OF lose_row_ok [OF Cons.prems(1) a] this keep, of "n + 2"]
  obtain vs where "events (snd (lose_rows e (n + 2) ?d rows)) = events ?d @ vs"
    "map reported vs = map lost_report rows" "fst (lose_rows e (n + 2) ?d rows) = map e_id vs" by blast
  with d show ?case by (intro exI [of _ "v # vs"]) (simp add: rows_Cons)
qed simp

lemma appended_events:
  assumes "rows_ok d" "events d = events db @ vs"
  shows "sort_key e_id (filter (\<lambda>v. e_id v \<in> e_id ` set vs) (events d)) = vs"
proof -
  have s: "sorted_wrt (<) (map e_id (events db @ vs))" using rows_okD(8) [OF assms(1)] assms(2) by simp
  then have "filter (\<lambda>v. e_id v \<in> e_id ` set vs) (events db) = []"
    by (fastforce simp: filter_empty_conv sorted_wrt_append)
  moreover have "filter (\<lambda>v. e_id v \<in> e_id ` set vs) vs = vs" by simp
  moreover have "sort_key e_id vs = vs"
    using s by (intro sort_key_id_if_sorted) (simp add: sorted_wrt_append strict_sorted_iff)
  ultimately show ?thesis by (simp add: assms(2))
qed

lemma sweep_report:
  assumes s: "sweep e db lost_after = Inr (r, db', ks)" and ok: "hub_ok db"
  shows "events db' = events db @ r \<and>
    map reported r = map expired_report (filter (overdue (now_iso e 0)) (tasks db)) @
      map lost_report (filter (silent (to_iso (now_at e 0 - seconds lost_after))) (agents db))"
  using s
proof (cases rule: sweep_cases)
  case (1 expired lost db1)
  let ?rows = "filter (overdue (now_iso e 0)) (tasks db)"
  let ?gone = "filter (silent (to_iso (now_at e 0 - seconds lost_after))) (agents db)"
  have x: "expired = fst (expire_rows e 1 db ?rows)" "db1 = snd (expire_rows e 1 db ?rows)"
    using 1(1) unfolding expire_leases_def by (metis fst_conv snd_conv)+
  have ag: "agents db1 = agents db" by (simp add: x(2) expire_rows_agents)
  have y: "lost = fst (lose_rows e (1 + 2 * length expired) db1 ?gone)"
    "db' = snd (lose_rows e (1 + 2 * length expired) db1 ?gone)"
    using 1(2) unfolding lose_agents_def ag by (metis fst_conv snd_conv)+
  have ok1: "hub_ok db1" unfolding x(2) by (rule expire_rows_ok [OF ok])
  note R = hub_okD(1) [OF ok1]
  have gone: "distinct (map a_name ?gone)" "\<forall>a \<in> set ?gone. agent_of db1 (a_name a) = Some a"
    using R agent_of_iff [OF R] unfolding ag [symmetric] by (auto simp: rows_ok_def distinct_map_filter)
  obtain us where us: "events db1 = events db @ us" "map reported us = map expired_report ?rows"
    "expired = map e_id us" using expire_rows_events [of e 1 db ?rows, folded x] by blast
  obtain vs where vs: "events db' = events db1 @ vs" "map reported vs = map lost_report ?gone"
    "lost = map e_id vs"
    using lose_rows_events [OF ok1 gone, of e "1 + 2 * length expired", folded y] by blast
  have "r = us @ vs"
    unfolding 1(3)
    using appended_events [OF hub_okD(1) [OF sweep_ok [OF s ok]], of db "us @ vs"] us vs
    by (simp add: image_Un)
  then show ?thesis using us vs by simp
qed

lemma sweep_keys: "sweep e db lost_after = Inr (r, db', ks) \<Longrightarrow> r \<noteq> [] \<Longrightarrow> EVENT_KEY \<in> set ks"
proof (erule sweep_cases)
  fix expired lost :: "nat list" assume r: "r = sort_key e_id (filter (\<lambda>v. e_id v \<in> set (expired @ lost)) (events db'))"
    and ks: "ks = (if expired @ lost = [] then [] else [EVENT_KEY])" and "r \<noteq> []"
  then have "expired @ lost \<noteq> []" by (metis empty_iff filter_False length_0_conv length_sort list.set(1))
  with ks show ?thesis by simp
qed

lemma sweep_events_added [inbox]:
  "sweep e db lost_after = Inr (r, db', ks) \<Longrightarrow> hub_ok db \<Longrightarrow> events_added db db' ks"
  using sweep_report sweep_keys by (fastforce simp: events_added_def)

section \<open>Nothing is left overdue or silent\<close>

lemma expire_rows_not_overdue:
  assumes "\<And>t. t \<in> set (tasks db) \<Longrightarrow> overdue now t \<Longrightarrow> t_id t \<in> t_id ` set rows"
    and "t \<in> set (tasks (snd (expire_rows e n db rows)))"
  shows "\<not> overdue now t"
  using assms
proof (induction rows arbitrary: n db)
  case (Cons row rows)
  show ?case
  proof (rule Cons.IH)
    show "t \<in> set (tasks (snd (expire_rows e (n + 2) (snd (expire_row e n db row)) rows)))"
      using Cons.prems(2) by (simp add: rows_Cons)
    fix u assume u: "u \<in> set (tasks (snd (expire_row e n db row)))" "overdue now u"
    then have "u \<in> set (tasks db)" "t_id u \<noteq> t_id row"
      by (auto simp: expire_row_def set_update_where overdue_def split: if_splits)
    with Cons.prems(1) u(2) show "t_id u \<in> t_id ` set rows" by auto
  qed
qed auto

lemma lose_row_not_overdue:
  assumes "t \<in> set (tasks (snd (lose_row e n db a)))" "overdue now t"
  shows "t \<in> set (tasks db)"
  using assms
  by (auto simp: lose_row_def Let_def set_update_where overdue_def finished_row_def split: option.splits if_splits)

lemma lose_rows_not_overdue:
  "t \<in> set (tasks (snd (lose_rows e n db rows))) \<Longrightarrow> overdue now t \<Longrightarrow> t \<in> set (tasks db)"
proof (induction rows arbitrary: n db)
  case (Cons a rows)
  then have "t \<in> set (tasks (snd (lose_row e n db a)))" by (auto simp: rows_Cons)
  then show ?case using Cons.prems(2) by (rule lose_row_not_overdue)
qed simp

lemma lose_row_live:
  assumes "b \<in> set (agents (snd (lose_row e n db a)))" "live b"
  shows "a_name b \<noteq> a_name a \<and> (\<exists>c \<in> set (agents db). a_name c = a_name b \<and> live c \<and>
     a_last_heartbeat c = a_last_heartbeat b)"
  using assms
  by (auto simp: lose_row_def Let_def set_update_where live_def freed_def split: option.splits if_splits)

lemma lose_rows_not_silent:
  assumes "\<And>a. a \<in> set (agents db) \<Longrightarrow> silent cutoff a \<Longrightarrow> a_name a \<in> a_name ` set rows"
    and "b \<in> set (agents (snd (lose_rows e n db rows)))"
  shows "\<not> silent cutoff b"
  using assms
proof (induction rows arbitrary: n db)
  case (Cons row rows)
  show ?case
  proof (rule Cons.IH)
    show "b \<in> set (agents (snd (lose_rows e (n + 2) (snd (lose_row e n db row)) rows)))"
      using Cons.prems(2) by (simp add: rows_Cons)
    fix u assume u: "u \<in> set (agents (snd (lose_row e n db row)))" "silent cutoff u"
    then obtain c where "a_name u \<noteq> a_name row" "c \<in> set (agents db)" "a_name c = a_name u" "silent cutoff c"
      using lose_row_live [OF u(1)] by (auto simp: silent_def)
    with Cons.prems(1) [of c] show "a_name u \<in> a_name ` set rows" by auto
  qed
qed auto

lemma sweep_clean:
  assumes s: "sweep e db lost_after = Inr (r, db', ks)"
  shows "filter (overdue (now_iso e 0)) (tasks db') = []"
    and "filter (silent (to_iso (now_at e 0 - seconds lost_after))) (agents db') = []"
proof -
  from s have "(\<forall>t \<in> set (tasks db'). \<not> overdue (now_iso e 0) t) \<and>
    (\<forall>a \<in> set (agents db'). \<not> silent (to_iso (now_at e 0 - seconds lost_after)) a)"
  proof (cases rule: sweep_cases)
    case (1 expired lost db1)
    have x: "db1 = snd (expire_rows e 1 db (filter (overdue (now_iso e 0)) (tasks db)))"
      using 1(1) unfolding expire_leases_def by (metis snd_conv)
    have y: "db' = snd (lose_rows e (1 + 2 * length expired) db1
        (filter (silent (to_iso (now_at e 0 - seconds lost_after))) (agents db1)))"
      using 1(2) unfolding lose_agents_def by (metis snd_conv)
    have "\<not> overdue (now_iso e 0) t" if "t \<in> set (tasks db1)" for t
      using that unfolding x by (rule expire_rows_not_overdue [rotated]) auto
    then have "\<forall>t \<in> set (tasks db'). \<not> overdue (now_iso e 0) t"
      unfolding y using lose_rows_not_overdue by blast
    moreover have "\<not> silent (to_iso (now_at e 0 - seconds lost_after)) a" if "a \<in> set (agents db')" for a
      using that unfolding y by (rule lose_rows_not_silent [rotated]) auto
    ultimately show ?thesis by blast
  qed
  then show "filter (overdue (now_iso e 0)) (tasks db') = []"
    "filter (silent (to_iso (now_at e 0 - seconds lost_after))) (agents db') = []"
    by (simp_all add: filter_empty_conv)
qed

end
