(* ===== verification/HubRetries.thy ===== *)
theory HubRetries
  imports HubInbox
begin

text \<open>
  Retried worker calls: each idempotent operation leaves its reply in the operation table, and
  from then on the same id returns it. The three operations are instances of one interface.
\<close>

text \<open>
  An operation keyed by an actor, an operation id and a payload hash: a committed call with a
  builder is recorded, a recorded call is replayed, and a conflicting one is refused.
\<close>

locale idempotent_call =
  fixes call :: "env \<Rightarrow> hub_db \<Rightarrow> string \<Rightarrow> string \<Rightarrow> ('r \<Rightarrow> string) \<Rightarrow> 'r reply outcome"
    and actor :: string
  assumes preserves: "call e db op h b = Inr (r, d, ks) \<Longrightarrow> hub_ok db \<Longrightarrow> hub_ok d"
    and recorded: "call e db op h b = Inr (r, d, ks) \<Longrightarrow>
      \<exists>row fresh. operation_of d actor op = Some row \<and> o_payload_hash row = h \<and> r = Pair_json (o_response row) fresh"
    and replays: "replayed db actor (Some op) (Some h) = Inr (Some resp) \<Longrightarrow>
      call e0 db0 op h b0 = Inr (r0, d0, ks0) \<Longrightarrow> call e db op h b = Inr (Pair_json resp False, db, [])"
    and refuses: "replayed db actor (Some op) (Some h) = Inl err \<Longrightarrow>
      call e0 db0 op h0 b0 = Inr (r0, d0, ks0) \<Longrightarrow> call e db op h b = Inl err"
begin

lemma recorded_later:
  assumes "hub_ok db" and "call e db op h b = Inr (r, db1, ks)" and "hub_steps db1 d"
  obtains resp fresh where "r = Pair_json resp fresh" "replayed d actor (Some op) (Some h) = Inr (Some resp)"
    "\<And>h'. h' \<noteq> h \<Longrightarrow> \<exists>m. replayed d actor (Some op) (Some h') = Inl (Idempotency_conflict m)"
proof -
  obtain row fresh where row: "operation_of db1 actor op = Some row" "o_payload_hash row = h"
    "r = Pair_json (o_response row) fresh" using recorded [OF assms(2)] by blast
  have "evolves db1 d" using hub.steps_le [OF preserves [OF assms(2,1)] assms(3)] .
  note later = replayed_later [OF row(1) this]
  show thesis
    by (rule that [OF row(3)]) (use later row(2) in simp_all)
qed

lemma exactly_once:
  assumes "hub_ok db" and "call e db op h b = Inr (r, db1, ks)" and "hub_steps db1 d"
  shows "\<exists>resp fresh. r = Pair_json resp fresh \<and> call e' d op h b' = Inr (Pair_json resp False, d, []) \<and>
    (h' \<noteq> h \<longrightarrow> (\<exists>m. call e' d op h' b' = Inl (Idempotency_conflict m)))"
proof (rule recorded_later [OF assms])
  fix resp fresh assume r: "r = Pair_json resp fresh" "replayed d actor (Some op) (Some h) = Inr (Some resp)"
    "\<And>h'. h' \<noteq> h \<Longrightarrow> \<exists>m. replayed d actor (Some op) (Some h') = Inl (Idempotency_conflict m)"
  have "\<exists>m. call e' d op h' b' = Inl (Idempotency_conflict m)" if "h' \<noteq> h"
    using refuses [OF _ assms(2)] r(3) [OF that] by blast
  then show ?thesis using r(1) replays [OF r(2) assms(2)] by blast
qed

end

lemma recorded_of_cases:
  assumes "replayed db ac (Some op) (Some h) = Inr (Some resp)"
  shows "\<exists>row. operation_of db ac op = Some row \<and> o_payload_hash row = h \<and> resp = o_response row"
  using assms by (auto simp: replayed_def split: option.splits if_splits)

interpretation progress: idempotent_call
  "\<lambda>e db op h b. record_progress e db tid agent msg (Some op) (Some h) (Some b)" agent for tid agent msg
proof
  fix e db op h b r d ks assume c: "record_progress e db tid agent msg (Some op) (Some h) (Some b) = Inr (r, d, ks)"
  show "hub_ok db \<Longrightarrow> hub_ok d" by (rule record_progress_ok [OF c])
  from c show "\<exists>row fresh. operation_of d agent op = Some row \<and> o_payload_hash row = h \<and> r = Pair_json (o_response row) fresh"
  proof (cases rule: record_progress_cases)
    case (replay resp)
    then show ?thesis using recorded_of_cases [OF replay(1)] by blast
  next
    case (fresh t a mid db1 db3)
    have "operations db3 = operations db"
      using add_message_frames [OF fresh(5)] by (simp add: fresh(6) record_progress_at_def)
    then have "replayed db3 agent (Some op) (Some h) = Inr None" using fresh(1) replayed_cong [of db3 db] by simp
    from record_reply_recorded [OF fresh(7) this] show ?thesis by metis
  qed
qed (simp_all add: record_progress_def)

text \<open>Neither the task nor the note is looked at before the operation table.\<close>

lemma progress_recorded_once:
  assumes "hub_ok db" and "record_progress e db tid agent msg (Some op) (Some h) (Some b) = Inr (r, db1, ks)"
    and "hub_steps db1 d"
  shows "\<exists>resp fresh. r = Pair_json resp fresh \<and>
    record_progress e' d tid' agent msg' (Some op) (Some h) (Some b') = Inr (Pair_json resp False, d, []) \<and>
    (h' \<noteq> h \<longrightarrow> (\<exists>m. record_progress e' d tid' agent msg' (Some op) (Some h') (Some b') = Inl (Idempotency_conflict m)))"
proof (rule progress.recorded_later [OF assms])
  fix resp fresh assume r: "r = Pair_json resp fresh" "replayed d agent (Some op) (Some h) = Inr (Some resp)"
    "\<And>h'. h' \<noteq> h \<Longrightarrow> \<exists>m. replayed d agent (Some op) (Some h') = Inl (Idempotency_conflict m)"
  have "\<exists>m. record_progress e' d tid' agent msg' (Some op) (Some h') (Some b') = Inl (Idempotency_conflict m)" if "h' \<noteq> h"
    using r(3) [OF that] by (auto simp: record_progress_def)
  with r(1,2) show ?thesis by (simp add: record_progress_def)
qed

lemma check_in_row_operations: "check_in_row e db name profile i addr = Inr db1 \<Longrightarrow> operations db1 = operations db"
  by (auto simp: check_in_row_def Let_def split: option.splits if_splits)

interpretation admission: idempotent_call
  "\<lambda>e db op h b. check_in e db name profile inst (Some op) (Some h) (Some b) addr" name for name profile inst addr
proof
  fix e db op h b r d ks assume c: "check_in e db name profile inst (Some op) (Some h) (Some b) addr = Inr (r, d, ks)"
  show "hub_ok db \<Longrightarrow> hub_ok d" by (rule check_in_ok [OF c])
  from c show "\<exists>row fresh. operation_of d name op = Some row \<and> o_payload_hash row = h \<and> r = Pair_json (o_response row) fresh"
  proof (cases rule: check_in_cases)
    case (replay resp)
    then show ?thesis using recorded_of_cases [OF replay(1)] by blast
  next
    case (fresh i db1 row parts mid db2 pay db3 agent)
    have "operations db3 = operations db"
      using check_in_row_operations [OF fresh(4)] add_message_frames(6) [OF fresh(6)] by (simp add: fresh(7))
    then have "replayed db3 name (Some op) (Some h) = Inr None" using fresh(2) replayed_cong [of db3 db] by simp
    from record_reply_recorded [OF fresh(9) this] show ?thesis by metis
  qed
qed (simp_all add: check_in_def Let_def)

text \<open>
  A result is measured and validated before the operation table is read; the measure needs the
  float notation, which no two calls disagree about.
\<close>

definition submit_as ::
  "(rat \<Rightarrow> string) \<Rightarrow> string \<Rightarrow> string \<Rightarrow> submitted_result option \<Rightarrow> string \<Rightarrow> dict list \<Rightarrow> task_state option
   \<Rightarrow> env \<Rightarrow> hub_db \<Rightarrow> string \<Rightarrow> string \<Rightarrow> (task_row \<Rightarrow> string) \<Rightarrow> task_row reply outcome" where
  "submit_as fr tid agent result summary artifacts status e db op h b =
     submit_result (e\<lparr>float_repr := fr\<rparr>) db tid agent result summary artifacts status (Some op) (Some h) (Some b)"

lemma interpret_result_cong:
  assumes "float_repr e = float_repr e'"
  shows "interpret_result e = interpret_result e'"
proof -
  have "json_size_bytes e = json_size_bytes e'" using assms by (intro ext) (simp add: json_size_bytes_def)
  then show ?thesis by (intro ext) (simp only: interpret_result_def)
qed

text \<open>What a submission checks before it reads the operation table.\<close>

lemma submit_result_after_checks:
  assumes ir: "interpret_result e actual summary artifacts = Inr (payload, smry, st)"
    and act: "(case result of Some r \<Rightarrow> Some r | None \<Rightarrow> map_option Status status) = Some actual"
    and size: "json_size_bytes e (JObj payload) \<le> MAX_TYPED_RESULT_BYTES"
  shows "replayed db agent op hash = Inr (Some resp) \<Longrightarrow>
      submit_result e db tid agent result summary artifacts status op hash b = Inr (Pair_json resp False, db, [])"
    and "replayed db agent op hash = Inl err \<Longrightarrow>
      submit_result e db tid agent result summary artifacts status op hash b = Inl err"
  unfolding submit_result_def act option.case ir ebind_Inr prod.case using size by simp_all

lemma submit_as_checks:
  assumes "submit_as fr tid agent result summary artifacts status e db op h b = Inr (r, d, ks)"
  obtains actual payload smry st where
    "(case result of Some r \<Rightarrow> Some r | None \<Rightarrow> map_option Status status) = Some actual"
    "\<And>e0. interpret_result (e0\<lparr>float_repr := fr\<rparr>) actual summary artifacts = Inr (payload, smry, st)"
    "\<And>e0. json_size_bytes (e0\<lparr>float_repr := fr\<rparr>) (JObj payload) \<le> MAX_TYPED_RESULT_BYTES"
proof -
  note sr = assms [unfolded submit_as_def]
  let ?e = "e\<lparr>float_repr := fr\<rparr>"
  from sr obtain actual where actual:
    "(case result of Some r \<Rightarrow> Some r | None \<Rightarrow> map_option Status status) = Some actual"
    by (cases "case result of Some r \<Rightarrow> Some r | None \<Rightarrow> map_option Status status") (auto simp: submit_result_def)
  from sr actual obtain payload smry st where
    ir: "interpret_result ?e actual summary artifacts = Inr (payload, smry, st)"
    by (simp add: submit_result_def) blast
  from sr actual ir have size: "json_size_bytes ?e (JObj payload) \<le> MAX_TYPED_RESULT_BYTES"
    by (simp add: submit_result_def split: if_splits)
  show thesis
  proof (rule that [OF actual])
    fix e0
    have "interpret_result (e0\<lparr>float_repr := fr\<rparr>) = interpret_result ?e" by (rule interpret_result_cong) simp
    then show "interpret_result (e0\<lparr>float_repr := fr\<rparr>) actual summary artifacts = Inr (payload, smry, st)"
      using ir by simp
    show "json_size_bytes (e0\<lparr>float_repr := fr\<rparr>) (JObj payload) \<le> MAX_TYPED_RESULT_BYTES"
      using size by (simp add: json_size_bytes_def)
  qed
qed

interpretation submission: idempotent_call
  "submit_as fr tid agent result summary artifacts status" agent for fr tid agent result summary artifacts status
proof
  fix e db op h b r d ks assume c: "submit_as fr tid agent result summary artifacts status e db op h b = Inr (r, d, ks)"
  note c1 = c [unfolded submit_as_def]
  show "hub_ok db \<Longrightarrow> hub_ok d" by (rule submit_result_ok [OF c1])
  from c1 show "\<exists>row fresh. operation_of d agent op = Some row \<and> o_payload_hash row = h \<and> r = Pair_json (o_response row) fresh"
  proof (cases rule: submit_result_cases)
    case (replay resp)
    then show ?thesis using recorded_of_cases [OF replay(1)] by blast
  next
    case (fresh actual payload smry st t a mid db1 db3 fin kind)
    have "operations db3 = operations db"
      using add_message_frames(6) [OF fresh(8)] by (simp add: fresh(10))
    then have "replayed db3 agent (Some op) (Some h) = Inr None" using fresh(4) replayed_cong [of db3 db] by simp
    from record_reply_recorded [OF fresh(12) this] show ?thesis by metis
  qed
next
  fix e db op h b resp e0 db0 b0 r0 d0 ks0
  assume r: "replayed db agent (Some op) (Some h) = Inr (Some resp)"
    and c: "submit_as fr tid agent result summary artifacts status e0 db0 op h b0 = Inr (r0, d0, ks0)"
  from c obtain actual payload smry st where
    "(case result of Some r \<Rightarrow> Some r | None \<Rightarrow> map_option Status status) = Some actual"
    "interpret_result (e\<lparr>float_repr := fr\<rparr>) actual summary artifacts = Inr (payload, smry, st)"
    "json_size_bytes (e\<lparr>float_repr := fr\<rparr>) (JObj payload) \<le> MAX_TYPED_RESULT_BYTES"
    by (rule submit_as_checks) blast
  then show "submit_as fr tid agent result summary artifacts status e db op h b = Inr (Pair_json resp False, db, [])"
    unfolding submit_as_def by (intro submit_result_after_checks(1) r)
next
  fix e db op h h0 b err e0 db0 b0 r0 d0 ks0
  assume r: "replayed db agent (Some op) (Some h) = Inl err"
    and c: "submit_as fr tid agent result summary artifacts status e0 db0 op h0 b0 = Inr (r0, d0, ks0)"
  from c obtain actual payload smry st where
    "(case result of Some r \<Rightarrow> Some r | None \<Rightarrow> map_option Status status) = Some actual"
    "interpret_result (e\<lparr>float_repr := fr\<rparr>) actual summary artifacts = Inr (payload, smry, st)"
    "json_size_bytes (e\<lparr>float_repr := fr\<rparr>) (JObj payload) \<le> MAX_TYPED_RESULT_BYTES"
    by (rule submit_as_checks) blast
  then show "submit_as fr tid agent result summary artifacts status e db op h b = Inl err"
    unfolding submit_as_def by (intro submit_result_after_checks(2) r)
qed

section \<open>Assignments, acknowledgements and heartbeats\<close>

text \<open>A committed event-driven assignment is found again under its source event.\<close>

lemma assign_task_recorded:
  assumes asg: "assign_task e db agent role title instr lease head (Some v) = Inr (t, db1, ks)" and ok: "hub_ok db"
  obtains w where "workflow_row_of db1 = Some w" "t \<in> set (tasks db1)" "t_source_event t = Some v"
    "event_of db1 v \<noteq> None" "case head of None \<Rightarrow> True | Some h \<Rightarrow> sha_fullmatch h"
    "same_assignment t (w_id w) agent role title instr (min lease (max_task_lease_min db1 (w_id w)) * 60) (map_option lower head)"
proof -
  have sha: "case head of None \<Rightarrow> True | Some h \<Rightarrow> sha_fullmatch h"
    using asg by (auto simp: assign_task_def split: option.splits if_splits)
  from asg show thesis
  proof (cases rule: assign_task_fresh)
    case (replay w)
    have "event_of db v \<noteq> None" "find (\<lambda>t. t_source_event t = Some v) (tasks db) = Some t"
      "same_assignment t (w_id w) agent role title instr (min lease (max_task_lease_min db (w_id w)) * 60) (map_option lower head)"
      using replay(5) by (auto simp: source_task_def split: option.splits if_splits)
    then show thesis using that [of w] sha replay(1,4) by (auto dest: find_SomeD)
  next
    case (fresh w a row mid)
    note F = add_message_frames [OF fresh(20)]
    have "workflows db1 = workflows db" using F(1) by simp
    then have "workflow_row_of db1 = Some w" using fresh(1) by (simp add: workflow_row_of_def)
    moreover have "row \<in> set (tasks db1)" using F(3) by simp
    moreover have "event_of db1 = event_of db" by (rule lookup_cong) (use F(4) in simp)
    then have "event_of db1 v \<noteq> None" using fresh(5) by simp
    moreover have "max_task_lease_min db1 = max_task_lease_min db"
      using F(1) by (intro ext) (simp add: max_task_lease_min_def)
    ultimately show thesis using that [of w] sha fresh by (simp add: same_assignment_def)
  qed
qed

lemma assign_task_replays:
  assumes ok: "hub_ok d" and w: "workflow_row_of d = Some w" and t: "t \<in> set (tasks d)" "t_source_event t = Some v"
    and ev: "event_of d v \<noteq> None" and sha: "case head of None \<Rightarrow> True | Some h \<Rightarrow> sha_fullmatch h"
    and same: "same_assignment t (w_id w) agent role title instr
      (min lease (max_task_lease_min d (w_id w)) * 60) (map_option lower head)"
  shows "assign_task e d agent role title instr lease head (Some v) = Inr (t, d, [])"
proof -
  have "task_of d (t_id t) = Some t" using t(1) by (simp add: task_of_iff [OF hub_okD(1) [OF ok]])
  from source_task_hit [OF hub_okD(1) [OF ok] this t(2) ev same] show ?thesis
    using sha w by (auto simp: assign_task_def Let_def require_workflow_def split: option.splits)
qed

lemma same_assignment_later:
  "task_evolves t u \<Longrightarrow> same_assignment u w a r ti ins d h = same_assignment t w a r ti ins d h"
  using task_evolvesD [of t u] by (simp add: same_assignment_def)

lemma assign_task_later:
  assumes asg: "assign_task e db agent role title instr lease head (Some v) = Inr (t, db1, ks)"
    and ok: "hub_ok db1" "hub_ok db" and ev: "evolves db1 d" "hub_ok d"
  obtains u where "assign_task e' d agent role title instr lease head (Some v) = Inr (u, d, [])"
    "task_evolves t u"
proof -
  obtain w where w: "workflow_row_of db1 = Some w" "t \<in> set (tasks db1)" "t_source_event t = Some v"
    "event_of db1 v \<noteq> None" "case head of None \<Rightarrow> True | Some h \<Rightarrow> sha_fullmatch h"
    "same_assignment t (w_id w) agent role title instr (min lease (max_task_lease_min db1 (w_id w)) * 60) (map_option lower head)"
    by (rule assign_task_recorded [OF asg ok(2)])
  obtain x where x: "workflow_row_of d = Some x" "workflow_core x = workflow_core w"
    by (rule evolves_workflow [OF ev(2,1) w(1)])
  have t: "task_of db1 (t_id t) = Some t" using w(2) by (simp add: task_of_iff [OF hub_okD(1) [OF ok(1)]])
  obtain u where u: "task_of d (t_id t) = Some u" "task_evolves t u"
    by (rule evolves_task_of [OF ok(1) ev(2,1) t])
  obtain vrow where "event_of db1 v = Some vrow" using w(4) by blast
  then have e': "event_of d v \<noteq> None" using evolves_event_of [OF ev(2,1)] by (metis option.distinct(1))
  have ids: "w_id x = w_id w" using x(2) by (rule workflow_coreD)
  have "assign_task e' d agent role title instr lease head (Some v) = Inr (u, d, [])"
  proof (rule assign_task_replays [OF ev(2) x(1) task_of_mem [OF u(1)] _ e' w(5)])
    show "t_source_event u = Some v" using task_evolvesD(10) [OF u(2)] w(3) by simp
    show "same_assignment u (w_id x) agent role title instr
      (min lease (max_task_lease_min d (w_id x)) * 60) (map_option lower head)"
      using w(6) max_task_lease_min_later [OF ev(2,1) w(1)] same_assignment_later [OF u(2)] ids by simp
  qed
  then show thesis using u(2) that by blast
qed

lemma find_lease_id:
  assumes ok: "rows_ok db" and v: "v \<in> set (events db)"
  shows "event_of (upd_event (e_id v) (lease_row did now x) db) (e_id v) = Some (lease_row did now x v)"
proof -
  have "event_of db (e_id v) = Some v" using v by (simp add: event_of_iff [OF ok])
  then show ?thesis by (subst event_tbl.get_upd) (simp_all add: lease_row_def)
qed

section \<open>Who may change the inbox\<close>

lemma hub_does_inbox:
  "hub_does db d ks \<Longrightarrow> hub_ok db \<Longrightarrow> events_added db d ks \<or> (\<exists>e did r. ack_event e db did = Inr (r, d, ks)) \<or>
    (\<exists>e dflt lease r. lease_next_event e dflt db lease = Inr (r, d, ks))"
  by (erule hub_does.cases) (blast intro: inbox)+

lemma hub_step_inbox:
  assumes "hub_step db d" and "hub_ok db"
  obtains ks where "events_added db d ks" | e did r ks where "ack_event e db did = Inr (r, d, ks)"
  | e dflt lease r ks where "lease_next_event e dflt db lease = Inr (r, d, ks)"
  using assms hub_does_inbox unfolding hub_step_def by metis

lemma acked_by_delivery:
  assumes st: "hub_step db d" and ok: "hub_ok db" and v: "event_of db i = Some v" "e_state v \<noteq> Acked"
    and w: "event_of d i = Some w" "e_state w = Acked"
  shows "\<exists>did e ks. e_state v = Delivered \<and> e_delivery_id v = Some did \<and> ack_event e db (Some did) = Inr (True, d, ks)"
proof -
  have R: "rows_ok db" "rows_ok d" using hub_okD(1) hub_step_ok [OF ok st] ok by blast+
  have mem: "v \<in> set (events db)" "e_id v = i" "w \<in> set (events d)" "e_id w = i"
    using v(1) w(1) by (simp_all add: event_of_iff R)
  have uniq: "u = w" if "u \<in> set (events d)" "e_id u = i" for u
    using that w(1) event_of_iff [OF R(2)] by (metis option.inject)
  from st ok show ?thesis
  proof (cases rule: hub_step_inbox)
    case 1
    then have "v \<in> set (events d)" using mem(1) by (auto simp: events_added_def)
    then have "v = w" using uniq mem(2) by blast
    with v(2) w(2) show ?thesis by simp
  next
    case (2 e did r ks)
    show ?thesis
    proof (cases "r \<and> did \<noteq> None")
      case True
      then obtain x where x: "did = Some x" by auto
      with 2 True have d: "events d = update_where (delivered_as x)
          (\<lambda>v. v\<lparr>e_state := Acked, e_acked_at := Some (now_iso e 0)\<rparr>) (events db)"
        by (auto simp: ack_event_def split: if_splits)
      have "delivered_as x v"
      proof (rule ccontr)
        assume "\<not> delivered_as x v"
        then have "v \<in> set (events d)" using mem(1) unfolding d set_update_where by (simp add: image_iff)
        then show False using uniq mem(2) v(2) w(2) by blast
      qed
      then show ?thesis using 2 x True by (auto simp: delivered_as_def)
    next
      case False
      then have "d = db" using 2 by (auto simp: ack_event_def split: option.splits if_splits)
      with v w show ?thesis by simp
    qed
  next
    case (3 e dflt lease r ks)
    then show ?thesis
    proof (cases rule: lease_next_event_cases)
      case none
      with v w show ?thesis by simp
    next
      case (leased u x)
      have "w \<in> set (events db) \<or> e_state w = Delivered"
        using mem(3) unfolding leased(3) by (auto simp: set_update_where lease_row_def)
      then have "w = v" using w v mem event_of_iff [OF R(1)] by (metis event_state.distinct(5) option.inject)
      with v(2) w(2) show ?thesis by simp
    qed
  qed
qed

section \<open>Heartbeats and leases\<close>

lemma renewed_lease_le_cap: "now < current \<Longrightarrow> renewed_lease now cap dur current \<le> cap"
  by (simp add: renewed_lease_def)

lemma renewed_lease_ge: "now < current \<Longrightarrow> current \<le> cap \<Longrightarrow> current \<le> renewed_lease now cap dur current"
  by (simp add: renewed_lease_def)

text \<open>A heartbeat changes the rows of one agent and of one task, and adds or removes none.\<close>

lemma heartbeat_frame:
  assumes "heartbeat e db name inst cur lease addr = Inr (b, d, ks)"
  shows "\<forall>n. n \<noteq> name \<longrightarrow> agent_of d n = agent_of db n"
    and "d = db\<lparr>agents := agents d, tasks := tasks d\<rparr>"
    and "map a_name (agents d) = map a_name (agents db)" and "map t_id (tasks d) = map t_id (tasks db)"
proof -
  have n: "a_name (beat_agent now addr a) = a_name a" for now addr a by (simp add: beat_agent_def)
  show "\<forall>n. n \<noteq> name \<longrightarrow> agent_of d n = agent_of db n"
    using assms by (cases rule: heartbeat_cases) (simp_all add: agent_tbl.get_upd n)
  show "d = db\<lparr>agents := agents d, tasks := tasks d\<rparr>"
    "map a_name (agents d) = map a_name (agents db)" "map t_id (tasks d) = map t_id (tasks db)"
    using assms by (cases rule: heartbeat_cases; simp add: upd_agent_def upd_task_def update_where_def n)+
qed

end
