(* ===== verification/HubWakeups.thy ===== *)
theory HubWakeups
  imports HubRetries
begin

text \<open>
  Who is woken: an operation that gives a worker something to collect notifies the key that
  worker waits under. A released agent and a new task wake the context of their agent, a
  message from Alice the task it is on, a queued event the inbox.
\<close>

definition quiet :: "hub_db \<Rightarrow> hub_db \<Rightarrow> bool" where
  "quiet db d = (t_id ` set (tasks d) = t_id ` set (tasks db) \<and>
     (\<forall>b \<in> set (agents d). a_status b = Released_status \<longrightarrow>
        (\<exists>a \<in> set (agents db). a_name a = a_name b \<and> a_status a = Released_status)) \<and>
     (\<forall>m \<in> set (messages d). m \<in> set (messages db) \<or> m_direction m = To_alice))"

definition announced :: "hub_db \<Rightarrow> hub_db \<Rightarrow> string list \<Rightarrow> bool" where
  "announced db d ks = (
     (\<forall>t \<in> set (tasks d). t_id t \<notin> t_id ` set (tasks db) \<longrightarrow>
        (\<exists>n a. t_assignee t = Some n \<and> agent_of db n = Some a \<and> context_key (a_context_id a) \<in> set ks)) \<and>
     (\<forall>b \<in> set (agents d). a_status b = Released_status \<longrightarrow>
        (\<exists>a \<in> set (agents db). a_name a = a_name b \<and>
           (a_status a = Released_status \<or> context_key (a_context_id a) \<in> set ks))) \<and>
     (\<forall>m \<in> set (messages d). m \<in> set (messages db) \<or> m_direction m = To_alice \<or>
        (\<exists>i. m_task m = Some i \<and> (task_key i \<in> set ks \<or> i \<notin> t_id ` set (tasks db)))))"

lemma quiet_announced: "quiet db d \<Longrightarrow> announced db d ks"
  unfolding quiet_def announced_def by blast

lemma quiet_refl [simp]: "quiet db db"
  by (auto simp: quiet_def)

lemma quiet_trans: "quiet a b \<Longrightarrow> quiet b c \<Longrightarrow> quiet a c"
  unfolding quiet_def by metis

lemma quiet_same: "tasks d = tasks db \<Longrightarrow> agents d = agents db \<Longrightarrow> messages d = messages db \<Longrightarrow> quiet db d"
  by (auto simp: quiet_def)

lemma quiet_add_event: "quiet db (snd (add_event e n db k p))"
  by (simp add: quiet_same)

lemma quiet_record_reply: "quiet db (snd (record_reply e n db ac op h b r))"
  by (simp add: quiet_same)

lemma quiet_add_message: "add_message e n db tid ctx sender To_alice parts = Inr (mid, d) \<Longrightarrow> quiet db d"
  by (auto simp: add_message_Inr quiet_def)

lemma quiet_upd_agent:
  "(\<And>a. a_name (f a) = a_name a) \<Longrightarrow>
   (\<And>a. a \<in> set (agents db) \<Longrightarrow> a_name a = n \<Longrightarrow> a_status (f a) = Released_status \<Longrightarrow> a_status a = Released_status) \<Longrightarrow>
   quiet db (upd_agent n f db)"
  by (auto simp: quiet_def set_update_where)

lemma quiet_upd_task: "(\<And>t. t_id (f t) = t_id t) \<Longrightarrow> quiet db (upd_task i f db)"
  using key_update_where [of t_id f "\<lambda>t. t_id t = i" "tasks db"] by (auto simp: quiet_def)

lemma quiet_set_state: "quiet db (set_state e n db i st)"
  unfolding set_state_def by (rule quiet_upd_task) simp

lemma quiet_finish: "quiet db (finish e n db i st p)"
proof -
  have "t_id ` set (tasks (finish e n db i st p)) = t_id ` set (tasks db)"
    unfolding tasks_lists by (rule key_update_where) simp
  then show ?thesis by (auto simp: quiet_def freed_def split: if_splits)
qed

lemma quiet_reply: "(r, d) = record_reply e n db3 ac op h b x \<Longrightarrow> quiet db db3 \<Longrightarrow> quiet db d"
  using quiet_trans [OF _ quiet_record_reply] by (metis snd_conv)

named_theorems announcing

lemma simple_quiet:
  "initialize_workflow e db goal policy = Inr (r1, db', ks) \<Longrightarrow> quiet db db'"
  "set_workflow_status e db st summary = Inr (r2, db', ks) \<Longrightarrow> quiet db db'"
  "log_decision e db summary rationale key = Inr (r3, db', ks) \<Longrightarrow> quiet db db'"
  "append_event e db kind payload = Inr (r6, db', ks) \<Longrightarrow> quiet db db'"
  "record_operation e db ac op h resp = Inr (r4, db', ks) \<Longrightarrow> quiet db db'"
  "ack_event e db did = Inr (r7, db', ks) \<Longrightarrow> quiet db db'"
  "lease_next_event e dflt db lease = Inr (r8, db', ks) \<Longrightarrow> quiet db db'"
proof -
  show "initialize_workflow e db goal policy = Inr (r1, db', ks) \<Longrightarrow> quiet db db'"
    by (auto simp: initialize_workflow_def Let_def intro: quiet_same split: sum.splits option.splits if_splits)
  show "set_workflow_status e db st summary = Inr (r2, db', ks) \<Longrightarrow> quiet db db'"
    by (auto simp: set_workflow_status_def Let_def intro: quiet_same split: if_splits)
  show "log_decision e db summary rationale key = Inr (r3, db', ks) \<Longrightarrow> quiet db db'"
    by (auto simp: log_decision_def Let_def intro: quiet_same split: option.splits)
  show "append_event e db kind payload = Inr (r6, db', ks) \<Longrightarrow> quiet db db'"
    by (auto simp: append_event_def Let_def case_prod_beta intro: quiet_same)
  show "record_operation e db ac op h resp = Inr (r4, db', ks) \<Longrightarrow> quiet db db'"
    by (auto dest!: record_operation_cases intro: quiet_same)
  show "ack_event e db did = Inr (r7, db', ks) \<Longrightarrow> quiet db db'"
    by (auto simp: ack_event_def intro: quiet_same split: option.splits if_splits)
  show "lease_next_event e dflt db lease = Inr (r8, db', ks) \<Longrightarrow> quiet db db'"
    by (erule lease_next_event_cases) (auto intro: quiet_same)
qed

lemmas simple_announcing [announcing] = simple_quiet [THEN quiet_announced]

lemma check_in_row_quiet:
  assumes "check_in_row e db name profile i addr = Inr d"
  shows "quiet db d"
proof (cases "agent_of db name")
  case None
  with assms show ?thesis by (auto simp: check_in_row_def Let_def quiet_def split: if_splits)
next
  case (Some row)
  then have row: "row \<in> set (agents db)" "a_name row = name" by (auto simp: agent_of_def dest: find_SomeD)
  have "quiet db (upd_agent name (\<lambda>a. a\<lparr>a_status := readmitted (a_status row) cur,
      a_last_seen := n1, a_instance := i, a_last_heartbeat := n2, a_last_progress_at := lp,
      a_current_task := cur, a_profile := profile, a_checkin_addr := addr, a_last_addr := addr\<rparr>) db)" for cur n1 n2 lp
    using row unfolding quiet_def by (auto simp: set_update_where readmitted_def split: if_splits)
  with assms Some show ?thesis by (auto simp: check_in_row_def Let_def split: if_splits)
qed

lemma check_in_announcing [announcing]:
  assumes "check_in e db name profile inst op hash builder addr = Inr (r, db', ks)"
  shows "announced db db' ks"
  using assms
proof (cases rule: check_in_cases)
  case (fresh i db1 row parts mid db2 pay db3 agent)
  have "quiet db db3" unfolding fresh(7)
    by (rule quiet_trans [OF quiet_trans [OF check_in_row_quiet [OF fresh(4)] quiet_add_message [OF fresh(6)]] quiet_add_event])
  then show ?thesis by (intro quiet_announced quiet_reply [OF fresh(9)])
qed (simp add: quiet_announced)

lemma heartbeat_announcing [announcing]:
  assumes "heartbeat e db name inst cur lease addr = Inr (b, db', ks)"
  shows "announced db db' ks"
proof -
  have beat: "quiet db (upd_agent name (beat_agent now addr) db)" for now
    by (rule quiet_upd_agent) (auto simp: beat_agent_def)
  from assms have "quiet db db'"
  proof (cases rule: heartbeat_cases)
    case (3 a i t x cap)
    show ?thesis unfolding 3(13) by (rule quiet_trans [OF beat quiet_upd_task]) simp
  qed (simp_all add: beat)
  then show ?thesis by (rule quiet_announced)
qed

lemma release_agent_announcing [announcing]:
  assumes "release_agent db name = Inr (r, db', ks)"
  shows "announced db db' ks"
proof -
  from assms obtain a where a: "agent_of db name = Some a" by (auto simp: release_agent_def)
  then have mem: "a \<in> set (agents db)" "a_name a = name" by (auto simp: agent_of_def dest: find_SomeD)
  show ?thesis
  proof (cases "a_status a = Released_status")
    case True
    with assms a show ?thesis by (auto simp: release_agent_def require_agent_def quiet_announced)
  next
    case False
    with assms a have d: "db' = upd_agent name (\<lambda>a. a\<lparr>a_status := Released_status\<rparr>) db"
      "ks = [context_key (a_context_id a)]"
      by (auto simp: release_agent_def require_agent_def Let_def)
    have "\<exists>c \<in> set (agents db). a_name c = a_name b \<and>
        (a_status c = Released_status \<or> context_key (a_context_id c) \<in> set ks)"
      if "b \<in> set (agents db')" "a_status b = Released_status" for b
      using that mem unfolding d by (auto simp: set_update_where split: if_splits)
    then show ?thesis unfolding announced_def using d(1) by auto
  qed
qed

lemma assign_task_announcing [announcing]:
  assumes "assign_task e db agent role title instr lease head src = Inr (t, db', ks)"
  shows "announced db db' ks"
  using assms
proof (cases rule: assign_task_fresh)
  case (fresh w a row mid)
  note F = add_message_frames [OF fresh(20)]
  have tk: "tasks db' = tasks db @ [row]" using F(3) by simp
  have ag: "agents db' = update_where (\<lambda>a. a_name a = agent) (\<lambda>a. a\<lparr>a_status := Busy, a_current_task := Some (t_id row)\<rparr>) (agents db)"
    using F(2) by simp
  have ms: "\<forall>m \<in> set (messages db'). m \<in> set (messages db) \<or> m_task m = Some (t_id row)"
    using fresh(20) by (auto simp: add_message_Inr)
  have "t_id row \<notin> t_id ` set (tasks db)" using fresh(4,7) by simp
  then show ?thesis
    unfolding announced_def
    using fresh(2,9,22) ms by (auto simp: tk ag set_update_where split: if_splits)
qed (simp add: quiet_announced)

lemma claim_assignment_announcing [announcing]:
  assumes "claim_assignment e db name = Inr (c, db', ks)"
  shows "announced db db' ks"
  using assms quiet_set_state quiet_refl
  by (intro quiet_announced) (auto simp: claim_assignment_def Let_def split: if_splits option.splits)

lemma record_progress_announcing [announcing]:
  assumes "record_progress e db tid agent msg op hash builder = Inr (r, db', ks)"
  shows "announced db db' ks"
  using assms
proof (cases rule: record_progress_cases)
  case (fresh t a mid db1 db3)
  have "quiet d (record_progress_at e 2 d agent)" for d
    unfolding record_progress_at_def by (rule quiet_upd_agent) auto
  then have "quiet db db3" unfolding fresh(6)
    by (rule quiet_trans [OF quiet_trans [OF quiet_add_message [OF fresh(5)] quiet_add_event]])
  then show ?thesis by (intro quiet_announced quiet_reply [OF fresh(7)])
qed (simp add: quiet_announced)

lemma open_question_announcing [announcing]:
  assumes "open_question e db tid agent q s = Inr (r, db', ks)"
  shows "announced db db' ks"
  using assms
proof (cases rule: open_question_cases)
  case (fresh t a db1)
  show ?thesis unfolding fresh(6)
    by (intro quiet_announced quiet_trans [OF quiet_trans [OF quiet_add_message [OF fresh(5)] quiet_set_state] quiet_add_event])
qed (simp add: quiet_announced)

lemma submit_result_announcing [announcing]:
  assumes "submit_result e db tid agent result summary artifacts status op hash builder = Inr (r, db', ks)"
  shows "announced db db' ks"
  using assms
proof (cases rule: submit_result_cases)
  case (fresh actual payload smry st t a mid db1 db3 fin kind)
  have "quiet db db3" unfolding fresh(10)
    by (rule quiet_trans [OF quiet_trans [OF quiet_add_message [OF fresh(8)] quiet_finish] quiet_add_event])
  then show ?thesis by (intro quiet_announced quiet_reply [OF fresh(12)])
qed (simp add: quiet_announced)

text \<open>A message from Alice, and then a change that adds none.\<close>

lemma announced_message:
  assumes "add_message e n db (Some i) ctx sender dir parts = Inr (mid, db1)" and "quiet db1 d" and "task_key i \<in> set ks"
  shows "announced db d ks"
  using assms unfolding quiet_def announced_def by (auto simp: add_message_Inr)

lemma reply_announcing [announcing]:
  assumes "reply e db tid text q = Inr (r, db', ks)"
  shows "announced db db' ks"
  using assms
proof (cases rule: reply_cases)
  case (sent t ctx mid db1)
  show ?thesis unfolding sent(8,9) by (rule announced_message [OF sent(7) quiet_set_state]) simp
qed (simp add: quiet_announced)

lemma set_task_state_announcing [announcing]:
  assumes "set_task_state e db tid st note = Inr (r, db', ks)"
  shows "announced db db' ks"
  using assms
proof (cases rule: set_task_state_cases)
  case (1 t ctx mid db1)
  show ?thesis unfolding 1(6,8) by (rule announced_message [OF 1(5) quiet_finish]) simp
qed

lemma cancel_task_announcing [announcing]:
  "cancel_task e db tid = Inr (r, db', ks) \<Longrightarrow> announced db db' ks"
  by (erule cancel_task_cases) (simp add: quiet_announced quiet_finish)

lemma expire_rows_quiet: "quiet db (snd (expire_rows e n db rows))"
proof (induction rows arbitrary: n db)
  case (Cons row rows)
  have "quiet db (snd (expire_row e n db row))" unfolding expire_row_def
    by (rule quiet_trans [OF quiet_upd_task quiet_add_event]) simp
  then show ?case unfolding rows_Cons snd_conv by (rule quiet_trans [OF _ Cons.IH])
qed simp

lemma lose_row_quiet: "quiet db (snd (lose_row e n db a))"
proof -
  let ?d = "upd_agent (a_name a) mark_lost db"
  have 1: "quiet db ?d" by (rule quiet_upd_agent) simp_all
  have "quiet ?d (case cur of None \<Rightarrow> ?d | Some i \<Rightarrow> finish e n ?d i Failed (Some (lost_payload (a_name a))))" for cur
    by (simp add: quiet_finish split: option.split)
  then show ?thesis unfolding lose_row_def Let_def by (rule quiet_trans [OF quiet_trans [OF 1] quiet_add_event])
qed

lemma lose_rows_quiet: "quiet db (snd (lose_rows e n db rows))"
proof (induction rows arbitrary: n db)
  case (Cons row rows)
  show ?case unfolding rows_Cons snd_conv by (rule quiet_trans [OF lose_row_quiet Cons.IH])
qed simp

lemma sweep_announcing [announcing]:
  assumes "sweep e db lost_after = Inr (r, db', ks)"
  shows "announced db db' ks"
  using assms
proof (cases rule: sweep_cases)
  case (1 expired lost db1)
  have "db1 = snd (expire_rows e 1 db (filter (overdue (now_iso e 0)) (tasks db)))"
    using 1(1) unfolding expire_leases_def by (metis snd_conv)
  moreover have "db' = snd (lose_rows e (1 + 2 * length expired) db1
      (filter (silent (to_iso (now_at e 0 - seconds lost_after))) (agents db1)))"
    using 1(2) unfolding lose_agents_def by (metis snd_conv)
  ultimately show ?thesis using quiet_trans [OF expire_rows_quiet lose_rows_quiet] by (metis quiet_announced)
qed

lemma hub_does_announced: "hub_does db d ks \<Longrightarrow> announced db d ks"
  by (erule hub_does.cases) (blast intro: announcing)+

end
