(* ===== verification/HubDelivery.thy ===== *)
theory HubDelivery
  imports HubRetries HubWakeups
begin

text \<open>
  What the inbox and the sweep promise beyond the invariant: the lease of an event and its
  supersession, a second pass of the sweeper, and the fate of a silent agent and its task.
\<close>

section \<open>Deliveries\<close>

lemma lease_next_event_effect:
  assumes ok: "rows_ok db" and "lease_next_event e dflt db lease = Inr (r, d, ks)"
  shows "case r of None \<Rightarrow> d = db \<and> \<not> (\<exists>v \<in> set (events db). eligible (now_iso e 0) v)
    | Some v \<Rightarrow> \<exists>u. event_of db (e_id v) = Some u \<and> eligible (now_iso e 0) u \<and> event_of d (e_id v) = Some v \<and>
        v = u\<lparr>e_state := Delivered, e_delivery_id := Some (uuid_at e 0), e_attempts := e_attempts u + 1,
              e_delivered_at := Some (now_iso e 0),
              e_delivery_expires := Some (to_iso (now_at e 0 + seconds (case lease of None \<Rightarrow> dflt | Some s \<Rightarrow> s)))\<rparr> \<and>
        (\<forall>x \<in> set (events db). eligible (now_iso e 0) x \<longrightarrow> e_id u \<le> e_id x) \<and>
        (\<forall>i. i \<noteq> e_id v \<longrightarrow> event_of d i = event_of db i)"
proof -
  let ?x = "to_iso (now_at e 0 + seconds (case lease of None \<Rightarrow> dflt | Some s \<Rightarrow> s))"
  show ?thesis
  proof (cases "first_by e_id (eligible (now_iso e 0)) (events db)")
    case None
    then have "r = None" "d = db" using assms(2) by (simp_all add: lease_next_event_def)
    then show ?thesis using None by (simp add: first_by_None)
  next
    case (Some u)
    let ?f = "lease_row (uuid_at e 0) (now_iso e 0) ?x"
    have u: "u \<in> set (events db)" "eligible (now_iso e 0) u"
      and least: "x \<in> set (events db) \<Longrightarrow> eligible (now_iso e 0) x \<Longrightarrow> e_id u \<le> e_id x" for x
      using first_by_Some [OF Some] by blast+
    have d: "d = upd_event (e_id u) ?f db" "r = event_of d (e_id u)"
      using assms(2) Some by (auto simp: lease_next_event_def Let_def)
    have at: "event_of d i = (if i = e_id u then map_option ?f (event_of db i) else event_of db i)" for i
      unfolding d(1) by (rule event_tbl.get_upd) (simp add: lease_row_def)
    have "event_of db (e_id u) = Some u" using u(1) event_of_iff [OF ok] by blast
    then show ?thesis using d(2) at u(2) least by (auto simp: lease_row_def)
  qed
qed

lemma superseded_delivery:
  assumes "rows_ok db" and "lease_next_event e dflt db lease = Inr (Some v, d, ks)"
    and "event_of db (e_id v) = Some u" and "e_delivery_id u = Some old" and "uuid_at e 0 \<noteq> old"
    and "ack_event e' d (Some old) = Inr (b, d', ks')"
  shows "event_of d' (e_id v) = Some v \<and> e_state v = Delivered"
proof -
  from lease_next_event_effect [OF assms(1,2)]
  have v: "event_of d (e_id v) = Some v" "e_state v = Delivered" "e_delivery_id v = Some (uuid_at e 0)" by auto
  have "event_of d' (e_id v) = event_of d (e_id v)"
  proof (cases "d' = d")
    case False
    then have "d' = d\<lparr>events := update_where (delivered_as old)
        (\<lambda>v. v\<lparr>e_state := Acked, e_acked_at := Some (now_iso e' 0)\<rparr>) (events d)\<rparr>"
      using assms(6) by (auto simp: ack_event_def split: if_splits)
    then show ?thesis
      using v assms(5) by (simp add: event_of_def find_update_where_key delivered_as_def)
  qed simp
  then show ?thesis using v by simp
qed

section \<open>A second pass of the sweeper\<close>

lemma sweep_again:
  assumes "sweep e db lost_after = Inr (r, d, ks)" and "now_at e' 0 = now_at e 0"
  shows "sweep e' d lost_after = Inr ([], d, [])"
proof -
  have "now_iso e' 0 = now_iso e 0" using assms(2) by (simp add: now_iso_def)
  then have "expire_leases e' 1 d (to_iso (now_at e' 0)) = ([], d)"
    using sweep_clean(1) [OF assms(1)] assms(2) by (simp add: expire_leases_def now_iso_def)
  moreover have "lose_agents e' n d (to_iso (now_at e' 0 - seconds lost_after)) = ([], d)" for n
    using sweep_clean(2) [OF assms(1)] assms(2) by (simp add: lose_agents_def)
  ultimately show ?thesis by (simp add: sweep_def Let_def)
qed

section \<open>The fate of a silent agent\<close>

definition given_up :: "hub_db \<Rightarrow> agent_row \<Rightarrow> bool" where
  "given_up d a = ((\<exists>b. agent_of d (a_name a) = Some b \<and> a_status b = Lost \<and> a_current_task b = None) \<and>
     (\<forall>i. a_current_task a = Some i \<longrightarrow> (\<exists>u. task_of d i = Some u \<and> t_state u = Failed \<and>
        t_lease_expires u = None \<and> t_result u = Some (lost_payload (a_name a)))))"

lemma lose_row_gives_up:
  assumes ok: "hub_ok db" and a: "agent_of db (a_name a) = Some a"
  shows "given_up (snd (lose_row e n db a)) a"
proof (cases "a_current_task a")
  case None
  then show ?thesis unfolding given_up_def lose_row_closed [OF ok a]
    using a by (simp add: agent_tbl.get_upd)
next
  case (Some i)
  obtain t where t: "task_of db i = Some t" using coupled_agentD [OF hub_okD(2) [OF ok] a Some] by blast
  show ?thesis unfolding given_up_def lose_row_closed [OF ok a]
    using a Some t by (simp add: agent_tbl.get_upd freed_def)
qed

lemma lose_row_keeps_given_up:
  assumes ok: "hub_ok db" and c: "agent_of db (a_name c) = Some c" and ne: "a_name c \<noteq> a_name a" and g: "given_up db a"
  shows "given_up (snd (lose_row e n db c)) a"
proof -
  obtain b where b: "agent_of db (a_name a) = Some b" "a_status b = Lost" "a_current_task b = None"
    using g by (auto simp: given_up_def)
  have nb: "a_name b = a_name a" using agent_of_name [OF b(1)] .
  have "agent_of (snd (lose_row e n db c)) (a_name b) = Some b"
    by (rule lose_row_other [OF ok c]) (use b(1) nb ne in auto)
  moreover have "task_of (snd (lose_row e n db c)) i = task_of db i"
    if "task_of db i = Some u" "t_state u = Failed" for i u
  proof -
    have "a_current_task c \<noteq> Some i" using coupled_agentD [OF hub_okD(2) [OF ok] c, of i] that by auto
    then show ?thesis unfolding lose_row_closed [OF ok c] by (simp split: option.split)
  qed
  ultimately show ?thesis using g b nb unfolding given_up_def by (metis option.inject)
qed

lemma lose_rows_give_up:
  assumes "hub_ok db" "distinct (map a_name rows)" "\<forall>a \<in> set rows. agent_of db (a_name a) = Some a"
    and "a \<in> set rows \<or> given_up db a \<and> a_name a \<notin> a_name ` set rows"
  shows "given_up (snd (lose_rows e n db rows)) a"
  using assms
proof (induction rows arbitrary: n db)
  case (Cons c rows)
  have c: "agent_of db (a_name c) = Some c" using Cons.prems by simp
  let ?d = "snd (lose_row e n db c)"
  have "agent_of ?d (a_name b) = Some b" if "b \<in> set rows" for b
  proof (rule lose_row_other [OF Cons.prems(1) c])
    show "agent_of db (a_name b) = Some b" using Cons.prems(3) that by simp
    show "a_name b \<noteq> a_name c" using Cons.prems(2) that by (metis distinct.simps(2) imageI image_set list.simps(9))
  qed
  then have keep: "\<forall>b \<in> set rows. agent_of ?d (a_name b) = Some b" by blast
  have "a \<in> set rows \<or> given_up ?d a \<and> a_name a \<notin> a_name ` set rows"
    using Cons.prems(2,4) lose_row_gives_up [OF Cons.prems(1) c] lose_row_keeps_given_up [OF Cons.prems(1) c]
    by auto
  with Cons.IH [OF lose_row_ok [OF Cons.prems(1) c] _ keep] Cons.prems(2) show ?case by (simp add: rows_Cons)
qed simp

lemma expire_rows_task:
  "task_of db i = Some t \<Longrightarrow> \<exists>u. task_of (snd (expire_rows e n db rows)) i = Some u \<and> t_state u = t_state t"
proof (induction rows arbitrary: n db t)
  case (Cons r rows)
  have "\<exists>u. task_of (snd (expire_row e n db r)) i = Some u \<and> t_state u = t_state t"
    using Cons.prems by (cases "i = t_id r") (auto simp: expire_row_def task_tbl.get_upd)
  then obtain u where u: "task_of (snd (expire_row e n db r)) i = Some u" "t_state u = t_state t" by blast
  from Cons.IH [OF u(1)] u(2) show ?case by (simp add: rows_Cons)
qed simp

lemma sweep_gives_up:
  assumes s: "sweep e db lost_after = Inr (r, d, ks)" and ok: "hub_ok db"
    and a: "agent_of db n = Some a" "silent (to_iso (now_at e 0 - seconds lost_after)) a"
  shows "given_up d a"
  using s
proof (cases rule: sweep_cases)
  case (1 expired lost db1)
  have db1: "db1 = snd (expire_rows e 1 db (filter (overdue (now_iso e 0)) (tasks db)))"
    using 1(1) by (metis expire_leases_def snd_conv)
  then have ok1: "hub_ok db1" using expire_rows_ok [OF ok] by simp
  have ag: "agents db1 = agents db" unfolding db1 by (rule expire_rows_agents)
  have d: "d = snd (lose_rows e (1 + 2 * length expired) db1
      (filter (silent (to_iso (now_at e 0 - seconds lost_after))) (agents db1)))"
    using 1(2) by (metis lose_agents_def snd_conv)
  note R = hub_okD(1) [OF ok1]
  show ?thesis unfolding d
    by (rule lose_rows_give_up [OF ok1])
      (use R agent_of_iff [OF R] agent_of_mem [OF a(1)] a(2) ag in \<open>auto simp: rows_ok_def distinct_map_filter\<close>)
qed

section \<open>Heartbeats\<close>

lemma heartbeat_keys: "heartbeat e db name inst cur lease addr = Inr (b, d, ks) \<Longrightarrow> ks = []"
  by (auto simp: heartbeat_def Let_def split: if_splits option.splits)

lemma heartbeat_stale:
  "agent_of db name = Some a \<Longrightarrow> a_instance a \<noteq> inst \<or> a_status a = Lost \<Longrightarrow>
   heartbeat e db name inst cur lease addr = Inr (False, db, [])"
  by (auto simp: heartbeat_def Let_def require_agent_def)

lemma heartbeat_accepted:
  "heartbeat e db name inst cur lease addr = Inr (b, d, ks) \<Longrightarrow> agent_of db name = Some a \<Longrightarrow>
   \<not> (a_instance a \<noteq> inst \<or> a_status a = Lost) \<Longrightarrow> b"
  by (auto simp: heartbeat_def Let_def split: if_splits option.splits)

section \<open>An event delivered twice\<close>

definition db_leased :: hub_db where
  "db_leased = db_asked\<lparr>events := map (\<lambda>v. if e_id v = 1 then v\<lparr>e_state := Delivered,
     e_delivery_id := Some ''id90'', e_attempts := 1, e_delivered_at := Some 900000,
     e_delivery_expires := Some 1500000\<rparr> else v) sample_events\<rparr>"

lemma leased_result: "map_sum id (\<lambda>(r, d, ks). (d, ks)) (lease_next_event (sample_env 9) 600 db_asked None) = Inr (db_leased, [])"
  by code_simp

lemma leased_reachable: "hub_reachable db_leased"
proof -
  obtain r where "lease_next_event (sample_env 9) 600 db_asked None = Inr (r, db_leased, [])"
    using leased_result by (auto simp: map_sum_def split: sum.splits)
  then show ?thesis using asked_reachable hub_stepI [OF hub_does.Lease] by (meson rtranclp.rtrancl_into_rtrancl)
qed

end
