(* ===== verification/Waits.thy ===== *)
theory Waits
  imports HubWakeups
begin

text \<open>
  \<^verbatim>\<open>signals.Signals\<close> and the held requests of \<^verbatim>\<open>HubStore._wait_for\<close>. A waiter is the number of
  its \<^verbatim>\<open>asyncio.Event\<close>; the flag of the event, and the calls another thread has scheduled on the
  waiter's loop, are part of the state. The wait loop is a step relation, so that commits,
  notifications and the clock interleave with it at every point.
\<close>

section \<open>The registry\<close>

record signals =
  waiters :: "string \<Rightarrow> nat set option"
  flagged :: "nat set"
  scheduled :: "nat list"

definition no_signals :: signals where
  "no_signals = \<lparr>waiters = (\<lambda>k. None), flagged = {}, scheduled = []\<rparr>"

definition subscribe :: "string \<Rightarrow> nat \<Rightarrow> signals \<Rightarrow> signals" where
  "subscribe key w s = s\<lparr>waiters := (waiters s)(key \<mapsto>
     insert w (case waiters s key of None \<Rightarrow> {} | Some ws \<Rightarrow> ws))\<rparr>"

definition unsubscribe :: "string \<Rightarrow> nat \<Rightarrow> signals \<Rightarrow> signals" where
  "unsubscribe key w s = (case waiters s key of None \<Rightarrow> s
     | Some ws \<Rightarrow> s\<lparr>waiters := (waiters s)(key := (if ws - {w} = {} then None else Some (ws - {w})))\<rparr>)"

text \<open>
  \<^verbatim>\<open>_Waiter.wake\<close>: the flag is set at once on the waiter's own loop, and scheduled there
  otherwise.
\<close>

definition wake :: "bool \<Rightarrow> nat \<Rightarrow> signals \<Rightarrow> signals" where
  "wake same_loop w s = (if same_loop then s\<lparr>flagged := insert w (flagged s)\<rparr>
     else s\<lparr>scheduled := scheduled s @ [w]\<rparr>)"

fun wake_all :: "(nat \<Rightarrow> bool) \<Rightarrow> nat list \<Rightarrow> signals \<Rightarrow> signals" where
  "wake_all on_loop [] s = s"
| "wake_all on_loop (w # ws) s = wake_all on_loop ws (wake (on_loop w) w s)"

definition notify :: "(nat \<Rightarrow> bool) \<Rightarrow> string \<Rightarrow> signals \<Rightarrow> signals" where
  "notify on_loop key s = (case waiters s key of None \<Rightarrow> s
     | Some ws \<Rightarrow> wake_all on_loop (sorted_list_of_set ws) s)"

definition waiting :: "string \<Rightarrow> signals \<Rightarrow> nat" where
  "waiting key s = (case waiters s key of None \<Rightarrow> 0 | Some ws \<Rightarrow> card ws)"

definition subscribed :: "string \<Rightarrow> nat \<Rightarrow> signals \<Rightarrow> bool" where
  "subscribed key w s = (\<exists>ws. waiters s key = Some ws \<and> finite ws \<and> w \<in> ws)"

text \<open>A wakeup that has happened, or is on its way to the waiter's loop.\<close>

definition stirred :: "nat \<Rightarrow> signals \<Rightarrow> bool" where
  "stirred w s = (w \<in> flagged s \<or> w \<in> set (scheduled s))"

lemma wake_waiters [simp]: "waiters (wake b w s) = waiters s"
  by (simp add: wake_def)

lemma wake_all_waiters [simp]: "waiters (wake_all f ws s) = waiters s"
  by (induction ws arbitrary: s) simp_all

lemma wake_stirred: "stirred v (wake b w s) \<longleftrightarrow> v = w \<or> stirred v s"
  by (auto simp: stirred_def wake_def)

lemma wake_all_stirred: "stirred v (wake_all f ws s) \<longleftrightarrow> v \<in> set ws \<or> stirred v s"
  by (induction ws arbitrary: s) (auto simp: wake_stirred)

lemma notify_waiters [simp]: "waiters (notify f key s) = waiters s"
  by (simp add: notify_def split: option.split)

lemma notify_stirs: "subscribed key w s \<Longrightarrow> stirred w (notify f key s)"
  by (auto simp: subscribed_def notify_def wake_all_stirred)

lemma notify_keeps: "stirred w s \<Longrightarrow> stirred w (notify f key s)"
  by (auto simp: notify_def wake_all_stirred split: option.split)

lemma notify_other: "stirred w (notify f key s) \<Longrightarrow> (\<And>ws. waiters s key = Some ws \<Longrightarrow> w \<notin> ws) \<Longrightarrow>
   (\<And>ws. waiters s key = Some ws \<Longrightarrow> finite ws) \<Longrightarrow> stirred w s"
  by (auto simp: notify_def wake_all_stirred split: option.splits)

lemma subscribe_subscribed: "(\<And>ws. waiters s key = Some ws \<Longrightarrow> finite ws) \<Longrightarrow> subscribed key w (subscribe key w s)"
  by (auto simp: subscribe_def subscribed_def split: option.split)

lemma unsubscribe_gone: "waiters (unsubscribe key w s) key = Some ws \<Longrightarrow> w \<notin> ws"
  by (auto simp: unsubscribe_def split: option.splits if_splits)

lemma unsubscribe_subscribe:
  "(\<And>ws. waiters s key = Some ws \<Longrightarrow> w \<notin> ws \<and> ws \<noteq> {}) \<Longrightarrow> unsubscribe key w (subscribe key w s) = s"
  by (cases "waiters s key") (auto simp: unsubscribe_def subscribe_def insert_Diff_if fun_upd_idem)

section \<open>A held request\<close>

datatype 'r phase = Subscribed | Cleared | Polled | Waiting int | Found 'r | Timed_out | Raised

record ('d, 'r) waitsys =
  shared :: 'd
  sigs :: signals
  clock :: int
  unsent :: "string list"
  at_phase :: "'r phase"

text \<open>
  \<open>write\<close> is one committed operation of anybody, with the keys it notifies after the commit;
  \<open>poll\<close> is the waiter's own read, which may claim what it finds; \<open>next_timeout\<close> bounds one wait.
\<close>

inductive wait_step ::
  "('d \<Rightarrow> 'd \<Rightarrow> string list \<Rightarrow> bool) \<Rightarrow> ('d \<Rightarrow> store_error + 'r option \<Rightarrow> 'd \<Rightarrow> bool) \<Rightarrow> ('d \<Rightarrow> int option)
   \<Rightarrow> nat \<Rightarrow> int \<Rightarrow> ('d, 'r) waitsys \<Rightarrow> ('d, 'r) waitsys \<Rightarrow> bool"
  for "write" poll next_timeout w deadline where
  Write: "write (shared s) d ks \<Longrightarrow>
    wait_step write poll next_timeout w deadline s (s\<lparr>shared := d, unsent := unsent s @ ks\<rparr>)"
| Notify: "unsent s = as @ k # bs \<Longrightarrow>
    wait_step write poll next_timeout w deadline s (s\<lparr>sigs := notify on_loop k (sigs s), unsent := as @ bs\<rparr>)"
| Run_call: "scheduled (sigs s) = v # vs \<Longrightarrow>
    wait_step write poll next_timeout w deadline s
      (s\<lparr>sigs := (sigs s)\<lparr>scheduled := vs, flagged := insert v (flagged (sigs s))\<rparr>\<rparr>)"
| Tick: "clock s < t \<Longrightarrow> wait_step write poll next_timeout w deadline s (s\<lparr>clock := t\<rparr>)"
| Clear: "at_phase s = Subscribed \<Longrightarrow>
    wait_step write poll next_timeout w deadline s
      (s\<lparr>sigs := (sigs s)\<lparr>flagged := flagged (sigs s) - {w}\<rparr>, at_phase := Cleared\<rparr>)"
| Poll_found: "at_phase s = Cleared \<Longrightarrow> poll (shared s) (Inr (Some r)) d \<Longrightarrow>
    wait_step write poll next_timeout w deadline s (s\<lparr>shared := d, at_phase := Found r\<rparr>)"
| Poll_none: "at_phase s = Cleared \<Longrightarrow> poll (shared s) (Inr None) d \<Longrightarrow>
    wait_step write poll next_timeout w deadline s (s\<lparr>shared := d, at_phase := Polled\<rparr>)"
| Poll_raises: "at_phase s = Cleared \<Longrightarrow> poll (shared s) (Inl err) d \<Longrightarrow>
    wait_step write poll next_timeout w deadline s (s\<lparr>shared := d, at_phase := Raised\<rparr>)"
| Give_up: "at_phase s = Polled \<Longrightarrow> deadline \<le> clock s \<Longrightarrow>
    wait_step write poll next_timeout w deadline s (s\<lparr>at_phase := Timed_out\<rparr>)"
| Wait: "at_phase s = Polled \<Longrightarrow> clock s < deadline \<Longrightarrow>
    wait_step write poll next_timeout w deadline s (s\<lparr>at_phase := Waiting (clock s +
      (case next_timeout (shared s) of None \<Rightarrow> deadline - clock s | Some x \<Rightarrow> min (deadline - clock s) x))\<rparr>)"
| Resume: "at_phase s = Waiting until \<Longrightarrow> w \<in> flagged (sigs s) \<or> until \<le> clock s \<Longrightarrow>
    wait_step write poll next_timeout w deadline s (s\<lparr>at_phase := Subscribed\<rparr>)"

inductive_cases wait_stepE: "wait_step wr poll nt w deadline s t"

section \<open>No wakeup is lost\<close>

text \<open>
  What a held request relies on: every write that makes its state ready notifies its key, and
  its poll finds what is ready and otherwise leaves the state alone.
\<close>

locale held_request =
  fixes "write" :: "'d \<Rightarrow> 'd \<Rightarrow> string list \<Rightarrow> bool"
    and poll :: "'d \<Rightarrow> store_error + 'r option \<Rightarrow> 'd \<Rightarrow> bool"
    and key :: string and ready :: "'d \<Rightarrow> bool" and inv :: "'d \<Rightarrow> bool"
  assumes write_inv: "inv d \<Longrightarrow> write d d' ks \<Longrightarrow> inv d'"
    and write_wakes: "inv d \<Longrightarrow> write d d' ks \<Longrightarrow> ready d' \<Longrightarrow> ready d \<or> key \<in> set ks"
    and poll_ready: "inv d \<Longrightarrow> poll d (Inr None) d' \<Longrightarrow> d' = d \<and> \<not> ready d"
    and poll_inv: "inv d \<Longrightarrow> poll d x d' \<Longrightarrow> inv d'"
begin

definition watchful :: "nat \<Rightarrow> int \<Rightarrow> ('d, 'r) waitsys \<Rightarrow> bool" where
  "watchful w deadline s = (inv (shared s) \<and> subscribed key w (sigs s) \<and>
     (case at_phase s of
        Subscribed \<Rightarrow> True
      | Waiting until \<Rightarrow> (until \<le> max deadline (clock s)) \<and>
          (ready (shared s) \<longrightarrow> stirred w (sigs s) \<or> key \<in> set (unsent s))
      | Polled \<Rightarrow> ready (shared s) \<longrightarrow> stirred w (sigs s) \<or> key \<in> set (unsent s)
      | Timed_out \<Rightarrow> deadline \<le> clock s
      | _ \<Rightarrow> True))"

lemma stirred_run:
  "scheduled sg = v # vs \<Longrightarrow> stirred w (sg\<lparr>scheduled := vs, flagged := insert v (flagged sg)\<rparr>) = stirred w sg"
  by (auto simp: stirred_def)

lemma subscribed_frames [simp]:
  "subscribed key w (sg\<lparr>scheduled := vs, flagged := fl\<rparr>) = subscribed key w sg"
  "subscribed key w (sg\<lparr>flagged := fl\<rparr>) = subscribed key w sg"
  "subscribed key w (sg\<lparr>scheduled := vs\<rparr>) = subscribed key w sg"
  "subscribed key w (sg\<lparr>flagged := fl, scheduled := vs\<rparr>) = subscribed key w sg"
  "subscribed key w (notify f k sg) = subscribed key w sg"
  by (simp_all add: subscribed_def)

lemma watchful_step:
  assumes "watchful w deadline s" and "wait_step write poll nt w deadline s t"
  shows "watchful w deadline t"
  using assms(2)
proof cases
  case (Write d ks)
  then show ?thesis
    using assms(1) write_inv [of "shared s" d ks] write_wakes [of "shared s" d ks]
    by (auto simp: watchful_def split: phase.splits)
next
  case (Notify as k bs on_loop)
  have "stirred w (sigs s) \<or> key \<in> set (unsent s) \<Longrightarrow> stirred w (notify on_loop k (sigs s)) \<or> key \<in> set (as @ bs)"
    using assms(1) Notify(2) notify_keeps notify_stirs by (auto simp: watchful_def)
  with Notify assms(1) show ?thesis by (auto simp: watchful_def split: phase.splits)
next
  case (Run_call v vs)
  then show ?thesis using assms(1) stirred_run [OF Run_call(2)] by (auto simp: watchful_def split: phase.splits)
next
  case (Tick t')
  then show ?thesis using assms(1) by (auto simp: watchful_def split: phase.splits)
next
  case (Wait)
  then show ?thesis using assms(1) by (auto simp: watchful_def split: option.splits)
qed (use assms(1) poll_ready poll_inv in \<open>auto simp: watchful_def split: phase.splits\<close>)

lemma watchful_steps:
  "watchful w deadline s \<Longrightarrow> (wait_step write poll nt w deadline)\<^sup>*\<^sup>* s t \<Longrightarrow> watchful w deadline t"
  by (rotate_tac 1, induction rule: rtranclp_induct) (blast intro: watchful_step)+

text \<open>
  A request that waits although its state is ready has its wakeup set, scheduled or still to be
  sent by the writer that committed; and it gives up only once its deadline has passed.
\<close>

lemma never_lost:
  assumes "inv (shared s)" "subscribed key w (sigs s)" "at_phase s = Subscribed"
    and "(wait_step write poll nt w deadline)\<^sup>*\<^sup>* s t"
  shows "at_phase t = Waiting until \<Longrightarrow> ready (shared t) \<Longrightarrow> stirred w (sigs t) \<or> key \<in> set (unsent t)"
    and "at_phase t = Waiting until \<Longrightarrow> until \<le> max deadline (clock t)"
    and "at_phase t = Timed_out \<Longrightarrow> deadline \<le> clock t"
proof -
  have "watchful w deadline s" using assms(1-3) by (simp add: watchful_def)
  then have "watchful w deadline t" using assms(4) by (rule watchful_steps)
  then show "at_phase t = Waiting until \<Longrightarrow> ready (shared t) \<Longrightarrow> stirred w (sigs t) \<or> key \<in> set (unsent t)"
    "at_phase t = Waiting until \<Longrightarrow> until \<le> max deadline (clock t)"
    "at_phase t = Timed_out \<Longrightarrow> deadline \<le> clock t"
    by (auto simp: watchful_def)
qed

end

section \<open>The three requests the hub holds\<close>

lemma write_while_waiting:
  fixes g :: signals
  assumes "poll d (Inr None) d" and "wr d d' ks" and "c < deadline"
  shows "(wait_step wr poll (\<lambda>_. None) w deadline)\<^sup>*\<^sup>*
      \<lparr>shared = d, sigs = g, clock = c, unsent = [], at_phase = Subscribed\<rparr>
      \<lparr>shared = d', sigs = g\<lparr>flagged := flagged g - {w}\<rparr>, clock = c, unsent = ks, at_phase = Waiting deadline\<rparr>"
proof -
  let ?step = "wait_step wr poll (\<lambda>_. None) w deadline"
  let ?s = "\<lambda>p. \<lparr>shared = d, sigs = g\<lparr>flagged := flagged g - {w}\<rparr>, clock = c, unsent = [], at_phase = p\<rparr>"
  have "?step \<lparr>shared = d, sigs = g, clock = c, unsent = [], at_phase = Subscribed\<rparr> (?s Cleared)"
    by (rule wait_step.Clear [THEN back_subst [of "?step _"]]) simp_all
  also have "?step\<^sup>*\<^sup>* (?s Cleared) (?s Polled)"
    by (rule r_into_rtranclp, rule wait_step.Poll_none [THEN back_subst [of "?step _"]]) (use assms in simp_all)
  also have "?step\<^sup>*\<^sup>* (?s Polled) (?s (Waiting deadline))"
    by (rule r_into_rtranclp, rule wait_step.Wait [THEN back_subst [of "?step _"]]) (use assms in simp_all)
  also have "?step\<^sup>*\<^sup>* (?s (Waiting deadline)) \<lparr>shared = d', sigs = g\<lparr>flagged := flagged g - {w}\<rparr>, clock = c,
      unsent = ks, at_phase = Waiting deadline\<rparr>"
    by (rule r_into_rtranclp, rule wait_step.Write [THEN back_subst [of "?step _"]]) (use assms in simp_all)
  finally show ?thesis .
qed

definition claimable :: "string \<Rightarrow> hub_db \<Rightarrow> bool" where
  "claimable name db = ((\<exists>a. agent_of db name = Some a \<and> a_status a = Released_status) \<or>
     (\<exists>t \<in> set (tasks db). t_assignee t = Some name \<and> t_state t = Submitted))"

text \<open>A read inside its own transaction: an exception leaves the database as it was.\<close>

definition outcome_of :: "'d \<Rightarrow> store_error + ('c \<times> 'd \<times> string list) \<Rightarrow> (store_error + 'c) \<times> 'd" where
  "outcome_of db x = (case x of Inl err \<Rightarrow> (Inl err, db) | Inr (c, d, ks) \<Rightarrow> (Inr c, d))"

lemma outcome_of_simps [simp]:
  "outcome_of db x = (Inr c, d) \<longleftrightarrow> (\<exists>ks. x = Inr (c, d, ks))"
  "outcome_of db x = (Inl err, d) \<longleftrightarrow> x = Inl err \<and> d = db"
  by (cases x; auto simp: outcome_of_def)+

definition poll_assignment :: "string \<Rightarrow> hub_db \<Rightarrow> store_error + claim option \<Rightarrow> hub_db \<Rightarrow> bool" where
  "poll_assignment name db r d = (\<exists>e. outcome_of db (claim_assignment e db name) = (r, d))"

definition poll_reply :: "string \<Rightarrow> nat \<Rightarrow> hub_db \<Rightarrow> store_error + message_row option \<Rightarrow> hub_db \<Rightarrow> bool" where
  "poll_reply tid after db r d = (r = Inr (pending_reply db tid after) \<and> d = db)"

definition poll_event :: "rat \<Rightarrow> rat option \<Rightarrow> hub_db \<Rightarrow> store_error + event_row option \<Rightarrow> hub_db \<Rightarrow> bool" where
  "poll_event dflt lease db r d = (\<exists>e. outcome_of db (lease_next_event e dflt db lease) = (r, d))"

lemma poll_assignment_Inr:
  "poll_assignment name db (Inr c) d \<Longrightarrow> \<exists>e ks. claim_assignment e db name = Inr (c, d, ks)"
  by (simp add: poll_assignment_def)

lemma poll_event_Inr:
  "poll_event dflt lease db (Inr c) d \<Longrightarrow> \<exists>e ks. lease_next_event e dflt db lease = Inr (c, d, ks)"
  by (simp add: poll_event_def)

lemma polls_fail: "poll_assignment name db (Inl err) d \<Longrightarrow> d = db" "poll_event dflt lease db (Inl err) d \<Longrightarrow> d = db"
  by (auto simp: poll_assignment_def poll_event_def)

text \<open>The requests begin by finding the agent, or by acknowledging the previous delivery.\<close>

definition await_assignment_key :: "hub_db \<Rightarrow> string \<Rightarrow> store_error + (string \<times> string)" where
  "await_assignment_key db ctx = (case agent_by_context db ctx of
     None \<Rightarrow> Inl (Not_found (''unknown context: '' @ ctx))
   | Some a \<Rightarrow> Inr (a_name a, context_key ctx))"

definition wait_for_event_start :: "env \<Rightarrow> hub_db \<Rightarrow> string option \<Rightarrow> hub_db" where
  "wait_for_event_start e db ack = (case ack of None \<Rightarrow> db
     | Some did \<Rightarrow> (case ack_event e db (Some did) of Inl _ \<Rightarrow> db | Inr (b, d, ks) \<Rightarrow> d))"

interpretation assignment_wait: held_request hub_does "poll_assignment name" "context_key ctx" "claimable name"
  "\<lambda>db. hub_ok db \<and> (\<exists>a. agent_of db name = Some a \<and> a_context_id a = ctx)" for name ctx
proof
  fix d d' ks
  assume inv: "hub_ok d \<and> (\<exists>a. agent_of d name = Some a \<and> a_context_id a = ctx)" and st: "hub_does d d' ks"
  then obtain a where ok: "hub_ok d" and a: "agent_of d name = Some a" "a_context_id a = ctx" by blast
  have ok': "hub_ok d'" and ev: "evolves d d'"
    using hub_step_ok [OF ok hub_stepI [OF st]] hub_step_evolves [OF ok hub_stepI [OF st]] by blast+
  obtain b where b: "agent_of d' name = Some b" "agent_evolves a b" by (rule evolves_agent_of [OF ok' ev a(1)])
  then show "hub_ok d' \<and> (\<exists>a. agent_of d' name = Some a \<and> a_context_id a = ctx)"
    using ok' a(2) by (auto simp: agent_evolves_def)
  assume "claimable name d'"
  then consider "a_status b = Released_status" | t where "t \<in> set (tasks d')" "t_assignee t = Some name" "t_state t = Submitted"
    using b(1) by (auto simp: claimable_def)
  then show "claimable name d \<or> context_key ctx \<in> set ks"
  proof cases
    case 1
    have "b \<in> set (agents d')" "a_name b = name" using b(1) by (auto simp: agent_of_def dest: find_SomeD)
    then obtain c where c: "c \<in> set (agents d)" "a_name c = name"
      "a_status c = Released_status \<or> context_key (a_context_id c) \<in> set ks"
      using 1 hub_does_announced [OF st] unfolding announced_def by metis
    then have "c = a" using a(1) agent_of_iff [OF hub_okD(1) [OF ok]] by (metis option.inject)
    with c(3) a show ?thesis by (auto simp: claimable_def)
  next
    case (2 t)
    show ?thesis
    proof (cases "t_id t \<in> t_id ` set (tasks d)")
      case True
      then obtain u where u: "u \<in> set (tasks d)" "t_id u = t_id t" by auto
      have tu: "task_of d (t_id t) = Some u" "task_of d' (t_id t) = Some t"
        using u 2(1) by (simp_all add: task_of_iff [OF hub_okD(1) [OF ok]] task_of_iff [OF hub_okD(1) [OF ok']])
      obtain v where "task_of d' (t_id t) = Some v" "task_evolves u v" by (rule evolves_task_of [OF ok ok' ev tu(1)])
      with tu(2) have "task_evolves u t" by simp
      then have "t_state u = Submitted" "t_assignee u = Some name"
        using task_evolvesD(12,3) [of u t] 2(2,3) by auto
      with u(1) show ?thesis by (auto simp: claimable_def)
    next
      case False
      then obtain n c where "t_assignee t = Some n" "agent_of d n = Some c" "context_key (a_context_id c) \<in> set ks"
        using hub_does_announced [OF st] 2(1) unfolding announced_def by blast
      with 2(2) a show ?thesis by auto
    qed
  qed
next
  fix d d'
  assume inv: "hub_ok d \<and> (\<exists>a. agent_of d name = Some a \<and> a_context_id a = ctx)"
    and p: "poll_assignment name d (Inr None) d'"
  obtain e ks where "claim_assignment e d name = Inr (None, d', ks)" using poll_assignment_Inr [OF p] by blast
  then show "d' = d \<and> \<not> claimable name d"
    using inv by (auto simp: claim_assignment_def claimable_def Let_def first_by_None split: if_splits option.splits)
next
  fix d x d'
  assume inv: "hub_ok d \<and> (\<exists>a. agent_of d name = Some a \<and> a_context_id a = ctx)"
    and p: "poll_assignment name d x d'"
  then consider "d' = d" | e c ks where "claim_assignment e d name = Inr (c, d', ks)"
    using polls_fail(1) poll_assignment_Inr by (cases x) blast+
  then show "hub_ok d' \<and> (\<exists>a. agent_of d' name = Some a \<and> a_context_id a = ctx)"
  proof cases
    case (2 e c ks)
    have d': "hub_ok d'" "evolves d d'" using claim_assignment_ok [OF 2] claim_assignment_evolves [OF 2] inv by blast+
    obtain a where a: "agent_of d name = Some a" "a_context_id a = ctx" using inv by blast
    obtain b where "agent_of d' name = Some b" "agent_evolves a b" by (rule evolves_agent_of [OF d' a(1)])
    then show ?thesis using d'(1) a(2) by (auto simp: agent_evolves_def)
  qed (use inv in simp)
qed

interpretation reply_wait: held_request hub_does "poll_reply tid after" "task_key tid" "\<lambda>db. pending_reply db tid after \<noteq> None"
  "\<lambda>db. hub_ok db \<and> tid \<in> t_id ` set (tasks db)" for tid after
proof
  fix d d' ks assume inv: "hub_ok d \<and> tid \<in> t_id ` set (tasks d)" and st: "hub_does d d' ks"
  have ok': "hub_ok d'" and ev: "evolves d d'"
    using hub_step_ok [OF _ hub_stepI [OF st]] hub_step_evolves [OF _ hub_stepI [OF st]] inv by blast+
  obtain t where "task_of d tid = Some t" using inv task_of_None [of d tid] by blast
  then obtain u where "task_of d' tid = Some u" using evolves_task_of [OF _ ok' ev] inv by metis
  then have "tid \<in> t_id ` set (tasks d')" using task_of_None [of d' tid] by auto
  then show "hub_ok d' \<and> tid \<in> t_id ` set (tasks d')" using ok' by blast
  assume "pending_reply d' tid after \<noteq> None"
  then obtain m where m: "m \<in> set (messages d')" "m_task m = Some tid" "m_direction m = From_alice" "after < m_id m"
    by (auto simp: pending_reply_def from_alice_def dest: first_by_Some)
  then consider "m \<in> set (messages d)" | "task_key tid \<in> set ks"
    using hub_does_announced [OF st] inv unfolding announced_def by fastforce
  then show "pending_reply d tid after \<noteq> None \<or> task_key tid \<in> set ks"
  proof cases
    case 1
    with m have "pending_reply d tid after \<noteq> None" by (auto simp: pending_reply_def first_by_None from_alice_def)
    then show ?thesis by blast
  qed simp
qed (auto simp: poll_reply_def)

definition queued_event :: "hub_db \<Rightarrow> bool" where
  "queued_event db = (\<exists>v \<in> set (events db). e_state v = Queued)"

interpretation inbox_wait: held_request hub_does "poll_event dflt lease" EVENT_KEY queued_event hub_ok for dflt lease
proof
  fix d d' ks assume ok: "hub_ok d" and st: "hub_does d d' ks"
  show "hub_ok d'" by (rule hub_step_ok [OF ok hub_stepI [OF st]])
  assume "queued_event d'"
  then obtain v where v: "v \<in> set (events d')" "e_state v = Queued" by (auto simp: queued_event_def)
  from hub_does_inbox [OF st ok] show "queued_event d \<or> EVENT_KEY \<in> set ks"
  proof (elim disjE exE)
    assume "events_added d d' ks"
    then obtain vs where "events d' = events d @ vs" "vs \<noteq> [] \<longrightarrow> EVENT_KEY \<in> set ks"
      by (auto simp: events_added_def)
    then show ?thesis using v by (auto simp: queued_event_def)
  next
    fix e did r assume "ack_event e d did = Inr (r, d', ks)"
    then have "v \<in> set (events d)"
      using v by (auto simp: ack_event_def set_update_where split: option.splits if_splits)
    then show ?thesis using v by (auto simp: queued_event_def)
  next
    fix e dflt lease r assume "lease_next_event e dflt d lease = Inr (r, d', ks)"
    then have "v \<in> set (events d)"
      by (rule lease_next_event_cases) (use v in \<open>auto simp: set_update_where lease_row_def\<close>)
    then show ?thesis using v by (auto simp: queued_event_def)
  qed
next
  fix d d' assume "hub_ok d" and "poll_event dflt lease d (Inr None) d'"
  then obtain e ks where l: "lease_next_event e dflt d lease = Inr (None, d', ks)" using poll_event_Inr by blast
  then show "d' = d \<and> \<not> queued_event d"
  proof (cases rule: lease_next_event_cases)
    case none
    then show ?thesis by (auto simp: queued_event_def eligible_def)
  next
    case (leased v expires)
    have "v \<in> set (events d)" using leased(1) by (auto dest: first_by_Some)
    with leased(3,4) find_lease_id [OF hub_okD(1) [OF \<open>hub_ok d\<close>]] show ?thesis by simp
  qed
next
  fix d x d' assume ok: "hub_ok d" and p: "poll_event dflt lease d x d'"
  then show "hub_ok d'"
    using polls_fail(2) poll_event_Inr lease_next_event_ok by (cases x) blast+
qed

end
