(* ===== verification/JsonRead.thy ===== *)
theory JsonRead
  imports Json
begin

text \<open>
  \<^verbatim>\<open>json.loads\<close>, as the packages apply it to the output of \<^verbatim>\<open>gh\<close>, to stored replies and to
  wire parts: a recursive-descent reader over the bytes of the text. Strings come out as their
  UTF-8 bytes; \<^verbatim>\<open>NaN\<close> and the infinities, which no rational is, are read as malformed.
\<close>

section \<open>Characters and numbers\<close>

definition json_space :: "char \<Rightarrow> bool" where
  "json_space c = (c = CHR '' '' \<or> c = CHR 0x0A \<or> c = CHR 0x0D \<or> c = CHR 0x09)"

definition skip_ws :: "string \<Rightarrow> string" where
  "skip_ws s = dropWhile json_space s"

definition digit_value :: "char \<Rightarrow> nat" where
  "digit_value c = of_char c - 48"

lemma digit_value_code [code]:
  "digit_value (Char b0 b1 b2 b3 b4 b5 b6 b7) = (if is_digit (Char b0 b1 b2 b3 b4 b5 b6 b7)
     then (if b0 then 1 else 0) + (if b1 then 2 else 0) + (if b2 then 4 else 0) + (if b3 then 8 else 0)
     else of_char (Char b0 b1 b2 b3 b4 b5 b6 b7) - 48)"
  by (cases b0; cases b1; cases b2; cases b3; cases b4; cases b5; cases b6; cases b7;
      simp add: digit_value_def is_digit_def)

definition number_of_digits :: "string \<Rightarrow> nat" where
  "number_of_digits s = foldl (\<lambda>n c. 10 * n + digit_value c) 0 s"

definition hex_value :: "char \<Rightarrow> nat option" where
  "hex_value c = (if is_digit c then Some (digit_value c)
     else if is_hex c then Some (of_char (lower_char c) - 87) else None)"

definition hex4 :: "char \<Rightarrow> char \<Rightarrow> char \<Rightarrow> char \<Rightarrow> nat option" where
  "hex4 a b c d = (case (hex_value a, hex_value b, hex_value c, hex_value d) of
     (Some w, Some x, Some y, Some z) \<Rightarrow> Some (4096 * w + 256 * x + 16 * y + z) | _ \<Rightarrow> None)"

definition utf8 :: "nat \<Rightarrow> string" where
  "utf8 n = (if n < 128 then [char_of n]
     else if n < 2048 then [char_of (192 + n div 64), char_of (128 + n mod 64)]
     else if n < 65536 then [char_of (224 + n div 4096), char_of (128 + n div 64 mod 64), char_of (128 + n mod 64)]
     else [char_of (240 + n div 262144), char_of (128 + n div 4096 mod 64), char_of (128 + n div 64 mod 64),
       char_of (128 + n mod 64)])"

definition unescape :: "char \<Rightarrow> char option" where
  "unescape c = (if c = CHR 0x22 then Some (CHR 0x22) else if c = CHR 0x5C then Some (CHR 0x5C)
     else if c = CHR ''/'' then Some (CHR ''/'') else if c = CHR ''b'' then Some (CHR 0x08)
     else if c = CHR ''f'' then Some (CHR 0x0C) else if c = CHR ''n'' then Some (CHR 0x0A)
     else if c = CHR ''r'' then Some (CHR 0x0D) else if c = CHR ''t'' then Some (CHR 0x09) else None)"

definition control :: "char \<Rightarrow> bool" where
  "control c = ((of_char c :: nat) < 32)"

lemma control_code [code]: "control (Char b0 b1 b2 b3 b4 b5 b6 b7) = (\<not> b5 \<and> \<not> b6 \<and> \<not> b7)"
  unfolding control_def by (rule control_char)

definition low_surrogate :: "string \<Rightarrow> (nat \<times> string) option" where
  "low_surrogate s = (case s of
     b # u # h1 # h2 # h3 # h4 # r \<Rightarrow> if b = CHR 0x5C \<and> u = CHR ''u'' then
         (case hex4 h1 h2 h3 h4 of Some n \<Rightarrow> if 56320 \<le> n \<and> n \<le> 57343 then Some (n, r) else None | None \<Rightarrow> None)
       else None
   | _ \<Rightarrow> None)"

definition unicode_escape :: "string \<Rightarrow> (string \<times> string) option" where
  "unicode_escape s = (case s of
     h1 # h2 # h3 # h4 # r \<Rightarrow> (case hex4 h1 h2 h3 h4 of None \<Rightarrow> None
       | Some n \<Rightarrow> if 55296 \<le> n \<and> n \<le> 56319 then
           (case low_surrogate r of
              Some (m, r') \<Rightarrow> Some (utf8 (65536 + (n - 55296) * 1024 + (m - 56320)), r')
            | None \<Rightarrow> Some (utf8 n, r))
         else Some (utf8 n, r))
   | _ \<Rightarrow> None)"

lemma low_surrogate_shorter: "low_surrogate s = Some (n, r) \<Longrightarrow> length r < length s"
  by (auto simp: low_surrogate_def split: list.splits if_splits option.splits)

lemma unicode_escape_shorter [termination_simp]: "unicode_escape s = Some (t, r) \<Longrightarrow> length r < length s"
  by (auto simp: unicode_escape_def split: list.splits if_splits option.splits dest: low_surrogate_shorter)

text \<open>The rest of a string literal, after its opening quote.\<close>

function (sequential) read_string :: "string \<Rightarrow> (string \<times> string) option" where
  "read_string [] = None"
| "read_string (c # r) =
     (if c = CHR 0x22 then Some ([], r)
      else if c = CHR 0x5C then (case r of [] \<Rightarrow> None
        | d # r' \<Rightarrow>
           if d = CHR ''u'' then (case unicode_escape r' of None \<Rightarrow> None
             | Some (t, q) \<Rightarrow> map_option (\<lambda>(u, z). (t @ u, z)) (read_string q))
           else (case unescape d of None \<Rightarrow> None
             | Some x \<Rightarrow> map_option (\<lambda>(u, z). (x # u, z)) (read_string r')))
      else if control c then None
      else map_option (\<lambda>(u, z). (c # u, z)) (read_string r))"
  by pat_completeness auto
termination
  by (relation "measure length") (auto dest: unicode_escape_shorter)

definition read_fraction :: "string \<Rightarrow> (string \<times> string) option" where
  "read_fraction s = (case s of [] \<Rightarrow> None
     | c # r \<Rightarrow> if c = CHR ''.'' \<and> takeWhile is_digit r \<noteq> []
         then Some (takeWhile is_digit r, dropWhile is_digit r) else None)"

definition read_exponent :: "string \<Rightarrow> (int \<times> string) option" where
  "read_exponent s = (case s of [] \<Rightarrow> None
     | c # r \<Rightarrow> if c \<noteq> CHR ''e'' \<and> c \<noteq> CHR ''E'' then None
       else let (neg, r') = (case r of [] \<Rightarrow> (False, r)
             | d # q \<Rightarrow> if d = CHR ''-'' then (True, q) else if d = CHR ''+'' then (False, q) else (False, r));
           ds = takeWhile is_digit r' in
         if ds = [] then None
         else Some (if neg then - int (number_of_digits ds) else int (number_of_digits ds), dropWhile is_digit r'))"

definition power_of_ten :: "int \<Rightarrow> rat" where
  "power_of_ten k = (if 0 \<le> k then 10 ^ nat k else 1 / 10 ^ nat (- k))"

definition read_number :: "string \<Rightarrow> (json \<times> string) option" where
  "read_number s =
     (let (neg, r) = (case s of [] \<Rightarrow> (False, s) | c # q \<Rightarrow> if c = CHR ''-'' then (True, q) else (False, s));
          ds = takeWhile is_digit r;
          int_part = (if take 1 ds = ''0'' then ''0'' else ds);
          rest = drop (length int_part) r;
          sign = (if neg then - 1 else 1 :: int) in
      if int_part = [] then None
      else case (read_fraction rest, read_exponent (case read_fraction rest of None \<Rightarrow> rest | Some (f, q) \<Rightarrow> q)) of
        (None, None) \<Rightarrow> Some (JInt (sign * int (number_of_digits int_part)), rest)
      | (Some (f, q), None) \<Rightarrow> Some (JFloat (of_int sign * (of_nat (number_of_digits (int_part @ f)) / 10 ^ length f)), q)
      | (None, Some (x, q)) \<Rightarrow> Some (JFloat (of_int sign * of_nat (number_of_digits int_part) * power_of_ten x), q)
      | (Some (f, _), Some (x, q)) \<Rightarrow>
          Some (JFloat (of_int sign * (of_nat (number_of_digits (int_part @ f)) / 10 ^ length f) * power_of_ten x), q))"

section \<open>Values\<close>

definition read_word :: "string \<Rightarrow> json \<Rightarrow> string \<Rightarrow> (json \<times> string) option" where
  "read_word w v s = (if startswith s w then Some (v, drop (length w) s) else None)"

fun read_value :: "nat \<Rightarrow> string \<Rightarrow> (json \<times> string) option"
and read_elements :: "nat \<Rightarrow> string \<Rightarrow> (json list \<times> string) option"
and read_members :: "nat \<Rightarrow> dict \<Rightarrow> string \<Rightarrow> (dict \<times> string) option" where
  "read_value 0 s = None"
| "read_value (Suc n) s = (case s of [] \<Rightarrow> None
     | c # r \<Rightarrow>
       if c = CHR 0x22 then map_option (\<lambda>(t, q). (JStr t, q)) (read_string r)
       else if c = CHR 0x5B then (case skip_ws r of [] \<Rightarrow> None
         | d # q \<Rightarrow> if d = CHR 0x5D then Some (JList [], q)
             else map_option (\<lambda>(xs, z). (JList xs, z)) (read_elements n (d # q)))
       else if c = CHR 0x7B then (case skip_ws r of [] \<Rightarrow> None
         | d # q \<Rightarrow> if d = CHR 0x7D then Some (JObj [], q)
             else map_option (\<lambda>(xs, z). (JObj xs, z)) (read_members n [] (d # q)))
       else if c = CHR ''n'' then read_word ''null'' JNull s
       else if c = CHR ''t'' then read_word ''true'' (JBool True) s
       else if c = CHR ''f'' then read_word ''false'' (JBool False) s
       else read_number s)"
| "read_elements 0 s = None"
| "read_elements (Suc n) s = (case read_value n s of None \<Rightarrow> None
     | Some (v, r) \<Rightarrow> (case skip_ws r of [] \<Rightarrow> None
         | d # q \<Rightarrow> if d = CHR 0x5D then Some ([v], q)
             else if d = CHR '','' then map_option (\<lambda>(vs, z). (v # vs, z)) (read_elements n (skip_ws q))
             else None))"
| "read_members 0 d s = None"
| "read_members (Suc n) d s = (case s of [] \<Rightarrow> None
     | c # r \<Rightarrow> if c \<noteq> CHR 0x22 then None
       else (case read_string r of None \<Rightarrow> None
         | Some (k, r1) \<Rightarrow> (case skip_ws r1 of [] \<Rightarrow> None
             | e # r2 \<Rightarrow> if e \<noteq> CHR '':'' then None
               else (case read_value n (skip_ws r2) of None \<Rightarrow> None
                 | Some (v, r3) \<Rightarrow> (case skip_ws r3 of [] \<Rightarrow> None
                     | f # r4 \<Rightarrow> if f = CHR 0x7D then Some (dict_set k v d, r4)
                         else if f = CHR '','' then read_members n (dict_set k v d) (skip_ws r4)
                         else None)))))"

text \<open>Every call consumes a character or ends, so twice the length of the text is fuel enough.\<close>

definition loads :: "string \<Rightarrow> json option" where
  "loads s = (case read_value (2 * length s + 2) (skip_ws s) of None \<Rightarrow> None
     | Some (v, r) \<Rightarrow> if skip_ws r = [] then Some v else None)"

end
