(* ===== verification/MergeGate.thy ===== *)
theory MergeGate
  imports JsonRead Models
begin

text \<open>
  \<^verbatim>\<open>merge_gate.py\<close>: the pull request reference and its URL, the classification of checks, the
  snapshot read through \<^verbatim>\<open>gh\<close>, and the polling loop. The \<^verbatim>\<open>gh\<close> program and the clock are a
  parameter (\<open>gate_world\<close>): the answer and the duration of the k-th call, and how much longer
  than asked the k-th sleep lasts. Strings are the bytes of their UTF-8 encoding.
\<close>

section \<open>Data\<close>

definition POLL_TIMEOUT_S :: rat where "POLL_TIMEOUT_S = 60"

definition POLL_INTERVAL_S :: rat where "POLL_INTERVAL_S = 10"

definition STDERR_LIMIT :: nat where "STDERR_LIMIT = 500"

datatype ci_status = Ci_pass | Ci_fail | Ci_pending | Ci_cancelled | Ci_no_checks | Ci_no_workflows

fun ci_status_value :: "ci_status \<Rightarrow> string" where
  "ci_status_value Ci_pass = ''pass''"
| "ci_status_value Ci_fail = ''fail''"
| "ci_status_value Ci_pending = ''pending''"
| "ci_status_value Ci_cancelled = ''cancelled''"
| "ci_status_value Ci_no_checks = ''no_checks''"
| "ci_status_value Ci_no_workflows = ''no_workflows''"

datatype pr_state = Pr_open | Pr_merged | Pr_closed

fun pr_state_value :: "pr_state \<Rightarrow> string" where
  "pr_state_value Pr_open = ''open''"
| "pr_state_value Pr_merged = ''merged''"
| "pr_state_value Pr_closed = ''closed''"

datatype mergeable = Merge_clean | Merge_conflicting | Merge_unknown

fun mergeable_value :: "mergeable \<Rightarrow> string" where
  "mergeable_value Merge_clean = ''clean''"
| "mergeable_value Merge_conflicting = ''conflicting''"
| "mergeable_value Merge_unknown = ''unknown''"

definition POLLED_CI :: "ci_status list" where
  "POLLED_CI = [Ci_pending, Ci_cancelled, Ci_no_checks]"

text \<open>\<open>Bad_value\<close> is the \<^verbatim>\<open>ValueError\<close> of a malformed argument.\<close>

datatype gate_error = Merge_gate_error string | Bad_value string

record gh_result =
  gh_returncode :: int
  gh_stdout :: string
  gh_stderr :: string

record pull_request_ref =
  pr_url :: string
  pr_host :: string
  pr_owner :: string
  pr_repo :: string
  pr_number :: nat

record check =
  check_name :: string
  check_bucket :: string
  check_link :: string

record gate_report =
  g_pr_url :: string
  g_pr_state :: pr_state
  g_expected_head :: string
  g_current_head :: string
  g_head_matches :: bool
  g_ci :: ci_status
  g_checks :: "check list"
  g_base_ref :: string
  g_base_sha :: string
  g_main_sha :: string
  g_base_behind :: bool
  g_mergeable :: mergeable
  g_merge_state :: string
  g_elapsed_s :: rat

section \<open>The pull request URL\<close>

text \<open>Every class of \<^verbatim>\<open>PR_URL_RE\<close> excludes the slash that follows it, so the match is unique.\<close>

definition host_char :: "char \<Rightarrow> bool" where
  "host_char c = (is_alnum c \<or> c = CHR ''.'' \<or> c = CHR ''-'')"

definition owner_char :: "char \<Rightarrow> bool" where
  "owner_char c = (is_alnum c \<or> c = CHR ''-'')"

definition repo_start_char :: "char \<Rightarrow> bool" where
  "repo_start_char c = (is_alnum c \<or> c = CHR ''_'' \<or> c = CHR ''.'')"

definition repo_char :: "char \<Rightarrow> bool" where
  "repo_char c = (repo_start_char c \<or> c = CHR ''-'')"

text \<open>One class of leading characters, then any number of another: the longest such prefix.\<close>

definition span_part :: "(char \<Rightarrow> bool) \<Rightarrow> (char \<Rightarrow> bool) \<Rightarrow> string \<Rightarrow> (string \<times> string) option" where
  "span_part first others s = (case s of [] \<Rightarrow> None
     | c # r \<Rightarrow> if first c then Some (c # takeWhile others r, dropWhile others r) else None)"

definition literal :: "string \<Rightarrow> string \<Rightarrow> string option" where
  "literal p s = (if startswith s p then Some (drop (length p) s) else None)"

definition pr_url_match :: "string \<Rightarrow> (string \<times> string \<times> string \<times> string) option" where
  "pr_url_match s =
     Option.bind (literal ''https://'' s) (\<lambda>s.
     Option.bind (span_part is_alnum host_char s) (\<lambda>(host, s).
     Option.bind (literal ''/'' s) (\<lambda>s.
     Option.bind (span_part is_alnum owner_char s) (\<lambda>(owner, s).
     Option.bind (literal ''/'' s) (\<lambda>s.
     Option.bind (if startswith s ''./'' \<or> startswith s ''../'' then None
                  else span_part repo_start_char repo_char s) (\<lambda>(repo, s).
     Option.bind (literal ''/pull/'' s) (\<lambda>s.
     Option.bind (span_part (\<lambda>c. is_digit c \<and> c \<noteq> CHR ''0'') is_digit s) (\<lambda>(number, s).
     if s = [] \<or> s = ''/'' then Some (host, owner, repo, number) else None))))))))"

definition parse_pr_url :: "string \<Rightarrow> gate_error + pull_request_ref" where
  "parse_pr_url url = (let txt = strip url in
     case pr_url_match txt of
       None \<Rightarrow> Inl (Bad_value (''not a pull request URL: '' @ url))
     | Some (host, owner, repo, number) \<Rightarrow>
         Inr \<lparr>pr_url = rstrip_char (CHR ''/'') txt, pr_host = host, pr_owner = owner, pr_repo = repo,
              pr_number = number_of_digits number\<rparr>)"

definition api :: "pull_request_ref \<Rightarrow> string \<Rightarrow> string list" where
  "api ref path = [''api'', ''--hostname='' @ pr_host ref,
     ''repos/'' @ pr_owner ref @ ''/'' @ pr_repo ref @ ''/'' @ path]"

section \<open>Classification\<close>

definition classify_checks :: "check list \<Rightarrow> ci_status option" where
  "classify_checks checks =
     (if checks = [] then None
      else let buckets = map check_bucket checks in
        if ''fail'' \<in> set buckets then Some Ci_fail
        else if ''cancel'' \<in> set buckets then Some Ci_cancelled
        else if list_all (\<lambda>b. b = ''pass'' \<or> b = ''skipping'') buckets then Some Ci_pass
        else Some Ci_pending)"

definition pr_state_of :: "string \<Rightarrow> pr_state" where
  "pr_state_of state = (if state = ''OPEN'' then Pr_open
     else if state = ''MERGED'' then Pr_merged else Pr_closed)"

definition mergeable_of :: "string \<Rightarrow> string \<Rightarrow> mergeable" where
  "mergeable_of mergeable merge_state =
     (if mergeable = ''CONFLICTING'' \<or> merge_state = ''DIRTY'' then Merge_conflicting
      else if mergeable = ''MERGEABLE'' then Merge_clean else Merge_unknown)"

definition settled :: "gate_report \<Rightarrow> bool" where
  "settled r =
     (if g_pr_state r \<noteq> Pr_open \<or> \<not> g_head_matches r \<or> g_base_behind r \<or>
         g_mergeable r = Merge_conflicting then True
      else g_ci r \<notin> set POLLED_CI \<and> g_mergeable r \<noteq> Merge_unknown)"

section \<open>Reading what \<^verbatim>\<open>gh\<close> prints\<close>

text \<open>Python's \<^verbatim>\<open>repr\<close> of a decoded value, and \<^verbatim>\<open>str\<close>; \<open>fr\<close> is \<^verbatim>\<open>repr\<close> of a float.\<close>

definition repr_char :: "char \<Rightarrow> char \<Rightarrow> string" where
  "repr_char q c = (if c = q \<or> c = CHR 0x5C then [CHR 0x5C, c]
     else if c = CHR 0x0A then [CHR 0x5C, CHR ''n''] else if c = CHR 0x0D then [CHR 0x5C, CHR ''r'']
     else if c = CHR 0x09 then [CHR 0x5C, CHR ''t'']
     else if control c \<or> c = CHR 0x7F then
       [CHR 0x5C, CHR ''x'', hex_digit (of_char c div 16), hex_digit (of_char c mod 16)]
     else [c])"

definition repr_str :: "string \<Rightarrow> string" where
  "repr_str s = (let q = (if CHR 0x27 \<in> set s \<and> CHR 0x22 \<notin> set s then CHR 0x22 else CHR 0x27) in
     [q] @ concat (map (repr_char q) s) @ [q])"

fun py_repr :: "(rat \<Rightarrow> string) \<Rightarrow> json \<Rightarrow> string"
and py_reprs :: "(rat \<Rightarrow> string) \<Rightarrow> json list \<Rightarrow> string list"
and py_items :: "(rat \<Rightarrow> string) \<Rightarrow> dict \<Rightarrow> string list" where
  "py_repr fr JNull = ''None''"
| "py_repr fr (JBool b) = (if b then ''True'' else ''False'')"
| "py_repr fr (JInt i) = show_int i"
| "py_repr fr (JFloat q) = fr q"
| "py_repr fr (JStr s) = repr_str s"
| "py_repr fr (JList xs) = ''['' @ join '', '' (py_reprs fr xs) @ '']''"
| "py_repr fr (JObj d) = ''{'' @ join '', '' (py_items fr d) @ ''}''"
| "py_reprs fr [] = []"
| "py_reprs fr (x # xs) = py_repr fr x # py_reprs fr xs"
| "py_items fr [] = []"
| "py_items fr ((k, v) # d) = (repr_str k @ '': '' @ py_repr fr v) # py_items fr d"

definition py_str :: "(rat \<Rightarrow> string) \<Rightarrow> json option \<Rightarrow> string" where
  "py_str fr v = (case v of None \<Rightarrow> [] | Some (JStr s) \<Rightarrow> s | Some x \<Rightarrow> py_repr fr x)"

definition string_field :: "dict \<Rightarrow> string \<Rightarrow> gate_error + string" where
  "string_field data key = (case dict_get key data of
     Some (JStr s) \<Rightarrow> Inr s
   | _ \<Rightarrow> Inl (Merge_gate_error (''gh output is missing '' @ key)))"

definition check_of :: "(rat \<Rightarrow> string) \<Rightarrow> json \<Rightarrow> gate_error + check" where
  "check_of fr item = (case item of
     JObj d \<Rightarrow> Inr \<lparr>check_name = py_str fr (dict_get ''name'' d),
        check_bucket = py_str fr (dict_get ''bucket'' d), check_link = py_str fr (dict_get ''link'' d)\<rparr>
   | _ \<Rightarrow> Inl (Merge_gate_error ''gh pr checks printed a check that is not an object''))"

fun checks_of :: "(rat \<Rightarrow> string) \<Rightarrow> json list \<Rightarrow> gate_error + check list" where
  "checks_of fr [] = Inr []"
| "checks_of fr (x # xs) =
     ebind (check_of fr x) (\<lambda>c. ebind (checks_of fr xs) (\<lambda>cs. Inr (c # cs)))"

definition describe :: "string list \<Rightarrow> string" where
  "describe args = (if take 1 args = [''api''] \<and> 3 \<le> length args then ''gh api '' @ args ! 2
     else ''gh '' @ join '' '' (take 2 args))"

definition failure :: "string list \<Rightarrow> gh_result \<Rightarrow> gate_error" where
  "failure args res = (let detail = py_take STDERR_LIMIT (strip (gh_stderr res)) in
     Merge_gate_error (describe args @ '' failed: '' @
       (if detail = [] then ''exit '' @ show_int (gh_returncode res) else detail)))"

text \<open>\<^verbatim>\<open>urllib.parse.quote(s, safe="/")\<close>\<close>

definition unreserved :: "char \<Rightarrow> bool" where
  "unreserved c = (is_alnum c \<or> c \<in> {CHR ''_'', CHR ''.'', CHR ''-'', CHR ''~'', CHR ''/''})"

definition quote_char :: "char \<Rightarrow> string" where
  "quote_char c = (if unreserved c then [c]
     else [CHR ''%'', upper_char (hex_digit (of_char c div 16)), upper_char (hex_digit (of_char c mod 16))])"

definition quote_path :: "string \<Rightarrow> string" where
  "quote_path s = concat (map quote_char s)"

section \<open>Calls to \<^verbatim>\<open>gh\<close>\<close>

record gate_world =
  gh_reply :: "nat \<Rightarrow> string list \<Rightarrow> gate_error + gh_result"
  gh_takes :: "nat \<Rightarrow> rat"
  overshoot :: "nat \<Rightarrow> rat"
  gate_floats :: "rat \<Rightarrow> string"

text \<open>How many calls and sleeps have been made, and the reading of the monotonic clock.\<close>

record gate_state =
  gh_calls :: nat
  sleeps :: nat
  now_s :: rat

type_synonym 'a gate = "gate_state \<Rightarrow> (gate_error + 'a) \<times> gate_state"

definition gbind :: "'a gate \<Rightarrow> ('a \<Rightarrow> 'b gate) \<Rightarrow> 'b gate" where
  "gbind m f s = (case m s of (Inl e, s') \<Rightarrow> (Inl e, s') | (Inr x, s') \<Rightarrow> f x s')"

definition glift :: "gate_error + 'a \<Rightarrow> 'a gate" where
  "glift x s = (x, s)"

definition runner :: "gate_world \<Rightarrow> string list \<Rightarrow> gh_result gate" where
  "runner w args s = (gh_reply w (gh_calls s) args,
     s\<lparr>gh_calls := Suc (gh_calls s), now_s := now_s s + gh_takes w (gh_calls s)\<rparr>)"

text \<open>
  \<^verbatim>\<open>run_gh\<close>, the default runner: \<open>None\<close> for an outcome is the timeout, \<open>None\<close> for a return code
  the one that asyncio did not report.
\<close>

definition run_gh ::
  "bool \<Rightarrow> (int option \<times> string \<times> string) option \<Rightarrow> string list \<Rightarrow> gate_error + gh_result" where
  "run_gh on_path outcome args =
     (if \<not> on_path then Inl (Merge_gate_error ''the gh CLI is not on PATH'')
      else case outcome of
        None \<Rightarrow> Inl (Merge_gate_error (describe args @ '' timed out after 30 s''))
      | Some (code, out, err) \<Rightarrow>
          Inr \<lparr>gh_returncode = (case code of None \<Rightarrow> - 1 | Some c \<Rightarrow> c), gh_stdout = out, gh_stderr = err\<rparr>)"

definition json_call :: "gate_world \<Rightarrow> string list \<Rightarrow> dict gate" where
  "json_call w args = gbind (runner w args) (\<lambda>res. glift (
     if gh_returncode res \<noteq> 0 then Inl (failure args res)
     else case loads (gh_stdout res) of
       None \<Rightarrow> Inl (Merge_gate_error (describe args @ '' printed invalid JSON''))
     | Some (JObj d) \<Rightarrow> Inr d
     | Some _ \<Rightarrow> Inl (Merge_gate_error (describe args @ '' did not print a JSON object''))))"

definition checks_args :: "pull_request_ref \<Rightarrow> string list" where
  "checks_args ref = [''pr'', ''checks'', pr_url ref, ''--json'', ''name,bucket,link'']"

text \<open>What \<^verbatim>\<open>_checks\<close> makes of the answer: text that is not a list falls through.\<close>

definition read_checks :: "(rat \<Rightarrow> string) \<Rightarrow> string list \<Rightarrow> gh_result \<Rightarrow> gate_error + check list" where
  "read_checks fr args res =
     (let txt = strip (gh_stdout res);
          otherwise = (if contains (gh_stderr res) ''no checks reported'' then Inr []
                       else Inl (failure args res)) in
      if txt \<noteq> [] then
        (case loads txt of Some (JList items) \<Rightarrow> checks_of fr items | _ \<Rightarrow> otherwise)
      else if gh_returncode res = 0 then Inr [] else otherwise)"

definition checks_call :: "gate_world \<Rightarrow> pull_request_ref \<Rightarrow> check list gate" where
  "checks_call w ref = gbind (runner w (checks_args ref)) (\<lambda>res.
     glift (read_checks (gate_floats w) (checks_args ref) res))"

definition workflow_args :: "pull_request_ref \<Rightarrow> string list" where
  "workflow_args ref = api ref ''actions/workflows'' @ [''--jq'', ''.total_count'']"

definition workflow_count :: "gate_world \<Rightarrow> pull_request_ref \<Rightarrow> int gate" where
  "workflow_count w ref = gbind (runner w (workflow_args ref)) (\<lambda>res. glift (
     case (if gh_returncode res = 0 then loads (gh_stdout res) else None) of
       Some (JInt n) \<Rightarrow> Inr n
     | _ \<Rightarrow> Inl (failure (workflow_args ref) res)))"

section \<open>A snapshot\<close>

definition view_args :: "pull_request_ref \<Rightarrow> string list" where
  "view_args ref = [''pr'', ''view'', pr_url ref, ''--json'',
     ''state,headRefOid,baseRefName,mergeable,mergeStateStatus'']"

definition compare_args :: "pull_request_ref \<Rightarrow> string \<Rightarrow> string \<Rightarrow> string list" where
  "compare_args ref base_ref head = api ref (''compare/'' @ quote_path base_ref @ ''...'' @ head) @
     [''--jq'', ''{behind_by: .behind_by, base_commit: .base_commit.sha, merge_base_commit: .merge_base_commit.sha}'']"

definition ci_verdict :: "gate_world \<Rightarrow> pull_request_ref \<Rightarrow> check list \<Rightarrow> ci_status gate" where
  "ci_verdict w ref checks = (case classify_checks checks of
     Some ci \<Rightarrow> glift (Inr ci)
   | None \<Rightarrow> gbind (workflow_count w ref) (\<lambda>n.
       glift (Inr (if n \<noteq> 0 then Ci_no_checks else Ci_no_workflows))))"

definition behind_by :: "dict \<Rightarrow> gate_error + int" where
  "behind_by compare = (case dict_get ''behind_by'' compare of
     Some (JInt n) \<Rightarrow> Inr n
   | _ \<Rightarrow> Inl (Merge_gate_error ''gh api compare did not report behind_by''))"

definition report_of ::
  "pull_request_ref \<Rightarrow> string \<Rightarrow> string \<Rightarrow> string \<Rightarrow> string \<Rightarrow> check list \<Rightarrow> ci_status \<Rightarrow> dict \<Rightarrow> dict
   \<Rightarrow> gate_error + gate_report" where
  "report_of ref expected head base_ref merge_state checks ci view compare =
     ebind (behind_by compare) (\<lambda>n.
     ebind (string_field view ''state'') (\<lambda>state.
     ebind (string_field compare ''merge_base_commit'') (\<lambda>base.
     ebind (string_field compare ''base_commit'') (\<lambda>main.
     ebind (string_field view ''mergeable'') (\<lambda>m.
       Inr \<lparr>g_pr_url = pr_url ref, g_pr_state = pr_state_of state, g_expected_head = expected,
            g_current_head = head, g_head_matches = (head = expected), g_ci = ci, g_checks = checks,
            g_base_ref = base_ref, g_base_sha = lower base, g_main_sha = lower main,
            g_base_behind = (0 < n), g_mergeable = mergeable_of m merge_state,
            g_merge_state = merge_state, g_elapsed_s = 0\<rparr>)))))"

definition view_head :: "dict \<Rightarrow> gate_error + (string \<times> string \<times> string)" where
  "view_head view =
     ebind (string_field view ''headRefOid'') (\<lambda>oid.
     if \<not> sha_fullmatch (lower oid) then
       Inl (Merge_gate_error ''gh pr view reported a head that is not a commit SHA'')
     else ebind (string_field view ''baseRefName'') (\<lambda>base_ref.
       ebind (string_field view ''mergeStateStatus'') (\<lambda>st. Inr (lower oid, base_ref, st))))"

definition snapshot :: "gate_world \<Rightarrow> pull_request_ref \<Rightarrow> string \<Rightarrow> gate_report gate" where
  "snapshot w ref expected =
     gbind (json_call w (view_args ref)) (\<lambda>view.
     gbind (glift (view_head view)) (\<lambda>(head, base_ref, merge_state).
     gbind (checks_call w ref) (\<lambda>checks.
     gbind (ci_verdict w ref checks) (\<lambda>ci.
     gbind (json_call w (compare_args ref base_ref head)) (\<lambda>compare.
       glift (report_of ref expected head base_ref merge_state checks ci view compare))))))"

section \<open>The polling loop\<close>

definition round3 :: "rat \<Rightarrow> rat" where
  "round3 q = of_int (round_half_even (q * 1000)) / 1000"

definition sleep :: "gate_world \<Rightarrow> rat \<Rightarrow> gate_state \<Rightarrow> gate_state" where
  "sleep w d s = s\<lparr>sleeps := Suc (sleeps s), now_s := now_s s + d + overshoot w (sleeps s)\<rparr>"

text \<open>\<open>None\<close> means that the loop does not end.\<close>

partial_function (option) poll_gate ::
  "gate_world \<Rightarrow> rat \<Rightarrow> pull_request_ref \<Rightarrow> string \<Rightarrow> rat \<Rightarrow> rat \<Rightarrow> gate_state
   \<Rightarrow> ((gate_error + gate_report) \<times> gate_state) option" where
  "poll_gate w interval ref expected start deadline s =
     (case snapshot w ref expected s of
        (Inl e, s') \<Rightarrow> Some (Inl e, s')
      | (Inr r, s') \<Rightarrow>
          let remaining = deadline - now_s s' in
          if settled r \<or> remaining \<le> 0 then Some (Inr (r\<lparr>g_elapsed_s := round3 (now_s s' - start)\<rparr>), s')
          else poll_gate w interval ref expected start deadline (sleep w (min interval remaining) s'))"

definition check_gate ::
  "gate_world \<Rightarrow> rat \<Rightarrow> rat \<Rightarrow> string \<Rightarrow> string \<Rightarrow> gate_state
   \<Rightarrow> ((gate_error + gate_report) \<times> gate_state) option" where
  "check_gate w timeout interval url expected_head s =
     (if \<not> sha_fullmatch expected_head then
        Some (Inl (Bad_value ''expected_head_sha must be a 40-character hex commit SHA''), s)
      else case parse_pr_url url of
        Inl e \<Rightarrow> Some (Inl e, s)
      | Inr ref \<Rightarrow> poll_gate w interval ref (lower expected_head) (now_s s) (now_s s + timeout) s)"

end
