(* ===== verification/JsonRoundtrip.thy ===== *)
theory JsonRoundtrip
  imports JsonRead
begin

text \<open>
  The reader of \<^verbatim>\<open>JsonRead\<close> takes back what the writer of \<^verbatim>\<open>Json\<close> writes, float-free values with
  their keys in order: the only shape \<^verbatim>\<open>json.dumps(..., sort_keys=True)\<close> produces for them.
\<close>

section \<open>Reading back what the hub writes\<close>

lemma hex_value_digit: "k < 16 \<Longrightarrow> hex_value (hex_digit k) = Some k"
proof -
  have "list_all (\<lambda>k. hex_value (hex_digit k) = Some k) [0..<16]" by code_simp
  moreover assume "k < 16"
  ultimately show ?thesis by (simp add: list_all_iff)
qed

lemma hex_value_0: "hex_value (CHR ''0'') = Some 0" by code_simp

lemma unicode_escape_control:
  assumes "n < 32"
  shows "unicode_escape (CHR ''0'' # CHR ''0'' # hex_digit (n div 16) # hex_digit (n mod 16) # r) = Some ([char_of n], r)"
proof -
  have "hex4 (CHR ''0'') (CHR ''0'') (hex_digit (n div 16)) (hex_digit (n mod 16)) = Some n"
    using assms by (simp add: hex4_def hex_value_0 hex_value_digit)
  then show ?thesis using assms by (simp add: unicode_escape_def utf8_def)
qed

lemma escape_char_cases:
  obtains (plain) "escape_char c = [c]" "\<not> control c" "c \<noteq> CHR 0x22" "c \<noteq> CHR 0x5C"
  | (short) d where "escape_char c = [CHR 0x5C, d]" "d \<noteq> CHR ''u''" "unescape d = Some c"
  | (long) n where "escape_char c = CHR 0x5C # CHR ''u'' # CHR ''0'' # CHR ''0'' # [hex_digit (n div 16), hex_digit (n mod 16)]"
      "n < 32" "char_of n = c"
proof -
  define n where "n = (of_char c :: nat)"
  have c: "c = char_of n" by (simp add: n_def)
  note esc = escape_char_def [of c, unfolded Let_def, folded n_def]
  have ch: "char_of (34 :: nat) = CHR 0x22"
    "char_of (92 :: nat) = CHR 0x5C" "char_of (10 :: nat) = CHR 0x0A" "char_of (13 :: nat) = CHR 0x0D"
    "char_of (9 :: nat) = CHR 0x09" "char_of (12 :: nat) = CHR 0x0C" "char_of (8 :: nat) = CHR 0x08"
    by code_simp+
  consider "n = 34" | "n = 92" | "n = 10" | "n = 13" | "n = 9" | "n = 12" | "n = 8"
    | "n < 32" "n \<notin> {34, 92, 10, 13, 9, 12, 8}" | "\<not> n < 32" "n \<noteq> 34" "n \<noteq> 92" by auto
  then show thesis
  proof cases
    case 1
    then have "escape_char c = [CHR 0x5C, CHR 0x22]" by (simp add: esc)
    moreover have "unescape (CHR 0x22) = Some c" using 1 c ch(1) by (simp add: unescape_def)
    ultimately show thesis by (intro short) simp_all
  next
    case 2
    then have "escape_char c = [CHR 0x5C, CHR 0x5C]" by (simp add: esc)
    moreover have "unescape (CHR 0x5C) = Some c" using 2 c ch(2) by (simp add: unescape_def)
    ultimately show thesis by (intro short) simp_all
  next
    case 3
    then have "escape_char c = [CHR 0x5C, CHR ''n'']" by (simp add: esc)
    moreover have "unescape (CHR ''n'') = Some c" using 3 c ch(3) by (simp add: unescape_def)
    ultimately show thesis by (intro short) simp_all
  next
    case 4
    then have "escape_char c = [CHR 0x5C, CHR ''r'']" by (simp add: esc)
    moreover have "unescape (CHR ''r'') = Some c" using 4 c ch(4) by (simp add: unescape_def)
    ultimately show thesis by (intro short) simp_all
  next
    case 5
    then have "escape_char c = [CHR 0x5C, CHR ''t'']" by (simp add: esc)
    moreover have "unescape (CHR ''t'') = Some c" using 5 c ch(5) by (simp add: unescape_def)
    ultimately show thesis by (intro short) simp_all
  next
    case 6
    then have "escape_char c = [CHR 0x5C, CHR ''f'']" by (simp add: esc)
    moreover have "unescape (CHR ''f'') = Some c" using 6 c ch(6) by (simp add: unescape_def)
    ultimately show thesis by (intro short) simp_all
  next
    case 7
    then have "escape_char c = [CHR 0x5C, CHR ''b'']" by (simp add: esc)
    moreover have "unescape (CHR ''b'') = Some c" using 7 c ch(7) by (simp add: unescape_def)
    ultimately show thesis by (intro short) simp_all
  next
    case 8
    then have "escape_char c = CHR 0x5C # CHR ''u'' # CHR ''0'' # CHR ''0'' # [hex_digit (n div 16), hex_digit (n mod 16)]"
      by (simp add: esc)
    with 8 c show thesis by (intro long [of n]) simp_all
  next
    case 9
    have "(of_char (CHR 0x22) :: nat) = 34" "(of_char (CHR 0x5C) :: nat) = 92" by simp_all
    with 9 show thesis by (intro plain) (auto simp: esc control_def n_def)
  qed
qed

lemma read_string_escaped: "read_string (concat (map escape_char s) @ CHR 0x22 # r) = Some (s, r)"
proof (induction s)
  case (Cons c s)
  show ?case
  proof (cases c rule: escape_char_cases)
    case plain
    with Cons show ?thesis by simp
  next
    case (short d)
    with Cons show ?thesis by simp
  next
    case (long n)
    with Cons show ?thesis by (simp add: unicode_escape_control)
  qed
qed simp


section \<open>Numbers and values\<close>

lemma digit_char: "k < 10 \<Longrightarrow> is_digit (char_of (48 + k)) \<and> digit_value (char_of (48 + k)) = k"
proof -
  assume "k < 10"
  then have "(of_char (char_of (48 + k)) :: nat) = 48 + k" by simp
  with \<open>k < 10\<close> show ?thesis by (simp add: is_digit_def digit_value_def)
qed

lemma show_nat_digits: "list_all is_digit (show_nat n) \<and> number_of_digits (show_nat n) = n \<and> show_nat n \<noteq> []"
proof (induction n rule: show_nat.induct)
  case (1 n)
  show ?case
  proof (cases "n < 10")
    case True
    then show ?thesis using digit_char [of n] by (subst (1 2 3) show_nat.simps) (simp add: number_of_digits_def)
  next
    case False
    then show ?thesis using 1 digit_char [of "n mod 10"]
      by (subst (1 2 3) show_nat.simps) (simp add: number_of_digits_def)
  qed
qed

lemma show_nat_leading_zero: "take 1 (show_nat n) = ''0'' \<Longrightarrow> n = 0"
proof (induction n rule: show_nat.induct)
  case (1 n)
  show ?case
  proof (cases "n < 10")
    case True
    then have "digit_value (char_of (48 + n)) = n" using digit_char by blast
    moreover have "char_of (48 + n) = CHR ''0''" using 1(2) True by (subst (asm) show_nat.simps) simp
    moreover have "digit_value (CHR ''0'') = 0" by code_simp
    ultimately show ?thesis by simp
  next
    case False
    have "take 1 (show_nat (n div 10)) = ''0''"
      using 1(2) False show_nat_digits [of "n div 10"] by (subst (asm) show_nat.simps) (cases "show_nat (n div 10)"; simp)
    with 1(1) False have "n div 10 = 0" by simp
    with False show ?thesis by simp
  qed
qed

text \<open>What may follow a number in a text the hub writes.\<close>

definition ends_number :: "string \<Rightarrow> bool" where
  "ends_number r = (case r of [] \<Rightarrow> True
     | c # _ \<Rightarrow> \<not> is_digit c \<and> c \<noteq> CHR ''.'' \<and> c \<noteq> CHR ''e'' \<and> c \<noteq> CHR ''E'')"

lemma ends_number_rest:
  assumes "ends_number r"
  shows "read_fraction r = None" "read_exponent r = None" "takeWhile is_digit r = []" "dropWhile is_digit r = r"
  using assms by (auto simp: ends_number_def read_fraction_def read_exponent_def split: list.splits)

lemma read_show_nat:
  assumes "ends_number r"
  shows "takeWhile is_digit (show_nat n @ r) = show_nat n"
    "(if take 1 (show_nat n) = ''0'' then ''0'' else show_nat n) = show_nat n"
proof -
  have "\<forall>c \<in> set (show_nat n). is_digit c" using show_nat_digits by (simp add: list_all_iff)
  then show "takeWhile is_digit (show_nat n @ r) = show_nat n"
    using ends_number_rest(3) [OF assms] by (simp add: takeWhile_append2)
  have "show_nat 0 = ''0''" by code_simp
  then show "(if take 1 (show_nat n) = ''0'' then ''0'' else show_nat n) = show_nat n"
    using show_nat_leading_zero [of n] by (cases "take 1 (show_nat n) = ''0''") (simp_all del: take_Suc_conv_app_nth)
qed

lemma digit_not_minus: "\<not> is_digit (CHR ''-'')" by code_simp

lemma read_number_nat:
  assumes "ends_number r"
  shows "read_number (show_nat n @ r) = Some (JInt (int n), r)"
proof -
  obtain c q where c: "show_nat n = c # q" "is_digit c" using show_nat_digits [of n] by (cases "show_nat n") auto
  then have "c \<noteq> CHR ''-''" using digit_not_minus by blast
  with c have sg: "(case show_nat n @ r of [] \<Rightarrow> (False, show_nat n @ r) | c # q \<Rightarrow>
      if c = CHR ''-'' then (True, q) else (False, show_nat n @ r)) = (False, show_nat n @ r)" by simp
  show ?thesis
    unfolding read_number_def sg Let_def prod.case read_show_nat [OF assms]
    using show_nat_digits [of n] ends_number_rest [OF assms] by simp
qed

lemma read_number_int:
  assumes "ends_number r"
  shows "read_number (show_int i @ r) = Some (JInt i, r)"
proof (cases "i < 0")
  case True
  let ?s = "show_nat (nat (- i)) @ r"
  have s: "show_int i @ r = CHR ''-'' # ?s" using True by (simp add: show_int_def)
  have sg: "(case show_int i @ r of [] \<Rightarrow> (False, show_int i @ r) | c # q \<Rightarrow>
      if c = CHR ''-'' then (True, q) else (False, show_int i @ r)) = (True, ?s)" unfolding s by simp
  show ?thesis
    unfolding read_number_def sg Let_def prod.case read_show_nat [OF assms]
    using True show_nat_digits [of "nat (- i)"] ends_number_rest [OF assms] by simp
next
  case False
  then show ?thesis using read_number_nat [OF assms, of "nat i"] by (simp add: show_int_def)
qed

text \<open>Values without floats, every object with its keys in order: what \<^verbatim>\<open>sort_keys\<close> leaves alone.\<close>

fun canonical :: "json \<Rightarrow> bool"
and canonical_list :: "json list \<Rightarrow> bool"
and canonical_items :: "dict \<Rightarrow> bool" where
  "canonical (JFloat q) = False"
| "canonical (JList xs) = canonical_list xs"
| "canonical (JObj d) = (sorted_wrt (<) (map fst d) \<and> canonical_items d)"
| "canonical _ = True"
| "canonical_list [] = True"
| "canonical_list (x # xs) = (canonical x \<and> canonical_list xs)"
| "canonical_items [] = True"
| "canonical_items ((k, v) # d) = (canonical v \<and> canonical_items d)"

lemma fst_json_items: "map fst (json_items fr d) = map fst d"
  by (induction d) auto

lemma sorted_items: "sorted_wrt (<) (map fst d) \<Longrightarrow> sort_key fst (json_items fr d) = json_items fr d"
  by (rule sort_key_id_if_sorted) (simp add: fst_json_items strict_sorted_iff)


lemma dict_set_new: "k \<notin> fst ` set d \<Longrightarrow> dict_set k v d = d @ [(k, v)]"
  by (induction d) auto

lemma digit_heads: "is_digit c \<Longrightarrow> c \<notin> {CHR 0x22, CHR 0x5B, CHR 0x7B, CHR ''n'', CHR ''t'', CHR ''f'', CHR 0x5D, CHR 0x7D, CHR '' '',
    CHR 0x0A, CHR 0x0D, CHR 0x09}"
proof -
  have "list_all (\<lambda>c. \<not> is_digit c) [CHR 0x22, CHR 0x5B, CHR 0x7B, CHR ''n'', CHR ''t'', CHR ''f'', CHR 0x5D, CHR 0x7D, CHR '' '',
    CHR 0x0A, CHR 0x0D, CHR 0x09]" by code_simp
  moreover assume "is_digit c"
  ultimately show ?thesis by auto
qed

lemma show_int_head: "\<exists>c q. show_int i = c # q \<and> (is_digit c \<or> c = CHR ''-'')"
proof -
  obtain c q where "show_nat (nat i) = c # q" "is_digit c" using show_nat_digits [of "nat i"] by (cases "show_nat (nat i)") auto
  then show ?thesis by (auto simp: show_int_def)
qed

lemma text_head:
  assumes "canonical v"
  shows "\<exists>c q. json_text fr v = c # q \<and> \<not> json_space c \<and> c \<noteq> CHR 0x5D"
  using assms
proof (cases v)
  case (JInt i)
  obtain c q where c: "show_int i = c # q" "is_digit c \<or> c = CHR ''-''" using show_int_head by blast
  have "\<not> json_space c \<and> c \<noteq> CHR 0x5D" using c(2)
  proof
    assume "is_digit c"
    with digit_heads [of c] show ?thesis by (simp add: json_space_def)
  qed (simp add: json_space_def)
  then show ?thesis using c(1) JInt by simp
qed (simp_all add: json_space_def quote_text_def)

lemma show_int_nonempty [simp]: "show_int i \<noteq> []"
  using show_int_head [of i] by auto

lemma read_value_int:
  assumes "ends_number r"
  shows "read_value (Suc n) (show_int i @ r) = Some (JInt i, r)"
proof -
  obtain c q where c: "show_int i = c # q" "is_digit c \<or> c = CHR ''-''" using show_int_head by blast
  then have "c \<notin> {CHR 0x22, CHR 0x5B, CHR 0x7B, CHR ''n'', CHR ''t'', CHR ''f''}" using digit_heads [of c] by auto
  then have "read_value (Suc n) (show_int i @ r) = read_number (show_int i @ r)" using c(1) by simp
  then show ?thesis using read_number_int [OF assms] by simp
qed

lemma skip_ws_head [simp]: "\<not> json_space c \<Longrightarrow> skip_ws (c # r) = c # r"
  by (simp add: skip_ws_def)

lemma skip_ws_Nil [simp]: "skip_ws [] = []"
  by (simp add: skip_ws_def)

lemma punctuation [simp]:
  "\<not> json_space (CHR 0x22)" "\<not> json_space (CHR 0x5B)" "\<not> json_space (CHR 0x5D)" "\<not> json_space (CHR 0x7B)"
  "\<not> json_space (CHR 0x7D)" "\<not> json_space (CHR '','')" "\<not> json_space (CHR '':'')"
  by (simp_all add: json_space_def)

lemma ends_number_punctuation [simp]:
  "ends_number (CHR '','' # r)" "ends_number (CHR 0x5D # r)" "ends_number (CHR 0x7D # r)" "ends_number []"
proof -
  have "\<not> is_digit (CHR '','')" "\<not> is_digit (CHR 0x5D)" "\<not> is_digit (CHR 0x7D)" by code_simp+
  then show "ends_number (CHR '','' # r)" "ends_number (CHR 0x5D # r)" "ends_number (CHR 0x7D # r)" "ends_number []"
    by (simp_all add: ends_number_def)
qed

abbreviation item_text :: "string \<times> string \<Rightarrow> string" where
  "item_text kt \<equiv> (case kt of (k, t) \<Rightarrow> quote_text k @ '':'' @ t)"

lemma read_back:
  "2 * length (json_text fr v) \<le> n \<Longrightarrow> ends_number r \<Longrightarrow> canonical v \<Longrightarrow>
     read_value n (json_text fr v @ r) = Some (v, r)"
  "2 * length (join '','' (json_texts fr xs)) + 1 \<le> n \<Longrightarrow> xs \<noteq> [] \<Longrightarrow> canonical_list xs \<Longrightarrow>
     read_elements n (join '','' (json_texts fr xs) @ CHR 0x5D # r) = Some (xs, r)"
  "2 * length (join '','' (map item_text (json_items fr d))) + 1 \<le> n \<Longrightarrow> d \<noteq> [] \<Longrightarrow> canonical_items d \<Longrightarrow>
     distinct (map fst (acc @ d)) \<Longrightarrow>
     read_members n acc (join '','' (map item_text (json_items fr d)) @ CHR 0x7D # r) = Some (acc @ d, r)"
proof (induction v and xs and d arbitrary: n r and n r and n r acc rule: canonical_canonical_list_canonical_items.induct)
  case (2 xs)
  obtain m where n: "n = Suc m" using "2.prems"(1) by (cases n) simp_all
  show ?case
  proof (cases xs)
    case Nil
    then show ?thesis by (simp add: n)
  next
    case (Cons x ys)
    then have "canonical x" using "2.prems" by simp
    then obtain c q where c: "json_text fr x = c # q" "\<not> json_space c" "c \<noteq> CHR 0x5D" using text_head by blast
    obtain q' where q': "join '','' (json_texts fr xs) @ CHR 0x5D # r = c # q'" using c(1) Cons by (cases ys) auto
    have "read_elements m (join '','' (json_texts fr xs) @ CHR 0x5D # r) = Some (xs, r)"
      by (rule "2.IH") (use "2.prems" n Cons in auto)
    then show ?thesis unfolding n using c(2,3) q' by simp
  qed
next
  case (3 d)
  obtain m where n: "n = Suc m" using "3.prems"(1) by (cases n) simp_all
  have d: "sorted_wrt (<) (map fst d)" "canonical_items d" using "3.prems" by auto
  have dist: "distinct (map fst ([] @ d))" using d(1) by (simp add: strict_sorted_iff)
  show ?case
  proof (cases d)
    case Nil
    then show ?thesis by (simp add: n)
  next
    case (Cons x ys)
    obtain q where q: "join '','' (map item_text (json_items fr d)) @ CHR 0x7D # r = CHR 0x22 # q"
      using Cons by (cases x; cases ys) (auto simp: quote_text_def split: prod.splits)
    have "read_members m [] (join '','' (map item_text (json_items fr d)) @ CHR 0x7D # r) = Some ([] @ d, r)"
      by (rule "3.IH") (use "3.prems" n Cons d dist sorted_items [OF d(1)] in auto)
    then show ?thesis unfolding n using q sorted_items [OF d(1)] by simp
  qed
next
  case "4_1"
  then show ?case by (cases n) (simp_all add: read_word_def startswith_def)
next
  case "4_2"
  then show ?case by (cases n) (auto simp: read_word_def startswith_def split: if_splits)
next
  case "4_3"
  then show ?case using read_value_int by (cases n) simp_all
next
  case "4_4"
  then show ?case using read_string_escaped by (cases n) (simp_all add: quote_text_def)
next
  case (6 x xs)
  obtain m where n: "n = Suc m" using "6.prems"(1) by (cases n) simp_all
  show ?case
  proof (cases xs)
    case Nil
    have "read_value m (json_text fr x @ CHR 0x5D # r) = Some (x, CHR 0x5D # r)"
      by (rule "6.IH"(1)) (use "6.prems" n Nil in auto)
    then show ?thesis by (simp add: n Nil)
  next
    case (Cons y ys)
    let ?r = "join '','' (json_texts fr xs) @ CHR 0x5D # r"
    have "read_value m (json_text fr x @ CHR '','' # ?r) = Some (x, CHR '','' # ?r)"
      by (rule "6.IH"(1)) (use "6.prems" n Cons in auto)
    moreover have "canonical y" using "6.prems" Cons by simp
    then obtain c q where c: "json_text fr y = c # q" "\<not> json_space c" using text_head by blast
    then have "\<exists>q'. ?r = c # q'" using Cons by (cases ys) auto
    then have "skip_ws ?r = ?r" using c(2) by auto
    moreover have "read_elements m ?r = Some (xs, r)"
      by (rule "6.IH"(2)) (use "6.prems" n Cons in auto)
    ultimately show ?thesis by (simp add: n Cons)
  qed
next
  case (8 k v d)
  obtain m where n: "n = Suc m" using "8.prems"(1) by (cases n) simp_all
  have k: "k \<notin> fst ` set acc" using "8.prems"(4) by auto
  show ?case
  proof (cases d)
    case Nil
    have "read_value m (json_text fr v @ CHR 0x7D # r) = Some (v, CHR 0x7D # r)"
      by (rule "8.IH"(1)) (use "8.prems" n Nil in auto)
    moreover have "canonical v" using "8.prems" by simp
    then obtain c q where "json_text fr v = c # q" "\<not> json_space c" using text_head by blast
    ultimately show ?thesis by (simp add: n Nil quote_text_def read_string_escaped dict_set_new [OF k])
  next
    case (Cons y ys)
    obtain ky vy where y: "y = (ky, vy)" by fastforce
    let ?r = "join '','' (map item_text (json_items fr d)) @ CHR 0x7D # r"
    have "read_value m (json_text fr v @ CHR '','' # ?r) = Some (v, CHR '','' # ?r)"
      by (rule "8.IH"(1)) (use "8.prems" n Cons y in auto)
    moreover have "canonical v" using "8.prems" by simp
    then obtain c q where "json_text fr v = c # q" "\<not> json_space c" using text_head by blast
    moreover have "\<exists>q'. ?r = CHR 0x22 # q'" using Cons y by (cases ys) (auto simp: quote_text_def split: prod.splits)
    then have "skip_ws ?r = ?r" by auto
    moreover have "read_members m (acc @ [(k, v)]) ?r = Some ((acc @ [(k, v)]) @ d, r)"
      by (rule "8.IH"(2)) (use "8.prems" n Cons y in auto)
    ultimately show ?thesis
      by (simp add: n Cons y quote_text_def read_string_escaped dict_set_new [OF k])
  qed
qed simp_all

lemma loads_json_text:
  assumes "canonical v"
  shows "loads (json_text fr v) = Some v"
proof -
  obtain c q where "json_text fr v = c # q" "\<not> json_space c" using text_head [OF assms] by blast
  then have "skip_ws (json_text fr v) = json_text fr v" by simp
  moreover have "read_value (2 * length (json_text fr v) + 2) (json_text fr v @ []) = Some (v, [])"
    by (rule read_back(1)) (simp_all add: assms)
  ultimately show ?thesis by (simp add: loads_def)
qed

end
