(* ===== verification/MergeGateUrl.thy ===== *)
theory MergeGateUrl
  imports MergeGate JsonRoundtrip
begin

text \<open>
  The URLs \<^verbatim>\<open>PullRequestRef.parse\<close> accepts: exactly the texts of a host, an owner, a repository
  and a number, and parsing the reference's own URL gives the reference back.
\<close>

section \<open>Parsing\<close>

definition part :: "(char \<Rightarrow> bool) \<Rightarrow> (char \<Rightarrow> bool) \<Rightarrow> string \<Rightarrow> bool" where
  "part first others p = (case p of [] \<Rightarrow> False | c # r \<Rightarrow> first c \<and> list_all others r)"

lemma dropWhile_stops: "case dropWhile P q of [] \<Rightarrow> True | c # _ \<Rightarrow> \<not> P c"
  by (induction q) auto

lemma span_part_append:
  assumes "part first others p" and "case r of [] \<Rightarrow> True | c # _ \<Rightarrow> \<not> others c"
  shows "span_part first others (p @ r) = Some (p, r)"
proof -
  obtain c q where p: "p = c # q" "first c" "\<forall>x \<in> set q. others x"
    using assms(1) by (auto simp: part_def list_all_iff split: list.splits)
  have "takeWhile others r = []" "dropWhile others r = r" using assms(2) by (cases r; simp)+
  with p show ?thesis by (simp add: span_part_def takeWhile_append2 dropWhile_append2)
qed

lemma span_part_iff:
  "span_part first others s = Some (p, r) \<longleftrightarrow>
   s = p @ r \<and> part first others p \<and> (case r of [] \<Rightarrow> True | c # _ \<Rightarrow> \<not> others c)" (is "?l = ?r")
proof
  assume ?l
  then obtain c q where "s = c # q" "first c" "p = c # takeWhile others q" "r = dropWhile others q"
    by (auto simp: span_part_def split: list.splits if_splits)
  moreover have "list_all others (takeWhile others q)" by (auto simp: list_all_iff dest: set_takeWhileD)
  ultimately show ?r using dropWhile_stops [of others q] by (simp add: part_def)
next
  assume ?r
  then show ?l using span_part_append by blast
qed

lemma literal_iff [simp]: "literal p s = Some r \<longleftrightarrow> s = p @ r"
proof -
  have "take (length p) s = p \<Longrightarrow> s = p @ drop (length p) s" by (metis append_take_drop_id)
  then show ?thesis by (auto simp: literal_def startswith_def)
qed

definition url_parts :: "string \<Rightarrow> string \<Rightarrow> string \<Rightarrow> string \<Rightarrow> bool" where
  "url_parts host owner repo number = (part is_alnum host_char host \<and> part is_alnum owner_char owner \<and>
     part repo_start_char repo_char repo \<and> repo \<noteq> ''.'' \<and> repo \<noteq> ''..'' \<and>
     part (\<lambda>c. is_digit c \<and> c \<noteq> CHR ''0'') is_digit number)"

definition url_text :: "string \<Rightarrow> string \<Rightarrow> string \<Rightarrow> string \<Rightarrow> string" where
  "url_text host owner repo number =
     ''https://'' @ host @ ''/'' @ owner @ ''/'' @ repo @ ''/pull/'' @ number"

lemma slash_chars [simp]: "\<not> host_char (CHR ''/'')" "\<not> owner_char (CHR ''/'')" "\<not> repo_char (CHR ''/'')" "\<not> is_digit (CHR ''/'')"
  "\<not> is_alnum (CHR ''/'')" "\<not> repo_start_char (CHR ''/'')"
  by code_simp+

lemma part_no_slash: "part f m p \<Longrightarrow> (\<And>c. f c \<Longrightarrow> m c) \<Longrightarrow> \<not> m (CHR ''/'') \<Longrightarrow> CHR ''/'' \<notin> set p"
  by (cases p) (auto simp: part_def list_all_iff)

lemma url_parts_no_slash:
  assumes "url_parts host owner repo number"
  shows "CHR ''/'' \<notin> set host" "CHR ''/'' \<notin> set owner" "CHR ''/'' \<notin> set repo" "CHR ''/'' \<notin> set number"
  using assms
  by (auto simp: url_parts_def host_char_def owner_char_def repo_char_def repo_start_char_def
      dest!: part_no_slash [where m = host_char] part_no_slash [where m = owner_char]
        part_no_slash [where m = repo_char] part_no_slash [where m = is_digit])

lemma dot_prefix:
  assumes "CHR ''/'' \<notin> set repo"
  shows "startswith (repo @ CHR ''/'' # r) ''./'' \<longleftrightarrow> repo = ''.''" "startswith (repo @ CHR ''/'' # r) ''../'' \<longleftrightarrow> repo = ''..''"
  using assms by (cases repo; cases "tl repo"; cases "tl (tl repo)"; auto simp: startswith_def)+

lemma pr_url_match_iff:
  "pr_url_match s = Some (host, owner, repo, number) \<longleftrightarrow>
   url_parts host owner repo number \<and> (s = url_text host owner repo number \<or> s = url_text host owner repo number @ ''/'')"
  (is "?l \<longleftrightarrow> ?r")
proof
  assume ?l
  then obtain r1 r2 r3 r4 where r: "s = ''https://'' @ host @ ''/'' @ owner @ ''/'' @ r1"
    "part is_alnum host_char host" "part is_alnum owner_char owner"
    "\<not> startswith r1 ''./''" "\<not> startswith r1 ''../''" "r1 = repo @ ''/pull/'' @ number @ r4"
    "part repo_start_char repo_char repo" "part (\<lambda>c. is_digit c \<and> c \<noteq> CHR ''0'') is_digit number" "r4 = [] \<or> r4 = ''/''"
    by (auto simp: pr_url_match_def bind_eq_Some_conv span_part_iff split: if_splits)
  have "CHR ''/'' \<notin> set repo"
    using part_no_slash [OF r(7)] by (simp add: repo_char_def)
  then have "repo \<noteq> ''.''" "repo \<noteq> ''..''" using r(4-6) dot_prefix [of repo] by auto
  with r show ?r by (auto simp: url_parts_def url_text_def)
next
  assume r: ?r
  then have parts: "url_parts host owner repo number" by blast
  obtain tail where s: "s = url_text host owner repo number @ tail" "tail = [] \<or> tail = ''/''" using r by force
  note dots = dot_prefix [OF url_parts_no_slash(3) [OF parts]]
  have lit: "literal p (p @ r) = Some r" for p r by simp
  have "case tail of [] \<Rightarrow> True | c # _ \<Rightarrow> \<not> is_digit c" using s(2) by auto
  then have num: "span_part (\<lambda>c. is_digit c \<and> c \<noteq> CHR ''0'') is_digit (number @ tail) = Some (number, tail)"
    using parts by (intro span_part_append) (simp add: url_parts_def)
  have "span_part is_alnum host_char (host @ ''/'' @ r) = Some (host, ''/'' @ r)"
    "span_part is_alnum owner_char (owner @ ''/'' @ r) = Some (owner, ''/'' @ r)"
    "span_part repo_start_char repo_char (repo @ ''/pull/'' @ r) = Some (repo, ''/pull/'' @ r)" for r
    using parts by (intro span_part_append; simp add: url_parts_def)+
  moreover have "startswith (repo @ ''/pull/'' @ r) ''./'' = False" "startswith (repo @ ''/pull/'' @ r) ''../'' = False" for r
    using parts dots [of "''pull/'' @ r"] by (simp_all add: url_parts_def)
  ultimately show ?l
    unfolding pr_url_match_def s(1) url_text_def append_assoc
    by (simp only: lit num bind.bind_lunit prod.case s(2) simp_thms if_True if_False)
qed


lemma digit_of_value: "is_digit c \<Longrightarrow> char_of (48 + digit_value c) = c \<and> digit_value c < 10"
proof -
  assume "is_digit c"
  then have "48 \<le> (of_char c :: nat)" "(of_char c :: nat) \<le> 57" by (auto simp: is_digit_def Let_def)
  then show ?thesis by (simp add: digit_value_def)
qed

lemma number_of_digits_snoc: "number_of_digits (ds @ [d]) = 10 * number_of_digits ds + digit_value d"
  by (simp add: number_of_digits_def)

lemma leading_digit_positive:
  "part (\<lambda>c. is_digit c \<and> c \<noteq> CHR ''0'') is_digit ds \<Longrightarrow> 0 < number_of_digits ds"
proof (induction ds rule: rev_induct)
  case (snoc d ds)
  show ?case
  proof (cases ds)
    case Nil
    then have d: "is_digit d" "d \<noteq> CHR ''0''" using snoc.prems by (simp_all add: part_def)
    have "char_of (48 :: nat) = CHR ''0''" by code_simp
    then have "digit_value d \<noteq> 0" using digit_of_value [OF d(1)] d(2) by (metis add_0_right)
    then show ?thesis using Nil by (simp add: number_of_digits_def)
  next
    case (Cons c q)
    then have "part (\<lambda>c. is_digit c \<and> c \<noteq> CHR ''0'') is_digit ds" using snoc.prems by (simp add: part_def)
    then show ?thesis using snoc.IH by (simp add: number_of_digits_snoc)
  qed
qed (simp add: part_def)

lemma show_number_of_digits:
  "part (\<lambda>c. is_digit c \<and> c \<noteq> CHR ''0'') is_digit ds \<Longrightarrow> show_nat (number_of_digits ds) = ds"
proof (induction ds rule: rev_induct)
  case (snoc d ds)
  show ?case
  proof (cases ds)
    case Nil
    then have "is_digit d" using snoc.prems by (simp add: part_def)
    then show ?thesis using Nil digit_of_value [of d] by (simp add: number_of_digits_def show_nat.simps)
  next
    case (Cons c q)
    then have p: "part (\<lambda>c. is_digit c \<and> c \<noteq> CHR ''0'') is_digit ds" and d: "is_digit d"
      using snoc.prems by (simp_all add: part_def)
    have "\<not> 10 * number_of_digits ds + digit_value d < 10" using leading_digit_positive [OF p] by simp
    moreover have "(10 * number_of_digits ds + digit_value d) div 10 = number_of_digits ds"
      "(10 * number_of_digits ds + digit_value d) mod 10 = digit_value d" using digit_of_value [OF d] by simp_all
    ultimately show ?thesis
      using snoc.IH [OF p] digit_of_value [OF d] by (subst show_nat.simps) (simp add: number_of_digits_snoc)
  qed
qed (simp add: part_def)

lemma rstrip_char_last: "s \<noteq> [] \<Longrightarrow> last s \<noteq> c \<Longrightarrow> rstrip_char c s = s"
  by (cases "rev s") (auto simp: rstrip_char_def last_rev [symmetric] hd_rev)

lemma digit_no_space: "is_digit c \<Longrightarrow> \<not> is_space c"
  by (auto simp: is_digit_def is_space_def Let_def)

lemma url_text_ends:
  assumes "url_parts host owner repo number"
  shows "strip (url_text host owner repo number) = url_text host owner repo number"
    "rstrip_char (CHR ''/'') (url_text host owner repo number) = url_text host owner repo number"
    "rstrip_char (CHR ''/'') (url_text host owner repo number @ ''/'') = url_text host owner repo number"
proof -
  have n: "number \<noteq> []" "is_digit (last number)"
    using assms by (auto simp: url_parts_def part_def list_all_iff split: list.splits)
  have l: "last (url_text host owner repo number) = last number" using n(1) by (simp add: url_text_def)
  have "\<not> is_space (CHR ''h'')" by code_simp
  then have "\<not> is_space (hd (url_text host owner repo number))" by (simp add: url_text_def)
  then show "strip (url_text host owner repo number) = url_text host owner repo number"
    using digit_no_space [OF n(2)] by (intro strip_inside) (simp_all add: l, simp add: url_text_def)
  have "last number \<noteq> CHR ''/''" using n(2) slash_chars(4) by metis
  then have r: "rstrip_char (CHR ''/'') (url_text host owner repo number) = url_text host owner repo number"
    by (intro rstrip_char_last) (simp add: url_text_def, simp add: l)
  then show "rstrip_char (CHR ''/'') (url_text host owner repo number) = url_text host owner repo number" .
  show "rstrip_char (CHR ''/'') (url_text host owner repo number @ ''/'') = url_text host owner repo number"
    using r by (simp add: rstrip_char_def)
qed

lemma parse_pr_url_iff:
  "parse_pr_url url = Inr ref \<longleftrightarrow>
   (\<exists>number. url_parts (pr_host ref) (pr_owner ref) (pr_repo ref) number \<and>
     (strip url = url_text (pr_host ref) (pr_owner ref) (pr_repo ref) number \<or>
      strip url = url_text (pr_host ref) (pr_owner ref) (pr_repo ref) number @ ''/'') \<and>
     pr_url ref = url_text (pr_host ref) (pr_owner ref) (pr_repo ref) number \<and> pr_number ref = number_of_digits number)"
  (is "?l \<longleftrightarrow> ?r")
proof
  assume ?l
  then obtain host owner repo number where m: "pr_url_match (strip url) = Some (host, owner, repo, number)"
    and ref: "ref = \<lparr>pr_url = rstrip_char (CHR ''/'') (strip url), pr_host = host, pr_owner = owner, pr_repo = repo,
              pr_number = number_of_digits number\<rparr>"
    by (auto simp: parse_pr_url_def Let_def split: option.splits)
  note m' = m [unfolded pr_url_match_iff]
  then have "rstrip_char (CHR ''/'') (strip url) = url_text host owner repo number"
    using url_text_ends(2,3) [of host owner repo number] by auto
  with m' show ?r by (intro exI [of _ number]) (simp add: ref)
next
  assume ?r
  then obtain number where r: "url_parts (pr_host ref) (pr_owner ref) (pr_repo ref) number"
    "strip url = url_text (pr_host ref) (pr_owner ref) (pr_repo ref) number \<or>
      strip url = url_text (pr_host ref) (pr_owner ref) (pr_repo ref) number @ ''/''"
    "pr_url ref = url_text (pr_host ref) (pr_owner ref) (pr_repo ref) number" "pr_number ref = number_of_digits number" by blast
  then have "pr_url_match (strip url) = Some (pr_host ref, pr_owner ref, pr_repo ref, number)"
    unfolding pr_url_match_iff by blast
  moreover have "rstrip_char (CHR ''/'') (strip url) = pr_url ref"
    using r(2,3) url_text_ends(2,3) [OF r(1)] by auto
  ultimately show ?l by (simp add: parse_pr_url_def Let_def r(4))
qed

lemma parse_pr_url_canonical:
  assumes "parse_pr_url url = Inr ref"
  shows "parse_pr_url (pr_url ref) = Inr ref"
    "pr_url ref = url_text (pr_host ref) (pr_owner ref) (pr_repo ref) (show_nat (pr_number ref))"
    "CHR ''/'' \<notin> set (pr_host ref @ pr_owner ref @ pr_repo ref)"
    "is_alnum (hd (pr_host ref))" "is_alnum (hd (pr_owner ref))" "hd (pr_repo ref) \<noteq> CHR ''-''"
    "pr_repo ref \<noteq> ''.''" "pr_repo ref \<noteq> ''..''" "0 < pr_number ref"
    "strip url = pr_url ref \<or> strip url = pr_url ref @ ''/''"
    "url_parts (pr_host ref) (pr_owner ref) (pr_repo ref) (show_nat (pr_number ref))"
proof -
  obtain number where r: "url_parts (pr_host ref) (pr_owner ref) (pr_repo ref) number"
    "pr_url ref = url_text (pr_host ref) (pr_owner ref) (pr_repo ref) number" "pr_number ref = number_of_digits number"
    "strip url = pr_url ref \<or> strip url = pr_url ref @ ''/''"
    using assms unfolding parse_pr_url_iff by auto
  then show "strip url = pr_url ref \<or> strip url = pr_url ref @ ''/''" by blast
  show "parse_pr_url (pr_url ref) = Inr ref"
    unfolding parse_pr_url_iff using r url_text_ends(1) [OF r(1)] by auto
  have p: "part (\<lambda>c. is_digit c \<and> c \<noteq> CHR ''0'') is_digit number" using r(1) by (simp add: url_parts_def)
  show "pr_url ref = url_text (pr_host ref) (pr_owner ref) (pr_repo ref) (show_nat (pr_number ref))"
    using r show_number_of_digits [OF p] by simp
  show "url_parts (pr_host ref) (pr_owner ref) (pr_repo ref) (show_nat (pr_number ref))"
    using r(1,3) show_number_of_digits [OF p] by simp
  show "CHR ''/'' \<notin> set (pr_host ref @ pr_owner ref @ pr_repo ref)" using url_parts_no_slash [OF r(1)] by simp
  show "0 < pr_number ref" using r(3) leading_digit_positive [OF p] by simp
  have "\<not> repo_start_char (CHR ''-'')" by code_simp
  then show "hd (pr_repo ref) \<noteq> CHR ''-''" using r(1) by (auto simp: url_parts_def part_def split: list.splits)
  show "is_alnum (hd (pr_host ref))" "is_alnum (hd (pr_owner ref))" "pr_repo ref \<noteq> ''.''" "pr_repo ref \<noteq> ''..''"
    using r(1) by (auto simp: url_parts_def part_def split: list.splits)
qed

end
