(* ===== verification/MergeGateLoop.thy ===== *)
theory MergeGateLoop
  imports MergeGateUrl
begin

text \<open>
  What a report of the merge gate rests on, that the polling loop ends, and one concrete run for
  the witnesses.
\<close>

section \<open>What a report rests on\<close>

lemma gbind_Inr:
  "gbind m f s = (Inr y, t) \<longleftrightarrow> (\<exists>x u. m s = (Inr x, u) \<and> f x u = (Inr y, t))"
  by (auto simp: gbind_def split: prod.splits sum.splits)

lemma glift_Inr: "glift x s = (Inr y, t) \<longleftrightarrow> x = Inr y \<and> t = s"
  by (auto simp: glift_def)

lemma runner_Inr:
  "runner w args s = (Inr res, t) \<longleftrightarrow> gh_reply w (gh_calls s) args = Inr res \<and>
     t = s\<lparr>gh_calls := Suc (gh_calls s), now_s := now_s s + gh_takes w (gh_calls s)\<rparr>"
  by (auto simp: runner_def)

lemmas gate_Inr = gbind_Inr glift_Inr runner_Inr

definition answered :: "gate_world \<Rightarrow> nat \<Rightarrow> string list \<Rightarrow> dict \<Rightarrow> bool" where
  "answered w k args d = (\<exists>res. gh_reply w k args = Inr res \<and> gh_returncode res = 0 \<and> loads (gh_stdout res) = Some (JObj d))"

lemma object_Inr:
  "(case v of None \<Rightarrow> Inl a | Some (JObj d) \<Rightarrow> Inr d | Some _ \<Rightarrow> Inl b) = Inr d \<longleftrightarrow> v = Some (JObj d)"
  by (cases v) (auto split: json.split)

lemma json_call_Inr:
  "json_call w args s = (Inr d, t) \<longleftrightarrow> answered w (gh_calls s) args d \<and>
     t = s\<lparr>gh_calls := Suc (gh_calls s), now_s := now_s s + gh_takes w (gh_calls s)\<rparr>"
proof (cases "gh_reply w (gh_calls s) args")
  case (Inr res)
  then show ?thesis
    by (cases "gh_returncode res = 0") (auto simp: json_call_def gate_Inr answered_def object_Inr)
qed (simp add: json_call_def gate_Inr answered_def)

lemma snapshot_Inr:
  assumes "snapshot w ref expected s = (Inr r, t)"
  obtains view head base_ref merge_state res compare k where
    "answered w (gh_calls s) (view_args ref) view" "view_head view = Inr (head, base_ref, merge_state)"
    "gh_reply w (Suc (gh_calls s)) (checks_args ref) = Inr res"
    "read_checks (gate_floats w) (checks_args ref) res = Inr (g_checks r)"
    "classify_checks (g_checks r) = Some (g_ci r) \<or> g_ci r = Ci_no_checks \<or> g_ci r = Ci_no_workflows"
    "answered w k (compare_args ref base_ref head) compare" "Suc (gh_calls s) < k"
    "report_of ref expected head base_ref merge_state (g_checks r) (g_ci r) view compare = Inr r"
proof -
  from assms obtain view head base_ref merge_state res checks ci u compare where
    1: "answered w (gh_calls s) (view_args ref) view" "view_head view = Inr (head, base_ref, merge_state)"
    "gh_reply w (Suc (gh_calls s)) (checks_args ref) = Inr res"
    "read_checks (gate_floats w) (checks_args ref) res = Inr checks"
    and ci: "ci_verdict w ref checks (s\<lparr>gh_calls := Suc (Suc (gh_calls s)),
        now_s := now_s s + gh_takes w (gh_calls s) + gh_takes w (Suc (gh_calls s))\<rparr>) = (Inr ci, u)"
    and 2: "answered w (gh_calls u) (compare_args ref base_ref head) compare"
    "report_of ref expected head base_ref merge_state checks ci view compare = Inr r"
    by (auto simp: snapshot_def checks_call_def gate_Inr json_call_Inr split: prod.splits)
  have r: "g_checks r = checks" "g_ci r = ci" using 2(2) by (auto simp: report_of_def)
  have "classify_checks checks = Some ci \<or> ci = Ci_no_checks \<or> ci = Ci_no_workflows" and "Suc (gh_calls s) < gh_calls u"
    using ci by (auto simp: ci_verdict_def workflow_count_def gate_Inr split: option.splits if_splits)
  then show thesis using 1 2
    by (intro that [of view head base_ref merge_state res "gh_calls u" compare]) (simp_all add: r)
qed

section \<open>The loop\<close>

lemma poll_gate_Inr:
  assumes "poll_gate w interval ref expected start deadline s = Some (Inr r, t)"
  shows "\<exists>s0 r0. snapshot w ref expected s0 = (Inr r0, t) \<and> (settled r0 \<or> deadline \<le> now_s t) \<and>
    r = r0\<lparr>g_elapsed_s := round3 (now_s t - start)\<rparr>"
proof -
  have "case x of (Inl e, t) \<Rightarrow> True
    | (Inr r, t) \<Rightarrow> \<exists>s0 r0. snapshot w ref expected s0 = (Inr r0, t) \<and> (settled r0 \<or> deadline \<le> now_s t) \<and>
        r = r0\<lparr>g_elapsed_s := round3 (now_s t - start)\<rparr>"
    if "poll_gate w interval ref expected start deadline s = Some x" for x
  proof (induct w interval ref expected start deadline s x rule: poll_gate.raw_induct)
    case (1 pg w interval ref expected start deadline s x)
    obtain z u where z: "snapshot w ref expected s = (z, u)" by fastforce
    show ?case
    proof (cases z)
      case (Inl e)
      then have "x = (Inl e, u)" using 1(2) z by simp
      then show ?thesis by simp
    next
      case (Inr r0)
      show ?thesis
      proof (cases "settled r0 \<or> deadline - now_s u \<le> 0")
        case True
        then have "x = (Inr (r0\<lparr>g_elapsed_s := round3 (now_s u - start)\<rparr>), u)" using 1(2) z Inr by (simp add: Let_def)
        moreover have "settled r0 \<or> deadline \<le> now_s u" using True by simp
        ultimately show ?thesis using z Inr by auto
      next
        case False
        then have "pg w interval ref expected start deadline (sleep w (min interval (deadline - now_s u)) u) = Some x"
          using 1(2) z Inr by (simp add: Let_def)
        then show ?thesis by (rule 1(1))
      qed
    qed
  qed (rule that)
  from this [OF assms] show ?thesis by simp
qed

lemma json_call_time: "snd (json_call w args s) = s\<lparr>gh_calls := Suc (gh_calls s), now_s := now_s s + gh_takes w (gh_calls s)\<rparr>"
  by (simp add: json_call_def gbind_def runner_def glift_def split: sum.split)

definition no_earlier :: "gate_state \<Rightarrow> gate_state \<Rightarrow> bool" where
  "no_earlier s t = (now_s s \<le> now_s t \<and> sleeps t = sleeps s)"

lemma no_earlier_bind:
  assumes "\<And>s. no_earlier s (snd (m s))" and "\<And>x s. no_earlier s (snd (f x s))"
  shows "no_earlier s (snd (gbind m f s))"
proof (cases "m s")
  case (Pair x u)
  have 1: "no_earlier s u" using assms(1) [of s] Pair by simp
  show ?thesis
  proof (cases x)
    case (Inr y)
    have "no_earlier u (snd (f y u))" by (rule assms(2))
    with 1 show ?thesis using Pair Inr by (simp add: gbind_def no_earlier_def)
  qed (use 1 Pair in \<open>simp add: gbind_def\<close>)
qed

lemma no_earlier_glift [simp]: "no_earlier s (snd (glift x s))"
  by (simp add: glift_def no_earlier_def)

lemma snapshot_time:
  assumes "\<And>k. 0 \<le> gh_takes w k"
  shows "no_earlier s (snd (snapshot w ref expected s))"
proof -
  have run: "no_earlier s (snd (runner w args s))" for args s using assms by (simp add: runner_def no_earlier_def)
  have call: "no_earlier s (snd (json_call w args s))" for args s
    unfolding json_call_def by (intro no_earlier_bind run no_earlier_glift)
  have ci: "no_earlier s (snd (ci_verdict w ref checks s))" for checks s
  proof (cases "classify_checks checks")
    case None
    show ?thesis unfolding ci_verdict_def None option.case workflow_count_def
      by (intro no_earlier_bind run no_earlier_glift)
  qed (simp add: ci_verdict_def)
  have "no_earlier s (snd ((case h of (head, base_ref, merge_state) \<Rightarrow>
     gbind (checks_call w ref) (\<lambda>checks.
     gbind (ci_verdict w ref checks) (\<lambda>ci.
     gbind (json_call w (compare_args ref base_ref head)) (\<lambda>compare.
       glift (report_of ref expected head base_ref merge_state checks ci view compare))))) s))" for h view s
    unfolding checks_call_def
    by (cases h) (simp only: prod.case, intro no_earlier_bind run ci call no_earlier_glift)
  then show ?thesis
    unfolding snapshot_def by (intro no_earlier_bind call no_earlier_glift)
qed

lemma poll_gate_ends:
  assumes takes: "\<And>k. 0 \<le> gh_takes w k" and over: "\<And>k. 0 \<le> overshoot w k" and "0 < interval"
    and "deadline - now_s s \<le> of_nat n * interval"
  shows "\<exists>res t. poll_gate w interval ref expected start deadline s = Some (res, t) \<and> sleeps t \<le> sleeps s + n"
  using assms(4)
proof (induction n arbitrary: s)
  case 0
  obtain z u where z: "snapshot w ref expected s = (z, u)" by fastforce
  have "deadline - now_s u \<le> 0" "sleeps u = sleeps s"
    using snapshot_time [OF takes, of s ref expected] 0 z by (auto simp: no_earlier_def)
  then show ?case using z by (subst poll_gate.simps) (auto split: sum.split)
next
  case (Suc n)
  obtain z u where z: "snapshot w ref expected s = (z, u)" by fastforce
  have u: "now_s s \<le> now_s u" "sleeps u = sleeps s"
    using snapshot_time [OF takes, of s ref expected] z by (auto simp: no_earlier_def)
  let ?v = "sleep w (min interval (deadline - now_s u)) u"
  show ?case
  proof (cases "\<exists>r. z = Inr r \<and> \<not> (settled r \<or> deadline - now_s u \<le> 0)")
    case False
    then show ?thesis using z u by (subst poll_gate.simps) (auto simp: Let_def split: sum.split)
  next
    case True
    then obtain r where r: "z = Inr r" "\<not> (settled r \<or> deadline - now_s u \<le> 0)" by blast
    have "deadline - now_s ?v \<le> of_nat n * interval"
    proof (cases "interval \<le> deadline - now_s u")
      case True
      then show ?thesis using Suc.prems u(1) over [of "sleeps u"] by (simp add: sleep_def algebra_simps)
    next
      case False
      have "0 \<le> of_nat n * interval" using assms(3) by simp
      then show ?thesis using False over [of "sleeps u"] by (simp add: sleep_def)
    qed
    from Suc.IH [OF this] obtain res t where
      t: "poll_gate w interval ref expected start deadline ?v = Some (res, t)" "sleeps t \<le> sleeps ?v + n" by blast
    moreover have "sleeps ?v = Suc (sleeps s)" using u by (simp add: sleep_def)
    moreover have "poll_gate w interval ref expected start deadline s = poll_gate w interval ref expected start deadline ?v"
      using z r by (subst poll_gate.simps) (simp add: Let_def)
    ultimately show ?thesis by auto
  qed
qed

lemma check_gate_ends:
  assumes "\<And>k. 0 \<le> gh_takes w k" and "\<And>k. 0 \<le> overshoot w k" and "0 < interval"
  shows "\<exists>res t. check_gate w timeout interval url sha s = Some (res, t) \<and>
    sleeps t \<le> sleeps s + nat \<lceil>timeout / interval\<rceil>"
proof -
  have "timeout / interval \<le> of_nat (nat \<lceil>timeout / interval\<rceil>)" by (rule of_nat_ceiling)
  then have "timeout \<le> of_nat (nat \<lceil>timeout / interval\<rceil>) * interval" using assms(3) by (simp add: field_simps)
  then have "\<exists>res t. poll_gate w interval ref e (now_s s) (now_s s + timeout) s = Some (res, t) \<and>
      sleeps t \<le> sleeps s + nat \<lceil>timeout / interval\<rceil>" for ref e
    by (intro poll_gate_ends [OF assms]) simp
  then show ?thesis by (auto simp: check_gate_def split: sum.split)
qed

section \<open>Permission to merge\<close>

definition merge_allowed :: "gate_report \<Rightarrow> bool" where
  "merge_allowed r = (g_pr_state r = Pr_open \<and> g_head_matches r \<and> g_ci r = Ci_pass \<and>
     \<not> g_base_behind r \<and> g_mergeable r = Merge_clean)"

lemma classify_pass:
  "classify_checks cs = Some Ci_pass \<longleftrightarrow> cs \<noteq> [] \<and> (\<forall>c \<in> set cs. check_bucket c = ''pass'' \<or> check_bucket c = ''skipping'')"
proof -
  have "(\<forall>c \<in> set cs. check_bucket c = ''pass'' \<or> check_bucket c = ''skipping'') \<Longrightarrow>
      ''fail'' \<notin> check_bucket ` set cs \<and> ''cancel'' \<notin> check_bucket ` set cs" by auto
  then show ?thesis by (auto simp: classify_checks_def Let_def list_all_iff)
qed

lemma string_field_Inr [simp]: "string_field d k = Inr v \<longleftrightarrow> dict_get k d = Some (JStr v)"
  by (auto simp: string_field_def split: option.split json.split)

lemma behind_by_Inr [simp]: "behind_by d = Inr n \<longleftrightarrow> dict_get ''behind_by'' d = Some (JInt n)"
  by (auto simp: behind_by_def split: option.split json.split)

definition backed :: "gate_world \<Rightarrow> pull_request_ref \<Rightarrow> string \<Rightarrow> gate_report \<Rightarrow> bool" where
  "backed w ref expected r = (\<exists>j k m view head base res compare n merge_state.
     answered w j (view_args ref) view \<and>
       dict_get ''state'' view = Some (JStr ''OPEN'') \<and>
       dict_get ''headRefOid'' view = Some (JStr head) \<and> lower head = expected \<and>
       dict_get ''baseRefName'' view = Some (JStr base) \<and>
       dict_get ''mergeable'' view = Some (JStr ''MERGEABLE'') \<and>
       dict_get ''mergeStateStatus'' view = Some (JStr merge_state) \<and> merge_state \<noteq> ''DIRTY'' \<and>
     gh_reply w k (checks_args ref) = Inr res \<and>
       read_checks (gate_floats w) (checks_args ref) res = Inr (g_checks r) \<and> g_checks r \<noteq> [] \<and>
       (\<forall>c \<in> set (g_checks r). check_bucket c = ''pass'' \<or> check_bucket c = ''skipping'') \<and>
     answered w m (compare_args ref base expected) compare \<and>
       dict_get ''behind_by'' compare = Some (JInt n) \<and> n \<le> 0 \<and> j < k \<and> k < m)"

lemma report_of_Inr:
  assumes "report_of ref expected head base_ref merge_state checks ci view compare = Inr r"
  obtains n st m where "dict_get ''behind_by'' compare = Some (JInt n)" "dict_get ''state'' view = Some (JStr st)"
    "dict_get ''mergeable'' view = Some (JStr m)" "g_pr_state r = pr_state_of st" "g_head_matches r = (head = expected)"
    "g_base_behind r = (0 < n)" "g_mergeable r = mergeable_of m merge_state"
  using assms by (auto simp: report_of_def)

lemma merge_allowed_backed:
  assumes s: "snapshot w ref expected s = (Inr r, t)" and a: "merge_allowed r"
  shows "backed w ref expected r"
proof (rule snapshot_Inr [OF s])
  fix view head base_ref merge_state res compare k
  assume 1: "answered w (gh_calls s) (view_args ref) view" "view_head view = Inr (head, base_ref, merge_state)"
    and 2: "gh_reply w (Suc (gh_calls s)) (checks_args ref) = Inr res"
    "read_checks (gate_floats w) (checks_args ref) res = Inr (g_checks r)"
    and ci: "classify_checks (g_checks r) = Some (g_ci r) \<or> g_ci r = Ci_no_checks \<or> g_ci r = Ci_no_workflows"
    and 3: "answered w k (compare_args ref base_ref head) compare" "Suc (gh_calls s) < k"
    and rep: "report_of ref expected head base_ref merge_state (g_checks r) (g_ci r) view compare = Inr r"
  obtain n st m where f: "dict_get ''behind_by'' compare = Some (JInt n)" "dict_get ''state'' view = Some (JStr st)"
    "dict_get ''mergeable'' view = Some (JStr m)" "g_pr_state r = pr_state_of st" "g_head_matches r = (head = expected)"
    "g_base_behind r = (0 < n)" "g_mergeable r = mergeable_of m merge_state"
    by (rule report_of_Inr [OF rep])
  have "st = ''OPEN''" "head = expected" "n \<le> 0" "m = ''MERGEABLE''" "merge_state \<noteq> ''DIRTY''"
    using a f(4-7) by (auto simp: merge_allowed_def pr_state_of_def mergeable_of_def split: if_splits)
  moreover have "classify_checks (g_checks r) = Some Ci_pass" using ci a by (auto simp: merge_allowed_def)
  then have "g_checks r \<noteq> []" "\<forall>c \<in> set (g_checks r). check_bucket c = ''pass'' \<or> check_bucket c = ''skipping''"
    unfolding classify_pass by blast+
  moreover obtain oid where "dict_get ''headRefOid'' view = Some (JStr oid)" "lower oid = head"
    "dict_get ''baseRefName'' view = Some (JStr base_ref)" "dict_get ''mergeStateStatus'' view = Some (JStr merge_state)"
    using 1(2) by (auto simp: view_head_def split: if_splits)
  ultimately show ?thesis unfolding backed_def using 1(1) 2 3 f(1-3) by blast
qed

section \<open>A concrete run\<close>

definition demo_sha :: string where
  "demo_sha = replicate 40 (CHR ''a'')"

definition demo_quote :: "string \<Rightarrow> string" where
  "demo_quote s = [CHR 0x22] @ s @ [CHR 0x22]"

definition demo_gh :: "nat \<Rightarrow> string list \<Rightarrow> gate_error + gh_result" where
  "demo_gh k args = Inr \<lparr>gh_returncode = 0, gh_stdout =
     (if k = 0 then ''{'' @ join '','' (map (\<lambda>(f, v). demo_quote f @ '':'' @ demo_quote v)
        [(''state'', ''OPEN''), (''headRefOid'', demo_sha), (''baseRefName'', ''main''),
         (''mergeable'', ''MERGEABLE''), (''mergeStateStatus'', ''CLEAN'')]) @ ''}''
      else if k = 1 then ''[{'' @ demo_quote ''bucket'' @ '':'' @ demo_quote ''pass'' @ ''}]''
      else ''{'' @ demo_quote ''behind_by'' @ '':0,'' @ demo_quote ''base_commit'' @ '':'' @ demo_quote ''c'' @ '',''
        @ demo_quote ''merge_base_commit'' @ '':'' @ demo_quote ''c'' @ ''}''), gh_stderr = []\<rparr>"

definition demo_world :: gate_world where
  "demo_world = \<lparr>gh_reply = demo_gh, gh_takes = (\<lambda>k. 1), overshoot = (\<lambda>k. 0), gate_floats = (\<lambda>q. [])\<rparr>"

definition demo_start :: gate_state where
  "demo_start = \<lparr>gh_calls = 0, sleeps = 0, now_s = 0\<rparr>"

definition demo_ref :: pull_request_ref where
  "demo_ref = \<lparr>pr_url = ''https://h/o/r/pull/7'', pr_host = ''h'', pr_owner = ''o'', pr_repo = ''r'', pr_number = 7\<rparr>"

definition demo_report :: gate_report where
  "demo_report = \<lparr>g_pr_url = ''https://h/o/r/pull/7'', g_pr_state = Pr_open, g_expected_head = demo_sha,
     g_current_head = demo_sha, g_head_matches = True, g_ci = Ci_pass,
     g_checks = [\<lparr>check_name = [], check_bucket = ''pass'', check_link = []\<rparr>], g_base_ref = ''main'',
     g_base_sha = ''c'', g_main_sha = ''c'', g_base_behind = False, g_mergeable = Merge_clean,
     g_merge_state = ''CLEAN'', g_elapsed_s = 3\<rparr>"

lemma demo_parse: "parse_pr_url '' https://h/o/r/pull/7/'' = Inr demo_ref"
  by code_simp

lemma demo_snapshot:
  "snapshot demo_world demo_ref demo_sha demo_start = (Inr (demo_report\<lparr>g_elapsed_s := 0\<rparr>), demo_start\<lparr>gh_calls := 3, now_s := 3\<rparr>)"
  by code_simp

lemma demo_check:
  "check_gate demo_world 60 10 '' https://h/o/r/pull/7/'' demo_sha demo_start
     = Some (Inr demo_report, demo_start\<lparr>gh_calls := 3, now_s := 3\<rparr>)"
proof -
  have sha: "sha_fullmatch demo_sha" "lower demo_sha = demo_sha" by code_simp+
  have "settled (demo_report\<lparr>g_elapsed_s := 0\<rparr>)" by code_simp
  moreover have "round3 (3 - 0) = 3" by code_simp
  ultimately have "poll_gate demo_world 10 demo_ref demo_sha 0 60 demo_start
      = Some (Inr (demo_report\<lparr>g_elapsed_s := 3\<rparr>), demo_start\<lparr>gh_calls := 3, now_s := 3\<rparr>)"
    by (subst poll_gate.simps) (simp add: demo_snapshot)
  moreover have "demo_report\<lparr>g_elapsed_s := 3\<rparr> = demo_report" by (simp add: demo_report_def)
  moreover have "now_s demo_start = 0" by (simp add: demo_start_def)
  ultimately show ?thesis by (simp add: check_gate_def sha demo_parse)
qed

end
