(* ===== verification/Floats.thy ===== *)
theory Floats
  imports JsonRead
begin

text \<open>
  Python floats that come from outside: besides the finite ones (exact rationals here) there are
  the infinities and NaN, whose comparisons are all false. \<^verbatim>\<open>float(text)\<close>, \<^verbatim>\<open>int(text)\<close>, \<^verbatim>\<open>min\<close> and
  \<^verbatim>\<open>max\<close> as Python evaluates them.
\<close>

datatype py_float = Finite rat | Pos_inf | Neg_inf | Nan

fun flt_less :: "py_float \<Rightarrow> py_float \<Rightarrow> bool" where
  "flt_less Nan y = False"
| "flt_less x Nan = False"
| "flt_less (Finite a) (Finite b) = (a < b)"
| "flt_less Neg_inf y = (y \<noteq> Neg_inf)"
| "flt_less x Neg_inf = False"
| "flt_less Pos_inf y = False"
| "flt_less x Pos_inf = True"

fun flt_le :: "py_float \<Rightarrow> py_float \<Rightarrow> bool" where
  "flt_le Nan y = False"
| "flt_le x Nan = False"
| "flt_le (Finite a) (Finite b) = (a \<le> b)"
| "flt_le Neg_inf y = True"
| "flt_le x Neg_inf = False"
| "flt_le x Pos_inf = True"
| "flt_le Pos_inf y = False"

text \<open>\<^verbatim>\<open>min(x, y)\<close> and \<^verbatim>\<open>max(x, y)\<close> keep their first argument unless the second is strictly better.\<close>

definition py_min :: "py_float \<Rightarrow> py_float \<Rightarrow> py_float" where
  "py_min x y = (if flt_less y x then y else x)"

definition py_max :: "py_float \<Rightarrow> py_float \<Rightarrow> py_float" where
  "py_max x y = (if flt_less x y then y else x)"

fun flt_scale :: "rat \<Rightarrow> py_float \<Rightarrow> py_float" where
  "flt_scale k (Finite a) = Finite (k * a)"
| "flt_scale k x = x"

section \<open>Reading numbers\<close>

text \<open>Digits, single underscores between digits allowed.\<close>

fun digit_group :: "string \<Rightarrow> (string \<times> string) option" where
  "digit_group [] = None"
| "digit_group (c # r) = (if \<not> is_digit c then None
     else case r of [] \<Rightarrow> Some ([c], [])
       | d # q \<Rightarrow> if is_digit d then map_option (\<lambda>(ds, z). (c # ds, z)) (digit_group (d # q))
           else if d = CHR ''_'' then
             (case q of [] \<Rightarrow> Some ([c], r)
              | x # z \<Rightarrow> if is_digit x then map_option (\<lambda>(ds, z). (c # ds, z)) (digit_group q) else Some ([c], r))
           else Some ([c], r))"

definition split_sign :: "string \<Rightarrow> bool \<times> string" where
  "split_sign s = (case s of [] \<Rightarrow> (False, s)
     | c # r \<Rightarrow> if c = CHR ''-'' then (True, r) else if c = CHR ''+'' then (False, r) else (False, s))"

text \<open>The value of a row of digits.\<close>

definition int_of_digits :: "string \<Rightarrow> int" where
  "int_of_digits s = foldl (\<lambda>n c. 10 * n + int (digit_value c)) 0 s"

definition read_int :: "string \<Rightarrow> int option" where
  "read_int raw = (let (neg, s) = split_sign (strip raw) in
     case digit_group s of
       Some (ds, []) \<Rightarrow> Some (if neg then - int_of_digits ds else int_of_digits ds)
     | _ \<Rightarrow> None)"

definition named_float :: "string \<Rightarrow> py_float option" where
  "named_float s = (let (neg, r) = split_sign s; w = lower r in
     if w = ''inf'' \<or> w = ''infinity'' then Some (if neg then Neg_inf else Pos_inf)
     else if w = ''nan'' then Some Nan else None)"

definition opt_digits :: "string \<Rightarrow> string \<times> string" where
  "opt_digits s = (case digit_group s of None \<Rightarrow> ([], s) | Some p \<Rightarrow> p)"

definition decimal_float :: "string \<Rightarrow> rat option" where
  "decimal_float txt =
     (let (neg, s) = split_sign txt; (ip, s1) = opt_digits s;
          (fp, s2) = (case s1 of c # q \<Rightarrow> if c = CHR ''.'' then opt_digits q else ([], s1) | [] \<Rightarrow> ([], s1));
          mantissa = of_int (int_of_digits (ip @ fp)) / 10 ^ length fp;
          signed = (if neg then - mantissa else mantissa) in
      if ip = [] \<and> fp = [] then None
      else case s2 of [] \<Rightarrow> Some signed
        | c # q \<Rightarrow> if lower_char c \<noteq> CHR ''e'' then None
            else let (eneg, ds) = split_sign q in
              (case digit_group ds of
                 Some (k, []) \<Rightarrow> Some (signed * power_of_ten (if eneg then - int_of_digits k else int_of_digits k))
               | _ \<Rightarrow> None))"

text \<open>\<^verbatim>\<open>float(raw)\<close>; \<open>None\<close> is the \<^verbatim>\<open>ValueError\<close>. Rounding to binary is left out.\<close>

definition read_float :: "string \<Rightarrow> py_float option" where
  "read_float raw = (let s = strip raw in
     case named_float s of Some x \<Rightarrow> Some x | None \<Rightarrow> map_option Finite (decimal_float s))"

section \<open>Laws\<close>

lemma flt_less_irrefl [simp]: "\<not> flt_less x x"
  by (cases x) auto

lemma flt_le_refl: "x \<noteq> Nan \<Longrightarrow> flt_le x x"
  by (cases x) auto

lemma flt_less_le: "flt_less x y \<Longrightarrow> flt_le x y"
  by (cases x; cases y) auto

lemma flt_not_less: "x \<noteq> Nan \<Longrightarrow> y \<noteq> Nan \<Longrightarrow> \<not> flt_less x y \<longleftrightarrow> flt_le y x"
  by (cases x; cases y) auto

lemma flt_le_trans: "flt_le x y \<Longrightarrow> flt_le y z \<Longrightarrow> flt_le x z"
  by (cases x; cases y; cases z) auto

end
