(* ===== verification/Config.thy ===== *)
theory Config
  imports Floats Models
begin

text \<open>
  \<^verbatim>\<open>config.py\<close>: \<^verbatim>\<open>HubSettings.from_env\<close>, \<^verbatim>\<open>bounded_wait\<close> and \<^verbatim>\<open>profile_from_env\<close>. An environment
  is a partial map. What the operating system and \<^verbatim>\<open>ipaddress\<close> answer is a parameter (\<open>host_os\<close>):
  the expansion of a home directory, the checkout above the installed module, IP literals. Paths
  are POSIX.
\<close>

section \<open>Constants and errors\<close>

definition DEFAULT_WAIT_S :: rat where "DEFAULT_WAIT_S = 120"

definition MAX_WAIT_FACTOR :: rat where "MAX_WAIT_FACTOR = 5 / 2"

definition DEFAULT_LOST_AFTER_S :: rat where "DEFAULT_LOST_AFTER_S = 180"

definition DEFAULT_SWEEP_INTERVAL_S :: rat where "DEFAULT_SWEEP_INTERVAL_S = 10"

definition HUB_EVENT_LEASE_S :: rat where "HUB_EVENT_LEASE_S = 600"

definition FLAG_VALUES :: "(string \<times> bool) list" where
  "FLAG_VALUES = [('''', False), (''0'', False), (''false'', False), (''off'', False), (''no'', False),
     (''1'', True), (''true'', True), (''on'', True), (''yes'', True)]"

datatype config_error = Config_error string

type_synonym environ = "string \<Rightarrow> string option"

text \<open>An IP literal: its compressed text, whether it is version 6, whether it is unspecified.\<close>

record ip_literal =
  ip_compressed :: string
  ip_v6 :: bool
  ip_unspecified :: bool

record host_os =
  ip_address :: "string \<Rightarrow> ip_literal option"
  expanduser :: "string \<Rightarrow> string"
  home_dir :: string
  checkout_root :: "string option"

definition env_get :: "environ \<Rightarrow> string \<Rightarrow> string \<Rightarrow> string" where
  "env_get env name dflt = (case env name of None \<Rightarrow> dflt | Some v \<Rightarrow> v)"

section \<open>Paths\<close>

definition is_absolute :: "string \<Rightarrow> bool" where
  "is_absolute p = startswith p ''/''"

fun split_on :: "char \<Rightarrow> string \<Rightarrow> string list" where
  "split_on c [] = [[]]"
| "split_on c (d # s) = (if d = c then [] # split_on c s
     else case split_on c s of [] \<Rightarrow> [[d]] | w # ws \<Rightarrow> (d # w) # ws)"

text \<open>\<^verbatim>\<open>Path(text)\<close>: empty and dot components vanish; exactly two leading slashes stay.\<close>

definition path_text :: "string \<Rightarrow> string" where
  "path_text p =
     (let body = join ''/'' (filter (\<lambda>w. w \<noteq> [] \<and> w \<noteq> ''.'') (split_on (CHR ''/'') p));
          root = (if startswith p ''//'' \<and> \<not> startswith p ''///'' then ''//''
                  else if startswith p ''/'' then ''/'' else []) in
      if root @ body = [] then ''.'' else root @ body)"

definition path_join :: "string \<Rightarrow> string \<Rightarrow> string" where
  "path_join base p = (if is_absolute p then path_text p
     else path_text (base @ (if base \<noteq> [] \<and> last base = CHR ''/'' then [] else ''/'') @ p))"

definition path_of :: "host_os \<Rightarrow> string \<Rightarrow> string \<Rightarrow> string" where
  "path_of os value_text base = path_join base (expanduser os (path_text value_text))"

definition default_state_dir :: "host_os \<Rightarrow> environ \<Rightarrow> string" where
  "default_state_dir os env =
     (let xdg = strip (env_get env ''XDG_STATE_HOME'' []);
          base = (if xdg \<noteq> [] then expanduser os (path_text xdg) else path_text []) in
      path_join (if is_absolute base then base else path_join (home_dir os) ''.local/state'') ''agent-hub'')"

definition default_guides_dir :: "host_os \<Rightarrow> string \<Rightarrow> string" where
  "default_guides_dir os state_dir = (case checkout_root os of
     Some repo \<Rightarrow> path_join repo ''guides'' | None \<Rightarrow> path_join state_dir ''guides'')"

definition state_dir_of :: "host_os \<Rightarrow> environ \<Rightarrow> config_error + string" where
  "state_dir_of os env =
     (let raw = strip (env_get env ''HUB_STATE_DIR'' []) in
      if raw = [] then Inr (default_state_dir os env)
      else let d = expanduser os (path_text raw) in
        if is_absolute d then Inr d else Inl (Config_error ''HUB_STATE_DIR must be an absolute path''))"

section \<open>Hosts and durations\<close>

definition host_address :: "host_os \<Rightarrow> string \<Rightarrow> ip_literal option" where
  "host_address os host = ip_address os
     (if startswith host ''['' \<and> host \<noteq> [] \<and> last host = CHR '']''
      then butlast (drop 1 host) else host)"

definition authority :: "string \<Rightarrow> ip_literal option \<Rightarrow> int \<Rightarrow> string" where
  "authority host address port = (case address of
     Some a \<Rightarrow> if ip_v6 a then ''['' @ host @ '']:'' @ show_int port else host @ '':'' @ show_int port
   | None \<Rightarrow> host @ '':'' @ show_int port)"

definition positive_seconds :: "environ \<Rightarrow> string \<Rightarrow> py_float \<Rightarrow> config_error + py_float" where
  "positive_seconds env name dflt = (case env name of
     None \<Rightarrow> Inr dflt
   | Some raw \<Rightarrow> (case read_float raw of
       None \<Rightarrow> Inl (Config_error (name @ '' must be a number of seconds''))
     | Some secs \<Rightarrow> if flt_le secs (Finite 0) then Inl (Config_error (name @ '' must be greater than zero''))
         else Inr secs))"

section \<open>Worker profile\<close>

fun first_declared :: "environ \<Rightarrow> string list \<Rightarrow> string" where
  "first_declared env [] = UNKNOWN"
| "first_declared env (n # ns) = (let v = strip (env_get env n []) in
     if v \<noteq> [] then v else first_declared env ns)"

text \<open>\<^verbatim>\<open>dict.fromkeys\<close>: each item once, in order of first appearance.\<close>

fun once_each :: "'a list \<Rightarrow> 'a list" where
  "once_each [] = []"
| "once_each (x # xs) = x # filter (\<lambda>y. y \<noteq> x) (once_each xs)"

definition profile_from_env :: "environ \<Rightarrow> agent_profile" where
  "profile_from_env env =
     (let m = first_declared env [''HUB_MODEL''];
          caps = map strip (split_on (CHR '','') (env_get env ''HUB_CAPABILITIES'' [])) in
      \<lparr>harness = first_declared env [''HUB_HARNESS'', ''AGENT_RUNTIME''],
       harness_version = first_declared env [''HUB_HARNESS_VERSION''],
       provider = first_declared env [''HUB_PROVIDER''], model = m,
       model_source = (if m = UNKNOWN then Source_unknown else Source_env),
       capabilities = once_each (filter (\<lambda>c. c \<noteq> []) caps), workspace_id = None, declared_model = UNKNOWN\<rparr>)"

section \<open>Settings\<close>

record hub_settings =
  s_host :: string
  s_port :: int
  s_public_url :: string
  s_state_dir :: string
  s_database_path :: string
  s_token :: "string option"
  s_token_file :: string
  s_guides_dir :: string
  s_default_wait :: py_float
  s_max_wait :: py_float
  s_lost_after :: py_float
  s_sweep_interval :: py_float
  s_event_lease :: py_float
  s_call_accounting :: bool
  s_call_log_jsonl :: "string option"

definition bounded_wait :: "hub_settings \<Rightarrow> py_float option \<Rightarrow> py_float" where
  "bounded_wait s requested =
     py_max (Finite 0) (py_min (case requested of None \<Rightarrow> s_default_wait s | Some r \<Rightarrow> r) (s_max_wait s))"

definition public_url_of ::
  "environ \<Rightarrow> string \<Rightarrow> string \<Rightarrow> ip_literal option \<Rightarrow> int \<Rightarrow> config_error + string" where
  "public_url_of env raw_host host address port = (case env ''HUB_PUBLIC_URL'' of
     None \<Rightarrow>
       (if host = ''*'' \<or> (case address of None \<Rightarrow> False | Some a \<Rightarrow> ip_unspecified a) then
          Inl (Config_error (''HUB_PUBLIC_URL must be set when HUB_HOST is the wildcard address '' @ raw_host))
        else Inr (''http://'' @ authority host address port))
   | Some raw \<Rightarrow> let url = rstrip_char (CHR ''/'') (strip raw) in
       if startswith url ''http://'' \<or> startswith url ''https://'' then Inr url
       else Inl (Config_error ''HUB_PUBLIC_URL must be an http(s) URL''))"

definition token_of :: "environ \<Rightarrow> config_error + string option" where
  "token_of env = (case env ''HUB_TOKEN'' of None \<Rightarrow> Inr None
     | Some raw \<Rightarrow> if strip raw = [] then Inl (Config_error ''HUB_TOKEN cannot be empty'') else Inr (Some (strip raw)))"

definition guides_dir_of :: "host_os \<Rightarrow> environ \<Rightarrow> string \<Rightarrow> config_error + string" where
  "guides_dir_of os env state_dir =
     (let raw = strip (env_get env ''HUB_GUIDES_DIR'' []) in
      if raw = [] then Inr (default_guides_dir os state_dir)
      else let d = expanduser os (path_text raw) in
        if is_absolute d then Inr d else Inl (Config_error ''HUB_GUIDES_DIR must be an absolute path''))"

definition call_log_of :: "host_os \<Rightarrow> environ \<Rightarrow> config_error + (bool \<times> string option)" where
  "call_log_of os env =
     (let raw = lower (strip (env_get env ''HUB_CALL_ACCOUNTING'' []));
          jsonl = strip (env_get env ''HUB_CALL_LOG_JSONL'' []) in
      case map_of FLAG_VALUES raw of
        None \<Rightarrow> Inl (Config_error ''HUB_CALL_ACCOUNTING must be 1/0, true/false, on/off or yes/no'')
      | Some flag \<Rightarrow>
          if jsonl = [] then Inr (flag, None)
          else let p = expanduser os (path_text jsonl) in
            if \<not> is_absolute p then Inl (Config_error ''HUB_CALL_LOG_JSONL must be an absolute path'')
            else if \<not> flag then Inl (Config_error ''HUB_CALL_LOG_JSONL requires HUB_CALL_ACCOUNTING=1'')
            else Inr (flag, Some p))"

definition settings_from_env :: "host_os \<Rightarrow> environ \<Rightarrow> config_error + hub_settings" where
  "settings_from_env os env =
     (let raw_host = strip (env_get env ''HUB_HOST'' ''127.0.0.1'') in
      if raw_host = [] then Inl (Config_error ''HUB_HOST cannot be empty'')
      else let address = host_address os raw_host;
               host = (case address of None \<Rightarrow> raw_host | Some a \<Rightarrow> ip_compressed a) in
      ebind (from_option (Config_error ''HUB_PORT must be an integer'')
        (read_int (env_get env ''HUB_PORT'' ''8420''))) (\<lambda>port.
      if \<not> (1 \<le> port \<and> port \<le> 65535) then Inl (Config_error ''HUB_PORT must be between 1 and 65535'')
      else ebind (public_url_of env raw_host host address port) (\<lambda>public_url.
      ebind (token_of env) (\<lambda>token.
      ebind (state_dir_of os env) (\<lambda>state_dir.
      ebind (guides_dir_of os env state_dir) (\<lambda>guides_dir.
      ebind (positive_seconds env ''HUB_DEFAULT_WAIT_S'' (Finite DEFAULT_WAIT_S)) (\<lambda>default_wait.
      ebind (positive_seconds env ''HUB_MAX_WAIT_S'' (flt_scale MAX_WAIT_FACTOR default_wait)) (\<lambda>max_wait.
      if flt_less max_wait default_wait then
        Inl (Config_error ''HUB_MAX_WAIT_S must be at least HUB_DEFAULT_WAIT_S'')
      else ebind (call_log_of os env) (\<lambda>(accounting, jsonl).
      ebind (positive_seconds env ''HUB_LOST_AFTER_S'' (Finite DEFAULT_LOST_AFTER_S)) (\<lambda>lost_after.
      ebind (positive_seconds env ''HUB_SWEEP_INTERVAL_S'' (Finite DEFAULT_SWEEP_INTERVAL_S)) (\<lambda>sweep_interval.
      ebind (positive_seconds env ''HUB_EVENT_LEASE_S'' (Finite HUB_EVENT_LEASE_S)) (\<lambda>event_lease.
      Inr \<lparr>s_host = host, s_port = port, s_public_url = public_url, s_state_dir = state_dir,
           s_database_path = path_of os (env_get env ''HUB_DB_PATH'' ''hub.db'') state_dir, s_token = token,
           s_token_file = path_of os (env_get env ''HUB_TOKEN_FILE'' ''token'') state_dir,
           s_guides_dir = guides_dir, s_default_wait = default_wait, s_max_wait = max_wait,
           s_lost_after = lost_after, s_sweep_interval = sweep_interval, s_event_lease = event_lease,
           s_call_accounting = accounting, s_call_log_jsonl = jsonl\<rparr>))))))))))))"

section \<open>What the settings guarantee\<close>

lemma positive_seconds_Inr:
  "positive_seconds env n d = Inr x \<Longrightarrow> \<not> flt_le d (Finite 0) \<Longrightarrow> \<not> flt_le x (Finite 0)"
  by (auto simp: positive_seconds_def split: option.splits if_splits)

lemma flt_scale_pos: "0 < k \<Longrightarrow> \<not> flt_le x (Finite 0) \<Longrightarrow> \<not> flt_le (flt_scale k x) (Finite 0)"
  by (cases x) (auto simp: zero_less_mult_iff not_le)

lemma public_url_Inr:
  "public_url_of env raw host a p = Inr u \<Longrightarrow> startswith u ''http://'' \<or> startswith u ''https://''"
  by (auto simp: public_url_of_def Let_def startswith_def split: option.splits if_splits)

lemma settings_Inr:
  assumes "settings_from_env os env = Inr s"
  shows "1 \<le> s_port s \<and> s_port s \<le> 65535"
    and "startswith (s_public_url s) ''http://'' \<or> startswith (s_public_url s) ''https://''"
    and "s_token s = Some t \<Longrightarrow> t \<noteq> []"
    and "\<not> flt_le (s_default_wait s) (Finite 0)" "\<not> flt_le (s_max_wait s) (Finite 0)"
    and "\<not> flt_less (s_max_wait s) (s_default_wait s)"
    and "\<not> flt_le (s_lost_after s) (Finite 0)" "\<not> flt_le (s_sweep_interval s) (Finite 0)" "\<not> flt_le (s_event_lease s) (Finite 0)"
    and "s_call_log_jsonl s = Some p \<Longrightarrow> s_call_accounting s \<and> is_absolute p"
proof -
  from assms obtain port url tok acc jsonl dw mw la si el where
    1: "1 \<le> port" "port \<le> 65535"
    and 2: "public_url_of env (strip (env_get env ''HUB_HOST'' ''127.0.0.1'')) (case host_address os (strip (env_get env ''HUB_HOST'' ''127.0.0.1'')) of
        None \<Rightarrow> strip (env_get env ''HUB_HOST'' ''127.0.0.1'') | Some a \<Rightarrow> ip_compressed a)
        (host_address os (strip (env_get env ''HUB_HOST'' ''127.0.0.1''))) port = Inr url"
    and 3: "token_of env = Inr tok" "call_log_of os env = Inr (acc, jsonl)"
    and 4: "positive_seconds env ''HUB_DEFAULT_WAIT_S'' (Finite DEFAULT_WAIT_S) = Inr dw"
    "positive_seconds env ''HUB_MAX_WAIT_S'' (flt_scale MAX_WAIT_FACTOR dw) = Inr mw" "\<not> flt_less mw dw"
    "positive_seconds env ''HUB_LOST_AFTER_S'' (Finite DEFAULT_LOST_AFTER_S) = Inr la"
    "positive_seconds env ''HUB_SWEEP_INTERVAL_S'' (Finite DEFAULT_SWEEP_INTERVAL_S) = Inr si"
    "positive_seconds env ''HUB_EVENT_LEASE_S'' (Finite HUB_EVENT_LEASE_S) = Inr el"
    and s: "s_port s = port" "s_public_url s = url" "s_token s = tok" "s_default_wait s = dw" "s_max_wait s = mw"
    "s_lost_after s = la" "s_sweep_interval s = si" "s_event_lease s = el" "s_call_accounting s = acc" "s_call_log_jsonl s = jsonl"
    by (auto simp: settings_from_env_def Let_def split: if_splits prod.splits)
  have d: "\<not> flt_le dw (Finite 0)" by (rule positive_seconds_Inr [OF 4(1)]) (simp add: DEFAULT_WAIT_S_def)
  show "1 \<le> s_port s \<and> s_port s \<le> 65535" using 1 s by simp
  show "startswith (s_public_url s) ''http://'' \<or> startswith (s_public_url s) ''https://''"
    using public_url_Inr [OF 2] s by simp
  show "t \<noteq> []" if "s_token s = Some t"
    using 3(1) s that by (auto simp: token_of_def split: option.splits if_splits)
  show "\<not> flt_le (s_default_wait s) (Finite 0)" using d s by simp
  have "\<not> flt_le mw (Finite 0)"
    by (rule positive_seconds_Inr [OF 4(2)]) (rule flt_scale_pos [OF _ d], simp add: MAX_WAIT_FACTOR_def)
  then show "\<not> flt_le (s_max_wait s) (Finite 0)" using s by simp
  show "\<not> flt_less (s_max_wait s) (s_default_wait s)" using 4(3) s by simp
  show "\<not> flt_le (s_lost_after s) (Finite 0)" "\<not> flt_le (s_sweep_interval s) (Finite 0)" "\<not> flt_le (s_event_lease s) (Finite 0)"
    unfolding s by (rule positive_seconds_Inr [OF 4(4)] positive_seconds_Inr [OF 4(5)] positive_seconds_Inr [OF 4(6)];
        simp add: DEFAULT_LOST_AFTER_S_def DEFAULT_SWEEP_INTERVAL_S_def HUB_EVENT_LEASE_S_def)+
  show "s_call_accounting s \<and> is_absolute p" if "s_call_log_jsonl s = Some p"
    using 3(2) s that by (auto simp: call_log_of_def Let_def split: option.splits if_splits)
qed

lemma bounded_wait_bounds:
  assumes "flt_less (Finite 0) (s_max_wait s)"
  shows "flt_le (Finite 0) (bounded_wait s r)" "flt_le (bounded_wait s r) (s_max_wait s)"
proof -
  let ?x = "case r of None \<Rightarrow> s_default_wait s | Some r \<Rightarrow> r"
  show "flt_le (Finite 0) (bounded_wait s r)"
    by (auto simp: bounded_wait_def py_max_def dest: flt_less_le)
  show "flt_le (bounded_wait s r) (s_max_wait s)"
    using assms unfolding bounded_wait_def
    by (cases ?x; cases "s_max_wait s") (auto simp: py_max_def py_min_def)
qed

definition demo_os :: host_os where
  "demo_os = \<lparr>ip_address = (\<lambda>s. if s = ''127.0.0.1'' then
       Some \<lparr>ip_compressed = s, ip_v6 = False, ip_unspecified = False\<rparr> else None),
     expanduser = (\<lambda>s. s), home_dir = ''/home/u'', checkout_root = None\<rparr>"

end
