(* ===== verification/WorkerHttp.thy ===== *)
theory WorkerHttp
  imports Config MergeGate
begin

text \<open>
  The transport half of the worker package: \<^verbatim>\<open>worker_mcp/config.py\<close> with \<^verbatim>\<open>workspace.py\<close>, the retry
  loops of \<^verbatim>\<open>client.py\<close> (\<^verbatim>\<open>_request_with_retry\<close>, \<^verbatim>\<open>_post_rpc\<close>, \<^verbatim>\<open>_stream_rpc\<close>) and the exchange
  counters of \<^verbatim>\<open>telemetry.py\<close>. The network is a function from the number of the attempt to what
  comes back; the file system and \<^verbatim>\<open>git\<close> are the parameter \<open>workspace_os\<close>.
\<close>

section \<open>The workspace identity\<close>

record workspace_os =
  resolved :: "string \<Rightarrow> string"
  git_directory :: "string \<Rightarrow> bool"
  git_output :: "string \<Rightarrow> string list \<Rightarrow> string option"
  identity_link :: "string \<Rightarrow> bool"
  identity_mode :: "string \<Rightarrow> nat option"
  identity_text :: "string \<Rightarrow> string option"

definition git :: "workspace_os \<Rightarrow> string \<Rightarrow> string list \<Rightarrow> config_error + string" where
  "git fs ws args = (case git_output fs ws args of
     None \<Rightarrow> Inl (Config_error ''HUB_WORKSPACE must identify an accessible full Git clone'')
   | Some t \<Rightarrow> Inr (strip t))"

definition canonical_workspace :: "workspace_os \<Rightarrow> string \<Rightarrow> config_error + string" where
  "canonical_workspace fs raw =
     (let path = path_text raw in
      if \<not> is_absolute path \<or> resolved fs path \<noteq> path then
        Inl (Config_error ''HUB_WORKSPACE must be an absolute canonical path'')
      else if \<not> git_directory fs path then
        Inl (Config_error ''HUB_WORKSPACE must be a full clone, not a worktree or missing path'')
      else ebind (git fs path [''rev-parse'', ''--show-toplevel'']) (\<lambda>top.
        if resolved fs (path_text top) \<noteq> path then Inl (Config_error ''HUB_WORKSPACE must name the clone root'')
        else ebind (git fs path [''rev-parse'', ''--path-format=absolute'', ''--git-common-dir'']) (\<lambda>common.
        if resolved fs (path_text common) \<noteq> path_join path ''.git'' then
          Inl (Config_error ''HUB_WORKSPACE must have its own Git directory'')
        else ebind (git fs path [''rev-parse'', ''--is-shallow-repository'']) (\<lambda>shallow.
        if shallow \<noteq> ''false'' then Inl (Config_error ''HUB_WORKSPACE must be a full, non-shallow clone'')
        else Inr path))))"

definition workspace_id_ok :: "string \<Rightarrow> bool" where
  "workspace_id_ok s = (length s = 64 \<and> list_all (\<lambda>c. is_hex c \<and> \<not> is_upper c) s)"

text \<open>Every reason is reported as one \<^verbatim>\<open>ConfigurationError\<close> around it.\<close>

definition identity_invalid :: "string \<Rightarrow> config_error" where
  "identity_invalid why = Config_error (''HUB_WORKSPACE identity invalid: '' @ why @ ''; run scripts/bootstrap-workspace.sh'')"

definition identity_checked :: "workspace_os \<Rightarrow> string \<Rightarrow> string \<Rightarrow> json \<Rightarrow> config_error + string" where
  "identity_checked fs ws agent v =
     (case v of
        JObj d \<Rightarrow> (case dict_get ''workspace_id'' d of
            Some (JStr wid) \<Rightarrow>
              if \<not> workspace_id_ok wid then
                Inl (identity_invalid ''workspace_id must be 64 lowercase hexadecimal characters'')
              else if dict_get ''agent'' d \<noteq> Some (JStr agent) \<or> dict_get ''path'' d \<noteq> Some (JStr ws) then
                Inl (identity_invalid ''identity agent/path does not match this workspace'')
              else (case git fs ws [''remote'', ''get-url'', ''origin''] of
                  Inl (Config_error m) \<Rightarrow> Inl (identity_invalid m)
                | Inr origin \<Rightarrow> if dict_get ''repository'' d \<noteq> Some (JStr origin) then
                      Inl (identity_invalid ''identity repository does not match origin'')
                    else Inr wid)
          | _ \<Rightarrow> Inl (identity_invalid ''workspace_id must be 64 lowercase hexadecimal characters''))
      | _ \<Rightarrow> Inl (identity_invalid ''workspace_id must be 64 lowercase hexadecimal characters''))"

text \<open>The workspace id of the identity file; \<^verbatim>\<open>0o077\<close> is the low six bits of the mode.\<close>

definition read_identity :: "workspace_os \<Rightarrow> string \<Rightarrow> string \<Rightarrow> config_error + string" where
  "read_identity fs ws agent =
     (if identity_link fs ws then Inl (identity_invalid ''identity file must not be a symlink'')
      else case identity_mode fs ws of
        None \<Rightarrow> Inl (identity_invalid ''No such file or directory'')
      | Some m \<Rightarrow> if m mod 64 \<noteq> 0 then
            Inl (identity_invalid ''identity file must have owner-only permissions (0600)'')
          else (case identity_text fs ws of
              None \<Rightarrow> Inl (identity_invalid ''No such file or directory'')
            | Some t \<Rightarrow> (case loads t of
                None \<Rightarrow> Inl (identity_invalid ''Expecting value'')
              | Some v \<Rightarrow> identity_checked fs ws agent v)))"

section \<open>Settings of the worker\<close>

definition WORKER_WAIT_S :: rat where "WORKER_WAIT_S = 100"

definition WORKER_HEARTBEAT_S :: rat where "WORKER_HEARTBEAT_S = 30"

definition WORKER_MAX_RETRIES :: int where "WORKER_MAX_RETRIES = 3"

definition WORKER_BACKOFF_S :: rat where "WORKER_BACKOFF_S = 1 / 2"

record worker_settings =
  ws_hub_url :: string
  ws_token :: string
  ws_agent_name :: string
  ws_profile :: agent_profile
  ws_default_wait :: py_float
  ws_heartbeat :: py_float
  ws_max_retries :: int
  ws_backoff :: py_float
  ws_telemetry_log :: "string option"
  ws_workspace :: "string option"

definition non_negative_int :: "environ \<Rightarrow> string \<Rightarrow> int \<Rightarrow> config_error + int" where
  "non_negative_int env name dflt = (case env name of
     None \<Rightarrow> Inr dflt
   | Some raw \<Rightarrow> (case read_int raw of
       None \<Rightarrow> Inl (Config_error (name @ '' must be an integer''))
     | Some v \<Rightarrow> if v < 0 then Inl (Config_error (name @ '' must be zero or greater'')) else Inr v))"

definition optional_absolute_path :: "host_os \<Rightarrow> environ \<Rightarrow> string \<Rightarrow> config_error + string option" where
  "optional_absolute_path os env name =
     (let raw = strip (env_get env name []) in
      if raw = [] then Inr None
      else let p = expanduser os (path_text raw) in
        if is_absolute p then Inr (Some p) else Inl (Config_error (name @ '' must be an absolute path'')))"

definition required_text :: "environ \<Rightarrow> string \<Rightarrow> config_error + string" where
  "required_text env name = (case env name of
     None \<Rightarrow> Inl (Config_error (name @ '' must be set''))
   | Some raw \<Rightarrow> if strip raw = [] then Inl (Config_error (name @ '' must be set'')) else Inr (strip raw))"

definition worker_profile ::
  "workspace_os \<Rightarrow> environ \<Rightarrow> string \<Rightarrow> config_error + (string option \<times> agent_profile)" where
  "worker_profile fs env agent = (case env ''HUB_WORKSPACE'' of
     None \<Rightarrow> Inr (None, profile_from_env env)
   | Some raw \<Rightarrow> ebind (canonical_workspace fs raw) (\<lambda>ws.
       ebind (read_identity fs ws agent) (\<lambda>wid.
       Inr (Some ws, (profile_from_env env)\<lparr>workspace_id := Some wid\<rparr>))))"

definition worker_settings_from_env ::
  "host_os \<Rightarrow> workspace_os \<Rightarrow> environ \<Rightarrow> config_error + worker_settings" where
  "worker_settings_from_env os fs env =
     ebind (required_text env ''HUB_URL'') (\<lambda>url0.
     let url = rstrip_char (CHR ''/'') url0 in
     if \<not> (startswith url ''http://'' \<or> startswith url ''https://'') then
       Inl (Config_error ''HUB_URL must be an http(s) URL'')
     else ebind (required_text env ''HUB_TOKEN'') (\<lambda>token.
     ebind (required_text env ''AGENT_NAME'') (\<lambda>agent.
     ebind (positive_seconds env ''HUB_DEFAULT_WAIT_S'' (Finite WORKER_WAIT_S)) (\<lambda>wait.
     ebind (positive_seconds env ''HUB_HEARTBEAT_S'' (Finite WORKER_HEARTBEAT_S)) (\<lambda>heartbeat.
     ebind (non_negative_int env ''HUB_MAX_RETRIES'' WORKER_MAX_RETRIES) (\<lambda>retries.
     ebind (positive_seconds env ''HUB_BACKOFF_FACTOR_S'' (Finite WORKER_BACKOFF_S)) (\<lambda>backoff.
     ebind (optional_absolute_path os env ''HUB_TELEMETRY_LOG'') (\<lambda>log.
     ebind (worker_profile fs env agent) (\<lambda>(ws, profile).
     Inr \<lparr>ws_hub_url = url, ws_token = token, ws_agent_name = agent, ws_profile = profile,
          ws_default_wait = wait, ws_heartbeat = heartbeat, ws_max_retries = retries, ws_backoff = backoff,
          ws_telemetry_log = log, ws_workspace = ws\<rparr>)))))))))"

section \<open>Exchanges and their count\<close>

text \<open>
  What one attempt brings back: a transport error by its class, or a response. \<open>hr_received\<close> is the
  part of the body that was read; \<open>hr_broken\<close> says that the connection breaks while a streamed body
  is read, after \<open>hr_lines\<close>.
\<close>

record http_response =
  hr_status :: int
  hr_body :: string
  hr_received :: nat
  hr_event_stream :: bool
  hr_lines :: "string list"
  hr_broken :: bool

type_synonym attempt = "string + http_response"

record http_io =
  io_requests :: nat
  io_request_bytes :: nat
  io_response_bytes :: nat
  io_status :: "int option"
  io_retries :: nat

definition new_io :: http_io where
  "new_io = \<lparr>io_requests = 0, io_request_bytes = 0, io_response_bytes = 0, io_status = None, io_retries = 0\<rparr>"

definition count_http_exchange :: "nat \<Rightarrow> http_response \<Rightarrow> bool \<Rightarrow> http_io \<Rightarrow> http_io" where
  "count_http_exchange sent r retried io = io\<lparr>io_requests := io_requests io + 1,
     io_retries := io_retries io + (if retried then 1 else 0),
     io_request_bytes := io_request_bytes io + sent,
     io_response_bytes := io_response_bytes io + hr_received r, io_status := Some (hr_status r)\<rparr>"

definition count_http_retry :: "http_io \<Rightarrow> http_io" where
  "count_http_retry io = io\<lparr>io_retries := io_retries io + 1\<rparr>"

section \<open>Errors of the client\<close>

datatype client_error =
    Worker_protocol json json
  | Http_status_error int
  | Transport_error string
  | Json_decode_error
  | Attribute_error
  | Type_error
  | Key_error
  | Bad_argument string
  | Not_checked_in
  | Guide_not_found string

text \<open>A JSON-RPC \<^verbatim>\<open>error\<close> member as a \<^verbatim>\<open>WorkerProtocolError\<close>.\<close>

definition rpc_failure :: "(rat \<Rightarrow> string) \<Rightarrow> json \<Rightarrow> client_error" where
  "rpc_failure fr err = (case err of
     JObj d \<Rightarrow> Worker_protocol (case dict_get ''code'' d of None \<Rightarrow> JNull | Some c \<Rightarrow> c)
       (case dict_get ''message'' d of None \<Rightarrow> JStr ''Unknown JSON-RPC error'' | Some m \<Rightarrow> m)
   | v \<Rightarrow> Worker_protocol JNull (JStr (py_str fr (Some v))))"

definition no_code :: "string \<Rightarrow> client_error" where
  "no_code m = Worker_protocol JNull (JStr m)"

section \<open>Retrying\<close>

definition RETRYABLE_STATUS_CODES :: "int list" where
  "RETRYABLE_STATUS_CODES = [502, 503, 504]"

definition may_retry :: "worker_settings \<Rightarrow> nat \<Rightarrow> bool" where
  "may_retry s n = (int n < ws_max_retries s)"

definition retryable :: "worker_settings \<Rightarrow> http_response \<Rightarrow> nat \<Rightarrow> bool" where
  "retryable s r n = (hr_status r \<in> set RETRYABLE_STATUS_CODES \<and> may_retry s n)"

text \<open>The pause before attempt \<open>n\<close> is repeated, \<open>n\<close> counted from one, and its telemetry record.\<close>

record retry_note =
  rn_attempt :: nat
  rn_reason :: string
  rn_delay :: py_float

definition retry_note_of :: "worker_settings \<Rightarrow> nat \<Rightarrow> string \<Rightarrow> retry_note" where
  "retry_note_of s n reason = \<lparr>rn_attempt = n, rn_reason = reason, rn_delay = flt_scale (2 ^ (n - 1)) (ws_backoff s)\<rparr>"

type_synonym 'a exchange = "'a \<times> http_io \<times> retry_note list"

definition noted :: "retry_note \<Rightarrow> 'a exchange \<Rightarrow> 'a exchange" where
  "noted note x = (case x of (r, io, notes) \<Rightarrow> (r, io, note # notes))"

function request_with_retry ::
  "worker_settings \<Rightarrow> nat \<Rightarrow> (nat \<Rightarrow> attempt) \<Rightarrow> nat \<Rightarrow> http_io \<Rightarrow> attempt exchange" where
  "request_with_retry s sent net n io = (case net n of
     Inr r \<Rightarrow> if retryable s r n then
         noted (retry_note_of s (Suc n) (''http_'' @ show_int (hr_status r)))
           (request_with_retry s sent net (Suc n) (count_http_exchange sent r True io))
       else (Inr r, count_http_exchange sent r False io, [])
   | Inl cls \<Rightarrow> if may_retry s n then
         noted (retry_note_of s (Suc n) cls) (request_with_retry s sent net (Suc n) (count_http_retry io))
       else (Inl cls, io, []))"
  by pat_completeness auto

termination
  by (relation "measure (\<lambda>(s, sent, net, n, io). nat (ws_max_retries s) - n)")
    (auto simp: may_retry_def retryable_def)

declare request_with_retry.simps [simp del]

definition post_result :: "(rat \<Rightarrow> string) \<Rightarrow> attempt \<Rightarrow> client_error + json" where
  "post_result fr x = (case x of
     Inl cls \<Rightarrow> Inl (Transport_error cls)
   | Inr r \<Rightarrow>
       if 400 \<le> hr_status r then
         (case loads (hr_body r) of
            Some (JObj d) \<Rightarrow> (case dict_get ''error'' d of
                Some err \<Rightarrow> Inl (rpc_failure fr err) | None \<Rightarrow> Inl (Http_status_error (hr_status r)))
          | _ \<Rightarrow> Inl (Http_status_error (hr_status r)))
       else (case loads (hr_body r) of
            None \<Rightarrow> Inl Json_decode_error
          | Some (JObj d) \<Rightarrow> (case dict_get ''error'' d of
                Some err \<Rightarrow> Inl (rpc_failure fr err)
              | None \<Rightarrow> Inr (case dict_get ''result'' d of None \<Rightarrow> JNull | Some v \<Rightarrow> v))
          | Some v \<Rightarrow> Inl (no_code ''Hub response was not a JSON object'')))"

definition post_rpc ::
  "(rat \<Rightarrow> string) \<Rightarrow> worker_settings \<Rightarrow> nat \<Rightarrow> (nat \<Rightarrow> attempt) \<Rightarrow> http_io \<Rightarrow> (client_error + json) exchange" where
  "post_rpc fr s sent net io = (case request_with_retry s sent net 0 io of
     (x, io', notes) \<Rightarrow> (post_result fr x, io', notes))"

section \<open>Server-sent events\<close>

datatype stream_step = Delivered_value json | Stream_failed client_error | Broken

fun read_events :: "(rat \<Rightarrow> string) \<Rightarrow> bool \<Rightarrow> string list \<Rightarrow> stream_step" where
  "read_events fr broken [] = (if broken then Broken
     else Stream_failed (no_code ''SSE stream closed without delivering a data event''))"
| "read_events fr broken (l # ls) =
     (let line = strip l; raw = strip (drop 5 line) in
      if \<not> startswith line ''data:'' \<or> raw = [] then read_events fr broken ls
      else case loads raw of
        None \<Rightarrow> Stream_failed Json_decode_error
      | Some (JObj d) \<Rightarrow> (case dict_get ''error'' d of
            Some err \<Rightarrow> Stream_failed (rpc_failure fr err)
          | None \<Rightarrow> Delivered_value (case dict_get ''result'' d of None \<Rightarrow> JNull | Some v \<Rightarrow> v))
      | Some v \<Rightarrow> Stream_failed (no_code ''SSE chunk was not a JSON object''))"

definition read_stream :: "(rat \<Rightarrow> string) \<Rightarrow> http_response \<Rightarrow> stream_step" where
  "read_stream fr r =
     (if 400 \<le> hr_status r then
        (if hr_broken r then Broken
         else case loads (hr_body r) of
           Some (JObj d) \<Rightarrow> (case dict_get ''error'' d of
               Some err \<Rightarrow> Stream_failed (rpc_failure fr err) | None \<Rightarrow> Stream_failed (Http_status_error (hr_status r)))
         | _ \<Rightarrow> Stream_failed (Http_status_error (hr_status r)))
      else if \<not> hr_event_stream r then
        (if hr_broken r then Broken
         else case loads (hr_body r) of
           None \<Rightarrow> Stream_failed (no_code (''Hub returned non-SSE response: '' @ py_take 200 (hr_body r)))
         | Some v \<Rightarrow> (case v of
             JObj d \<Rightarrow> (case dict_get ''error'' d of
                 Some err \<Rightarrow> Stream_failed (rpc_failure fr err)
               | None \<Rightarrow> (case dict_get ''result'' d of
                   Some x \<Rightarrow> Delivered_value x
                 | None \<Rightarrow> Stream_failed (no_code (''Hub returned unexpected non-streaming response: '' @ py_repr fr v))))
           | _ \<Rightarrow> Stream_failed (no_code (''Hub returned unexpected non-streaming response: '' @ py_str fr (Some v)))))
      else read_events fr (hr_broken r) (hr_lines r))"

text \<open>
  \<^verbatim>\<open>_stream_rpc\<close>: \<open>k\<close> numbers the requests, \<open>n\<close> counts retries. A retried response whose body breaks
  off is counted twice, once for its status and once for the transport error.
\<close>

function stream_with_retry ::
  "(rat \<Rightarrow> string) \<Rightarrow> worker_settings \<Rightarrow> nat \<Rightarrow> (nat \<Rightarrow> attempt) \<Rightarrow> nat \<Rightarrow> nat \<Rightarrow> http_io \<Rightarrow> (client_error + json) exchange" where
  "stream_with_retry fr s sent net k n io = (case net k of
     Inl cls \<Rightarrow> if may_retry s n then
         noted (retry_note_of s (Suc n) cls) (stream_with_retry fr s sent net (Suc k) (Suc n) (count_http_retry io))
       else (Inl (Transport_error cls), io, [])
   | Inr r \<Rightarrow>
       if retryable s r n then
         (if \<not> hr_broken r then
            noted (retry_note_of s (Suc n) (''http_'' @ show_int (hr_status r)))
              (stream_with_retry fr s sent net (Suc k) (Suc n) (count_http_exchange sent r True io))
          else if may_retry s (Suc n) then
            noted (retry_note_of s (Suc (Suc n)) ''ReadError'')
              (stream_with_retry fr s sent net (Suc k) (Suc (Suc n)) (count_http_retry io))
          else (Inl (Transport_error ''ReadError''), io, []))
       else (case read_stream fr r of
           Delivered_value v \<Rightarrow> (Inr v, count_http_exchange sent r False io, [])
         | Stream_failed err \<Rightarrow> (Inl err, count_http_exchange sent r False io, [])
         | Broken \<Rightarrow>
             if may_retry s n then
               noted (retry_note_of s (Suc n) ''ReadError'')
                 (stream_with_retry fr s sent net (Suc k) (Suc n)
                   (count_http_retry (count_http_exchange sent r False io)))
             else (Inl (Transport_error ''ReadError''), count_http_exchange sent r False io, [])))"
  by pat_completeness auto

termination
  by (relation "measure (\<lambda>(fr, s, sent, net, k, n, io). nat (ws_max_retries s) - n)")
    (auto simp: may_retry_def retryable_def)

declare stream_with_retry.simps [simp del]

end
