(* ===== verification/WorkerClient.thy ===== *)
theory WorkerClient
  imports WorkerHttp
begin

text \<open>
  The operations of \<^verbatim>\<open>WorkerHubClient\<close>: what each sends, what it makes of the answer, and what it
  remembers between calls so that a repeated call is recognised by the hub. An operation takes the
  sender (\<^verbatim>\<open>_post_rpc\<close> or \<^verbatim>\<open>_stream_rpc\<close> applied to the payload) as an argument. The readings of
  \<^verbatim>\<open>uuid4().hex\<close> are numbered by call site: the operation id, the message id, the JSON-RPC id.
\<close>

section \<open>State\<close>

record worker_client =
  wc_context :: "string option"
  wc_instance :: string
  wc_task :: "string option"
  wc_questions :: "string \<Rightarrow> (string \<times> json) option"
  wc_results :: "string \<Rightarrow> (dict \<times> string) option"
  wc_checkin :: "(agent_profile \<times> string) option"
  wc_progress :: "string \<Rightarrow> (string \<times> string) option"

definition new_worker :: "string \<Rightarrow> worker_client" where
  "new_worker inst = \<lparr>wc_context = None, wc_instance = inst, wc_task = None, wc_questions = Map.empty,
     wc_results = Map.empty, wc_checkin = None, wc_progress = Map.empty\<rparr>"

type_synonym sender = "json \<Rightarrow> client_error + json"

type_synonym 'a client_call = "(client_error + 'a) \<times> worker_client"

definition checked_in :: "worker_client \<Rightarrow> bool" where
  "checked_in st = (case wc_context st of None \<Rightarrow> False | Some c \<Rightarrow> c \<noteq> [])"

section \<open>Payloads\<close>

definition rpc_payload :: "string \<Rightarrow> string \<Rightarrow> dict \<Rightarrow> json" where
  "rpc_payload rid meth params = JObj [(''jsonrpc'', JStr ''2.0''), (''id'', JStr rid), (''method'', JStr meth),
     (''params'', JObj params)]"

text \<open>The \<^verbatim>\<open>params\<close> of a user message; an absent task or context is left out.\<close>

definition message_params :: "json \<Rightarrow> string option \<Rightarrow> string option \<Rightarrow> string \<Rightarrow> dict \<Rightarrow> dict" where
  "message_params mid task ctx txt md = [(''message'', JObj ([(''messageId'', mid)] @
     (case task of None \<Rightarrow> [] | Some t \<Rightarrow> [(''taskId'', JStr t)]) @
     (case ctx of None \<Rightarrow> [] | Some c \<Rightarrow> [(''contextId'', JStr c)]) @
     [(''role'', JStr ''user''),
      (''parts'', JList [JObj [(''kind'', JStr ''text''), (''text'', JStr txt)]]), (''metadata'', JObj md)]))]"

section \<open>Reading an answer\<close>

text \<open>\<^verbatim>\<open>(value or {})\<close>, on which a method of \<^verbatim>\<open>dict\<close> is called next.\<close>

definition object_or_empty :: "json option \<Rightarrow> client_error + dict" where
  "object_or_empty v = (if \<not> truthy_opt v then Inr []
     else case v of Some (JObj d) \<Rightarrow> Inr d | _ \<Rightarrow> Inl Attribute_error)"

text \<open>\<^verbatim>\<open>(value or [])\<close>, iterated: a string or an object has no element that is an object.\<close>

definition elements_of :: "json option \<Rightarrow> client_error + json list" where
  "elements_of v = (if \<not> truthy_opt v then Inr []
     else case v of Some (JList xs) \<Rightarrow> Inr xs | Some (JStr s) \<Rightarrow> Inr [] | Some (JObj d) \<Rightarrow> Inr []
       | _ \<Rightarrow> Inl Type_error)"

definition part_string :: "json \<Rightarrow> client_error + string" where
  "part_string v = (case v of JStr s \<Rightarrow> Inr s | _ \<Rightarrow> Inl Type_error)"

fun joined_text :: "json list \<Rightarrow> client_error + string" where
  "joined_text [] = Inr []"
| "joined_text (p # ps) =
     ebind (case p of
         JObj d \<Rightarrow> (case dict_get ''text'' d of
             Some v \<Rightarrow> part_string v
           | None \<Rightarrow> (case dict_get ''root'' d of
               Some (JObj r) \<Rightarrow> (case dict_get ''text'' r of Some v \<Rightarrow> part_string v | None \<Rightarrow> Inr [])
             | _ \<Rightarrow> Inr []))
       | _ \<Rightarrow> Inr []) (\<lambda>t. ebind (joined_text ps) (\<lambda>ts. Inr (t @ ts)))"

definition is_true :: "json option \<Rightarrow> bool" where
  "is_true v = (v = Some (JBool True))"

definition timeout_answer :: json where
  "timeout_answer = JObj [(''timeout'', JBool True)]"

section \<open>The profile a worker reports\<close>

definition profile_of :: "worker_settings \<Rightarrow> string list option \<Rightarrow> string option \<Rightarrow> agent_profile" where
  "profile_of s caps mdl =
     (let configured = ws_profile s;
          declared = filter (\<lambda>c. c \<noteq> []) (map strip (case caps of None \<Rightarrow> [] | Some xs \<Rightarrow> xs));
          merged = once_each (capabilities configured @ declared);
          stated = strip (case mdl of None \<Rightarrow> [] | Some m \<Rightarrow> m);
          declared_text = (if stated = [] then UNKNOWN else stated) in
      if model_source configured = Source_unknown \<and> declared_text \<noteq> UNKNOWN then
        configured\<lparr>capabilities := merged, model := declared_text, model_source := Source_declared,
          declared_model := declared_text\<rparr>
      else configured\<lparr>capabilities := merged, declared_model := declared_text\<rparr>)"

section \<open>Check-in\<close>

text \<open>The operation id of a call: the caller's, the one remembered for the same input, or a fresh one.\<close>

definition checkin_operation ::
  "(nat \<Rightarrow> string) \<Rightarrow> worker_client \<Rightarrow> agent_profile \<Rightarrow> string option \<Rightarrow> string \<times> worker_client" where
  "checkin_operation ids st p op = (case op of
     Some i \<Rightarrow> (i, st)
   | None \<Rightarrow> (case wc_checkin st of
       Some (q, i) \<Rightarrow> if q = p then (i, st) else (ids 0, st\<lparr>wc_checkin := Some (p, ids 0)\<rparr>)
     | None \<Rightarrow> (ids 0, st\<lparr>wc_checkin := Some (p, ids 0)\<rparr>)))"

definition checkin_metadata :: "string \<Rightarrow> string \<Rightarrow> string \<Rightarrow> agent_profile \<Rightarrow> dict" where
  "checkin_metadata agent inst op p =
     [(K_AGENT, JStr agent), (K_CAPABILITIES, JList (map JStr (capabilities p))), (K_HARNESS, JStr (harness p)),
      (K_HARNESS_VERSION, JStr (harness_version p)), (K_PROVIDER, JStr (provider p)), (K_MODEL, JStr (model p)),
      (K_MODEL_SOURCE, JStr (model_source_value (model_source p))), (K_DECLARED_MODEL, JStr (declared_model p)),
      (K_SCHEMA_VERSION, JInt 1), (K_OPERATION_ID, JStr op), (K_WORKER_INSTANCE_ID, JStr inst)] @
     (case workspace_id p of None \<Rightarrow> [] | Some w \<Rightarrow> [(K_WORKSPACE_ID, JStr w)])"

definition checkin_payload :: "worker_settings \<Rightarrow> (nat \<Rightarrow> string) \<Rightarrow> string \<Rightarrow> string \<Rightarrow> agent_profile \<Rightarrow> json" where
  "checkin_payload s ids inst op p = rpc_payload (ids 2) ''message/send''
     (message_params (JStr (ids 1)) None None ''READY'' (checkin_metadata (ws_agent_name s) inst op p))"

definition context_of_answer :: "dict \<Rightarrow> client_error + json option" where
  "context_of_answer r = (if truthy_opt (dict_get ''contextId'' r) then Inr (dict_get ''contextId'' r)
     else ebind (object_or_empty (dict_get ''metadata'' r)) (\<lambda>md. Inr (dict_get ''contextId'' md)))"

definition profile_answer :: "agent_profile \<Rightarrow> dict" where
  "profile_answer p = [(''harness'', JStr (harness p)), (''harness_version'', JStr (harness_version p)),
     (''provider'', JStr (provider p)), (''model'', JStr (model p)),
     (''model_source'', JStr (model_source_value (model_source p))), (''capabilities'', JList (map JStr (capabilities p))),
     (''workspace_id'', jopt (workspace_id p)), (''declared_model'', JStr (declared_model p))]"

definition checkin_context :: "json \<Rightarrow> client_error + string" where
  "checkin_context v = (case v of
     JObj r \<Rightarrow> ebind (context_of_answer r) (\<lambda>c. case c of
         Some (JStr x) \<Rightarrow> if x = [] then Inl (no_code ''check_in response did not contain contextId'') else Inr x
       | _ \<Rightarrow> Inl (no_code ''check_in response did not contain contextId''))
   | _ \<Rightarrow> Inl (no_code ''check_in response was not a dict''))"

definition worker_check_in ::
  "worker_settings \<Rightarrow> (nat \<Rightarrow> string) \<Rightarrow> sender \<Rightarrow> worker_client \<Rightarrow> string list option \<Rightarrow> string option \<Rightarrow> string option
   \<Rightarrow> json client_call" where
  "worker_check_in s ids send st caps mdl op =
     (let p = profile_of s caps mdl;
          (i, st1) = checkin_operation ids st p op in
      case ebind (send (checkin_payload s ids (wc_instance st) i p)) checkin_context of
        Inl err \<Rightarrow> (Inl err, st1)
      | Inr ctx \<Rightarrow> (Inr (JObj [(''status'', JStr ''registered''), (''agent'', JStr (ws_agent_name s)),
            (''context_id'', JStr ctx), (''profile'', JObj (profile_answer p))]),
          st1\<lparr>wc_context := Some ctx, wc_task := None, wc_checkin := None\<rparr>))"

section \<open>Heartbeat\<close>

definition heartbeat_payload :: "worker_settings \<Rightarrow> (nat \<Rightarrow> string) \<Rightarrow> worker_client \<Rightarrow> string \<Rightarrow> json" where
  "heartbeat_payload s ids st ctx = rpc_payload (ids 2) ''message/send''
     (message_params (JStr (ids 1)) None (Some ctx) ''HEARTBEAT''
       ([(K_KIND, JStr ''heartbeat''), (K_AGENT, JStr (ws_agent_name s)), (K_WORKER_INSTANCE_ID, JStr (wc_instance st)),
         (K_SCHEMA_VERSION, JInt 1)] @ (case wc_task st of None \<Rightarrow> [] | Some t \<Rightarrow> [(K_CURRENT_TASK_ID, JStr t)])))"

definition worker_heartbeat ::
  "worker_settings \<Rightarrow> (nat \<Rightarrow> string) \<Rightarrow> sender \<Rightarrow> worker_client \<Rightarrow> client_error + bool" where
  "worker_heartbeat s ids send st = (case wc_context st of
     None \<Rightarrow> Inl Not_checked_in
   | Some ctx \<Rightarrow> ebind (send (heartbeat_payload s ids st ctx)) (\<lambda>v. case v of
         JObj r \<Rightarrow> ebind (object_or_empty (dict_get ''metadata'' r)) (\<lambda>md. Inr (is_true (dict_get K_ACCEPTED md)))
       | _ \<Rightarrow> Inl (no_code ''heartbeat response was not a dict'')))"

section \<open>Role guides\<close>

definition role_slug :: "string \<Rightarrow> bool" where
  "role_slug s = (case s of [] \<Rightarrow> False
     | c # r \<Rightarrow> is_lower c \<and> list_all (\<lambda>d. is_lower d \<or> is_digit d \<or> d = CHR ''-'') r)"

definition get_role_guide :: "(string \<Rightarrow> attempt) \<Rightarrow> string \<Rightarrow> client_error + string" where
  "get_role_guide fetch role =
     (let slug = strip role in
      if \<not> role_slug slug then
        Inl (Bad_argument (''Role must be a slug matching [a-z][a-z0-9-]*, got '' @ repr_str role))
      else case fetch (''/guides/'' @ slug @ ''.md'') of
        Inl cls \<Rightarrow> Inl (Transport_error cls)
      | Inr r \<Rightarrow> if hr_status r = 404 then Inl (Guide_not_found slug)
          else if \<not> (200 \<le> hr_status r \<and> hr_status r < 300) then Inl (Http_status_error (hr_status r))
          else Inr (hr_body r))"

section \<open>Waiting for an assignment\<close>

text \<open>The hold as JSON; \<^verbatim>\<open>httpx\<close> refuses to encode NaN and the infinities.\<close>

definition hold_json :: "worker_settings \<Rightarrow> py_float option \<Rightarrow> client_error + json" where
  "hold_json s t = (case (case t of None \<Rightarrow> ws_default_wait s | Some x \<Rightarrow> x) of
     Finite q \<Rightarrow> Inr (JFloat q) | _ \<Rightarrow> Inl (Bad_argument ''Out of range float values are not JSON compliant''))"

definition next_payload :: "(nat \<Rightarrow> string) \<Rightarrow> worker_client \<Rightarrow> json \<Rightarrow> json" where
  "next_payload ids st hold = rpc_payload (ids 2) ''message/stream''
     (message_params (JStr (ids 1)) None (wc_context st) ''NEXT''
       [(K_TIMEOUT_S, hold), (K_WORKER_INSTANCE_ID, JStr (wc_instance st))])"

definition str_field :: "(rat \<Rightarrow> string) \<Rightarrow> string \<Rightarrow> dict \<Rightarrow> json" where
  "str_field fr k d = JStr (py_str fr (dict_get k d))"

definition assignment_answer ::
  "(rat \<Rightarrow> string) \<Rightarrow> worker_client \<Rightarrow> dict \<Rightarrow> dict \<Rightarrow> json client_call" where
  "assignment_answer fr st r md =
     (case ebind (object_or_empty (dict_get ''status'' r)) (\<lambda>status.
        ebind (object_or_empty (dict_get ''message'' status)) (\<lambda>msg.
        ebind (elements_of (dict_get ''parts'' msg)) joined_text)) of
        Inl err \<Rightarrow> (Inl err, st)
      | Inr instructions \<Rightarrow>
          (let tid = (if truthy_opt (dict_get ''id'' r) then Some (py_str fr (dict_get ''id'' r)) else None) in
           (Inr (JObj ([(''task_id'', JStr (case tid of None \<Rightarrow> [] | Some t \<Rightarrow> t)), (''role'', str_field fr K_ROLE md),
               (''title'', str_field fr K_TITLE md), (''instructions'', JStr instructions)] @
               (case dict_get K_PR_HEAD_SHA md of
                  Some (JStr h) \<Rightarrow> if h \<noteq> [] then [(''pr_head_sha'', JStr h)] else [] | _ \<Rightarrow> []))),
            st\<lparr>wc_task := tid\<rparr>)))"

definition await_assignment ::
  "(rat \<Rightarrow> string) \<Rightarrow> worker_settings \<Rightarrow> (nat \<Rightarrow> string) \<Rightarrow> sender \<Rightarrow> worker_client \<Rightarrow> py_float option \<Rightarrow> json client_call" where
  "await_assignment fr s ids send st t =
     (if \<not> checked_in st then (Inl Not_checked_in, st)
      else case ebind (hold_json s t) (\<lambda>hold. send (next_payload ids st hold)) of
        Inl err \<Rightarrow> (Inl err, st)
      | Inr (JObj r) \<Rightarrow> (case object_or_empty (dict_get ''metadata'' r) of
            Inl err \<Rightarrow> (Inl err, st)
          | Inr md \<Rightarrow>
              if is_true (dict_get K_RELEASE md) then (Inr (JObj [(''release'', JBool True)]), st)
              else if is_true (dict_get K_TIMEOUT md) then (Inr timeout_answer, st)
              else assignment_answer fr st r md)
      | Inr v \<Rightarrow> (Inr timeout_answer, st))"

section \<open>Progress\<close>

definition progress_operation ::
  "(nat \<Rightarrow> string) \<Rightarrow> worker_client \<Rightarrow> string \<Rightarrow> string \<Rightarrow> string option \<Rightarrow> string \<times> worker_client" where
  "progress_operation ids st tid msg op = (case op of
     Some i \<Rightarrow> (i, st)
   | None \<Rightarrow> (case wc_progress st tid of
       Some (n, i) \<Rightarrow> if n = msg then (i, st) else (ids 0, st\<lparr>wc_progress := (wc_progress st)(tid \<mapsto> (msg, ids 0))\<rparr>)
     | None \<Rightarrow> (ids 0, st\<lparr>wc_progress := (wc_progress st)(tid \<mapsto> (msg, ids 0))\<rparr>)))"

definition progress_request :: "(nat \<Rightarrow> string) \<Rightarrow> worker_client \<Rightarrow> string \<Rightarrow> string \<Rightarrow> string \<Rightarrow> json" where
  "progress_request ids st tid msg op = rpc_payload (ids 2) ''message/send''
     (message_params (JStr (ids 1)) (Some tid) (wc_context st) msg
       [(K_KIND, JStr ''progress''), (K_SCHEMA_VERSION, JInt 1), (K_OPERATION_ID, JStr op),
        (K_WORKER_INSTANCE_ID, JStr (wc_instance st))])"

definition report_progress ::
  "(nat \<Rightarrow> string) \<Rightarrow> sender \<Rightarrow> worker_client \<Rightarrow> string \<Rightarrow> string \<Rightarrow> string option \<Rightarrow> json client_call" where
  "report_progress ids send st tid msg op =
     (if \<not> checked_in st then (Inl Not_checked_in, st)
      else let (i, st1) = progress_operation ids st tid msg op in
        case send (progress_request ids st tid msg i) of
          Inl err \<Rightarrow> (Inl err, st1)
        | Inr v \<Rightarrow> (Inr (JObj [(''ok'', JBool True), (''note'', JStr msg)]), st1\<lparr>wc_progress := (wc_progress st1)(tid := None)\<rparr>))"

section \<open>Questions\<close>

text \<open>A question asked again on its task goes out under the message id it was first asked under.\<close>

definition question_id ::
  "(nat \<Rightarrow> string) \<Rightarrow> worker_client \<Rightarrow> string \<Rightarrow> string \<Rightarrow> json \<times> worker_client" where
  "question_id ids st tid question = (case wc_questions st tid of
     Some (q, i) \<Rightarrow> if q = question then (i, st)
       else (JStr (ids 1), st\<lparr>wc_questions := (wc_questions st)(tid \<mapsto> (question, JStr (ids 1)))\<rparr>)
   | None \<Rightarrow> (JStr (ids 1), st\<lparr>wc_questions := (wc_questions st)(tid \<mapsto> (question, JStr (ids 1)))\<rparr>))"

definition question_payload :: "(nat \<Rightarrow> string) \<Rightarrow> worker_client \<Rightarrow> string \<Rightarrow> string \<Rightarrow> json \<Rightarrow> json \<Rightarrow> json" where
  "question_payload ids st tid question mid hold = rpc_payload (ids 2) ''message/stream''
     (message_params mid (Some tid) (wc_context st) question
       [(K_KIND, JStr ''question''), (K_TIMEOUT_S, hold), (K_SCHEMA_VERSION, JInt 1),
        (K_WORKER_INSTANCE_ID, JStr (wc_instance st))])"

definition jget :: "string \<Rightarrow> dict \<Rightarrow> json" where
  "jget k d = (case dict_get k d of None \<Rightarrow> JNull | Some v \<Rightarrow> v)"

text \<open>The note of a task that ended: the recorded summary, or the first part of the status message.\<close>

definition ended_note :: "dict \<Rightarrow> dict \<Rightarrow> json \<Rightarrow> client_error + json" where
  "ended_note r msg state = ebind (object_or_empty (dict_get ''metadata'' r)) (\<lambda>md.
     let summary = (case dict_get K_RESULT md of Some (JObj t) \<Rightarrow> jget ''summary'' t | _ \<Rightarrow> JNull) in
     if truthy summary then Inr summary
     else if \<not> truthy_opt (dict_get ''parts'' msg) then Inr state
     else case dict_get ''parts'' msg of
         Some (JList (JObj d # ps)) \<Rightarrow> Inr (jget ''text'' d)
       | Some (JList ps) \<Rightarrow> Inr state
       | Some (JStr t) \<Rightarrow> Inr state
       | Some (JObj d) \<Rightarrow> Inl Key_error
       | _ \<Rightarrow> Inl Type_error)"

definition overridden :: "dict \<Rightarrow> json \<Rightarrow> bool" where
  "overridden msg_metadata state = (dict_get K_KIND msg_metadata = Some (JStr ''state_override'') \<or>
     state \<in> {JStr ''canceled'', JStr ''failed'', JStr ''completed''})"

definition question_answer ::
  "worker_client \<Rightarrow> string \<Rightarrow> string \<Rightarrow> json \<Rightarrow> dict \<Rightarrow> json client_call" where
  "question_answer st tid question mid r =
     (case ebind (object_or_empty (dict_get ''status'' r)) (\<lambda>status.
        ebind (object_or_empty (dict_get ''message'' status)) (\<lambda>msg.
        ebind (object_or_empty (dict_get ''metadata'' msg)) (\<lambda>mm.
        Inr (jget ''state'' status, msg, mm)))) of
        Inl err \<Rightarrow> (Inl err, st)
      | Inr (state, msg, mm) \<Rightarrow>
          if overridden mm state then
            (let st1 = st\<lparr>wc_questions := (wc_questions st)(tid := None), wc_task := None\<rparr> in
             (ebind (ended_note r msg state) (\<lambda>n.
                Inr (JObj [(''task_ended'', JBool True), (''state'', state), (''note'', n)])), st1))
          else (case object_or_empty (dict_get ''metadata'' r) of
              Inl err \<Rightarrow> (Inl err, st)
            | Inr md \<Rightarrow>
                if is_true (dict_get K_TIMEOUT md) then
                  (Inr timeout_answer, st\<lparr>wc_questions := (wc_questions st)(tid \<mapsto>
                     (question, case dict_get K_RETRY md of None \<Rightarrow> mid | Some i \<Rightarrow> i))\<rparr>)
                else (ebind (ebind (elements_of (dict_get ''parts'' r)) joined_text)
                    (\<lambda>t. Inr (JObj [(''reply'', JStr t)])),
                  st\<lparr>wc_questions := (wc_questions st)(tid := None)\<rparr>)))"

definition ask_alice ::
  "worker_settings \<Rightarrow> (nat \<Rightarrow> string) \<Rightarrow> sender \<Rightarrow> worker_client \<Rightarrow> string \<Rightarrow> string \<Rightarrow> py_float option \<Rightarrow> json client_call" where
  "ask_alice s ids send st tid question t =
     (if \<not> checked_in st then (Inl Not_checked_in, st)
      else let (mid, st1) = question_id ids st tid question in
        case ebind (hold_json s t) (\<lambda>hold. send (question_payload ids st tid question mid hold)) of
          Inl err \<Rightarrow> (Inl err, st1)
        | Inr (JObj r) \<Rightarrow> question_answer st1 tid question mid r
        | Inr v \<Rightarrow> (Inr timeout_answer, st1))"

section \<open>Results\<close>

datatype worker_result = Typed_body task_result | Dict_body dict | Status_body string

definition zero_sha :: string where
  "zero_sha = replicate 40 (CHR ''0'')"

definition with_artifacts :: "dict \<Rightarrow> json list \<Rightarrow> dict" where
  "with_artifacts d arts = fold (\<lambda>a d. case a of
     JObj x \<Rightarrow> (case dict_get ''url'' x of
         Some u \<Rightarrow> dict_set ''head_sha'' (JStr zero_sha) (dict_set ''pr_url'' u d) | None \<Rightarrow> d)
   | _ \<Rightarrow> d) arts d"

definition result_body ::
  "(rat \<Rightarrow> string) \<Rightarrow> worker_result \<Rightarrow> string option \<Rightarrow> json list option \<Rightarrow> client_error + (dict \<times> string)" where
  "result_body fr result summary arts = (case result of
     Typed_body r \<Rightarrow> Inr (result_dump r, result_summary r)
   | Dict_body d \<Rightarrow> Inr (d, py_str fr (dict_get ''summary'' d))
   | Status_body t \<Rightarrow>
       (let status = lower (strip t); txt = (case summary of None \<Rightarrow> [] | Some x \<Rightarrow> x) in
        if status \<noteq> ''completed'' \<and> status \<noteq> ''failed'' then
          Inl (Bad_argument (''status must be completed or failed, got '' @ repr_str t))
        else Inr (with_artifacts [(''outcome'', JStr status), (''summary'', JStr txt)]
            (case arts of None \<Rightarrow> [] | Some xs \<Rightarrow> xs), txt)))"

definition terminal_status :: "worker_result \<Rightarrow> dict \<Rightarrow> string" where
  "terminal_status result d =
     (let outcome = dict_get ''outcome'' d; verdict = dict_get ''verdict'' d in
      if outcome = Some (JStr ''completed'') \<or> verdict \<in> {Some (JStr ''approved''), Some (JStr ''changes_requested'')}
      then ''completed''
      else if outcome \<in> {Some (JStr ''blocked''), Some (JStr ''failed'')} \<or> verdict = Some (JStr ''failed'')
      then ''failed''
      else if result = Status_body ''completed'' then ''completed'' else ''failed'')"

definition result_operation ::
  "(nat \<Rightarrow> string) \<Rightarrow> worker_client \<Rightarrow> string \<Rightarrow> dict \<Rightarrow> string option \<Rightarrow> string \<times> worker_client" where
  "result_operation ids st tid d op = (case op of
     Some i \<Rightarrow> (i, st)
   | None \<Rightarrow> (case wc_results st tid of
       Some (q, i) \<Rightarrow> if json_eq (JObj q) (JObj d) then (i, st)
         else (ids 0, st\<lparr>wc_results := (wc_results st)(tid \<mapsto> (d, ids 0))\<rparr>)
     | None \<Rightarrow> (ids 0, st\<lparr>wc_results := (wc_results st)(tid \<mapsto> (d, ids 0))\<rparr>)))"

definition result_request ::
  "(nat \<Rightarrow> string) \<Rightarrow> worker_client \<Rightarrow> string \<Rightarrow> dict \<Rightarrow> string \<Rightarrow> string \<Rightarrow> json list option \<Rightarrow> string \<Rightarrow> json" where
  "result_request ids st tid d txt status arts op = rpc_payload (ids 2) ''message/send''
     (message_params (JStr (ids 1)) (Some tid) (wc_context st) txt
       [(K_KIND, JStr ''result''), (K_STATUS, JStr status), (K_SCHEMA_VERSION, JInt 1), (K_OPERATION_ID, JStr op),
        (K_RESULT, JObj d), (K_ARTIFACTS, JList (case arts of None \<Rightarrow> [] | Some xs \<Rightarrow> xs)),
        (K_WORKER_INSTANCE_ID, JStr (wc_instance st))])"

definition worker_submit_result ::
  "(rat \<Rightarrow> string) \<Rightarrow> (nat \<Rightarrow> string) \<Rightarrow> sender \<Rightarrow> worker_client \<Rightarrow> string \<Rightarrow> worker_result \<Rightarrow> string option
   \<Rightarrow> json list option \<Rightarrow> string option \<Rightarrow> json client_call" where
  "worker_submit_result fr ids send st tid result summary arts op =
     (if \<not> checked_in st then (Inl Not_checked_in, st)
      else let st0 = st\<lparr>wc_questions := (wc_questions st)(tid := None)\<rparr> in
        case result_body fr result summary arts of
          Inl err \<Rightarrow> (Inl err, st0)
        | Inr (d, txt) \<Rightarrow>
            (let status = terminal_status result d; (i, st1) = result_operation ids st0 tid d op in
             case send (result_request ids st tid d txt status arts i) of
               Inl err \<Rightarrow> (Inl err, st1)
             | Inr v \<Rightarrow> (Inr (JObj [(''status'', JStr status), (''task_id'', JStr tid), (''summary'', JStr txt),
                   (''result'', JObj d)]),
                 st1\<lparr>wc_progress := (wc_progress st1)(tid := None), wc_task := None\<rparr>)))"

end
