(* ===== verification/Dumps.thy ===== *)
theory Dumps
  imports Json
begin

text \<open>
  \<^verbatim>\<open>json.dumps(value, sort_keys=...)\<close> with its default separators and \<^verbatim>\<open>ensure_ascii\<close>: what the
  protocol hashes and sends. A string is decoded from UTF-8 to code points, and the points
  outside ASCII are written as escapes, above the basic plane as a surrogate pair.
\<close>

definition continuation :: "string \<Rightarrow> nat \<Rightarrow> nat" where
  "continuation r k = (case drop k r of [] \<Rightarrow> 0 | c # _ \<Rightarrow> of_char c mod 64)"

function code_points :: "string \<Rightarrow> nat list" where
  "code_points s = (case s of [] \<Rightarrow> []
     | c # r \<Rightarrow> let n = (of_char c :: nat) in
        if n < 128 then n # code_points r
        else if n < 224 then ((n mod 32) * 64 + continuation r 0) # code_points (drop 1 r)
        else if n < 240 then ((n mod 16) * 4096 + continuation r 0 * 64 + continuation r 1) # code_points (drop 2 r)
        else ((n mod 8) * 262144 + continuation r 0 * 4096 + continuation r 1 * 64 + continuation r 2)
               # code_points (drop 3 r))"
  by pat_completeness auto
termination
  by (relation "measure length") auto

declare code_points.simps [simp del]

definition u_escape :: "nat \<Rightarrow> string" where
  "u_escape n = [CHR 0x5C, CHR ''u'', hex_digit (n div 4096 mod 16), hex_digit (n div 256 mod 16),
     hex_digit (n div 16 mod 16), hex_digit (n mod 16)]"

definition ascii_escape :: "nat \<Rightarrow> string" where
  "ascii_escape n =
     (if n = 34 then [CHR 0x5C, CHR 0x22] else if n = 92 then [CHR 0x5C, CHR 0x5C]
      else if n = 10 then [CHR 0x5C, CHR ''n''] else if n = 13 then [CHR 0x5C, CHR ''r'']
      else if n = 9 then [CHR 0x5C, CHR ''t''] else if n = 12 then [CHR 0x5C, CHR ''f'']
      else if n = 8 then [CHR 0x5C, CHR ''b'']
      else if 32 \<le> n \<and> n < 127 then [char_of n]
      else if n < 65536 then u_escape n
      else u_escape (55296 + (n - 65536) div 1024) @ u_escape (56320 + (n - 65536) mod 1024))"

definition ascii_quote :: "string \<Rightarrow> string" where
  "ascii_quote s = [CHR 0x22] @ concat (map ascii_escape (code_points s)) @ [CHR 0x22]"

text \<open>A text of printable ASCII is quoted as it stands, which is how it is evaluated.\<close>

definition plain_char :: "char \<Rightarrow> bool" where
  "plain_char c = (let n = (of_char c :: nat) in 32 \<le> n \<and> n < 127 \<and> n \<noteq> 34 \<and> n \<noteq> 92)"

lemma plain_char_code [code]:
  "plain_char (Char b0 b1 b2 b3 b4 b5 b6 b7) = (\<not> b7 \<and> (b5 \<or> b6) \<and>
     \<not> (b0 \<and> b1 \<and> b2 \<and> b3 \<and> b4 \<and> b5 \<and> b6) \<and> \<not> (\<not> b0 \<and> b1 \<and> \<not> b2 \<and> \<not> b3 \<and> \<not> b4 \<and> b5 \<and> \<not> b6) \<and>
     \<not> (\<not> b0 \<and> \<not> b1 \<and> b2 \<and> b3 \<and> b4 \<and> \<not> b5 \<and> b6))"
  by (cases b0; cases b1; cases b2; cases b3; cases b4; cases b5; cases b6; cases b7; simp add: plain_char_def)

lemma ascii_quote_code [code]:
  "ascii_quote s = (if list_all plain_char s then [CHR 0x22] @ s @ [CHR 0x22]
     else [CHR 0x22] @ concat (map ascii_escape (code_points s)) @ [CHR 0x22])"
proof -
  have "concat (map ascii_escape (code_points s)) = s" if "list_all plain_char s" for s
    using that by (induction s) (simp_all add: code_points.simps plain_char_def ascii_escape_def Let_def)
  then show ?thesis by (simp add: ascii_quote_def)
qed

text \<open>\<open>srt\<close> is \<^verbatim>\<open>sort_keys\<close>; \<open>fr\<close> the \<^verbatim>\<open>repr\<close> of a float.\<close>

fun dumps :: "(rat \<Rightarrow> string) \<Rightarrow> bool \<Rightarrow> json \<Rightarrow> string"
and dumps_list :: "(rat \<Rightarrow> string) \<Rightarrow> bool \<Rightarrow> json list \<Rightarrow> string list"
and dumps_items :: "(rat \<Rightarrow> string) \<Rightarrow> bool \<Rightarrow> dict \<Rightarrow> (string \<times> string) list" where
  "dumps fr srt JNull = ''null''"
| "dumps fr srt (JBool b) = (if b then ''true'' else ''false'')"
| "dumps fr srt (JInt i) = show_int i"
| "dumps fr srt (JFloat q) = fr q"
| "dumps fr srt (JStr s) = ascii_quote s"
| "dumps fr srt (JList xs) = ''['' @ join '', '' (dumps_list fr srt xs) @ '']''"
| "dumps fr srt (JObj d) = ''{'' @ join '', '' (map (\<lambda>(k, t). ascii_quote k @ '': '' @ t)
     (if srt then sort_key fst (dumps_items fr srt d) else dumps_items fr srt d)) @ ''}''"
| "dumps_list fr srt [] = []"
| "dumps_list fr srt (x # xs) = dumps fr srt x # dumps_list fr srt xs"
| "dumps_items fr srt [] = []"
| "dumps_items fr srt ((k, v) # d) = (k, dumps fr srt v) # dumps_items fr srt d"

end
