(* ===== verification/Protocol.thy ===== *)
theory Protocol
  imports StoreEvents Config Dumps MergeGate
begin

text \<open>
  \<^verbatim>\<open>protocol.py\<close>, the A2A JSON-RPC surface of the workers: the metadata checks, the objects the
  hub sends, the handlers and the dispatcher. The \<^verbatim>\<open>a2a\<close> package (its pydantic models and their
  JSON) and SHA-256 are a parameter (\<open>a2a_sdk\<close>). A handler is a function of the tables; what it
  committed stays committed when a later step of it raises. The notes for the byte accounting
  are left out.
\<close>

section \<open>Messages\<close>

definition META_KEYS :: "string list" where
  "META_KEYS = [K_KIND, K_AGENT, K_CAPABILITIES, K_HARNESS, K_HARNESS_VERSION, K_PROVIDER, K_MODEL,
     K_MODEL_SOURCE, K_DECLARED_MODEL, K_WORKSPACE_ID, K_STATUS, K_TIMEOUT, K_TIMEOUT_S, K_RETRY, K_RELEASE,
     K_RESULT, K_ROLE, K_TITLE, K_ASSIGNEE, K_LEASE_EXPIRES, K_PR_HEAD_SHA, K_ARTIFACTS, K_STATE, K_SENDER,
     K_TS, K_SCHEMA_VERSION, K_OPERATION_ID, K_WORKER_INSTANCE_ID, K_CURRENT_TASK_ID, K_ACCEPTED]"

text \<open>A part is its \<^verbatim>\<open>model_dump\<close> and, for a text part, its text.\<close>

record a2a_part =
  part_dump :: json
  part_text :: "string option"

datatype a2a_role = Role_agent | Role_user

record a2a_message =
  msg_id :: string
  msg_role :: a2a_role
  msg_parts :: "a2a_part list"
  msg_context :: "string option"
  msg_task :: "string option"
  msg_metadata :: "dict option"

record a2a_artifact =
  art_id :: string
  art_name :: "string option"
  art_parts :: "a2a_part list"

record a2a_task =
  at_id :: string
  at_context :: string
  at_state :: task_state
  at_timestamp :: iso
  at_message :: a2a_message
  at_history :: "a2a_message list option"
  at_artifacts :: "a2a_artifact list option"
  at_metadata :: dict

record a2a_sdk =
  valid_send :: "json \<Rightarrow> string + a2a_message"
  valid_stream :: "json \<Rightarrow> string + a2a_message"
  valid_get :: "json \<Rightarrow> string + (string \<times> int option)"
  valid_cancel :: "json \<Rightarrow> string + string"
  field_message :: "validation_error \<Rightarrow> string"
  wire_part :: "json \<Rightarrow> a2a_part"
  encode_message :: "a2a_message \<Rightarrow> string"
  decode_message :: "string \<Rightarrow> a2a_message"
  encode_task :: "a2a_task \<Rightarrow> string"
  decode_task :: "string \<Rightarrow> a2a_task"
  sha256_hex :: "string \<Rightarrow> string"
  fresh_id :: "nat \<Rightarrow> string"
  sdk_floats :: "rat \<Rightarrow> string"

section \<open>Errors\<close>

datatype rpc_error =
    Invalid_params string
  | Invalid_request string
  | Method_not_found
  | Parse_error
  | Task_not_found
  | Task_not_cancelable string
  | Internal_error

text \<open>What a handler raises; \<open>Refused\<close> is a plain \<^verbatim>\<open>ProtocolError\<close>.\<close>

datatype protocol_exn =
    Refused rpc_error
  | Missing_field string
  | Result_invalid string
  | Bad_schema_version json
  | Raised store_error

type_synonym 'a served = "(protocol_exn + 'a) \<times> hub_db \<times> string list"

definition invalid :: "string \<Rightarrow> protocol_exn" where
  "invalid m = Refused (Invalid_params m)"

section \<open>Metadata checks\<close>

definition schema_version_ok :: "json \<Rightarrow> bool" where
  "schema_version_ok v = (v = JInt 1)"

definition check_schema_version :: "dict \<Rightarrow> protocol_exn + unit" where
  "check_schema_version md = (case dict_get K_SCHEMA_VERSION md of
     None \<Rightarrow> Inr ()
   | Some v \<Rightarrow> if schema_version_ok v then Inr () else Inl (Bad_schema_version v))"

definition require_schema_version :: "dict \<Rightarrow> protocol_exn + unit" where
  "require_schema_version md = (case dict_get K_SCHEMA_VERSION md of
     None \<Rightarrow> Inl (Bad_schema_version (JStr ''metadata.hub.schema_version is required''))
   | Some v \<Rightarrow> if schema_version_ok v then Inr () else Inl (Bad_schema_version v))"

definition require_operation_id :: "dict \<Rightarrow> protocol_exn + string" where
  "require_operation_id md = (case dict_get K_OPERATION_ID md of
     None \<Rightarrow> Inl (Missing_field ''metadata.hub.operation_id is required'')
   | Some (JStr s) \<Rightarrow> if strip s = [] then Inl (Missing_field ''metadata.hub.operation_id must be a non-empty string'')
       else Inr (strip s)
   | Some _ \<Rightarrow> Inl (Missing_field ''metadata.hub.operation_id must be a non-empty string''))"

definition require_worker_instance_id :: "dict \<Rightarrow> protocol_exn + string" where
  "require_worker_instance_id md = (case dict_get K_WORKER_INSTANCE_ID md of
     Some (JStr s) \<Rightarrow> if strip s = [] then Inl (Missing_field ''metadata.hub.worker_instance_id must be a non-empty string'')
       else Inr (strip s)
   | _ \<Rightarrow> Inl (Missing_field ''metadata.hub.worker_instance_id must be a non-empty string''))"

definition require_result :: "dict \<Rightarrow> protocol_exn + dict" where
  "require_result md = (case dict_get K_RESULT md of
     None \<Rightarrow> Inl (Result_invalid ''metadata.hub.result is required'')
   | Some JNull \<Rightarrow> Inl (Result_invalid ''metadata.hub.result is required'')
   | Some (JObj d) \<Rightarrow> Inr d
   | Some _ \<Rightarrow> Inl (Result_invalid ''metadata.hub.result must be an object''))"

definition hash_payload :: "a2a_sdk \<Rightarrow> dict \<Rightarrow> string" where
  "hash_payload sdk payload = sha256_hex sdk (dumps (sdk_floats sdk) True (JObj payload))"

definition message_text :: "a2a_message \<Rightarrow> string" where
  "message_text m = strip (concat [t. p \<leftarrow> msg_parts m, t \<leftarrow> (case part_text p of None \<Rightarrow> [] | Some t \<Rightarrow> [t])])"

definition message_metadata :: "a2a_message \<Rightarrow> dict" where
  "message_metadata m = (case msg_metadata m of None \<Rightarrow> [] | Some d \<Rightarrow> d)"

definition check_message_part_sizes :: "env \<Rightarrow> a2a_message \<Rightarrow> protocol_exn + unit" where
  "check_message_part_sizes e m = (case check_parts e 1 (map part_dump (msg_parts m)) of
     Inl err \<Rightarrow> Inl (Raised err) | Inr u \<Rightarrow> Inr ())"

section \<open>The worker's profile\<close>

definition string_list :: "json option \<Rightarrow> string \<Rightarrow> protocol_exn + string list" where
  "string_list v field = (case v of
     None \<Rightarrow> Inr []
   | Some JNull \<Rightarrow> Inr []
   | Some (JList xs) \<Rightarrow> if list_all is_str xs then Inr [s. JStr s \<leftarrow> xs]
       else Inl (invalid (''metadata.'' @ field @ '' must be a list of strings''))
   | Some _ \<Rightarrow> Inl (invalid (''metadata.'' @ field @ '' must be a list of strings'')))"

definition profile_text :: "dict \<Rightarrow> string \<Rightarrow> protocol_exn + string option" where
  "profile_text md key = (case dict_get key md of
     None \<Rightarrow> Inr None
   | Some JNull \<Rightarrow> Inr None
   | Some (JStr s) \<Rightarrow> Inr (if strip s = [] \<or> strip s = UNKNOWN then None else Some (strip s))
   | Some _ \<Rightarrow> Inl (invalid (''metadata.'' @ key @ '' must be a string'')))"

definition or_unknown :: "string option \<Rightarrow> string" where
  "or_unknown v = (case v of None \<Rightarrow> UNKNOWN | Some s \<Rightarrow> s)"

definition profile_source :: "string option \<Rightarrow> string \<Rightarrow> protocol_exn + model_source" where
  "profile_source m raw = (case parse_model_source raw of
     None \<Rightarrow> Inl (invalid ''metadata.hub.model_source must be one of declared, env, unknown'')
   | Some src \<Rightarrow> if m = None then Inr Source_unknown
       else if src = Source_unknown then
         Inl (invalid ''metadata.hub.model needs metadata.hub.model_source (env or declared)'')
       else Inr src)"

definition read_profile :: "dict \<Rightarrow> protocol_exn + agent_profile" where
  "read_profile md =
     ebind (profile_text md K_MODEL) (\<lambda>m.
     ebind (profile_text md K_MODEL_SOURCE) (\<lambda>raw.
     ebind (profile_source m (or_unknown raw)) (\<lambda>src.
     ebind (string_list (dict_get K_CAPABILITIES md) K_CAPABILITIES) (\<lambda>caps.
     ebind (profile_text md K_HARNESS) (\<lambda>h.
     ebind (profile_text md K_HARNESS_VERSION) (\<lambda>hv.
     ebind (profile_text md K_PROVIDER) (\<lambda>p.
     ebind (profile_text md K_WORKSPACE_ID) (\<lambda>ws.
     ebind (profile_text md K_DECLARED_MODEL) (\<lambda>dm.
     Inr \<lparr>harness = or_unknown h, harness_version = or_unknown hv, provider = or_unknown p,
          model = or_unknown m, model_source = src,
          capabilities = once_each (filter (\<lambda>c. c \<noteq> []) (map strip caps)),
          workspace_id = ws, declared_model = or_unknown dm\<rparr>)))))))))"

section \<open>What the hub sends\<close>

definition text_only :: "string \<Rightarrow> a2a_part" where
  "text_only t = \<lparr>part_dump = JObj [(''kind'', JStr ''text''), (''text'', JStr t)], part_text = Some t\<rparr>"

definition agent_message ::
  "a2a_sdk \<Rightarrow> nat \<Rightarrow> string \<Rightarrow> string option \<Rightarrow> string option \<Rightarrow> dict \<Rightarrow> a2a_message" where
  "agent_message sdk n txt ctx tid md = \<lparr>msg_id = fresh_id sdk n, msg_role = Role_agent,
     msg_parts = [text_only txt], msg_context = ctx, msg_task = tid,
     msg_metadata = (if md = [] then None else Some md)\<rparr>"

definition stored_message :: "a2a_sdk \<Rightarrow> message_row \<Rightarrow> a2a_message" where
  "stored_message sdk m = \<lparr>msg_id = show_nat (m_id m),
     msg_role = (if m_direction m = To_alice then Role_user else Role_agent),
     msg_parts = [wire_part sdk (JObj (normalize_part d)). JObj d \<leftarrow> m_parts m],
     msg_context = Some (m_context m), msg_task = m_task m,
     msg_metadata = Some [(K_SENDER, JStr (m_sender m)), (K_TS, JInt (m_ts m))]\<rparr>"

fun reported_artifacts :: "a2a_sdk \<Rightarrow> nat \<Rightarrow> json list \<Rightarrow> a2a_artifact list" where
  "reported_artifacts sdk n [] = []"
| "reported_artifacts sdk n (item # items) =
     (let payload = (case item of JObj d \<Rightarrow> d | _ \<Rightarrow> [(''value'', item)]) in
      \<lparr>art_id = fresh_id sdk n,
       art_name = (case dict_get ''name'' payload of Some (JStr s) \<Rightarrow> Some s | _ \<Rightarrow> None),
       art_parts = [text_only (dumps (sdk_floats sdk) True (JObj payload))]\<rparr>
      # reported_artifacts sdk (Suc n) items)"

fun field_artifacts :: "a2a_sdk \<Rightarrow> nat \<Rightarrow> dict \<Rightarrow> string list \<Rightarrow> a2a_artifact list" where
  "field_artifacts sdk n result [] = []"
| "field_artifacts sdk n result (f # fs) = (case dict_get f result of
     Some (JStr s) \<Rightarrow> if s = [] then field_artifacts sdk n result fs
       else \<lparr>art_id = fresh_id sdk n, art_name = Some f, art_parts = [text_only s]\<rparr> # field_artifacts sdk (Suc n) result fs
   | _ \<Rightarrow> field_artifacts sdk n result fs)"

definition artifacts_of :: "a2a_sdk \<Rightarrow> nat \<Rightarrow> task_row \<Rightarrow> a2a_artifact list option" where
  "artifacts_of sdk n t =
     (let result = (case t_result t of None \<Rightarrow> [] | Some d \<Rightarrow> d);
          reported = (case dict_get ''artifacts'' result of Some (JList xs) \<Rightarrow> reported_artifacts sdk n xs | _ \<Rightarrow> []);
          found = reported @ field_artifacts sdk (n + length reported) result
            [''pr_url'', ''head_sha'', ''reviewed_head_sha'', ''review_url''] in
      if found = [] then None else Some found)"

definition bound_head :: "task_row \<Rightarrow> dict" where
  "bound_head t = (case t_pr_head_sha t of None \<Rightarrow> [] | Some h \<Rightarrow> [(K_PR_HEAD_SHA, JStr h)])"

definition task_object ::
  "a2a_sdk \<Rightarrow> nat \<Rightarrow> task_row \<Rightarrow> string \<Rightarrow> a2a_message list option \<Rightarrow> a2a_message option \<Rightarrow> a2a_task" where
  "task_object sdk n t ctx history status_message = \<lparr>at_id = t_id t, at_context = ctx, at_state = t_state t,
     at_timestamp = t_updated t,
     at_message = (case status_message of Some m \<Rightarrow> m
       | None \<Rightarrow> agent_message sdk n (t_instructions t) (Some ctx) (Some (t_id t))
           (dict_merge [(K_KIND, JStr ''assignment''), (K_ROLE, JStr (t_role t)), (K_TITLE, JStr (t_title t))] (bound_head t))),
     at_history = history, at_artifacts = artifacts_of sdk (Suc n) t,
     at_metadata = dict_merge [(K_ROLE, JStr (t_role t)), (K_TITLE, JStr (t_title t)), (K_ASSIGNEE, jopt (t_assignee t)),
       (K_LEASE_EXPIRES, case t_lease_expires t of None \<Rightarrow> JNull | Some x \<Rightarrow> JInt x),
       (K_RESULT, case t_result t of None \<Rightarrow> JNull | Some d \<Rightarrow> JObj d)] (bound_head t)\<rparr>"

definition timeout_message :: "a2a_sdk \<Rightarrow> nat \<Rightarrow> string \<Rightarrow> string option \<Rightarrow> string option \<Rightarrow> a2a_message" where
  "timeout_message sdk n ctx tid sent_as = agent_message sdk n ''TIMEOUT'' (Some ctx) tid
     ([(K_KIND, JStr ''timeout''), (K_TIMEOUT, JBool True)] @
      (case sent_as of None \<Rightarrow> [] | Some s \<Rightarrow> [(K_RETRY, JStr s)]))"

end
