(* ===== verification/ProtocolServe.thy ===== *)
theory ProtocolServe
  imports Protocol
begin

text \<open>
  The handlers of \<^verbatim>\<open>A2AProtocol\<close> and its dispatcher. A held response is the description of its
  stream (\<open>rpc_stream\<close>); what the stream finally carries is \<open>assignment_chunk\<close> and \<open>reply_chunk\<close>
  applied to the outcome of the wait, whose loop is modelled in \<^verbatim>\<open>Waits\<close>.
\<close>

section \<open>Sequencing store calls\<close>

definition served :: "hub_db \<Rightarrow> protocol_exn + 'a \<Rightarrow> 'a served" where
  "served db x = (x, db, [])"

definition commit :: "hub_db \<Rightarrow> 'a outcome \<Rightarrow> 'a served" where
  "commit db x = (case x of Inl err \<Rightarrow> (Inl (Raised err), db, []) | Inr (r, d, ks) \<Rightarrow> (Inr r, d, ks))"

definition sbind :: "'a served \<Rightarrow> ('a \<Rightarrow> hub_db \<Rightarrow> 'b served) \<Rightarrow> 'b served" where
  "sbind m f = (case m of (Inl e, d, ks) \<Rightarrow> (Inl e, d, ks)
     | (Inr x, d, ks) \<Rightarrow> (case f x d of (y, d', ks') \<Rightarrow> (y, d', ks @ ks')))"

definition pbind :: "hub_db \<Rightarrow> protocol_exn + 'a \<Rightarrow> ('a \<Rightarrow> 'b served) \<Rightarrow> 'b served" where
  "pbind db x f = (case x of Inl e \<Rightarrow> (Inl e, db, []) | Inr y \<Rightarrow> f y)"

definition raised :: "store_error + 'a \<Rightarrow> protocol_exn + 'a" where
  "raised x = (case x of Inl e \<Rightarrow> Inl (Raised e) | Inr y \<Rightarrow> Inr y)"

text \<open>The response text of an idempotent mutation.\<close>

definition reply_json :: "'r reply \<Rightarrow> string" where
  "reply_json r = (case r of Pair_json s fresh \<Rightarrow> s | _ \<Rightarrow> [])"

section \<open>Who is calling\<close>

definition require_current_instance :: "agent_row \<Rightarrow> dict \<Rightarrow> protocol_exn + agent_row" where
  "require_current_instance agent md =
     ebind (require_worker_instance_id md) (\<lambda>i.
     if i \<noteq> a_instance agent then
       Inl (invalid (''worker instance for agent '' @ a_name agent @ '' has been superseded''))
     else if a_status agent = Lost then
       Inl (invalid (''agent '' @ a_name agent @ '' is lost; check in with a new worker instance''))
     else Inr agent)"

definition named_agent :: "hub_db \<Rightarrow> dict \<Rightarrow> protocol_exn + agent_row" where
  "named_agent db md = (case dict_get K_AGENT md of
     Some (JStr name) \<Rightarrow>
       if strip name = [] then Inl (invalid ''the message needs a contextId or metadata.hub.agent'')
       else (case agent_by_name db (strip name) of
           None \<Rightarrow> Inl (invalid (''unknown agent '' @ repr_str name @ ''; check in first''))
         | Some agent \<Rightarrow> require_current_instance agent md)
   | _ \<Rightarrow> Inl (invalid ''the message needs a contextId or metadata.hub.agent''))"

definition resolve_agent :: "hub_db \<Rightarrow> a2a_message \<Rightarrow> dict \<Rightarrow> protocol_exn + agent_row" where
  "resolve_agent db m md = (case msg_context m of
     Some ctx \<Rightarrow> if ctx = [] then named_agent db md
       else (case agent_by_context db ctx of
           None \<Rightarrow> Inl (invalid (''unknown contextId '' @ repr_str ctx @ ''; check in first''))
         | Some agent \<Rightarrow> require_current_instance agent md)
   | None \<Rightarrow> named_agent db md)"

definition owned_task :: "hub_db \<Rightarrow> string \<Rightarrow> agent_row \<Rightarrow> protocol_exn + task_row" where
  "owned_task db tid agent = (case get_task db tid of
     None \<Rightarrow> Inl (Refused Task_not_found)
   | Some t \<Rightarrow> if t_assignee t \<noteq> Some (a_name agent) then
         Inl (invalid (''task '' @ tid @ '' is not assigned to '' @ a_name agent))
       else Inr t)"

section \<open>message/send\<close>

datatype a2a_result = A_message a2a_message | A_task a2a_task

definition check_in_payload :: "string \<Rightarrow> string \<Rightarrow> agent_profile \<Rightarrow> dict" where
  "check_in_payload name inst p = [(''intent'', JStr ''check_in''), (''agent'', JStr name),
     (''worker_instance_id'', JStr inst), (''capabilities'', JList (map JStr (sort (capabilities p)))),
     (''harness'', JStr (harness p)), (''harness_version'', JStr (harness_version p)),
     (''provider'', JStr (provider p)), (''model'', JStr (model p)),
     (''model_source'', JStr (model_source_value (model_source p))),
     (''declared_model'', JStr (declared_model p)), (''workspace_id'', jopt (workspace_id p))]"

definition registered_message :: "a2a_sdk \<Rightarrow> agent_row \<Rightarrow> a2a_message" where
  "registered_message sdk a = agent_message sdk 0 ''REGISTERED'' (Some (a_context_id a)) None
     [(K_KIND, JStr ''check_in_ack''), (K_AGENT, JStr (a_name a)),
      (K_STATUS, JStr (agent_status_value (a_status a))), (K_WORKER_INSTANCE_ID, JStr (a_instance a))]"

definition named :: "dict \<Rightarrow> string \<Rightarrow> protocol_exn + string" where
  "named md what = (case dict_get K_AGENT md of
     Some (JStr name) \<Rightarrow> if strip name = [] then Inl (invalid (what @ '' requires metadata.hub.agent''))
       else Inr (strip name)
   | _ \<Rightarrow> Inl (invalid (what @ '' requires metadata.hub.agent'')))"

definition serve_check_in ::
  "env \<Rightarrow> a2a_sdk \<Rightarrow> hub_db \<Rightarrow> a2a_message \<Rightarrow> dict \<Rightarrow> string option \<Rightarrow> a2a_result served" where
  "serve_check_in e sdk db m md addr =
     (if upper (message_text m) \<noteq> ''READY'' then
        served db (Inl (invalid ''a message with no taskId must be the READY check-in''))
      else pbind db (require_schema_version md) (\<lambda>_.
        pbind db (require_operation_id md) (\<lambda>op.
        pbind db (require_worker_instance_id md) (\<lambda>inst.
        pbind db (named md ''check-in'') (\<lambda>name.
        pbind db (read_profile md) (\<lambda>profile.
        sbind (commit db (check_in e db name profile (Some inst) (Some op)
            (Some (hash_payload sdk (check_in_payload name inst profile)))
            (Some (\<lambda>a. encode_message sdk (registered_message sdk a))) addr))
          (\<lambda>r d. served d (Inr (A_message (decode_message sdk (reply_json r)))))))))))"

definition current_task_field :: "dict \<Rightarrow> protocol_exn + string option" where
  "current_task_field md = (case dict_get K_CURRENT_TASK_ID md of
     None \<Rightarrow> Inr None
   | Some JNull \<Rightarrow> Inr None
   | Some (JStr s) \<Rightarrow> if strip s = [] then
         Inl (invalid ''metadata.hub.current_task_id must be a non-empty string when present'')
       else Inr (Some (strip s))
   | Some _ \<Rightarrow> Inl (invalid ''metadata.hub.current_task_id must be a non-empty string when present''))"

definition serve_heartbeat ::
  "env \<Rightarrow> a2a_sdk \<Rightarrow> hub_db \<Rightarrow> dict \<Rightarrow> string option \<Rightarrow> a2a_result served" where
  "serve_heartbeat e sdk db md addr =
     pbind db (require_schema_version md) (\<lambda>_.
     pbind db (named md ''heartbeat'') (\<lambda>name.
     pbind db (require_worker_instance_id md) (\<lambda>inst.
     pbind db (current_task_field md) (\<lambda>cur.
     sbind (commit db (heartbeat e db name inst cur None addr)) (\<lambda>accepted d.
       served d (Inr (A_message (agent_message sdk 0 ''HEARTBEAT''
         (map_option a_context_id (agent_by_name d name)) None
         [(K_KIND, JStr ''heartbeat_ack''), (K_AGENT, JStr name), (K_ACCEPTED, JBool accepted)]))))))))"

definition progress_ack :: "a2a_sdk \<Rightarrow> string \<Rightarrow> string \<Rightarrow> a2a_message" where
  "progress_ack sdk ctx tid = agent_message sdk 0 ''noted'' (Some ctx) (Some tid) [(K_KIND, JStr ''progress_ack'')]"

definition progress_payload :: "string \<Rightarrow> string \<Rightarrow> dict" where
  "progress_payload tid note_text = [(''intent'', JStr ''progress''), (''task_id'', JStr tid), (''note'', JStr note_text)]"

definition serve_progress ::
  "env \<Rightarrow> a2a_sdk \<Rightarrow> hub_db \<Rightarrow> task_row \<Rightarrow> agent_row \<Rightarrow> string \<Rightarrow> dict \<Rightarrow> a2a_result served" where
  "serve_progress e sdk db t a txt md =
     pbind db (require_schema_version md) (\<lambda>_.
     pbind db (require_operation_id md) (\<lambda>op.
     sbind (commit db (record_progress e db (t_id t) (a_name a) txt (Some op)
         (Some (hash_payload sdk (progress_payload (t_id t) txt)))
         (Some (\<lambda>_. encode_message sdk (progress_ack sdk (a_context_id a) (t_id t))))))
       (\<lambda>r d. served d (Inr (A_message (decode_message sdk (reply_json r)))))))"

text \<open>The typed body a role's result is validated against; no entry: by the shape of the result.\<close>

definition typed_body :: "string \<Rightarrow> dict \<Rightarrow> validation_error + task_result" where
  "typed_body role d =
     (case parse_task_role role of
        Some Role_implementer \<Rightarrow> ebind (implementer_validate d) (\<lambda>x. Inr (Implementer_result x))
      | Some Role_reviewer \<Rightarrow> ebind (reviewer_validate d) (\<lambda>x. Inr (Reviewer_result x))
      | Some Role_rebase \<Rightarrow> ebind (rebase_validate d) (\<lambda>x. Inr (Rebase_result x))
      | None \<Rightarrow> if dict_has ''outcome'' d then ebind (implementer_validate d) (\<lambda>x. Inr (Implementer_result x))
          else if dict_has ''verdict'' d then ebind (reviewer_validate d) (\<lambda>x. Inr (Reviewer_result x))
          else Inl (Validator_error (''result must specify '' @ [CHR 0x27] @ ''outcome'' @ [CHR 0x27] @ '' or '' @ [CHR 0x27] @ ''verdict'' @ [CHR 0x27])))"

definition result_refusal :: "a2a_sdk \<Rightarrow> validation_error + 'a \<Rightarrow> protocol_exn + 'a" where
  "result_refusal sdk x = (case x of Inr y \<Rightarrow> Inr y
     | Inl (Validator_error m) \<Rightarrow> Inl (Result_invalid (field_message sdk (Validator_error m)))
     | Inl (Field_error loc) \<Rightarrow> Inl (Result_invalid
         (if loc = [] then field_message sdk (Field_error loc)
          else join ''.'' loc @ '': '' @ field_message sdk (Field_error loc))))"

definition with_summary :: "dict \<Rightarrow> string \<Rightarrow> dict" where
  "with_summary d summary =
     (if \<not> truthy_opt (dict_get ''summary'' d) \<and> summary \<noteq> [] then dict_set ''summary'' (JStr summary) d else d)"

definition result_payload :: "string \<Rightarrow> task_result \<Rightarrow> dict" where
  "result_payload tid r = [(''intent'', JStr ''result''), (''task_id'', JStr tid), (''result'', JObj (result_dump r))]"

definition serve_result ::
  "env \<Rightarrow> a2a_sdk \<Rightarrow> hub_db \<Rightarrow> task_row \<Rightarrow> agent_row \<Rightarrow> string \<Rightarrow> dict \<Rightarrow> a2a_result served" where
  "serve_result e sdk db t a summary md =
     pbind db (require_schema_version md) (\<lambda>_.
     pbind db (require_operation_id md) (\<lambda>op.
     pbind db (require_result md) (\<lambda>raw.
     if MAX_TYPED_RESULT_BYTES < json_size_bytes e (JObj raw) then
       served db (Inl (Raised (too_large (json_size_bytes e (JObj raw)))))
     else pbind db (result_refusal sdk (typed_body (t_role t) (with_summary raw summary))) (\<lambda>typed.
       sbind (commit db (submit_result e db (t_id t) (a_name a) (Some (Typed typed)) [] [] None (Some op)
           (Some (hash_payload sdk (result_payload (t_id t) typed)))
           (Some (\<lambda>done. encode_task sdk (task_object sdk 0 done (a_context_id a) None None)))))
         (\<lambda>r d. served d (Inr (A_task (decode_task sdk (reply_json r)))))))))"

definition serve_send ::
  "env \<Rightarrow> a2a_sdk \<Rightarrow> hub_db \<Rightarrow> a2a_message \<Rightarrow> string option \<Rightarrow> a2a_result served" where
  "serve_send e sdk db m addr =
     (let md = message_metadata m in
      case msg_task m of
        None \<Rightarrow> if dict_get K_KIND md = Some (JStr ''heartbeat'') then serve_heartbeat e sdk db md addr
          else serve_check_in e sdk db m md addr
      | Some tid \<Rightarrow>
          pbind db (resolve_agent db m md) (\<lambda>a.
          pbind db (owned_task db tid a) (\<lambda>t.
          let kind = (case dict_get K_KIND md of None \<Rightarrow> JStr ''progress'' | Some k \<Rightarrow> k) in
          if kind = JStr ''result'' then serve_result e sdk db t a (message_text m) md
          else if kind = JStr ''progress'' then serve_progress e sdk db t a (message_text m) md
          else served db (Inl (invalid (''metadata.hub.kind '' @ py_repr (sdk_floats sdk) kind @
                 '' is not a message/send intent on a task''))))))"

section \<open>message/stream\<close>

datatype rpc_stream =
    Reply_stream task_row agent_row nat py_float string
  | Assignment_stream agent_row py_float

definition wait_of :: "hub_settings \<Rightarrow> dict \<Rightarrow> protocol_exn + py_float" where
  "wait_of settings md = (case dict_get K_TIMEOUT_S md of
     None \<Rightarrow> Inr (bounded_wait settings None)
   | Some JNull \<Rightarrow> Inr (bounded_wait settings None)
   | Some (JInt i) \<Rightarrow> Inr (bounded_wait settings (Some (Finite (of_int i))))
   | Some (JFloat q) \<Rightarrow> Inr (bounded_wait settings (Some (Finite q)))
   | Some _ \<Rightarrow> Inl (invalid ''metadata.hub.timeout_s must be a number of seconds''))"

definition serve_stream :: "env \<Rightarrow> hub_settings \<Rightarrow> hub_db \<Rightarrow> a2a_message \<Rightarrow> rpc_stream served" where
  "serve_stream e settings db m =
     (let md = message_metadata m in
      pbind db (wait_of settings md) (\<lambda>wait.
      case msg_task m of
        Some tid \<Rightarrow>
          if dict_get K_KIND md \<noteq> Some (JStr ''question'') then
            served db (Inl (invalid ''a streaming call on a task must be metadata.hub.kind=question''))
          else pbind db (resolve_agent db m md) (\<lambda>a.
            pbind db (owned_task db tid a) (\<lambda>t.
            if message_text m = [] then served db (Inl (invalid ''a question needs text''))
            else sbind (commit db (open_question e db (t_id t) (a_name a) (message_text m) (msg_id m)))
              (\<lambda>qid d. served d (Inr (Reply_stream t a qid wait (msg_id m))))))
      | None \<Rightarrow>
          if upper (message_text m) \<noteq> ''NEXT'' then
            served db (Inl (invalid ''a streaming call with no taskId must be the NEXT poll''))
          else pbind db (resolve_agent db m md) (\<lambda>a. served db (Inr (Assignment_stream a wait)))))"

definition assignment_chunk :: "a2a_sdk \<Rightarrow> agent_row \<Rightarrow> claim option \<Rightarrow> a2a_result" where
  "assignment_chunk sdk a outcome = (case outcome of
     Some (Released_claim n) \<Rightarrow> A_message (agent_message sdk 0 ''RELEASED'' (Some (a_context_id a)) None
       [(K_KIND, JStr ''release''), (K_RELEASE, JBool True)])
   | None \<Rightarrow> A_message (timeout_message sdk 0 (a_context_id a) None None)
   | Some (Claimed t) \<Rightarrow> A_task (task_object sdk 0 t (a_context_id a) None None))"

definition reply_chunk ::
  "a2a_sdk \<Rightarrow> task_row \<Rightarrow> agent_row \<Rightarrow> string \<Rightarrow> task_row option \<Rightarrow> message_row option \<Rightarrow> a2a_result" where
  "reply_chunk sdk t a sent_as current answer =
     (case (case current of Some c \<Rightarrow> if terminal (t_state c) then Some c else None | None \<Rightarrow> None) of
        Some c \<Rightarrow>
          (let state = task_state_value (t_state c);
               result = (case t_result c of None \<Rightarrow> [] | Some d \<Rightarrow> d);
               note_text = (case dict_get ''summary'' result of None \<Rightarrow> state | Some v \<Rightarrow> py_str (sdk_floats sdk) (Some v)) in
           A_task (task_object sdk 1 c (a_context_id a) None (Some (agent_message sdk 0 note_text
             (Some (a_context_id a)) (Some (t_id c)) [(K_KIND, JStr ''state_override''), (K_STATE, JStr state)]))))
      | None \<Rightarrow> (case answer of
          None \<Rightarrow> A_message (timeout_message sdk 0 (a_context_id a) (Some (t_id t)) (Some sent_as))
        | Some r \<Rightarrow> A_message (stored_message sdk r)))"

section \<open>tasks/get and tasks/cancel\<close>

definition serve_get :: "a2a_sdk \<Rightarrow> hub_db \<Rightarrow> string \<Rightarrow> int option \<Rightarrow> a2a_result served" where
  "serve_get sdk db tid limit = (case get_task db tid of
     None \<Rightarrow> served db (Inl (Refused Task_not_found))
   | Some t \<Rightarrow> pbind db (raised (context_of_task db (t_id t))) (\<lambda>ctx.
       served db (Inr (A_task (task_object sdk 0 t ctx
         (Some (map (stored_message sdk) (task_history db tid limit))) None)))))"

definition cancel_refusal :: "'a served \<Rightarrow> 'a served" where
  "cancel_refusal m = (case m of
     (Inl (Raised (Conflict msg)), d, ks) \<Rightarrow> (Inl (Refused (Task_not_cancelable msg)), d, ks)
   | _ \<Rightarrow> m)"

definition serve_cancel :: "env \<Rightarrow> a2a_sdk \<Rightarrow> hub_db \<Rightarrow> string \<Rightarrow> a2a_result served" where
  "serve_cancel e sdk db tid = (case get_task db tid of
     None \<Rightarrow> served db (Inl (Refused Task_not_found))
   | Some t \<Rightarrow> sbind (cancel_refusal (commit db (cancel_task e db tid))) (\<lambda>c d.
       pbind d (raised (context_of_task d (t_id c))) (\<lambda>ctx.
       served d (Inr (A_task (task_object sdk 0 c ctx None None))))))"

section \<open>The dispatcher\<close>

definition SUPPORTED_METHODS :: "string list" where
  "SUPPORTED_METHODS = [''message/send'', ''message/stream'', ''tasks/get'', ''tasks/cancel'']"

datatype rpc_body = Error_body rpc_error | Result_body a2a_result | Stream_body rpc_stream

record rpc_response =
  resp_status :: nat
  resp_id :: json
  resp_body :: rpc_body

definition error_response :: "json \<Rightarrow> rpc_error \<Rightarrow> nat \<Rightarrow> rpc_response" where
  "error_response rid err status = \<lparr>resp_status = status, resp_id = rid, resp_body = Error_body err\<rparr>"

definition validated :: "string + 'a \<Rightarrow> protocol_exn + 'a" where
  "validated x = (case x of Inl m \<Rightarrow> Inl (invalid m) | Inr y \<Rightarrow> Inr y)"

definition serve_method ::
  "env \<Rightarrow> a2a_sdk \<Rightarrow> hub_settings \<Rightarrow> hub_db \<Rightarrow> string \<Rightarrow> json \<Rightarrow> string option \<Rightarrow> rpc_body served" where
  "serve_method e sdk settings db method payload addr =
     (if method = ''message/send'' then
        pbind db (validated (valid_send sdk payload)) (\<lambda>m.
        pbind db (check_message_part_sizes e m) (\<lambda>_.
        sbind (serve_send e sdk db m addr) (\<lambda>r d. served d (Inr (Result_body r)))))
      else if method = ''message/stream'' then
        pbind db (validated (valid_stream sdk payload)) (\<lambda>m.
        pbind db (check_message_part_sizes e m) (\<lambda>_.
        sbind (serve_stream e settings db m) (\<lambda>r d. served d (Inr (Stream_body r)))))
      else if method = ''tasks/get'' then
        pbind db (validated (valid_get sdk payload)) (\<lambda>(tid, limit).
        sbind (serve_get sdk db tid limit) (\<lambda>r d. served d (Inr (Result_body r))))
      else
        pbind db (validated (valid_cancel sdk payload)) (\<lambda>tid.
        sbind (serve_cancel e sdk db tid) (\<lambda>r d. served d (Inr (Result_body r)))))"

definition exn_response :: "a2a_sdk \<Rightarrow> json \<Rightarrow> protocol_exn \<Rightarrow> rpc_response" where
  "exn_response sdk rid x = (case x of
     Result_invalid m \<Rightarrow> error_response rid (Invalid_params m) 400
   | Bad_schema_version v \<Rightarrow>
       error_response rid (Invalid_params (''unsupported schema_version: '' @ py_repr (sdk_floats sdk) v)) 400
   | Missing_field m \<Rightarrow> error_response rid (Invalid_params m) 400
   | Refused err \<Rightarrow> error_response rid err 200
   | Raised (Payload_too_large m) \<Rightarrow> error_response rid (Invalid_params m) 400
   | Raised (Duplicate_agent m) \<Rightarrow> error_response rid (Invalid_request m) 409
   | Raised (Idempotency_conflict m) \<Rightarrow> error_response rid (Invalid_request m) 409
   | Raised (Not_found m) \<Rightarrow> error_response rid (Invalid_params m) 200
   | Raised (Conflict m) \<Rightarrow> error_response rid (Invalid_request m) 200
   | Raised _ \<Rightarrow> error_response rid Internal_error 200)"

definition request_id_of :: "dict \<Rightarrow> json" where
  "request_id_of d = (case dict_get ''id'' d of
     Some (JStr s) \<Rightarrow> JStr s | Some (JInt i) \<Rightarrow> JInt i | Some (JBool b) \<Rightarrow> JBool b | _ \<Rightarrow> JNull)"

definition dispatch ::
  "env \<Rightarrow> a2a_sdk \<Rightarrow> hub_settings \<Rightarrow> hub_db \<Rightarrow> json \<Rightarrow> string option \<Rightarrow> rpc_response \<times> hub_db \<times> string list" where
  "dispatch e sdk settings db payload addr = (case payload of
     JObj d \<Rightarrow>
       (let rid = request_id_of d in
        case dict_get ''method'' d of
          Some (JStr method) \<Rightarrow>
            if method \<notin> set SUPPORTED_METHODS then (error_response rid Method_not_found 200, db, [])
            else (case serve_method e sdk settings db method payload addr of
                (Inr body, d', ks) \<Rightarrow> (\<lparr>resp_status = 200, resp_id = rid, resp_body = body\<rparr>, d', ks)
              | (Inl x, d', ks) \<Rightarrow> (exn_response sdk rid x, d', ks))
        | _ \<Rightarrow> (error_response rid (Invalid_request ''Request payload validation error'') 200, db, []))
   | _ \<Rightarrow> (error_response JNull (Invalid_request ''Request payload validation error'') 200, db, []))"

end
