(* ===== verification/ProtocolProps.thy ===== *)
theory ProtocolProps
  imports ProtocolServe HubDelivery
begin

text \<open>
  What the dispatcher guarantees, whatever a request carries: it runs at most one store operation,
  a refused request changed nothing, and a request that changed something had shown its schema
  version, its operation id and, on a task, the current instance of the assignee.
\<close>

section \<open>At most one store operation\<close>

text \<open>Either nothing happened, or one operation did and the handler went on to its answer.\<close>

definition one_call :: "hub_db \<Rightarrow> 'a served \<Rightarrow> bool" where
  "one_call db m = (case m of (x, d, ks) \<Rightarrow> d = db \<and> ks = [] \<or> hub_does db d ks \<and> (\<exists>y. x = Inr y))"

named_theorems one_call_intros

lemma one_call_served [one_call_intros]: "one_call db (served db x)"
  by (simp add: one_call_def served_def)

lemma one_call_commit:
  assumes "\<And>r d ks. x = Inr (r, d, ks) \<Longrightarrow> hub_does db d ks"
  shows "one_call db (commit db x)"
  using assms by (auto simp: one_call_def commit_def split: sum.splits)

lemma one_call_pbind [one_call_intros]:
  assumes "\<And>y. x = Inr y \<Longrightarrow> one_call db (f y)"
  shows "one_call db (pbind db x f)"
  using assms by (auto simp: one_call_def pbind_def split: sum.splits)

lemma one_call_sbind:
  assumes "one_call db m" and "\<And>r d ks. m = (Inr r, d, ks) \<Longrightarrow> \<exists>y. f r d = (Inr y, d, [])"
  shows "one_call db (sbind m f)"
proof (cases m)
  case (fields x d ks)
  show ?thesis
  proof (cases x)
    case (Inl err)
    then show ?thesis using assms(1) fields by (simp add: one_call_def sbind_def)
  next
    case (Inr r)
    then obtain y where "f r d = (Inr y, d, [])" using assms(2) fields by blast
    then show ?thesis using assms(1) fields Inr by (auto simp: one_call_def sbind_def)
  qed
qed

lemma one_call_answer [one_call_intros]:
  "one_call db m \<Longrightarrow> one_call db (sbind m (\<lambda>r d. served d (Inr (g r d))))"
  by (rule one_call_sbind) (simp_all add: served_def)

lemma one_call_ops [one_call_intros]:
  "one_call db (commit db (check_in e db name profile inst op hash builder addr))"
  "one_call db (commit db (heartbeat e db name instance_id cur lease addr))"
  "one_call db (commit db (record_progress e db tid agent msg op hash pbuilder))"
  "one_call db (commit db (submit_result e db tid agent result summary artifacts status op hash rbuilder))"
  "one_call db (commit db (open_question e db tid agent msg sent_as))"
  "one_call db (commit db (cancel_task e db tid))"
  by (rule one_call_commit, erule hub_does.Check_in hub_does.Heartbeat hub_does.Progress hub_does.Result
      hub_does.Question hub_does.Cancel)+

lemma one_call_if [one_call_intros]:
  "(c \<Longrightarrow> one_call db x) \<Longrightarrow> (\<not> c \<Longrightarrow> one_call db y) \<Longrightarrow> one_call db (if c then x else y)"
  by simp

lemma one_call_opt [one_call_intros]:
  "(v = None \<Longrightarrow> one_call db x) \<Longrightarrow> (\<And>t. v = Some t \<Longrightarrow> one_call db (f t)) \<Longrightarrow>
   one_call db (case v of None \<Rightarrow> x | Some t \<Rightarrow> f t)"
  by (cases v) simp_all

lemma serve_check_in_once [one_call_intros]: "one_call db (serve_check_in e sdk db m md addr)"
  unfolding serve_check_in_def by (intro one_call_intros)

lemma serve_heartbeat_once [one_call_intros]: "one_call db (serve_heartbeat e sdk db md addr)"
  unfolding serve_heartbeat_def by (intro one_call_intros)

lemma serve_progress_once [one_call_intros]: "one_call db (serve_progress e sdk db t a txt md)"
  unfolding serve_progress_def by (intro one_call_intros)

lemma serve_result_once [one_call_intros]: "one_call db (serve_result e sdk db t a txt md)"
  unfolding serve_result_def by (intro one_call_intros)

lemma serve_send_once [one_call_intros]: "one_call db (serve_send e sdk db m addr)"
  unfolding serve_send_def Let_def by (intro one_call_intros)

lemma serve_stream_once [one_call_intros]: "one_call db (serve_stream e settings db m)"
  unfolding serve_stream_def Let_def by (intro one_call_intros)

lemma serve_get_once [one_call_intros]: "one_call db (serve_get sdk db tid limit)"
  unfolding serve_get_def by (intro one_call_intros)

text \<open>The read after a cancellation cannot fail: the task is there, and so is its assignee.\<close>

lemma context_after_cancel:
  assumes "cancel_task e db tid = Inr (c, d, ks)"
  shows "\<exists>ctx. context_of_task d (t_id c) = Inr ctx"
  using assms
proof (cases rule: cancel_task_cases)
  case (1 t ctx)
  have id: "t_id c = tid" using task_of_id [OF 1(5)] .
  have "t_assignee c = t_assignee t" using 1(1,4,5) by auto
  then have "\<exists>k. task_context_id d c = Inr k"
    using 1(3,4) by (auto simp: task_context_id_def require_agent_def split: option.splits)
  then show ?thesis using 1(5) id by (auto simp: context_of_task_def)
qed

lemma one_call_refusal [one_call_intros]: "one_call db m \<Longrightarrow> one_call db (cancel_refusal m)"
  by (auto simp: one_call_def cancel_refusal_def split: prod.splits sum.splits protocol_exn.splits store_error.splits)

lemma cancel_refusal_Inr: "cancel_refusal m = (Inr c, d, ks) \<Longrightarrow> m = (Inr c, d, ks)"
  by (auto simp: cancel_refusal_def split: prod.splits sum.splits protocol_exn.splits store_error.splits)

lemma commit_Inr: "commit db x = (Inr r, d, ks) \<Longrightarrow> x = Inr (r, d, ks)"
  by (auto simp: commit_def split: sum.splits)

lemma serve_cancel_once [one_call_intros]: "one_call db (serve_cancel e sdk db tid)"
  unfolding serve_cancel_def
proof (intro one_call_opt one_call_served one_call_sbind one_call_refusal one_call_ops)
  fix t c d ks assume "cancel_refusal (commit db (cancel_task e db tid)) = (Inr c, d, ks)"
  then obtain ctx where "context_of_task d (t_id c) = Inr ctx"
    using context_after_cancel commit_Inr cancel_refusal_Inr by metis
  then show "\<exists>y. pbind d (raised (context_of_task d (t_id c))) (\<lambda>ctx. served d (Inr (A_task (task_object sdk 0 c ctx None None))))
      = (Inr y, d, [])"
    by (simp add: pbind_def raised_def served_def)
qed

lemma serve_method_once: "one_call db (serve_method e sdk settings db method payload addr)"
  unfolding serve_method_def case_prod_beta by (intro one_call_intros)

lemma dispatch_cases:
  assumes "dispatch e sdk settings db payload addr = (resp, d, ks)"
  obtains "d = db" "ks = []" "\<exists>err. resp_body resp = Error_body err"
  | p meth x where "payload = JObj p" "dict_get ''method'' p = Some (JStr meth)" "meth \<in> set SUPPORTED_METHODS"
    "serve_method e sdk settings db meth payload addr = (x, d, ks)"
    "resp = (case x of Inr body \<Rightarrow> \<lparr>resp_status = 200, resp_id = request_id_of p, resp_body = body\<rparr>
       | Inl err \<Rightarrow> exn_response sdk (request_id_of p) err)"
  using assms unfolding dispatch_def Let_def error_response_def
  by (auto split: json.splits option.splits if_splits prod.splits sum.splits)

lemma exn_response_error: "\<exists>err. resp_body (exn_response sdk rid x) = Error_body err"
  by (auto simp: exn_response_def error_response_def split: protocol_exn.splits store_error.splits)

section \<open>What an accepted request had shown\<close>

definition accepted :: "rpc_response \<Rightarrow> bool" where
  "accepted resp = (case resp_body resp of Error_body err \<Rightarrow> False | _ \<Rightarrow> True)"

named_theorems served_Inr

lemma served_ok [served_Inr]: "served db x = (Inr y, d, ks) \<longleftrightarrow> x = Inr y \<and> d = db \<and> ks = []"
  by (auto simp: served_def)

lemma commit_ok [served_Inr]: "commit db x = (Inr r, d, ks) \<longleftrightarrow> x = Inr (r, d, ks)"
  by (auto simp: commit_def split: sum.splits)

lemma pbind_ok [served_Inr]: "pbind db x f = (Inr r, d, ks) \<longleftrightarrow> (\<exists>y. x = Inr y \<and> f y = (Inr r, d, ks))"
  by (auto simp: pbind_def split: sum.splits)

lemma answer_ok [served_Inr]:
  "sbind m (\<lambda>r d. served d (Inr (g r d))) = (Inr y, d, ks) \<longleftrightarrow> (\<exists>r. m = (Inr r, d, ks) \<and> y = g r d)"
  by (cases m) (auto simp: sbind_def served_def split: sum.splits)

lemma dispatch_effect:
  assumes "dispatch e sdk settings db payload addr = (resp, d, ks)"
  shows "d = db \<and> ks = [] \<or> hub_does db d ks \<and> accepted resp"
  using assms
proof (cases rule: dispatch_cases)
  case (2 p meth x)
  have "one_call db (x, d, ks)" using serve_method_once [of db e sdk settings meth payload addr] 2(4) by simp
  then have "d = db \<and> ks = [] \<or> hub_does db d ks \<and> (\<exists>y. x = Inr y)" by (simp add: one_call_def)
  moreover have "accepted resp" if "x = Inr y" for y
    using 2(4) that unfolding 2(5) serve_method_def accepted_def
    by (auto simp: served_Inr split: if_splits)
  ultimately show ?thesis by blast
qed simp

lemma exn_response_refused [simp]: "\<not> accepted (exn_response sdk rid x)"
  using exn_response_error [of sdk rid x] by (auto simp: accepted_def)

text \<open>The message a request carries.\<close>

definition carried :: "a2a_sdk \<Rightarrow> string \<Rightarrow> json \<Rightarrow> a2a_message option" where
  "carried sdk method payload = (case payload of
     JObj p \<Rightarrow> if dict_get ''method'' p \<noteq> Some (JStr method) then None
       else if method = ''message/send'' then (case valid_send sdk payload of Inr m \<Rightarrow> Some m | Inl x \<Rightarrow> None)
       else if method = ''message/stream'' then (case valid_stream sdk payload of Inr m \<Rightarrow> Some m | Inl x \<Rightarrow> None)
       else None
   | _ \<Rightarrow> None)"

definition is_heartbeat :: "a2a_message \<Rightarrow> bool" where
  "is_heartbeat m = (msg_task m = None \<and> dict_get K_KIND (message_metadata m) = Some (JStr ''heartbeat''))"

lemma dispatch_send:
  assumes "dispatch e sdk settings db payload addr = (resp, d, ks)"
    and "carried sdk ''message/send'' payload = Some m"
  shows "accepted resp \<longleftrightarrow> check_message_part_sizes e m = Inr () \<and>
      (\<exists>r. serve_send e sdk db m addr = (Inr r, d, ks) \<and>
        resp = \<lparr>resp_status = 200, resp_id = request_id_of (case payload of JObj p \<Rightarrow> p | _ \<Rightarrow> []), resp_body = Result_body r\<rparr>)"
proof -
  from assms(2) obtain p where p: "payload = JObj p" "dict_get ''method'' p = Some (JStr ''message/send'')"
    "valid_send sdk payload = Inr m"
    by (auto simp: carried_def split: json.splits if_splits sum.splits)
  obtain x d' ks' where x: "serve_method e sdk settings db ''message/send'' payload addr = (x, d', ks')" by (rule prod_cases3)
  have r: "(resp, d, ks) = (case x of Inr body \<Rightarrow> \<lparr>resp_status = 200, resp_id = request_id_of p, resp_body = body\<rparr>
      | Inl err \<Rightarrow> exn_response sdk (request_id_of p) err, d', ks')"
    using assms(1) p x by (cases x) (simp_all add: dispatch_def SUPPORTED_METHODS_def Let_def)
  have k: "x = Inr body \<longleftrightarrow> check_message_part_sizes e m = Inr () \<and> (\<exists>r. serve_send e sdk db m addr = (Inr r, d', ks') \<and> body = Result_body r)"
    for body
  proof -
    have "x = Inr body \<longleftrightarrow> serve_method e sdk settings db ''message/send'' payload addr = (Inr body, d', ks')"
      using x by simp
    then show ?thesis using p(3) by (auto simp: serve_method_def validated_def served_Inr)
  qed
  show ?thesis
  proof (cases x)
    case (Inl err)
    then show ?thesis using r k exn_response_error [of sdk "request_id_of p" err] by (auto simp: accepted_def)
  next
    case (Inr body)
    obtain s where s: "check_message_part_sizes e m = Inr ()" "serve_send e sdk db m addr = (Inr s, d', ks')" "body = Result_body s"
      using k [of body] Inr by blast
    have "resp = \<lparr>resp_status = 200, resp_id = request_id_of p, resp_body = body\<rparr>" "d = d'" "ks = ks'"
      using r unfolding Inr by simp_all
    with s p(1) show ?thesis by (simp add: accepted_def)
  qed
qed

lemma dispatch_stream:
  assumes "dispatch e sdk settings db payload addr = (resp, d, ks)" "accepted resp"
    and "carried sdk ''message/stream'' payload = Some m"
  shows "check_message_part_sizes e m = Inr () \<and> (\<exists>r. serve_stream e settings db m = (Inr r, d, ks))"
proof -
  from assms(3) obtain p where p: "payload = JObj p" "dict_get ''method'' p = Some (JStr ''message/stream'')"
    "valid_stream sdk payload = Inr m"
    by (auto simp: carried_def split: json.splits if_splits sum.splits)
  from assms(1) show ?thesis
  proof (cases rule: dispatch_cases)
    case 1
    then show ?thesis using assms(2) by (auto simp: accepted_def)
  next
    case (2 q meth x)
    then obtain y where y: "x = Inr y"
      using assms(2) by (cases x) auto
    have "serve_method e sdk settings db ''message/stream'' payload addr = (Inr y, d, ks)"
      using 2(1,2,4) p(1,2) y by simp
    then show ?thesis using p(3) by (auto simp: serve_method_def validated_def served_Inr)
  qed
qed

text \<open>The agent a message resolves to is in the table, live, and run by the instance that sent it.\<close>

definition current_worker :: "hub_db \<Rightarrow> dict \<Rightarrow> agent_row \<Rightarrow> bool" where
  "current_worker db md a = (a \<in> set (agents db) \<and> a_status a \<noteq> Lost \<and>
     (\<exists>i. dict_get K_WORKER_INSTANCE_ID md = Some (JStr i) \<and> strip i = a_instance a \<and> strip i \<noteq> []))"

lemma require_worker_instance_id_Inr:
  "require_worker_instance_id md = Inr i \<longleftrightarrow> (\<exists>s. dict_get K_WORKER_INSTANCE_ID md = Some (JStr s) \<and> strip s = i \<and> i \<noteq> [])"
  by (auto simp: require_worker_instance_id_def split: option.splits json.splits)

lemma require_current_instance_Inr:
  "require_current_instance x md = Inr a \<longleftrightarrow> a = x \<and> a_status x \<noteq> Lost \<and>
     (\<exists>i. dict_get K_WORKER_INSTANCE_ID md = Some (JStr i) \<and> strip i = a_instance x \<and> strip i \<noteq> [])"
  by (auto simp: require_current_instance_def require_worker_instance_id_Inr split: if_splits)

lemma resolve_agent_Inr:
  assumes "resolve_agent db m md = Inr a"
  shows "current_worker db md a"
  using assms
  by (auto simp: resolve_agent_def named_agent_def current_worker_def require_current_instance_Inr
      agent_by_name_def agent_by_context_def dest: agent_of_mem find_SomeD
      split: option.splits json.splits if_splits)

lemma owned_task_Inr: "owned_task db tid a = Inr t \<longleftrightarrow> task_of db tid = Some t \<and> t_assignee t = Some (a_name a)"
  by (auto simp: owned_task_def get_task_def split: option.splits if_splits)

lemma require_schema_version_Inr: "require_schema_version md = Inr u \<longleftrightarrow> dict_get K_SCHEMA_VERSION md = Some (JInt 1)"
  by (auto simp: require_schema_version_def schema_version_ok_def split: option.splits if_splits)

lemma require_operation_id_Inr:
  "require_operation_id md = Inr op \<longleftrightarrow> (\<exists>s. dict_get K_OPERATION_ID md = Some (JStr s) \<and> strip s = op \<and> op \<noteq> [])"
  by (auto simp: require_operation_id_def split: option.splits json.splits if_splits)

text \<open>The three ways a \<^verbatim>\<open>message/send\<close> other than a heartbeat is accepted.\<close>

lemma serve_send_accepted:
  assumes "serve_send e sdk db m addr = (Inr r, d, ks)" "\<not> is_heartbeat m"
  obtains (check_in) "msg_task m = None" "serve_check_in e sdk db m (message_metadata m) addr = (Inr r, d, ks)"
  | (result) tid a t where "msg_task m = Some tid" "resolve_agent db m (message_metadata m) = Inr a"
      "owned_task db tid a = Inr t" "dict_get K_KIND (message_metadata m) = Some (JStr ''result'')"
      "serve_result e sdk db t a (message_text m) (message_metadata m) = (Inr r, d, ks)"
  | (progress) tid a t where "msg_task m = Some tid" "resolve_agent db m (message_metadata m) = Inr a"
      "owned_task db tid a = Inr t" "dict_get K_KIND (message_metadata m) \<in> {None, Some (JStr ''progress'')}"
      "serve_progress e sdk db t a (message_text m) (message_metadata m) = (Inr r, d, ks)"
  using assms unfolding serve_send_def is_heartbeat_def Let_def
  by (auto simp: served_Inr split: option.splits if_splits)

lemma send_identified:
  assumes "serve_send e sdk db m addr = (Inr r, d, ks)"
  shows "dict_get K_SCHEMA_VERSION (message_metadata m) = Some (JInt 1) \<and>
    (\<not> is_heartbeat m \<longrightarrow> (\<exists>s. dict_get K_OPERATION_ID (message_metadata m) = Some (JStr s) \<and> strip s \<noteq> []))"
proof (cases "is_heartbeat m")
  case True
  then show ?thesis using assms
    by (auto simp: serve_send_def is_heartbeat_def serve_heartbeat_def Let_def served_Inr require_schema_version_Inr)
next
  case False
  from assms False show ?thesis
    by (cases rule: serve_send_accepted)
      (auto simp: serve_check_in_def serve_result_def serve_progress_def served_Inr require_schema_version_Inr
        require_operation_id_Inr split: if_splits)
qed

lemma task_message_owned:
  assumes "dispatch e sdk settings db payload addr = (resp, d, ks)" "accepted resp"
    and "carried sdk method payload = Some m" "msg_task m = Some tid"
  shows "\<exists>a t. current_worker db (message_metadata m) a \<and> task_of db tid = Some t \<and> t_assignee t = Some (a_name a)"
proof -
  have "method = ''message/send'' \<or> method = ''message/stream''"
    using assms(3) by (auto simp: carried_def split: json.splits if_splits)
  then have "\<exists>a t. resolve_agent db m (message_metadata m) = Inr a \<and> owned_task db tid a = Inr t"
  proof
    assume x: "method = ''message/send''"
    obtain r where "serve_send e sdk db m addr = (Inr r, d, ks)"
      using dispatch_send [OF assms(1) assms(3) [unfolded x]] assms(2) by blast
    then show ?thesis using assms(4) by (auto simp: serve_send_def served_Inr Let_def)
  next
    assume x: "method = ''message/stream''"
    obtain r where "serve_stream e settings db m = (Inr r, d, ks)"
      using dispatch_stream [OF assms(1,2) assms(3) [unfolded x]] by blast
    then show ?thesis using assms(4) by (auto simp: serve_stream_def served_Inr Let_def split: if_splits)
  qed
  then show ?thesis using resolve_agent_Inr owned_task_Inr by blast
qed

section \<open>What a request is answered with\<close>

text \<open>
  The contract of the endpoint, one clause for each request it accepts: the store operation the
  request stands for, run on the arguments the request names, and the answer made of the result
  of that very operation. Polling and reading run no operation that changes the hub.
\<close>

definition request_id :: "json \<Rightarrow> json" where
  "request_id payload = request_id_of (case payload of JObj p \<Rightarrow> p | _ \<Rightarrow> [])"

definition calls :: "string \<Rightarrow> json \<Rightarrow> bool" where
  "calls method payload = (case payload of JObj p \<Rightarrow> dict_get ''method'' p = Some (JStr method) | _ \<Rightarrow> False)"

inductive answers ::
  "env \<Rightarrow> a2a_sdk \<Rightarrow> hub_settings \<Rightarrow> hub_db \<Rightarrow> json \<Rightarrow> string option \<Rightarrow> rpc_body \<Rightarrow> hub_db \<Rightarrow> string list \<Rightarrow> bool"
  for e sdk settings db payload addr where
  Registered: "carried sdk ''message/send'' payload = Some m \<Longrightarrow> msg_task m = None \<Longrightarrow>
    upper (message_text m) = ''READY'' \<Longrightarrow> md = message_metadata m \<Longrightarrow>
    dict_get K_AGENT md = Some (JStr n) \<Longrightarrow> dict_get K_WORKER_INSTANCE_ID md = Some (JStr i) \<Longrightarrow>
    dict_get K_OPERATION_ID md = Some (JStr op) \<Longrightarrow> read_profile md = Inr profile \<Longrightarrow>
    check_in e db (strip n) profile (Some (strip i)) (Some (strip op))
      (Some (hash_payload sdk (check_in_payload (strip n) (strip i) profile)))
      (Some (\<lambda>a. encode_message sdk (registered_message sdk a))) addr = Inr (r, d, ks) \<Longrightarrow>
    answers e sdk settings db payload addr (Result_body (A_message (decode_message sdk (reply_json r)))) d ks"
| Beaten: "carried sdk ''message/send'' payload = Some m \<Longrightarrow> is_heartbeat m \<Longrightarrow> md = message_metadata m \<Longrightarrow>
    dict_get K_AGENT md = Some (JStr n) \<Longrightarrow> dict_get K_WORKER_INSTANCE_ID md = Some (JStr i) \<Longrightarrow>
    current_task_field md = Inr cur \<Longrightarrow>
    heartbeat e db (strip n) (strip i) cur None addr = Inr (alive, d, ks) \<Longrightarrow>
    answers e sdk settings db payload addr (Result_body (A_message (agent_message sdk 0 ''HEARTBEAT''
      (map_option a_context_id (agent_of d (strip n))) None
      [(K_KIND, JStr ''heartbeat_ack''), (K_AGENT, JStr (strip n)), (K_ACCEPTED, JBool alive)]))) d ks"
| Noted: "carried sdk ''message/send'' payload = Some m \<Longrightarrow> msg_task m = Some tid \<Longrightarrow> md = message_metadata m \<Longrightarrow>
    dict_get K_KIND md \<in> {None, Some (JStr ''progress'')} \<Longrightarrow> resolve_agent db m md = Inr a \<Longrightarrow>
    task_of db tid = Some t \<Longrightarrow> t_assignee t = Some (a_name a) \<Longrightarrow> dict_get K_OPERATION_ID md = Some (JStr op) \<Longrightarrow>
    record_progress e db tid (a_name a) (message_text m) (Some (strip op))
      (Some (hash_payload sdk (progress_payload tid (message_text m))))
      (Some (\<lambda>_. encode_message sdk (progress_ack sdk (a_context_id a) tid))) = Inr (n, d, ks) \<Longrightarrow>
    answers e sdk settings db payload addr (Result_body (A_message (decode_message sdk (reply_json n)))) d ks"
| Submitted: "carried sdk ''message/send'' payload = Some m \<Longrightarrow> msg_task m = Some tid \<Longrightarrow> md = message_metadata m \<Longrightarrow>
    dict_get K_KIND md = Some (JStr ''result'') \<Longrightarrow> resolve_agent db m md = Inr a \<Longrightarrow>
    task_of db tid = Some t \<Longrightarrow> t_assignee t = Some (a_name a) \<Longrightarrow> dict_get K_OPERATION_ID md = Some (JStr op) \<Longrightarrow>
    require_result md = Inr raw \<Longrightarrow> typed_body (t_role t) (with_summary raw (message_text m)) = Inr typed \<Longrightarrow>
    submit_result e db tid (a_name a) (Some (Typed typed)) [] [] None (Some (strip op))
      (Some (hash_payload sdk (result_payload tid typed)))
      (Some (\<lambda>done. encode_task sdk (task_object sdk 0 done (a_context_id a) None None))) = Inr (x, d, ks) \<Longrightarrow>
    answers e sdk settings db payload addr (Result_body (A_task (decode_task sdk (reply_json x)))) d ks"
| Asked: "carried sdk ''message/stream'' payload = Some m \<Longrightarrow> msg_task m = Some tid \<Longrightarrow> md = message_metadata m \<Longrightarrow>
    dict_get K_KIND md = Some (JStr ''question'') \<Longrightarrow> resolve_agent db m md = Inr a \<Longrightarrow>
    task_of db tid = Some t \<Longrightarrow> t_assignee t = Some (a_name a) \<Longrightarrow> wait_of settings md = Inr wait \<Longrightarrow>
    open_question e db tid (a_name a) (message_text m) (msg_id m) = Inr (q, d, ks) \<Longrightarrow>
    answers e sdk settings db payload addr (Stream_body (Reply_stream t a q wait (msg_id m))) d ks"
| Polled: "carried sdk ''message/stream'' payload = Some m \<Longrightarrow> msg_task m = None \<Longrightarrow>
    upper (message_text m) = ''NEXT'' \<Longrightarrow> md = message_metadata m \<Longrightarrow> resolve_agent db m md = Inr a \<Longrightarrow>
    wait_of settings md = Inr wait \<Longrightarrow>
    answers e sdk settings db payload addr (Stream_body (Assignment_stream a wait)) db []"
| Shown: "calls ''tasks/get'' payload \<Longrightarrow> valid_get sdk payload = Inr (tid, limit) \<Longrightarrow> task_of db tid = Some t \<Longrightarrow>
    context_of_task db tid = Inr ctx \<Longrightarrow>
    answers e sdk settings db payload addr (Result_body (A_task (task_object sdk 0 t ctx
      (Some (map (stored_message sdk) (task_history db tid limit))) None))) db []"
| Cancelled: "calls ''tasks/cancel'' payload \<Longrightarrow> valid_cancel sdk payload = Inr tid \<Longrightarrow>
    cancel_task e db tid = Inr (c, d, ks) \<Longrightarrow> context_of_task d tid = Inr ctx \<Longrightarrow>
    answers e sdk settings db payload addr (Result_body (A_task (task_object sdk 0 c ctx None None))) d ks"

text \<open>Whatever is answered, it is one store operation or none.\<close>

lemma answers_does: "answers e sdk settings db payload addr body d ks \<Longrightarrow> d = db \<and> ks = [] \<or> hub_does db d ks"
  by (induction rule: answers.induct)
    (blast intro: hub_does.Check_in hub_does.Heartbeat hub_does.Progress hub_does.Result hub_does.Question hub_does.Cancel)+

lemma named_Inr: "named md what = Inr n \<longleftrightarrow> (\<exists>s. dict_get K_AGENT md = Some (JStr s) \<and> strip s \<noteq> [] \<and> n = strip s)"
  by (auto simp: named_def split: option.splits json.splits)

lemma result_refusal_Inr: "result_refusal sdk x = Inr y \<longleftrightarrow> x = Inr y"
  by (auto simp: result_refusal_def split: sum.splits validation_error.splits)

lemmas shown_Inr = served_Inr require_schema_version_Inr require_operation_id_Inr require_worker_instance_id_Inr
  named_Inr owned_task_Inr result_refusal_Inr

lemma serve_send_answers:
  assumes c: "carried sdk ''message/send'' payload = Some m" and r: "serve_send e sdk db m addr = (Inr r, d, ks)"
  shows "answers e sdk settings db payload addr (Result_body r) d ks"
proof (cases "is_heartbeat m")
  case True
  then have "serve_heartbeat e sdk db (message_metadata m) addr = (Inr r, d, ks)"
    using r by (simp add: serve_send_def is_heartbeat_def Let_def)
  then show ?thesis
    by (auto simp: serve_heartbeat_def shown_Inr agent_by_name_def intro: answers.Beaten [OF c True refl])
next
  case False
  from r False show ?thesis
  proof (cases rule: serve_send_accepted)
    case check_in
    then show ?thesis
      by (auto simp: serve_check_in_def shown_Inr split: if_splits intro: answers.Registered [OF c _ _ refl])
  next
    case (result tid a t)
    then have t: "task_of db tid = Some t" "t_assignee t = Some (a_name a)" "t_id t = tid"
      using task_of_id by (auto simp: owned_task_Inr)
    with result show ?thesis
      by (auto simp: serve_result_def shown_Inr split: if_splits intro: answers.Submitted [OF c _ refl])
  next
    case (progress tid a t)
    then have t: "task_of db tid = Some t" "t_assignee t = Some (a_name a)" "t_id t = tid"
      using task_of_id by (auto simp: owned_task_Inr)
    with progress show ?thesis
      by (auto simp: serve_progress_def shown_Inr intro: answers.Noted [OF c _ refl])
  qed
qed

lemma serve_stream_answers:
  assumes c: "carried sdk ''message/stream'' payload = Some m" and r: "serve_stream e settings db m = (Inr r, d, ks)"
  shows "answers e sdk settings db payload addr (Stream_body r) d ks"
proof (cases "msg_task m")
  case None
  then show ?thesis using r
    by (auto simp: serve_stream_def Let_def shown_Inr split: if_splits intro: answers.Polled [OF c _ _ refl])
next
  case (Some tid)
  with r obtain wait a t q where q: "wait_of settings (message_metadata m) = Inr wait"
    "dict_get K_KIND (message_metadata m) = Some (JStr ''question'')" "resolve_agent db m (message_metadata m) = Inr a"
    "task_of db tid = Some t" "t_assignee t = Some (a_name a)"
    "open_question e db (t_id t) (a_name a) (message_text m) (msg_id m) = Inr (q, d, ks)"
    "r = Reply_stream t a q wait (msg_id m)"
    by (auto simp: serve_stream_def Let_def shown_Inr split: if_splits)
  note op = q(6) [unfolded task_of_id [OF q(4)]]
  show ?thesis unfolding q(7) by (rule answers.Asked [OF c Some refl q(2,3,4,5,1) op])
qed

lemma serve_get_answers:
  assumes "calls ''tasks/get'' payload" "valid_get sdk payload = Inr (tid, limit)"
    and "serve_get sdk db tid limit = (Inr r, d, ks)"
  shows "answers e sdk settings db payload addr (Result_body r) d ks"
proof -
  from assms(3) obtain t ctx where t: "task_of db tid = Some t" "context_of_task db (t_id t) = Inr ctx"
    "r = A_task (task_object sdk 0 t ctx (Some (map (stored_message sdk) (task_history db tid limit))) None)" "d = db" "ks = []"
    by (auto simp: serve_get_def get_task_def shown_Inr raised_def split: option.splits sum.splits)
  note ctx = t(2) [unfolded task_of_id [OF t(1)]]
  show ?thesis unfolding t(3-5) by (rule answers.Shown [OF assms(1,2) t(1) ctx])
qed

lemma serve_cancel_answers:
  assumes "calls ''tasks/cancel'' payload" "valid_cancel sdk payload = Inr tid"
    and "serve_cancel e sdk db tid = (Inr r, d, ks)"
  shows "answers e sdk settings db payload addr (Result_body r) d ks"
proof -
  from assms(3) obtain c d1 ks1 ctx where c: "cancel_refusal (commit db (cancel_task e db tid)) = (Inr c, d1, ks1)"
    "context_of_task d1 (t_id c) = Inr ctx" "r = A_task (task_object sdk 0 c ctx None None)" "d = d1" "ks = ks1"
    by (auto simp: serve_cancel_def sbind_def pbind_def raised_def served_def split: option.splits prod.splits sum.splits)
  then have 1: "cancel_task e db tid = Inr (c, d, ks)" using cancel_refusal_Inr commit_Inr by metis
  then have "t_id c = tid" by (cases rule: cancel_task_cases) (metis task_of_id)
  with 1 c show ?thesis using answers.Cancelled [OF assms(1,2)] by metis
qed

lemma dispatch_answered:
  assumes "dispatch e sdk settings db payload addr = (resp, d, ks)" "accepted resp"
  shows "resp_status resp = 200 \<and> resp_id resp = request_id payload \<and>
    answers e sdk settings db payload addr (resp_body resp) d ks"
  using assms(1)
proof (cases rule: dispatch_cases)
  case 1
  then show ?thesis using assms(2) by (auto simp: accepted_def)
next
  case (2 p meth x)
  then obtain y where x: "x = Inr y" using assms(2) by (cases x) auto
  have m: "meth = ''message/send'' \<or> meth = ''message/stream'' \<or> meth = ''tasks/get'' \<or> meth = ''tasks/cancel''"
    using 2(3) by (auto simp: SUPPORTED_METHODS_def)
  have "answers e sdk settings db payload addr y d ks"
    using m
  proof (elim disjE)
    assume m: "meth = ''message/send''"
    with 2(4) x obtain msg r where "valid_send sdk payload = Inr msg" "serve_send e sdk db msg addr = (Inr r, d, ks)"
      "y = Result_body r" by (auto simp: serve_method_def validated_def served_Inr split: sum.splits)
    then show ?thesis using serve_send_answers 2(1,2) m by (auto simp: carried_def)
  next
    assume m: "meth = ''message/stream''"
    with 2(4) x obtain msg r where "valid_stream sdk payload = Inr msg" "serve_stream e settings db msg = (Inr r, d, ks)"
      "y = Stream_body r" by (auto simp: serve_method_def validated_def served_Inr split: sum.splits)
    then show ?thesis using serve_stream_answers 2(1,2) m by (auto simp: carried_def)
  next
    assume m: "meth = ''tasks/get''"
    with 2(4) x obtain tid limit r where "valid_get sdk payload = Inr (tid, limit)"
      "serve_get sdk db tid limit = (Inr r, d, ks)" "y = Result_body r"
      by (auto simp: serve_method_def validated_def served_Inr split: sum.splits)
    then show ?thesis using serve_get_answers 2(1,2) m by (auto simp: calls_def)
  next
    assume m: "meth = ''tasks/cancel''"
    with 2(4) x obtain tid r where "valid_cancel sdk payload = Inr tid"
      "serve_cancel e sdk db tid = (Inr r, d, ks)" "y = Result_body r"
      by (auto simp: serve_method_def validated_def served_Inr split: sum.splits)
    then show ?thesis using serve_cancel_answers 2(1,2) m by (auto simp: calls_def)
  qed
  then show ?thesis using 2(1,5) x by (simp add: request_id_def)
qed

end
