(* ===== verification/ProtocolRetries.thy ===== *)
theory ProtocolRetries
  imports ProtocolProps
begin

text \<open>
  A worker that lost a response sends its request again. The operation table makes the second
  request return the first response, whatever happened to the hub in between.
\<close>

lemma check_in_replays:
  assumes "replayed d name (Some op) (Some h) = Inr (Some resp)"
    and "check_in e0 db0 name profile inst (Some op) (Some h) (Some b0) addr0 = Inr r0"
  shows "check_in e d name profile inst (Some op) (Some h) (Some b) addr = Inr (Pair_json resp False, d, [])"
  using assms by (simp add: check_in_def Let_def)

lemma hash_payload_fresh [simp]: "hash_payload (sdk\<lparr>fresh_id := f\<rparr>) p = hash_payload sdk p"
  by (simp add: hash_payload_def)

lemma result_refusal_fresh [simp]: "result_refusal (sdk\<lparr>fresh_id := f\<rparr>) x = result_refusal sdk x"
  by (simp add: result_refusal_def split: sum.splits validation_error.splits)

lemma check_in_request_retried:
  assumes ok: "hub_ok db" and c: "serve_check_in e sdk db m md addr = (Inr r, db1, ks)" and later: "hub_steps db1 d"
  shows "serve_check_in e' (sdk\<lparr>fresh_id := f\<rparr>) d m md addr' = (Inr r, d, [])"
proof -
  from c obtain op inst name profile x where 1: "upper (message_text m) = ''READY''" "require_schema_version md = Inr ()"
    "require_operation_id md = Inr op" "require_worker_instance_id md = Inr inst" "named md ''check-in'' = Inr name"
    "read_profile md = Inr profile"
    and 2: "check_in e db name profile (Some inst) (Some op) (Some (hash_payload sdk (check_in_payload name inst profile)))
      (Some (\<lambda>a. encode_message sdk (registered_message sdk a))) addr = Inr (x, db1, ks)"
    and 3: "r = A_message (decode_message sdk (reply_json x))"
    by (auto simp: serve_check_in_def served_Inr split: if_splits)
  obtain resp fresh where 4: "x = Pair_json resp fresh"
    "replayed d name (Some op) (Some (hash_payload sdk (check_in_payload name inst profile))) = Inr (Some resp)"
    by (rule admission.recorded_later [OF ok 2 later])
  show ?thesis
    using 1 3 4(1) check_in_replays [OF 4(2) 2] by (simp add: serve_check_in_def served_Inr reply_json_def)
qed

lemma progress_request_retried:
  assumes ok: "hub_ok db" and c: "serve_progress e sdk db t a txt md = (Inr r, db1, ks)" and later: "hub_steps db1 d"
    and same: "t_id u = t_id t" "a_name b = a_name a"
  shows "serve_progress e' (sdk\<lparr>fresh_id := f\<rparr>) d u b txt md = (Inr r, d, [])"
proof -
  from c obtain op x where 1: "require_schema_version md = Inr ()" "require_operation_id md = Inr op"
    and 2: "record_progress e db (t_id t) (a_name a) txt (Some op) (Some (hash_payload sdk (progress_payload (t_id t) txt)))
      (Some (\<lambda>_. encode_message sdk (progress_ack sdk (a_context_id a) (t_id t)))) = Inr (x, db1, ks)"
    and 3: "r = A_message (decode_message sdk (reply_json x))"
    by (auto simp: serve_progress_def served_Inr)
  from progress.exactly_once [OF ok 2 later] obtain resp fresh where 4: "x = Pair_json resp fresh"
    "\<And>e' b'. record_progress e' d (t_id t) (a_name a) txt (Some op) (Some (hash_payload sdk (progress_payload (t_id t) txt)))
      (Some b') = Inr (Pair_json resp False, d, [])"
    by blast
  show ?thesis using 1 3 4 same by (simp add: serve_progress_def served_Inr reply_json_def)
qed

lemma result_request_retried:
  assumes ok: "hub_ok db" and c: "serve_result e sdk db t a txt md = (Inr r, db1, ks)" and later: "hub_steps db1 d"
    and same: "t_id u = t_id t" "t_role u = t_role t" "a_name b = a_name a" "float_repr e' = float_repr e"
  shows "serve_result e' (sdk\<lparr>fresh_id := f\<rparr>) d u b txt md = (Inr r, d, [])"
proof -
  from c obtain op raw typed x where 1: "require_schema_version md = Inr ()" "require_operation_id md = Inr op"
    "require_result md = Inr raw" "\<not> MAX_TYPED_RESULT_BYTES < json_size_bytes e (JObj raw)"
    "result_refusal sdk (typed_body (t_role t) (with_summary raw txt)) = Inr typed"
    and 2: "submit_result e db (t_id t) (a_name a) (Some (Typed typed)) [] [] None (Some op)
           (Some (hash_payload sdk (result_payload (t_id t) typed)))
           (Some (\<lambda>done. encode_task sdk (task_object sdk 0 done (a_context_id a) None None))) = Inr (x, db1, ks)"
    and 3: "r = A_task (decode_task sdk (reply_json x))"
    by (auto simp: serve_result_def served_Inr split: if_splits)
  have e: "e\<lparr>float_repr := float_repr e\<rparr> = e" "e'\<lparr>float_repr := float_repr e\<rparr> = e'"
    using same(4) by simp_all
  from submission.exactly_once [of db "float_repr e", unfolded submit_as_def, OF ok, of e, unfolded e(1), OF 2 later, of e', unfolded e(2)]
  obtain resp fresh where 4: "x = Pair_json resp fresh"
    "\<And>b'. submit_result e' d (t_id t) (a_name a) (Some (Typed typed)) [] [] None (Some op)
      (Some (hash_payload sdk (result_payload (t_id t) typed))) (Some b') = Inr (Pair_json resp False, d, [])"
    by blast
  have size: "json_size_bytes e' = json_size_bytes e" using same(4) by (intro ext) (simp add: json_size_bytes_def)
  show ?thesis using 1 3 4 same(1-3) by (simp add: serve_result_def served_Inr reply_json_def size)
qed

lemma check_parts_cong: "float_repr e' = float_repr e \<Longrightarrow> check_parts e' i ps = check_parts e i ps"
  by (induction e i ps rule: check_parts.induct) (simp_all add: json_size_bytes_def)

lemma part_sizes_cong:
  "float_repr e' = float_repr e \<Longrightarrow> check_message_part_sizes e' m = check_message_part_sizes e m"
  using check_parts_cong [of e' e] by (simp add: check_message_part_sizes_def)

lemma carried_fresh [simp]: "carried (sdk\<lparr>fresh_id := f\<rparr>) method payload = carried sdk method payload"
  by (auto simp: carried_def split: json.splits)

lemma dispatch_answers:
  assumes "carried sdk ''message/send'' payload = Some m"
    and "check_message_part_sizes e m = Inr ()" "serve_send e sdk db m addr = (Inr r, d, ks)"
  shows "dispatch e sdk settings db payload addr = (\<lparr>resp_status = 200,
    resp_id = request_id_of (case payload of JObj p \<Rightarrow> p | _ \<Rightarrow> []), resp_body = Result_body r\<rparr>, d, ks)"
proof -
  from assms(1) obtain p where p: "payload = JObj p" "dict_get ''method'' p = Some (JStr ''message/send'')"
    "valid_send sdk payload = Inr m"
    by (auto simp: carried_def split: json.splits if_splits sum.splits)
  have "serve_method e sdk settings db ''message/send'' payload addr = (Inr (Result_body r), d, ks)"
    using assms(2,3) p(3) by (simp add: serve_method_def validated_def served_Inr)
  then show ?thesis using p(1,2) by (simp add: dispatch_def SUPPORTED_METHODS_def Let_def)
qed

text \<open>The retried message of a worker: the same answer and nothing done, or, on a task, a refusal.\<close>

lemma send_retried:
  assumes ok: "hub_ok db" and c: "serve_send e sdk db m addr = (Inr r, db1, ks)" and n: "\<not> is_heartbeat m"
    and later: "hub_steps db1 d" and fl: "float_repr e' = float_repr e"
    and again: "serve_send e' (sdk\<lparr>fresh_id := f\<rparr>) d m addr' = (Inr r', d', ks')"
  shows "r' = r \<and> d' = d \<and> ks' = []"
proof -
  have one: "hub_steps db db1"
    using serve_send_once [of db e sdk m addr] by (auto simp: c one_call_def intro: hub_stepI)
  have okd: "hub_ok d" and ev: "evolves db d"
    using hub.inv_steps [OF ok] hub.steps_le [OF ok] rtranclp_trans [OF one later] by blast+
  have kept: "t_role u = t_role t \<and> t_id u = t_id t \<and> a_name b = a_name a"
    if "owned_task db tid a = Inr t" "owned_task d tid b = Inr u" for tid a b t u
    using that evolves_task_of [OF ok okd ev, of tid t] task_evolvesD task_of_id
    unfolding owned_task_Inr by (metis option.inject)
  from c n show ?thesis
  proof (cases rule: serve_send_accepted)
    case check_in
    then show ?thesis using again check_in_request_retried [OF ok check_in(2) later, of e' f addr'] n
      by (auto simp: serve_send_def is_heartbeat_def Let_def)
  next
    case (result tid a t)
    note first = result
    from again n show ?thesis
    proof (cases rule: serve_send_accepted)
      case (result tid' b u)
      have k: "t_role u = t_role t \<and> t_id u = t_id t \<and> a_name b = a_name a"
        using kept [OF first(3)] result(3) first(1) result(1) by simp
      show ?thesis using result_request_retried [OF ok first(5) later, of u b e' f] result(5) k fl by simp
    qed (use first in auto)
  next
    case (progress tid a t)
    note first = progress
    from again n show ?thesis
    proof (cases rule: serve_send_accepted)
      case (progress tid' b u)
      have k: "t_role u = t_role t \<and> t_id u = t_id t \<and> a_name b = a_name a"
        using kept [OF first(3)] progress(3) first(1) progress(1) by simp
      show ?thesis using progress_request_retried [OF ok first(5) later, of u b e' f] progress(5) k by simp
    qed (use first in auto)
  qed
qed

text \<open>A message sent again may carry another message id; only questions look at it.\<close>

lemma serve_send_message_id [simp]: "serve_send e sdk db (m\<lparr>msg_id := x\<rparr>) addr = serve_send e sdk db m addr"
proof -
  have same: "message_metadata (m\<lparr>msg_id := x\<rparr>) = message_metadata m" "message_text (m\<lparr>msg_id := x\<rparr>) = message_text m"
    "\<And>md. resolve_agent db (m\<lparr>msg_id := x\<rparr>) md = resolve_agent db m md"
    "\<And>md. serve_check_in e sdk db (m\<lparr>msg_id := x\<rparr>) md addr = serve_check_in e sdk db m md addr"
    by (simp_all add: message_metadata_def message_text_def resolve_agent_def serve_check_in_def)
  show ?thesis unfolding serve_send_def same by simp
qed

lemma part_sizes_message_id [simp]:
  "check_message_part_sizes e (m\<lparr>msg_id := x\<rparr>) = check_message_part_sizes e m"
  by (simp add: check_message_part_sizes_def)

text \<open>
  The worker that sent the message is no longer the one its task is held by: the hub has given
  the assignee up, or another process has checked in under its name.
\<close>

definition superseded :: "hub_db \<Rightarrow> a2a_message \<Rightarrow> bool" where
  "superseded d m = (\<exists>tid t a i. msg_task m = Some tid \<and> task_of d tid = Some t \<and>
     t_assignee t = Some (a_name a) \<and> agent_of d (a_name a) = Some a \<and>
     dict_get K_WORKER_INSTANCE_ID (message_metadata m) = Some (JStr i) \<and> (a_status a = Lost \<or> a_instance a \<noteq> strip i))"

lemma superseded_id [simp]: "superseded d (m\<lparr>msg_id := x\<rparr>) = superseded d m"
  by (simp add: superseded_def message_metadata_def)

text \<open>A sender recognised once is recognised later, unless it was given up or replaced.\<close>

lemma resolve_agent_later:
  assumes a: "resolve_agent db m md = Inr a" and ok: "hub_ok db" "hub_ok d" and ev: "evolves db d"
    and i: "dict_get K_WORKER_INSTANCE_ID md = Some (JStr i)"
  obtains b where "agent_of d (a_name a) = Some b" "a_name b = a_name a"
    "a_status b \<noteq> Lost \<Longrightarrow> a_instance b = strip i \<Longrightarrow> resolve_agent d m md = Inr b"
proof -
  have "a \<in> set (agents db)" using resolve_agent_Inr [OF a] by (simp add: current_worker_def)
  then have "agent_of db (a_name a) = Some a" by (simp add: agent_of_iff [OF hub_okD(1) [OF ok(1)]])
  then obtain b where b: "agent_of d (a_name a) = Some b" "agent_evolves a b" by (rule evolves_agent_of [OF ok(2) ev])
  have n: "a_name b = a_name a" "a_context_id b = a_context_id a" using b(2) by (simp_all add: agent_evolves_def)
  have mem: "b \<in> set (agents d)" using b(1) by (rule agent_of_mem)
  have ctx: "agent_by_context d (a_context_id a) = Some b"
    unfolding agent_by_context_def n(2) [symmetric]
    by (rule find_key_distinct [OF rows_okD(3) [OF hub_okD(1) [OF ok(2)]] mem])
  have nonempty: "strip i \<noteq> []" using resolve_agent_Inr [OF a] i by (auto simp: current_worker_def)
  have "resolve_agent d m md = Inr b" if st: "a_status b \<noteq> Lost" "a_instance b = strip i"
  proof -
    have now: "require_current_instance b md = Inr b" using st i nonempty by (simp add: require_current_instance_Inr)
    have named: "named_agent d md = Inr b" if na: "named_agent db md = Inr a"
    proof -
      from na obtain s where s: "dict_get K_AGENT md = Some (JStr s)" "strip s \<noteq> []" "agent_by_name db (strip s) = Some a"
        by (auto simp: named_agent_def require_current_instance_Inr split: option.splits json.splits if_splits)
      have "a_name a = strip s" using s(3) agent_of_name by (simp add: agent_by_name_def)
      then show ?thesis using s b(1) now by (simp add: named_agent_def agent_by_name_def)
    qed
    from a show ?thesis
    proof (cases "case msg_context m of None \<Rightarrow> True | Some c \<Rightarrow> c = []")
      case True
      then show ?thesis using a named by (auto simp: resolve_agent_def split: option.splits)
    next
      case False
      then obtain c where c: "msg_context m = Some c" "c \<noteq> []" by (cases "msg_context m") auto
      with a have "agent_by_context db c = Some a"
        by (auto simp: resolve_agent_def require_current_instance_Inr split: option.splits)
      then have "a_context_id a = c" by (auto simp: agent_by_context_def dest: find_SomeD)
      then show ?thesis using c ctx now by (simp add: resolve_agent_def)
    qed
  qed
  then show thesis using that b(1) n(1) by blast
qed

text \<open>A task message sent again is answered as the first one, as long as its sender is not superseded.\<close>

lemma task_request_retried:
  assumes ok: "hub_ok db" and c: "serve_send e sdk db m addr = (Inr r, db1, ks)" and tid: "msg_task m = Some tid"
    and later: "hub_steps db1 d" and fl: "float_repr e' = float_repr e" and cur: "\<not> superseded d m"
  shows "serve_send e' (sdk\<lparr>fresh_id := f\<rparr>) d m addr' = (Inr r, d, [])"
proof -
  let ?md = "message_metadata m"
  have one: "hub_steps db db1"
    using serve_send_once [of db e sdk m addr] by (auto simp: c one_call_def intro: hub_stepI)
  have okd: "hub_ok d" and ev: "evolves db d"
    using hub.inv_steps [OF ok] hub.steps_le [OF ok] rtranclp_trans [OF one later] by blast+
  have n: "\<not> is_heartbeat m" using tid by (simp add: is_heartbeat_def)
  have holder: "\<exists>b u. resolve_agent d m ?md = Inr b \<and> owned_task d tid b = Inr u \<and> a_name b = a_name a \<and>
      t_id u = t_id t \<and> t_role u = t_role t"
    if a: "resolve_agent db m ?md = Inr a" and t: "owned_task db tid a = Inr t" for a t
  proof -
    obtain i where i: "dict_get K_WORKER_INSTANCE_ID ?md = Some (JStr i)"
      using resolve_agent_Inr [OF a] by (auto simp: current_worker_def)
    obtain b where b: "agent_of d (a_name a) = Some b" "a_name b = a_name a"
      "a_status b \<noteq> Lost \<Longrightarrow> a_instance b = strip i \<Longrightarrow> resolve_agent d m ?md = Inr b"
      using resolve_agent_later [OF a ok okd ev i] by blast
    obtain u where u: "task_of d tid = Some u" "task_evolves t u"
      using evolves_task_of [OF ok okd ev] t unfolding owned_task_Inr by blast
    have as: "t_assignee u = Some (a_name b)" using t task_evolvesD [OF u(2)] b(2) by (simp add: owned_task_Inr)
    have "a_status b \<noteq> Lost \<and> a_instance b = strip i"
      using cur tid u(1) as b(1,2) i unfolding superseded_def by metis
    then have "resolve_agent d m ?md = Inr b" using b(3) by blast
    then show ?thesis using u as b(2) task_evolvesD [OF u(2)] by (auto simp: owned_task_Inr)
  qed
  from c n show ?thesis
  proof (cases rule: serve_send_accepted)
    case check_in
    then show ?thesis using tid by simp
  next
    case (result tid' a t)
    then obtain b u where h: "resolve_agent d m ?md = Inr b" "owned_task d tid b = Inr u" "a_name b = a_name a"
      "t_id u = t_id t" "t_role u = t_role t" using holder tid by fastforce
    have "serve_result e' (sdk\<lparr>fresh_id := f\<rparr>) d u b (message_text m) ?md = (Inr r, d, [])"
      by (rule result_request_retried [OF ok result(5) later h(4,5,3) fl])
    then show ?thesis using h(1,2) tid result(4) by (simp add: serve_send_def Let_def pbind_def)
  next
    case (progress tid' a t)
    then obtain b u where h: "resolve_agent d m ?md = Inr b" "owned_task d tid b = Inr u" "a_name b = a_name a"
      "t_id u = t_id t" using holder tid by fastforce
    have "serve_progress e' (sdk\<lparr>fresh_id := f\<rparr>) d u b (message_text m) ?md = (Inr r, d, [])"
      by (rule progress_request_retried [OF ok progress(5) later h(4,3)])
    then show ?thesis using h(1,2) tid progress(4) by (auto simp: serve_send_def Let_def pbind_def)
  qed
qed

text \<open>
  The retried message of a worker: the same answer and nothing done, or, when its sender has lost
  the task meanwhile, a refusal that did nothing either.
\<close>

lemma request_resent:
  assumes ok: "hub_ok db" and c: "dispatch e sdk settings db payload addr = (resp, db1, ks)" "accepted resp"
    and m: "carried sdk ''message/send'' payload = Some m" "\<not> is_heartbeat m"
    and later: "hub_steps db1 d" and fl: "float_repr e' = float_repr e"
    and m': "carried sdk ''message/send'' payload' = Some (m\<lparr>msg_id := x\<rparr>)"
    and again: "dispatch e' (sdk\<lparr>fresh_id := f\<rparr>) settings' d payload' addr' = (resp', d', ks')"
  shows "(resp' = resp\<lparr>resp_id := request_id payload'\<rparr> \<or> superseded d m \<and> \<not> accepted resp') \<and> d' = d \<and> ks' = []"
proof -
  have m': "carried (sdk\<lparr>fresh_id := f\<rparr>) ''message/send'' payload' = Some (m\<lparr>msg_id := x\<rparr>)" using m' by simp
  obtain r where r: "serve_send e sdk db m addr = (Inr r, db1, ks)" "check_message_part_sizes e m = Inr ()"
    "resp = \<lparr>resp_status = 200, resp_id = request_id payload, resp_body = Result_body r\<rparr>"
    using dispatch_send [OF c(1) m(1)] c(2) by (auto simp: request_id_def)
  show ?thesis
  proof (cases "accepted resp'")
    case True
    obtain r' where r': "serve_send e' (sdk\<lparr>fresh_id := f\<rparr>) d m addr' = (Inr r', d', ks')"
      "resp' = \<lparr>resp_status = 200, resp_id = request_id payload', resp_body = Result_body r'\<rparr>"
      using dispatch_send [OF again m'] True by (auto simp: request_id_def)
    from send_retried [OF ok r(1) m(2) later fl r'(1)] show ?thesis using r(3) r'(2) by simp
  next
    case False
    have "superseded d m"
    proof (rule ccontr)
      assume cur: "\<not> superseded d m"
      have "serve_send e' (sdk\<lparr>fresh_id := f\<rparr>) d m addr' = (Inr r, d, [])"
      proof (cases "msg_task m")
        case None
        then have "serve_check_in e sdk db m (message_metadata m) addr = (Inr r, db1, ks)"
          using r(1) m(2) by (simp add: serve_send_def is_heartbeat_def Let_def)
        from check_in_request_retried [OF ok this later, of e' f addr'] show ?thesis
          using None m(2) by (simp add: serve_send_def is_heartbeat_def Let_def)
      next
        case (Some tid)
        then show ?thesis by (rule task_request_retried [OF ok r(1) _ later fl cur])
      qed
      then show False
        using False again dispatch_answers [OF m'] part_sizes_cong [OF fl, of m] r(2) by (fastforce simp: accepted_def)
    qed
    then show ?thesis using False dispatch_effect [OF again] by blast
  qed
qed

lemma request_retried:
  assumes ok: "hub_ok db" and c: "dispatch e sdk settings db payload addr = (resp, db1, ks)" "accepted resp"
    and m: "carried sdk ''message/send'' payload = Some m" "\<not> is_heartbeat m"
    and later: "hub_steps db1 d" and fl: "float_repr e' = float_repr e"
    and again: "dispatch e' (sdk\<lparr>fresh_id := f\<rparr>) settings' d payload addr' = (resp', d', ks')"
  shows "(resp' = resp \<or> superseded d m \<and> \<not> accepted resp') \<and> d' = d \<and> ks' = []"
proof -
  have "carried sdk ''message/send'' payload = Some (m\<lparr>msg_id := msg_id m\<rparr>)" using m(1) by simp
  from request_resent [OF ok c m later fl this again]
  have "(resp' = resp\<lparr>resp_id := request_id payload\<rparr> \<or> superseded d m \<and> \<not> accepted resp') \<and> d' = d \<and> ks' = []" .
  moreover have "resp_id resp = request_id payload"
    using dispatch_send [OF c(1) m(1)] c(2) by (auto simp: request_id_def)
  then have "resp\<lparr>resp_id := request_id payload\<rparr> = resp" by simp
  ultimately show ?thesis by simp
qed

section \<open>A concrete wire format\<close>

text \<open>For the witnesses: a request's \<^verbatim>\<open>params\<close> hold the text, the task and the metadata; the hash is the identity.\<close>

definition demo_message :: "json \<Rightarrow> string + a2a_message" where
  "demo_message payload = (case payload of
     JObj p \<Rightarrow> (case dict_get ''params'' p of
         Some (JObj q) \<Rightarrow> Inr \<lparr>msg_id = ''m1'', msg_role = Role_user,
           msg_parts = (case dict_get ''text'' q of Some (JStr s) \<Rightarrow> [text_only s] | _ \<Rightarrow> []), msg_context = None,
           msg_task = (case dict_get ''taskId'' q of Some (JStr s) \<Rightarrow> Some s | _ \<Rightarrow> None),
           msg_metadata = (case dict_get ''metadata'' q of Some (JObj md) \<Rightarrow> Some md | _ \<Rightarrow> None)\<rparr>
       | _ \<Rightarrow> Inl ''params: Field required'')
   | _ \<Rightarrow> Inl ''Input should be an object'')"

definition demo_received :: "string \<Rightarrow> a2a_message" where
  "demo_received s = \<lparr>msg_id = s, msg_role = Role_agent, msg_parts = [], msg_context = None, msg_task = None,
     msg_metadata = None\<rparr>"

definition demo_sdk :: a2a_sdk where
  "demo_sdk = \<lparr>valid_send = demo_message, valid_stream = demo_message,
     valid_get = (\<lambda>p. Inl ''params: Field required''), valid_cancel = (\<lambda>p. Inl ''params: Field required''),
     field_message = (\<lambda>x. ''Input should be valid''), wire_part = (\<lambda>p. \<lparr>part_dump = p, part_text = None\<rparr>),
     encode_message = msg_id, decode_message = demo_received,
     encode_task = at_id, decode_task = (\<lambda>s. \<lparr>at_id = s, at_context = [], at_state = Working, at_timestamp = 0,
       at_message = demo_received [], at_history = None, at_artifacts = None, at_metadata = []\<rparr>),
     sha256_hex = (\<lambda>s. s), fresh_id = (\<lambda>n. ''fresh'' @ show_nat n), sdk_floats = (\<lambda>q. ''0.0'')\<rparr>"

definition demo_request :: "string \<Rightarrow> string option \<Rightarrow> dict \<Rightarrow> json" where
  "demo_request txt tid md = JObj [(''id'', JInt 7), (''method'', JStr ''message/send''),
     (''params'', JObj [(''text'', JStr txt), (''taskId'', jopt tid), (''metadata'', JObj md)])]"

definition demo_progress :: json where
  "demo_progress = demo_request ''half way'' (Some ''id30'') [(K_SCHEMA_VERSION, JInt 1), (K_AGENT, JStr ''bob''),
     (K_OPERATION_ID, JStr ''op9''), (K_WORKER_INSTANCE_ID, JStr ''i1'')]"

definition demo_settings :: hub_settings where
  "demo_settings = \<lparr>s_host = ''127.0.0.1'', s_port = 8420, s_public_url = ''http://127.0.0.1:8420'',
     s_state_dir = ''/s'', s_database_path = ''/s/hub.db'', s_token = None, s_token_file = ''/s/token'',
     s_guides_dir = ''/s/guides'', s_default_wait = Finite 120, s_max_wait = Finite 300,
     s_lost_after = Finite 180, s_sweep_interval = Finite 10, s_event_lease = Finite 600,
     s_call_accounting = False, s_call_log_jsonl = None\<rparr>"

definition demo_noted :: rpc_response where
  "demo_noted = \<lparr>resp_status = 200, resp_id = JInt 7, resp_body = Result_body (A_message (demo_received ''fresh0''))\<rparr>"

lemma demo_progress_noted:
  "(case dispatch (sample_env 7) demo_sdk demo_settings db_claimed demo_progress None of (resp, d, ks) \<Rightarrow> (resp, ks))
     = (demo_noted, [EVENT_KEY])"
  by code_simp

end
