(* ===== verification/WorkerLink.thy ===== *)
theory WorkerLink
  imports WorkerClient ProtocolRetries
begin

text \<open>
  The worker against the network and against the hub: its retry loop ends, what it declares about
  itself arrives at the hub unchanged, and a call repeated after a lost response is recognised.
\<close>

section \<open>The retry loop\<close>

definition transient :: "attempt \<Rightarrow> bool" where
  "transient x = (case x of Inl cls \<Rightarrow> True | Inr r \<Rightarrow> hr_status r \<in> set RETRYABLE_STATUS_CODES)"

lemma request_with_retry_runs:
  "request_with_retry s sent net n io = (x, io', pauses) \<Longrightarrow>
   x = net (n + length pauses) \<and> (\<forall>i < length pauses. transient (net (n + i)) \<and> may_retry s (n + i)) \<and>
   (transient x \<longrightarrow> \<not> may_retry s (n + length pauses)) \<and> io_retries io' = io_retries io + length pauses \<and>
   map rn_delay pauses = map (\<lambda>i. flt_scale (2 ^ (n + i)) (ws_backoff s)) [0..<length pauses]"
proof (induction s sent net n io arbitrary: x io' pauses rule: request_with_retry.induct)
  case (1 s sent net n io)
  have step: ?case if again: "request_with_retry s sent net (Suc n) io1 = (x, io', ns)" and ns: "pauses = retry_note_of s (Suc n) why # ns"
    and IH: "x = net (Suc n + length ns) \<and> (\<forall>i < length ns. transient (net (Suc n + i)) \<and> may_retry s (Suc n + i)) \<and>
      (transient x \<longrightarrow> \<not> may_retry s (Suc n + length ns)) \<and> io_retries io' = io_retries io1 + length ns \<and>
      map rn_delay ns = map (\<lambda>i. flt_scale (2 ^ (Suc n + i)) (ws_backoff s)) [0..<length ns]"
    and io1: "io_retries io1 = Suc (io_retries io)" and now: "transient (net n)" "may_retry s n" for io1 ns why
  proof -
    have split: "[0..<Suc (length ns)] = 0 # map Suc [0..<length ns]" by (simp add: upt_conv_Cons map_Suc_upt del: upt_Suc)
    have "\<forall>i < length pauses. transient (net (n + i)) \<and> may_retry s (n + i)"
    proof (intro allI impI)
      fix i assume "i < length pauses"
      then show "transient (net (n + i)) \<and> may_retry s (n + i)" using IH now ns by (cases i) auto
    qed
    then show ?thesis using IH io1 unfolding ns
      by (simp add: split retry_note_of_def comp_def del: upt_Suc)
  qed
  show ?case
  proof (cases "net n")
    case (Inl cls)
    show ?thesis
    proof (cases "may_retry s n")
      case True
      obtain ns where again: "request_with_retry s sent net (Suc n) (count_http_retry io) = (x, io', ns)"
        "pauses = retry_note_of s (Suc n) cls # ns"
        using "1.prems" Inl True by (subst (asm) request_with_retry.simps) (auto simp: noted_def split: prod.splits)
      show ?thesis
        by (rule step [OF again "1.IH"(1) [OF Inl True again(1)]])
          (use Inl True in \<open>simp_all add: transient_def count_http_retry_def\<close>)
    next
      case False
      then show ?thesis using "1.prems" Inl by (subst (asm) request_with_retry.simps) auto
    qed
  next
    case (Inr r)
    show ?thesis
    proof (cases "retryable s r n")
      case True
      obtain ns where again: "request_with_retry s sent net (Suc n) (count_http_exchange sent r True io) = (x, io', ns)"
        "pauses = retry_note_of s (Suc n) (''http_'' @ show_int (hr_status r)) # ns"
        using "1.prems" Inr True by (subst (asm) request_with_retry.simps) (auto simp: noted_def split: prod.splits)
      show ?thesis
        by (rule step [OF again "1.IH"(2) [OF Inr True again(1)]])
          (use Inr True in \<open>simp_all add: transient_def retryable_def count_http_exchange_def\<close>)
    next
      case False
      then have r: "x = Inr r" "io' = count_http_exchange sent r False io" "pauses = []"
        using "1.prems" Inr by (subst (asm) request_with_retry.simps, simp)+
      show ?thesis using False Inr unfolding r by (simp add: transient_def retryable_def count_http_exchange_def)
    qed
  qed
qed

section \<open>The declared profile\<close>

text \<open>A text the hub reads as it was written.\<close>

definition plain_text :: "string \<Rightarrow> bool" where
  "plain_text t = (strip t = t \<and> t \<noteq> [])"

definition profile_declared :: "agent_profile \<Rightarrow> bool" where
  "profile_declared p = (list_all plain_text [harness p, harness_version p, provider p, model p, declared_model p] \<and>
     (model p = UNKNOWN \<longleftrightarrow> model_source p = Source_unknown) \<and>
     list_all plain_text (capabilities p) \<and> distinct (capabilities p) \<and>
     (case workspace_id p of None \<Rightarrow> True | Some w \<Rightarrow> plain_text w \<and> w \<noteq> UNKNOWN))"

lemma set_once_each [simp]: "set (once_each xs) = set xs"
  by (induction xs) auto

lemma distinct_once_each [simp]: "distinct (once_each xs)"
  by (induction xs) auto

lemma once_each_distinct: "distinct xs \<Longrightarrow> once_each xs = xs"
  by (induction xs) (auto intro: filter_True)

lemma profile_text_read:
  assumes "dict_get k md = Some (JStr t)" "plain_text t"
  shows "profile_text md k = Inr (if t = UNKNOWN then None else Some t)"
  using assms by (simp add: profile_text_def plain_text_def)

lemma plain_strip [simp]: "plain_text (strip t) \<longleftrightarrow> strip t \<noteq> []"
  by (simp add: plain_text_def)

lemma plain_unknown [simp]: "plain_text UNKNOWN"
  by code_simp

lemma profile_of_declared:
  assumes "profile_declared (ws_profile s)"
  shows "profile_declared (profile_of s caps mdl)"
  using assms unfolding profile_declared_def profile_of_def Let_def list_all_iff
  by (auto split: option.splits if_splits)

lemma first_declared_plain [simp]: "plain_text (first_declared env ns)"
  by (induction ns) (auto simp: Let_def)

lemma hex_text_plain: "workspace_id_ok w \<Longrightarrow> plain_text w \<and> w \<noteq> UNKNOWN"
proof -
  assume w: "workspace_id_ok w"
  have space: "is_hex c \<Longrightarrow> \<not> is_space c" for c
    by (auto simp: is_hex_def is_digit_def is_space_def Let_def)
  have "w \<noteq> []" "\<not> is_space (hd w)" "\<not> is_space (last w)"
    using w space by (cases w; auto simp: workspace_id_ok_def list_all_iff)+
  then show ?thesis using w strip_inside [of w] by (auto simp: plain_text_def workspace_id_ok_def UNKNOWN_def)
qed

lemma read_identity_plain:
  assumes "read_identity fs ws agent = Inr wid"
  shows "workspace_id_ok wid"
  using assms unfolding read_identity_def identity_checked_def
  by (auto split: if_splits option.splits json.splits sum.splits config_error.splits)

lemma profile_from_env_declared: "profile_declared (profile_from_env env)"
  unfolding profile_from_env_def profile_declared_def Let_def list_all_iff
  by (auto simp del: first_declared.simps)

lemma profile_declared_workspace:
  "profile_declared p \<Longrightarrow> workspace_id_ok w \<Longrightarrow> profile_declared (p\<lparr>workspace_id := Some w\<rparr>)"
  using hex_text_plain [of w] by (simp add: profile_declared_def)

lemma worker_settings_profile:
  assumes "worker_settings_from_env os fs env = Inr s"
  shows "profile_declared (ws_profile s)"
proof -
  from assms obtain agent ws p where p: "worker_profile fs env agent = Inr (ws, p)" "ws_profile s = p"
    unfolding worker_settings_from_env_def Let_def by (auto split: if_splits)
  have "profile_declared p"
    using p(1) by (auto simp: worker_profile_def intro: profile_from_env_declared
        intro!: profile_declared_workspace [OF profile_from_env_declared] read_identity_plain split: option.splits)
  then show ?thesis using p(2) by simp
qed

lemma read_declared_profile:
  assumes p: "profile_declared p"
  shows "read_profile (checkin_metadata agent inst op p) = Inr p"
proof -
  let ?md = "checkin_metadata agent inst op p"
  have plain: "plain_text (harness p)" "plain_text (harness_version p)" "plain_text (provider p)" "plain_text (model p)"
    "plain_text (declared_model p)" using p by (simp_all add: profile_declared_def)
  have keys: "dict_get K_HARNESS ?md = Some (JStr (harness p))" "dict_get K_HARNESS_VERSION ?md = Some (JStr (harness_version p))"
    "dict_get K_PROVIDER ?md = Some (JStr (provider p))" "dict_get K_MODEL ?md = Some (JStr (model p))"
    "dict_get K_DECLARED_MODEL ?md = Some (JStr (declared_model p))"
    "dict_get K_MODEL_SOURCE ?md = Some (JStr (model_source_value (model_source p)))"
    "dict_get K_CAPABILITIES ?md = Some (JList (map JStr (capabilities p)))"
    "dict_get K_WORKSPACE_ID ?md = map_option JStr (workspace_id p)"
    by (simp_all add: checkin_metadata_def split: option.splits)
  have source: "plain_text (model_source_value (model_source p))" by (cases "model_source p"; simp; code_simp)
  have src: "profile_source (if model p = UNKNOWN then None else Some (model p))
      (or_unknown (if model_source_value (model_source p) = UNKNOWN then None else Some (model_source_value (model_source p))))
      = Inr (model_source p)"
  proof -
    have or: "or_unknown (if t = UNKNOWN then None else Some t) = t" for t by (simp add: or_unknown_def)
    have parse: "parse_model_source (model_source_value (model_source p)) = Some (model_source p)"
      by (rule source_codec.dec_enc)
    show ?thesis using p unfolding profile_source_def or parse by (auto simp: profile_declared_def)
  qed
  have caps: "string_list (Some (JList (map JStr (capabilities p)))) f = Inr (capabilities p)" for f
    by (simp add: string_list_def list_all_iff comp_def)
  have "map strip (capabilities p) = capabilities p" "filter (\<lambda>c. c \<noteq> []) (capabilities p) = capabilities p"
    using p by (auto simp: profile_declared_def list_all_iff plain_text_def intro: map_idI filter_True)
  then have merged: "once_each (filter (\<lambda>c. c \<noteq> []) (map strip (capabilities p))) = capabilities p"
    using p by (simp add: once_each_distinct profile_declared_def)
  have ws: "profile_text ?md K_WORKSPACE_ID = Inr (workspace_id p)"
    using p keys(8) by (cases "workspace_id p") (auto simp: profile_text_def profile_declared_def plain_text_def)
  note reads = profile_text_read [OF keys(1) plain(1)] profile_text_read [OF keys(2) plain(2)]
    profile_text_read [OF keys(3) plain(3)] profile_text_read [OF keys(4) plain(4)]
    profile_text_read [OF keys(5) plain(5)] profile_text_read [OF keys(6) source] ws
  show ?thesis
    unfolding read_profile_def reads ebind_Inr src keys(7) caps merged by (simp add: or_unknown_def)
qed

section \<open>Over the wire\<close>

definition user_message :: "string \<Rightarrow> string option \<Rightarrow> string option \<Rightarrow> string \<Rightarrow> dict \<Rightarrow> a2a_message" where
  "user_message mid task ctx txt md = \<lparr>msg_id = mid, msg_role = Role_user, msg_parts = [text_only txt],
     msg_context = ctx, msg_task = task, msg_metadata = Some md\<rparr>"

text \<open>The \<^verbatim>\<open>a2a\<close> models read a message with one text part as it was written.\<close>

definition reads_messages :: "a2a_sdk \<Rightarrow> bool" where
  "reads_messages sdk = (\<forall>rid mid task ctx txt md.
     valid_send sdk (rpc_payload rid ''message/send'' (message_params (JStr mid) task ctx txt md))
       = Inr (user_message mid task ctx txt md))"

lemma carried_sent:
  assumes "reads_messages sdk"
  shows "carried sdk ''message/send'' (rpc_payload rid ''message/send'' (message_params (JStr mid) task ctx txt md))
    = Some (user_message mid task ctx txt md)"
proof -
  have "valid_send sdk (rpc_payload rid ''message/send'' (message_params (JStr mid) task ctx txt md))
      = Inr (user_message mid task ctx txt md)" using assms unfolding reads_messages_def by blast
  then show ?thesis by (simp add: carried_def rpc_payload_def)
qed

lemma user_message_id: "user_message mid' task ctx txt md = (user_message mid task ctx txt md)\<lparr>msg_id := mid'\<rparr>"
  by (simp add: user_message_def)

text \<open>The same message, sent again under another message id and request id.\<close>

lemma message_resent:
  assumes "hub_ok db" "reads_messages sdk" "float_repr e' = float_repr e"
    and "dispatch e sdk settings db (rpc_payload rid ''message/send'' (message_params (JStr mid) task ctx txt md)) addr
      = (resp, db1, ks)" "accepted resp"
    and "dict_get K_KIND md \<noteq> Some (JStr ''heartbeat'')" and "hub_steps db1 d"
    and "dispatch e' (sdk\<lparr>fresh_id := f\<rparr>) settings' d
      (rpc_payload rid' ''message/send'' (message_params (JStr mid') task ctx txt md)) addr' = (resp', d', ks')"
  shows "d' = d \<and> ks' = [] \<and> (resp' = resp\<lparr>resp_id := JStr rid'\<rparr> \<or> task \<noteq> None \<and> \<not> accepted resp')"
proof -
  let ?m = "user_message mid task ctx txt md"
  have "carried sdk ''message/send'' (rpc_payload rid' ''message/send'' (message_params (JStr mid') task ctx txt md))
      = Some (?m\<lparr>msg_id := mid'\<rparr>)"
    using carried_sent [OF assms(2)] user_message_id by simp
  moreover have "\<not> is_heartbeat ?m" using assms(6) by (simp add: is_heartbeat_def user_message_def message_metadata_def)
  moreover have "request_id (rpc_payload rid' ''message/send'' (message_params (JStr mid') task ctx txt md)) = JStr rid'"
    by (simp add: request_id_def rpc_payload_def request_id_of_def)
  ultimately show ?thesis
    using request_resent [OF assms(1,4,5) carried_sent [OF assms(2)] _ assms(7,3) _ assms(8)]
    by (auto simp: user_message_def superseded_def)
qed

lemma progress_operation_again:
  assumes "progress_operation ids st tid msg None = (i, st1)"
  shows "progress_operation ids' st1 tid msg None = (i, st1)"
    and "wc_context st1 = wc_context st" "wc_instance st1 = wc_instance st"
  using assms by (auto simp: progress_operation_def split: option.splits prod.splits if_splits)

lemma wf_result_dump: "wf_json (JObj (result_dump r))"
proof -
  have l: "wf_jsons (map f xs)" if "\<And>x. wf_json (f x)" for f :: "'x \<Rightarrow> json" and xs using that by (induction xs) simp_all
  have s: "wf_json (strs xs)" for xs by (simp add: strs_def l)
  have o: "wf_json (opt_dump f v)" if "\<And>x. wf_json (f x)" for f :: "'y \<Rightarrow> json" and v
    using that by (cases v) (simp_all add: opt_dump_def)
  show ?thesis
    by (cases r) (simp_all add: result_dump_def implementer_dump_def reviewer_dump_def rebase_dump_def s o l
      test_dump_def finding_dump_def)
qed

lemma result_operation_again:
  assumes "result_operation ids st tid d None = (i, st1)" "wf_json (JObj d)"
  shows "result_operation ids' st1 tid d None = (i, st1)"
    and "wc_context st1 = wc_context st" "wc_instance st1 = wc_instance st"
  using assms(1) json_eq_refl [OF assms(2)]
  by (auto simp: result_operation_def simp del: json_eq.simps split: option.splits prod.splits if_splits)

lemma checkin_operation_again:
  assumes "checkin_operation ids st p None = (i, st1)"
  shows "checkin_operation ids' st1 p None = (i, st1)" and "wc_instance st1 = wc_instance st"
  using assms by (auto simp: checkin_operation_def split: option.splits prod.splits if_splits)

section \<open>A wire format that reads what the worker sends\<close>

definition demo_field :: "string \<Rightarrow> dict \<Rightarrow> string option" where
  "demo_field k d = (case dict_get k d of Some (JStr s) \<Rightarrow> Some s | _ \<Rightarrow> None)"

definition demo_text :: "dict \<Rightarrow> string" where
  "demo_text m = (case dict_get ''parts'' m of
     Some (JList [JObj p]) \<Rightarrow> (case dict_get ''text'' p of Some (JStr t) \<Rightarrow> t | _ \<Rightarrow> []) | _ \<Rightarrow> [])"

definition demo_read :: "json \<Rightarrow> string + a2a_message" where
  "demo_read payload = (case payload of
     JObj p \<Rightarrow> (case dict_get ''params'' p of
       Some (JObj q) \<Rightarrow> (case dict_get ''message'' q of
         Some (JObj m) \<Rightarrow> (case dict_get ''metadata'' m of
           Some (JObj md) \<Rightarrow> Inr (user_message (case demo_field ''messageId'' m of None \<Rightarrow> [] | Some s \<Rightarrow> s)
             (demo_field ''taskId'' m) (demo_field ''contextId'' m) (demo_text m) md)
         | _ \<Rightarrow> Inl ''params.message.metadata: Field required'')
       | _ \<Rightarrow> Inl ''params.message: Field required'')
     | _ \<Rightarrow> Inl ''params: Field required'')
   | _ \<Rightarrow> Inl ''Input should be an object'')"

definition wire_sdk :: a2a_sdk where
  "wire_sdk = demo_sdk\<lparr>valid_send := demo_read, valid_stream := demo_read\<rparr>"

lemma wire_sdk_reads: "reads_messages wire_sdk"
  by (auto simp: reads_messages_def wire_sdk_def demo_sdk_def demo_read_def rpc_payload_def message_params_def
      demo_field_def demo_text_def user_message_def split: option.splits)

definition demo_ids :: "string \<Rightarrow> nat \<Rightarrow> string" where
  "demo_ids p n = p @ (if n = 0 then ''0'' else if n = 1 then ''1'' else ''2'')"

definition demo_worker :: worker_client where
  "demo_worker = (new_worker ''i1'')\<lparr>wc_context := Some ''id21'', wc_task := Some ''id30''\<rparr>"

definition demo_failure :: task_result where
  "demo_failure = Implementer_result \<lparr>i_outcome = Outcome_failed, i_pr_url = None, i_head_sha = None, i_commits = [],
     i_tests = [], i_blocker = None, i_resolved = None, i_disputed = None, i_summary = ''no luck''\<rparr>"

definition demo_fs :: workspace_os where
  "demo_fs = \<lparr>resolved = (\<lambda>p. p), git_directory = (\<lambda>p. False), git_output = (\<lambda>p args. None),
     identity_link = (\<lambda>p. False), identity_mode = (\<lambda>p. None), identity_text = (\<lambda>p. None)\<rparr>"

definition demo_worker_env :: environ where
  "demo_worker_env = [''HUB_URL'' \<mapsto> ''http://hub:8420/'', ''HUB_TOKEN'' \<mapsto> ''secret'', ''AGENT_NAME'' \<mapsto> ''bob'',
     ''HUB_HARNESS'' \<mapsto> ''codex'', ''HUB_CAPABILITIES'' \<mapsto> ''python, rust,python'']"

text \<open>Two gateways that are not up yet, then the hub.\<close>

definition demo_net :: "nat \<Rightarrow> attempt" where
  "demo_net k = (if k = 0 then Inl ''ConnectError'' else Inr \<lparr>hr_status = (if k = 1 then 503 else 200), hr_body = ''{}'',
     hr_received = 2, hr_event_stream = False, hr_lines = [], hr_broken = False\<rparr>)"

end
