(* ===== verification/DiffLines.thy ===== *)
theory DiffLines
  imports Prelude
begin

text \<open>
  The two library routines \<^verbatim>\<open>McpAccounting._repeat\<close> rests on: \<^verbatim>\<open>str.splitlines(keepends=True)\<close>
  on UTF-8 text and \<^verbatim>\<open>difflib.SequenceMatcher(None, a, b, autojunk=False).get_matching_blocks()\<close>.
  The matched lines are shown to be a common subsequence of both texts, and all of them when the
  texts are equal.
\<close>

section \<open>Lines\<close>

text \<open>The length of the line boundary a text starts with, 0 when it starts with none.\<close>

definition line_break :: "string \<Rightarrow> nat" where
  "line_break s = (case s of [] \<Rightarrow> 0
     | c # r \<Rightarrow>
        if c = CHR 0x0D then (case r of d # _ \<Rightarrow> if d = CHR 0x0A then 2 else 1 | [] \<Rightarrow> 1)
        else if c = CHR 0x0A \<or> c = CHR 0x0B \<or> c = CHR 0x0C \<or> c = CHR 0x1C \<or> c = CHR 0x1D \<or> c = CHR 0x1E then 1
        else if c = CHR 0xC2 then (case r of d # _ \<Rightarrow> if d = CHR 0x85 then 2 else 0 | [] \<Rightarrow> 0)
        else if c = CHR 0xE2 then (case r of d # f # _ \<Rightarrow> if d = CHR 0x80 \<and> (f = CHR 0xA8 \<or> f = CHR 0xA9) then 3 else 0
                                   | _ \<Rightarrow> 0)
        else 0)"

function lines_from :: "string \<Rightarrow> string \<Rightarrow> string list" where
  "lines_from cur s = (case s of [] \<Rightarrow> if cur = [] then [] else [cur]
     | c # r \<Rightarrow> (let n = line_break s in
         if n = 0 then lines_from (cur @ [c]) r else (cur @ take n s) # lines_from [] (drop n s)))"
  by pat_completeness auto
termination
  by (relation "measure (\<lambda>(cur, s). length s)") auto

declare lines_from.simps [simp del]

definition splitlines :: "string \<Rightarrow> string list" where
  "splitlines s = lines_from [] s"

lemma concat_lines_from: "concat (lines_from cur s) = cur @ s"
proof (induction cur s rule: lines_from.induct)
  case (1 cur s)
  show ?case
  proof (cases s)
    case (Cons c r)
    with 1 show ?thesis by (subst lines_from.simps) (auto simp: Let_def)
  qed (simp add: lines_from.simps)
qed

lemma concat_splitlines [simp]: "concat (splitlines s) = s"
  by (simp add: splitlines_def concat_lines_from)

section \<open>Matching blocks\<close>

fun common_run :: "'a list \<Rightarrow> 'a list \<Rightarrow> nat" where
  "common_run (x # xs) (y # ys) = (if x = y then Suc (common_run xs ys) else 0)"
| "common_run _ _ = 0"

text \<open>
  \<^verbatim>\<open>find_longest_match\<close>: the longest run, the first in \<open>xs\<close> and then in \<open>ys\<close> among equals; its
  two starts and its length.
\<close>

definition longer_match :: "'a list \<Rightarrow> 'a list \<Rightarrow> nat \<times> nat \<times> nat \<Rightarrow> nat \<times> nat \<Rightarrow> nat \<times> nat \<times> nat" where
  "longer_match xs ys best c = (case c of (i, j) \<Rightarrow>
     let k = common_run (drop i xs) (drop j ys) in if snd (snd best) < k then (i, j, k) else best)"

definition longest_match :: "'a list \<Rightarrow> 'a list \<Rightarrow> nat \<times> nat \<times> nat" where
  "longest_match xs ys =
     foldl (longer_match xs ys) (0, 0, 0) (List.product [0..<length xs] [0..<length ys])"

lemma common_run_le: "common_run xs ys \<le> length xs \<and> common_run xs ys \<le> length ys"
  by (induction xs ys rule: common_run.induct) auto

lemma common_run_take: "k \<le> common_run xs ys \<Longrightarrow> take k xs = take k ys"
proof (induction xs ys arbitrary: k rule: common_run.induct)
  case (1 x xs y ys)
  then show ?case by (cases k) (auto split: if_splits)
qed auto

lemma common_run_same: "common_run xs xs = length xs"
  by (induction xs) auto

definition match_ok :: "'a list \<Rightarrow> 'a list \<Rightarrow> nat \<times> nat \<times> nat \<Rightarrow> bool" where
  "match_ok xs ys m = (case m of (i, j, k) \<Rightarrow> i + k \<le> length xs \<and> j + k \<le> length ys \<and>
     take k (drop i xs) = take k (drop j ys))"

lemma longer_match_ok:
  assumes "match_ok xs ys b" "i \<le> length xs" "j \<le> length ys"
  shows "match_ok xs ys (longer_match xs ys b (i, j))"
  using assms common_run_le [of "drop i xs" "drop j ys"] common_run_take [OF order_refl, of "drop i xs" "drop j ys"]
  by (auto simp: match_ok_def longer_match_def Let_def)

lemma longest_match_ok: "match_ok xs ys (longest_match xs ys)"
proof -
  have "match_ok xs ys (foldl (longer_match xs ys) b cs)"
    if "match_ok xs ys b" "\<forall>c \<in> set cs. fst c \<le> length xs \<and> snd c \<le> length ys" for b cs
    using that
  proof (induction cs arbitrary: b)
    case (Cons c cs)
    then show ?case using longer_match_ok [of xs ys b "fst c" "snd c"] by simp
  qed simp
  then show ?thesis by (simp add: longest_match_def match_ok_def)
qed

lemma longest_match_bound: "longest_match xs ys = (i, j, k) \<Longrightarrow> j + k \<le> length ys"
  using longest_match_ok [of xs ys] by (simp add: match_ok_def)

lemma longest_match_same: "xs \<noteq> [] \<Longrightarrow> longest_match xs xs = (0, 0, length xs)"
proof -
  assume n: "xs \<noteq> []"
  have "longer_match xs xs (0, 0, length xs) c = (0, 0, length xs)" for c
    using common_run_le [of "drop (fst c) xs" "drop (snd c) xs"] by (auto simp: longer_match_def Let_def split: prod.splits)
  then have keep: "foldl (longer_match xs xs) (0, 0, length xs) cs = (0, 0, length xs)" for cs
    by (induction cs) auto
  obtain cs where "List.product [0..<length xs] [0..<length xs] = (0, 0) # cs"
    using n by (cases "length xs") (auto simp del: upt_Suc simp: upt_conv_Cons)
  moreover have "longer_match xs xs (0, 0, 0) (0, 0) = (0, 0, length xs)"
    using n by (simp add: longer_match_def Let_def common_run_same)
  ultimately show ?thesis by (simp add: longest_match_def keep)
qed

text \<open>
  The lines of \<open>ys\<close> inside the matching blocks: the longest match, and the matches of what lies
  before and after it in both texts.
\<close>

function matched_lines :: "'a list \<Rightarrow> 'a list \<Rightarrow> 'a list" where
  "matched_lines xs ys = (case longest_match xs ys of (i, j, k) \<Rightarrow>
     if k = 0 then [] else matched_lines (take i xs) (take j ys) @ take k (drop j ys) @
       matched_lines (drop (i + k) xs) (drop (j + k) ys))"
  by pat_completeness auto
termination
  by (relation "measure (\<lambda>(xs, ys). length ys)") (auto dest: longest_match_bound [OF sym])

declare matched_lines.simps [simp del]

lemma split_three: "i + k \<le> length xs \<Longrightarrow> xs = take i xs @ take k (drop i xs) @ drop (i + k) xs"
  by (metis append_take_drop_id drop_drop add.commute)

lemma matched_lines_common: "subseq (matched_lines xs ys) xs \<and> subseq (matched_lines xs ys) ys"
proof (induction xs ys rule: matched_lines.induct)
  case (1 xs ys)
  obtain i j k where m: "longest_match xs ys = (i, j, k)" by (cases "longest_match xs ys")
  then have b: "i + k \<le> length xs" "j + k \<le> length ys" "take k (drop i xs) = take k (drop j ys)"
    using longest_match_ok [of xs ys] by (auto simp: match_ok_def)
  show ?case
  proof (cases "k = 0")
    case False
    let ?a = "matched_lines (take i xs) (take j ys)" and ?z = "matched_lines (drop (i + k) xs) (drop (j + k) ys)"
    have e: "matched_lines xs ys = ?a @ take k (drop j ys) @ ?z"
      by (subst matched_lines.simps) (simp add: m False)
    have "subseq ?a (take i xs) \<and> subseq ?a (take j ys)" "subseq ?z (drop (i + k) xs) \<and> subseq ?z (drop (j + k) ys)"
      using 1 [OF m [symmetric] refl False] by auto
    then have "subseq (?a @ take k (drop i xs) @ ?z) (take i xs @ take k (drop i xs) @ drop (i + k) xs)"
      "subseq (?a @ take k (drop j ys) @ ?z) (take j ys @ take k (drop j ys) @ drop (j + k) ys)"
      by (auto intro!: list_emb_append_mono)
    then show ?thesis unfolding e b(3) split_three [OF b(1), unfolded b(3), symmetric] split_three [OF b(2), symmetric] by blast
  qed (simp add: matched_lines.simps m)
qed

lemma matched_lines_Nil [simp]: "matched_lines [] ys = []" "matched_lines xs [] = []"
proof -
  have p: "List.product ns [] = []" for ns :: "nat list" by (induction ns) auto
  show "matched_lines [] ys = []" "matched_lines xs [] = []"
    by (simp_all add: matched_lines.simps longest_match_def p)
qed

lemma matched_lines_same: "matched_lines xs xs = xs"
proof (cases "xs = []")
  case False
  then show ?thesis by (subst matched_lines.simps) (simp add: longest_match_same)
qed simp

lemma length_concat_subseq: "subseq xs ys \<Longrightarrow> length (concat xs) \<le> length (concat ys)"
  by (induction rule: list_emb.induct) auto

lemma matched_size: "length (concat (matched_lines xs ys)) \<le> length (concat ys)"
  using matched_lines_common [of xs ys] by (simp add: length_concat_subseq)

end
