(* ===== verification/Accounting.thy ===== *)
theory Accounting
  imports DiffLines JsonRead Tables StoreCore
begin

text \<open>
  \<^verbatim>\<open>accounting.py\<close>: the labels of a call, the \<^verbatim>\<open>call_log\<close> rows, the name of an A2A request, and
  the pairing of Alice's requests with the responses the hub writes. The clock readings are
  arguments. A line of the JSONL file is modelled by the object it holds.
\<close>

definition UNKNOWN_ACTOR :: string where "UNKNOWN_ACTOR = ''unknown''"
definition ALICE :: string where "ALICE = ''alice''"

definition MCP_METHODS :: "string list" where
  "MCP_METHODS = [''initialize'', ''tools/list'', ''ping'', ''resources/list'', ''prompts/list'']"

definition id_char :: "char \<Rightarrow> bool" where
  "id_char c = (is_digit c \<or> c \<in> set ''abcdef'')"

definition hub_id :: "json option \<Rightarrow> string option" where
  "hub_id v = (case v of Some (JStr s) \<Rightarrow> if length s = 32 \<and> list_all id_char s then Some s else None | _ \<Rightarrow> None)"

section \<open>Recording\<close>

datatype boundary = A2a_boundary | Mcp_boundary

record call_record =
  c_boundary :: boundary
  c_actor :: string
  c_tool :: string
  c_outcome :: string
  c_bytes_in :: nat
  c_bytes_out :: nat
  c_started :: iso
  c_finished :: iso
  c_status :: "nat option"
  c_content_bytes :: "nat option"
  c_repeat_bytes :: "nat option"
  c_task :: "string option"

record call_row =
  cr_id :: nat
  cr_call :: call_record
  cr_workflow :: "string option"

text \<open>What is recorded: the table with its \<^verbatim>\<open>AUTOINCREMENT\<close> counter, and the objects of the JSONL file.\<close>

record call_books =
  call_log :: "call_row list"
  call_seq :: nat
  call_lines :: "(call_record \<times> string option) list"

record call_accounting =
  enabled :: bool
  jsonl_path :: "string option"

text \<open>Which step of writing a record raises, if any.\<close>

datatype log_failure = Log_ok | Select_fails | Insert_fails

record log_io =
  log_failure :: log_failure
  append_fails :: bool

definition record_call ::
  "call_accounting \<Rightarrow> log_io \<Rightarrow> hub_db \<Rightarrow> call_books \<Rightarrow> call_record \<Rightarrow> call_books" where
  "record_call acc io db books r =
     (if \<not> enabled acc then books
      else let wf = (if log_failure io = Select_fails then None else map_option w_id (workflow_row_of db));
               books = (if log_failure io = Log_ok
                 then books\<lparr>call_log := call_log books @ [\<lparr>cr_id = Suc (call_seq books), cr_call = r, cr_workflow = wf\<rparr>],
                            call_seq := Suc (call_seq books)\<rparr>
                 else books)
           in if jsonl_path acc = None \<or> append_fails io then books
              else books\<lparr>call_lines := call_lines books @ [(r, wf)]\<rparr>)"

section \<open>The A2A boundary\<close>

record a2a_call =
  k_tool :: string
  k_started :: iso
  k_actor :: string
  k_task :: "string option"
  k_outcome :: "string option"

definition begin_a2a :: "string \<Rightarrow> iso \<Rightarrow> a2a_call" where
  "begin_a2a tool now = \<lparr>k_tool = tool, k_started = now, k_actor = UNKNOWN_ACTOR, k_task = None, k_outcome = None\<rparr>"

definition note_a2a :: "string option \<Rightarrow> string option \<Rightarrow> string option \<Rightarrow> a2a_call \<Rightarrow> a2a_call" where
  "note_a2a actor task_id outcome call =
     (let call = (case actor of None \<Rightarrow> call | Some a \<Rightarrow> call\<lparr>k_actor := a\<rparr>);
          call = (case task_id of None \<Rightarrow> call | Some t \<Rightarrow> call\<lparr>k_task := hub_id (Some (JStr t))\<rparr>)
      in case outcome of None \<Rightarrow> call | Some l \<Rightarrow> call\<lparr>k_outcome := Some l\<rparr>)"

text \<open>\<^verbatim>\<open>d.get(k)\<close> of a value that is a dict, \<^verbatim>\<open>None\<close> when it is not one.\<close>

definition sub_dict :: "string \<Rightarrow> dict \<Rightarrow> dict option" where
  "sub_dict k d = (case dict_get k d of Some (JObj x) \<Rightarrow> Some x | _ \<Rightarrow> None)"

definition given :: "string \<Rightarrow> dict \<Rightarrow> bool" where
  "given k d = (case dict_get k d of None \<Rightarrow> False | Some v \<Rightarrow> v \<noteq> JNull)"

definition a2a_tool :: "json \<Rightarrow> string" where
  "a2a_tool payload = (case payload of
     JObj d \<Rightarrow>
       (let m = dict_get ''method'' d in
        if m = Some (JStr ''tasks/get'') then ''tasks/get''
        else if m = Some (JStr ''tasks/cancel'') then ''tasks/cancel''
        else if m \<noteq> Some (JStr ''message/send'') \<and> m \<noteq> Some (JStr ''message/stream'') then ''invalid''
        else (case (case sub_dict ''params'' d of None \<Rightarrow> None | Some p \<Rightarrow> sub_dict ''message'' p) of
            None \<Rightarrow> ''invalid''
          | Some msg \<Rightarrow>
              (let kind = (case sub_dict ''metadata'' msg of None \<Rightarrow> None | Some md \<Rightarrow> dict_get K_KIND md) in
               if m = Some (JStr ''message/stream'') then
                 (if given ''taskId'' msg then ''ask_alice'' else ''await_assignment'')
               else if \<not> given ''taskId'' msg then
                 (if kind = Some (JStr ''heartbeat'') then ''heartbeat'' else ''check_in'')
               else if kind = Some (JStr ''result'') then ''submit_result'' else ''report_progress'')))
   | _ \<Rightarrow> ''invalid'')"

definition A2A_TOOLS :: "string list" where
  "A2A_TOOLS = [''invalid'', ''tasks/get'', ''tasks/cancel'', ''ask_alice'', ''await_assignment'', ''heartbeat'',
     ''check_in'', ''submit_result'', ''report_progress'', ''get_role_guide'']"

lemma a2a_tool_closed: "a2a_tool payload \<in> set A2A_TOOLS"
  by (auto simp: a2a_tool_def A2A_TOOLS_def Let_def split: json.splits option.splits)

text \<open>A streamed body of which the first \<open>n\<close> chunks went out, all of them unless it broke off.\<close>

definition counted_stream :: "string list \<Rightarrow> nat \<Rightarrow> nat" where
  "counted_stream chunks n = sum_list (map length (take n chunks))"

section \<open>The MCP boundary\<close>

record pending_call =
  p_tool :: string
  p_bytes_in :: nat
  p_started :: iso
  p_task :: "string option"

text \<open>A JSON-RPC id as a dictionary key: a Boolean is the integer it equals.\<close>

datatype rpc_key = Key_text string | Key_int int

definition rpc_key :: "json option \<Rightarrow> rpc_key option" where
  "rpc_key v = (case v of Some (JStr s) \<Rightarrow> Some (Key_text s) | Some (JInt i) \<Rightarrow> Some (Key_int i)
     | Some (JBool b) \<Rightarrow> Some (Key_int (if b then 1 else 0)) | _ \<Rightarrow> None)"

record mcp_accounting =
  awaited :: "rpc_key \<rightharpoonup> pending_call"
  previous :: "string \<rightharpoonup> string list"

definition no_calls :: mcp_accounting where
  "no_calls = \<lparr>awaited = Map.empty, previous = Map.empty\<rparr>"

definition mcp_tool :: "string list \<Rightarrow> string \<Rightarrow> dict \<Rightarrow> string" where
  "mcp_tool tools call_kind params =
     (if call_kind = ''tools/call'' then
        (case dict_get ''name'' params of
           Some (JStr n) \<Rightarrow> if n \<in> set tools then n else ''unknown'' | _ \<Rightarrow> ''unknown'')
      else if call_kind \<in> set MCP_METHODS then call_kind else ''other'')"

definition mcp_task :: "string \<Rightarrow> dict \<Rightarrow> string option" where
  "mcp_task call_kind params =
     (if call_kind = ''tools/call'' then
        (case sub_dict ''arguments'' params of None \<Rightarrow> None | Some args \<Rightarrow> hub_id (dict_get ''task_id'' args))
      else None)"

definition observe_request :: "string list \<Rightarrow> iso \<Rightarrow> dict \<Rightarrow> nat \<Rightarrow> mcp_accounting \<Rightarrow> mcp_accounting" where
  "observe_request tools now payload sz m =
     (case (rpc_key (dict_get ''id'' payload), dict_get ''method'' payload) of
        (Some k, Some (JStr call_kind)) \<Rightarrow>
          (let params = (case sub_dict ''params'' payload of None \<Rightarrow> [] | Some p \<Rightarrow> p) in
           m\<lparr>awaited := (awaited m)(k \<mapsto> \<lparr>p_tool = mcp_tool tools call_kind params, p_bytes_in = sz,
              p_started = now, p_task = mcp_task call_kind params\<rparr>)\<rparr>)
      | _ \<Rightarrow> m)"

fun block_texts :: "json list \<Rightarrow> string list" where
  "block_texts [] = []"
| "block_texts (JObj b # r) = (case dict_get ''text'' b of Some (JStr t) \<Rightarrow> t # block_texts r | _ \<Rightarrow> block_texts r)"
| "block_texts (_ # r) = block_texts r"

definition content_text :: "dict \<Rightarrow> string option" where
  "content_text result = (case dict_get ''content'' result of
     Some (JList blocks) \<Rightarrow> (let texts = block_texts blocks in if texts = [] then None else Some (concat texts))
   | _ \<Rightarrow> None)"

definition mcp_outcome :: "string \<Rightarrow> dict \<Rightarrow> json option \<Rightarrow> string" where
  "mcp_outcome tool result structured =
     (if dict_get ''isError'' result = Some (JBool True) then ''error''
      else case (tool = ''wait_for_event'', structured) of
        (True, Some (JObj s)) \<Rightarrow> if given ''event'' s then ''event'' else ''null_event''
      | _ \<Rightarrow> ''ok'')"

definition repeat_bytes :: "mcp_accounting \<Rightarrow> string \<Rightarrow> string \<Rightarrow> nat \<times> mcp_accounting" where
  "repeat_bytes m tool text =
     (let lines = splitlines text in
      (case previous m tool of None \<Rightarrow> 0 | Some prev \<Rightarrow> length (concat (matched_lines prev lines)),
       m\<lparr>previous := (previous m)(tool \<mapsto> lines)\<rparr>))"

definition mcp_record :: "iso \<Rightarrow> nat \<Rightarrow> pending_call \<Rightarrow> string \<Rightarrow> nat option \<Rightarrow> nat option \<Rightarrow> string option \<Rightarrow> call_record" where
  "mcp_record now sz p outcome content repeat task_id =
     \<lparr>c_boundary = Mcp_boundary, c_actor = ALICE, c_tool = p_tool p, c_outcome = outcome,
      c_bytes_in = p_bytes_in p, c_bytes_out = sz, c_started = p_started p, c_finished = now,
      c_status = None, c_content_bytes = content, c_repeat_bytes = repeat, c_task = task_id\<rparr>"

text \<open>The record a response gives to the request it answers.\<close>

definition answered_call :: "iso \<Rightarrow> dict \<Rightarrow> nat \<Rightarrow> pending_call \<Rightarrow> mcp_accounting \<Rightarrow> call_record \<times> mcp_accounting" where
  "answered_call now payload sz p m = (case sub_dict ''result'' payload of
     None \<Rightarrow> (mcp_record now sz p ''error'' None None (p_task p), m)
   | Some result \<Rightarrow>
       (let structured = dict_get ''structuredContent'' result;
            outcome = mcp_outcome (p_tool p) result structured;
            task_id = (case (p_tool p = ''assign_task'', structured) of
               (True, Some (JObj s)) \<Rightarrow> (case hub_id (dict_get ''id'' s) of Some t \<Rightarrow> Some t | None \<Rightarrow> p_task p)
             | _ \<Rightarrow> p_task p)
        in case content_text result of
             None \<Rightarrow> (mcp_record now sz p outcome None None task_id, m)
           | Some text \<Rightarrow> (case repeat_bytes m (p_tool p) text of
                 (n, m') \<Rightarrow> (mcp_record now sz p outcome (Some (length text)) (Some n) task_id, m'))))"

definition observe_response ::
  "iso \<Rightarrow> dict \<Rightarrow> nat \<Rightarrow> mcp_accounting \<Rightarrow> call_record option \<times> mcp_accounting" where
  "observe_response now payload sz m =
     (case rpc_key (dict_get ''id'' payload) of
        None \<Rightarrow> (None, m)
      | Some k \<Rightarrow>
          if dict_has ''method'' payload then (None, m)
          else (case awaited m k of
              None \<Rightarrow> (None, m)
            | Some p \<Rightarrow> (case answered_call now payload sz p (m\<lparr>awaited := (awaited m)(k := None)\<rparr>) of
                  (r, m') \<Rightarrow> (Some r, m'))))"

end
