(* ===== verification/HubAccess.thy ===== *)
theory HubAccess
  imports Config MergeGate
begin

text \<open>
  What guards the hub's HTTP surface: the bearer check of \<^verbatim>\<open>security.py\<close>, the token file of
  \<^verbatim>\<open>token.py\<close> and the guide route of \<^verbatim>\<open>guides.py\<close>. The file system is a parameter.
\<close>

section \<open>The bearer token\<close>

text \<open>An \<^verbatim>\<open>HTTPException\<close>: the status and the detail.\<close>

type_synonym http_exn = "nat \<times> string"

definition partition_at :: "char \<Rightarrow> string \<Rightarrow> string \<times> string" where
  "partition_at c s = (takeWhile (\<lambda>d. d \<noteq> c) s, drop 1 (dropWhile (\<lambda>d. d \<noteq> c) s))"

definition token_matches :: "string \<Rightarrow> string \<Rightarrow> bool" where
  "token_matches candidate expected = (candidate = expected)"

definition require_bearer :: "string option \<Rightarrow> string option \<Rightarrow> http_exn + unit" where
  "require_bearer loaded authorization = (case loaded of
     None \<Rightarrow> Inl (503, ''bearer token is not loaded yet'')
   | Some expected \<Rightarrow> (case authorization of
         None \<Rightarrow> Inl (401, ''missing Authorization header'')
       | Some h \<Rightarrow> (case partition_at (CHR '' '') h of (scheme, candidate) \<Rightarrow>
           if lower scheme \<noteq> ''bearer'' \<or> strip candidate = [] then
             Inl (401, ''Authorization header must be '' @ [CHR 0x27] @ ''Bearer <token>'' @ [CHR 0x27])
           else if \<not> token_matches (strip candidate) expected then Inl (401, ''invalid bearer token'')
           else Inr ())))"

lemma require_bearer_Inr:
  "require_bearer loaded authorization = Inr u \<longleftrightarrow>
     (\<exists>h expected. authorization = Some h \<and> loaded = Some expected \<and> lower (fst (partition_at (CHR '' '') h)) = ''bearer'' \<and>
        strip (snd (partition_at (CHR '' '') h)) = expected \<and> expected \<noteq> [])"
  by (auto simp: require_bearer_def token_matches_def split: option.splits prod.splits if_splits)

text \<open>A header that carries the token the hub loaded.\<close>

definition presents :: "string option \<Rightarrow> string option \<Rightarrow> bool" where
  "presents loaded authorization = (\<exists>h scheme rest. authorization = Some h \<and> partition_at (CHR '' '') h = (scheme, rest) \<and>
     lower scheme = ''bearer'' \<and> loaded = Some (strip rest) \<and> strip rest \<noteq> [])"

lemma require_bearer_presents: "require_bearer loaded authorization = Inr u \<longleftrightarrow> presents loaded authorization"
  by (auto simp: require_bearer_Inr presents_def prod_eq_iff)

section \<open>The token file\<close>

datatype token_error =
    Cannot_inspect
  | Too_open
  | Cannot_read
  | Token_empty
  | Explicit_empty
  | Cannot_create
  | Cannot_write

record stored_file =
  fl_mode :: nat
  fl_text :: string

text \<open>The token file's place in the file system, and which call on it raises \<^verbatim>\<open>OSError\<close>.\<close>

record token_disk =
  on_windows :: bool
  stat_fails :: bool
  read_fails :: bool
  create_fails :: bool
  write_fails :: bool

text \<open>\<^verbatim>\<open>mode & 0o077\<close>: what group and others may do.\<close>

definition group_or_others :: "nat \<Rightarrow> bool" where
  "group_or_others mode = (mode mod 64 \<noteq> 0)"

definition read_token :: "token_disk \<Rightarrow> stored_file option \<Rightarrow> token_error + string" where
  "read_token disk f = (case f of
     None \<Rightarrow> Inl Cannot_inspect
   | Some fl \<Rightarrow>
       if stat_fails disk then Inl Cannot_inspect
       else if \<not> on_windows disk \<and> group_or_others (fl_mode fl) then Inl Too_open
       else if read_fails disk then Inl Cannot_read
       else (let token = strip (fl_text fl) in if token = [] then Inl Token_empty else Inr token))"

text \<open>The file is created for its owner alone; a write that fails removes it.\<close>

definition load_or_create_token ::
  "token_disk \<Rightarrow> string \<Rightarrow> string option \<Rightarrow> stored_file option \<Rightarrow> (token_error + string) \<times> stored_file option" where
  "load_or_create_token disk generated explicit f = (case explicit of
     Some t \<Rightarrow> (if strip t = [] then Inl Explicit_empty else Inr (strip t), f)
   | None \<Rightarrow> (case f of
       Some fl \<Rightarrow> (read_token disk f, f)
     | None \<Rightarrow> if create_fails disk then (Inl Cannot_create, f)
         else if write_fails disk then (Inl Cannot_write, None)
         else (Inr generated, Some \<lparr>fl_mode = 384, fl_text = generated @ [CHR 0x0A]\<rparr>)))"

lemma load_or_create_token_nonempty:
  "load_or_create_token disk generated explicit f = (Inr t, f') \<Longrightarrow> generated \<noteq> [] \<Longrightarrow> t \<noteq> []"
  by (auto simp: load_or_create_token_def read_token_def Let_def split: option.splits if_splits)

text \<open>A restart reads back the token the first start made.\<close>

lemma token_survives_restart:
  assumes "load_or_create_token disk g None None = (Inr t, f)" and "g \<noteq> []" "\<not> is_space (hd g)" "\<not> is_space (last g)"
    and "\<not> stat_fails disk'" "\<not> read_fails disk'"
  shows "load_or_create_token disk' g' None f = (Inr t, f)"
proof -
  have t: "t = g" "f = Some \<lparr>fl_mode = 384, fl_text = g @ [CHR 0x0A]\<rparr>"
    using assms(1) by (auto simp: load_or_create_token_def split: if_splits)
  have "is_space (CHR 0x0A)" by (simp add: is_space_def)
  then have "strip (g @ [CHR 0x0A]) = strip g"
    using assms(2,3) by (cases g) (simp_all add: strip_def lstrip_def rstrip_def)
  then have "strip (g @ [CHR 0x0A]) = g" using strip_inside [OF assms(3,4,2)] by simp
  then show ?thesis using assms(2,5,6) t
    by (simp add: load_or_create_token_def read_token_def group_or_others_def)
qed

section \<open>Role guides\<close>

text \<open>
  \<open>resolve\<close> is \<^verbatim>\<open>Path.resolve\<close>, which follows symbolic links and removes dot segments; \<open>guide_file\<close> is the
  content of a path that is a file. A path is its list of components.
\<close>

type_synonym os_path = "string list"

record guide_disk =
  resolve :: "os_path \<Rightarrow> os_path"
  guide_file :: "os_path \<Rightarrow> string option"

definition slug_tail :: "char \<Rightarrow> bool" where
  "slug_tail c = (is_lower c \<or> is_digit c \<or> c = CHR ''-'')"

definition role_fullmatch :: "string \<Rightarrow> bool" where
  "role_fullmatch role = (case role of [] \<Rightarrow> False | c # r \<Rightarrow> is_lower c \<and> list_all slug_tail r)"

fun is_relative_to :: "os_path \<Rightarrow> os_path \<Rightarrow> bool" where
  "is_relative_to path [] = True"
| "is_relative_to (p # path) (r # base) = (p = r \<and> is_relative_to path base)"
| "is_relative_to [] (r # base) = False"

definition not_found :: "string \<Rightarrow> http_exn" where
  "not_found detail = (404, detail)"

definition guide_response :: "guide_disk \<Rightarrow> os_path \<Rightarrow> string \<Rightarrow> http_exn + string" where
  "guide_response disk guides_dir role =
     (let missing = Inl (not_found (''no guide for role '' @ repr_str role)) in
      if \<not> role_fullmatch role then missing
      else (let base = resolve disk guides_dir;
                path = resolve disk (base @ [role @ ''.md''])
            in if \<not> is_relative_to path base then missing
               else (case guide_file disk path of None \<Rightarrow> missing | Some content \<Rightarrow> Inr content)))"

lemma is_relative_to_iff: "is_relative_to path base \<longleftrightarrow> (\<exists>rest. path = base @ rest)"
  by (induction path base rule: is_relative_to.induct) auto

lemma role_fullmatch_safe:
  assumes "role_fullmatch role" shows "CHR ''/'' \<notin> set role" "CHR ''.'' \<notin> set role" "CHR 0x0A \<notin> set role" "role \<noteq> []"
proof -
  have "\<forall>c \<in> set role. slug_tail c"
    using assms by (cases role) (auto simp: role_fullmatch_def slug_tail_def list_all_iff)
  then have "c \<in> set role \<Longrightarrow> slug_tail c" for c by blast
  from this [of "CHR ''/''"] this [of "CHR ''.''"] this [of "CHR 0x0A"]
  show "CHR ''/'' \<notin> set role" "CHR ''.'' \<notin> set role" "CHR 0x0A \<notin> set role"
    by (auto simp: slug_tail_def is_lower_def is_digit_def)
  show "role \<noteq> []" using assms by (auto simp: role_fullmatch_def)
qed

text \<open>What is served is a file below the resolved guides directory.\<close>

lemma guide_response_inside:
  assumes "guide_response disk dir role = Inr content"
  obtains rest where "guide_file disk (resolve disk dir @ rest) = Some content"
    "resolve disk dir @ rest = resolve disk (resolve disk dir @ [role @ ''.md''])" "role_fullmatch role"
  using assms by (auto simp: guide_response_def Let_def is_relative_to_iff not_found_def split: if_splits option.splits)

end
