(* ===== verification/HubApp.thy ===== *)
theory HubApp
  imports Accounting HubAccess ProtocolServe JsonRead
begin

text \<open>
  \<^verbatim>\<open>app.py\<close>: the two protected routes with their accounting, the labels the protocol gives a call
  while it serves it (the \<^verbatim>\<open>note_a2a\<close> calls of \<^verbatim>\<open>protocol.py\<close>), and the sweeper's loop. The text a
  response body is rendered to is a parameter (\<open>render\<close>).
\<close>

section \<open>What the protocol notes about a call\<close>

definition note_actor :: "string \<Rightarrow> a2a_call \<Rightarrow> a2a_call" where
  "note_actor n call = note_a2a (Some n) None None call"

definition note_outcome :: "string \<Rightarrow> a2a_call \<Rightarrow> a2a_call" where
  "note_outcome l call = note_a2a None None (Some l) call"

definition note_named :: "hub_db \<Rightarrow> dict \<Rightarrow> a2a_call \<Rightarrow> a2a_call" where
  "note_named db md call = (case dict_get K_AGENT md of
     Some (JStr name) \<Rightarrow> if strip name = [] then call
       else (case agent_by_name db (strip name) of None \<Rightarrow> call | Some a \<Rightarrow> note_actor (a_name a) call)
   | _ \<Rightarrow> call)"

definition note_resolved :: "hub_db \<Rightarrow> a2a_message \<Rightarrow> dict \<Rightarrow> a2a_call \<Rightarrow> a2a_call" where
  "note_resolved db m md call = (case msg_context m of
     Some ctx \<Rightarrow> if ctx = [] then note_named db md call
       else (case agent_by_context db ctx of None \<Rightarrow> call | Some a \<Rightarrow> note_actor (a_name a) call)
   | None \<Rightarrow> note_named db md call)"

definition note_owned :: "hub_db \<Rightarrow> string \<Rightarrow> agent_row \<Rightarrow> a2a_call \<Rightarrow> a2a_call" where
  "note_owned db tid a call = (case owned_task db tid a of
     Inl _ \<Rightarrow> call | Inr t \<Rightarrow> note_a2a None (Some (t_id t)) None call)"

text \<open>\<^verbatim>\<open>_resolve_agent\<close> and then \<^verbatim>\<open>_owned_task\<close>, as the handlers of a task's messages run them.\<close>

definition note_on_task :: "hub_db \<Rightarrow> a2a_message \<Rightarrow> dict \<Rightarrow> string \<Rightarrow> a2a_call \<Rightarrow> a2a_call" where
  "note_on_task db m md tid call = (case resolve_agent db m md of
     Inl _ \<Rightarrow> note_resolved db m md call
   | Inr a \<Rightarrow> note_owned db tid a (note_resolved db m md call))"

definition note_send :: "env \<Rightarrow> a2a_sdk \<Rightarrow> hub_db \<Rightarrow> a2a_message \<Rightarrow> string option \<Rightarrow> a2a_call \<Rightarrow> a2a_call" where
  "note_send e sdk db m addr call =
     (let md = message_metadata m in
      case msg_task m of
        Some tid \<Rightarrow> note_on_task db m md tid call
      | None \<Rightarrow>
          if dict_get K_KIND md = Some (JStr ''heartbeat'') then
            (case serve_heartbeat e sdk db md addr of
               (Inr _, d, _) \<Rightarrow> (case named md ''heartbeat'' of
                   Inr name \<Rightarrow> (case agent_by_name d name of None \<Rightarrow> call | Some a \<Rightarrow> note_actor (a_name a) call)
                 | Inl _ \<Rightarrow> call)
             | _ \<Rightarrow> call)
          else
            (case serve_check_in e sdk db m md addr of
               (Inr _, d, _) \<Rightarrow> (case named md ''check-in'' of Inr name \<Rightarrow> note_actor name call | Inl _ \<Rightarrow> call)
             | _ \<Rightarrow> call))"

definition note_stream :: "hub_settings \<Rightarrow> hub_db \<Rightarrow> a2a_message \<Rightarrow> a2a_call \<Rightarrow> a2a_call" where
  "note_stream settings db m call =
     (let md = message_metadata m in
      case wait_of settings md of
        Inl _ \<Rightarrow> call
      | Inr w \<Rightarrow> (case msg_task m of
          Some tid \<Rightarrow> if dict_get K_KIND md \<noteq> Some (JStr ''question'') then call else note_on_task db m md tid call
        | None \<Rightarrow> if upper (message_text m) \<noteq> ''NEXT'' then call else note_resolved db m md call))"

definition note_dispatch ::
  "env \<Rightarrow> a2a_sdk \<Rightarrow> hub_settings \<Rightarrow> hub_db \<Rightarrow> json \<Rightarrow> string option \<Rightarrow> a2a_call \<Rightarrow> a2a_call" where
  "note_dispatch e sdk settings db payload addr call = (case payload of
     JObj d \<Rightarrow>
       (let noted = (\<lambda>valid note. case valid payload of
            Inl _ \<Rightarrow> call
          | Inr m \<Rightarrow> (case check_message_part_sizes e m of Inl _ \<Rightarrow> call | Inr _ \<Rightarrow> note m))
        in if dict_get ''method'' d = Some (JStr ''message/send'') then
             noted (valid_send sdk) (\<lambda>m. note_send e sdk db m addr call)
           else if dict_get ''method'' d = Some (JStr ''message/stream'') then
             noted (valid_stream sdk) (\<lambda>m. note_stream settings db m call)
           else call)
   | _ \<Rightarrow> call)"

text \<open>What the two streams note once they know what they carry.\<close>

definition note_assignment :: "claim option \<Rightarrow> a2a_call \<Rightarrow> a2a_call" where
  "note_assignment outcome call = (case outcome of
     Some (Released_claim n) \<Rightarrow> note_outcome ''release'' call
   | None \<Rightarrow> note_outcome ''timeout'' call
   | Some (Claimed t) \<Rightarrow> note_a2a None (Some (t_id t)) (Some ''assignment'') call)"

definition note_reply :: "task_row option \<Rightarrow> message_row option \<Rightarrow> a2a_call \<Rightarrow> a2a_call" where
  "note_reply current answer call =
     (if (case current of None \<Rightarrow> False | Some c \<Rightarrow> terminal (t_state c)) then note_outcome ''task_ended'' call
      else (case answer of None \<Rightarrow> note_outcome ''timeout'' call | Some r \<Rightarrow> note_outcome ''reply'' call))"

section \<open>The routes\<close>

definition http_record :: "a2a_call \<Rightarrow> nat \<Rightarrow> nat \<Rightarrow> nat \<Rightarrow> iso \<Rightarrow> call_record" where
  "http_record call status bytes_in bytes_out now =
     \<lparr>c_boundary = A2a_boundary, c_actor = k_actor call, c_tool = k_tool call,
      c_outcome = (case k_outcome call of None \<Rightarrow> ''ok'' | Some l \<Rightarrow> if l = [] then ''ok'' else l),
      c_bytes_in = bytes_in, c_bytes_out = bytes_out, c_started = k_started call, c_finished = now,
      c_status = Some status, c_content_bytes = None, c_repeat_bytes = None, c_task = k_task call\<rparr>"

text \<open>A response whose body is there, or one whose body is still to be streamed.\<close>

datatype hub_response = Whole nat string | Held nat rpc_stream

definition body_outcome :: "string \<Rightarrow> string" where
  "body_outcome body = (case loads body of
     Some (JObj d) \<Rightarrow> if dict_has ''error'' d then ''error'' else ''ok'' | _ \<Rightarrow> ''ok'')"

text \<open>
  \<^verbatim>\<open>measured\<close>: the record of a whole response. A held one is recorded by \<open>stream_record\<close> when its
  body ends.
\<close>

definition measured :: "a2a_call option \<Rightarrow> nat \<Rightarrow> hub_response \<Rightarrow> iso \<Rightarrow> call_record option" where
  "measured call bytes_in response now = (case call of
     None \<Rightarrow> None
   | Some c \<Rightarrow> (case response of
         Held status s \<Rightarrow> None
       | Whole status body \<Rightarrow>
           (let c = (if k_outcome c = None then c\<lparr>k_outcome := Some (body_outcome body)\<rparr> else c)
            in Some (http_record c status bytes_in (length body) now))))"

definition stream_record :: "a2a_call option \<Rightarrow> nat \<Rightarrow> nat \<Rightarrow> string list \<Rightarrow> nat \<Rightarrow> iso \<Rightarrow> call_record option" where
  "stream_record call status bytes_in chunks n now =
     map_option (\<lambda>c. http_record c status bytes_in (counted_stream chunks n) now) call"

definition rpc_reply :: "(rpc_response \<Rightarrow> string) \<Rightarrow> rpc_response \<Rightarrow> hub_response" where
  "rpc_reply render r = (case resp_body r of
     Stream_body s \<Rightarrow> Held (resp_status r) s | _ \<Rightarrow> Whole (resp_status r) (render r))"

text \<open>The A2A route: the answer, the tables, the keys to notify, and the call with its record if any.\<close>

record a2a_request =
  rq_authorization :: "string option"
  rq_body :: string
  rq_peer :: "string option"

record a2a_served =
  sv_answer :: "http_exn + hub_response"
  sv_db :: hub_db
  sv_keys :: "string list"
  sv_call :: "a2a_call option"
  sv_record :: "call_record option"

definition a2a_route ::
  "env \<Rightarrow> a2a_sdk \<Rightarrow> hub_settings \<Rightarrow> (rpc_response \<Rightarrow> string) \<Rightarrow> string option \<Rightarrow> bool \<Rightarrow> iso \<Rightarrow> iso \<Rightarrow> hub_db
   \<Rightarrow> a2a_request \<Rightarrow> a2a_served" where
  "a2a_route e sdk settings render token accounting started now db rq =
     (case require_bearer token (rq_authorization rq) of
        Inl x \<Rightarrow> \<lparr>sv_answer = Inl x, sv_db = db, sv_keys = [], sv_call = None, sv_record = None\<rparr>
      | Inr _ \<Rightarrow>
          (let call = (if accounting then Some (begin_a2a ''invalid'' started) else None) in
           case loads (rq_body rq) of
             None \<Rightarrow> (let answer = rpc_reply render (error_response JNull Parse_error 200) in
               \<lparr>sv_answer = Inr answer, sv_db = db, sv_keys = [], sv_call = call,
                sv_record = measured call (length (rq_body rq)) answer now\<rparr>)
           | Some payload \<Rightarrow>
               (case dispatch e sdk settings db payload (rq_peer rq) of (r, d, ks) \<Rightarrow>
                let call = map_option (\<lambda>c. note_dispatch e sdk settings db payload (rq_peer rq)
                             (c\<lparr>k_tool := a2a_tool payload\<rparr>)) call;
                    answer = rpc_reply render r
                in \<lparr>sv_answer = Inr answer, sv_db = d, sv_keys = ks, sv_call = call,
                    sv_record = measured call (length (rq_body rq)) answer now\<rparr>)))"

text \<open>The guide route; \<open>claimed\<close> is the \<^verbatim>\<open>X-Hub-Agent\<close> header.\<close>

definition guide_route ::
  "guide_disk \<Rightarrow> os_path \<Rightarrow> string option \<Rightarrow> bool \<Rightarrow> iso \<Rightarrow> iso \<Rightarrow> hub_db \<Rightarrow> string option
   \<Rightarrow> string option \<Rightarrow> string \<Rightarrow> (http_exn + string) \<times> call_record option" where
  "guide_route disk dir token accounting started now db authorization claimed role =
     (case require_bearer token authorization of
        Inl x \<Rightarrow> (Inl x, None)
      | Inr _ \<Rightarrow>
          (let answer = guide_response disk dir role in
           if \<not> accounting then (answer, None)
           else (let call = begin_a2a ''get_role_guide'' started;
                     name = (case claimed of None \<Rightarrow> [] | Some n \<Rightarrow> n);
                     call = (if name \<noteq> [] \<and> agent_by_name db name \<noteq> None then call\<lparr>k_actor := name\<rparr> else call)
                 in case answer of
                      Inl (status, detail) \<Rightarrow> (answer, Some (http_record (call\<lparr>k_outcome := Some ''not_found''\<rparr>) status 0
                        (length (dumps (\<lambda>_. []) False (JObj [(''detail'', JStr detail)]))) now))
                    | Inr body \<Rightarrow> (answer, measured (Some call) 0 (Whole 200 body) now))))"

section \<open>The sweeper\<close>

text \<open>
  \<^verbatim>\<open>run_sweeper\<close> for the passes it makes before it is cancelled, each with its own clock; a pass that
  raises is logged and the next one follows.
\<close>

fun run_sweeper :: "env list \<Rightarrow> rat \<Rightarrow> hub_db \<Rightarrow> event_row list list \<times> hub_db" where
  "run_sweeper [] lost_after db = ([], db)"
| "run_sweeper (e # es) lost_after db = (case sweep e db lost_after of
     Inl _ \<Rightarrow> run_sweeper es lost_after db
   | Inr (queued, d, ks) \<Rightarrow> (case run_sweeper es lost_after d of (rest, d') \<Rightarrow> (queued # rest, d')))"

end
