(* ===== verification/AccountingProps.thy ===== *)
theory AccountingProps
  imports HubApp ProtocolProps
begin

text \<open>
  The accounting as it runs beside the hub: what a row of \<^verbatim>\<open>call_log\<close> may say, kept by every step of
  the hub, and how a response finds the request it answers.
\<close>

section \<open>Labels\<close>

definition hex_id :: "string \<Rightarrow> bool" where
  "hex_id s = (length s = 32 \<and> list_all id_char s)"

definition task_label :: "string option \<Rightarrow> bool" where
  "task_label t = (case t of None \<Rightarrow> True | Some s \<Rightarrow> hex_id s)"

text \<open>The name of a worker: one that is registered, or one an operation was recorded for.\<close>

definition known_actor :: "hub_db \<Rightarrow> string \<Rightarrow> bool" where
  "known_actor db n = (agent_of db n \<noteq> None \<or> (\<exists>r \<in> set (operations db). o_actor r = n))"

definition A2A_OUTCOMES :: "string list" where
  "A2A_OUTCOMES = [''ok'', ''error'', ''release'', ''timeout'', ''assignment'', ''task_ended'', ''reply'', ''not_found'']"

definition MCP_OUTCOMES :: "string list" where
  "MCP_OUTCOMES = [''ok'', ''error'', ''event'', ''null_event'']"

definition call_labels :: "hub_db \<Rightarrow> a2a_call \<Rightarrow> bool" where
  "call_labels db c = (k_tool c \<in> set A2A_TOOLS \<and> (k_actor c = UNKNOWN_ACTOR \<or> known_actor db (k_actor c)) \<and>
     task_label (k_task c) \<and> (case k_outcome c of None \<Rightarrow> True | Some l \<Rightarrow> l \<in> set A2A_OUTCOMES))"

definition mcp_labels :: "string list \<Rightarrow> call_record \<Rightarrow> bool" where
  "mcp_labels tools r = (c_actor r = ALICE \<and> c_tool r \<in> set tools \<union> set MCP_METHODS \<union> {''unknown'', ''other''} \<and>
     c_outcome r \<in> set MCP_OUTCOMES \<and>
     (case (c_repeat_bytes r, c_content_bytes r) of
        (Some n, Some k) \<Rightarrow> n \<le> k | (None, None) \<Rightarrow> True | _ \<Rightarrow> False))"

definition a2a_labels :: "hub_db \<Rightarrow> call_record \<Rightarrow> bool" where
  "a2a_labels db r = (c_tool r \<in> set A2A_TOOLS \<and> (c_actor r = UNKNOWN_ACTOR \<or> known_actor db (c_actor r)) \<and>
     c_outcome r \<in> set A2A_OUTCOMES \<and> c_status r \<noteq> None \<and> c_content_bytes r = None \<and> c_repeat_bytes r = None)"

definition closed_labels :: "string list \<Rightarrow> hub_db \<Rightarrow> call_record \<Rightarrow> bool" where
  "closed_labels tools db r = (task_label (c_task r) \<and>
     (case c_boundary r of A2a_boundary \<Rightarrow> a2a_labels db r | Mcp_boundary \<Rightarrow> mcp_labels tools r))"

lemma hub_id_label: "hub_id v = Some s \<Longrightarrow> hex_id s"
  by (auto simp: hub_id_def hex_id_def split: option.splits json.splits if_splits)

lemma task_label_simps [simp]: "task_label None" "task_label (hub_id v)" "hex_id s \<Longrightarrow> task_label (Some s)"
  by (auto simp: task_label_def hub_id_label split: option.splits)

lemma known_agent: "agent_of db n = Some a \<Longrightarrow> known_actor db n"
  by (simp add: known_actor_def)

lemma known_actor_later:
  assumes "hub_ok d" "evolves db d" "known_actor db n" shows "known_actor d n"
proof -
  consider a where "agent_of db n = Some a" | r where "r \<in> set (operations db)" "o_actor r = n"
    using assms(3) by (auto simp: known_actor_def)
  then show ?thesis
  proof cases
    case 1
    then show ?thesis using evolves_agent_of [OF assms(1,2)] by (metis known_agent)
  next
    case 2
    obtain zs where "operations d = operations db @ zs"
      using grows_eq_append [OF evolvesD(7) [OF assms(2)]] by blast
    with 2 show ?thesis by (auto simp: known_actor_def)
  qed
qed

section \<open>The notes of the protocol\<close>

lemma begin_labels: "tool \<in> set A2A_TOOLS \<Longrightarrow> call_labels db (begin_a2a tool now)"
  by (simp add: begin_a2a_def call_labels_def)

lemma note_labels:
  assumes "call_labels db c" and "\<And>n. actor = Some n \<Longrightarrow> known_actor db n"
    and "\<And>l. outcome = Some l \<Longrightarrow> l \<in> set A2A_OUTCOMES"
  shows "call_labels db (note_a2a actor t outcome c)"
  using assms by (cases actor; cases t; cases outcome) (simp_all add: note_a2a_def call_labels_def)

lemma note_actor_labels: "call_labels db c \<Longrightarrow> known_actor db n \<Longrightarrow> call_labels db (note_actor n c)"
  unfolding note_actor_def by (rule note_labels) auto

lemma note_outcome_labels: "call_labels db c \<Longrightarrow> l \<in> set A2A_OUTCOMES \<Longrightarrow> call_labels db (note_outcome l c)"
  unfolding note_outcome_def by (rule note_labels) auto

lemma found_agent_known:
  "agent_by_name db n = Some a \<Longrightarrow> known_actor db (a_name a)"
  "hub_ok db \<Longrightarrow> agent_by_context db ctx = Some a \<Longrightarrow> known_actor db (a_name a)"
proof -
  show "agent_by_name db n = Some a \<Longrightarrow> known_actor db (a_name a)"
    by (auto simp: agent_by_name_def agent_of_def known_actor_def dest: find_SomeD)
  assume "hub_ok db" "agent_by_context db ctx = Some a"
  then have "agent_of db (a_name a) = Some a"
    using agent_of_iff [OF hub_okD(1)] by (auto simp: agent_by_context_def dest: find_SomeD)
  then show "known_actor db (a_name a)" by (rule known_agent)
qed

lemma note_named_labels: "call_labels db c \<Longrightarrow> call_labels db (note_named db md c)"
  by (auto simp: note_named_def note_actor_labels found_agent_known split: option.splits json.splits)

lemma note_resolved_labels: "hub_ok db \<Longrightarrow> call_labels db c \<Longrightarrow> call_labels db (note_resolved db m md c)"
  by (auto simp: note_resolved_def note_named_labels note_actor_labels found_agent_known split: option.splits)

lemma note_on_task_labels: "hub_ok db \<Longrightarrow> call_labels db c \<Longrightarrow> call_labels db (note_on_task db m md tid c)"
  by (auto simp: note_on_task_def note_owned_def note_resolved_labels intro!: note_labels split: sum.splits)

lemma note_assignment_labels: "call_labels db c \<Longrightarrow> call_labels db (note_assignment out c)"
  by (auto simp: note_assignment_def note_outcome_labels A2A_OUTCOMES_def intro!: note_labels split: option.splits claim.splits)

lemma note_reply_labels: "call_labels db c \<Longrightarrow> call_labels db (note_reply current answer c)"
  by (auto simp: note_reply_def note_outcome_labels A2A_OUTCOMES_def split: option.splits)

lemma call_labels_later: "hub_ok d \<Longrightarrow> evolves db d \<Longrightarrow> call_labels db c \<Longrightarrow> call_labels d c"
  by (auto simp: call_labels_def known_actor_later)

lemma check_in_known:
  assumes "check_in e db name profile inst op hash builder addr = Inr (r, d, ks)"
  shows "known_actor d name"
  using assms
proof (cases rule: check_in_cases)
  case (replay resp)
  then obtain i x where "operation_of db name i = Some x"
    by (auto simp: replayed_def split: option.splits if_splits)
  then have "x \<in> set (operations d)" "o_actor x = name"
    using replay(3) by (auto simp: operation_of_def dest: find_SomeD)
  then show ?thesis by (auto simp: known_actor_def)
next
  case (fresh i db1 row parts mid db2 pay db3 agent)
  have "agents d = agents db3" using fresh(9) by (metis record_reply_frames(2) snd_conv)
  then show ?thesis using fresh(8) by (auto simp: agent_of_def intro!: known_agent)
qed

lemma serve_check_in_known:
  assumes "serve_check_in e sdk db m md addr = (Inr r, d, ks)" and "named md ''check-in'' = Inr name"
  shows "known_actor d name"
  using assms by (auto simp: serve_check_in_def served_Inr split: if_splits dest: check_in_known)

text \<open>The tables after the call are those the label is read against.\<close>

lemma note_send_labels:
  assumes "hub_ok db" "call_labels db c" "serve_send e sdk db m addr = (x, d, ks)" "hub_ok d" "evolves db d"
  shows "call_labels d (note_send e sdk db m addr c)"
proof -
  note later = call_labels_later [OF assms(4,5)]
  show ?thesis
  proof (cases "msg_task m")
    case (Some tid)
    then show ?thesis using assms(1,2) by (simp add: note_send_def Let_def later note_on_task_labels)
  next
    case None
    then show ?thesis using assms(2,3)
      by (auto simp: note_send_def serve_send_def Let_def later note_actor_labels found_agent_known serve_check_in_known
          split: sum.splits option.splits)
  qed
qed

lemma note_stream_labels: "hub_ok db \<Longrightarrow> call_labels db c \<Longrightarrow> call_labels db (note_stream settings db m c)"
  by (auto simp: note_stream_def Let_def note_on_task_labels note_resolved_labels split: sum.splits option.splits)

lemma dispatch_sends:
  assumes "dispatch e sdk settings db (JObj p) addr = (resp, d, ks)" and "dict_get ''method'' p = Some (JStr ''message/send'')"
    and "valid_send sdk (JObj p) = Inr m" "check_message_part_sizes e m = Inr u"
  obtains x ks' where "serve_send e sdk db m addr = (x, d, ks')"
proof -
  obtain x d' ks' where s: "serve_send e sdk db m addr = (x, d', ks')" by (cases "serve_send e sdk db m addr")
  then have "d' = d" using assms
    by (cases x) (auto simp: dispatch_def serve_method_def SUPPORTED_METHODS_def Let_def pbind_def validated_def sbind_def served_def)
  with s that show thesis by blast
qed

lemma note_dispatch_labels:
  assumes ok: "hub_ok db" and c: "call_labels db c" and d: "dispatch e sdk settings db payload addr = (resp, d, ks)"
  shows "call_labels d (note_dispatch e sdk settings db payload addr c)"
proof -
  have ev: "hub_ok d" "evolves db d"
    using dispatch_effect [OF d] ok hub_step_ok [OF ok hub_stepI] hub_step_evolves [OF ok hub_stepI] by auto
  note later = call_labels_later [OF ev]
  have plain: "call_labels d c" by (rule later [OF c])
  show ?thesis
  proof (cases payload)
    case (JObj p)
    have send: "call_labels d (note_send e sdk db m addr c)"
      if "dict_get ''method'' p = Some (JStr ''message/send'')" "valid_send sdk payload = Inr m"
        "check_message_part_sizes e m = Inr u" for m u
    proof -
      note sent = that
      obtain x ks' where "serve_send e sdk db m addr = (x, d, ks')"
        by (rule dispatch_sends [OF d [unfolded JObj] sent(1) sent(2) [unfolded JObj] sent(3)])
      then show ?thesis by (rule note_send_labels [OF ok c _ ev])
    qed
    have stream: "call_labels d (note_stream settings db m c)" for m
      by (rule later [OF note_stream_labels [OF ok c]])
    show ?thesis unfolding note_dispatch_def
      using send stream plain by (auto simp: JObj Let_def split: sum.splits)
  qed (simp_all add: note_dispatch_def plain)
qed

section \<open>Records\<close>

lemma http_record_labels: "call_labels db c \<Longrightarrow> closed_labels tools db (http_record c status n k now)"
  by (auto simp: closed_labels_def a2a_labels_def http_record_def call_labels_def A2A_OUTCOMES_def split: option.splits)

lemma measured_labels: "call_labels db c \<Longrightarrow> measured (Some c) n resp now = Some r \<Longrightarrow> closed_labels tools db r"
  by (auto simp: measured_def Let_def body_outcome_def A2A_OUTCOMES_def call_labels_def intro!: http_record_labels
      split: hub_response.splits if_splits option.splits json.splits)

lemma mcp_tool_closed: "mcp_tool tools k params \<in> set tools \<union> set MCP_METHODS \<union> {''unknown'', ''other''}"
  by (auto simp: mcp_tool_def split: option.splits json.splits)

lemma mcp_task_label: "task_label (mcp_task k params)"
  by (auto simp: mcp_task_def split: option.splits)

lemma mcp_outcome_closed: "mcp_outcome tool result structured \<in> set MCP_OUTCOMES"
  by (auto simp: mcp_outcome_def MCP_OUTCOMES_def split: option.splits json.splits bool.splits)

definition pending_labels :: "string list \<Rightarrow> pending_call \<Rightarrow> bool" where
  "pending_labels tools p = (p_tool p \<in> set tools \<union> set MCP_METHODS \<union> {''unknown'', ''other''} \<and> task_label (p_task p))"

lemma answered_call_labels:
  assumes "answered_call now payload sz p m = (r, m')" and "pending_labels tools p"
  shows "closed_labels tools db r" "awaited m' = awaited m"
proof -
  have rep: "n \<le> length body" "awaited k = awaited m" if "repeat_bytes m tool body = (n, k)" for tool body n k
    using that matched_size [of _ "splitlines body"] by (auto simp: repeat_bytes_def Let_def split: option.splits)
  have rec: "closed_labels tools db (mcp_record now sz p out c n t)"
    if "out \<in> set MCP_OUTCOMES" "task_label t" "case (n, c) of (Some n, Some k) \<Rightarrow> n \<le> k | (None, None) \<Rightarrow> True | _ \<Rightarrow> False" for out c n t
    using that assms(2) by (auto simp: closed_labels_def mcp_labels_def mcp_record_def pending_labels_def)
  have err: "''error'' \<in> set MCP_OUTCOMES" by (simp add: MCP_OUTCOMES_def)
  have t: "task_label (p_task p)" using assms(2) by (simp add: pending_labels_def)
  show "closed_labels tools db r" "awaited m' = awaited m"
    using assms(1) rep t
    by (auto simp: answered_call_def Let_def err mcp_outcome_closed hub_id_label intro!: rec
        split: option.splits prod.splits bool.splits json.splits)
qed

section \<open>Requests and their responses\<close>

datatype observation = Asked iso dict nat | Answered iso dict nat

definition observe :: "string list \<Rightarrow> observation \<Rightarrow> mcp_accounting \<Rightarrow> call_record list \<times> mcp_accounting" where
  "observe tools ob m = (case ob of
     Asked t payload n \<Rightarrow> ([], observe_request tools t payload n m)
   | Answered t payload n \<Rightarrow> (case observe_response t payload n m of
         (None, m') \<Rightarrow> ([], m') | (Some r, m') \<Rightarrow> ([r], m')))"

fun observe_all :: "string list \<Rightarrow> observation list \<Rightarrow> mcp_accounting \<Rightarrow> call_record list \<times> mcp_accounting" where
  "observe_all tools [] m = ([], m)"
| "observe_all tools (ob # obs) m = (case observe tools ob m of (rs, m1) \<Rightarrow>
     (case observe_all tools obs m1 of (rs', m2) \<Rightarrow> (rs @ rs', m2)))"

text \<open>A request or a response that carries the id \<open>k\<close>.\<close>

definition is_request :: "rpc_key \<Rightarrow> dict \<Rightarrow> bool" where
  "is_request k payload = (rpc_key (dict_get ''id'' payload) = Some k \<and>
     (\<exists>s. dict_get ''method'' payload = Some (JStr s)))"

definition is_answer :: "rpc_key \<Rightarrow> dict \<Rightarrow> bool" where
  "is_answer k payload = (rpc_key (dict_get ''id'' payload) = Some k \<and> \<not> dict_has ''method'' payload)"

definition touches :: "rpc_key \<Rightarrow> observation \<Rightarrow> bool" where
  "touches k ob = (case ob of Asked t payload n \<Rightarrow> is_request k payload | Answered t payload n \<Rightarrow> is_answer k payload)"

definition request_params :: "dict \<Rightarrow> dict" where
  "request_params payload = (case sub_dict ''params'' payload of None \<Rightarrow> [] | Some p \<Rightarrow> p)"

lemma answered_call_pending: "answered_call now payload sz p m = (r, m') \<Longrightarrow> awaited m' = awaited m"
  by (auto simp: answered_call_def repeat_bytes_def Let_def split: option.splits)

lemma observe_untouched:
  assumes "\<not> touches k ob" "observe tools ob m = (rs, m')" shows "awaited m' k = awaited m k"
proof (cases ob)
  case (Asked t payload n)
  with assms show ?thesis
    by (auto simp: observe_def touches_def is_request_def observe_request_def Let_def split: option.splits json.splits)
next
  case (Answered t payload n)
  with assms show ?thesis
    by (auto simp: observe_def touches_def is_answer_def observe_response_def dest!: answered_call_pending
        split: option.splits if_splits prod.splits)
qed

lemma observe_all_untouched:
  "\<forall>ob \<in> set obs. \<not> touches k ob \<Longrightarrow> observe_all tools obs m = (rs, m') \<Longrightarrow> awaited m' k = awaited m k"
proof (induction obs arbitrary: m rs m')
  case (Cons ob obs)
  obtain rs1 m1 where o: "observe tools ob m = (rs1, m1)" by (cases "observe tools ob m")
  obtain rs2 m2 where a: "observe_all tools obs m1 = (rs2, m2)" by (cases "observe_all tools obs m1")
  have "m' = m2" using Cons.prems(2) by (simp add: o a)
  then show ?case using Cons.IH [OF _ a] Cons.prems(1) observe_untouched [OF _ o] by auto
qed simp

lemma request_awaited:
  assumes "is_request k payload" "dict_get ''method'' payload = Some (JStr s)"
  shows "awaited (observe_request tools now payload n m) k =
     Some \<lparr>p_tool = mcp_tool tools s (request_params payload), p_bytes_in = n, p_started = now,
       p_task = mcp_task s (request_params payload)\<rparr>"
  using assms by (auto simp: is_request_def observe_request_def request_params_def Let_def)

text \<open>The record an answered call gets, and that it is answered only once.\<close>

lemma awaited_answered:
  assumes "is_answer k payload" "awaited m k = Some p"
  obtains r m' where "observe_response now payload n m = (Some r, m')" "awaited m' k = None"
    "c_tool r = p_tool p" "c_actor r = ALICE" "c_bytes_in r = p_bytes_in p" "c_bytes_out r = n"
    "c_started r = p_started p" "c_finished r = now"
proof -
  obtain r m' where a: "answered_call now payload n p (m\<lparr>awaited := (awaited m)(k := None)\<rparr>) = (r, m')"
    by (cases "answered_call now payload n p (m\<lparr>awaited := (awaited m)(k := None)\<rparr>)")
  show thesis
  proof (rule that [of r m'])
    show "observe_response now payload n m = (Some r, m')"
      using assms a by (simp add: is_answer_def observe_response_def)
    show "awaited m' k = None" using answered_call_pending [OF a] by simp
    show "c_tool r = p_tool p" "c_actor r = ALICE" "c_bytes_in r = p_bytes_in p" "c_bytes_out r = n"
      "c_started r = p_started p" "c_finished r = now"
      using a by (auto simp: answered_call_def mcp_record_def Let_def split: option.splits prod.splits)
  qed
qed

lemma unawaited_answer: "is_answer k payload \<Longrightarrow> awaited m k = None \<Longrightarrow> observe_response now payload n m = (None, m)"
  by (simp add: is_answer_def observe_response_def)

lemma repeat_of_same:
  "previous m tool = Some (splitlines t) \<Longrightarrow> fst (repeat_bytes m tool t) = length t"
  "previous (snd (repeat_bytes m tool t)) tool = Some (splitlines t)"
  by (simp_all add: repeat_bytes_def Let_def matched_lines_same)

end
