(* ===== verification/HubTraffic.thy ===== *)
theory HubTraffic
  imports AccountingProps ProtocolRetries
begin

text \<open>
  The hub and its accounting together as a transition system: committed operations, requests on the
  two protected routes, held streams that end, and the messages on Alice's pipe. Every row of
  \<^verbatim>\<open>call_log\<close> keeps to the closed sets of labels.
\<close>

record hub_config =
  hc_accounting :: call_accounting
  hc_sdk :: a2a_sdk
  hc_settings :: hub_settings
  hc_render :: "rpc_response \<Rightarrow> string"
  hc_token :: "string option"
  hc_tools :: "string list"
  hc_guides :: guide_disk
  hc_guides_dir :: os_path

text \<open>A held stream: its call, the status it was opened with and the size of the request.\<close>

record hub_run =
  run_db :: hub_db
  run_books :: call_books
  run_streams :: "(a2a_call \<times> nat \<times> nat) list"
  run_mcp :: mcp_accounting

definition hub_start :: hub_run where
  "hub_start = \<lparr>run_db = empty_db, run_books = \<lparr>call_log = [], call_seq = 0, call_lines = []\<rparr>,
     run_streams = [], run_mcp = no_calls\<rparr>"

definition record_maybe :: "hub_config \<Rightarrow> log_io \<Rightarrow> hub_db \<Rightarrow> call_record option \<Rightarrow> call_books \<Rightarrow> call_books" where
  "record_maybe cfg io db r books = (case r of None \<Rightarrow> books | Some r \<Rightarrow> record_call (hc_accounting cfg) io db books r)"

definition new_streams :: "a2a_served \<Rightarrow> nat \<Rightarrow> (a2a_call \<times> nat \<times> nat) list" where
  "new_streams sv bytes_in = (case (sv_answer sv, sv_call sv) of
     (Inr (Held status s), Some c) \<Rightarrow> [(c, status, bytes_in)] | _ \<Rightarrow> [])"

definition serve_a2a :: "hub_config \<Rightarrow> env \<Rightarrow> iso \<Rightarrow> iso \<Rightarrow> log_io \<Rightarrow> a2a_request \<Rightarrow> hub_run \<Rightarrow> hub_run" where
  "serve_a2a cfg e started now io rq s =
     (let sv = a2a_route e (hc_sdk cfg) (hc_settings cfg) (hc_render cfg) (hc_token cfg)
                 (enabled (hc_accounting cfg)) started now (run_db s) rq
      in s\<lparr>run_db := sv_db sv, run_books := record_maybe cfg io (sv_db sv) (sv_record sv) (run_books s),
           run_streams := run_streams s @ new_streams sv (length (rq_body rq))\<rparr>)"

definition serve_guide ::
  "hub_config \<Rightarrow> iso \<Rightarrow> iso \<Rightarrow> log_io \<Rightarrow> string option \<Rightarrow> string option \<Rightarrow> string \<Rightarrow> hub_run \<Rightarrow> hub_run" where
  "serve_guide cfg started now io authorization claimed role s =
     s\<lparr>run_books := record_maybe cfg io (run_db s) (snd (guide_route (hc_guides cfg) (hc_guides_dir cfg) (hc_token cfg)
         (enabled (hc_accounting cfg)) started now (run_db s) authorization claimed role)) (run_books s)\<rparr>"

definition mcp_request :: "hub_config \<Rightarrow> iso \<Rightarrow> dict \<Rightarrow> nat \<Rightarrow> hub_run \<Rightarrow> hub_run" where
  "mcp_request cfg now payload sz s = s\<lparr>run_mcp := observe_request (hc_tools cfg) now payload sz (run_mcp s)\<rparr>"

definition mcp_response :: "hub_config \<Rightarrow> iso \<Rightarrow> log_io \<Rightarrow> dict \<Rightarrow> nat \<Rightarrow> hub_run \<Rightarrow> hub_run" where
  "mcp_response cfg now io payload sz s = (case observe_response now payload sz (run_mcp s) of
     (r, m) \<Rightarrow> s\<lparr>run_books := record_maybe cfg io (run_db s) r (run_books s), run_mcp := m\<rparr>)"

text \<open>How a held stream ends: with what its wait found, or broken off before.\<close>

datatype stream_end = Assignment_end "claim option" | Reply_end "task_row option" "message_row option" | Broken_end

definition note_end :: "stream_end \<Rightarrow> a2a_call \<Rightarrow> a2a_call" where
  "note_end x c = (case x of Assignment_end found \<Rightarrow> note_assignment found c | Reply_end cur ans \<Rightarrow> note_reply cur ans c | Broken_end \<Rightarrow> c)"

inductive hub_traffic :: "hub_config \<Rightarrow> hub_run \<Rightarrow> hub_run \<Rightarrow> bool" for cfg where
  Operation: "hub_does (run_db s) d ks \<Longrightarrow> hub_traffic cfg s (s\<lparr>run_db := d\<rparr>)"
| Request: "hub_traffic cfg s (serve_a2a cfg e started now io rq s)"
| Stream_end: "run_streams s = xs @ (c, status, n) # ys \<Longrightarrow>
    hub_traffic cfg s (s\<lparr>run_streams := xs @ ys, run_books := record_maybe cfg io (run_db s)
      (stream_record (Some (note_end x c)) status n chunks sent now) (run_books s)\<rparr>)"
| Guide: "hub_traffic cfg s (serve_guide cfg started now io authorization claimed role s)"
| Mcp_request: "hub_traffic cfg s (mcp_request cfg now payload sz s)"
| Mcp_response: "hub_traffic cfg s (mcp_response cfg now io payload sz s)"

section \<open>The rows of the log\<close>

definition books_ok :: "string list \<Rightarrow> hub_db \<Rightarrow> call_books \<Rightarrow> bool" where
  "books_ok tools db b \<longleftrightarrow>
     (\<forall>r \<in> set (call_log b). closed_labels tools db (cr_call r)) \<and> (\<forall>(r, w) \<in> set (call_lines b). closed_labels tools db r) \<and>
     sorted_wrt (<) (map cr_id (call_log b)) \<and> (\<forall>r \<in> set (call_log b). cr_id r \<le> call_seq b)"

definition traffic_ok :: "hub_config \<Rightarrow> hub_run \<Rightarrow> bool" where
  "traffic_ok cfg s \<longleftrightarrow> hub_ok (run_db s) \<and> books_ok (hc_tools cfg) (run_db s) (run_books s) \<and>
     (\<forall>(c, x) \<in> set (run_streams s). call_labels (run_db s) c) \<and>
     (\<forall>p \<in> ran (awaited (run_mcp s)). pending_labels (hc_tools cfg) p)"

lemma closed_labels_later: "hub_ok d \<Longrightarrow> evolves db d \<Longrightarrow> closed_labels tools db r \<Longrightarrow> closed_labels tools d r"
  by (auto simp: closed_labels_def a2a_labels_def known_actor_later split: boundary.splits)

lemma books_ok_later: "hub_ok d \<Longrightarrow> evolves db d \<Longrightarrow> books_ok tools db b \<Longrightarrow> books_ok tools d b"
  by (auto simp: books_ok_def closed_labels_later)

lemma books_ok_record: "books_ok tools db b \<Longrightarrow> closed_labels tools db r \<Longrightarrow> books_ok tools db (record_call acc io d b r)"
  by (auto simp: books_ok_def record_call_def Let_def sorted_wrt_append less_Suc_eq_le)

lemma books_ok_maybe:
  "books_ok tools db b \<Longrightarrow> (\<And>x. r = Some x \<Longrightarrow> closed_labels tools db x) \<Longrightarrow> books_ok tools db (record_maybe cfg io d r b)"
  by (auto simp: record_maybe_def books_ok_record split: option.splits)

lemma a2a_route_labels:
  assumes "hub_ok db" and "sv = a2a_route e sdk settings render token acc started now db rq"
  shows "hub_ok (sv_db sv)" "evolves db (sv_db sv)"
    "sv_call sv = Some c \<Longrightarrow> call_labels (sv_db sv) c" "sv_record sv = Some r \<Longrightarrow> closed_labels tools (sv_db sv) r"
proof -
  have begin_ok: "call_labels db (begin_a2a t started)" if "t \<in> set A2A_TOOLS" for t
    by (rule begin_labels [OF that])
  have retool: "(begin_a2a t started)\<lparr>k_tool := t'\<rparr> = begin_a2a t' started" for t t'
    by (simp add: begin_a2a_def)
  have inv: "''invalid'' \<in> set A2A_TOOLS" by (simp add: A2A_TOOLS_def)
  have all: "hub_ok (sv_db sv) \<and> evolves db (sv_db sv) \<and> (\<forall>c. sv_call sv = Some c \<longrightarrow> call_labels (sv_db sv) c) \<and>
      (\<forall>r. sv_record sv = Some r \<longrightarrow> closed_labels tools (sv_db sv) r)"
  proof (cases "require_bearer token (rq_authorization rq)")
    case (Inl x)
    then show ?thesis using assms by (simp add: a2a_route_def)
  next
    case (Inr u)
    show ?thesis
    proof (cases "loads (rq_body rq)")
      case None
      then show ?thesis using assms Inr begin_ok [OF inv]
        by (auto simp: a2a_route_def Let_def measured_labels measured_def [of None] split: if_splits)
    next
      case (Some payload)
      obtain resp d ks where d: "dispatch e sdk settings db payload (rq_peer rq) = (resp, d, ks)"
        by (cases "dispatch e sdk settings db payload (rq_peer rq)")
      have ev: "hub_ok d" "evolves db d"
        using dispatch_effect [OF d] assms(1) hub_step_ok [OF assms(1) hub_stepI] hub_step_evolves [OF assms(1) hub_stepI] by auto
      have noted: "call_labels d (note_dispatch e sdk settings db payload (rq_peer rq) (begin_a2a (a2a_tool payload) started))"
        by (rule note_dispatch_labels [OF assms(1) begin_ok [OF a2a_tool_closed] d])
      show ?thesis using assms(2) Inr Some d ev noted
        by (auto simp: a2a_route_def Let_def retool measured_labels measured_def [of None] split: if_splits)
    qed
  qed
  then show "hub_ok (sv_db sv)" "evolves db (sv_db sv)"
    "sv_call sv = Some c \<Longrightarrow> call_labels (sv_db sv) c" "sv_record sv = Some r \<Longrightarrow> closed_labels tools (sv_db sv) r"
    by blast+
qed

lemma guide_route_labels:
  assumes "snd (guide_route disk dir token acc started now db authorization claimed role) = Some r"
  shows "closed_labels tools db r"
proof -
  define n where "n = (case claimed of None \<Rightarrow> [] | Some n \<Rightarrow> n)"
  define c where "c = (if n \<noteq> [] \<and> agent_by_name db n \<noteq> None
    then (begin_a2a ''get_role_guide'' started)\<lparr>k_actor := n\<rparr> else begin_a2a ''get_role_guide'' started)"
  have b: "call_labels db (begin_a2a ''get_role_guide'' started)" by (rule begin_labels) (simp add: A2A_TOOLS_def)
  then have c: "call_labels db c"
    by (auto simp: c_def agent_by_name_def call_labels_def known_actor_def)
  then have "call_labels db (c\<lparr>k_outcome := Some ''not_found''\<rparr>)" by (simp add: call_labels_def A2A_OUTCOMES_def)
  with c show ?thesis using assms unfolding guide_route_def Let_def n_def [symmetric] c_def [symmetric]
    by (auto split: sum.splits if_splits prod.splits intro: http_record_labels measured_labels)
qed

lemma observe_request_pending:
  assumes "\<forall>p \<in> ran (awaited m). pending_labels tools p"
  shows "\<forall>p \<in> ran (awaited (observe_request tools now payload sz m)). pending_labels tools p"
proof -
  have "pending_labels tools \<lparr>p_tool = mcp_tool tools k params, p_bytes_in = sz, p_started = now, p_task = mcp_task k params\<rparr>" for k params
    using mcp_tool_closed [of tools k params] mcp_task_label [of k params] by (simp add: pending_labels_def)
  then have new: "p \<in> ran ((awaited m)(key \<mapsto> \<lparr>p_tool = mcp_tool tools k params, p_bytes_in = sz, p_started = now,
      p_task = mcp_task k params\<rparr>)) \<Longrightarrow> pending_labels tools p" for p key k params
    using assms by (auto simp: ran_def split: if_splits)
  show ?thesis using assms
    by (auto simp: observe_request_def Let_def dest!: new split: option.splits json.splits)
qed

lemma observe_response_labels:
  assumes "observe_response now payload sz m = (r, m')" and p: "\<forall>p \<in> ran (awaited m). pending_labels tools p"
  shows "\<forall>p \<in> ran (awaited m'). pending_labels tools p" "r = Some x \<Longrightarrow> closed_labels tools db x"
proof -
  have "(\<forall>p \<in> ran (awaited m'). pending_labels tools p) \<and> (\<forall>x. r = Some x \<longrightarrow> closed_labels tools db x)"
  proof (cases "\<exists>k q. rpc_key (dict_get ''id'' payload) = Some k \<and> \<not> dict_has ''method'' payload \<and> awaited m k = Some q")
    case False
    then have "r = None \<and> m' = m" using assms(1) by (auto simp: observe_response_def split: option.splits if_splits)
    with p show ?thesis by simp
  next
    case True
    then obtain k q where k: "rpc_key (dict_get ''id'' payload) = Some k" "\<not> dict_has ''method'' payload" "awaited m k = Some q"
      by blast
    obtain x m2 where a: "answered_call now payload sz q (m\<lparr>awaited := (awaited m)(k := None)\<rparr>) = (x, m2)"
      by (cases "answered_call now payload sz q (m\<lparr>awaited := (awaited m)(k := None)\<rparr>)")
    have q: "pending_labels tools q" using p k(3) by (auto simp: ran_def)
    have "r = Some x" "m' = m2" using assms(1) k a by (simp_all add: observe_response_def)
    moreover have "ran ((awaited m)(k := None)) \<subseteq> ran (awaited m)" by (auto simp: ran_def)
    ultimately show ?thesis using answered_call_labels [OF a q] p by auto
  qed
  then show "\<forall>p \<in> ran (awaited m'). pending_labels tools p" "r = Some x \<Longrightarrow> closed_labels tools db x" by blast+
qed

lemma note_end_labels: "call_labels db c \<Longrightarrow> call_labels db (note_end x c)"
  by (cases x) (simp_all add: note_end_def note_assignment_labels note_reply_labels)

lemma traffic_ok_start: "traffic_ok cfg hub_start"
  by (simp add: traffic_ok_def hub_start_def books_ok_def no_calls_def hub_ok_empty)

lemma traffic_ok_request:
  assumes ok: "traffic_ok cfg s" shows "traffic_ok cfg (serve_a2a cfg e started now io rq s)"
proof -
  define sv where "sv = a2a_route e (hc_sdk cfg) (hc_settings cfg) (hc_render cfg) (hc_token cfg)
      (enabled (hc_accounting cfg)) started now (run_db s) rq"
  have db: "hub_ok (run_db s)" using ok by (simp add: traffic_ok_def)
  note sv = a2a_route_labels [OF db sv_def]
  have old: "books_ok (hc_tools cfg) (sv_db sv) (run_books s)" "\<forall>(c, x) \<in> set (run_streams s). call_labels (sv_db sv) c"
    using ok books_ok_later [OF sv(1,2)] call_labels_later [OF sv(1,2)] by (auto simp: traffic_ok_def)
  have "\<forall>(c, x) \<in> set (new_streams sv n). call_labels (sv_db sv) c" for n
    using sv(3) by (auto simp: new_streams_def split: sum.splits hub_response.splits option.splits)
  then have "\<forall>(c, x) \<in> set (run_streams s @ new_streams sv n). call_labels (sv_db sv) c" for n
    using old(2) by (simp add: ball_Un)
  moreover have "books_ok (hc_tools cfg) (sv_db sv) (record_maybe cfg io (sv_db sv) (sv_record sv) (run_books s))"
    using old(1) sv(4) by (rule books_ok_maybe)
  ultimately show ?thesis using sv(1) ok
    by (simp add: serve_a2a_def Let_def sv_def [symmetric] traffic_ok_def)
qed

lemma traffic_ok_step:
  assumes "hub_traffic cfg s t" and ok: "traffic_ok cfg s" shows "traffic_ok cfg t"
  using assms(1)
proof cases
  case (Operation d ks)
  have db: "hub_ok (run_db s)" using ok by (simp add: traffic_ok_def)
  note ev = hub_step_ok [OF db hub_stepI [OF Operation(2)]] hub_step_evolves [OF db hub_stepI [OF Operation(2)]]
  show ?thesis using ok books_ok_later [OF ev] call_labels_later [OF ev] ev(1)
    by (auto simp: Operation(1) traffic_ok_def)
next
  case (Stream_end xs c status n ys io x chunks sent now)
  then have "call_labels (run_db s) (note_end x c)" using ok by (auto simp: traffic_ok_def intro: note_end_labels)
  then have "books_ok (hc_tools cfg) (run_db s) (record_maybe cfg io (run_db s)
      (stream_record (Some (note_end x c)) status n chunks sent now) (run_books s))"
    using ok by (auto simp: traffic_ok_def stream_record_def http_record_labels intro!: books_ok_maybe)
  with ok show ?thesis by (auto simp: Stream_end traffic_ok_def)
next
  case (Guide started now io authorization claimed role)
  have "books_ok (hc_tools cfg) (run_db s) (record_maybe cfg io (run_db s) (snd (guide_route (hc_guides cfg) (hc_guides_dir cfg)
      (hc_token cfg) (enabled (hc_accounting cfg)) started now (run_db s) authorization claimed role)) (run_books s))"
    using ok by (auto simp: traffic_ok_def intro!: books_ok_maybe guide_route_labels)
  with ok show ?thesis by (auto simp: Guide serve_guide_def traffic_ok_def)
next
  case (Mcp_request now payload sz)
  show ?thesis using ok observe_request_pending [of "run_mcp s" "hc_tools cfg" now payload sz] by (simp add: Mcp_request mcp_request_def traffic_ok_def)
next
  case (Mcp_response now io payload sz)
  obtain r m where o: "observe_response now payload sz (run_mcp s) = (r, m)"
    by (cases "observe_response now payload sz (run_mcp s)")
  show ?thesis using ok observe_response_labels [OF o]
    by (auto simp: Mcp_response mcp_response_def o traffic_ok_def intro!: books_ok_maybe)
qed (use ok traffic_ok_request in simp)

interpretation traffic: invariant_system hub_start "hub_traffic cfg" "traffic_ok cfg" for cfg
  by unfold_locales (rule traffic_ok_start, rule traffic_ok_step)

section \<open>Two calls\<close>

text \<open>A body that is no JSON, and one call of a tool with its answer.\<close>

definition demo_config :: hub_config where
  "demo_config = \<lparr>hc_accounting = \<lparr>enabled = True, jsonl_path = None\<rparr>, hc_sdk = demo_sdk, hc_settings = demo_settings,
     hc_render = (\<lambda>_. dumps (\<lambda>_. []) True (JObj [(''error'', JNull)])), hc_token = Some ''secret'',
     hc_tools = [''get_state''], hc_guides = \<lparr>resolve = (\<lambda>p. p), guide_file = (\<lambda>_. None)\<rparr>, hc_guides_dir = [''guides'']\<rparr>"

definition demo_io :: log_io where
  "demo_io = \<lparr>log_failure = Log_ok, append_fails = False\<rparr>"

definition demo_bad_body :: a2a_request where
  "demo_bad_body = \<lparr>rq_authorization = Some ''Bearer secret'', rq_body = ''x'', rq_peer = None\<rparr>"

definition demo_ask :: dict where
  "demo_ask = [(''id'', JInt 7), (''method'', JStr ''tools/call''),
     (''params'', JObj [(''name'', JStr ''get_state''), (''arguments'', JObj [])])]"

definition demo_answer :: dict where
  "demo_answer = [(''id'', JInt 7), (''result'', JObj [(''content'', JList [JObj [(''text'', JStr ''idle'')]])])]"

definition demo_traffic :: hub_run where
  "demo_traffic = mcp_response demo_config 3 demo_io demo_answer 60
     (mcp_request demo_config 2 demo_ask 40 (serve_a2a demo_config (sample_env 0) 1 1 demo_io demo_bad_body hub_start))"

lemma demo_traffic_reachable: "(hub_traffic demo_config)\<^sup>*\<^sup>* hub_start demo_traffic"
  unfolding demo_traffic_def
  by (rule rtranclp.rtrancl_into_rtrancl [OF rtranclp.rtrancl_into_rtrancl [OF rtranclp.rtrancl_into_rtrancl [OF rtranclp.rtrancl_refl]]])
    (rule hub_traffic.Request hub_traffic.Mcp_request hub_traffic.Mcp_response)+

end
