(* ===== verification/Schema.thy ===== *)
theory Schema
  imports Models "HOL-Library.AList"
begin

text \<open>
  The schema of \<^verbatim>\<open>database.py\<close> and the part of SQLite its migrations use. A \<^verbatim>\<open>CREATE TABLE\<close> text is
  modelled by its columns and constraints in their order, so that two texts are equal up to white
  space when their declarations are. A row maps every column to its cell.
\<close>

section \<open>Tables\<close>

datatype cell = Cell_null | Cell_int int | Cell_real rat | Cell_text string

datatype column_key = Plain_column | Unique_column | Primary_column | Autoincrement_column

record column =
  col_name :: string
  col_type :: string
  col_not_null :: bool
  col_default :: cell
  col_allowed :: "string list option"
  col_key :: column_key

text \<open>A column, a foreign key (column, table, referenced column, action) or a composite primary key.\<close>

datatype item = Column column | Foreign_key string string string string | Primary_key "string list"

type_synonym sql_row = "string \<Rightarrow> cell"

record sql_table =
  tb_items :: "item list"
  tb_rows :: "sql_row list"

text \<open>An index; a unique one is partial and leaves out null keys.\<close>

record sql_index =
  ix_name :: string
  ix_table :: string
  ix_columns :: "string list"
  ix_unique :: bool

text \<open>\<open>sq_sequence\<close> is the table \<^verbatim>\<open>sqlite_sequence\<close>, which exists once a table has \<^verbatim>\<open>AUTOINCREMENT\<close>.\<close>

record sql_db =
  sq_tables :: "(string \<times> sql_table) list"
  sq_indexes :: "sql_index list"
  sq_sequence :: "(string \<times> nat) list option"
  sq_version :: int

datatype sql_error =
    No_such_table string
  | Table_exists string
  | Column_in_use string
  | Constraint_failed string
  | Version_error int
  | Migration_error nat

definition text_column :: "string \<Rightarrow> column" where
  "text_column n = \<lparr>col_name = n, col_type = ''TEXT'', col_not_null = False, col_default = Cell_null,
     col_allowed = None, col_key = Plain_column\<rparr>"

definition not_null_text :: "string \<Rightarrow> column" where
  "not_null_text n = (text_column n)\<lparr>col_not_null := True\<rparr>"

definition default_text :: "string \<Rightarrow> string \<Rightarrow> column" where
  "default_text n d = (not_null_text n)\<lparr>col_default := Cell_text d\<rparr>"

definition enum_text :: "string \<Rightarrow> string list \<Rightarrow> column" where
  "enum_text n vs = (not_null_text n)\<lparr>col_allowed := Some vs\<rparr>"

definition integer_column :: "string \<Rightarrow> column" where
  "integer_column n = (text_column n)\<lparr>col_type := ''INTEGER''\<rparr>"

definition required_integer :: "string \<Rightarrow> column" where
  "required_integer n = (integer_column n)\<lparr>col_not_null := True\<rparr>"

definition auto_id :: "string \<Rightarrow> column" where
  "auto_id n = (integer_column n)\<lparr>col_key := Autoincrement_column\<rparr>"

definition primary_text :: "string \<Rightarrow> column" where
  "primary_text n = (text_column n)\<lparr>col_key := Primary_column\<rparr>"

section \<open>The declared schema\<close>

definition SCHEMA_VERSION_DB :: int where "SCHEMA_VERSION_DB = 12"

definition BASE_PROFILE_COLUMNS :: "column list" where
  "BASE_PROFILE_COLUMNS = [default_text ''harness'' UNKNOWN, default_text ''harness_version'' UNKNOWN,
     default_text ''provider'' UNKNOWN, default_text ''model'' UNKNOWN,
     (enum_text ''model_source'' (map model_source_value [Source_declared, Source_env, Source_unknown]))
       \<lparr>col_default := Cell_text UNKNOWN\<rparr>,
     text_column ''workspace_id'']"

definition DECLARED_MODEL_COLUMNS :: "column list" where
  "DECLARED_MODEL_COLUMNS = [(text_column ''declared_model'')\<lparr>col_default := Cell_text UNKNOWN\<rparr>]"

definition PEER_ADDRESS_COLUMNS :: "column list" where
  "PEER_ADDRESS_COLUMNS = [text_column ''checkin_remote_addr'', text_column ''last_remote_addr'']"

definition lease_duration_column :: column where
  "lease_duration_column = (text_column ''lease_duration_s'')\<lparr>col_type := ''REAL'', col_not_null := True,
     col_default := Cell_int 1800\<rparr>"

definition state_column :: column where
  "state_column = (enum_text ''state'' [''queued'', ''delivered'', ''acked''])\<lparr>col_default := Cell_text ''queued''\<rparr>"

definition attempts_column :: column where
  "attempts_column = (required_integer ''delivery_attempts'')\<lparr>col_default := Cell_int 0\<rparr>"

definition workflow_items :: "item list" where
  "workflow_items = map Column [primary_text ''id'', not_null_text ''goal'',
     enum_text ''status'' (map workflow_status_value [Active, Paused, Done, Escalated]),
     default_text ''policy_json'' ''{}'', not_null_text ''created'']"

definition agent_items :: "item list" where
  "agent_items = map Column ([primary_text ''name'', default_text ''capabilities_json'' ''[]'',
     enum_text ''status'' (map agent_status_value [Idle, Busy, Released_status, Lost]),
     (text_column ''context_id'')\<lparr>col_key := Unique_column\<rparr>, not_null_text ''last_seen'',
     default_text ''worker_instance_id'' [], default_text ''last_heartbeat'' [], text_column ''last_progress_at'',
     text_column ''current_task_id''] @ BASE_PROFILE_COLUMNS @ DECLARED_MODEL_COLUMNS @ PEER_ADDRESS_COLUMNS) @
     [Foreign_key ''current_task_id'' ''task'' ''id'' ''SET NULL'']"

definition task_items :: "item list" where
  "task_items = map Column [primary_text ''id'', not_null_text ''workflow_id'', text_column ''assignee'',
     not_null_text ''role'', not_null_text ''title'', not_null_text ''instructions'',
     enum_text ''state'' (map task_state_value [Submitted, Working, Input_required, Completed, Failed, Canceled]),
     text_column ''lease_expires'', lease_duration_column, text_column ''result_json'', not_null_text ''created'',
     not_null_text ''updated'', text_column ''pr_head_sha'', integer_column ''source_event_id''] @
     [Foreign_key ''workflow_id'' ''workflow'' ''id'' ''CASCADE'', Foreign_key ''assignee'' ''agent'' ''name'' ''SET NULL'',
      Foreign_key ''source_event_id'' ''event'' ''id'' []]"

definition message_items :: "item list" where
  "message_items = map Column [auto_id ''id'', text_column ''task_id'', not_null_text ''context_id'',
     not_null_text ''sender'', enum_text ''direction'' [''to_alice'', ''from_alice''], not_null_text ''parts_json'',
     not_null_text ''ts''] @ [Foreign_key ''task_id'' ''task'' ''id'' ''CASCADE'']"

definition event_items :: "item list" where
  "event_items = map Column [auto_id ''id'', enum_text ''kind'' (map event_kind_value [Agent_checked_in,
     Task_progress, Task_completed, Task_failed, Worker_question, Lease_expired, Agent_lost]),
     not_null_text ''payload_json'', state_column, text_column ''delivery_id'', attempts_column,
     text_column ''delivered_at'', text_column ''delivery_expires'', text_column ''acked_at'', not_null_text ''ts'']"

definition decision_items :: "item list" where
  "decision_items = map Column [auto_id ''id'', not_null_text ''ts'', not_null_text ''summary'',
     not_null_text ''rationale'', text_column ''key'']"

definition operation_items :: "item list" where
  "operation_items = map Column [not_null_text ''actor'', not_null_text ''operation_id'', not_null_text ''payload_hash'',
     not_null_text ''response_json'', not_null_text ''created''] @ [Primary_key [''actor'', ''operation_id'']]"

definition call_log_items :: "item list" where
  "call_log_items = map Column [auto_id ''id'', enum_text ''boundary'' [''a2a'', ''mcp''], not_null_text ''actor'',
     not_null_text ''tool'', not_null_text ''outcome'', integer_column ''status'', required_integer ''bytes_in'',
     required_integer ''bytes_out'', integer_column ''content_bytes'', integer_column ''repeat_bytes'',
     text_column ''task_id'', text_column ''workflow_id'', not_null_text ''started'', not_null_text ''finished'']"

definition canonical_tables :: "(string \<times> item list) list" where
  "canonical_tables = [(''workflow'', workflow_items), (''agent'', agent_items), (''task'', task_items),
     (''message'', message_items), (''event'', event_items), (''decision'', decision_items),
     (''operation'', operation_items), (''call_log'', call_log_items)]"

definition plain_index :: "string \<Rightarrow> string \<Rightarrow> string list \<Rightarrow> sql_index" where
  "plain_index n t cs = \<lparr>ix_name = n, ix_table = t, ix_columns = cs, ix_unique = False\<rparr>"

definition decision_key_index :: sql_index where
  "decision_key_index = \<lparr>ix_name = ''idx_decision_key'', ix_table = ''decision'', ix_columns = [''key''], ix_unique = True\<rparr>"

definition event_state_index :: sql_index where
  "event_state_index = plain_index ''idx_event_state_id'' ''event'' [''state'', ''id'']"

definition event_delivery_index :: sql_index where
  "event_delivery_index = plain_index ''idx_event_delivery_id'' ''event'' [''delivery_id'']"

definition call_log_index :: sql_index where
  "call_log_index = plain_index ''idx_call_log_actor'' ''call_log'' [''actor'', ''tool'']"

definition index_statements :: "sql_index list" where
  "index_statements = [plain_index ''idx_task_workflow_state'' ''task'' [''workflow_id'', ''state''],
     plain_index ''idx_task_assignee'' ''task'' [''assignee''],
     \<lparr>ix_name = ''idx_task_source_event_id'', ix_table = ''task'', ix_columns = [''source_event_id''], ix_unique = True\<rparr>,
     plain_index ''idx_message_context_ts'' ''message'' [''context_id'', ''ts''],
     event_state_index, event_delivery_index, decision_key_index, call_log_index]"

definition REBUILT_TABLES :: "string list" where
  "REBUILT_TABLES = [''agent'', ''task'', ''event'', ''decision'']"

section \<open>Statements\<close>

definition table_of :: "sql_db \<Rightarrow> string \<Rightarrow> sql_table option" where
  "table_of db t = map_of (sq_tables db) t"

definition set_table :: "string \<Rightarrow> sql_table \<Rightarrow> sql_db \<Rightarrow> sql_db" where
  "set_table t tb db = db\<lparr>sq_tables := AList.update t tb (sq_tables db)\<rparr>"

text \<open>\<^verbatim>\<open>DROP TABLE IF EXISTS\<close>: its indexes and its sequence row go with it.\<close>

definition drop_table :: "string \<Rightarrow> sql_db \<Rightarrow> sql_db" where
  "drop_table t db = db\<lparr>sq_tables := AList.delete t (sq_tables db),
     sq_indexes := filter (\<lambda>i. ix_table i \<noteq> t) (sq_indexes db),
     sq_sequence := map_option (AList.delete t) (sq_sequence db)\<rparr>"

fun item_columns :: "item list \<Rightarrow> column list" where
  "item_columns [] = []"
| "item_columns (Column c # r) = c # item_columns r"
| "item_columns (_ # r) = item_columns r"

definition column_names :: "item list \<Rightarrow> string list" where
  "column_names items = map col_name (item_columns items)"

text \<open>\<^verbatim>\<open>_columns\<close>: of a table that does not exist there are none.\<close>

definition columns_of :: "sql_db \<Rightarrow> string \<Rightarrow> string list" where
  "columns_of db t = (case table_of db t of None \<Rightarrow> [] | Some tb \<Rightarrow> column_names (tb_items tb))"

definition with_table :: "sql_db \<Rightarrow> string \<Rightarrow> (sql_table \<Rightarrow> sql_error + sql_table) \<Rightarrow> sql_error + sql_db" where
  "with_table db t f = ebind (from_option (No_such_table t) (table_of db t)) (\<lambda>tb.
     ebind (f tb) (\<lambda>tb'. Inr (set_table t tb' db)))"

text \<open>\<^verbatim>\<open>ALTER TABLE ... ADD COLUMN\<close> appends, after the constraints too.\<close>

definition add_column :: "string \<Rightarrow> column \<Rightarrow> sql_db \<Rightarrow> sql_error + sql_db" where
  "add_column t c db = with_table db t (\<lambda>tb. Inr \<lparr>tb_items = tb_items tb @ [Column c],
     tb_rows = map (\<lambda>r. r(col_name c := col_default c)) (tb_rows tb)\<rparr>)"

definition add_missing :: "string \<Rightarrow> column \<Rightarrow> sql_db \<Rightarrow> sql_error + sql_db" where
  "add_missing t c db = (if col_name c \<in> set (columns_of db t) then Inr db else add_column t c db)"

fun add_all_missing :: "string \<Rightarrow> column list \<Rightarrow> sql_db \<Rightarrow> sql_error + sql_db" where
  "add_all_missing t [] db = Inr db"
| "add_all_missing t (c # cs) db = ebind (add_missing t c db) (add_all_missing t cs)"

definition is_column :: "string \<Rightarrow> item \<Rightarrow> bool" where
  "is_column n it = (case it of Column c \<Rightarrow> col_name c = n | _ \<Rightarrow> False)"

text \<open>\<^verbatim>\<open>ALTER TABLE ... DROP COLUMN\<close> is refused while an index uses the column.\<close>

definition drop_column :: "string \<Rightarrow> string \<Rightarrow> sql_db \<Rightarrow> sql_error + sql_db" where
  "drop_column t n db =
     (if \<exists>i \<in> set (sq_indexes db). ix_table i = t \<and> n \<in> set (ix_columns i) then Inl (Column_in_use n)
      else with_table db t (\<lambda>tb. Inr \<lparr>tb_items = filter (\<lambda>it. \<not> is_column n it) (tb_items tb),
        tb_rows = map (\<lambda>r. r(n := Cell_null)) (tb_rows tb)\<rparr>))"

definition update_rows :: "string \<Rightarrow> (sql_row \<Rightarrow> sql_row) \<Rightarrow> sql_db \<Rightarrow> sql_error + sql_db" where
  "update_rows t f db = with_table db t (\<lambda>tb. Inr (tb\<lparr>tb_rows := map f (tb_rows tb)\<rparr>))"

text \<open>The rows a unique index or column tells apart: those whose key is not null.\<close>

definition distinct_keys :: "string \<Rightarrow> sql_row list \<Rightarrow> bool" where
  "distinct_keys n rows = distinct (filter (\<lambda>v. v \<noteq> Cell_null) (map (\<lambda>r. r n) rows))"

definition create_index :: "sql_index \<Rightarrow> sql_db \<Rightarrow> sql_error + sql_db" where
  "create_index ix db =
     (if ix_name ix \<in> ix_name ` set (sq_indexes db) then Inr db
      else ebind (from_option (No_such_table (ix_table ix)) (table_of db (ix_table ix))) (\<lambda>tb.
        if ix_unique ix \<and> \<not> list_all (\<lambda>n. distinct_keys n (tb_rows tb)) (ix_columns ix) then
          Inl (Constraint_failed (ix_name ix))
        else Inr (db\<lparr>sq_indexes := sq_indexes db @ [ix]\<rparr>)))"

fun create_indexes :: "sql_index list \<Rightarrow> sql_db \<Rightarrow> sql_error + sql_db" where
  "create_indexes [] db = Inr db"
| "create_indexes (ix # r) db = ebind (create_index ix db) (create_indexes r)"

definition drop_index :: "string \<Rightarrow> sql_db \<Rightarrow> sql_db" where
  "drop_index n db = db\<lparr>sq_indexes := filter (\<lambda>i. ix_name i \<noteq> n) (sq_indexes db)\<rparr>"

definition autoincrements :: "item list \<Rightarrow> bool" where
  "autoincrements items = list_ex (\<lambda>c. col_key c = Autoincrement_column) (item_columns items)"

text \<open>\<^verbatim>\<open>CREATE TABLE IF NOT EXISTS\<close>\<close>

definition create_table :: "string \<Rightarrow> item list \<Rightarrow> sql_db \<Rightarrow> sql_db" where
  "create_table t items db =
     (if table_of db t \<noteq> None then db
      else (set_table t \<lparr>tb_items = items, tb_rows = []\<rparr> db)\<lparr>sq_sequence :=
        (if autoincrements items \<and> sq_sequence db = None then Some [] else sq_sequence db)\<rparr>)"

fun create_tables :: "(string \<times> item list) list \<Rightarrow> sql_db \<Rightarrow> sql_db" where
  "create_tables [] db = db"
| "create_tables ((t, items) # r) db = create_tables r (create_table t items db)"

end
