(* ===== verification/Migrations.thy ===== *)
theory Migrations
  imports Schema
begin

text \<open>
  \<^verbatim>\<open>initialize_database\<close>: the migrations from any older schema, and the rebuild of the tables
  \<^verbatim>\<open>ALTER TABLE\<close> cannot bring to their declared shape. SQLite's \<^verbatim>\<open>julianday\<close> is a parameter
  (\<open>julian\<close>).
\<close>

section \<open>The steps\<close>

definition trim_spaces :: "string \<Rightarrow> string" where
  "trim_spaces s = rev (dropWhile (\<lambda>c. c = CHR '' '') (rev (dropWhile (\<lambda>c. c = CHR '' '') s)))"

definition sql_trim :: "cell \<Rightarrow> cell" where
  "sql_trim v = (case v of Cell_text s \<Rightarrow> Cell_text (trim_spaces s) | _ \<Rightarrow> v)"

definition carry_runtime :: "sql_row \<Rightarrow> sql_row" where
  "carry_runtime r = (if sql_trim (r ''runtime'') \<notin> {Cell_null, Cell_text []}
     then r(''harness'' := sql_trim (r ''runtime'')) else r)"

definition migrate_agent_profile :: "sql_db \<Rightarrow> sql_error + sql_db" where
  "migrate_agent_profile db =
     (let columns = columns_of db ''agent'' in
      ebind (add_all_missing ''agent'' BASE_PROFILE_COLUMNS db) (\<lambda>db.
      if ''runtime'' \<in> set columns then
        ebind (update_rows ''agent'' carry_runtime db) (drop_column ''agent'' ''runtime'')
      else Inr db))"

definition migrate_operation_table :: "sql_db \<Rightarrow> sql_error + sql_db" where
  "migrate_operation_table db =
     add_missing ''operation'' (default_text ''created'' []) (create_table ''operation'' operation_items db)"

text \<open>An existing lease keeps its window where SQLite can derive it.\<close>

definition derive_lease :: "(cell \<Rightarrow> rat option) \<Rightarrow> sql_row \<Rightarrow> sql_row" where
  "derive_lease julian r = (case (julian (r ''lease_expires''), julian (r ''created'')) of
     (Some x, Some c) \<Rightarrow> if r ''lease_expires'' = Cell_null then r
       else r(''lease_duration_s'' := Cell_real (max 0 ((x - c) * 86400)))
   | _ \<Rightarrow> r)"

definition migrate_worker_heartbeat :: "(cell \<Rightarrow> rat option) \<Rightarrow> sql_db \<Rightarrow> sql_error + sql_db" where
  "migrate_worker_heartbeat julian db =
     ebind (add_missing ''agent'' (default_text ''worker_instance_id'' []) db) (\<lambda>db1.
     ebind (if ''last_heartbeat'' \<in> set (columns_of db ''agent'') then Inr db1
       else ebind (add_column ''agent'' (default_text ''last_heartbeat'' []) db1)
         (update_rows ''agent'' (\<lambda>r. r(''last_heartbeat'' := r ''last_seen'')))) (\<lambda>db2.
     ebind (add_missing ''agent'' (text_column ''last_progress_at'') db2) (\<lambda>db3.
     if ''lease_duration_s'' \<in> set (columns_of db3 ''task'') then Inr db3
     else ebind (add_column ''task'' lease_duration_column db3) (update_rows ''task'' (derive_lease julian)))))"

definition ack_consumed :: "sql_row \<Rightarrow> sql_row" where
  "ack_consumed r = (if r ''consumed'' = Cell_int 1
     then r(''state'' := Cell_text ''acked'', ''acked_at'' := r ''ts'', ''delivery_attempts'' := Cell_int 1) else r)"

definition EVENT_DELIVERY_COLUMNS :: "column list" where
  "EVENT_DELIVERY_COLUMNS = [state_column, text_column ''delivery_id'', attempts_column, text_column ''delivered_at'',
     text_column ''delivery_expires'', text_column ''acked_at'']"

definition migrate_event_delivery :: "sql_db \<Rightarrow> sql_error + sql_db" where
  "migrate_event_delivery db =
     (let columns = columns_of db ''event'' in
      ebind (add_all_missing ''event'' EVENT_DELIVERY_COLUMNS db) (\<lambda>db.
      let db = drop_index ''idx_event_inbox'' db in
      ebind (if ''consumed'' \<in> set columns then
          ebind (update_rows ''event'' ack_consumed db) (drop_column ''event'' ''consumed'')
        else Inr db)
      (create_indexes [event_state_index, event_delivery_index])))"

definition migrate_decision_key :: "sql_db \<Rightarrow> sql_error + sql_db" where
  "migrate_decision_key db =
     ebind (add_missing ''decision'' (text_column ''key'') db) (create_index decision_key_index)"

definition migrate_task_pr_head_sha :: "sql_db \<Rightarrow> sql_error + sql_db" where
  "migrate_task_pr_head_sha db = add_missing ''task'' (text_column ''pr_head_sha'') db"

definition migrate_task_source_event_id :: "sql_db \<Rightarrow> sql_error + sql_db" where
  "migrate_task_source_event_id db = add_missing ''task'' (integer_column ''source_event_id'') db"

definition migrate_call_log :: "sql_db \<Rightarrow> sql_error + sql_db" where
  "migrate_call_log db = create_index call_log_index (create_table ''call_log'' call_log_items db)"

definition migrate_declared_model :: "sql_db \<Rightarrow> sql_error + sql_db" where
  "migrate_declared_model db = add_all_missing ''agent'' DECLARED_MODEL_COLUMNS db"

definition migrate_peer_addresses :: "sql_db \<Rightarrow> sql_error + sql_db" where
  "migrate_peer_addresses db = add_all_missing ''agent'' PEER_ADDRESS_COLUMNS db"

fun run_steps :: "(sql_db \<Rightarrow> sql_error + sql_db) list \<Rightarrow> sql_db \<Rightarrow> sql_error + sql_db" where
  "run_steps [] db = Inr db"
| "run_steps (f # fs) db = ebind (f db) (run_steps fs)"

definition migration_steps :: "(cell \<Rightarrow> rat option) \<Rightarrow> (sql_db \<Rightarrow> sql_error + sql_db) list" where
  "migration_steps julian = [migrate_agent_profile, migrate_operation_table, migrate_worker_heartbeat julian,
     migrate_event_delivery, migrate_decision_key, migrate_task_pr_head_sha, migrate_task_source_event_id,
     migrate_call_log, migrate_declared_model, migrate_peer_addresses]"

section \<open>The rebuild\<close>

definition scratch_name :: "string \<Rightarrow> string" where
  "scratch_name t = t @ ''__rebuilding''"

definition sequence_value :: "sql_db \<Rightarrow> string \<Rightarrow> nat option" where
  "sequence_value db t = (case sq_sequence db of None \<Rightarrow> None | Some s \<Rightarrow> map_of s t)"

definition set_sequence :: "string \<Rightarrow> nat \<Rightarrow> sql_db \<Rightarrow> sql_db" where
  "set_sequence t n db = db\<lparr>sq_sequence := map_option (AList.update t n) (sq_sequence db)\<rparr>"

definition restore_sequence :: "string \<Rightarrow> nat option \<Rightarrow> sql_db \<Rightarrow> sql_db" where
  "restore_sequence t high_water db = (case high_water of
     None \<Rightarrow> db
   | Some h \<Rightarrow> (case sequence_value db t of
         None \<Rightarrow> set_sequence t h db
       | Some s \<Rightarrow> if s < h then set_sequence t h db else db))"

text \<open>\<^verbatim>\<open>ALTER TABLE a RENAME TO b\<close>: the indexes and the sequence row follow the table.\<close>

definition rename_in :: "string \<Rightarrow> string \<Rightarrow> string \<Rightarrow> string" where
  "rename_in a b t = (if t = a then b else t)"

definition rename_table :: "string \<Rightarrow> string \<Rightarrow> sql_db \<Rightarrow> sql_db" where
  "rename_table a b db = db\<lparr>sq_tables := map (\<lambda>(t, x). (rename_in a b t, x)) (sq_tables db),
     sq_indexes := map (\<lambda>i. i\<lparr>ix_table := rename_in a b (ix_table i)\<rparr>) (sq_indexes db),
     sq_sequence := map_option (map (\<lambda>(t, n). (rename_in a b t, n))) (sq_sequence db)\<rparr>"

definition cell_fits :: "column \<Rightarrow> cell \<Rightarrow> bool" where
  "cell_fits c v = ((col_not_null c \<longrightarrow> v \<noteq> Cell_null) \<and>
     (case col_allowed c of None \<Rightarrow> True | Some vs \<Rightarrow> v = Cell_null \<or> v \<in> set (map Cell_text vs)))"

definition rows_fit :: "item list \<Rightarrow> sql_row list \<Rightarrow> bool" where
  "rows_fit items rows = list_all (\<lambda>c. list_all (\<lambda>r. cell_fits c (r (col_name c))) rows \<and>
     (col_key c \<noteq> Plain_column \<longrightarrow> distinct_keys (col_name c) rows)) (item_columns items)"

definition row_ids :: "sql_row list \<Rightarrow> nat list" where
  "row_ids rows = concat (map (\<lambda>r. case r ''id'' of Cell_int i \<Rightarrow> [nat i] | _ \<Rightarrow> []) rows)"

text \<open>\<^verbatim>\<open>INSERT INTO t (shared) SELECT shared FROM scratch\<close>: the other columns take their default.\<close>

definition copied_row :: "item list \<Rightarrow> string list \<Rightarrow> sql_row \<Rightarrow> sql_row" where
  "copied_row items shared r n = (if n \<in> set shared then r n
     else (case find (\<lambda>c. col_name c = n) (item_columns items) of None \<Rightarrow> Cell_null | Some c \<Rightarrow> col_default c))"

definition insert_rows :: "string \<Rightarrow> item list \<Rightarrow> sql_row list \<Rightarrow> sql_db \<Rightarrow> sql_error + sql_db" where
  "insert_rows t items rows db =
     (if \<not> rows_fit items rows then Inl (Constraint_failed t)
      else let db = set_table t \<lparr>tb_items = items, tb_rows = rows\<rparr> db
           in Inr (if autoincrements items
             then set_sequence t (fold max (row_ids rows) (case sequence_value db t of None \<Rightarrow> 0 | Some n \<Rightarrow> n)) db
             else db))"

definition rebuild_table :: "string \<Rightarrow> item list \<Rightarrow> sql_db \<Rightarrow> sql_error + sql_db" where
  "rebuild_table t items db =
     (let high_water = sequence_value db t;
          db1 = rename_table t (scratch_name t) (drop_table (scratch_name t) db);
          db2 = create_table t items db1;
          old = (case table_of db2 (scratch_name t) of None \<Rightarrow> [] | Some tb \<Rightarrow> tb_rows tb);
          shared = filter (\<lambda>n. n \<in> set (column_names items)) (columns_of db2 (scratch_name t))
      in ebind (insert_rows t items (map (copied_row items shared) old) db2) (\<lambda>db3.
         Inr (restore_sequence t high_water (drop_table (scratch_name t) db3))))"

definition declared_items :: "string \<Rightarrow> item list" where
  "declared_items t = (case map_of canonical_tables t of None \<Rightarrow> [] | Some items \<Rightarrow> items)"

text \<open>Whether any table was touched, and the tables after it.\<close>

fun rebuild_all :: "string list \<Rightarrow> sql_db \<Rightarrow> sql_error + (bool \<times> sql_db)" where
  "rebuild_all [] db = Inr (False, db)"
| "rebuild_all (t # ts) db = (case table_of db t of
     None \<Rightarrow> rebuild_all ts db
   | Some tb \<Rightarrow>
       if tb_items tb = declared_items t then rebuild_all ts db
       else ebind (rebuild_table t (declared_items t) db) (\<lambda>d.
         ebind (rebuild_all ts d) (\<lambda>(b, d'). Inr (True, d'))))"

definition dangling :: "sql_db \<Rightarrow> sql_table \<Rightarrow> item \<Rightarrow> nat" where
  "dangling db tb it = (case it of
     Foreign_key c parent k action \<Rightarrow>
       (let keys = (case table_of db parent of None \<Rightarrow> [] | Some p \<Rightarrow> map (\<lambda>r. r k) (tb_rows p))
        in length (filter (\<lambda>r. r c \<noteq> Cell_null \<and> r c \<notin> set keys) (tb_rows tb)))
   | _ \<Rightarrow> 0)"

definition foreign_key_check :: "sql_db \<Rightarrow> nat" where
  "foreign_key_check db = sum_list (map (\<lambda>(t, tb). sum_list (map (dangling db tb) (tb_items tb))) (sq_tables db))"

definition rebuild_drifted_tables :: "sql_db \<Rightarrow> sql_error + sql_db" where
  "rebuild_drifted_tables db =
     ebind (rebuild_all REBUILT_TABLES db) (\<lambda>(rebuilt, d).
     if \<not> rebuilt then Inr d
     else ebind (create_indexes index_statements d) (\<lambda>d.
       if foreign_key_check d \<noteq> 0 then Inl (Migration_error (foreign_key_check d)) else Inr d))"

text \<open>
  The three ways out: ready; an error before or in the first phase; and a rebuild that was
  rolled back, which leaves the tables the first phase committed. Statements of the first phase that
  change the schema commit on their own, so a phase that fails half-way leaves those it
  reached; that database is not described here (\<open>Migration_failed\<close> has no state).
\<close>

datatype initialized = Ready sql_db | Migration_failed sql_error | Rebuild_failed sql_error sql_db

definition initialize_database :: "(cell \<Rightarrow> rat option) \<Rightarrow> sql_db \<Rightarrow> initialized" where
  "initialize_database julian db =
     (if sq_version db = SCHEMA_VERSION_DB then Ready db
      else if sq_version db = 0 then
        (case create_indexes index_statements (create_tables canonical_tables db) of
           Inl x \<Rightarrow> Migration_failed x
         | Inr d \<Rightarrow> Ready (d\<lparr>sq_version := SCHEMA_VERSION_DB\<rparr>))
      else if sq_version db > SCHEMA_VERSION_DB then Migration_failed (Version_error (sq_version db))
      else (case run_steps (migration_steps julian) db of
           Inl x \<Rightarrow> Migration_failed x
         | Inr d \<Rightarrow> (case rebuild_drifted_tables d of
               Inl x \<Rightarrow> Rebuild_failed x d
             | Inr d' \<Rightarrow> Ready (d'\<lparr>sq_version := SCHEMA_VERSION_DB\<rparr>))))"

end
