(* ===== verification/MigrationProps.thy ===== *)
theory MigrationProps
  imports Migrations
begin

text \<open>
  What the migrations keep: the rows of every table with the cells both shapes agree on, and the
  \<^verbatim>\<open>AUTOINCREMENT\<close> high-water marks; and that the rebuilt tables end in their declared shape.
\<close>

section \<open>Lookups after a statement\<close>

lemma table_of_set [simp]: "table_of (set_table t tb db) t' = (if t' = t then Some tb else table_of db t')"
  by (simp add: table_of_def set_table_def update_conv')

lemma table_of_fields [simp]:
  "table_of (db\<lparr>sq_indexes := is\<rparr>) t = table_of db t"
  "table_of (db\<lparr>sq_sequence := s\<rparr>) t = table_of db t"
  "table_of (db\<lparr>sq_version := v\<rparr>) t = table_of db t"
  by (simp_all add: table_of_def)

lemma table_of_drop [simp]: "table_of (drop_table t db) t' = (if t' = t then None else table_of db t')"
  by (simp add: table_of_def drop_table_def delete_conv')

lemma sequence_value_fields [simp]:
  "sequence_value (set_table t tb db) n = sequence_value db n"
  "sequence_value (db\<lparr>sq_indexes := is\<rparr>) n = sequence_value db n"
  "sequence_value (db\<lparr>sq_tables := ts\<rparr>) n = sequence_value db n"
  "sequence_value (db\<lparr>sq_version := v\<rparr>) n = sequence_value db n"
  by (simp_all add: sequence_value_def set_table_def)

lemma sequence_value_drop: "sequence_value (drop_table t db) n = (if n = t then None else sequence_value db n)"
  by (simp add: sequence_value_def drop_table_def delete_conv' split: option.split)

lemma version_fields [simp]:
  "sq_version (set_table t tb db) = sq_version db" "sq_version (drop_table t db) = sq_version db"
  "sq_version (create_table t items db) = sq_version db" "sq_version (rename_table a b db) = sq_version db"
  "sq_version (set_sequence t n db) = sq_version db"
  by (simp_all add: set_table_def drop_table_def create_table_def rename_table_def set_sequence_def)

lemma map_of_rename:
  "a \<noteq> b \<Longrightarrow> b \<notin> fst ` set xs \<Longrightarrow> map_of (map (\<lambda>(t, x). (rename_in a b t, x)) xs) t =
     (if t = b then map_of xs a else if t = a then None else map_of xs t)"
proof (induction xs)
  case (Cons p xs)
  obtain k v where p: "p = (k, v)" by (cases p)
  with Cons have k: "k \<noteq> b" "b \<notin> fst ` set xs" by auto
  show ?case unfolding p list.map prod.case map_of.simps fst_conv snd_conv fun_upd_apply Cons.IH [OF Cons.prems(1) k(2)]
    using Cons.prems(1) k(1) by (auto simp: rename_in_def)
qed simp

lemma map_of_delete_fresh: "k \<notin> fst ` set (AList.delete k xs)"
  by (auto simp: AList.delete_eq)

text \<open>A table renamed to a scratch name that is free by then.\<close>

lemma table_of_rename:
  assumes "a \<noteq> b"
  shows "table_of (rename_table a b (drop_table b db)) t =
    (if t = b then table_of db a else if t = a then None else table_of db t)"
  using map_of_rename [OF assms map_of_delete_fresh, of "sq_tables db" t] assms
  by (simp add: table_of_def rename_table_def drop_table_def delete_conv')

lemma sequence_value_rename:
  assumes "a \<noteq> b"
  shows "sequence_value (rename_table a b (drop_table b db)) t =
    (if t = b then sequence_value db a else if t = a then None else sequence_value db t)"
proof (cases "sq_sequence db")
  case (Some s)
  with map_of_rename [OF assms map_of_delete_fresh, of s t] assms show ?thesis
    by (simp add: sequence_value_def rename_table_def drop_table_def delete_conv')
qed (simp add: sequence_value_def rename_table_def drop_table_def)

lemma table_of_create [simp]:
  "table_of (create_table t items db) t' =
     (if t' = t \<and> table_of db t = None then Some \<lparr>tb_items = items, tb_rows = []\<rparr> else table_of db t')"
  by (auto simp: create_table_def)

lemma sequence_value_create [simp]: "sequence_value (create_table t items db) n = sequence_value db n"
  by (auto simp: create_table_def sequence_value_def set_table_def split: option.splits)

lemma with_table_Inr:
  "with_table db t f = Inr d \<longleftrightarrow> (\<exists>tb tb'. table_of db t = Some tb \<and> f tb = Inr tb' \<and> d = set_table t tb' db)"
  by (auto simp: with_table_def)

section \<open>Rows and marks that stay\<close>

definition names :: "sql_table \<Rightarrow> string set" where
  "names tb = set (column_names (tb_items tb))"

text \<open>Every table keeps its rows, in order, with the cells of the columns \<open>C\<close> where it has them.\<close>

definition same_cells :: "string set \<Rightarrow> sql_row list \<Rightarrow> sql_row list \<Rightarrow> bool" where
  "same_cells C rows rows' = list_all2 (\<lambda>r r'. \<forall>c \<in> C. r' c = r c) rows rows'"

text \<open>The column whose contents a migration moves to others and drops: \<^verbatim>\<open>runtime\<close> of agents, \<^verbatim>\<open>consumed\<close> of events.\<close>

definition legacy_column :: "string \<Rightarrow> string" where
  "legacy_column t = (if t = ''agent'' then ''runtime'' else if t = ''event'' then ''consumed'' else [])"

definition keeps :: "string \<Rightarrow> string set \<Rightarrow> sql_db \<Rightarrow> sql_db \<Rightarrow> bool" where
  "keeps t C db d \<longleftrightarrow> (\<forall>tb. table_of db t = Some tb \<and> C \<subseteq> names tb \<longrightarrow>
     (\<exists>tb'. table_of d t = Some tb' \<and> C \<subseteq> names tb' \<and> same_cells C (tb_rows tb) (tb_rows tb') \<and>
        (legacy_column t \<in> names tb' \<longrightarrow> legacy_column t \<in> names tb)))"

definition marks_kept :: "string \<Rightarrow> sql_db \<Rightarrow> sql_db \<Rightarrow> bool" where
  "marks_kept t db d \<longleftrightarrow> (\<forall>n. sequence_value db t = Some n \<longrightarrow> (\<exists>m. sequence_value d t = Some m \<and> n \<le> m))"

text \<open>A step of the migration that keeps both and the version.\<close>

definition careful :: "string \<Rightarrow> string set \<Rightarrow> sql_db \<Rightarrow> sql_db \<Rightarrow> bool" where
  "careful t C db d \<longleftrightarrow> keeps t C db d \<and> marks_kept t db d \<and> sq_version d = sq_version db"

lemma same_cells_refl [simp]: "same_cells C rows rows"
  unfolding same_cells_def by (rule list_all2_refl) blast

lemma same_cells_trans: "same_cells C xs ys \<Longrightarrow> same_cells C ys zs \<Longrightarrow> same_cells C xs zs"
  unfolding same_cells_def by (erule (1) list_all2_trans [rotated]) simp

lemma same_cells_map: "(\<And>r c. c \<in> C \<Longrightarrow> f r c = r c) \<Longrightarrow> same_cells C rows (map f rows)"
  unfolding same_cells_def list_all2_map2 by (rule list_all2_refl) blast

lemma careful_refl [simp]: "careful t C db db"
  by (auto simp: careful_def keeps_def marks_kept_def)

lemma keeps_trans: "keeps t C db d \<Longrightarrow> keeps t C d e \<Longrightarrow> keeps t C db e"
  unfolding keeps_def by (meson same_cells_trans)

lemma marks_kept_trans: "marks_kept t db d \<Longrightarrow> marks_kept t d e \<Longrightarrow> marks_kept t db e"
  unfolding marks_kept_def by (meson order_trans)

lemma careful_trans: "careful t C db d \<Longrightarrow> careful t C d e \<Longrightarrow> careful t C db e"
  unfolding careful_def by (auto intro: keeps_trans marks_kept_trans)

lemma careful_set_table:
  assumes "table_of db u = Some tb"
    and "u = t \<Longrightarrow> C \<subseteq> names tb \<Longrightarrow> C \<subseteq> names tb' \<and> same_cells C (tb_rows tb) (tb_rows tb') \<and>
      (legacy_column t \<in> names tb' \<longrightarrow> legacy_column t \<in> names tb)"
  shows "careful t C db (set_table u tb' db)"
proof (cases "u = t")
  case True
  then show ?thesis using assms unfolding careful_def keeps_def marks_kept_def by simp
qed (simp add: careful_def keeps_def marks_kept_def)

lemma item_columns_append [simp]: "item_columns (xs @ ys) = item_columns xs @ item_columns ys"
  by (induction xs rule: item_columns.induct) auto

lemma column_names_append [simp]: "column_names (xs @ ys) = column_names xs @ column_names ys"
  by (simp add: column_names_def)

lemma careful_add_column:
  assumes "add_column u c db = Inr d" and "u = t \<Longrightarrow> col_name c \<notin> C" and "u = t \<Longrightarrow> col_name c \<noteq> legacy_column u"
  shows "careful t C db d"
proof -
  obtain tb where tb: "table_of db u = Some tb" and d: "d = set_table u \<lparr>tb_items = tb_items tb @ [Column c],
      tb_rows = map (\<lambda>r. r(col_name c := col_default c)) (tb_rows tb)\<rparr> db"
    using assms(1) by (auto simp: add_column_def with_table_Inr)
  show ?thesis unfolding d
  proof (rule careful_set_table [OF tb], intro conjI)
    assume u: "u = t" and C: "C \<subseteq> names tb"
    then show "C \<subseteq> names \<lparr>tb_items = tb_items tb @ [Column c], tb_rows = map (\<lambda>r. r(col_name c := col_default c)) (tb_rows tb)\<rparr>"
      by (auto simp: names_def)
    show "same_cells C (tb_rows tb) (tb_rows \<lparr>tb_items = tb_items tb @ [Column c],
        tb_rows = map (\<lambda>r. r(col_name c := col_default c)) (tb_rows tb)\<rparr>)"
      using assms(2) [OF u] by (auto intro!: same_cells_map)
    show "legacy_column t \<in> names \<lparr>tb_items = tb_items tb @ [Column c], tb_rows = map (\<lambda>r. r(col_name c := col_default c)) (tb_rows tb)\<rparr>
        \<longrightarrow> legacy_column t \<in> names tb"
      using assms(3) [OF u] u by (auto simp: names_def column_names_def)
  qed
qed

text \<open>An update may change the cells outside \<open>C\<close> only.\<close>

lemma careful_update_rows:
  assumes "update_rows u f db = Inr d" and "\<And>r c. u = t \<Longrightarrow> c \<in> C \<Longrightarrow> f r c = r c"
  shows "careful t C db d"
proof -
  obtain tb where tb: "table_of db u = Some tb" and d: "d = set_table u (tb\<lparr>tb_rows := map f (tb_rows tb)\<rparr>) db"
    using assms(1) by (auto simp: update_rows_def with_table_Inr)
  show ?thesis unfolding d
  proof (rule careful_set_table [OF tb], intro conjI)
    assume u: "u = t" and C: "C \<subseteq> names tb"
    then show "C \<subseteq> names (tb\<lparr>tb_rows := map f (tb_rows tb)\<rparr>)" by (simp add: names_def)
    show "same_cells C (tb_rows tb) (tb_rows (tb\<lparr>tb_rows := map f (tb_rows tb)\<rparr>))"
      using assms(2) [OF u] by (auto intro: same_cells_map)
    show "legacy_column t \<in> names (tb\<lparr>tb_rows := map f (tb_rows tb)\<rparr>) \<longrightarrow> legacy_column t \<in> names tb"
      by (simp add: names_def)
  qed
qed

lemma column_names_filter: "set (column_names (filter (\<lambda>it. \<not> is_column n it) items)) = set (column_names items) - {n}"
  by (induction items rule: item_columns.induct) (auto simp: column_names_def is_column_def)

lemma careful_drop_column:
  assumes "drop_column u n db = Inr d" and "u = t \<Longrightarrow> n \<notin> C"
  shows "careful t C db d"
proof -
  obtain tb where tb: "table_of db u = Some tb" and d: "d = set_table u \<lparr>tb_items = filter (\<lambda>it. \<not> is_column n it) (tb_items tb),
      tb_rows = map (\<lambda>r. r(n := Cell_null)) (tb_rows tb)\<rparr> db"
    using assms(1) by (auto simp: drop_column_def with_table_Inr split: if_splits)
  show ?thesis unfolding d
    by (rule careful_set_table [OF tb]) (use assms(2) in \<open>auto simp: names_def column_names_filter intro!: same_cells_map\<close>)
qed

lemma careful_create_index: "create_index ix db = Inr d \<Longrightarrow> careful t C db d"
  by (auto simp: create_index_def careful_def keeps_def marks_kept_def split: if_splits)

lemma careful_create_indexes: "create_indexes ixs db = Inr d \<Longrightarrow> careful t C db d"
  by (induction ixs arbitrary: db) (auto intro: careful_trans careful_create_index)

lemma careful_create_table: "careful t C db (create_table u items db)"
  by (auto simp: careful_def keeps_def marks_kept_def)

lemma careful_drop_index: "careful t C db (drop_index n db)"
  by (simp add: careful_def keeps_def marks_kept_def drop_index_def)

section \<open>Careful steps\<close>

text \<open>
  The columns a step may rewrite in old rows: where \<^verbatim>\<open>runtime\<close> and \<^verbatim>\<open>consumed\<close> carry over, in a
  table \<open>t\<close> that has the one or the other.
\<close>

definition carried_over :: "string \<Rightarrow> string set \<Rightarrow> string set" where
  "carried_over t cols = (if t = ''agent'' \<and> ''runtime'' \<in> cols then {''harness'', ''runtime''}
     else if t = ''event'' \<and> ''consumed'' \<in> cols then {''state'', ''acked_at'', ''delivery_attempts'', ''consumed''} else {})"

definition carries :: "string \<Rightarrow> string set \<Rightarrow> sql_db \<Rightarrow> bool" where
  "carries t C db = (\<exists>tb. table_of db t = Some tb \<and> C \<subseteq> names tb \<and> C \<inter> carried_over t (names tb) = {})"

lemma carried_over_mono: "(legacy_column t \<in> N' \<Longrightarrow> legacy_column t \<in> N) \<Longrightarrow> carried_over t N' \<subseteq> carried_over t N"
  by (auto simp: carried_over_def legacy_column_def)

definition careful_step :: "string \<Rightarrow> string set \<Rightarrow> (sql_db \<Rightarrow> sql_error + sql_db) \<Rightarrow> bool" where
  "careful_step t C f \<longleftrightarrow> (\<forall>db d. carries t C db \<longrightarrow> f db = Inr d \<longrightarrow> careful t C db d)"

named_theorems careful_intros \<open>steps that keep rows, marks and version\<close>

lemma careful_carries: "careful t C db d \<Longrightarrow> carries t C db \<Longrightarrow> carries t C d"
  unfolding careful_def keeps_def carries_def using carried_over_mono by fastforce

lemma careful_stepD: "careful_step t C f \<Longrightarrow> carries t C db \<Longrightarrow> f db = Inr d \<Longrightarrow> careful t C db d"
  by (simp add: careful_step_def)

lemma careful_step_Inr [careful_intros]: "careful_step t C Inr"
  by (simp add: careful_step_def)

lemma careful_step_bind [careful_intros]:
  "careful_step t C f \<Longrightarrow> careful_step t C g \<Longrightarrow> careful_step t C (\<lambda>db. ebind (f db) g)"
  unfolding careful_step_def ebind_eq_Inr by (blast intro: careful_trans careful_carries)

lemma careful_step_if [careful_intros]:
  "careful_step t C f \<Longrightarrow> careful_step t C g \<Longrightarrow> careful_step t C (\<lambda>db. if P db then f db else g db)"
  by (simp add: careful_step_def)

lemma careful_step_after:
  assumes "\<And>db. careful t C db (f db)" and "careful_step t C g" shows "careful_step t C (\<lambda>db. g (f db))"
  unfolding careful_step_def using assms by (blast intro: careful_trans careful_carries careful_stepD)

lemma careful_add_missing [careful_intros]: "col_name c \<noteq> legacy_column u \<Longrightarrow> careful_step t C (add_missing u c)"
  unfolding careful_step_def
proof (intro allI impI)
  assume l: "col_name c \<noteq> legacy_column u"
  fix db d assume C: "carries t C db" and a: "add_missing u c db = Inr d"
  show "careful t C db d"
  proof (cases "col_name c \<in> set (columns_of db u)")
    case False
    then have a: "add_column u c db = Inr d" using a by (simp add: add_missing_def)
    show ?thesis
      by (rule careful_add_column [OF a]) (use False C l in \<open>auto simp: columns_of_def carries_def names_def\<close>)
  qed (use a in \<open>simp add: add_missing_def\<close>)
qed

lemma careful_add_all_missing [careful_intros]:
  "legacy_column u \<notin> col_name ` set cs \<Longrightarrow> careful_step t C (add_all_missing u cs)"
  by (induction cs) (auto simp: add_all_missing.simps [abs_def] intro!: careful_intros)

lemma careful_step_update [careful_intros]:
  "(\<And>r c. u = t \<Longrightarrow> c \<in> C \<Longrightarrow> f r c = r c) \<Longrightarrow> careful_step t C (update_rows u f)"
  by (simp add: careful_step_def careful_update_rows)

lemma careful_step_drop [careful_intros]: "(u = t \<Longrightarrow> n \<notin> C) \<Longrightarrow> careful_step t C (drop_column u n)"
  by (simp add: careful_step_def careful_drop_column)

lemma careful_step_index [careful_intros]: "careful_step t C (create_index ix)" "careful_step t C (create_indexes ixs)"
  by (simp_all add: careful_step_def careful_create_index careful_create_indexes)

lemma carry_runtime_other: "c \<notin> {''harness'', ''runtime''} \<Longrightarrow> carry_runtime r c = r c"
  by (simp add: carry_runtime_def)

lemma ack_consumed_other: "c \<notin> {''state'', ''acked_at'', ''delivery_attempts'', ''consumed''} \<Longrightarrow> ack_consumed r c = r c"
  by (simp add: ack_consumed_def)

lemma carries_apart:
  assumes "carries t C db" "legacy_column t \<in> set (columns_of db t)"
  shows "C \<inter> carried_over t {legacy_column t} = {}"
  using assms by (auto simp: carries_def columns_of_def names_def legacy_column_def carried_over_def split: if_splits)

lemma careful_agent_profile: "careful_step t C migrate_agent_profile"
  unfolding careful_step_def
proof (intro allI impI)
  fix db d assume C: "carries t C db" and m: "migrate_agent_profile db = Inr d"
  obtain e where e: "add_all_missing ''agent'' BASE_PROFILE_COLUMNS db = Inr e"
      "(if ''runtime'' \<in> set (columns_of db ''agent'')
        then ebind (update_rows ''agent'' carry_runtime e) (drop_column ''agent'' ''runtime'') else Inr e) = Inr d"
    using m unfolding migrate_agent_profile_def Let_def ebind_eq_Inr by blast
  have l: "legacy_column ''agent'' \<notin> col_name ` set BASE_PROFILE_COLUMNS"
    by code_simp
  have c: "careful t C db e" by (rule careful_stepD [OF careful_add_all_missing [OF l] C e(1)])
  show "careful t C db d"
  proof (cases "''runtime'' \<in> set (columns_of db ''agent'')")
    case True
    have apart: "C \<inter> {''harness'', ''runtime''} = {}" if "''agent'' = t"
      using carries_apart [OF C] True that by (auto simp: legacy_column_def carried_over_def)
    have u: "careful_step t C (update_rows ''agent'' carry_runtime)"
      by (rule careful_step_update) (use apart in \<open>blast intro: carry_runtime_other\<close>)
    have d: "careful_step t C (drop_column ''agent'' ''runtime'')"
      by (rule careful_step_drop) (use apart in blast)
    have "careful t C e d"
      by (rule careful_stepD [OF careful_step_bind [OF u d] careful_carries [OF c C]]) (use e(2) True in simp)
    with c show ?thesis by (rule careful_trans)
  qed (use c e(2) in simp)
qed

lemma careful_worker_heartbeat: "careful_step t C (migrate_worker_heartbeat julian)"
  unfolding careful_step_def
proof (intro allI impI)
  fix db d assume C: "carries t C db" and m: "migrate_worker_heartbeat julian db = Inr d"
  let ?hb = "\<lambda>r. r(''last_heartbeat'' := r ''last_seen'')"
  obtain d1 d2 d3 where s: "add_missing ''agent'' (default_text ''worker_instance_id'' []) db = Inr d1"
      "(if ''last_heartbeat'' \<in> set (columns_of db ''agent'') then Inr d1
        else ebind (add_column ''agent'' (default_text ''last_heartbeat'' []) d1) (update_rows ''agent'' ?hb)) = Inr d2"
      "add_missing ''agent'' (text_column ''last_progress_at'') d2 = Inr d3"
      "(if ''lease_duration_s'' \<in> set (columns_of d3 ''task'') then Inr d3
        else ebind (add_column ''task'' lease_duration_column d3) (update_rows ''task'' (derive_lease julian))) = Inr d"
    using m unfolding migrate_worker_heartbeat_def ebind_eq_Inr by blast
  have l: "col_name (default_text ''worker_instance_id'' []) \<noteq> legacy_column ''agent''"
    "col_name (text_column ''last_progress_at'') \<noteq> legacy_column ''agent''"
    "''last_heartbeat'' \<noteq> legacy_column ''agent''" "''lease_duration_s'' \<noteq> legacy_column ''task''"
    by code_simp+
  have c1: "careful t C db d1" by (rule careful_stepD [OF careful_add_missing [OF l(1)] C s(1)])
  have c2: "careful t C d1 d2"
  proof (cases "''last_heartbeat'' \<in> set (columns_of db ''agent'')")
    case False
    have new: "''agent'' = t \<Longrightarrow> ''last_heartbeat'' \<notin> C"
      using False C by (auto simp: carries_def columns_of_def names_def)
    obtain e where "add_column ''agent'' (default_text ''last_heartbeat'' []) d1 = Inr e" "update_rows ''agent'' ?hb e = Inr d2"
      using s(2) False by auto
    then show ?thesis using new l(3)
      by (auto intro!: careful_trans [OF careful_add_column careful_update_rows] simp: default_text_def not_null_text_def text_column_def)
  qed (use s(2) in simp)
  have C2: "carries t C d2" using careful_carries [OF careful_trans [OF c1 c2] C] .
  have c3: "careful t C d2 d3" by (rule careful_stepD [OF careful_add_missing [OF l(2)] C2 s(3)])
  have C3: "carries t C d3" using careful_carries [OF c3 C2] .
  have "careful t C d3 d"
  proof (cases "''lease_duration_s'' \<in> set (columns_of d3 ''task'')")
    case False
    have new: "''task'' = t \<Longrightarrow> ''lease_duration_s'' \<notin> C"
      using False C3 by (auto simp: carries_def columns_of_def names_def)
    obtain e where "add_column ''task'' lease_duration_column d3 = Inr e" "update_rows ''task'' (derive_lease julian) e = Inr d"
      using s(4) False by auto
    then show ?thesis using new l(4)
      by (auto intro!: careful_trans [OF careful_add_column careful_update_rows]
          simp: lease_duration_column_def text_column_def derive_lease_def split: option.splits)
  qed (use s(4) in simp)
  then show "careful t C db d" using c1 c2 c3 by (blast intro: careful_trans)
qed

lemma careful_event_delivery: "careful_step t C migrate_event_delivery"
  unfolding careful_step_def
proof (intro allI impI)
  fix db d assume C: "carries t C db" and m: "migrate_event_delivery db = Inr d"
  obtain e f where e: "add_all_missing ''event'' EVENT_DELIVERY_COLUMNS db = Inr e"
      "(if ''consumed'' \<in> set (columns_of db ''event'')
        then ebind (update_rows ''event'' ack_consumed (drop_index ''idx_event_inbox'' e)) (drop_column ''event'' ''consumed'')
        else Inr (drop_index ''idx_event_inbox'' e)) = Inr f"
      "create_indexes [event_state_index, event_delivery_index] f = Inr d"
    using m unfolding migrate_event_delivery_def Let_def ebind_eq_Inr by blast
  have l: "legacy_column ''event'' \<notin> col_name ` set EVENT_DELIVERY_COLUMNS"
    by code_simp
  have c: "careful t C db (drop_index ''idx_event_inbox'' e)"
    by (rule careful_trans [OF careful_stepD [OF careful_add_all_missing [OF l] C e(1)] careful_drop_index])
  have "careful t C (drop_index ''idx_event_inbox'' e) f"
  proof (cases "''consumed'' \<in> set (columns_of db ''event'')")
    case True
    have apart: "C \<inter> {''state'', ''acked_at'', ''delivery_attempts'', ''consumed''} = {}" if "''event'' = t"
      using carries_apart [OF C] True that by (auto simp: legacy_column_def carried_over_def)
    have u: "careful_step t C (update_rows ''event'' ack_consumed)"
      by (rule careful_step_update) (use apart in \<open>blast intro: ack_consumed_other\<close>)
    have d: "careful_step t C (drop_column ''event'' ''consumed'')"
      by (rule careful_step_drop) (use apart in blast)
    show ?thesis
      by (rule careful_stepD [OF careful_step_bind [OF u d] careful_carries [OF c C]]) (use e(2) True in simp)
  qed (use e(2) in simp)
  with c careful_create_indexes [OF e(3)] show "careful t C db d" by (blast intro: careful_trans)
qed

lemma careful_run_steps: "(\<And>f. f \<in> set fs \<Longrightarrow> careful_step t C f) \<Longrightarrow> careful_step t C (run_steps fs)"
  by (induction fs) (auto simp: run_steps.simps [abs_def] intro!: careful_intros)

lemma careful_migrations: "careful_step t C (run_steps (migration_steps julian))"
proof (rule careful_run_steps)
  have "careful_step t C migrate_operation_table" "careful_step t C migrate_decision_key"
    "careful_step t C migrate_task_pr_head_sha" "careful_step t C migrate_task_source_event_id"
    "careful_step t C migrate_call_log" "careful_step t C migrate_declared_model" "careful_step t C migrate_peer_addresses"
    unfolding migrate_operation_table_def [abs_def] migrate_decision_key_def [abs_def] migrate_task_pr_head_sha_def [abs_def]
      migrate_task_source_event_id_def [abs_def] migrate_call_log_def [abs_def] migrate_declared_model_def [abs_def]
      migrate_peer_addresses_def [abs_def]
    by (rule careful_step_after [OF careful_create_table] careful_intros | rule careful_intros | code_simp)+
  then show "careful_step t C f" if "f \<in> set (migration_steps julian)" for f
    using that careful_agent_profile careful_event_delivery careful_worker_heartbeat
    by (auto simp: migration_steps_def)
qed

section \<open>The rebuild\<close>

text \<open>A table name that is no scratch name.\<close>

definition plain_name :: "string \<Rightarrow> bool" where
  "plain_name u = (\<forall>t. u \<noteq> scratch_name t)"

lemma scratch_name_other [simp]: "scratch_name t \<noteq> t" "t \<noteq> scratch_name t"
  by (auto simp: scratch_name_def)

lemma sequence_value_set:
  "sequence_value (set_sequence t n db) u = (if u = t \<and> sq_sequence db \<noteq> None then Some n else sequence_value db u)"
  by (auto simp: sequence_value_def set_sequence_def update_conv' split: option.splits)

lemma table_of_set_sequence [simp]: "table_of (set_sequence t n db) u = table_of db u"
  by (simp add: table_of_def set_sequence_def)

lemma table_of_restore [simp]: "table_of (restore_sequence t h db) u = table_of db u"
  by (simp add: restore_sequence_def split: option.splits)

lemma restore_sequence_other: "u \<noteq> t \<Longrightarrow> sequence_value (restore_sequence t h db) u = sequence_value db u"
  by (simp add: restore_sequence_def sequence_value_set split: option.splits)

lemma restore_sequence_mark:
  "sq_sequence db \<noteq> None \<Longrightarrow> \<exists>m. sequence_value (restore_sequence t (Some h) db) t = Some m \<and> h \<le> m"
  by (cases "sequence_value db t") (auto simp: restore_sequence_def sequence_value_set)

lemma version_restore [simp]: "sq_version (restore_sequence t h db) = sq_version db"
  by (simp add: restore_sequence_def split: option.splits)

lemma insert_rows_Inr:
  assumes "insert_rows t items rows db = Inr d"
  shows "table_of d u = (if u = t then Some \<lparr>tb_items = items, tb_rows = rows\<rparr> else table_of db u)"
    "u \<noteq> t \<Longrightarrow> sequence_value d u = sequence_value db u" "sq_version d = sq_version db"
    "sq_sequence db \<noteq> None \<Longrightarrow> sq_sequence d \<noteq> None" "rows_fit items rows"
proof -
  let ?e = "set_table t \<lparr>tb_items = items, tb_rows = rows\<rparr> db"
  have f: "rows_fit items rows" "d = ?e \<or> (\<exists>n. d = set_sequence t n ?e)"
    using assms by (auto simp: insert_rows_def Let_def split: if_splits)
  have q: "sq_sequence ?e = sq_sequence db" by (simp add: set_table_def)
  show "table_of d u = (if u = t then Some \<lparr>tb_items = items, tb_rows = rows\<rparr> else table_of db u)"
    "u \<noteq> t \<Longrightarrow> sequence_value d u = sequence_value db u" "sq_version d = sq_version db" "rows_fit items rows"
    using f by (auto simp: sequence_value_set)
  show "sq_sequence db \<noteq> None \<Longrightarrow> sq_sequence d \<noteq> None"
    using f(2) q by (auto simp: set_sequence_def)
qed

lemma rebuild_table_effect:
  assumes r: "rebuild_table t items db = Inr d" and tb: "table_of db t = Some tb" and t: "plain_name t"
  obtains rows where "rows = map (copied_row items (filter (\<lambda>n. n \<in> set (column_names items)) (column_names (tb_items tb)))) (tb_rows tb)"
    "table_of d t = Some \<lparr>tb_items = items, tb_rows = rows\<rparr>" "rows_fit items rows"
    "\<And>u. plain_name u \<Longrightarrow> u \<noteq> t \<Longrightarrow> table_of d u = table_of db u \<and> sequence_value d u = sequence_value db u"
    "marks_kept t db d" "sq_version d = sq_version db"
proof -
  let ?s = "scratch_name t"
  define db1 where "db1 = rename_table t ?s (drop_table ?s db)"
  define db2 where "db2 = create_table t items db1"
  have st: "t \<noteq> ?s" by simp
  have t1: "table_of db1 u = (if u = ?s then Some tb else if u = t then None else table_of db u)" for u
    unfolding db1_def using table_of_rename [OF st] tb by simp
  have q1: "sequence_value db1 u = (if u = ?s then sequence_value db t else if u = t then None else sequence_value db u)" for u
    unfolding db1_def by (rule sequence_value_rename [OF st])
  have t2: "table_of db2 ?s = Some tb" "u \<noteq> t \<Longrightarrow> table_of db2 u = table_of db1 u" for u
    using t1 by (simp_all add: db2_def)
  define rows where "rows = map (copied_row items (filter (\<lambda>n. n \<in> set (column_names items)) (column_names (tb_items tb)))) (tb_rows tb)"
  obtain db3 where i: "insert_rows t items rows db2 = Inr db3"
    and d: "d = restore_sequence t (sequence_value db t) (drop_table ?s db3)"
    using r unfolding rebuild_table_def Let_def db1_def [symmetric] db2_def [symmetric] columns_of_def t2(1) rows_def
    by auto
  note e = insert_rows_Inr [OF i]
  have seq: "sq_sequence db \<noteq> None \<Longrightarrow> sq_sequence db3 \<noteq> None"
    by (rule e(4)) (auto simp: db2_def db1_def create_table_def rename_table_def drop_table_def)
  show thesis
  proof (rule that [OF rows_def])
    show "table_of d t = Some \<lparr>tb_items = items, tb_rows = rows\<rparr>" using e(1) by (simp add: d)
    show "rows_fit items rows" by (rule e(5))
    show "table_of d u = table_of db u \<and> sequence_value d u = sequence_value db u" if "plain_name u" "u \<noteq> t" for u
    proof -
      have "u \<noteq> ?s" using that by (simp add: plain_name_def)
      then show ?thesis using that e(1,2) t2(2) t1 q1
        by (simp add: d restore_sequence_other sequence_value_drop db2_def)
    qed
    show "marks_kept t db d" unfolding marks_kept_def
    proof (intro allI impI)
      fix n assume n: "sequence_value db t = Some n"
      then have "sq_sequence (drop_table ?s db3) \<noteq> None"
        using seq by (auto simp: sequence_value_def drop_table_def split: option.splits)
      then show "\<exists>m. sequence_value d t = Some m \<and> n \<le> m"
        unfolding d n by (rule restore_sequence_mark)
    qed
    show "sq_version d = sq_version db" using e(3) by (simp add: d db2_def db1_def)
  qed
qed

lemma rebuild_table_careful:
  assumes r: "rebuild_table t items db = Inr d" and tb: "table_of db t = Some tb" and "plain_name t" "plain_name u"
    and C: "u = t \<Longrightarrow> C \<subseteq> set (column_names items)" and L: "legacy_column t \<notin> set (column_names items)"
  shows "careful u C db d"
proof -
  from r tb \<open>plain_name t\<close> obtain rows where e:
    "rows = map (copied_row items (filter (\<lambda>n. n \<in> set (column_names items)) (column_names (tb_items tb)))) (tb_rows tb)"
    "table_of d t = Some \<lparr>tb_items = items, tb_rows = rows\<rparr>"
    "\<And>u. plain_name u \<Longrightarrow> u \<noteq> t \<Longrightarrow> table_of d u = table_of db u \<and> sequence_value d u = sequence_value db u"
    "marks_kept t db d" "sq_version d = sq_version db"
    by (rule rebuild_table_effect) blast
  show ?thesis
  proof (cases "u = t")
    case False
    with e(3) [OF \<open>plain_name u\<close>] e(5) show ?thesis by (simp add: careful_def keeps_def marks_kept_def)
  next
    case True
    have "same_cells C (tb_rows tb) rows" if "C \<subseteq> names tb"
      using that C [OF True] unfolding e(1) by (auto simp: copied_row_def names_def intro!: same_cells_map)
    then have "keeps u C db d" using True e(2) tb C [OF True] L by (auto simp: keeps_def names_def)
    with True e(4,5) show ?thesis by (simp add: careful_def)
  qed
qed

lemma plain_nameI: "length u < 12 \<Longrightarrow> plain_name u"
  by (auto simp: plain_name_def scratch_name_def)

lemma rebuilt_plain: "t \<in> set REBUILT_TABLES \<Longrightarrow> plain_name t"
  by (auto simp: REBUILT_TABLES_def intro!: plain_nameI)

lemma declared_no_legacy: "t \<in> set REBUILT_TABLES \<Longrightarrow> legacy_column t \<notin> set (column_names (declared_items t))"
proof -
  have "list_all (\<lambda>t. legacy_column t \<notin> set (column_names (declared_items t))) REBUILT_TABLES" by code_simp
  then show "t \<in> set REBUILT_TABLES \<Longrightarrow> legacy_column t \<notin> set (column_names (declared_items t))" by (simp add: list_all_iff)
qed

lemma rebuild_all_careful:
  assumes "rebuild_all ts db = Inr (b, d)" "\<forall>t \<in> set ts. plain_name t" "plain_name u" "set ts \<subseteq> set REBUILT_TABLES"
    and "u \<in> set ts \<Longrightarrow> C \<subseteq> set (column_names (declared_items u))"
  shows "careful u C db d"
  using assms
proof (induction ts arbitrary: db b)
  case (Cons t ts)
  show ?case
  proof (cases "table_of db t")
    case (Some tb)
    show ?thesis
    proof (cases "tb_items tb = declared_items t")
      case False
      with Some Cons.prems(1) obtain e b' where e: "rebuild_table t (declared_items t) db = Inr e" "rebuild_all ts e = Inr (b', d)"
        by auto
      have "careful u C db e" by (rule rebuild_table_careful [OF e(1) Some]) (use Cons.prems declared_no_legacy in auto)
      then show ?thesis using Cons.IH [OF e(2)] Cons.prems by (auto intro: careful_trans)
    qed (use Some Cons in simp)
  qed (use Cons in simp)
qed simp

lemma rebuild_all_shape:
  assumes "rebuild_all ts db = Inr (b, d)" "\<forall>t \<in> set ts. plain_name t" "distinct ts" "t \<in> set ts" "table_of db t = Some tb"
  shows "\<exists>rows. table_of d t = Some \<lparr>tb_items = declared_items t, tb_rows = rows\<rparr>"
  using assms
proof (induction ts arbitrary: db b tb)
  case (Cons v ts)
  have other: "table_of d v = table_of e v" if "rebuild_all ts' e = Inr (b', d)" "\<forall>t \<in> set ts'. plain_name t" "v \<notin> set ts'" "plain_name v" for ts' e b'
    using that
  proof (induction ts' arbitrary: e b')
    case (Cons w ws)
    show ?case
    proof (cases "table_of e w")
      case (Some tw)
      show ?thesis
      proof (cases "tb_items tw = declared_items w")
        case False
        with Some Cons.prems(1) obtain f b2 where f: "rebuild_table w (declared_items w) e = Inr f" "rebuild_all ws f = Inr (b2, d)"
          by auto
        have "plain_name w" using Cons.prems(2) by simp
        from f(1) Some this have "table_of f v = table_of e v"
          by (rule rebuild_table_effect) (use Cons.prems in auto)
        then show ?thesis using Cons.IH [OF f(2)] Cons.prems by simp
      qed (use Some Cons in simp)
    qed (use Cons in simp)
  qed simp
  have v: "plain_name v" "v \<notin> set ts" "\<forall>t \<in> set ts. plain_name t" using Cons.prems by auto
  show ?case
  proof (cases "table_of db v")
    case None
    then have "t \<noteq> v" using Cons.prems(5) by auto
    then show ?thesis using None Cons by simp
  next
    case (Some tv)
    show ?thesis
    proof (cases "tb_items tv = declared_items v")
      case True
      then have r: "rebuild_all ts db = Inr (b, d)" using Some Cons.prems(1) by simp
      show ?thesis
      proof (cases "t = v")
        case True
        then show ?thesis using other [OF r v(3,2,1)] Some \<open>tb_items tv = declared_items v\<close> by (cases tv) simp
      next
        case False
        then show ?thesis using Cons.IH [OF r v(3)] Cons.prems by simp
      qed
    next
      case False
      with Some Cons.prems(1) obtain e b' where e: "rebuild_table v (declared_items v) db = Inr e" "rebuild_all ts e = Inr (b', d)"
        by auto
      show ?thesis
      proof (cases "t = v")
        case True
        from e(1) Some v(1) obtain rows where "table_of e v = Some \<lparr>tb_items = declared_items v, tb_rows = rows\<rparr>"
          by (rule rebuild_table_effect) blast
        then show ?thesis using other [OF e(2) v(3,2,1)] True by simp
      next
        case False
        have "plain_name t" using Cons.prems(2,4) by auto
        have "table_of e t = table_of db t"
          by (rule rebuild_table_effect [OF e(1) Some v(1)]) (use \<open>plain_name t\<close> False in blast)
        then show ?thesis using Cons.IH [OF e(2) v(3)] Cons.prems False by simp
      qed
    qed
  qed
qed simp

lemma rebuild_drifted_effect:
  assumes "rebuild_drifted_tables db = Inr d"
  obtains b e where "rebuild_all REBUILT_TABLES db = Inr (b, e)" "careful u C e d"
    "\<And>t. table_of d t = table_of e t" "b \<Longrightarrow> foreign_key_check d = 0"
proof -
  obtain b e where r: "rebuild_all REBUILT_TABLES db = Inr (b, e)"
    and c: "(if \<not> b then Inr e else ebind (create_indexes index_statements e) (\<lambda>d.
       if foreign_key_check d \<noteq> 0 then Inl (Migration_error (foreign_key_check d)) else Inr d)) = Inr d"
    using assms by (auto simp: rebuild_drifted_tables_def)
  have tables: "create_indexes ixs x = Inr y \<Longrightarrow> table_of y t = table_of x t" for ixs x y t
    by (induction ixs arbitrary: x) (auto simp: create_index_def split: if_splits)
  show thesis
  proof (cases b)
    case True
    then have i: "create_indexes index_statements e = Inr d" "foreign_key_check d = 0" using c by (auto split: if_splits)
    show thesis by (rule that [OF r careful_create_indexes [OF i(1)] tables [OF i(1)]]) (rule i(2))
  next
    case False
    then have "d = e" using c by simp
    then show thesis using that [OF r] False by simp
  qed
qed

section \<open>The whole migration\<close>

text \<open>The columns whose cells a migration of table \<open>t\<close> may not touch.\<close>

definition kept_columns :: "string \<Rightarrow> sql_table \<Rightarrow> string set" where
  "kept_columns t tb = names tb \<inter> (if t \<in> set REBUILT_TABLES then set (column_names (declared_items t)) else UNIV) -
     carried_over t (names tb)"

lemma migrations_careful:
  assumes "run_steps (migration_steps julian) db = Inr d" "table_of db t = Some tb" "C \<subseteq> names tb" "C \<inter> carried_over t (names tb) = {}"
  shows "careful t C db d"
  using careful_stepD [OF careful_migrations _ assms(1)] assms(2-4) by (auto simp: carries_def)

lemma migrated_agents:
  assumes "run_steps (migration_steps julian) db = Inr d" shows "table_of db ''agent'' \<noteq> None"
proof
  assume none: "table_of db ''agent'' = None"
  have "add_all_missing ''agent'' BASE_PROFILE_COLUMNS db = Inl (No_such_table ''agent'')"
    by (simp add: BASE_PROFILE_COLUMNS_def add_missing_def columns_of_def none add_column_def with_table_def ebind_def)
  then have "migrate_agent_profile db = Inl (No_such_table ''agent'')" by (simp add: migrate_agent_profile_def Let_def)
  with assms show False by (simp add: migration_steps_def)
qed

lemma migrated_version: "run_steps (migration_steps julian) db = Inr d \<Longrightarrow> sq_version d = sq_version db"
  using migrations_careful [of julian db d "''agent''" _ "{}"] migrated_agents by (fastforce simp: careful_def)

lemma kept_apart: "kept_columns t tb \<inter> carried_over t (names tb) = {}" "kept_columns t tb \<subseteq> names tb"
  by (auto simp: kept_columns_def)

text \<open>What the migrations make of a table: its shape and the cells and the mark that stay.\<close>

lemma rebuilt_database:
  assumes m: "run_steps (migration_steps julian) db = Inr e" and r: "rebuild_drifted_tables e = Inr d"
    and t: "plain_name t" "table_of db t = Some tb"
  obtains tb' where "table_of d t = Some tb'" "t \<in> set REBUILT_TABLES \<Longrightarrow> tb_items tb' = declared_items t"
    "same_cells (kept_columns t tb) (tb_rows tb) (tb_rows tb')" "marks_kept t db d" "sq_version d = sq_version db"
proof -
  let ?C = "kept_columns t tb"
  obtain b f where a: "rebuild_all REBUILT_TABLES e = Inr (b, f)" "careful t ?C f d" "\<And>t. table_of d t = table_of f t"
    using r by (rule rebuild_drifted_effect) blast
  have c1: "careful t ?C db e" by (rule migrations_careful [OF m t(2) kept_apart(2,1)])
  have c2: "careful t ?C e f"
    by (rule rebuild_all_careful [OF a(1) _ t(1)]) (auto simp: rebuilt_plain kept_columns_def)
  have c: "careful t ?C db d" using c1 c2 a(2) by (blast intro: careful_trans)
  then obtain tb' where tb': "table_of d t = Some tb'" "same_cells ?C (tb_rows tb) (tb_rows tb')"
    using t(2) kept_apart(2) unfolding careful_def keeps_def by blast
  have "tb_items tb' = declared_items t" if "t \<in> set REBUILT_TABLES"
  proof -
    obtain te where te: "table_of e t = Some te"
      using c1 t(2) kept_apart(2) unfolding careful_def keeps_def by blast
    have d: "distinct REBUILT_TABLES" by (simp add: REBUILT_TABLES_def)
    have p: "\<forall>t \<in> set REBUILT_TABLES. plain_name t" using rebuilt_plain by blast
    from rebuild_all_shape [OF a(1) p d that te] show ?thesis using tb'(1) a(3) by auto
  qed
  then show thesis using that [OF tb'(1) _ tb'(2)] c by (simp add: careful_def)
qed

text \<open>A database of an older version: events with \<^verbatim>\<open>consumed\<close>, two of them deleted since.\<close>

definition old_event_items :: "item list" where
  "old_event_items = map Column [auto_id ''id'', not_null_text ''kind'', not_null_text ''payload_json'',
     integer_column ''consumed'', not_null_text ''ts'']"

definition old_event :: sql_row where
  "old_event = (\<lambda>_. Cell_null)(''id'' := Cell_int 3, ''kind'' := Cell_text ''task_failed'',
     ''payload_json'' := Cell_text ''{}'', ''consumed'' := Cell_int 1, ''ts'' := Cell_text ''t0'')"

definition old_db :: sql_db where
  "old_db = \<lparr>sq_tables = [(''agent'', \<lparr>tb_items = agent_items, tb_rows = []\<rparr>),
       (''task'', \<lparr>tb_items = task_items, tb_rows = []\<rparr>), (''event'', \<lparr>tb_items = old_event_items, tb_rows = [old_event]\<rparr>),
       (''decision'', \<lparr>tb_items = decision_items, tb_rows = []\<rparr>), (''message'', \<lparr>tb_items = message_items, tb_rows = []\<rparr>)],
     sq_indexes = [], sq_sequence = Some [(''event'', 5)], sq_version = 5\<rparr>"

end
