(* ===== verification/McpServer.thy ===== *)
theory McpServer
  imports Accounting Waits MergeGateLoop Floats
begin

text \<open>
  \<^verbatim>\<open>mcp.py\<close>: Alice's tools as calls of the store, the declared bounds of their arguments, and the pipe:
  the framing of the lines read, what a line read or written tells the accounting, and when the
  connection counts as initialized. FastMCP and its JSON rendering of results are left out; a
  result is the record the tool returns.
\<close>

section \<open>The tools\<close>

datatype mcp_call =
    Get_state
  | Initialize_workflow string "dict option"
  | Wait_for_event py_float "string option"
  | Assign_task string string string string nat py_float "string option"
  | Check_merge_gate string string
  | Reply_to string string nat
  | Set_task_state string task_state string
  | Release_agent string
  | Set_workflow_status workflow_status string
  | Log_decision string string "string option"

text \<open>\<^verbatim>\<open>Field(ge=..., le=..., allow_inf_nan=False)\<close>\<close>

definition in_range :: "(rat \<Rightarrow> bool) \<Rightarrow> py_float \<Rightarrow> bool" where
  "in_range ok x = (case x of Finite q \<Rightarrow> ok q | _ \<Rightarrow> False)"

definition timeout_valid :: "py_float \<Rightarrow> bool" where
  "timeout_valid = in_range (\<lambda>q. 0 \<le> q \<and> q \<le> 120)"

definition lease_valid :: "py_float \<Rightarrow> bool" where
  "lease_valid = in_range (\<lambda>q. 0 < q \<and> q \<le> 525600)"

definition arguments_valid :: "mcp_call \<Rightarrow> bool" where
  "arguments_valid c = (case c of
     Wait_for_event timeout ack \<Rightarrow> timeout_valid timeout
   | Assign_task agent role title instructions event_id lease sha \<Rightarrow>
       lease_valid lease \<and> (case sha of None \<Rightarrow> True | Some s \<Rightarrow> sha_fullmatch s)
   | Check_merge_gate url sha \<Rightarrow> sha_fullmatch sha
   | Set_task_state tid st note \<Rightarrow> st = Canceled \<or> st = Failed
   | _ \<Rightarrow> True)"

datatype mcp_result =
    State_result hub_state
  | Workflow_result string string dict
  | Task_result task_row
  | Agent_result agent_row
  | Applied_result bool
  | Ok_result
  | Decision_result nat

definition finite_part :: "py_float \<Rightarrow> rat" where
  "finite_part x = (case x of Finite q \<Rightarrow> q | _ \<Rightarrow> 0)"

text \<open>
  What a tool does when it is called: one store call, a held request for the next event (the tables
  after the ack, which \<open>wait_step\<close> of \<^verbatim>\<open>Waits\<close> goes on from, with its timeout), or a poll of the merge gate
  (\<open>check_gate\<close>). Arguments outside their declared bounds are refused before the tool runs.
\<close>

datatype tool_effect =
    Store_call "mcp_result outcome"
  | Event_hold hub_db rat
  | Gate_poll "((gate_error + gate_report) \<times> gate_state) option"
  | Bad_arguments

definition store_call :: "('a \<Rightarrow> mcp_result) \<Rightarrow> 'a outcome \<Rightarrow> tool_effect" where
  "store_call shown r = Store_call (ebind r (\<lambda>(x, d, ks). Inr (shown x, d, ks)))"

definition run_tool :: "env \<Rightarrow> gate_world \<Rightarrow> gate_state \<Rightarrow> hub_db \<Rightarrow> mcp_call \<Rightarrow> tool_effect" where
  "run_tool e w g db c = (if \<not> arguments_valid c then Bad_arguments else (case c of
     Get_state \<Rightarrow> Store_call (Inr (State_result (get_state e db), db, []))
   | Initialize_workflow goal policy \<Rightarrow> Store_call (ebind (initialize_workflow e db goal policy) (\<lambda>(wid, d, ks).
       case workflow_row_of d of
         None \<Rightarrow> Inr (Workflow_result wid [] [], d, ks)
       | Some w \<Rightarrow> Inr (Workflow_result wid (w_goal w) (w_policy w), d, ks)))
   | Wait_for_event timeout ack \<Rightarrow> Event_hold (wait_for_event_start e db ack) (finite_part timeout)
   | Assign_task agent role title instructions event_id lease sha \<Rightarrow>
       store_call Task_result (assign_task e db agent role title instructions (finite_part lease) sha (Some event_id))
   | Check_merge_gate url sha \<Rightarrow> Gate_poll (check_gate w POLL_TIMEOUT_S POLL_INTERVAL_S url sha g)
   | Reply_to tid text mid \<Rightarrow> store_call Applied_result (reply e db tid text mid)
   | Set_task_state tid st note \<Rightarrow> store_call Task_result (set_task_state e db tid st note)
   | Release_agent agent \<Rightarrow> store_call Agent_result (release_agent db agent)
   | Set_workflow_status st summary \<Rightarrow> store_call (\<lambda>_. Ok_result) (set_workflow_status e db st summary)
   | Log_decision summary rationale key \<Rightarrow> store_call Decision_result (log_decision e db summary rationale key)))"

text \<open>A tool makes at most one step of the hub.\<close>

lemma store_call_Inr:
  "store_call shown r = Store_call (Inr (x, d, ks)) \<Longrightarrow> \<exists>y. r = Inr (y, d, ks)"
  by (auto simp: store_call_def ebind_eq_Inr split: prod.splits)

lemma wait_for_event_start_step:
  "wait_for_event_start e db ack = db \<or> (\<exists>ks. hub_does db (wait_for_event_start e db ack) ks)"
  by (auto simp: wait_for_event_start_def intro: hub_does.intros split: option.splits sum.splits prod.splits)

lemma store_call_kind [simp]: "store_call shown r \<noteq> Event_hold d t"
  by (simp add: store_call_def)

lemma run_tool_step:
  assumes "run_tool e w g db c = Store_call (Inr (r, d, ks))" and "env_ok e"
  shows "hub_does db d ks \<or> d = db \<and> ks = []"
  using assms
  by (auto simp: run_tool_def split: mcp_call.splits if_splits option.splits
      dest!: store_call_Inr intro: hub_does.intros)

lemma run_tool_hold:
  assumes "run_tool e w g db c = Event_hold d t"
  shows "(d = db \<or> (\<exists>ks. hub_does db d ks)) \<and> 0 \<le> t \<and> t \<le> 120"
proof -
  from assms obtain timeout ack where c: "c = Wait_for_event timeout ack" "timeout_valid timeout"
    and d: "d = wait_for_event_start e db ack" "t = finite_part timeout"
    by (cases c) (auto simp: run_tool_def arguments_valid_def split: if_splits)
  from c(2) have "0 \<le> t \<and> t \<le> 120" unfolding d
    by (cases timeout) (simp_all add: timeout_valid_def in_range_def finite_part_def)
  then show ?thesis unfolding d(1) using wait_for_event_start_step by blast
qed

section \<open>The pipe\<close>

text \<open>
  \<^verbatim>\<open>_readline\<close>: one line, what stays pending, and the chunks not read yet; no chunk, or an empty one,
  is the end of the input.
\<close>

fun read_line :: "string \<Rightarrow> string list \<Rightarrow> string \<times> string \<times> string list" where
  "read_line pending chunks =
     (if CHR 0x0A \<in> set pending then
        (takeWhile (\<lambda>c. c \<noteq> CHR 0x0A) pending @ [CHR 0x0A], drop 1 (dropWhile (\<lambda>c. c \<noteq> CHR 0x0A) pending), chunks)
      else (case chunks of
          [] \<Rightarrow> (pending, [], [])
        | c # cs \<Rightarrow> if c = [] then (pending, [], cs) else read_line (pending @ c) cs))"

declare read_line.simps [simp del]

lemma read_line_steps:
  "CHR 0x0A \<in> set pending \<Longrightarrow> read_line pending chunks =
     (takeWhile (\<lambda>c. c \<noteq> CHR 0x0A) pending @ [CHR 0x0A], drop 1 (dropWhile (\<lambda>c. c \<noteq> CHR 0x0A) pending), chunks)"
  "CHR 0x0A \<notin> set pending \<Longrightarrow> read_line pending [] = (pending, [], [])"
  "CHR 0x0A \<notin> set pending \<Longrightarrow> read_line pending ([] # cs) = (pending, [], cs)"
  "CHR 0x0A \<notin> set pending \<Longrightarrow> c \<noteq> [] \<Longrightarrow> read_line pending (c # cs) = read_line (pending @ c) cs"
  by (subst read_line.simps; simp)+

lemma split_at_newline:
  "CHR 0x0A \<in> set s \<Longrightarrow> takeWhile (\<lambda>c. c \<noteq> CHR 0x0A) s @ [CHR 0x0A] @ drop 1 (dropWhile (\<lambda>c. c \<noteq> CHR 0x0A) s) = s"
  by (induction s) auto

text \<open>No byte is lost or reordered, and a line ends at its first newline.\<close>

lemma read_line_keeps:
  assumes "read_line pending chunks = (line, rest, left)"
  shows "line @ rest @ concat left = pending @ concat chunks \<and>
    (line = takeWhile (\<lambda>c. c \<noteq> CHR 0x0A) line @ [CHR 0x0A] \<or> CHR 0x0A \<notin> set line \<and> rest = [])"
  using assms
proof (induction pending chunks arbitrary: line rest left rule: read_line.induct)
  case (1 pending chunks)
  show ?case
  proof (cases "CHR 0x0A \<in> set pending")
    case True
    let ?t = "takeWhile (\<lambda>c. c \<noteq> CHR 0x0A) pending"
    have t: "takeWhile (\<lambda>c. c \<noteq> CHR 0x0A) (?t @ [CHR 0x0A]) = ?t"
      by (subst takeWhile_append2) (auto dest: set_takeWhileD)
    have e: "line = ?t @ [CHR 0x0A]" "rest = drop 1 (dropWhile (\<lambda>c. c \<noteq> CHR 0x0A) pending)" "left = chunks"
      using 1(2) unfolding read_line_steps(1) [OF True] by simp_all
    have "line @ rest = pending" unfolding e append_assoc by (rule split_at_newline [OF True])
    moreover have "line = takeWhile (\<lambda>c. c \<noteq> CHR 0x0A) line @ [CHR 0x0A]" unfolding e(1) t ..
    ultimately show ?thesis using e(3) append_assoc by metis
  next
    case False
    show ?thesis
    proof (cases chunks)
      case Nil
      then show ?thesis using False 1(2) by (simp add: read_line_steps(2))
    next
      case (Cons c cs)
      show ?thesis
      proof (cases "c = []")
        case True
        then show ?thesis using False 1(2) Cons by (simp add: read_line_steps(3))
      next
        case c: False
        then have "read_line (pending @ c) cs = (line, rest, left)"
          using False 1(2) Cons by (simp add: read_line_steps(4))
        from 1(1) [OF False Cons c this] show ?thesis by (simp add: Cons)
      qed
    qed
  qed
qed

record mcp_connection =
  initialized_ok :: bool
  initialize_ids :: "rpc_key list"
  observer :: "mcp_accounting option"

definition new_connection :: "bool \<Rightarrow> mcp_connection" where
  "new_connection accounting = \<lparr>initialized_ok = False, initialize_ids = [],
     observer = (if accounting then Some no_calls else None)\<rparr>"

text \<open>\<^verbatim>\<open>readline\<close>, after a line was read and decoded.\<close>

definition line_read :: "string list \<Rightarrow> iso \<Rightarrow> string \<Rightarrow> mcp_connection \<Rightarrow> mcp_connection" where
  "line_read tools now line conn = (case loads line of
     Some (JObj p) \<Rightarrow>
       (let conn = conn\<lparr>observer := map_option (observe_request tools now p (length line)) (observer conn)\<rparr>
        in if dict_get ''method'' p = Some (JStr ''initialize'')
           then (case rpc_key (dict_get ''id'' p) of
               None \<Rightarrow> conn | Some k \<Rightarrow> conn\<lparr>initialize_ids := k # initialize_ids conn\<rparr>)
           else conn)
   | _ \<Rightarrow> conn)"

text \<open>\<^verbatim>\<open>payload.get("id") in initialize_ids\<close>: a float equals the int of its value.\<close>

definition key_of_id :: "json option \<Rightarrow> rpc_key option" where
  "key_of_id v = (case v of
     Some (JFloat q) \<Rightarrow> (if of_int \<lfloor>q\<rfloor> = q then Some (Key_int \<lfloor>q\<rfloor>) else None)
   | _ \<Rightarrow> rpc_key v)"

definition accepts_initialize :: "mcp_connection \<Rightarrow> json option \<Rightarrow> bool" where
  "accepts_initialize conn payload = (case payload of
     Some (JObj p) \<Rightarrow> (case key_of_id (dict_get ''id'' p) of None \<Rightarrow> False | Some k \<Rightarrow> k \<in> set (initialize_ids conn)) \<and>
       (case sub_dict ''result'' p of None \<Rightarrow> False | Some r \<Rightarrow> dict_has ''protocolVersion'' r)
   | _ \<Rightarrow> False)"

text \<open>\<^verbatim>\<open>write\<close>: the record for the log if any; \<open>wrote\<close> says whether the bytes went out.\<close>

definition line_written :: "iso \<Rightarrow> string \<Rightarrow> bool \<Rightarrow> mcp_connection \<Rightarrow> call_record option \<times> mcp_connection" where
  "line_written now value_text wrote conn =
     (let payload = loads value_text;
          accepted = accepts_initialize conn payload;
          (r, conn) = (case (payload, observer conn) of
            (Some (JObj p), Some m) \<Rightarrow> (case observe_response now p (length value_text) m of
               (r, m') \<Rightarrow> (r, conn\<lparr>observer := Some m'\<rparr>))
          | _ \<Rightarrow> (None, conn))
      in (r, if accepted \<and> wrote then conn\<lparr>initialized_ok := True\<rparr> else conn))"

text \<open>The connection counts as initialized only after a client asked for it.\<close>

definition sane_connection :: "mcp_connection \<Rightarrow> bool" where
  "sane_connection conn = (initialized_ok conn \<longrightarrow> initialize_ids conn \<noteq> [])"

lemma sane_connection_steps:
  "sane_connection (new_connection acc)"
  "sane_connection conn \<Longrightarrow> sane_connection (line_read tools now line conn)"
  "sane_connection conn \<Longrightarrow> sane_connection (snd (line_written now value_text wrote conn))"
  by (auto simp: sane_connection_def new_connection_def line_read_def line_written_def accepts_initialize_def Let_def
      split: option.splits json.splits prod.splits if_splits)

end
