(* ===== verification/HubProcess.thy ===== *)
theory HubProcess
  imports HubApp Migrations McpServer WorkerHttp
begin

text \<open>
  \<^verbatim>\<open>main.py\<close>, \<^verbatim>\<open>card.py\<close> and the lifespan of \<^verbatim>\<open>app.py\<close>: what must succeed before the hub serves, the
  public routes, and how the process ends when one of its two transports does. Uvicorn and the MCP
  library are given by what their tasks do.
\<close>

section \<open>Start-up\<close>

datatype startup_error = Database_failed sql_error | Token_failed token_error

text \<open>The lifespan before its \<^verbatim>\<open>yield\<close>: the database first, then the bearer token.\<close>

definition start_up ::
  "(cell \<Rightarrow> rat option) \<Rightarrow> token_disk \<Rightarrow> string \<Rightarrow> hub_settings \<Rightarrow> sql_db \<Rightarrow> stored_file option
   \<Rightarrow> (startup_error + string) \<times> sql_db \<times> stored_file option" where
  "start_up julian disk generated s db f = (case initialize_database julian db of
     Migration_failed x \<Rightarrow> (Inl (Database_failed x), db, f)
   | Rebuild_failed x d \<Rightarrow> (Inl (Database_failed x), d, f)
   | Ready d \<Rightarrow> (case load_or_create_token disk generated (s_token s) f of
       (Inl x, f') \<Rightarrow> (Inl (Token_failed x), d, f')
     | (Inr t, f') \<Rightarrow> (Inr t, d, f')))"

text \<open>A hub that is up has a token to compare with, and starts again over what it left.\<close>

lemma start_up_token:
  "start_up julian disk generated s db f = (Inr t, d, f') \<Longrightarrow> generated \<noteq> [] \<Longrightarrow> t \<noteq> []"
  by (auto simp: start_up_def dest: load_or_create_token_nonempty split: initialized.splits prod.splits sum.splits)

lemma start_up_database:
  "start_up julian disk generated s db f = (Inr t, d, f') \<Longrightarrow> initialize_database julian db = Ready d"
  by (auto simp: start_up_def split: initialized.splits prod.splits sum.splits)

section \<open>The public routes\<close>

definition build_agent_card :: "string \<Rightarrow> dict" where
  "build_agent_card public_url =
     [(''name'', JStr ''Agent Comms Hub''),
      (''description'', JStr ''Coordinates pull-based implementer and reviewer workers.''),
      (''url'', JStr (public_url @ ''/a2a'')),
      (''version'', JStr ''0.1.0''),
      (''capabilities'', JObj [(''streaming'', JBool True)]),
      (''default_input_modes'', strs [''text/plain'', ''application/json'']),
      (''default_output_modes'', strs [''text/plain'', ''application/json'']),
      (''skills'', JList [JObj [(''id'', JStr ''worker-coordination''), (''name'', JStr ''Worker coordination''),
         (''description'', JStr ''Registers workers and coordinates assignments, questions, progress, and results.''),
         (''tags'', strs [''coordination'', ''software-development'', ''pull-model''])]]),
      (''security_schemes'', JObj [(''bearerAuth'', JObj [(''scheme'', JStr ''bearer''), (''bearer_format'', JStr ''opaque''),
         (''description'', JStr ''Pre-shared token supplied in the Authorization header.'')])]),
      (''security'', JList [JObj [(''bearerAuth'', JList [])]])]"

text \<open>The worker's requests carry the token the hub compares with.\<close>

definition worker_headers :: "worker_settings \<Rightarrow> (string \<times> string) list" where
  "worker_headers s = (''Authorization'', ''Bearer '' @ ws_token s) #
     (if list_all (\<lambda>c. of_char c < (128 :: nat)) (ws_agent_name s) then [(''X-Hub-Agent'', ws_agent_name s)] else [])"

lemma worker_authorized:
  assumes "strip (ws_token s) = t" and "t \<noteq> []"
  shows "require_bearer (Some t) (map_of (worker_headers s) ''Authorization'') = Inr ()"
proof -
  have "partition_at (CHR '' '') (''Bearer '' @ ws_token s) = (''Bearer'', ws_token s)"
    by (simp add: partition_at_def)
  moreover have "lower ''Bearer'' = ''bearer''" by code_simp
  ultimately show ?thesis using assms by (simp add: require_bearer_def worker_headers_def token_matches_def)
qed

section \<open>The two transports\<close>

text \<open>
  The loop that waits for the HTTP server: each look at it says whether it has started and whether its
  task is done (\<open>Some None\<close> returned, \<open>Some (Some e)\<close> raised \<open>e\<close>). No look left: still waiting.
\<close>

fun await_started :: "(bool \<times> string option option) list \<Rightarrow> (string + unit) option" where
  "await_started [] = None"
| "await_started ((started, done) # looks) =
     (if started then Some (Inr ()) else (case done of
        Some (Some err) \<Rightarrow> Some (Inl err)
      | Some None \<Rightarrow> Some (Inl ''HTTP server stopped before startup'')
      | None \<Rightarrow> await_started looks))"

text \<open>Which task ends first, each with the exception it raised or what it returned.\<close>

datatype first_end =
    Http_end "string option"
  | Mcp_end "string + bool"
  | Both_end "string option" "string + bool" bool

datatype hub_exit = Served bool | Raised_exit string | Forced_exit

text \<open>
  What the first \<^verbatim>\<open>await\<close>s raise; in \<open>Both_end\<close> the flag says whether the set of done tasks yields the
  HTTP task first.
\<close>

definition first_failure :: "first_end \<Rightarrow> string option" where
  "first_failure x = (case x of
     Http_end h \<Rightarrow> h
   | Mcp_end m \<Rightarrow> (case m of Inl err \<Rightarrow> Some err | Inr _ \<Rightarrow> None)
   | Both_end h m http_first \<Rightarrow>
       (let mf = (case m of Inl err \<Rightarrow> Some err | Inr _ \<Rightarrow> None)
        in if http_first then (if h \<noteq> None then h else mf) else (if mf \<noteq> None then mf else h)))"

definition uninitialized_eof :: "first_end \<Rightarrow> bool" where
  "uninitialized_eof x = (case x of Mcp_end (Inr False) \<Rightarrow> True | Both_end h (Inr False) b \<Rightarrow> True | _ \<Rightarrow> False)"

definition mcp_over :: "first_end \<Rightarrow> bool" where
  "mcp_over x = (case x of Http_end h \<Rightarrow> False | _ \<Rightarrow> True)"

text \<open>
  \<^verbatim>\<open>run_hub\<close>: \<open>closing\<close> is what the HTTP task raises, if anything, when it is told to exit, and
  \<open>mcp_stops\<close> whether a cancelled MCP task ends within \<^verbatim>\<open>MCP_SHUTDOWN_TIMEOUT_S\<close>.
\<close>

definition run_hub ::
  "(bool \<times> string option option) list \<Rightarrow> first_end \<Rightarrow> string option \<Rightarrow> bool \<Rightarrow> hub_exit option" where
  "run_hub looks first closing mcp_stops = (case await_started looks of
     None \<Rightarrow> None
   | Some (Inl err) \<Rightarrow> Some (Raised_exit err)
   | Some (Inr _) \<Rightarrow> Some (
       let http_failure = (case first of Mcp_end m \<Rightarrow> closing | Http_end h \<Rightarrow> h | Both_end h m b \<Rightarrow> h) in
       if \<not> mcp_over first \<and> \<not> mcp_stops then Forced_exit
       else (case first_failure first of
           Some err \<Rightarrow> Raised_exit err
         | None \<Rightarrow> (case http_failure of
             Some err \<Rightarrow> Raised_exit err
           | None \<Rightarrow> Served (\<not> uninitialized_eof first)))))"

text \<open>\<^verbatim>\<open>main\<close>: the exit status of the process.\<close>

definition exit_status :: "hub_exit \<Rightarrow> nat" where
  "exit_status x = (case x of Served True \<Rightarrow> 0 | _ \<Rightarrow> 1)"

text \<open>Status 0 means a clean end: neither transport raised, and a client that left had initialized.\<close>

lemma clean_exit:
  assumes "run_hub looks first closing mcp_stops = Some x" and "exit_status x = 0"
  shows "await_started looks = Some (Inr ()) \<and> first_failure first = None \<and> \<not> uninitialized_eof first \<and>
    (mcp_over first \<or> mcp_stops)"
  using assms
  by (auto simp: run_hub_def exit_status_def Let_def split: option.splits sum.splits if_splits bool.splits hub_exit.splits)

text \<open>A transport that ends takes the other one down: the run has an outcome whatever ends first.\<close>

lemma run_hub_ends: "await_started looks \<noteq> None \<Longrightarrow> run_hub looks first closing mcp_stops \<noteq> None"
  by (auto simp: run_hub_def split: option.splits sum.splits)

text \<open>\<^verbatim>\<open>capture_signals\<close>: (should exit, force exit) after a signal.\<close>

definition on_signal :: "bool \<Rightarrow> bool \<times> bool \<Rightarrow> bool \<times> bool" where
  "on_signal interrupt st = (case st of (should_exit, force_exit) \<Rightarrow> (True, force_exit \<or> (should_exit \<and> interrupt)))"

text \<open>One signal asks for the shutdown; only a later interrupt forces it.\<close>

lemma forced_by_second_interrupt:
  "snd (foldl (\<lambda>st i. on_signal i st) (False, False) interrupts) \<longleftrightarrow> True \<in> set (drop 1 interrupts)"
proof -
  have "foldl (\<lambda>st i. on_signal i st) (True, f) xs = (True, f \<or> True \<in> set xs)" for f xs
    by (induction xs arbitrary: f) (auto simp: on_signal_def)
  then show ?thesis by (cases interrupts) (simp_all add: on_signal_def)
qed

end
