(* ===== verification/WorkerTools.thy ===== *)
theory WorkerTools
  imports WorkerClient
begin

text \<open>
  \<^verbatim>\<open>telemetry.py\<close> and \<^verbatim>\<open>tools.py\<close> of the worker: the lines of the run log, and how a tool call is
  wrapped in a start and a finish line. A line is the object it holds; \<open>to_json\<close> is
  \<^verbatim>\<open>pydantic_core.to_json\<close> with its indent, the clock readings and call ids are arguments.
\<close>

section \<open>The log\<close>

record telemetry_log =
  tl_path :: "string option"
  tl_agent :: string
  tl_instance :: string
  tl_session :: string

definition emit :: "telemetry_log \<Rightarrow> string \<Rightarrow> bool \<Rightarrow> string \<Rightarrow> dict \<Rightarrow> dict list \<Rightarrow> dict list" where
  "emit lg stamp write_fails event extra lines =
     (if tl_path lg = None \<or> write_fails then lines
      else lines @ [dict_merge [(''timestamp'', JStr stamp), (''event'', JStr event), (''agent'', JStr (tl_agent lg)),
        (''worker_instance_id'', JStr (tl_instance lg)), (''session_id'', JStr (tl_session lg))] extra])"

text \<open>\<^verbatim>\<open>__init__\<close>: without its directory the log is off.\<close>

definition open_log ::
  "string option \<Rightarrow> bool \<Rightarrow> string \<Rightarrow> string \<Rightarrow> string \<Rightarrow> string \<Rightarrow> bool \<Rightarrow> dict \<Rightarrow> telemetry_log \<times> dict list" where
  "open_log path mkdir_fails agent inst session stamp write_fails session_fields =
     (let lg = \<lparr>tl_path = path, tl_agent = agent, tl_instance = inst, tl_session = session\<rparr>
      in if path = None then (lg, [])
         else if mkdir_fails then (lg\<lparr>tl_path := None\<rparr>, [])
         else (lg, emit lg stamp write_fails ''session_started'' session_fields []))"

definition start_tool ::
  "telemetry_log \<Rightarrow> string \<Rightarrow> bool \<Rightarrow> string \<Rightarrow> string \<Rightarrow> string option \<Rightarrow> dict list \<Rightarrow> dict list" where
  "start_tool lg stamp write_fails call_id tool task_id lines =
     emit lg stamp write_fails ''tool_call''
       ([(''phase'', JStr ''start''), (''tool'', JStr tool), (''call_id'', JStr call_id)] @
        (case task_id of None \<Rightarrow> [] | Some t \<Rightarrow> [(''task_id'', JStr (py_take 128 t))])) lines"

text \<open>How a call ended: with a value, or with an exception of a type and a text.\<close>

datatype tool_end = Returned json | Threw string string

definition tool_outcome :: "(rat \<Rightarrow> string) \<Rightarrow> json \<Rightarrow> string" where
  "tool_outcome fr result = (case result of
     JObj d \<Rightarrow>
       (case find (\<lambda>m. is_true (dict_get m d)) [''timeout'', ''release'', ''task_ended'', ''ok''] of
          Some m \<Rightarrow> m
        | None \<Rightarrow>
            if truthy_opt (dict_get ''task_id'' d) \<and> truthy_opt (dict_get ''role'' d) then ''assignment''
            else if dict_has ''reply'' d then ''reply''
            else if truthy_opt (dict_get ''status'' d) then py_str fr (dict_get ''status'' d)
            else ''success'')
   | _ \<Rightarrow> ''success'')"

definition mcp_result_bytes :: "(nat option \<Rightarrow> json \<Rightarrow> string) \<Rightarrow> json \<Rightarrow> nat" where
  "mcp_result_bytes to_json result = (case result of JStr s \<Rightarrow> length s | _ \<Rightarrow> length (to_json (Some 2) result))"

definition jnat :: "nat \<Rightarrow> json" where "jnat n = JInt (int n)"

definition http_fields :: "http_io \<Rightarrow> dict" where
  "http_fields io = [(''http_requests'', jnat (io_requests io)), (''http_request_bytes'', jnat (io_request_bytes io)),
     (''http_response_bytes'', jnat (io_response_bytes io)),
     (''http_status'', case io_status io of None \<Rightarrow> JNull | Some s \<Rightarrow> JInt s), (''http_retries'', jnat (io_retries io))]"

definition logged_task :: "string option \<Rightarrow> tool_end \<Rightarrow> string option" where
  "logged_task task_id x = (case task_id of
     Some t \<Rightarrow> Some (py_take 128 t)
   | None \<Rightarrow> (case x of
       Returned (JObj d) \<Rightarrow> (case dict_get ''task_id'' d of Some (JStr t) \<Rightarrow> Some (py_take 128 t) | _ \<Rightarrow> None)
     | _ \<Rightarrow> None))"

definition finish_tool ::
  "telemetry_log \<Rightarrow> (nat option \<Rightarrow> json \<Rightarrow> string) \<Rightarrow> (rat \<Rightarrow> string) \<Rightarrow> string \<Rightarrow> bool \<Rightarrow> string \<Rightarrow> string \<Rightarrow> rat
   \<Rightarrow> tool_end \<Rightarrow> string option \<Rightarrow> dict \<Rightarrow> http_io \<Rightarrow> dict list \<Rightarrow> dict list" where
  "finish_tool lg to_json fr stamp write_fails tool call_id duration x task_id arguments io lines =
     (if tl_path lg = None then lines
      else let common = [(''tool'', JStr tool), (''call_id'', JStr call_id), (''duration_s'', JFloat (round3 duration)),
                 (''mcp_request_bytes'', jnat (length (to_json None (JObj arguments))))] @ http_fields io @
                 (case logged_task task_id x of None \<Rightarrow> [] | Some t \<Rightarrow> [(''task_id'', JStr t)])
           in case x of
                Threw kind message \<Rightarrow> emit lg stamp write_fails ''tool_call''
                  ([(''phase'', JStr ''error''), (''error_type'', JStr kind), (''error'', JStr (py_take 500 message))] @ common) lines
              | Returned r \<Rightarrow> emit lg stamp write_fails ''tool_call''
                  ([(''phase'', JStr ''success''), (''outcome'', JStr (tool_outcome fr r)),
                    (''mcp_result_bytes'', jnat (mcp_result_bytes to_json r))] @ common) lines)"

section \<open>The tools\<close>

datatype worker_call =
    Check_in_tool "string list option" "string option"
  | Get_role_guide_tool string
  | Await_assignment_tool "py_float option"
  | Report_progress_tool string string
  | Ask_alice_tool string string "py_float option"
  | Submit_result_tool string task_result

definition hold_valid :: "py_float option \<Rightarrow> bool" where
  "hold_valid t = (case t of None \<Rightarrow> True | Some (Finite q) \<Rightarrow> 0 \<le> q \<and> q \<le> 300 | Some _ \<Rightarrow> False)"

definition worker_call_valid :: "worker_call \<Rightarrow> bool" where
  "worker_call_valid c = (case c of Await_assignment_tool t \<Rightarrow> hold_valid t | Ask_alice_tool tid q t \<Rightarrow> hold_valid t | _ \<Rightarrow> True)"

definition hold_argument :: "py_float option \<Rightarrow> json" where
  "hold_argument t = (case t of Some (Finite q) \<Rightarrow> JFloat q | _ \<Rightarrow> JNull)"

text \<open>The name, the arguments and the task a call is logged with.\<close>

definition tool_name :: "worker_call \<Rightarrow> string" where
  "tool_name c = (case c of Check_in_tool a b \<Rightarrow> ''check_in'' | Get_role_guide_tool r \<Rightarrow> ''get_role_guide''
     | Await_assignment_tool t \<Rightarrow> ''await_assignment'' | Report_progress_tool t n \<Rightarrow> ''report_progress''
     | Ask_alice_tool t q w \<Rightarrow> ''ask_alice'' | Submit_result_tool t r \<Rightarrow> ''submit_result'')"

definition tool_arguments :: "worker_call \<Rightarrow> dict" where
  "tool_arguments c = (case c of
     Check_in_tool caps m \<Rightarrow> [(''capabilities'', case caps of None \<Rightarrow> JNull | Some xs \<Rightarrow> strs xs), (''model'', jopt m)]
   | Get_role_guide_tool r \<Rightarrow> [(''role'', JStr r)]
   | Await_assignment_tool t \<Rightarrow> [(''timeout_s'', hold_argument t)]
   | Report_progress_tool tid n \<Rightarrow> [(''task_id'', JStr tid), (''note'', JStr n)]
   | Ask_alice_tool tid q t \<Rightarrow> [(''task_id'', JStr tid), (''question'', JStr q), (''timeout_s'', hold_argument t)]
   | Submit_result_tool tid r \<Rightarrow> [(''task_id'', JStr tid), (''result'', JObj (result_dump r))])"

definition tool_task :: "worker_call \<Rightarrow> string option" where
  "tool_task c = (case c of Report_progress_tool tid n \<Rightarrow> Some tid | Ask_alice_tool tid q t \<Rightarrow> Some tid
     | Submit_result_tool tid r \<Rightarrow> Some tid | _ \<Rightarrow> None)"

text \<open>What each tool awaits: the operation of the client with the tool's arguments; \<open>fetch\<close> is the guide request.\<close>

definition run_worker ::
  "(rat \<Rightarrow> string) \<Rightarrow> worker_settings \<Rightarrow> (nat \<Rightarrow> string) \<Rightarrow> sender \<Rightarrow> (string \<Rightarrow> attempt) \<Rightarrow> worker_client \<Rightarrow> worker_call
   \<Rightarrow> json client_call" where
  "run_worker fr s ids send fetch st c = (case c of
     Check_in_tool caps m \<Rightarrow> worker_check_in s ids send st caps m None
   | Get_role_guide_tool r \<Rightarrow> ((case get_role_guide fetch r of Inl err \<Rightarrow> Inl err | Inr t \<Rightarrow> Inr (JStr t)), st)
   | Await_assignment_tool t \<Rightarrow> await_assignment fr s ids send st t
   | Report_progress_tool tid n \<Rightarrow> report_progress ids send st tid n None
   | Ask_alice_tool tid q t \<Rightarrow> ask_alice s ids send st tid q t
   | Submit_result_tool tid r \<Rightarrow> worker_submit_result fr ids send st tid (Typed_body r) None None None)"

text \<open>
  \<^verbatim>\<open>invoke\<close>: the start line, the call with fresh counters, and one finish line. \<open>run\<close> is the awaited
  operation of the client; a call refused by its declared bounds is not run.
\<close>

definition invoke ::
  "telemetry_log \<Rightarrow> (nat option \<Rightarrow> json \<Rightarrow> string) \<Rightarrow> (rat \<Rightarrow> string) \<Rightarrow> string \<Rightarrow> string \<Rightarrow> bool \<Rightarrow> bool \<Rightarrow> string
   \<Rightarrow> rat \<Rightarrow> worker_call \<Rightarrow> (http_io \<Rightarrow> tool_end \<times> http_io) \<Rightarrow> dict list \<Rightarrow> tool_end \<times> dict list" where
  "invoke lg to_json fr stamp0 stamp1 fails0 fails1 call_id duration c run lines =
     (let lines = start_tool lg stamp0 fails0 call_id (tool_name c) (tool_task c) lines;
          (x, io) = run new_io
      in (x, finish_tool lg to_json fr stamp1 fails1 (tool_name c) call_id duration x (tool_task c) (tool_arguments c) io lines))"

text \<open>The answer of a tool is what its call gave, whatever becomes of the log, and a log that works gets two lines.\<close>

lemma invoke_transparent: "fst (invoke lg to_json fr s0 s1 f0 f1 i dur c run lines) = fst (run new_io)"
  by (simp add: invoke_def Let_def split: prod.splits)

lemma invoke_lines:
  assumes "tl_path lg \<noteq> None"
  obtains a b where "snd (invoke lg to_json fr s0 s1 False False i dur c run lines) = lines @ [a, b]"
    "dict_get ''call_id'' a = Some (JStr i)" "dict_get ''call_id'' b = Some (JStr i)"
    "dict_get ''phase'' a = Some (JStr ''start'')" "dict_get ''phase'' b \<in> {Some (JStr ''success''), Some (JStr ''error'')}"
proof -
  obtain x io where r: "run new_io = (x, io)" by (cases "run new_io")
  show thesis
  proof (cases x)
    case (Returned v)
    show thesis using assms
      by (intro that) (auto simp: invoke_def r Returned start_tool_def finish_tool_def emit_def Let_def http_fields_def
          split: option.splits)
  next
    case (Threw k m)
    show thesis using assms
      by (intro that) (auto simp: invoke_def r Threw start_tool_def finish_tool_def emit_def Let_def http_fields_def
          split: option.splits)
  qed
qed

section \<open>The heartbeat timer\<close>

text \<open>
  One pass of \<^verbatim>\<open>_heartbeat_loop\<close> after its sleep: nothing before the first check-in, else a heartbeat and
  a line for the log. \<open>shown\<close> is the type and the text of an exception.
\<close>

definition heartbeat_tick ::
  "telemetry_log \<Rightarrow> (client_error \<Rightarrow> string \<times> string) \<Rightarrow> string \<Rightarrow> bool \<Rightarrow> worker_settings \<Rightarrow> (nat \<Rightarrow> string) \<Rightarrow> sender
   \<Rightarrow> worker_client \<Rightarrow> dict list \<Rightarrow> dict list" where
  "heartbeat_tick lg shown stamp write_fails s ids send st lines =
     (let common = [(''current_task_id'', jopt (wc_task st)), (''hub_url'', JStr (ws_hub_url s))]
      in if wc_context st = None then lines
         else case worker_heartbeat s ids send st of
             Inr accepted \<Rightarrow> emit lg stamp write_fails ''heartbeat''
               ([(''phase'', JStr ''success''), (''accepted'', JBool accepted)] @ common) lines
           | Inl err \<Rightarrow> emit lg stamp write_fails ''heartbeat''
               ([(''phase'', JStr ''error''), (''error_type'', JStr (fst (shown err))),
                 (''error'', JStr (py_take 500 (snd (shown err))))] @ common) lines)"

text \<open>The loop for the passes it makes before it is cancelled; the client may change between two of them.\<close>

record heartbeat_pass =
  hp_stamp :: string
  hp_ids :: "nat \<Rightarrow> string"
  hp_send :: sender
  hp_client :: worker_client

definition heartbeat_loop ::
  "telemetry_log \<Rightarrow> (client_error \<Rightarrow> string \<times> string) \<Rightarrow> worker_settings \<Rightarrow> heartbeat_pass list \<Rightarrow> dict list \<Rightarrow> dict list" where
  "heartbeat_loop lg shown s ps lines =
     fold (\<lambda>p. heartbeat_tick lg shown (hp_stamp p) False s (hp_ids p) (hp_send p) (hp_client p)) ps lines"

text \<open>A failed heartbeat ends neither the loop nor the log: every pass of a checked-in worker leaves a line.\<close>

lemma heartbeat_loop_goes_on:
  assumes "tl_path lg \<noteq> None"
  shows "length (heartbeat_loop lg shown s ps lines) = length lines + length (filter (\<lambda>p. wc_context (hp_client p) \<noteq> None) ps)"
  using assms
  by (induction ps arbitrary: lines) (auto simp: heartbeat_loop_def heartbeat_tick_def emit_def Let_def split: sum.splits)

text \<open>\<^verbatim>\<open>close\<close> ends the session in the log.\<close>

definition close_log :: "telemetry_log \<Rightarrow> string \<Rightarrow> bool \<Rightarrow> dict list \<Rightarrow> dict list" where
  "close_log lg stamp write_fails lines = emit lg stamp write_fails ''session_stopped'' [] lines"

end
