(* ===== verification/Intervals.thy ===== *)
theory Intervals
  imports MergeGate "HOL-Library.Product_Lexorder"
begin

text \<open>
  The interval arithmetic of \<^verbatim>\<open>hub-report.py\<close> (\<^verbatim>\<open>union\<close>, \<^verbatim>\<open>clip\<close>, \<^verbatim>\<open>subtract\<close>, \<^verbatim>\<open>span\<close>, \<^verbatim>\<open>within\<close>) over moments, and
  what it means: an interval stands for the half-open set of its moments, the operations for union,
  intersection and difference of those sets, and a span for their size.
\<close>

type_synonym interval = "moment \<times> moment"

section \<open>The operations\<close>

text \<open>One turn of the loop of \<^verbatim>\<open>union\<close>; \<^verbatim>\<open>merged\<close> is held in reverse.\<close>

definition merge_next :: "interval \<Rightarrow> interval list \<Rightarrow> interval list" where
  "merge_next i merged = (case merged of
     [] \<Rightarrow> [i]
   | (a, b) # rest \<Rightarrow> if fst i \<le> b then (a, max b (snd i)) # rest else i # merged)"

definition union_of :: "interval list \<Rightarrow> interval list" where
  "union_of intervals = rev (fold merge_next (sort (filter (\<lambda>i. fst i < snd i) intervals)) [])"

definition clip_to :: "interval list \<Rightarrow> moment \<Rightarrow> moment \<Rightarrow> interval list" where
  "clip_to intervals lo hi = union_of (map (\<lambda>(s, e). (max s lo, min e hi)) intervals)"

definition cut_piece :: "interval \<Rightarrow> interval \<Rightarrow> interval list" where
  "cut_piece r p = (case (r, p) of ((r_start, r_end), (p_start, p_end)) \<Rightarrow>
     if r_end \<le> p_start \<or> r_start \<ge> p_end then [(p_start, p_end)]
     else (if r_start > p_start then [(p_start, r_start)] else []) @ (if r_end < p_end then [(r_end, p_end)] else []))"

definition subtract_from :: "interval list \<Rightarrow> interval list \<Rightarrow> interval list" where
  "subtract_from intervals removed =
     union_of (concat (map (\<lambda>i. fold (\<lambda>r pieces. concat (map (cut_piece r) pieces)) removed [i]) intervals))"

definition total_of :: "interval list \<Rightarrow> int" where
  "total_of intervals = (\<Sum>(s, e)\<leftarrow>intervals. e - s)"

definition span_s :: "interval list \<Rightarrow> rat" where
  "span_s intervals = round3 (of_int (total_of intervals) / 1000000)"

definition is_within :: "moment \<Rightarrow> interval list \<Rightarrow> bool" where
  "is_within m intervals = (\<exists>i\<in>set intervals. fst i \<le> m \<and> m \<le> snd i)"

section \<open>What they mean\<close>

definition moments_of :: "interval \<Rightarrow> moment set" where
  "moments_of i = {fst i..<snd i}"

definition covered :: "interval list \<Rightarrow> moment set" where
  "covered xs = (\<Union>i\<in>set xs. moments_of i)"

text \<open>Not empty, in order, and apart.\<close>

definition separated :: "interval list \<Rightarrow> bool" where
  "separated xs = (sorted_wrt (\<lambda>i j. snd i < fst j) xs \<and> (\<forall>i\<in>set xs. fst i < snd i))"

lemma covered_simps [simp]:
  "covered [] = {}" "covered (i # xs) = moments_of i \<union> covered xs" "covered (xs @ ys) = covered xs \<union> covered ys"
  "covered (rev xs) = covered xs" "covered (concat xss) = (\<Union>xs\<in>set xss. covered xs)"
  by (auto simp: covered_def)

lemma finite_covered [simp]: "finite (covered xs)"
  by (simp add: covered_def moments_of_def)

lemma covered_filter: "covered (filter (\<lambda>i. fst i < snd i) xs) = covered xs"
  by (induction xs) (auto simp: moments_of_def)

lemma covered_sort: "covered (sort xs) = covered xs"
  by (simp add: covered_def)

text \<open>The loop of \<^verbatim>\<open>union\<close> over sorted intervals.\<close>

definition merging :: "moment \<Rightarrow> interval list \<Rightarrow> bool" where
  "merging lo merged = (separated (rev merged) \<and> (\<forall>i\<in>set merged. fst i \<le> lo))"

lemma merge_next_covered:
  assumes "merging lo merged" and "lo \<le> fst i" "fst i < snd i"
  shows "covered (merge_next i merged) = moments_of i \<union> covered merged"
proof (cases merged)
  case (Cons p rest)
  have "fst p \<le> fst i" "fst p < snd p" using assms(1,2) Cons by (auto simp: merging_def separated_def)
  then show ?thesis using assms(3) by (cases p) (auto simp: Cons merge_next_def moments_of_def)
qed (simp add: merge_next_def)

lemma merge_next_merging:
  assumes "merging lo merged" and "lo \<le> fst i" "fst i < snd i"
  shows "merging (fst i) (merge_next i merged)"
proof (cases merged)
  case Nil
  then show ?thesis using assms(3) by (simp add: merge_next_def merging_def separated_def)
next
  case (Cons p rest)
  show ?thesis
  proof (cases "fst i \<le> snd p")
    case True
    then show ?thesis using assms unfolding Cons
      by (cases p) (fastforce simp: merge_next_def merging_def separated_def sorted_wrt_append)
  next
    case False
    then have apart: "snd j < fst i" if "j \<in> set merged" for j
      using that assms(1) unfolding Cons merging_def separated_def by (fastforce simp: sorted_wrt_append)
    have "merge_next i merged = i # merged" using False by (cases p) (simp add: merge_next_def Cons)
    then show ?thesis using assms apart
      by (fastforce simp: merging_def separated_def sorted_wrt_append)
  qed
qed

lemma fold_merge_next:
  assumes "sorted xs" and "\<forall>i\<in>set xs. fst i < snd i \<and> lo \<le> fst i" and "merging lo merged"
  shows "covered (fold merge_next xs merged) = covered xs \<union> covered merged \<and> separated (rev (fold merge_next xs merged))"
  using assms
proof (induction xs arbitrary: lo merged)
  case Nil
  then show ?case by (simp add: merging_def)
next
  case (Cons i xs)
  have i: "lo \<le> fst i" "fst i < snd i" using Cons.prems(2) by auto
  have later: "\<forall>j\<in>set xs. fst j < snd j \<and> fst i \<le> fst j"
    using Cons.prems(1,2) by (auto simp: less_eq_prod_def)
  show ?case
    using Cons.IH [OF _ later merge_next_merging [OF Cons.prems(3) i]] Cons.prems(1)
      merge_next_covered [OF Cons.prems(3) i] by auto
qed

lemma union_of_meaning: "covered (union_of xs) = covered xs \<and> separated (union_of xs)"
proof -
  let ?s = "sort (filter (\<lambda>i. fst i < snd i) xs)"
  define lo where "lo = (if ?s = [] then 0 else fst (hd ?s))"
  have "\<forall>i\<in>set ?s. fst i < snd i \<and> lo \<le> fst i"
  proof
    fix i assume i: "i \<in> set ?s"
    then obtain h t where s: "?s = h # t" by (cases ?s) auto
    have "sorted (h # t)" unfolding s [symmetric] by simp
    then have "h \<le> i" using i unfolding s by auto
    then have "fst h \<le> fst i" by (auto simp: less_eq_prod_def)
    moreover have "fst i < snd i" using i by simp
    ultimately show "fst i < snd i \<and> lo \<le> fst i" unfolding lo_def s by simp
  qed
  moreover have "merging lo []" by (simp add: merging_def separated_def)
  ultimately have "covered (fold merge_next ?s []) = covered ?s \<union> covered [] \<and> separated (rev (fold merge_next ?s []))"
    by (intro fold_merge_next) simp_all
  moreover have "covered ?s = covered xs" by (simp only: covered_sort covered_filter)
  ultimately show ?thesis unfolding union_of_def by (simp only: covered_simps Un_empty_right)
qed

lemmas covered_union = union_of_meaning [THEN conjunct1]
lemmas separated_union = union_of_meaning [THEN conjunct2]

lemma covered_clip: "covered (clip_to xs lo hi) = covered xs \<inter> {lo..<hi}"
  unfolding clip_to_def covered_union by (auto simp: covered_def moments_of_def)

lemma covered_cut_piece: "fst p < snd p \<Longrightarrow> covered (cut_piece r p) = moments_of p - moments_of r"
  by (cases r; cases p) (auto simp: cut_piece_def moments_of_def)

lemma cut_piece_proper: "q \<in> set (cut_piece r p) \<Longrightarrow> fst p < snd p \<Longrightarrow> fst q < snd q"
  by (cases r; cases p) (auto simp: cut_piece_def split: if_splits)

lemma covered_cut:
  assumes "\<forall>p\<in>set ps. fst p < snd p"
  shows "covered (fold (\<lambda>r pieces. concat (map (cut_piece r) pieces)) rs ps) = covered ps - covered rs"
  using assms
proof (induction rs arbitrary: ps)
  case (Cons r rs)
  let ?ps = "concat (map (cut_piece r) ps)"
  have "covered ?ps = covered ps - moments_of r"
    using Cons.prems by (induction ps) (auto simp: covered_cut_piece)
  moreover have "\<forall>q\<in>set ?ps. fst q < snd q"
  proof
    fix q assume "q \<in> set ?ps"
    then obtain p where "p \<in> set ps" "q \<in> set (cut_piece r p)" by auto
    then show "fst q < snd q" using Cons.prems cut_piece_proper by blast
  qed
  ultimately show ?case using Cons.IH [of ?ps] by auto
qed simp

lemma covered_subtract:
  assumes "\<forall>i\<in>set xs. fst i < snd i"
  shows "covered (subtract_from xs rs) = covered xs - covered rs"
  using assms
proof (induction xs)
  case (Cons i xs)
  then show ?case using covered_cut [of "[i]" rs] by (auto simp: subtract_from_def covered_union)
qed (simp add: subtract_from_def covered_union)

section \<open>Sizes\<close>

lemma total_of_simps [simp]: "total_of [] = 0" "total_of (i # xs) = snd i - fst i + total_of xs"
  by (simp_all add: total_of_def split_def)

lemma separated_Cons: "separated (i # xs) \<longleftrightarrow> separated xs \<and> fst i < snd i \<and> (\<forall>j\<in>set xs. snd i < fst j)"
  by (auto simp: separated_def)

text \<open>The total of separated intervals is the number of moments they cover.\<close>

lemma total_of_separated: "separated xs \<Longrightarrow> total_of xs = int (card (covered xs))"
proof (induction xs)
  case (Cons i xs)
  then have "moments_of i \<inter> covered xs = {}"
    by (fastforce simp: separated_Cons covered_def moments_of_def)
  then have "card (moments_of i \<union> covered xs) = card (moments_of i) + card (covered xs)"
    by (simp add: card_Un_disjoint moments_of_def)
  then show ?case using Cons by (simp add: separated_Cons moments_of_def)
qed simp

lemma separated_clip: "separated (clip_to xs lo hi)"
  by (simp add: clip_to_def separated_union)

lemma separated_subtract: "separated (subtract_from xs rs)"
  by (simp add: subtract_from_def separated_union)

lemma separated_proper: "separated xs \<Longrightarrow> \<forall>i\<in>set xs. fst i < snd i"
  by (simp add: separated_def)

text \<open>Two disjoint parts of a window take no more than the window, and all of it if they cover it.\<close>

lemma total_of_parts:
  assumes "separated xs" "separated ys" "lo \<le> hi" and "covered xs \<inter> covered ys = {}"
    and "covered xs \<union> covered ys \<subseteq> {lo..<hi}"
  shows "0 \<le> total_of xs \<and> 0 \<le> total_of ys \<and> total_of xs + total_of ys \<le> total_of [(lo, hi)]"
    and "covered xs \<union> covered ys = {lo..<hi} \<Longrightarrow> total_of xs + total_of ys = total_of [(lo, hi)]"
proof -
  have c: "card (covered xs \<union> covered ys) = card (covered xs) + card (covered ys)"
    using assms(4) by (simp add: card_Un_disjoint)
  have "card (covered xs \<union> covered ys) \<le> card {lo..<hi}" using assms(5) by (intro card_mono) simp_all
  then show "0 \<le> total_of xs \<and> 0 \<le> total_of ys \<and> total_of xs + total_of ys \<le> total_of [(lo, hi)]"
    using assms(1,2,3) c by (simp add: total_of_separated)
  show "total_of xs + total_of ys = total_of [(lo, hi)]" if "covered xs \<union> covered ys = {lo..<hi}"
    using assms(1,2,3) c unfolding that by (simp add: total_of_separated)
qed

end
