(* ===== verification/ReportRead.thy ===== *)
theory ReportRead
  imports Intervals Accounting Config "HOL-Library.AList"
begin

text \<open>
  The reading half of \<^verbatim>\<open>hub-report.py\<close>: the validated labels, the JSON objects in free text, the calls of
  the worker telemetry and of \<^verbatim>\<open>call_log\<close>. A Python dict in insertion order is an association list. Of
  the snapshot the tables are those of \<open>hub_db\<close>, with the decoded columns.
\<close>

section \<open>What the script takes from Python's library\<close>

text \<open>
  \<open>read_time\<close> is \<^verbatim>\<open>datetime.fromisoformat\<close> of a text with \<^verbatim>\<open>Z\<close> read as \<^verbatim>\<open>+00:00\<close> and UTC where there is no
  offset; \<open>is_other\<close> says of a character (its bytes) whether its Unicode category starts with \<^verbatim>\<open>C\<close>;
  \<open>float_text\<close> is \<^verbatim>\<open>repr\<close> of a float.
\<close>

record report_host =
  read_time :: "string \<Rightarrow> moment option"
  is_other :: "string \<Rightarrow> bool"
  float_text :: "rat \<Rightarrow> string"

section \<open>Small helpers\<close>

definition HOLD_TOOLS :: "string list" where "HOLD_TOOLS = [''await_assignment'', ''wait_for_event'']"

definition EMPTY_OUTCOMES :: "string list" where "EMPTY_OUTCOMES = [''timeout'', ''null_event'']"

definition parse_ts :: "report_host \<Rightarrow> json option \<Rightarrow> moment option" where
  "parse_ts h v = (case v of Some (JStr s) \<Rightarrow> if s = [] then None else read_time h s | _ \<Rightarrow> None)"

definition seconds_between :: "moment option \<Rightarrow> moment option \<Rightarrow> rat option" where
  "seconds_between start fin = (case (start, fin) of
     (Some a, Some b) \<Rightarrow> Some (round3 (max 0 (of_int (b - a) / 1000000))) | _ \<Rightarrow> None)"

text \<open>The characters of a text, each with its continuation bytes.\<close>

fun characters :: "string \<Rightarrow> string list" where
  "characters [] = []"
| "characters (c # s) = (case characters s of
     w # ws \<Rightarrow> if continues (hd w) then (c # w) # ws else [c] # w # ws
   | [] \<Rightarrow> [[c]])"

definition split_words :: "string \<Rightarrow> string list" where
  "split_words s = filter (\<lambda>w. w \<noteq> []) (split_on (CHR '' '') (map (\<lambda>c. if is_space c then CHR '' '' else c) s))"

definition label_text :: "report_host \<Rightarrow> nat \<Rightarrow> string \<Rightarrow> string" where
  "label_text h limit value =
     (let s = join '' '' (split_words (concat (map (\<lambda>ch. if is_other h ch then '' '' else ch) (characters value))))
      in if length (characters s) \<le> limit then s else py_take (limit - 3) s @ ''...'')"

definition LABEL_LIMIT :: nat where "LABEL_LIMIT = 120"

definition label_char :: "char \<Rightarrow> bool" where
  "label_char c = (is_alnum c \<or> c \<in> set ''_./:-'')"

definition label_ok :: "string \<Rightarrow> bool" where
  "label_ok s = (s \<noteq> [] \<and> length s \<le> 64 \<and> list_all label_char s)"

definition closed_text :: "string \<Rightarrow> string option" where
  "closed_text s = (if label_ok s then Some s else None)"

definition closed_label :: "json option \<Rightarrow> string option" where
  "closed_label v = (case v of Some (JStr s) \<Rightarrow> closed_text s | _ \<Rightarrow> None)"

definition sha_text :: "string \<Rightarrow> string option" where
  "sha_text s = (if sha_fullmatch s then Some (lower s) else None)"

definition sha_label :: "json option \<Rightarrow> string option" where
  "sha_label v = (case v of Some (JStr s) \<Rightarrow> sha_text s | _ \<Rightarrow> None)"

text \<open>\<^verbatim>\<open>PR_URL_RE\<close> of the report, which is wider than the one of the merge gate.\<close>

definition report_url_ok :: "string \<Rightarrow> bool" where
  "report_url_ok s = (case
     Option.bind (literal ''https://'' s) (\<lambda>s.
     Option.bind (span_part (\<lambda>c. is_alnum c \<or> c \<in> set ''.-'') (\<lambda>c. is_alnum c \<or> c \<in> set ''.-'') s) (\<lambda>(host, s).
     Option.bind (literal ''/'' s) (\<lambda>s.
     Option.bind (span_part (\<lambda>c. is_alnum c \<or> c = CHR ''-'') (\<lambda>c. is_alnum c \<or> c = CHR ''-'') s) (\<lambda>(owner, s).
     Option.bind (literal ''/'' s) (\<lambda>s.
     Option.bind (span_part (\<lambda>c. is_alnum c \<or> c \<in> set ''_.-'') (\<lambda>c. is_alnum c \<or> c \<in> set ''_.-'') s) (\<lambda>(repo, s).
     Option.bind (literal ''/pull/'' s) (\<lambda>s.
     span_part (\<lambda>c. is_digit c \<and> c \<noteq> CHR ''0'') is_digit s))))))) of
       Some (digits, rest) \<Rightarrow> rest = [] | None \<Rightarrow> False)"

definition pr_url_label :: "json option \<Rightarrow> string option" where
  "pr_url_label v = (case v of
     Some (JStr s) \<Rightarrow> (let u = rstrip_char (CHR ''/'') (strip s) in if report_url_ok u then Some u else None)
   | _ \<Rightarrow> None)"

definition json_object :: "string \<Rightarrow> dict option" where
  "json_object raw = (case loads raw of Some (JObj d) \<Rightarrow> Some d | _ \<Rightarrow> None)"

definition number_of :: "json option \<Rightarrow> int" where
  "number_of v = (case v of Some (JInt i) \<Rightarrow> i | _ \<Rightarrow> 0)"

definition count_of :: "json option \<Rightarrow> nat" where
  "count_of v = (case v of Some (JList xs) \<Rightarrow> length xs | _ \<Rightarrow> 0)"

text \<open>
  \<^verbatim>\<open>embedded_objects\<close>: try to read at each opening brace; what was read is left behind as a whole. A
  value read at a brace is an object. Each turn goes past a brace, so the length of the text is fuel
  enough.
\<close>

fun objects_in :: "nat \<Rightarrow> string \<Rightarrow> dict list" where
  "objects_in 0 s = []"
| "objects_in (Suc n) s = (case dropWhile (\<lambda>c. c \<noteq> CHR 0x7B) s of
     [] \<Rightarrow> []
   | c # r \<Rightarrow> (case read_value (2 * length (c # r) + 2) (c # r) of
         None \<Rightarrow> objects_in n r
       | Some (v, rest) \<Rightarrow> (case v of JObj d \<Rightarrow> [d] | _ \<Rightarrow> []) @ objects_in n rest))"

definition embedded_objects :: "string \<Rightarrow> dict list" where
  "embedded_objects s = objects_in (length s) s"

section \<open>Calls\<close>

record report_call =
  rc_tool :: string
  rc_outcome :: string
  rc_start :: "moment option"
  rc_end :: "moment option"
  rc_mcp_sent :: int
  rc_mcp_received :: int
  rc_content :: int
  rc_wire_sent :: int
  rc_wire_received :: int
  rc_retries :: int

record telemetry =
  tm_calls :: "(string \<times> report_call list) list"
  tm_heartbeats :: "(string \<times> nat) list"
  tm_assigned :: "(string \<times> moment) list"
  tm_released :: "(string \<times> moment) list"
  tm_skipped :: nat

type_synonym open_calls = "((string \<times> string) \<times> (string \<times> moment option)) list"

definition no_telemetry :: telemetry where
  "no_telemetry = \<lparr>tm_calls = [], tm_heartbeats = [], tm_assigned = [], tm_released = [], tm_skipped = 0\<rparr>"

definition calls_of :: "(string \<times> report_call list) list \<Rightarrow> string \<Rightarrow> report_call list" where
  "calls_of cs name = (case map_of cs name of None \<Rightarrow> [] | Some xs \<Rightarrow> xs)"

definition count_for :: "(string \<times> nat) list \<Rightarrow> string \<Rightarrow> nat" where
  "count_for ns name = (case map_of ns name of None \<Rightarrow> 0 | Some n \<Rightarrow> n)"

definition append_call :: "string \<Rightarrow> report_call \<Rightarrow> (string \<times> report_call list) list \<Rightarrow> (string \<times> report_call list) list" where
  "append_call name c cs = AList.update name (calls_of cs name @ [c]) cs"

definition count_one :: "string \<Rightarrow> (string \<times> nat) list \<Rightarrow> (string \<times> nat) list" where
  "count_one name ns = AList.update name (count_for ns name + 1) ns"

definition is_text :: "string \<Rightarrow> json option \<Rightarrow> bool" where
  "is_text s v = (v = Some (JStr s))"

definition or_text :: "string option \<Rightarrow> string \<Rightarrow> string" where
  "or_text v d = (case v of None \<Rightarrow> d | Some s \<Rightarrow> s)"

text \<open>The start of a finished call: its end less the duration, to the microsecond.\<close>

definition call_start :: "moment option \<Rightarrow> json option \<Rightarrow> moment option" where
  "call_start m duration = (case (m, Option.bind duration num_of) of
     (Some t, Some d) \<Rightarrow> Some (round_half_even (of_int t - d * 1000000)) | _ \<Rightarrow> m)"

definition finished_call :: "report_host \<Rightarrow> dict \<Rightarrow> string \<Rightarrow> report_call" where
  "finished_call h d tool =
     (let m = parse_ts h (dict_get ''timestamp'' d) in
      \<lparr>rc_tool = tool,
       rc_outcome = (if is_text ''error'' (dict_get ''phase'' d) then ''error''
         else or_text (closed_label (dict_get ''outcome'' d)) ''success''),
       rc_start = call_start m (dict_get ''duration_s'' d), rc_end = m,
       rc_mcp_sent = number_of (dict_get ''mcp_request_bytes'' d),
       rc_mcp_received = number_of (dict_get ''mcp_result_bytes'' d), rc_content = number_of (dict_get ''mcp_result_bytes'' d),
       rc_wire_sent = number_of (dict_get ''http_request_bytes'' d),
       rc_wire_received = number_of (dict_get ''http_response_bytes'' d),
       rc_retries = number_of (dict_get ''http_retries'' d)\<rparr>)"

text \<open>What a finished call tells beside itself: when a task was picked up, when an agent was released.\<close>

definition note_finished :: "report_call \<Rightarrow> json option \<Rightarrow> string \<Rightarrow> telemetry \<Rightarrow> telemetry" where
  "note_finished c task_id agent t =
     (let t = t\<lparr>tm_calls := append_call agent c (tm_calls t)\<rparr>;
          t = (case (task_id, rc_end c) of
            (Some (JStr tid), Some m) \<Rightarrow>
              if rc_outcome c = ''assignment'' \<and> map_of (tm_assigned t) tid = None
              then t\<lparr>tm_assigned := tm_assigned t @ [(tid, m)]\<rparr> else t
          | _ \<Rightarrow> t)
      in case rc_end c of
           Some m \<Rightarrow> if rc_outcome c = ''release'' then t\<lparr>tm_released := AList.update agent m (tm_released t)\<rparr> else t
         | None \<Rightarrow> t)"

text \<open>One line; an unreadable one that is not blank is counted.\<close>

definition telemetry_line :: "report_host \<Rightarrow> string \<Rightarrow> telemetry \<times> open_calls \<Rightarrow> telemetry \<times> open_calls" where
  "telemetry_line h line st = (case st of (t, waiting_calls) \<Rightarrow>
     (case json_object line of
        None \<Rightarrow> (if strip line = [] then st else (t\<lparr>tm_skipped := tm_skipped t + 1\<rparr>, waiting_calls))
      | Some d \<Rightarrow> (case closed_label (dict_get ''agent'' d) of
          None \<Rightarrow> (if strip line = [] then st else (t\<lparr>tm_skipped := tm_skipped t + 1\<rparr>, waiting_calls))
        | Some agent \<Rightarrow>
            if is_text ''heartbeat'' (dict_get ''event'' d) then
              (t\<lparr>tm_heartbeats := count_one agent (tm_heartbeats t)\<rparr>, waiting_calls)
            else if \<not> is_text ''tool_call'' (dict_get ''event'' d) then st
            else
              (let tool = or_text (closed_label (dict_get ''tool'' d)) ''unknown'';
                   call_id = (case dict_get ''call_id'' d of None \<Rightarrow> ''None'' | v \<Rightarrow> py_str (float_text h) v)
               in if is_text ''start'' (dict_get ''phase'' d)
                  then (t, AList.update (agent, call_id) (tool, parse_ts h (dict_get ''timestamp'' d)) waiting_calls)
                  else (note_finished (finished_call h d tool) (dict_get ''task_id'' d) agent t,
                        AList.delete (agent, call_id) waiting_calls)))))"

definition in_flight :: "string \<times> moment option \<Rightarrow> report_call" where
  "in_flight p = \<lparr>rc_tool = fst p, rc_outcome = ''in_flight'', rc_start = snd p, rc_end = None, rc_mcp_sent = 0,
     rc_mcp_received = 0, rc_content = 0, rc_wire_sent = 0, rc_wire_received = 0, rc_retries = 0\<rparr>"

text \<open>\<^verbatim>\<open>read_telemetry\<close> over the lines of all files in turn; a call without a finish is in flight.\<close>

definition read_telemetry :: "report_host \<Rightarrow> string list \<Rightarrow> telemetry" where
  "read_telemetry h all_lines = (case fold (telemetry_line h) all_lines (no_telemetry, []) of (t, waiting_calls) \<Rightarrow>
     t\<lparr>tm_calls := fold (\<lambda>((agent, i), p). append_call agent (in_flight p)) waiting_calls (tm_calls t)\<rparr>)"

text \<open>Files of the run directory by name, with whether they are regular files.\<close>

definition default_telemetry :: "(string \<times> bool) list \<Rightarrow> string list" where
  "default_telemetry run_dir = sort (map fst (filter (\<lambda>(name, regular). regular \<and>
     (startswith (rev name) (rev ''-telemetry.jsonl'') \<or> startswith (rev name) (rev ''.telemetry.jsonl''))) run_dir))"

definition manifest_workers :: "string option \<Rightarrow> string list" where
  "manifest_workers manifest = (case Option.bind manifest json_object of
     Some d \<Rightarrow> (case dict_get ''harnesses'' d of Some (JObj hs) \<Rightarrow> filter label_ok (map fst hs) | _ \<Rightarrow> [])
   | None \<Rightarrow> [])"

text \<open>\<^verbatim>\<open>call_log_calls\<close>: the calls by actor, and the heartbeats among them.\<close>

definition logged_call :: "call_record \<Rightarrow> report_call" where
  "logged_call r =
     (let mcp = (c_boundary r = Mcp_boundary) in
      \<lparr>rc_tool = or_text (closed_text (c_tool r)) ''unknown'', rc_outcome = or_text (closed_text (c_outcome r)) ''unknown'',
       rc_start = Some (parse_timestamp (c_started r)), rc_end = Some (parse_timestamp (c_finished r)),
       rc_mcp_sent = (if mcp then int (c_bytes_in r) else 0), rc_mcp_received = (if mcp then int (c_bytes_out r) else 0),
       rc_content = (if mcp then (case c_content_bytes r of None \<Rightarrow> 0 | Some n \<Rightarrow> int n) else 0),
       rc_wire_sent = (if mcp then 0 else int (c_bytes_in r)), rc_wire_received = (if mcp then 0 else int (c_bytes_out r)),
       rc_retries = 0\<rparr>)"

definition log_row_read ::
  "call_row \<Rightarrow> (string \<times> report_call list) list \<times> (string \<times> nat) list \<Rightarrow> (string \<times> report_call list) list \<times> (string \<times> nat) list" where
  "log_row_read row st = (case st of (cs, beats) \<Rightarrow>
     (let actor = or_text (closed_text (c_actor (cr_call row))) ''unknown'';
          c = logged_call (cr_call row)
      in (append_call actor c cs, if rc_tool c = ''heartbeat'' then count_one actor beats else beats)))"

definition call_log_calls :: "call_row list \<Rightarrow> (string \<times> report_call list) list \<times> (string \<times> nat) list" where
  "call_log_calls rows = fold log_row_read rows ([], [])"

text \<open>No call of the log is dropped or counted twice, whatever its actor.\<close>

definition number_of_calls :: "(string \<times> report_call list) list \<Rightarrow> nat" where
  "number_of_calls cs = (\<Sum>(name, xs)\<leftarrow>cs. length xs)"

lemma number_of_calls_append: "number_of_calls (append_call name c cs) = number_of_calls cs + 1"
proof -
  have "number_of_calls (AList.update name xs cs) + length (calls_of cs name) = number_of_calls cs + length xs" for xs
    by (induction cs) (auto simp: number_of_calls_def calls_of_def)
  from this [of "calls_of cs name @ [c]"] show ?thesis by (simp add: append_call_def)
qed

lemma call_log_calls_all: "number_of_calls (fst (call_log_calls rows)) = length rows"
proof -
  have "number_of_calls (fst (fold log_row_read rows st)) = number_of_calls (fst st) + length rows" for st
    by (induction rows arbitrary: st) (simp_all add: log_row_read_def Let_def number_of_calls_append split: prod.splits)
  from this [of "([], [])"] show ?thesis by (simp add: call_log_calls_def number_of_calls_def)
qed

end
