(* ===== verification/ReportFigures.thy ===== *)
theory ReportFigures
  imports ReportRead Dumps Policy
begin

text \<open>
  The figures of \<^verbatim>\<open>hub-report.py\<close>: what each task, each agent and the workflow took, over a snapshot of the
  hub's tables and the telemetry, and what the figures of an agent add up to.
\<close>

record snapshot =
  sn_version :: nat
  sn_db :: hub_db
  sn_calls :: "call_row list"
  sn_has_calls :: bool

section \<open>Tasks\<close>

text \<open>\<^verbatim>\<open>message_kind\<close>: the kind of the first part that carries one.\<close>

fun message_kind :: "json list \<Rightarrow> string option" where
  "message_kind [] = None"
| "message_kind (p # ps) = (case p of
     JObj d \<Rightarrow> (case dict_get ''metadata'' d of
         Some (JObj md) \<Rightarrow> (case (case dict_get ''hub.kind'' md of None \<Rightarrow> dict_get ''kind'' md | v \<Rightarrow> v) of
             Some (JStr k) \<Rightarrow> Some k | _ \<Rightarrow> message_kind ps)
       | _ \<Rightarrow> message_kind ps)
   | _ \<Rightarrow> message_kind ps)"

definition messages_of_kind :: "message_row list \<Rightarrow> string \<Rightarrow> string \<Rightarrow> nat" where
  "messages_of_kind ms tid kind = length (filter (\<lambda>m. m_task m = Some tid \<and> tid \<noteq> [] \<and> m_direction m = To_alice \<and>
     message_kind (m_parts m) = Some kind) ms)"

record task_figure =
  tf_id :: string
  tf_role :: "string option"
  tf_assignee :: "string option"
  tf_title :: "string option"
  tf_state :: "string option"
  tf_lease_s :: rat
  tf_created :: iso
  tf_picked_up :: "iso option"
  tf_finished :: "iso option"
  tf_wall_s :: "rat option"
  tf_open :: bool
  tf_outcome :: "string option"
  tf_pr_url :: "string option"
  tf_pr_head_sha :: "string option"
  tf_head_sha :: "string option"
  tf_blocking :: nat
  tf_nonblocking :: nat
  tf_questions :: nat
  tf_progress :: nat
  tf_result_bytes :: nat

definition or_else :: "'a option \<Rightarrow> 'a option \<Rightarrow> 'a option" where
  "or_else a b = (case a of None \<Rightarrow> b | Some x \<Rightarrow> Some x)"

text \<open>A typed result names its outcome or verdict, a manual end only its status, a plain cancel nothing.\<close>

definition task_outcome :: "task_row \<Rightarrow> string option" where
  "task_outcome t = (let result = (case t_result t of None \<Rightarrow> [] | Some d \<Rightarrow> d) in
     or_else (closed_label (dict_get ''outcome'' result))
      (or_else (closed_label (dict_get ''verdict'' result))
       (or_else (closed_label (dict_get ''status'' result))
         (if terminal (t_state t) then closed_text (task_state_value (t_state t)) else None))))"

definition task_figure_of :: "report_host \<Rightarrow> message_row list \<Rightarrow> telemetry \<Rightarrow> moment \<Rightarrow> task_row \<Rightarrow> task_figure" where
  "task_figure_of h ms tm now t =
     (let result = (case t_result t of None \<Rightarrow> [] | Some d \<Rightarrow> d);
          finished = (if terminal (t_state t) then Some (parse_timestamp (t_updated t)) else None)
      in \<lparr>tf_id = t_id t, tf_role = closed_text (t_role t), tf_assignee = Option.bind (t_assignee t) closed_text,
          tf_title = Some (label_text h LABEL_LIMIT (t_title t)), tf_state = closed_text (task_state_value (t_state t)),
          tf_lease_s = t_lease_duration_s t, tf_created = t_created t,
          tf_picked_up = map_option to_iso (map_of (tm_assigned tm) (t_id t)), tf_finished = map_option to_iso finished,
          tf_wall_s = seconds_between (Some (parse_timestamp (t_created t)))
            (if terminal (t_state t) then finished else Some now),
          tf_open = (\<not> terminal (t_state t)), tf_outcome = task_outcome t,
          tf_pr_url = pr_url_label (dict_get ''pr_url'' result), tf_pr_head_sha = Option.bind (t_pr_head_sha t) sha_text,
          tf_head_sha = or_else (sha_label (dict_get ''head_sha'' result)) (sha_label (dict_get ''reviewed_head_sha'' result)),
          tf_blocking = count_of (dict_get ''blocking_findings'' result),
          tf_nonblocking = count_of (dict_get ''nonblocking_findings'' result),
          tf_questions = messages_of_kind ms (t_id t) ''question'', tf_progress = messages_of_kind ms (t_id t) ''progress'',
          tf_result_bytes = (case t_result t of None \<Rightarrow> 0 | Some d \<Rightarrow> length (dumps (float_text h) False (JObj d)))\<rparr>)"

definition task_figures :: "report_host \<Rightarrow> snapshot \<Rightarrow> telemetry \<Rightarrow> moment \<Rightarrow> task_figure list" where
  "task_figures h sn tm now = map (task_figure_of h (messages (sn_db sn)) tm now)
     (sort_key (\<lambda>t. (t_created t, t_id t)) (tasks (sn_db sn)))"

section \<open>Agents\<close>

definition ALICE_NAME :: string where "ALICE_NAME = ''alice''"

definition the_least :: "moment list \<Rightarrow> moment option" where
  "the_least xs = (if xs = [] then None else Some (Min (set xs)))"

definition the_greatest :: "moment list \<Rightarrow> moment option" where
  "the_greatest xs = (if xs = [] then None else Some (Max (set xs)))"

text \<open>The values that are there.\<close>

definition present :: "'a option list \<Rightarrow> 'a list" where
  "present xs = concat (map (\<lambda>x. case x of None \<Rightarrow> [] | Some y \<Rightarrow> [y]) xs)"

definition empty_hold :: "report_call \<Rightarrow> bool" where
  "empty_hold c = (rc_tool c \<in> set HOLD_TOOLS \<and> rc_outcome c \<in> set EMPTY_OUTCOMES)"

definition active_windows :: "task_figure list \<Rightarrow> string \<Rightarrow> moment \<Rightarrow> interval list" where
  "active_windows tfs name now = union_of (map (\<lambda>f.
     (parse_timestamp (case tf_picked_up f of None \<Rightarrow> tf_created f | Some p \<Rightarrow> p),
      case tf_finished f of None \<Rightarrow> now | Some e \<Rightarrow> parse_timestamp e))
     (filter (\<lambda>f. tf_assignee f = Some name) tfs))"

definition waiting_holds :: "report_call list \<Rightarrow> interval list" where
  "waiting_holds cs = present (map (\<lambda>c. if empty_hold c then
     (case (rc_start c, rc_end c) of (Some a, Some b) \<Rightarrow> Some (a, b) | _ \<Rightarrow> None) else None) cs)"

definition first_seen :: "bool \<Rightarrow> report_call list \<Rightarrow> moment option" where
  "first_seen is_alice cs = (if is_alice then the_least (present (map rc_start cs))
     else or_else (the_least (present (map rc_start (filter (\<lambda>c. rc_tool c = ''check_in'') cs))))
       (the_least (present (map rc_start cs))))"

definition released_at :: "telemetry \<Rightarrow> string \<Rightarrow> report_call list \<Rightarrow> moment option" where
  "released_at tm name cs = or_else (map_of (tm_released tm) name)
     (the_greatest (present (map rc_end (filter (\<lambda>c. rc_outcome c = ''release'') cs))))"

definition last_seen :: "moment option \<Rightarrow> bool \<Rightarrow> moment \<Rightarrow> report_call list \<Rightarrow> moment option" where
  "last_seen released still_here now cs =
     (let last = or_else released (the_greatest (present (map rc_end cs) @ present (map rc_start cs)))
      in if released = None \<and> still_here then map_option (\<lambda>l. max l now) last else last)"

record agent_times =
  at_total :: rat
  at_turn :: rat
  at_waiting :: rat
  at_idle :: rat

text \<open>
  The four figures of the time between \<open>fst_m\<close> and \<open>lst_m\<close>: Alice's turn is what is not waiting, a
  worker's what it held a task, and what is neither turn nor waiting is idle.
\<close>

definition times_between :: "bool \<Rightarrow> interval list \<Rightarrow> interval list \<Rightarrow> moment \<Rightarrow> moment \<Rightarrow> agent_times" where
  "times_between is_alice windows holds fst_m lst_m =
     (let held = clip_to holds fst_m lst_m;
          turn = (if is_alice then subtract_from [(fst_m, lst_m)] held else clip_to windows fst_m lst_m);
          held = (if is_alice then held else subtract_from held turn);
          total_s = span_s [(fst_m, lst_m)]; turn_s = span_s turn; waiting_s = span_s held
      in \<lparr>at_total = total_s, at_turn = turn_s, at_waiting = waiting_s,
          at_idle = round3 (max 0 (total_s - turn_s - waiting_s))\<rparr>)"

definition agent_times_of :: "bool \<Rightarrow> interval list \<Rightarrow> interval list \<Rightarrow> moment option \<Rightarrow> moment option \<Rightarrow> agent_times option" where
  "agent_times_of is_alice windows holds first_m last_m = (case (first_m, last_m) of
     (Some a, Some b) \<Rightarrow> if a \<le> b then Some (times_between is_alice windows holds a b) else None
   | _ \<Rightarrow> None)"

datatype call_source = From_call_log | From_telemetry | From_nothing

record agent_figure =
  af_name :: string
  af_checked_in :: bool
  af_status :: "string option"
  af_harness :: "string option"
  af_provider :: "string option"
  af_model :: "string option"
  af_calls_source :: call_source
  af_wire_source :: call_source
  af_calls :: nat
  af_active :: nat
  af_waiting :: nat
  af_other :: int
  af_heartbeats :: nat
  af_timeouts :: nat
  af_retries :: int
  af_errors :: nat
  af_mcp_sent :: int
  af_mcp_received :: int
  af_context :: int
  af_wire_sent :: int
  af_wire_received :: int
  af_first_seen :: "iso option"
  af_last_seen :: "iso option"
  af_released :: "iso option"
  af_times :: "agent_times option"

definition sum_of :: "(report_call \<Rightarrow> int) \<Rightarrow> report_call list \<Rightarrow> int" where
  "sum_of f cs = sum_list (map f cs)"

text \<open>Which calls count for an agent, and where they come from.\<close>

definition chosen_calls :: "telemetry \<Rightarrow> report_call list \<Rightarrow> string \<Rightarrow> report_call list \<times> call_source" where
  "chosen_calls tm hub_calls name =
     (if name = ALICE_NAME then (hub_calls, if hub_calls = [] then From_nothing else From_call_log)
      else if calls_of (tm_calls tm) name \<noteq> [] then (calls_of (tm_calls tm) name, From_telemetry)
      else (filter (\<lambda>c. rc_tool c \<noteq> ''heartbeat'') hub_calls, if hub_calls = [] then From_nothing else From_call_log))"

definition chosen_wire :: "report_call list \<Rightarrow> report_call list \<Rightarrow> call_source \<Rightarrow> report_call list \<times> call_source" where
  "chosen_wire hub_calls cs source =
     (let wired = filter (\<lambda>c. rc_wire_sent c \<noteq> 0 \<or> rc_wire_received c \<noteq> 0) hub_calls
      in if wired \<noteq> [] then (wired, From_call_log)
         else if source = From_telemetry then (cs, if cs = [] then From_nothing else From_telemetry)
         else ([], From_nothing))"

definition agent_figure_of ::
  "snapshot \<Rightarrow> (string \<times> report_call list) list \<Rightarrow> (string \<times> nat) list \<Rightarrow> telemetry \<Rightarrow> task_figure list \<Rightarrow> moment \<Rightarrow> string
   \<Rightarrow> agent_figure" where
  "agent_figure_of sn logged logged_beats tm tfs now name =
     (let is_alice = (name = ALICE_NAME);
          row = find (\<lambda>a. a_name a = name) (agents (sn_db sn));
          hub_calls = calls_of logged name;
          (cs, source) = chosen_calls tm hub_calls name;
          (wired, wire_source) = chosen_wire hub_calls cs source;
          windows = active_windows tfs name now;
          released = released_at tm name cs;
          still_here = (case row of None \<Rightarrow> False | Some a \<Rightarrow> a_status a = Idle \<or> a_status a = Busy);
          first_m = first_seen is_alice cs;
          last_m = last_seen released still_here now cs;
          active = length (filter (\<lambda>c. \<not> empty_hold c \<and>
            (is_alice \<or> (case rc_start c of None \<Rightarrow> False | Some m \<Rightarrow> is_within m windows))) cs);
          waiting_n = length (filter empty_hold cs);
          beats = count_for (tm_heartbeats tm) name
      in \<lparr>af_name = name, af_checked_in = (is_alice \<or> row \<noteq> None),
          af_status = (case row of Some a \<Rightarrow> closed_text (agent_status_value (a_status a))
            | None \<Rightarrow> if is_alice then (case workflows (sn_db sn) of [] \<Rightarrow> None
                | w # ws \<Rightarrow> closed_text (workflow_status_value (w_status w))) else None),
          af_harness = Option.bind row (\<lambda>a. closed_text (harness (a_profile a))),
          af_provider = Option.bind row (\<lambda>a. closed_text (provider (a_profile a))),
          af_model = Option.bind row (\<lambda>a. closed_text (model (a_profile a))),
          af_calls_source = source, af_wire_source = wire_source, af_calls = length cs, af_active = active,
          af_waiting = waiting_n, af_other = int (length cs) - int active - int waiting_n,
          af_heartbeats = (if beats \<noteq> 0 then beats else count_for logged_beats name),
          af_timeouts = length (filter (\<lambda>c. rc_outcome c \<in> set EMPTY_OUTCOMES) cs),
          af_retries = sum_of rc_retries cs, af_errors = length (filter (\<lambda>c. rc_outcome c = ''error'') cs),
          af_mcp_sent = sum_of rc_mcp_sent cs, af_mcp_received = sum_of rc_mcp_received cs, af_context = sum_of rc_content cs,
          af_wire_sent = sum_of rc_wire_sent wired, af_wire_received = sum_of rc_wire_received wired,
          af_first_seen = map_option to_iso first_m, af_last_seen = map_option to_iso last_m,
          af_released = map_option to_iso released,
          af_times = agent_times_of is_alice windows (waiting_holds cs) first_m last_m\<rparr>)"

definition agent_names :: "snapshot \<Rightarrow> telemetry \<Rightarrow> (string \<times> report_call list) list \<Rightarrow> string list \<Rightarrow> string list" where
  "agent_names sn tm logged expected = ALICE_NAME # sort (remdups (filter (\<lambda>n. n \<noteq> ALICE_NAME)
     (map a_name (agents (sn_db sn)) @ expected @ map fst (tm_calls tm) @ map fst (tm_heartbeats tm) @ map fst logged)))"

definition agent_figures :: "snapshot \<Rightarrow> telemetry \<Rightarrow> task_figure list \<Rightarrow> string list \<Rightarrow> moment \<Rightarrow> agent_figure list" where
  "agent_figures sn tm tfs expected now = (case call_log_calls (sn_calls sn) of (logged, logged_beats) \<Rightarrow>
     map (agent_figure_of sn logged logged_beats tm tfs now) (agent_names sn tm logged expected))"

section \<open>What the time of an agent adds up to\<close>

lemma round_half_even_near: "\<bar>of_int (round_half_even q) - q\<bar> \<le> 1 / 2"
  by (auto simp: round_half_even_def Let_def abs_if) linarith+

lemma round3_near: "\<bar>round3 q - q\<bar> \<le> 1 / 2000"
  using round_half_even_near [of "q * 1000"] by (simp add: round3_def abs_if field_simps split: if_splits)

lemma round3_of_thousandths [simp]: "round3 (of_int i / 1000) = of_int i / 1000"
  by (simp add: round3_def)

lemma span_s_thousandths: "\<exists>i. span_s xs = of_int i / 1000"
  by (auto simp: span_s_def round3_def)

lemma span_s_nonneg: "0 \<le> total_of xs \<Longrightarrow> 0 \<le> span_s xs"
  by (simp add: span_s_def round3_def round_half_even_nonneg)

lemma span_s_near: "\<bar>span_s xs - of_int (total_of xs) / 1000000\<bar> \<le> 1 / 2000"
  unfolding span_s_def by (rule round3_near)

text \<open>Three spans of which the first holds the two others: they exceed it by a rounding at most.\<close>

lemma spans_of_parts:
  assumes "total_of xs + total_of ys \<le> total_of zs"
  shows "span_s xs + span_s ys \<le> span_s zs + 1 / 1000"
proof -
  obtain i j k where s: "span_s xs = of_int i / 1000" "span_s ys = of_int j / 1000" "span_s zs = of_int k / 1000"
    using span_s_thousandths by metis
  have "(of_int (total_of xs) + of_int (total_of ys) :: rat) \<le> of_int (total_of zs)"
    using assms by (metis of_int_add of_int_le_iff)
  then have "span_s xs + span_s ys \<le> span_s zs + 3 / 2000"
    using span_s_near [of xs] span_s_near [of ys] span_s_near [of zs] by (simp add: abs_if split: if_splits)
  then have "(of_int i + of_int j :: rat) \<le> of_int k + 3 / 2" unfolding s by simp
  then have "i + j \<le> k + 1" by linarith
  then have "(of_int i + of_int j :: rat) \<le> of_int k + 1" by (metis of_int_1 of_int_add of_int_le_iff)
  then show ?thesis unfolding s by simp
qed

lemma spans_of_whole:
  assumes "total_of xs + total_of ys = total_of zs"
  shows "span_s zs \<le> span_s xs + span_s ys + 1 / 1000"
proof -
  obtain i j k where s: "span_s xs = of_int i / 1000" "span_s ys = of_int j / 1000" "span_s zs = of_int k / 1000"
    using span_s_thousandths by metis
  have "(of_int (total_of xs) + of_int (total_of ys) :: rat) = of_int (total_of zs)"
    using assms by (metis of_int_add)
  then have "span_s zs \<le> span_s xs + span_s ys + 3 / 2000"
    using span_s_near [of xs] span_s_near [of ys] span_s_near [of zs] by (simp add: abs_if split: if_splits)
  then have "(of_int k :: rat) \<le> of_int i + of_int j + 3 / 2" unfolding s by simp
  then have "k \<le> i + j + 1" by linarith
  then have "(of_int k :: rat) \<le> of_int i + of_int j + 1" by (metis of_int_1 of_int_add of_int_le_iff)
  then show ?thesis unfolding s by simp
qed

lemma idle_rest: "round3 (max 0 (span_s zs - span_s xs - span_s ys)) = max 0 (span_s zs - span_s xs - span_s ys)"
proof -
  obtain i j k where s: "span_s xs = of_int i / 1000" "span_s ys = of_int j / 1000" "span_s zs = of_int k / 1000"
    using span_s_thousandths by metis
  have "max 0 (span_s zs - span_s xs - span_s ys) = of_int (max 0 (k - i - j)) / 1000"
    unfolding s by (simp add: max_def diff_divide_distrib of_int_diff not_le)
  then show ?thesis by (metis round3_of_thousandths)
qed

text \<open>The turn and the waiting of an agent are disjoint parts of its time, for Alice all of it.\<close>

definition turn_of :: "bool \<Rightarrow> interval list \<Rightarrow> interval list \<Rightarrow> moment \<Rightarrow> moment \<Rightarrow> interval list" where
  "turn_of is_alice windows holds a b =
     (if is_alice then subtract_from [(a, b)] (clip_to holds a b) else clip_to windows a b)"

definition held_of :: "bool \<Rightarrow> interval list \<Rightarrow> interval list \<Rightarrow> moment \<Rightarrow> moment \<Rightarrow> interval list" where
  "held_of is_alice windows holds a b =
     (if is_alice then clip_to holds a b else subtract_from (clip_to holds a b) (clip_to windows a b))"

lemma times_between_parts:
  "times_between is_alice windows holds a b =
     \<lparr>at_total = span_s [(a, b)], at_turn = span_s (turn_of is_alice windows holds a b),
      at_waiting = span_s (held_of is_alice windows holds a b),
      at_idle = max 0 (span_s [(a, b)] - span_s (turn_of is_alice windows holds a b) -
        span_s (held_of is_alice windows holds a b))\<rparr>"
  by (simp add: times_between_def turn_of_def held_of_def Let_def idle_rest)

lemma covered_window: "a \<le> b \<Longrightarrow> covered (subtract_from [(a, b)] (clip_to xs a b)) = {a..<b} - covered xs"
proof (cases "a = b")
  case True
  have "separated (clip_to xs b b)" and "covered (clip_to xs b b) = {}" by (simp_all add: separated_clip covered_clip)
  then have "clip_to xs b b = []"
    by (cases "clip_to xs b b") (auto simp: separated_Cons moments_of_def)
  then show ?thesis using True by (simp add: subtract_from_def covered_union moments_of_def)
next
  case False
  assume "a \<le> b"
  then show ?thesis using False by (subst covered_subtract) (auto simp: covered_clip moments_of_def)
qed

lemma turn_and_held:
  assumes "a \<le> b"
  shows "separated (turn_of is_alice windows holds a b) \<and> separated (held_of is_alice windows holds a b) \<and>
    covered (turn_of is_alice windows holds a b) \<inter> covered (held_of is_alice windows holds a b) = {} \<and>
    covered (turn_of is_alice windows holds a b) \<union> covered (held_of is_alice windows holds a b) \<subseteq> {a..<b}"
    and "is_alice \<Longrightarrow> covered (turn_of is_alice windows holds a b) \<union> covered (held_of is_alice windows holds a b) = {a..<b}"
  using separated_proper [OF separated_clip [of holds a b]]
  by (auto simp: turn_of_def held_of_def separated_clip separated_subtract covered_window [OF assms] covered_clip covered_subtract)

lemma times_between_sum:
  assumes "a \<le> b" and "t = times_between is_alice windows holds a b"
  shows "0 \<le> at_turn t \<and> 0 \<le> at_waiting t \<and> 0 \<le> at_idle t \<and>
    at_total t \<le> at_turn t + at_waiting t + at_idle t \<and>
    at_turn t + at_waiting t + at_idle t \<le> at_total t + 1 / 1000"
    and "is_alice \<Longrightarrow> at_idle t \<le> 1 / 1000"
proof -
  let ?u = "turn_of is_alice windows holds a b" and ?v = "held_of is_alice windows holds a b"
  note th = turn_and_held [OF assms(1), of is_alice windows holds]
  note parts = total_of_parts [OF th(1) [THEN conjunct1] th(1) [THEN conjunct2, THEN conjunct1] assms(1)
    th(1) [THEN conjunct2, THEN conjunct2, THEN conjunct1] th(1) [THEN conjunct2, THEN conjunct2, THEN conjunct2]]
  have t: "at_total t = span_s [(a, b)]" "at_turn t = span_s ?u" "at_waiting t = span_s ?v"
    "at_idle t = max 0 (span_s [(a, b)] - span_s ?u - span_s ?v)"
    unfolding assms(2) times_between_parts by simp_all
  have "0 \<le> span_s ?u" "0 \<le> span_s ?v" using parts(1) span_s_nonneg by blast+
  moreover have "span_s ?u + span_s ?v \<le> span_s [(a, b)] + 1 / 1000" using parts(1) spans_of_parts by blast
  ultimately show "0 \<le> at_turn t \<and> 0 \<le> at_waiting t \<and> 0 \<le> at_idle t \<and>
    at_total t \<le> at_turn t + at_waiting t + at_idle t \<and>
    at_turn t + at_waiting t + at_idle t \<le> at_total t + 1 / 1000" unfolding t by (simp add: max_def)
  show "at_idle t \<le> 1 / 1000" if al: is_alice
  proof -
    have "total_of ?u + total_of ?v = total_of [(a, b)]" by (rule parts(2) [OF th(2) [OF al]])
    then have "span_s [(a, b)] \<le> span_s ?u + span_s ?v + 1 / 1000" by (rule spans_of_whole)
    then show ?thesis unfolding t by (simp add: max_def)
  qed
qed

text \<open>The spans as numbers of moments: what a worker held, what it waited beside that, and Alice's two parts.\<close>

definition moments_s :: "moment set \<Rightarrow> rat" where
  "moments_s m = round3 (of_nat (card m) / 1000000)"

lemma span_s_moments: "separated xs \<Longrightarrow> span_s xs = moments_s (covered xs)"
  by (simp add: span_s_def moments_s_def total_of_separated)

definition accounted :: "bool \<Rightarrow> moment set \<Rightarrow> moment set \<Rightarrow> moment set \<Rightarrow> agent_times \<Rightarrow> bool" where
  "accounted is_alice seen held waited t =
     (at_total t = moments_s seen \<and>
      at_turn t = moments_s (if is_alice then seen - waited else seen \<inter> held) \<and>
      at_waiting t = moments_s (if is_alice then seen \<inter> waited else seen \<inter> waited - held))"

lemma times_between_accounted:
  assumes "a \<le> b"
  shows "accounted is_alice {a..<b} (covered windows) (covered holds) (times_between is_alice windows holds a b)"
proof -
  note th = turn_and_held [OF assms, of is_alice windows holds]
  have "span_s [(a, b)] = moments_s {a..<b}" using assms by (simp add: span_s_def moments_s_def)
  moreover have "covered (turn_of is_alice windows holds a b) =
      (if is_alice then {a..<b} - covered holds else {a..<b} \<inter> covered windows)"
    by (auto simp: turn_of_def covered_window [OF assms] covered_clip)
  moreover have "covered (held_of is_alice windows holds a b) =
      (if is_alice then {a..<b} \<inter> covered holds else {a..<b} \<inter> covered holds - covered windows)"
    using separated_proper [OF separated_clip [of holds a b]]
    by (auto simp: held_of_def covered_clip covered_subtract)
  ultimately show ?thesis using th(1) span_s_moments
    by (simp add: accounted_def times_between_parts)
qed

lemma agent_times_of_Some:
  assumes "agent_times_of is_alice windows holds first_m last_m = Some t"
  obtains a b where "a \<le> b" "t = times_between is_alice windows holds a b" "first_m = Some a" "last_m = Some b"
  using assms by (auto simp: agent_times_of_def split: option.splits if_splits)

text \<open>
  Which calls, windows and holds the figures of an agent come from, and the time they speak of: from
  the first check-in (for Alice, and for a worker that has none, the first call) until the release,
  or until the last moment any call shows, or until now for an agent that is still connected.
\<close>

definition calls_seen :: "snapshot \<Rightarrow> telemetry \<Rightarrow> string \<Rightarrow> report_call list" where
  "calls_seen sn tm name = fst (chosen_calls tm (calls_of (fst (call_log_calls (sn_calls sn))) name) name)"

definition holds_of :: "snapshot \<Rightarrow> telemetry \<Rightarrow> string \<Rightarrow> interval list" where
  "holds_of sn tm name = waiting_holds (calls_seen sn tm name)"

definition connected_still :: "snapshot \<Rightarrow> string \<Rightarrow> bool" where
  "connected_still sn name = (case find (\<lambda>a. a_name a = name) (agents (sn_db sn)) of None \<Rightarrow> False
     | Some a \<Rightarrow> a_status a = Idle \<or> a_status a = Busy)"

definition starts_in :: "report_call list \<Rightarrow> moment set" where
  "starts_in cs = {x. \<exists>c \<in> set cs. rc_start c = Some x}"

definition ends_in :: "report_call list \<Rightarrow> moment set" where
  "ends_in cs = {x. \<exists>c \<in> set cs. rc_end c = Some x}"

definition seen_from :: "bool \<Rightarrow> report_call list \<Rightarrow> moment \<Rightarrow> bool" where
  "seen_from is_alice cs a =
     (let checks = starts_in (filter (\<lambda>c. rc_tool c = ''check_in'') cs);
          S = (if is_alice \<or> checks = {} then starts_in cs else checks)
      in a \<in> S \<and> (\<forall>x \<in> S. a \<le> x))"

definition seen_until :: "moment option \<Rightarrow> bool \<Rightarrow> moment \<Rightarrow> report_call list \<Rightarrow> moment \<Rightarrow> bool" where
  "seen_until released here now cs b = (case released of Some r \<Rightarrow> b = r
     | None \<Rightarrow> (let S = ends_in cs \<union> starts_in cs; T = (if here then insert now S else S)
         in S \<noteq> {} \<and> b \<in> T \<and> (\<forall>x \<in> T. x \<le> b)))"

lemma set_present: "set (present xs) = {y. Some y \<in> set xs}"
  by (force simp: present_def split: option.splits)

lemma set_moments:
  "set (present (map rc_start cs)) = starts_in cs" "set (present (map rc_end cs)) = ends_in cs"
  unfolding set_present starts_in_def ends_in_def set_map image_iff by (rule Collect_cong, metis)+

lemma the_least_Some: "the_least xs = Some m \<Longrightarrow> m \<in> set xs \<and> (\<forall>x \<in> set xs. m \<le> x)"
  unfolding the_least_def by (metis List.finite_set Min_in Min_le option.distinct(1) option.inject set_empty)

lemma the_greatest_Some: "the_greatest xs = Some m \<Longrightarrow> m \<in> set xs \<and> (\<forall>x \<in> set xs. x \<le> m)"
  unfolding the_greatest_def by (metis List.finite_set Max_in Max_ge option.distinct(1) option.inject set_empty)

lemma the_least_None [simp]: "the_least xs = None \<longleftrightarrow> set xs = {}"
  by (simp add: the_least_def)

lemma the_least_Nil [simp]: "the_least [] = None"
  by (simp add: the_least_def)

lemma first_seen_from:
  assumes "first_seen is_alice cs = Some a"
  shows "seen_from is_alice cs a"
proof -
  let ?cks = "filter (\<lambda>c. rc_tool c = ''check_in'') cs"
  show ?thesis
  proof (cases "is_alice \<or> starts_in ?cks = {}")
    case True
    then have "\<not> is_alice \<Longrightarrow> the_least (present (map rc_start ?cks)) = None" by (simp add: set_moments)
    then have "the_least (present (map rc_start cs)) = Some a"
      using assms by (cases is_alice) (simp_all add: first_seen_def or_else_def)
    from the_least_Some [OF this] show ?thesis using True by (simp add: seen_from_def set_moments)
  next
    case False
    then obtain m where "the_least (present (map rc_start ?cks)) = Some m"
      using the_least_None [of "present (map rc_start ?cks)"] unfolding set_moments by blast
    then have "the_least (present (map rc_start ?cks)) = Some a"
      using assms False by (simp add: first_seen_def or_else_def)
    from the_least_Some [OF this] show ?thesis using False by (simp add: seen_from_def set_moments)
  qed
qed

lemma last_seen_until:
  assumes "last_seen released here now cs = Some b"
  shows "seen_until released here now cs b"
proof (cases released)
  case None
  let ?l = "the_greatest (present (map rc_end cs) @ present (map rc_start cs))"
  have b: "(if here then map_option (\<lambda>l. max l now) ?l else ?l) = Some b"
    using assms unfolding last_seen_def or_else_def None option.case Let_def by (simp only: simp_thms)
  then obtain l where l: "?l = Some l" by (cases ?l) (auto split: if_splits)
  have bl: "b = (if here then max l now else l)" using b unfolding l by (simp split: if_splits)
  have S: "l \<in> ends_in cs \<union> starts_in cs" "\<forall>x \<in> ends_in cs \<union> starts_in cs. x \<le> l"
    using the_greatest_Some [OF l] unfolding set_append set_moments by blast+
  have "x \<le> b" if "x \<in> ends_in cs \<union> starts_in cs" for x
    using S(2) [rule_format, OF that] unfolding bl by (auto simp: max_def)
  then show ?thesis
    using S(1) bl unfolding seen_until_def None option.case Let_def by (auto simp: max_def split: if_splits)
qed (use assms in \<open>simp add: last_seen_def or_else_def seen_until_def\<close>)

lemma agent_figures_times:
  assumes "f \<in> set (agent_figures sn tm tfs expected now)" and "af_times f = Some t"
  obtains a b where "a \<le> b"
    "t = times_between (af_name f = ALICE_NAME) (active_windows tfs (af_name f) now) (holds_of sn tm (af_name f)) a b"
    "seen_from (af_name f = ALICE_NAME) (calls_seen sn tm (af_name f)) a"
    "seen_until (released_at tm (af_name f) (calls_seen sn tm (af_name f))) (connected_still sn (af_name f)) now
       (calls_seen sn tm (af_name f)) b"
    "af_first_seen f = Some (to_iso a)" "af_last_seen f = Some (to_iso b)"
proof -
  from assms(1) obtain n logged beats where f: "f = agent_figure_of sn logged beats tm tfs now n"
    and l: "call_log_calls (sn_calls sn) = (logged, beats)"
    by (auto simp: agent_figures_def split: prod.splits)
  obtain cs source where c: "chosen_calls tm (calls_of logged n) n = (cs, source)" by (rule prod.exhaust)
  have n: "af_name f = n" unfolding f by (simp add: agent_figure_of_def Let_def split: prod.splits)
  have cs: "calls_seen sn tm n = cs" by (simp add: calls_seen_def l c)
  let ?first = "first_seen (n = ALICE_NAME) cs"
  let ?last = "last_seen (released_at tm n cs) (connected_still sn n) now cs"
  have "agent_times_of (n = ALICE_NAME) (active_windows tfs n now) (holds_of sn tm n) ?first ?last = Some t"
    and seen: "af_first_seen f = map_option to_iso ?first" "af_last_seen f = map_option to_iso ?last"
    using assms(2) unfolding f
    by (simp_all add: agent_figure_of_def holds_of_def cs connected_still_def Let_def c split: prod.splits)
  then obtain a b where ab: "a \<le> b" "t = times_between (n = ALICE_NAME) (active_windows tfs n now) (holds_of sn tm n) a b"
    "?first = Some a" "?last = Some b" using agent_times_of_Some by blast
  show thesis
    by (rule that [of a b]) (use ab seen first_seen_from last_seen_until cs in \<open>simp_all add: n\<close>)
qed

text \<open>One worker that waits, holds a task and waits again.\<close>

definition demo_call :: "string \<Rightarrow> string \<Rightarrow> moment \<Rightarrow> moment \<Rightarrow> report_call" where
  "demo_call tool outcome a b = \<lparr>rc_tool = tool, rc_outcome = outcome, rc_start = Some a, rc_end = Some b, rc_mcp_sent = 1,
     rc_mcp_received = 2, rc_content = 2, rc_wire_sent = 3, rc_wire_received = 4, rc_retries = 0\<rparr>"

definition demo_telemetry :: telemetry where
  "demo_telemetry = \<lparr>tm_calls = [(''bob'', [demo_call ''check_in'' ''success'' 0 1000,
       demo_call ''await_assignment'' ''timeout'' 1000 9000, demo_call ''await_assignment'' ''release'' 9000 20000])],
     tm_heartbeats = [], tm_assigned = [], tm_released = [], tm_skipped = 0\<rparr>"

definition demo_task_figure :: task_figure where
  "demo_task_figure = \<lparr>tf_id = ''t'', tf_role = None, tf_assignee = Some ''bob'', tf_title = None, tf_state = None, tf_lease_s = 0,
     tf_created = 4, tf_picked_up = None, tf_finished = Some 12, tf_wall_s = None, tf_open = False, tf_outcome = None,
     tf_pr_url = None, tf_pr_head_sha = None, tf_head_sha = None, tf_blocking = 0, tf_nonblocking = 0, tf_questions = 0,
     tf_progress = 0, tf_result_bytes = 0\<rparr>"

definition demo_snapshot_db :: snapshot where
  "demo_snapshot_db = \<lparr>sn_version = 1, sn_db = empty_db, sn_calls = [], sn_has_calls = True\<rparr>"

lemma demo_times: "map af_times (agent_figures demo_snapshot_db demo_telemetry [demo_task_figure] [] 30000) =
   [None, Some \<lparr>at_total = 20 / 1000, at_turn = 8 / 1000, at_waiting = 3 / 1000, at_idle = 9 / 1000\<rparr>]"
  by code_simp

end
