(* ===== verification/ReportWorkflow.thy ===== *)
theory ReportWorkflow
  imports ReportFigures
begin

text \<open>
  The figures of the workflow in \<^verbatim>\<open>hub-report.py\<close>: the policy in force, the readings of the merge gate and
  the merge commit found in the decisions, the totals, and \<^verbatim>\<open>build_report\<close>.
\<close>

section \<open>Regular expressions\<close>

text \<open>
  The part of \<^verbatim>\<open>re\<close> the script uses: a match is a rest of the text, and the rests are listed in the order
  backtracking tries them. A turn of a repetition that consumes nothing ends it.
\<close>

datatype rx =
    Rx_char "char \<Rightarrow> bool"
  | Rx_word string
  | Rx_seq rx rx
  | Rx_alt rx rx
  | Rx_opt rx
  | Rx_star rx

fun rx_repeat :: "nat \<Rightarrow> (string \<Rightarrow> string list) \<Rightarrow> string \<Rightarrow> string list" where
  "rx_repeat 0 f s = [s]"
| "rx_repeat (Suc n) f s = concat (map (rx_repeat n f) (filter (\<lambda>r. length r < length s) (f s))) @ [s]"

text \<open>\<open>Rx_word\<close> ignores case, as \<^verbatim>\<open>re.IGNORECASE\<close> has it; its text is in lower case.\<close>

primrec rx_match :: "rx \<Rightarrow> string \<Rightarrow> string list" where
  "rx_match (Rx_char p) s = (case s of [] \<Rightarrow> [] | c # r \<Rightarrow> if p c then [r] else [])"
| "rx_match (Rx_word w) s = (if lower (take (length w) s) = w then [drop (length w) s] else [])"
| "rx_match (Rx_seq a b) s = concat (map (rx_match b) (rx_match a s))"
| "rx_match (Rx_alt a b) s = rx_match a s @ rx_match b s"
| "rx_match (Rx_opt a) s = rx_match a s @ [s]"
| "rx_match (Rx_star a) s = rx_repeat (length s) (rx_match a) s"

text \<open>What is left is an end of the text.\<close>

lemma rx_repeat_suffix:
  assumes "\<And>s r. r \<in> set (f s) \<Longrightarrow> suffix r s"
  shows "r \<in> set (rx_repeat n f s) \<Longrightarrow> suffix r s"
proof (induction n arbitrary: s)
  case (Suc n)
  then show ?case using assms by (auto intro: suffix_order.trans)
qed simp

lemma rx_match_suffix: "r \<in> set (rx_match x s) \<Longrightarrow> suffix r s"
proof (induction x arbitrary: r s)
  case (Rx_seq a b)
  then obtain x where "x \<in> set (rx_match a s)" "r \<in> set (rx_match b x)" by auto
  then show ?case using Rx_seq.IH suffix_order.trans by blast
next
  case (Rx_star a)
  then show ?case using rx_repeat_suffix [of "rx_match a"] by auto
qed (auto split: list.splits if_splits simp: suffix_drop intro: suffix_ConsI)

section \<open>The merge commit\<close>

definition merge_word :: rx where
  "merge_word = Rx_seq (Rx_word ''merge'')
     (Rx_seq (Rx_opt (Rx_alt (Rx_word ''d'') (Rx_alt (Rx_word ''_commit'')
        (Rx_seq (Rx_char is_space) (Rx_seq (Rx_star (Rx_char is_space)) (Rx_word ''commit''))))))
     (Rx_seq (Rx_star (Rx_seq (Rx_star (Rx_char (\<lambda>c. is_space c \<or> c = CHR ''_'' \<or> c = CHR ''-'')))
        (Rx_alt (Rx_word ''sha'') (Rx_alt (Rx_word ''oid'') (Rx_alt (Rx_word ''commit'')
          (Rx_alt (Rx_word ''as'') (Rx_alt (Rx_word ''at'') (Rx_word ''to'')))))))) 
     (Rx_star (Rx_char (\<lambda>c. is_space c \<or> c \<in> set '':=`(\"'' \<or> c = CHR 0x27)))))"

text \<open>The group of forty digits, at whose end a word ends.\<close>

definition sha_group :: "string \<Rightarrow> string option" where
  "sha_group s = (if sha_fullmatch (take 40 s) \<and>
       (case drop 40 s of [] \<Rightarrow> True | c # r \<Rightarrow> \<not> (is_alnum c \<or> c = CHR ''_'')) then Some (take 40 s) else None)"

definition merged_at :: "string \<Rightarrow> string option" where
  "merged_at s = (case present (map sha_group (rx_match merge_word s)) of [] \<Rightarrow> None | g # gs \<Rightarrow> Some g)"

fun search_merged :: "string \<Rightarrow> string option" where
  "search_merged s = (case merged_at s of Some g \<Rightarrow> Some g
     | None \<Rightarrow> (case s of [] \<Rightarrow> None | c # r \<Rightarrow> search_merged r))"

declare search_merged.simps [simp del]

definition MERGED_KEYS :: "string list" where
  "MERGED_KEYS = [''merged_sha'', ''merge_commit_sha'', ''merge_commit'', ''mergeCommit'']"

definition merged_candidate :: "dict \<Rightarrow> string \<Rightarrow> string option \<Rightarrow> string option" where
  "merged_candidate d key candidate =
     (let item = (case dict_get key d of Some (JObj o') \<Rightarrow> dict_get ''oid'' o' | v \<Rightarrow> v)
      in or_else (sha_label item) candidate)"

definition decision_merged :: "decision_row \<Rightarrow> string option" where
  "decision_merged d =
     (let txt = d_summary d @ [CHR 0x0A] @ d_rationale d;
          candidate = fold (\<lambda>v. fold (merged_candidate v) MERGED_KEYS) (embedded_objects txt) None
      in or_else candidate (Option.bind (search_merged txt) sha_text))"

record merged_commit =
  mc_sha :: string
  mc_decision :: nat
  mc_ts :: iso

definition merged_sha :: "decision_row list \<Rightarrow> merged_commit option" where
  "merged_sha ds = fold (\<lambda>d found. case decision_merged d of
     None \<Rightarrow> found
   | Some s \<Rightarrow> Some \<lparr>mc_sha = s, mc_decision = d_id d, mc_ts = d_ts d\<rparr>) ds None"

section \<open>Readings of the merge gate\<close>

definition GATE_FIELDS :: "string list" where
  "GATE_FIELDS = [''pr_state'', ''head_matches'', ''ci'', ''mergeable'', ''base_behind_main'']"

record gate_reading =
  gr_decision :: nat
  gr_ts :: iso
  gr_facts :: "(string \<times> json) list"
  gr_expected :: "string option"
  gr_current :: "string option"
  gr_pr_url :: "string option"

definition gate_fact :: "json option \<Rightarrow> json" where
  "gate_fact v = (case v of Some (JBool b) \<Rightarrow> JBool b | _ \<Rightarrow> jopt (closed_label v))"

definition reading_of :: "decision_row \<Rightarrow> dict \<Rightarrow> gate_reading option" where
  "reading_of d v = (if dict_has ''head_matches'' v \<and> dict_has ''ci'' v then
     Some \<lparr>gr_decision = d_id d, gr_ts = d_ts d, gr_facts = map (\<lambda>k. (k, gate_fact (dict_get k v))) GATE_FIELDS,
       gr_expected = sha_label (dict_get ''expected_head_sha'' v), gr_current = sha_label (dict_get ''current_head_sha'' v),
       gr_pr_url = pr_url_label (dict_get ''pr_url'' v)\<rparr> else None)"

definition gate_readings :: "decision_row list \<Rightarrow> gate_reading list" where
  "gate_readings ds = concat (map (\<lambda>d. present (map (reading_of d) (embedded_objects (d_rationale d)))) ds)"

section \<open>The policy in force\<close>

definition ROLE_POLICY_DEFAULTS :: dict where
  "ROLE_POLICY_DEFAULTS = [(''reviewer_harness_differs'', JBool True), (''reviewer_provider_differs'', JBool False),
     (''implementer_capabilities'', JList []), (''reviewer_capabilities'', JList [])]"

definition POLICY_DEFAULTS :: dict where
  "POLICY_DEFAULTS = [(''max_review_rounds'', JInt 3), (''merge_method'', JStr ''squash''), (''allow_no_ci'', JBool False),
     (''role_policy'', JObj ROLE_POLICY_DEFAULTS), (''pairing_wait_s'', JInt 120), (''max_wall_minutes'', JInt 120),
     (''max_task_lease_min'', JInt 120)]"

definition with_defaults :: "dict \<Rightarrow> dict \<Rightarrow> dict" where
  "with_defaults dflts d = map (\<lambda>(k, v). (k, case dict_get k d of None \<Rightarrow> v | Some w \<Rightarrow> w)) dflts"

text \<open>\<^verbatim>\<open>model_dump\<close> of the validated policy: every field in declaration order, the nested one too.\<close>

definition dumped_policy :: "dict \<Rightarrow> dict" where
  "dumped_policy stored = map (\<lambda>(k, v). (k, case v of JObj d \<Rightarrow> JObj (with_defaults ROLE_POLICY_DEFAULTS d) | _ \<Rightarrow> v))
     (with_defaults POLICY_DEFAULTS stored)"

definition effective_policy :: "dict \<Rightarrow> dict \<times> string list" where
  "effective_policy stored = (if field_errors POLICY_FIELDS stored = []
     then (dumped_policy stored, sort (filter (\<lambda>k. \<not> dict_has k stored) (map fst POLICY_DEFAULTS)))
     else (stored, []))"

text \<open>The limits in force are the ones the store enforces.\<close>

lemma effective_lease_limit:
  assumes "field_errors POLICY_FIELDS stored = []"
  shows "policy_lease_min (fst (effective_policy stored)) = policy_lease_min stored"
proof -
  have g: "dict_get ''max_task_lease_min'' (dumped_policy stored) =
      Some (case dict_get ''max_task_lease_min'' stored of None \<Rightarrow> JInt 120
        | Some w \<Rightarrow> (case w of JObj d \<Rightarrow> JObj (with_defaults ROLE_POLICY_DEFAULTS d) | _ \<Rightarrow> w))"
    by (simp add: dumped_policy_def with_defaults_def POLICY_DEFAULTS_def dict_get_def split: option.splits json.splits)
  show ?thesis unfolding effective_policy_def policy_lease_min_def using assms
    by (simp add: g DEFAULT_MAX_TASK_LEASE_MIN_def split: option.splits json.splits)
qed

section \<open>The workflow\<close>

record decision_figure =
  df_id :: nat
  df_ts :: iso
  df_key :: "string option"
  df_summary :: "string option"
  df_rationale_bytes :: nat

record workflow_figure =
  wf_id :: string
  wf_goal :: "string option"
  wf_goal_bytes :: nat
  wf_status :: "string option"
  wf_created :: iso
  wf_policy :: dict
  wf_policy_defaults :: "string list"
  wf_elapsed_s :: "rat option"
  wf_max_wall :: "json option"
  wf_used_fraction :: "rat option"
  wf_review_tasks :: nat
  wf_review_rounds :: nat
  wf_max_review_rounds :: "json option"
  wf_gate_calls :: nat
  wf_gate_readings :: "gate_reading list"
  wf_merged :: "merged_commit option"
  wf_decisions :: "decision_figure list"
  wf_events :: "(string \<times> nat) list"
  wf_messages :: nat

definition DONE_RATIONALE :: string where
  "DONE_RATIONALE = ''Workflow status set to done''"

text \<open>When the workflow ended: the last decision that closed it, or now.\<close>

definition workflow_end :: "workflow_row \<Rightarrow> decision_row list \<Rightarrow> moment \<Rightarrow> moment" where
  "workflow_end w ds now = (if w_status w = Done then
     (case rev (filter (\<lambda>d. d_rationale d = DONE_RATIONALE) ds) of
        [] \<Rightarrow> now | d # _ \<Rightarrow> parse_timestamp (d_ts d)) else now)"

definition used_fraction :: "rat option \<Rightarrow> json option \<Rightarrow> rat option" where
  "used_fraction elapsed max_wall = (case (elapsed, Option.bind max_wall num_of) of
     (Some s, Some m) \<Rightarrow> if 0 < m then Some (round3 (s / (m * 60))) else None | _ \<Rightarrow> None)"

definition review_rounds :: "task_figure list \<Rightarrow> nat" where
  "review_rounds tfs = length (filter (\<lambda>f. tf_role f = Some ''reviewer'' \<and>
     tf_outcome f = Some ''changes_requested'' \<and> 0 < tf_blocking f) tfs)"

definition decision_figure_of :: "report_host \<Rightarrow> decision_row \<Rightarrow> decision_figure" where
  "decision_figure_of h d = \<lparr>df_id = d_id d, df_ts = d_ts d, df_key = map_option (label_text h 80) (d_key d),
     df_summary = Some (label_text h LABEL_LIMIT (d_summary d)), df_rationale_bytes = length (d_rationale d)\<rparr>"

definition counted :: "string list \<Rightarrow> (string \<times> nat) list" where
  "counted vs = fold (\<lambda>v. count_one (or_text (closed_text v) ''unknown'')) vs []"

definition workflow_figures :: "report_host \<Rightarrow> snapshot \<Rightarrow> task_figure list \<Rightarrow> moment \<Rightarrow> workflow_figure option" where
  "workflow_figures h sn tfs now = (case workflows (sn_db sn) of
     [] \<Rightarrow> None
   | w # ws \<Rightarrow>
       (let (in_force, defaulted) = effective_policy (w_policy w);
            ds = sort_key d_id (decisions (sn_db sn));
            elapsed = seconds_between (Some (parse_timestamp (w_created w))) (Some (workflow_end w ds now));
            max_wall = dict_get ''max_wall_minutes'' in_force
        in Some \<lparr>wf_id = w_id w, wf_goal = Some (label_text h 200 (w_goal w)), wf_goal_bytes = length (w_goal w),
             wf_status = closed_text (workflow_status_value (w_status w)), wf_created = w_created w, wf_policy = in_force,
             wf_policy_defaults = defaulted, wf_elapsed_s = elapsed, wf_max_wall = max_wall,
             wf_used_fraction = used_fraction elapsed max_wall,
             wf_review_tasks = length (filter (\<lambda>f. tf_role f = Some ''reviewer'') tfs),
             wf_review_rounds = review_rounds tfs, wf_max_review_rounds = dict_get ''max_review_rounds'' in_force,
             wf_gate_calls = length (filter (\<lambda>r. c_tool (cr_call r) = ''check_merge_gate'') (sn_calls sn)),
             wf_gate_readings = gate_readings ds, wf_merged = merged_sha ds,
             wf_decisions = map (decision_figure_of h) ds,
             wf_events = sort_key fst (counted (map (\<lambda>e. event_kind_value (e_kind e)) (events (sn_db sn)))),
             wf_messages = length (messages (sn_db sn))\<rparr>))"

section \<open>Totals and the report\<close>

record report_totals =
  to_mcp_sent :: int
  to_mcp_received :: int
  to_context :: int
  to_wire_sent :: int
  to_wire_received :: int
  to_calls :: nat
  to_active :: nat
  to_waiting :: nat
  to_other :: int
  to_heartbeats :: nat
  to_timeouts :: nat
  to_retries :: int
  to_errors :: nat
  to_total_s :: "rat option"
  to_turn_s :: "rat option"
  to_waiting_s :: "rat option"
  to_idle_s :: "rat option"

text \<open>A time that no agent has is not there; the others are added and rounded.\<close>

definition add_times :: "(agent_times \<Rightarrow> rat) \<Rightarrow> agent_figure list \<Rightarrow> rat option" where
  "add_times f afs = (let there = map f (present (map af_times afs))
     in if there = [] then None else Some (round3 (sum_list there)))"

definition totals :: "agent_figure list \<Rightarrow> report_totals" where
  "totals afs = (let add = (\<lambda>f. sum_list (map f afs)); count = (\<lambda>f. sum_list (map f afs)) in
     \<lparr>to_mcp_sent = add af_mcp_sent, to_mcp_received = add af_mcp_received, to_context = add af_context,
      to_wire_sent = add af_wire_sent, to_wire_received = add af_wire_received,
      to_calls = count af_calls, to_active = count af_active, to_waiting = count af_waiting, to_other = add af_other,
      to_heartbeats = count af_heartbeats, to_timeouts = count af_timeouts, to_retries = add af_retries,
      to_errors = count af_errors, to_total_s = add_times at_total afs, to_turn_s = add_times at_turn afs,
      to_waiting_s = add_times at_waiting afs, to_idle_s = add_times at_idle afs\<rparr>)"

definition mcp_total :: "report_totals \<Rightarrow> int" where
  "mcp_total t = to_mcp_sent t + to_mcp_received t"

definition a2a_total :: "report_totals \<Rightarrow> int" where
  "a2a_total t = to_wire_sent t + to_wire_received t"

record report =
  rp_generated_at :: iso
  rp_state_dir :: string
  rp_version :: nat
  rp_telemetry :: "string list"
  rp_labels :: bool
  rp_in_progress :: bool
  rp_notes :: "string list"
  rp_workflow :: "workflow_figure option"
  rp_agents :: "agent_figure list"
  rp_tasks :: "task_figure list"
  rp_totals :: report_totals

definition no_call_log_note :: string where
  "no_call_log_note = ''call_log is empty: the hub ran without HUB_CALL_ACCOUNTING=1, so Alice'' @ [CHR 0x27] @
     ''s MCP bytes are not measured and worker wire bytes come from telemetry (no heartbeats)''"

definition report_notes :: "snapshot \<Rightarrow> string list \<Rightarrow> telemetry \<Rightarrow> bool \<Rightarrow> string list" where
  "report_notes sn paths tm in_progress =
     (if \<not> sn_has_calls sn \<or> sn_calls sn = [] then [no_call_log_note] else []) @
     (if paths = [] then [''no worker telemetry found; pass --telemetry for worker call figures''] else []) @
     (if tm_skipped tm \<noteq> 0 then [show_nat (tm_skipped tm) @ '' unreadable telemetry line(s) skipped''] else []) @
     (if in_progress then [''workflow is not done: open figures run to the report time''] else [])"

text \<open>\<^verbatim>\<open>--no-labels\<close>: the texts Alice writes are left out.\<close>

definition hide_labels :: "workflow_figure \<Rightarrow> workflow_figure" where
  "hide_labels f = f\<lparr>wf_goal := None,
     wf_decisions := map (\<lambda>d. d\<lparr>df_key := None, df_summary := None\<rparr>) (wf_decisions f)\<rparr>"

text \<open>
  \<^verbatim>\<open>build_report\<close> over what was read: the snapshot, the paths and the lines of the telemetry, and the
  text of the manifest if there is one.
\<close>

definition build_report ::
  "report_host \<Rightarrow> string \<Rightarrow> snapshot \<Rightarrow> string list \<Rightarrow> string list \<Rightarrow> string option \<Rightarrow> bool \<Rightarrow> moment \<Rightarrow> report" where
  "build_report h state_dir sn paths all_lines manifest labels now =
     (let tm = read_telemetry h all_lines;
          tfs = task_figures h sn tm now;
          afs = agent_figures sn tm tfs (manifest_workers manifest) now;
          wf = workflow_figures h sn tfs now;
          in_progress = (case wf of None \<Rightarrow> True | Some f \<Rightarrow> wf_status f \<noteq> Some ''done'')
      in \<lparr>rp_generated_at = to_iso now, rp_state_dir = state_dir, rp_version = sn_version sn, rp_telemetry = paths,
          rp_labels = labels, rp_in_progress = in_progress, rp_notes = report_notes sn paths tm in_progress,
          rp_workflow = (if labels then wf else map_option hide_labels wf), rp_agents = afs,
          rp_tasks = (if labels then tfs else map (\<lambda>f. f\<lparr>tf_title := None\<rparr>) tfs), rp_totals = totals afs\<rparr>)"

text \<open>No telemetry line is lost: each is read, or blank, or counted as skipped; here the skipped ones.\<close>

lemma telemetry_line_skips:
  "tm_skipped (fst st) \<le> tm_skipped (fst (telemetry_line h line st)) \<and>
   tm_skipped (fst (telemetry_line h line st)) \<le> tm_skipped (fst st) + 1"
  by (auto simp: telemetry_line_def note_finished_def Let_def split: prod.splits option.splits json.splits)

lemma total_calls_split:
  "int (to_calls (totals afs)) = (\<Sum>f\<leftarrow>afs. int (af_calls f))"
  by (induction afs) (simp_all add: totals_def Let_def)

end
