(* ===== verification/ReportText.thy ===== *)
theory ReportText
  imports ReportWorkflow
begin

text \<open>
  The rendering half of \<^verbatim>\<open>hub-report.py\<close>: cells, tables in plain text and in Markdown, and the whole text.
  The text of a stored timestamp is a parameter (\<open>tt\<close>).
\<close>

section \<open>Cells\<close>

definition two_digits :: "int \<Rightarrow> string" where
  "two_digits n = (if n < 10 then ''0'' @ show_int n else show_int n)"

definition duration_text :: "rat option \<Rightarrow> string" where
  "duration_text v = (case v of None \<Rightarrow> ''-''
     | Some q \<Rightarrow> (let total = round_half_even q; hours = total div 3600; rest = total mod 3600;
                       minutes = rest div 60; secs = rest mod 60
         in (if hours \<noteq> 0 then show_int hours @ ''h'' @ two_digits minutes else show_int minutes)
            @ ''m'' @ two_digits secs @ ''s''))"

definition show_text :: "string option \<Rightarrow> string" where
  "show_text v = or_text v ''-''"

definition show_json :: "(rat \<Rightarrow> string) \<Rightarrow> json option \<Rightarrow> string" where
  "show_json fr v = (case v of None \<Rightarrow> ''-'' | Some JNull \<Rightarrow> ''-'' | Some (JBool b) \<Rightarrow> if b then ''yes'' else ''no''
     | Some w \<Rightarrow> py_str fr (Some w))"

definition or_dash :: "string \<Rightarrow> string" where
  "or_dash s = (if s = [] then ''-'' else s)"

section \<open>Rows\<close>

definition AGENT_HEADER_ROW :: "string list" where
  "AGENT_HEADER_ROW = [''agent'', ''status'', ''calls'', ''active'', ''waiting'', ''other'', ''timeouts'', ''retries'',
     ''MCP sent'', ''MCP recv'', ''A2A sent'', ''A2A recv'', ''turn'', ''waiting'', ''idle'', ''total'']"

definition agent_row_text :: "agent_figure \<Rightarrow> string list" where
  "agent_row_text f =
     [af_name f, if af_name f \<noteq> ''TOTAL'' then
         show_text (if \<not> af_checked_in f then Some ''never checked in'' else af_status f) else [],
      show_nat (af_calls f), show_nat (af_active f), show_nat (af_waiting f), show_int (af_other f),
      show_nat (af_timeouts f), show_int (af_retries f), show_int (af_mcp_sent f), show_int (af_mcp_received f),
      show_int (af_wire_sent f), show_int (af_wire_received f),
      duration_text (map_option at_turn (af_times f)), duration_text (map_option at_waiting (af_times f)),
      duration_text (map_option at_idle (af_times f)), duration_text (map_option at_total (af_times f))]"

definition total_row_text :: "report_totals \<Rightarrow> string list" where
  "total_row_text t =
     [''TOTAL'', [], show_nat (to_calls t), show_nat (to_active t), show_nat (to_waiting t), show_int (to_other t),
      show_nat (to_timeouts t), show_int (to_retries t), show_int (to_mcp_sent t), show_int (to_mcp_received t),
      show_int (to_wire_sent t), show_int (to_wire_received t), duration_text (to_turn_s t),
      duration_text (to_waiting_s t), duration_text (to_idle_s t), duration_text (to_total_s t)]"

definition agent_rows :: "report \<Rightarrow> string list list" where
  "agent_rows r = map agent_row_text (rp_agents r) @ [total_row_text (rp_totals r)]"

definition TASK_HEADER_ROW :: "string list" where
  "TASK_HEADER_ROW = [''task'', ''role'', ''assignee'', ''state'', ''outcome'', ''lease'', ''wall'', ''head'',
     ''questions'', ''progress'', ''title'']"

definition task_row_text :: "task_figure \<Rightarrow> string list" where
  "task_row_text f =
     [py_take 8 (tf_id f), show_text (tf_role f), show_text (tf_assignee f), show_text (tf_state f),
      show_text (tf_outcome f), duration_text (Some (tf_lease_s f)),
      duration_text (tf_wall_s f) @ (if tf_open f then '' (open)'' else []),
      py_take 12 (or_text (or_else (tf_head_sha f) (tf_pr_head_sha f)) ''-''),
      show_nat (tf_questions f), show_nat (tf_progress f), show_text (tf_title f)]"

section \<open>Tables\<close>

definition text_width :: "string \<Rightarrow> nat" where
  "text_width s = length (characters s)"

definition ljust :: "nat \<Rightarrow> string \<Rightarrow> string" where
  "ljust w s = s @ replicate (w - text_width s) (CHR '' '')"

definition column_widths :: "string list \<Rightarrow> string list list \<Rightarrow> nat list" where
  "column_widths header rows = map (\<lambda>i. fold max (map (\<lambda>row. text_width (row ! i)) (header # rows)) 0) [0..<length header]"

definition plain_line :: "nat list \<Rightarrow> string list \<Rightarrow> string" where
  "plain_line widths row = join ''  '' (map (\<lambda>(w, cell). ljust w cell) (zip widths row))"

definition plain_table :: "string list \<Rightarrow> string list list \<Rightarrow> string list" where
  "plain_table header rows =
     (let widths = column_widths header rows
      in map rstrip ([plain_line widths header, join ''  '' (map (\<lambda>w. replicate w (CHR ''-'')) widths)]
           @ map (plain_line widths) rows))"

text \<open>\<^verbatim>\<open>value.replace(old, new)\<close> for a single character.\<close>

definition replace_char :: "char \<Rightarrow> string \<Rightarrow> string \<Rightarrow> string" where
  "replace_char c new s = concat (map (\<lambda>d. if d = c then new else [d]) s)"

definition backslash :: char where "backslash = CHR 0x5C"

definition md_cell :: "string \<Rightarrow> string" where
  "md_cell s = replace_char (CHR ''>'') ''&gt;'' (replace_char (CHR ''<'') ''&lt;'' (replace_char (CHR ''`'') [CHR 0x27]
     (replace_char (CHR ''|'') [backslash, CHR ''|''] (replace_char backslash [backslash, backslash] s))))"

definition md_line :: "string list \<Rightarrow> string" where
  "md_line cells = ''| '' @ join '' | '' cells @ '' |''"

definition md_table :: "string list \<Rightarrow> string list list \<Rightarrow> string list" where
  "md_table header rows = [md_line header, ''|'' @ concat (replicate (length header) ''---|'')] @
     map (\<lambda>row. md_line (map md_cell row)) rows"

section \<open>What a Markdown cell cannot do\<close>

definition md_char :: "char \<Rightarrow> string" where
  "md_char c = (if c = backslash then [backslash, backslash] else if c = CHR ''|'' then [backslash, CHR ''|'']
     else if c = CHR ''`'' then [CHR 0x27] else if c = CHR ''<'' then ''&lt;'' else if c = CHR ''>'' then ''&gt;'' else [c])"

lemma replace_char_append: "replace_char c new (s @ t) = replace_char c new s @ replace_char c new t"
  by (simp add: replace_char_def)

text \<open>The five replacements do not get in each other's way: each character is replaced once.\<close>

lemma md_cell_chars: "md_cell s = concat (map md_char s)"
proof (induction s)
  case Nil
  then show ?case by (simp add: md_cell_def replace_char_def)
next
  case (Cons c s)
  have "md_cell (c # s) = md_cell [c] @ md_cell s"
    using replace_char_append unfolding md_cell_def by (metis append_Cons append_Nil)
  moreover have "md_cell [c] = md_char c"
    by (simp add: md_cell_def md_char_def replace_char_def backslash_def)
  ultimately show ?case using Cons by simp
qed

text \<open>The bars a Markdown reader takes for cell borders: those not behind a backslash.\<close>

fun borders :: "string \<Rightarrow> nat" where
  "borders [] = 0"
| "borders [c] = (if c = CHR ''|'' then 1 else 0)"
| "borders (c # d # s) = (if c = backslash then borders s
     else (if c = CHR ''|'' then 1 else 0) + borders (d # s))"

lemma borders_plain: "c \<noteq> backslash \<Longrightarrow> borders (c # s) = (if c = CHR ''|'' then 1 else 0) + borders s"
  by (cases s) simp_all

lemma borders_md_char: "borders (md_char c @ s) = borders s"
  by (cases "c = backslash \<or> c = CHR ''|'' \<or> c = CHR ''`'' \<or> c = CHR ''<'' \<or> c = CHR ''>''")
     (auto simp: md_char_def borders_plain backslash_def)

lemma borders_md_cell: "borders (md_cell s @ t) = borders t"
  unfolding md_cell_chars by (induction s) (simp_all add: borders_md_char)

lemma borders_md_cells:
  "cells \<noteq> [] \<Longrightarrow> borders (join '' | '' (map md_cell cells) @ t) = length cells - 1 + borders t"
proof (induction cells rule: induct_list012)
  case (3 x y zs)
  have "borders (join '' | '' (map md_cell (x # y # zs)) @ t) = borders ('' | '' @ join '' | '' (map md_cell (y # zs)) @ t)"
    by (simp add: borders_md_cell)
  then show ?case using 3 by (simp add: borders_plain backslash_def)
qed (simp_all add: borders_md_cell)

text \<open>A row of the Markdown table has the cells it was given, whatever their texts hold.\<close>

lemma md_row_borders: "row \<noteq> [] \<Longrightarrow> borders (md_line (map md_cell row)) = length row + 1"
  using borders_md_cells [of row "'' |''"]
  by (cases row) (simp_all add: md_line_def borders_plain backslash_def)

lemma md_cell_no_markup: "set (md_cell s) \<inter> set ''`<>'' = {}"
  unfolding md_cell_chars by (induction s) (auto simp: md_char_def backslash_def split: if_splits)

section \<open>The whole text\<close>

definition headline :: "report \<Rightarrow> string" where
  "headline r = (let t = rp_totals r in
     show_int (mcp_total t + a2a_total t) @ '' body bytes (MCP '' @ show_int (mcp_total t) @ '', A2A '' @
     show_int (a2a_total t) @ '') over '' @ show_nat (to_calls t) @ '' hub calls ('' @ show_nat (to_active t) @ '' active, '' @
     show_nat (to_waiting t) @ '' waiting), '' @ show_nat (to_timeouts t) @ '' timeouts, '' @ show_int (to_retries t) @
     '' retries; agent time '' @ duration_text (to_total_s t) @ '' (turn '' @ duration_text (to_turn_s t) @
     '', waiting '' @ duration_text (to_waiting_s t) @ '')'')"

definition reading_line :: "(iso \<Rightarrow> string) \<Rightarrow> (rat \<Rightarrow> string) \<Rightarrow> gate_reading \<Rightarrow> string" where
  "reading_line tt fr g = ''  - decision '' @ show_nat (gr_decision g) @ '' '' @ tt (gr_ts g) @ '': '' @
     join '', '' (map (\<lambda>(k, v). k @ ''='' @ show_json fr (Some v)) (gr_facts g)) @ '', head='' @
     show_text (or_else (gr_current g) (gr_expected g))"

definition decision_line :: "(iso \<Rightarrow> string) \<Rightarrow> decision_figure \<Rightarrow> string" where
  "decision_line tt d = ''  - '' @ show_nat (df_id d) @ '' '' @ tt (df_ts d) @
     (case df_key d of None \<Rightarrow> [] | Some k \<Rightarrow> if k = [] then [] else '' ['' @ k @ '']'') @ '' '' @
     show_text (df_summary d) @ '' (rationale '' @ show_nat (df_rationale_bytes d) @ '' bytes)''"

definition workflow_lines :: "(iso \<Rightarrow> string) \<Rightarrow> (rat \<Rightarrow> string) \<Rightarrow> workflow_figure option \<Rightarrow> string list" where
  "workflow_lines tt fr w = (case w of
     None \<Rightarrow> [''No workflow initialized yet.'']
   | Some f \<Rightarrow>
       [''id: '' @ wf_id f @ ''   status: '' @ show_text (wf_status f) @ ''   created: '' @ tt (wf_created f),
        ''goal: '' @ show_text (wf_goal f) @ '' ('' @ show_nat (wf_goal_bytes f) @ '' bytes)'',
        ''policy: '' @ dumps fr True (JObj (wf_policy f)) @ (if wf_policy_defaults f = [] then []
           else '' (defaults: '' @ join '', '' (wf_policy_defaults f) @ '')''),
        ''elapsed: '' @ duration_text (wf_elapsed_s f) @ '' of max_wall_minutes '' @ show_json fr (wf_max_wall f) @
          (case wf_used_fraction f of None \<Rightarrow> [] | Some q \<Rightarrow> '' ('' @ show_int (round_half_even (q * 100)) @ ''%)''),
        ''review rounds used: '' @ show_nat (wf_review_rounds f) @ '' of max_review_rounds '' @
          show_json fr (wf_max_review_rounds f) @ '' ('' @ show_nat (wf_review_tasks f) @ '' review task(s))'',
        ''merge gate: '' @ show_nat (wf_gate_calls f) @ '' call(s) in call_log, '' @
          show_nat (length (wf_gate_readings f)) @ '' reading(s) logged''] @
       map (reading_line tt fr) (wf_gate_readings f) @
       [''merged sha: '' @ (case wf_merged f of None \<Rightarrow> ''-''
          | Some m \<Rightarrow> mc_sha m @ '' (decision '' @ show_nat (mc_decision m) @ '' '' @ tt (mc_ts m) @ '')''),
        ''events: '' @ or_dash (join '', '' (map (\<lambda>(k, n). k @ ''='' @ show_nat n) (wf_events f))) @ ''   messages: '' @
          show_nat (wf_messages f),
        ''decisions: '' @ show_nat (length (wf_decisions f))] @
       map (decision_line tt) (wf_decisions f))"

definition UNITS :: string where
  "UNITS = ''Figures are serialized message-body bytes (hub call_log and worker telemetry, #78), not tokens and not billed cost: HTTP headers, TLS/TCP overhead and harness framing are excluded, and the byte-to-token ratio differs per provider.''"

definition CALLS_LEGEND :: string where
  "CALLS_LEGEND = ''calls: model-initiated hub tool calls (heartbeats excluded); active = made while holding an assigned task, waiting = a hold that returned timeout/null event. MCP = tool arguments/results at the model'' @ [CHR 0x27] @ ''s context boundary; A2A = HTTP bodies between worker-mcp and the hub.''"

definition heading :: "bool \<Rightarrow> string \<Rightarrow> string" where
  "heading markdown t = (if markdown then ''### '' @ t else ''== '' @ t @ '' =='')"

text \<open>In Markdown the nested lines keep their indent, the others become bullets.\<close>

definition md_bullet :: "bool \<Rightarrow> string \<Rightarrow> string" where
  "md_bullet markdown line = (if \<not> markdown then line
     else if startswith line ''  - '' then md_cell line else ''- '' @ md_cell line)"

definition render_lines :: "(iso \<Rightarrow> string) \<Rightarrow> (rat \<Rightarrow> string) \<Rightarrow> bool \<Rightarrow> report \<Rightarrow> string list" where
  "render_lines tt fr markdown r =
     (let table = (if markdown then md_table else plain_table);
          title = ''Hub run report'' @ (if rp_in_progress r then '' (in progress)'' else [])
      in [if markdown then ''## '' @ title else title, [], (if markdown then ''> '' else []) @ UNITS, [],
          ''Generated '' @ tt (rp_generated_at r) @ '' from '' @ rp_state_dir r @ '' (schema v'' @ show_nat (rp_version r) @
            ''); telemetry: '' @ (if rp_telemetry r = [] then ''none'' else join '', '' (rp_telemetry r))] @
         map (\<lambda>n. ''- note: '' @ n) (rp_notes r) @
         [[], (if markdown then ''**Total:** '' else ''Total: '') @ headline r, [], heading markdown ''Workflow'', []] @
         map (md_bullet markdown) (workflow_lines tt fr (rp_workflow r)) @
         [[], heading markdown ''Agents'', []] @ table AGENT_HEADER_ROW (agent_rows r) @
         [[], CALLS_LEGEND, [], heading markdown ''Tasks'', []] @
         (if rp_tasks r = [] then [''No tasks yet.''] else table TASK_HEADER_ROW (map task_row_text (rp_tasks r))))"

definition render_text :: "(iso \<Rightarrow> string) \<Rightarrow> (rat \<Rightarrow> string) \<Rightarrow> bool \<Rightarrow> report \<Rightarrow> string" where
  "render_text tt fr markdown r = join [CHR 0x0A] (render_lines tt fr markdown r) @ [CHR 0x0A]"

text \<open>Every row of the two tables is as wide as its header, as \<^verbatim>\<open>zip(strict=True)\<close> demands.\<close>

lemma rows_fit_header:
  "row \<in> set (agent_rows r) \<Longrightarrow> length row = length AGENT_HEADER_ROW"
  "length (task_row_text f) = length TASK_HEADER_ROW"
  by (auto simp: agent_rows_def agent_row_text_def total_row_text_def task_row_text_def AGENT_HEADER_ROW_def TASK_HEADER_ROW_def)

end
