(* ===== verification/RunUrl.thy ===== *)
theory RunUrl
  imports Config HubAccess
begin

text \<open>
  The addresses of a run in \<^verbatim>\<open>prepare-run.py\<close>: what it takes from \<^verbatim>\<open>urlsplit\<close> (scheme, host and port of an
  ASCII URL), loopback and wildcard hosts, and \<^verbatim>\<open>network_settings\<close>.
\<close>

text \<open>A \<^verbatim>\<open>ValueError\<close> with its message; the other exceptions end the command with a traceback.\<close>

datatype run_error = Run_error string | Run_os_error | Run_key_error string | Run_type_error

section \<open>urlsplit\<close>

definition scheme_char :: "char \<Rightarrow> bool" where
  "scheme_char c = (is_alnum c \<or> c \<in> set ''+-.'')"

definition ip_future :: "string \<Rightarrow> bool" where
  "ip_future h = (takeWhile is_hex (drop 1 h) \<noteq> [] \<and>
     (case dropWhile is_hex (drop 1 h) of c # d # r \<Rightarrow> c = CHR ''.'' | _ \<Rightarrow> False))"

definition bracketed_ok :: "host_os \<Rightarrow> string \<Rightarrow> bool" where
  "bracketed_ok os h = (if startswith h ''v'' then ip_future h
     else (case ip_address os h of None \<Rightarrow> False | Some a \<Rightarrow> ip_v6 a))"

text \<open>Scheme and authority; \<open>None\<close> is a \<^verbatim>\<open>ValueError\<close>.\<close>

definition urlsplit :: "host_os \<Rightarrow> string \<Rightarrow> (string \<times> string) option" where
  "urlsplit os s =
     (let url = filter (\<lambda>c. c \<notin> {CHR 0x09, CHR 0x0A, CHR 0x0D}) (dropWhile (\<lambda>c. of_char c \<le> (32 :: nat)) s);
          front = takeWhile (\<lambda>c. c \<noteq> CHR '':'') url;
          schemed = (CHR '':'' \<in> set url \<and> front \<noteq> [] \<and> (is_lower (hd front) \<or> is_upper (hd front)) \<and> list_all scheme_char front);
          rest = (if schemed then drop (length front + 1) url else url);
          netloc = (if startswith rest ''//'' then takeWhile (\<lambda>c. c \<notin> set ''/?#'') (drop 2 rest) else [])
      in if (CHR ''['' \<in> set netloc) \<noteq> (CHR '']'' \<in> set netloc) then None
         else if CHR ''['' \<in> set netloc \<and> \<not> bracketed_ok os (fst (partition_at (CHR '']'') (snd (partition_at (CHR ''['') netloc))))
         then None else Some (if schemed then lower front else [], netloc))"

text \<open>\<^verbatim>\<open>_hostinfo\<close>: the host and the text of the port.\<close>

definition hostinfo :: "string \<Rightarrow> string \<times> string" where
  "hostinfo netloc =
     (let info = rev (takeWhile (\<lambda>c. c \<noteq> CHR ''@'') (rev netloc))
      in if CHR ''['' \<in> set info then
           (case partition_at (CHR '']'') (snd (partition_at (CHR ''['') info)) of
              (host, rest) \<Rightarrow> (host, snd (partition_at (CHR '':'') rest)))
         else partition_at (CHR '':'') info)"

definition hostname_of :: "string \<Rightarrow> string" where
  "hostname_of netloc = (let h = fst (hostinfo netloc)
     in lower (takeWhile (\<lambda>c. c \<noteq> CHR ''%'') h) @ dropWhile (\<lambda>c. c \<noteq> CHR ''%'') h)"

section \<open>Hosts and ports\<close>

definition url_host :: "host_os \<Rightarrow> string \<Rightarrow> string \<Rightarrow> run_error + string" where
  "url_host os url flag = (case urlsplit os url of
     None \<Rightarrow> Inl (Run_error ''Invalid IPv6 URL'')
   | Some (scheme, netloc) \<Rightarrow>
       if scheme \<notin> {''http'', ''https''} \<or> hostname_of netloc = [] then
         Inl (Run_error (flag @ '' must be an http(s) URL with a host, got '' @ repr_str url))
       else Inr (hostname_of netloc))"

definition check_port :: "int \<Rightarrow> string \<Rightarrow> run_error + int" where
  "check_port port flag = (if \<not> (1 \<le> port \<and> port \<le> 65535) then
     Inl (Run_error (flag @ '' must name a port between 1 and 65535, got '' @ show_int port)) else Inr port)"

definition url_port :: "host_os \<Rightarrow> string \<Rightarrow> string \<Rightarrow> run_error + int" where
  "url_port os url flag = (case urlsplit os url of
     None \<Rightarrow> Inl (Run_error ''Invalid IPv6 URL'')
   | Some (scheme, netloc) \<Rightarrow>
       (let p = snd (hostinfo netloc)
        in if p = [] then Inr (if scheme = ''https'' then 443 else 80)
           else if \<not> list_all is_digit p \<or> 65535 < int_of_digits p then
             Inl (Run_error (flag @ '' has an invalid port, got '' @ repr_str url))
           else check_port (int_of_digits p) flag))"

definition host_literal :: "string \<Rightarrow> string" where
  "host_literal host = (if startswith host ''['' \<and> host \<noteq> [] \<and> last host = CHR '']''
     then butlast (drop 1 host) else host)"

text \<open>\<open>loopback\<close> is \<^verbatim>\<open>ip_address(literal).is_loopback\<close>, false where there is no address.\<close>

definition is_loopback :: "(string \<Rightarrow> bool) \<Rightarrow> string \<Rightarrow> bool" where
  "is_loopback loopback host = (lower (host_literal host) = ''localhost'' \<or> loopback (host_literal host))"

definition is_wildcard :: "host_os \<Rightarrow> string \<Rightarrow> bool" where
  "is_wildcard os host = (host_literal host = ''*'' \<or>
     (case ip_address os (host_literal host) of None \<Rightarrow> False | Some a \<Rightarrow> ip_unspecified a))"

section \<open>The network of a run\<close>

record network =
  n_host :: string
  n_port :: int
  n_hub_url :: string
  n_public_url :: string

definition trimmed_url :: "string \<Rightarrow> string" where
  "trimmed_url u = rstrip_char (CHR ''/'') (strip u)"

definition network_settings ::
  "host_os \<Rightarrow> (string \<Rightarrow> bool) \<Rightarrow> string \<Rightarrow> string \<Rightarrow> string option \<Rightarrow> string option \<Rightarrow> int option \<Rightarrow> run_error + network" where
  "network_settings os loopback hub_host hub_url public_url remote hub_port =
     (let host = strip hub_host; dial = trimmed_url hub_url;
          advertised = (case public_url of None \<Rightarrow> dial | Some u \<Rightarrow> trimmed_url u) in
      if host = [] then Inl (Run_error ''--hub-host must not be empty'')
      else ebind (url_host os dial ''--hub-url'') (\<lambda>dial_host.
      ebind (url_port os dial ''--hub-url'') (\<lambda>dial_port.
      ebind (case hub_port of None \<Rightarrow> Inr dial_port | Some p \<Rightarrow> check_port p ''--hub-port'') (\<lambda>port.
      ebind (url_host os advertised ''--public-url'') (\<lambda>advertised_host.
      ebind (url_port os advertised ''--public-url'') (\<lambda>_.
      if is_wildcard os host \<and> (is_loopback loopback advertised_host \<or> is_wildcard os advertised_host) then
        Inl (Run_error (''--hub-host '' @ host @ '' binds every interface, so --public-url (default: --hub-url) must be a dialable non-loopback URL, got '' @ repr_str advertised @ ''; workers cannot dial a bind address''))
      else if \<not> is_loopback loopback dial_host \<and> is_loopback loopback host then
        Inl (Run_error (''--hub-url '' @ dial @ '' is not loopback but --hub-host '' @ host @ '' only binds loopback; pass --hub-host 0.0.0.0 or the address in --hub-url''))
      else if remote \<noteq> None \<and> is_loopback loopback dial_host then
        Inl (Run_error (''--remote-worker '' @ (case remote of None \<Rightarrow> [] | Some r \<Rightarrow> r) @ '' dials --hub-url from another host, so it cannot be loopback ('' @ dial @ ''); pass the hub host'' @ [CHR 0x27] @ ''s address, e.g. http://<wsl-eth0>:'' @ show_int dial_port))
      else Inr \<lparr>n_host = host, n_port = port, n_hub_url = dial, n_public_url = advertised\<rparr>))))))"

lemma check_port_Inr [simp]: "check_port p f = Inr q \<longleftrightarrow> q = p \<and> 1 \<le> p \<and> p \<le> 65535"
  by (auto simp: check_port_def)

lemma url_port_range: "url_port os u f = Inr p \<Longrightarrow> 1 \<le> p \<and> p \<le> 65535"
  by (auto simp: url_port_def Let_def split: option.splits prod.splits if_splits)

lemma url_host_scheme:
  "url_host os u f = Inr h \<Longrightarrow> \<exists>scheme netloc. urlsplit os u = Some (scheme, netloc) \<and> scheme \<in> {''http'', ''https''} \<and> h \<noteq> []"
  by (auto simp: url_host_def split: option.splits prod.splits if_splits)

text \<open>What an accepted network guarantees: the ports, that a hub others dial does not bind loopback, and that the
  advertised address of a wildcard bind can be dialed.\<close>

lemma network_settings_Inr:
  assumes "network_settings os loopback hub_host hub_url public_url remote hub_port = Inr n"
  shows "1 \<le> n_port n \<and> n_port n \<le> 65535"
    and "n_host n = strip hub_host \<and> n_host n \<noteq> []"
    and "n_hub_url n = trimmed_url hub_url"
    and "n_public_url n = (case public_url of None \<Rightarrow> trimmed_url hub_url | Some u \<Rightarrow> trimmed_url u)"
    and "\<exists>dial. url_host os (n_hub_url n) ''--hub-url'' = Inr dial \<and> (is_loopback loopback (n_host n) \<or> remote \<noteq> None \<longrightarrow>
      (is_loopback loopback (n_host n) \<longrightarrow> is_loopback loopback dial) \<and> (remote \<noteq> None \<longrightarrow> \<not> is_loopback loopback dial))"
    and "\<exists>a. url_host os (n_public_url n) ''--public-url'' = Inr a \<and>
      (is_wildcard os (n_host n) \<longrightarrow> \<not> is_loopback loopback a \<and> \<not> is_wildcard os a)"
  using assms
  by (auto simp: network_settings_def Let_def split: if_splits option.splits dest: url_port_range)

end
