(* ===== verification/JsonLayout.thy ===== *)
theory JsonLayout
  imports JsonRoundtrip Dumps
begin

text \<open>
  \<^verbatim>\<open>json.dumps\<close> with its default separators and with \<^verbatim>\<open>indent=2\<close>, read back by \<^verbatim>\<open>json.loads\<close>: both are
  spellings of the value with white space between its tokens, and the reader takes every such spelling.
\<close>

section \<open>Indented text\<close>

definition indent_break :: "nat \<Rightarrow> string" where
  "indent_break n = CHR 0x0A # replicate (2 * n) (CHR '' '')"

text \<open>\<^verbatim>\<open>json.dumps(value, indent=2, sort_keys=srt)\<close> inside \<open>n\<close> levels.\<close>

fun pretty :: "(rat \<Rightarrow> string) \<Rightarrow> bool \<Rightarrow> nat \<Rightarrow> json \<Rightarrow> string"
and pretty_list :: "(rat \<Rightarrow> string) \<Rightarrow> bool \<Rightarrow> nat \<Rightarrow> json list \<Rightarrow> string list"
and pretty_items :: "(rat \<Rightarrow> string) \<Rightarrow> bool \<Rightarrow> nat \<Rightarrow> dict \<Rightarrow> (string \<times> string) list" where
  "pretty fr srt n JNull = ''null''"
| "pretty fr srt n (JBool b) = (if b then ''true'' else ''false'')"
| "pretty fr srt n (JInt i) = show_int i"
| "pretty fr srt n (JFloat q) = fr q"
| "pretty fr srt n (JStr s) = ascii_quote s"
| "pretty fr srt n (JList xs) = (if xs = [] then ''[]'' else
     ''['' @ indent_break (Suc n) @ join ('','' @ indent_break (Suc n)) (pretty_list fr srt (Suc n) xs) @ indent_break n @ '']'')"
| "pretty fr srt n (JObj d) = (if d = [] then ''{}'' else
     ''{'' @ indent_break (Suc n) @ join ('','' @ indent_break (Suc n)) (map (\<lambda>(k, t). ascii_quote k @ '': '' @ t)
       (if srt then sort_key fst (pretty_items fr srt (Suc n) d) else pretty_items fr srt (Suc n) d)) @ indent_break n @ ''}'')"
| "pretty_list fr srt n [] = []"
| "pretty_list fr srt n (x # xs) = pretty fr srt n x # pretty_list fr srt n xs"
| "pretty_items fr srt n [] = []"
| "pretty_items fr srt n ((k, v) # d) = (k, pretty fr srt n v) # pretty_items fr srt n d"

section \<open>Spellings of a value\<close>

definition blank :: "string \<Rightarrow> bool" where
  "blank w = list_all json_space w"

definition quoted :: "string \<Rightarrow> string" where
  "quoted s = [CHR 0x22] @ s @ [CHR 0x22]"

inductive spells :: "json \<Rightarrow> string \<Rightarrow> bool"
and elements :: "json list \<Rightarrow> string \<Rightarrow> bool"
and members :: "dict \<Rightarrow> string \<Rightarrow> bool" where
  Null: "spells JNull ''null''"
| Bool: "spells (JBool b) (if b then ''true'' else ''false'')"
| Int: "spells (JInt i) (show_int i)"
| Str: "list_all plain_char s \<Longrightarrow> spells (JStr s) (quoted s)"
| Empty_list: "spells (JList []) ''[]''"
| List: "elements xs t \<Longrightarrow> blank w \<Longrightarrow> spells (JList xs) (CHR 0x5B # w @ t @ [CHR 0x5D])"
| Empty_object: "spells (JObj []) ''{}''"
| Object: "members d t \<Longrightarrow> blank w \<Longrightarrow> distinct (map fst d) \<Longrightarrow> spells (JObj d) (CHR 0x7B # w @ t @ [CHR 0x7D])"
| Last_element: "spells v t \<Longrightarrow> blank w \<Longrightarrow> elements [v] (t @ w)"
| Element: "spells v t \<Longrightarrow> blank w \<Longrightarrow> elements vs u \<Longrightarrow> elements (v # vs) (t @ CHR '','' # w @ u)"
| Last_member: "list_all plain_char k \<Longrightarrow> spells v t \<Longrightarrow> blank b \<Longrightarrow> blank w \<Longrightarrow>
    members [(k, v)] (quoted k @ CHR '':'' # b @ t @ w)"
| Member: "list_all plain_char k \<Longrightarrow> spells v t \<Longrightarrow> blank b \<Longrightarrow> blank w \<Longrightarrow> members d u \<Longrightarrow>
    members ((k, v) # d) (quoted k @ CHR '':'' # b @ t @ CHR '','' # w @ u)"

lemma blank_simps [simp]: "blank []" "blank (c # w) \<longleftrightarrow> json_space c \<and> blank w" "blank (v @ w) \<longleftrightarrow> blank v \<and> blank w"
  by (simp_all add: blank_def)

lemma blank_indent_break [simp]: "blank (indent_break n)"
  by (simp add: blank_def indent_break_def list_all_iff json_space_def)

lemma skip_blank: "blank w \<Longrightarrow> skip_ws (w @ s) = skip_ws s"
  by (induction w) (simp_all add: skip_ws_def)

lemma ends_number_blank: "blank w \<Longrightarrow> ends_number r \<Longrightarrow> ends_number (w @ r)"
proof (cases w)
  case (Cons c q)
  moreover assume "blank w"
  ultimately have "json_space c" by simp
  moreover have "list_all (\<lambda>c. \<not> is_digit c \<and> c \<noteq> CHR ''.'' \<and> c \<noteq> CHR ''e'' \<and> c \<noteq> CHR ''E'')
      [CHR '' '', CHR 0x0A, CHR 0x0D, CHR 0x09]" by code_simp
  ultimately show ?thesis using Cons by (auto simp: ends_number_def json_space_def)
qed simp

lemma read_string_plain: "list_all plain_char s \<Longrightarrow> read_string (s @ CHR 0x22 # r) = Some (s, r)"
proof (induction s)
  case (Cons c s)
  then have c: "plain_char c" by simp
  have "c \<noteq> CHR 0x22" "c \<noteq> CHR 0x5C" "\<not> control c" using c by (auto simp: plain_char_def control_def Let_def)
  with Cons show ?case by simp
qed simp

lemma spells_head:
  "spells v t \<Longrightarrow> \<exists>c q. t = c # q \<and> \<not> json_space c \<and> c \<noteq> CHR 0x5D"
  "elements vs t \<Longrightarrow> \<exists>c q. t = c # q \<and> \<not> json_space c \<and> c \<noteq> CHR 0x5D"
  "members d t \<Longrightarrow> \<exists>q. t = CHR 0x22 # q"
proof (induction rule: spells_elements_members.inducts)
  case (Int i)
  obtain c q where c: "show_int i = c # q" "is_digit c \<or> c = CHR ''-''" using show_int_head by blast
  have "\<not> json_space c \<and> c \<noteq> CHR 0x5D" using c(2)
  proof
    assume "is_digit c"
    with digit_heads [of c] show ?thesis by (simp add: json_space_def)
  qed (simp add: json_space_def)
  with c(1) show ?case by simp
next
  case (Last_element v t w)
  then obtain c q where "t = c # q" "\<not> json_space c" "c \<noteq> CHR 0x5D" by blast
  then show ?case by simp
next
  case (Element v t w vs u)
  then obtain c q where "t = c # q" "\<not> json_space c" "c \<noteq> CHR 0x5D" by blast
  then show ?case by simp
qed (simp_all add: json_space_def quoted_def)

lemma read_spelling:
  "spells v t \<Longrightarrow> 2 * length t \<le> n \<Longrightarrow> ends_number r \<Longrightarrow> read_value n (t @ r) = Some (v, r)"
  "elements vs t \<Longrightarrow> 2 * length t + 1 \<le> n \<Longrightarrow> read_elements n (t @ CHR 0x5D # r) = Some (vs, r)"
  "members d t \<Longrightarrow> 2 * length t + 1 \<le> n \<Longrightarrow> distinct (map fst (acc @ d)) \<Longrightarrow>
     read_members n acc (t @ CHR 0x7D # r) = Some (acc @ d, r)"
proof (induction arbitrary: n r and n r and n r acc rule: spells_elements_members.inducts)
  case Null
  then show ?case by (cases n) (simp_all add: read_word_def startswith_def)
next
  case (Bool b)
  then show ?case by (cases n) (auto simp: read_word_def startswith_def split: if_splits)
next
  case (Int i)
  then show ?case using read_value_int by (cases n) simp_all
next
  case (Str s)
  then show ?case using read_string_plain by (cases n) (simp_all add: quoted_def)
next
  case Empty_list
  then show ?case by (cases n) simp_all
next
  case Empty_object
  then show ?case by (cases n) simp_all
next
  case (List xs t w)
  obtain m where n: "n = Suc m" using List.prems(1) by (cases n) simp_all
  obtain c q where c: "t = c # q" "\<not> json_space c" "c \<noteq> CHR 0x5D" using spells_head(2) List.hyps(1) by blast
  have "read_elements m (t @ CHR 0x5D # r) = Some (xs, r)" by (rule List.IH) (use List.prems n in simp)
  then show ?case using c List.hyps(2) by (simp add: n skip_blank)
next
  case (Object d t w)
  obtain m where n: "n = Suc m" using Object.prems(1) by (cases n) simp_all
  obtain q where c: "t = CHR 0x22 # q" using spells_head(3) Object.hyps(1) by blast
  have "read_members m [] (t @ CHR 0x7D # r) = Some ([] @ d, r)"
    by (rule Object.IH) (use Object.prems Object.hyps n in simp_all)
  then show ?case using c Object.hyps(2) by (simp add: n skip_blank)
next
  case (Last_element v t w)
  obtain m where n: "n = Suc m" using Last_element.prems(1) by (cases n) simp_all
  have "read_value m (t @ w @ CHR 0x5D # r) = Some (v, w @ CHR 0x5D # r)"
    by (rule Last_element.IH) (use Last_element n in \<open>simp_all add: ends_number_blank\<close>)
  then show ?case using Last_element.hyps by (simp add: n skip_blank)
next
  case (Element v t w vs u)
  obtain m where n: "n = Suc m" using Element.prems(1) by (cases n) simp_all
  have "read_value m (t @ CHR '','' # w @ u @ CHR 0x5D # r) = Some (v, CHR '','' # w @ u @ CHR 0x5D # r)"
    by (rule Element.IH(1)) (use Element n in simp_all)
  moreover have "read_elements m (u @ CHR 0x5D # r) = Some (vs, r)"
    by (rule Element.IH(2)) (use Element n in simp)
  moreover obtain c q where "u = c # q" "\<not> json_space c" using spells_head(2) Element.hyps by blast
  ultimately show ?case using Element.hyps by (simp add: n skip_blank)
next
  case (Last_member k v t b w)
  obtain m where n: "n = Suc m" using Last_member.prems(1) by (cases n) simp_all
  have k: "k \<notin> fst ` set acc" using Last_member.prems(2) by auto
  have "read_value m (t @ w @ CHR 0x7D # r) = Some (v, w @ CHR 0x7D # r)"
    by (rule Last_member.IH) (use Last_member n in \<open>simp_all add: ends_number_blank\<close>)
  moreover obtain c q where "t = c # q" "\<not> json_space c" using spells_head(1) Last_member.hyps by blast
  ultimately show ?case using Last_member.hyps
    by (simp add: n quoted_def read_string_plain skip_blank dict_set_new [OF k])
next
  case (Member k v t b w d u)
  obtain m where n: "n = Suc m" using Member.prems(1) by (cases n) simp_all
  have k: "k \<notin> fst ` set acc" using Member.prems(2) by auto
  have "read_value m (t @ CHR '','' # w @ u @ CHR 0x7D # r) = Some (v, CHR '','' # w @ u @ CHR 0x7D # r)"
    by (rule Member.IH(1)) (use Member n in simp_all)
  moreover have "read_members m (acc @ [(k, v)]) (u @ CHR 0x7D # r) = Some ((acc @ [(k, v)]) @ d, r)"
    by (rule Member.IH(2)) (use Member n in simp_all)
  moreover obtain c q where "t = c # q" "\<not> json_space c" using spells_head(1) Member.hyps by blast
  moreover obtain q' where "u = CHR 0x22 # q'" using spells_head(3) Member.hyps by blast
  ultimately show ?case using Member.hyps
    by (simp add: n quoted_def read_string_plain skip_blank dict_set_new [OF k])
qed

lemma loads_spelling: "spells v t \<Longrightarrow> blank w \<Longrightarrow> loads (t @ w) = Some v"
proof -
  assume s: "spells v t" and w: "blank w"
  obtain c q where c: "t = c # q" "\<not> json_space c" using spells_head(1) [OF s] by blast
  then have h: "skip_ws (t @ w) = t @ w" by simp
  have "read_value (2 * length (t @ w) + 2) (t @ w) = Some (v, w)"
    by (rule read_spelling(1) [OF s]) (use ends_number_blank [OF w, of "[]"] in simp_all)
  then show ?thesis using skip_blank [OF w, of "[]"] by (simp add: loads_def h)
qed

section \<open>The writers spell the value\<close>

text \<open>Values without floats, of printable ASCII without quote or backslash, with distinct keys.\<close>

fun plain :: "json \<Rightarrow> bool"
and plain_list :: "json list \<Rightarrow> bool"
and plain_items :: "dict \<Rightarrow> bool" where
  "plain (JFloat q) = False"
| "plain (JStr s) = list_all plain_char s"
| "plain (JList xs) = plain_list xs"
| "plain (JObj d) = (distinct (map fst d) \<and> plain_items d)"
| "plain _ = True"
| "plain_list [] = True"
| "plain_list (x # xs) = (plain x \<and> plain_list xs)"
| "plain_items [] = True"
| "plain_items ((k, v) # d) = (list_all plain_char k \<and> plain v \<and> plain_items d)"

text \<open>The value with the items of every object in the order of their keys.\<close>

fun in_order :: "bool \<Rightarrow> json \<Rightarrow> json"
and in_order_list :: "bool \<Rightarrow> json list \<Rightarrow> json list"
and in_order_items :: "bool \<Rightarrow> dict \<Rightarrow> dict" where
  "in_order srt (JList xs) = JList (in_order_list srt xs)"
| "in_order srt (JObj d) = JObj (if srt then sort_key fst (in_order_items srt d) else in_order_items srt d)"
| "in_order srt v = v"
| "in_order_list srt [] = []"
| "in_order_list srt (x # xs) = in_order srt x # in_order_list srt xs"
| "in_order_items srt [] = []"
| "in_order_items srt ((k, v) # d) = (k, in_order srt v) # in_order_items srt d"

lemma spells_Bool: "spells (JBool True) ''true''" "spells (JBool False) ''false''"
  using Bool [of True] Bool [of False] by simp_all

lemma ascii_quote_plain: "list_all plain_char s \<Longrightarrow> ascii_quote s = quoted s"
  by (subst ascii_quote_code) (simp add: quoted_def)

definition item_spells :: "string \<times> json \<Rightarrow> string \<times> string \<Rightarrow> bool" where
  "item_spells kv kt = (fst kv = fst kt \<and> list_all plain_char (fst kv) \<and> spells (snd kv) (snd kt))"

lemma elements_join:
  "list_all2 spells vs ts \<Longrightarrow> vs \<noteq> [] \<Longrightarrow> blank w \<Longrightarrow> blank e \<Longrightarrow> elements vs (join (CHR '','' # w) ts @ e)"
proof (induction vs ts rule: list_all2_induct)
  case (Cons v vs t ts)
  then show ?case by (cases ts) (auto intro: Last_element Element [of v t w vs, simplified])
qed simp

lemma members_join:
  "list_all2 item_spells d ts \<Longrightarrow> d \<noteq> [] \<Longrightarrow> blank w \<Longrightarrow> blank e \<Longrightarrow> blank b \<Longrightarrow>
     members d (join (CHR '','' # w) (map (\<lambda>(k, t). ascii_quote k @ CHR '':'' # b @ t) ts) @ e)"
proof (induction d ts rule: list_all2_induct)
  case (Cons kv d kt ts)
  obtain k v t where k: "kv = (k, v)" "kt = (k, t)" "list_all plain_char k" "spells v t"
    using Cons.hyps(1) by (cases kv; cases kt) (auto simp: item_spells_def)
  show ?case
  proof (cases ts)
    case Nil
    then show ?thesis using Cons k Last_member [of k v t b e] by (simp add: ascii_quote_plain)
  next
    case (Cons x xs)
    then show ?thesis using Cons.prems Cons.hyps(2) Cons.IH k Member [of k v t b w d]
      by (cases d) (auto simp: ascii_quote_plain)
  qed
qed simp

lemma insort_related:
  assumes "\<And>a b. R a b \<Longrightarrow> fst a = fst b"
  shows "list_all2 R xs ys \<Longrightarrow> R x y \<Longrightarrow> list_all2 R (insort_key fst x xs) (insort_key fst y ys)"
  by (induction xs ys rule: list_all2_induct) (use assms in auto)

lemma sort_related:
  assumes "\<And>a b. R a b \<Longrightarrow> fst a = fst b"
  shows "list_all2 R xs ys \<Longrightarrow> list_all2 R (sort_key fst xs) (sort_key fst ys)"
  by (induction xs ys rule: list_all2_induct) (simp_all add: insort_related assms)

lemma keys_in_order [simp]: "map fst (in_order_items srt d) = map fst d"
  by (induction d) auto

lemma distinct_sorted_keys: "distinct (map fst d) \<Longrightarrow> distinct (map fst (sort_key fst d))"
  by (metis distinct_map distinct_sort set_sort)

lemma item_spells_key: "item_spells a b \<Longrightarrow> fst a = fst b"
  by (simp add: item_spells_def)

lemma related_sorted:
  "list_all2 item_spells d ts \<Longrightarrow>
   list_all2 item_spells (if srt then sort_key fst d else d) (if srt then sort_key fst ts else ts)"
  using sort_related [of item_spells d ts] item_spells_key by auto

lemma in_order_items_Nil [simp]: "in_order_items srt d = [] \<longleftrightarrow> d = []" "in_order_list srt xs = [] \<longleftrightarrow> xs = []"
  by (cases d; auto) (cases xs; auto)

lemma sort_key_Nil [simp]: "(if srt then sort_key fst d else d) = [] \<longleftrightarrow> d = []"
  by (metis length_0_conv length_sort)

lemma object_spelling:
  assumes "list_all2 item_spells (in_order_items srt d) ts" "d \<noteq> []" "distinct (map fst d)" "blank w" "blank b" "blank e" "blank w'"
  shows "spells (in_order srt (JObj d)) (CHR 0x7B # e @ (join (CHR '','' # w) (map (\<lambda>(k, t). ascii_quote k @ CHR '':'' # b @ t)
     (if srt then sort_key fst ts else ts)) @ w' @ [CHR 0x7D]))"
proof -
  have "members (if srt then sort_key fst (in_order_items srt d) else in_order_items srt d)
     (join (CHR '','' # w) (map (\<lambda>(k, t). ascii_quote k @ CHR '':'' # b @ t) (if srt then sort_key fst ts else ts)) @ w')"
    by (rule members_join [OF related_sorted [OF assms(1)]]) (use assms in simp_all)
  from Object [OF this assms(6)] show ?thesis
    using distinct_sorted_keys [of "in_order_items srt d"] assms(3) by (cases srt) simp_all
qed

lemma pretty_spells:
  "plain v \<Longrightarrow> spells (in_order srt v) (pretty fr srt n v)"
  "plain_list xs \<Longrightarrow> list_all2 spells (in_order_list srt xs) (pretty_list fr srt n xs)"
  "plain_items d \<Longrightarrow> list_all2 item_spells (in_order_items srt d) (pretty_items fr srt n d)"
proof (induction fr srt n v and fr srt n xs and fr srt n d rule: pretty_pretty_list_pretty_items.induct)
  case (6 fr srt n xs)
  show ?case
  proof (cases "xs = []")
    case False
    have "elements (in_order_list srt xs)
        (join (CHR '','' # indent_break (Suc n)) (pretty_list fr srt (Suc n) xs) @ indent_break n)"
      by (rule elements_join) (use 6 False in simp_all)
    from List [OF this blank_indent_break] False show ?thesis by simp
  qed (simp add: Empty_list)
next
  case (7 fr srt n d)
  show ?case
  proof (cases "d = []")
    case False
    have "list_all2 item_spells (in_order_items srt d) (pretty_items fr srt (Suc n) d)" using 7 False by (cases srt) simp_all
    from object_spelling [OF this False, of "indent_break (Suc n)" "'' ''" "indent_break (Suc n)" "indent_break n"] 7 False
    show ?thesis by (cases srt) (simp_all add: json_space_def)
  qed (simp add: Empty_object)
qed (auto intro: spells_elements_members.intros spells_Bool simp: ascii_quote_plain item_spells_def simp del: list.rel_sel)

lemma dumps_spells:
  "plain v \<Longrightarrow> spells (in_order srt v) (dumps fr srt v)"
  "plain_list xs \<Longrightarrow> list_all2 spells (in_order_list srt xs) (dumps_list fr srt xs)"
  "plain_items d \<Longrightarrow> list_all2 item_spells (in_order_items srt d) (dumps_items fr srt d)"
proof (induction fr srt v and fr srt xs and fr srt d rule: dumps_dumps_list_dumps_items.induct)
  case (6 fr srt xs)
  show ?case
  proof (cases "xs = []")
    case False
    have "elements (in_order_list srt xs) (join (CHR '','' # '' '') (dumps_list fr srt xs) @ [])"
      by (rule elements_join) (use 6 False in \<open>simp_all add: json_space_def\<close>)
    from List [OF this, of "[]"] False show ?thesis by simp
  qed (simp add: Empty_list)
next
  case (7 fr srt d)
  show ?case
  proof (cases "d = []")
    case False
    have "list_all2 item_spells (in_order_items srt d) (dumps_items fr srt d)" using 7 by (cases srt) simp_all
    from object_spelling [OF this False, of "'' ''" "'' ''" "[]" "[]"] 7 False show ?thesis
      by (cases srt) (simp_all add: json_space_def)
  qed (simp add: Empty_object)
qed (auto intro: spells_elements_members.intros spells_Bool simp: ascii_quote_plain item_spells_def simp del: list.rel_sel)

lemma loads_pretty: "plain v \<Longrightarrow> loads (pretty fr srt n v @ [CHR 0x0A]) = Some (in_order srt v)"
  by (rule loads_spelling [OF pretty_spells(1)]) (simp_all add: json_space_def)

lemma in_order_False:
  "in_order False v = v" "in_order_list False xs = xs" "in_order_items False d = d"
  by (induction False v and False xs and False d rule: in_order_in_order_list_in_order_items.induct) simp_all

lemma loads_dumps: "plain v \<Longrightarrow> blank w \<Longrightarrow> loads (dumps fr False v @ w) = Some v"
  using loads_spelling [OF dumps_spells(1) [of v False fr]] by (simp add: in_order_False)

lemma dict_get_sorted: "distinct (map fst d) \<Longrightarrow> dict_get k (sort_key fst d) = dict_get k d"
  using map_of_inject_set [of "sort_key fst d" d] distinct_sorted_keys [of d] by (simp add: dict_get_def)

lemma dict_get_in_order: "dict_get k (in_order_items srt d) = map_option (in_order srt) (dict_get k d)"
  by (induction d) auto

end
