(* ===== verification/RunRender.thy ===== *)
theory RunRender
  imports RunUrl WorkerHttp DiffLines JsonLayout Policy
begin

text \<open>
  The texts of a prepared run (\<^verbatim>\<open>prepare-run.py\<close>, \<^verbatim>\<open>run_common.py\<close>): the environments of the hub and the
  workers, the MCP configurations, the prompts, the policy, and the commands to paste. \<open>windows\<close> is
  \<^verbatim>\<open>os.name == "nt"\<close>; paths are written with forward slashes.
\<close>

section \<open>Text\<close>

text \<open>\<^verbatim>\<open>s.replace(old, new)\<close> for a non-empty \<open>old\<close>.\<close>

function (sequential) replace_all :: "string \<Rightarrow> string \<Rightarrow> string \<Rightarrow> string" where
  "replace_all old new [] = []"
| "replace_all old new (c # s) = (if old \<noteq> [] \<and> startswith (c # s) old
     then new @ replace_all old new (drop (length old) (c # s)) else c # replace_all old new s)"
  by pat_completeness auto
termination by (relation "measure (\<lambda>(old, new, s). length s)") (auto simp: neq_Nil_conv)

text \<open>\<^verbatim>\<open>s.index(p, start)\<close>\<close>

fun index_of :: "string \<Rightarrow> string \<Rightarrow> nat option" where
  "index_of p [] = (if p = [] then Some 0 else None)"
| "index_of p (c # s) = (if startswith (c # s) p then Some 0 else map_option Suc (index_of p s))"

definition removesuffix :: "string \<Rightarrow> string \<Rightarrow> string" where
  "removesuffix suf s = (if suf \<noteq> [] \<and> startswith (rev s) (rev suf) then take (length s - length suf) s else s)"

definition dquoted :: "string \<Rightarrow> string" where
  "dquoted s = [CHR 0x22] @ s @ [CHR 0x22]"

definition squoted :: "string \<Rightarrow> string" where
  "squoted s = [CHR 0x27] @ s @ [CHR 0x27]"

section \<open>Environments\<close>

text \<open>What the texts of a run are about; an environment is written in the order of its entries.\<close>

type_synonym file_path = string
type_synonym web_address = string
type_synonym worker_name = string
type_synonym variables = "(string \<times> string) list"

definition DEFAULT_HUB_HOST :: string where "DEFAULT_HUB_HOST = ''127.0.0.1''"

definition DEFAULT_HUB_PORT :: int where "DEFAULT_HUB_PORT = 8420"

definition DEFAULT_HUB_URL :: string where "DEFAULT_HUB_URL = ''http://127.0.0.1:8420''"

definition worker_env ::
  "worker_name \<Rightarrow> string \<Rightarrow> string \<Rightarrow> string \<Rightarrow> string \<Rightarrow> string \<Rightarrow> file_path \<Rightarrow> string \<Rightarrow> file_path \<Rightarrow> web_address \<Rightarrow> variables" where
  "worker_env name harness_name version prov mdl caps workspace token telemetry_path hub_url =
     [(''HUB_URL'', hub_url), (''HUB_TOKEN'', token), (''AGENT_NAME'', name), (''HUB_WORKSPACE'', workspace),
      (''HUB_HARNESS'', harness_name), (''HUB_HARNESS_VERSION'', version), (''HUB_PROVIDER'', prov), (''HUB_MODEL'', mdl),
      (''HUB_CAPABILITIES'', caps), (''HUB_TELEMETRY_LOG'', telemetry_path), (''PYTHONUTF8'', ''1'')]"

definition hub_env ::
  "file_path \<Rightarrow> string \<Rightarrow> file_path \<Rightarrow> network \<Rightarrow> variables" where
  "hub_env state_dir token guides n =
     [(''HUB_STATE_DIR'', state_dir), (''HUB_TOKEN'', token), (''HUB_PUBLIC_URL'', n_public_url n), (''HUB_GUIDES_DIR'', guides),
      (''PYTHONUTF8'', ''1'')] @
     (if n_host n \<noteq> DEFAULT_HUB_HOST then [(''HUB_HOST'', n_host n)] else []) @
     (if n_port n \<noteq> DEFAULT_HUB_PORT then [(''HUB_PORT'', show_int (n_port n))] else [])"

section \<open>Configurations and prompts\<close>

definition TOOLS :: "string list" where
  "TOOLS = [''check_in'', ''get_role_guide'', ''await_assignment'', ''report_progress'', ''ask_alice'', ''submit_result'']"

definition json_strs :: "string list \<Rightarrow> string" where
  "json_strs xs = dumps (\<lambda>_. []) False (strs xs)"

definition newline :: string where "newline = [CHR 0x0A]"

definition codex_mcp ::
  "string \<Rightarrow> string list \<Rightarrow> variables \<Rightarrow> string list \<Rightarrow> nat \<Rightarrow> string" where
  "codex_mcp program args vars tools timeout =
     ''[mcp_servers.hub]'' @ newline @ ''command = '' @ dquoted program @ newline @
     ''args = '' @ json_strs args @ newline @
     ''startup_timeout_sec = 120'' @ newline @ ''tool_timeout_sec = '' @ show_nat timeout @ newline @
     ''enabled_tools = '' @ json_strs tools @ newline @
     ''env = { '' @ join '', '' (map (\<lambda>(k, v). k @ '' = '' @ dumps (\<lambda>_. []) False (JStr v)) vars) @ '' }'' @ newline @
     concat (map (\<lambda>t. newline @ ''[mcp_servers.hub.tools.'' @ t @ '']'' @ newline @ ''approval_mode = '' @ dquoted ''approve'' @ newline) tools)"

definition codex_sandbox :: "bool \<Rightarrow> string" where
  "codex_sandbox windows = ''sandbox_mode = '' @ dquoted ''workspace-write'' @ newline @
     (if windows then ''[windows]'' @ newline @ ''sandbox = '' @ dquoted ''unelevated'' @ newline else []) @
     ''[sandbox_workspace_write]'' @ newline @ ''network_access = true'' @ newline"

text \<open>\<open>reference_tools\<close> are the tools of the checked-in template.\<close>

definition render_codex_config ::
  "bool \<Rightarrow> string list \<Rightarrow> variables \<Rightarrow> string list \<Rightarrow> run_error + string" where
  "render_codex_config windows reference_tools vars worker_args =
     (if sort reference_tools \<noteq> sort TOOLS then
        Inl (Run_error ''runtimes/codex.config.toml tools drifted from the shared TOOLS list'')
      else Inr (codex_sandbox windows @ codex_mcp ''uv'' worker_args vars TOOLS 330))"

definition env_json ::
  "variables \<Rightarrow> json" where
  "env_json vars = JObj (map (\<lambda>(k, v). (k, JStr v)) vars)"

text \<open>The checked-in template with the arguments and the environment of its hub entry replaced.\<close>

definition render_claude_mcp ::
  "dict \<Rightarrow> file_path \<Rightarrow> variables \<Rightarrow> run_error + dict" where
  "render_claude_mcp template directory vars = (case dict_get ''mcpServers'' template of
     Some (JObj servers) \<Rightarrow> (case dict_get ''hub'' servers of
         Some (JObj hub) \<Rightarrow> Inr (dict_set ''mcpServers'' (JObj (dict_set ''hub'' (JObj (dict_merge hub
           [(''args'', strs [''run'', ''--locked'', ''--directory'', directory, ''worker-mcp'']), (''env'', env_json vars)]))
           servers)) template)
       | None \<Rightarrow> Inl (Run_key_error ''hub'') | _ \<Rightarrow> Inl Run_type_error)
   | None \<Rightarrow> Inl (Run_key_error ''mcpServers'') | _ \<Rightarrow> Inl Run_type_error)"

definition AGENT_MARK :: string where "AGENT_MARK = ''$AGENT_NAME''"

definition render_worker_prompt :: "string \<Rightarrow> string \<Rightarrow> run_error + string" where
  "render_worker_prompt template agent = (let s = replace_all AGENT_MARK agent template in
     if contains s AGENT_MARK then Inl (Run_error ''worker prompt still contains $AGENT_NAME after rendering'') else Inr s)"

definition VERSION_COMMANDS :: "(string \<times> string) list" where
  "VERSION_COMMANDS = [(''claude-code'', ''claude''), (''codex'', ''codex''), (''opencode'', ''opencode''), (''gemini'', ''gemini'')]"

definition PROVIDERS :: "(string \<times> string) list" where
  "PROVIDERS = [(''claude-code'', ''anthropic''), (''codex'', ''openai''), (''gemini'', ''google'')]"

definition words_of :: "string \<Rightarrow> string list" where
  "words_of s = filter (\<lambda>w. w \<noteq> []) (split_on (CHR '' '') (map (\<lambda>c. if is_space c then CHR '' '' else c) s))"

definition parse_harness_version :: "string \<Rightarrow> string \<Rightarrow> run_error + string" where
  "parse_harness_version harness_name output = (case words_of output of
     [] \<Rightarrow> Inl (Run_error (harness_name @ '' reported an empty --version''))
   | w # ws \<Rightarrow> Inr (if harness_name = ''codex'' then last (w # ws) else w))"

section \<open>The repository\<close>

definition lstrip_char :: "char \<Rightarrow> string \<Rightarrow> string" where
  "lstrip_char c s = dropWhile (\<lambda>d. d = c) s"

fun after_first :: "string \<Rightarrow> string \<Rightarrow> string option" where
  "after_first p [] = None"
| "after_first p (c # s) = (if startswith (c # s) p then Some (drop (length p) (c # s)) else after_first p s)"

definition two_parts :: "string \<Rightarrow> string option" where
  "two_parts slug = (case split_on (CHR ''/'') (rstrip_char (CHR ''/'') (lstrip_char (CHR ''/'') slug)) of
     [a, b] \<Rightarrow> if a \<noteq> [] \<and> b \<noteq> [] then Some (a @ ''/'' @ b) else None | _ \<Rightarrow> None)"

definition parse_github_slug :: "(string \<Rightarrow> bool) \<Rightarrow> string \<Rightarrow> string option" where
  "parse_github_slug path_exists repository =
     (let t = strip repository in
      if startswith t ''git@github.com:'' then two_parts (removesuffix ''.git'' (drop 15 t))
      else (case after_first ''github.com/'' t of
          Some r \<Rightarrow> two_parts (lstrip_char (CHR ''/'') (removesuffix ''.git'' r))
        | None \<Rightarrow> if length (filter (\<lambda>c. c = CHR ''/'') t) = 1 \<and> \<not> contains t ''://'' \<and> \<not> path_exists t
                  then two_parts (removesuffix ''.git'' t) else None))"

text \<open>\<open>protocol\<close> is what \<^verbatim>\<open>gh config get\<close> printed, if it ran.\<close>

definition slug_clone_url :: "string option \<Rightarrow> string \<Rightarrow> string" where
  "slug_clone_url protocol slug = (if lower (strip (case protocol of None \<Rightarrow> [] | Some p \<Rightarrow> p)) = ''ssh''
     then ''git@github.com:'' @ slug @ ''.git'' else ''https://github.com/'' @ slug @ ''.git'')"

definition clone_source :: "(string \<Rightarrow> bool) \<Rightarrow> string option \<Rightarrow> string \<Rightarrow> string option \<Rightarrow> string" where
  "clone_source path_exists protocol repository slug = (case slug of
     None \<Rightarrow> repository
   | Some s \<Rightarrow> (let t = strip repository in
       if contains t ''://'' \<or> startswith t ''git@'' \<or> path_exists t then repository else slug_clone_url protocol s))"

section \<open>The goal and Alice's prompt\<close>

definition THROWAWAY_CLOSE_OUT :: string where
  "THROWAWAY_CLOSE_OUT = ''close out with no roadmap edit; record the merge only in the workflow summary''"

definition render_goal :: "string option \<Rightarrow> string \<Rightarrow> int option \<Rightarrow> string option \<Rightarrow> string" where
  "render_goal slug repository issue work = (case work of
     Some w \<Rightarrow> w @ newline @ newline @ ''When done, '' @ THROWAWAY_CLOSE_OUT @ ''.''
   | None \<Rightarrow>
       (let target = (case issue of
              Some i \<Rightarrow> (case slug of Some s \<Rightarrow> if s = [] then repository else s | None \<Rightarrow> repository) @ ''#'' @ show_int i
            | None \<Rightarrow> ''<issue-owner>/<issue-repository>#<issue>'')
        in ''Address issue `'' @ target @ ''`, merge its pull request, and '' @ THROWAWAY_CLOSE_OUT @ ''.''))"

definition substring_missing :: run_error where
  "substring_missing = Run_error ''substring not found''"

text \<open>\<open>policy_text\<close> is the policy as \<^verbatim>\<open>json.dumps(policy, indent=2)\<close> writes it.\<close>

definition render_alice_prompt :: "string \<Rightarrow> string \<Rightarrow> string option \<Rightarrow> string \<Rightarrow> run_error + string" where
  "render_alice_prompt template goal account policy_text =
     ebind (from_option substring_missing (index_of ''Goal:'' template)) (\<lambda>b.
     ebind (from_option substring_missing (index_of ''GitHub comment identity account:'' template)) (\<lambda>e.
     let p = take b template @ ''Goal: '' @ goal @ newline @ newline @ drop e template;
         acct = (case account of Some a \<Rightarrow> if a = [] then ''<account>'' else a | None \<Rightarrow> ''<account>'');
         p = replace_all ''<account>'' acct p in
     ebind (from_option substring_missing (index_of ''```json'' p)) (\<lambda>j.
     let b = j + 7 in
     ebind (from_option substring_missing (map_option (\<lambda>k. b + k) (index_of ''```'' (drop b p)))) (\<lambda>e.
     Inr (take b p @ newline @ policy_text @ newline @ drop e p)))))"

section \<open>The policy of a run\<close>

definition split_capabilities :: "string \<Rightarrow> string list" where
  "split_capabilities s = (if s = [] then [] else split_on (CHR '','') s)"

definition run_policy :: "string \<Rightarrow> bool \<Rightarrow> string \<Rightarrow> string \<Rightarrow> string \<Rightarrow> string \<Rightarrow> dict" where
  "run_policy merge_method no_ci bob_harness charlie_harness bob_caps charlie_caps =
     [(''max_review_rounds'', JInt 3), (''merge_method'', JStr merge_method), (''allow_no_ci'', JBool no_ci),
      (''role_policy'', JObj [(''reviewer_harness_differs'', JBool (bob_harness \<noteq> charlie_harness)),
         (''reviewer_provider_differs'', JBool False), (''implementer_capabilities'', strs (split_capabilities bob_caps)),
         (''reviewer_capabilities'', strs (split_capabilities charlie_caps))]),
      (''pairing_wait_s'', JInt 120), (''max_wall_minutes'', JInt 180), (''max_task_lease_min'', JInt 120)]"

lemma strs_str_list: "is_str_list (strs xs)"
  by (simp add: strs_def list_all_iff)

text \<open>The hub accepts the policy a run is prepared with, and stores all of it.\<close>

lemma run_policy_accepted:
  assumes "merge_method \<in> {''squash'', ''merge'', ''rebase''}"
  shows "validated_workflow_policy (Some (run_policy merge_method no_ci bh ch bc cc)) =
    Inr (run_policy merge_method no_ci bh ch bc cc)"
proof -
  have r: "role_policy_ok (JObj [(''reviewer_harness_differs'', JBool (bh \<noteq> ch)), (''reviewer_provider_differs'', JBool False),
      (''implementer_capabilities'', strs (split_capabilities bc)), (''reviewer_capabilities'', strs (split_capabilities cc))])"
    by (simp add: field_errors_def ROLE_POLICY_FIELDS_def dict_get_def strs_str_list)
  have m: "is_merge_method (JStr merge_method)" using assms by (auto simp: is_merge_method_def)
  show ?thesis using r m
    by (simp add: validated_workflow_policy_def run_policy_def field_errors_def POLICY_FIELDS_def dict_get_def supplied_def
        dump_field_def ROLE_POLICY_FIELDS_def del: role_policy_ok.simps)
qed

lemma wf_strs: "wf_json (strs xs)"
proof -
  have "wf_jsons (map JStr xs)" by (induction xs) simp_all
  then show ?thesis by (simp add: strs_def)
qed

text \<open>Repeated with its own policy, a workflow is the same one; Python compares the two decoded texts.\<close>

lemma run_policy_eq: "json_eq (JObj (run_policy m n bh ch bc cc)) (JObj (run_policy m n bh ch bc cc))"
  by (rule json_eq_refl) (simp add: run_policy_def wf_strs)

section \<open>Launch lines\<close>

definition run_mcp_line :: "string \<Rightarrow> string" where
  "run_mcp_line config = ''claude --strict-mcp-config --mcp-config '' @ dquoted config"

definition codex_launch ::
  "bool \<Rightarrow> file_path \<Rightarrow> file_path \<Rightarrow> file_path \<Rightarrow> string list" where
  "codex_launch windows home git_dir prompt =
     (if windows then
        [''$env:CODEX_HOME = '' @ dquoted home,
         ''Get-Content -Raw '' @ dquoted prompt @ '' | codex exec --ephemeral -C . --add-dir '' @ dquoted git_dir @
           '' --approve-for-me -'']
      else [''CODEX_HOME='' @ dquoted home @ '' codex exec --ephemeral -C . --add-dir '' @ dquoted git_dir @
           '' --approve-for-me - < '' @ dquoted prompt])"

definition remote_note :: "string \<Rightarrow> string" where
  "remote_note name = ''# '' @ name @ '' runs on the worker host: render and launch it there (below)''"

definition codex_home_name :: "string \<Rightarrow> string" where
  "codex_home_name name = (if name = ''charlie'' then ''codex'' else ''bob-codex'')"

definition worker_block ::
  "bool \<Rightarrow> file_path \<Rightarrow> file_path \<Rightarrow> worker_name \<Rightarrow> string \<Rightarrow> file_path \<Rightarrow> string list" where
  "worker_block windows run_dir configs name harness_name dir = (''cd '' @ dquoted dir) #
     (if harness_name = ''codex'' then codex_launch windows (path_join configs (codex_home_name name)) (path_join dir ''.git'')
        (path_join run_dir (name @ ''.prompt.md''))
      else [run_mcp_line (path_join configs (name @ ''.mcp.json''))])"

definition launch_lines ::
  "bool \<Rightarrow> file_path \<Rightarrow> file_path \<Rightarrow> file_path \<Rightarrow> file_path option \<Rightarrow> file_path option \<Rightarrow> string \<Rightarrow> string \<Rightarrow> worker_name option \<Rightarrow> string list" where
  "launch_lines windows run_dir configs alice_runtime bob_dir charlie_dir bob_harness charlie_harness remote =
     (let block = (\<lambda>name harness_name dir. case dir of
            None \<Rightarrow> [remote_note name]
          | Some d \<Rightarrow> if remote = Some name then [remote_note name] else worker_block windows run_dir configs name harness_name d)
      in [''cd '' @ dquoted alice_runtime, run_mcp_line (path_join configs ''alice.mcp.json''), []] @
         block ''bob'' bob_harness bob_dir @ [[]] @ block ''charlie'' charlie_harness charlie_dir)"

text \<open>On a Windows path a drive \<^verbatim>\<open>C:\<close> becomes \<^verbatim>\<open>/c\<close>.\<close>

definition git_bash_path :: "bool \<Rightarrow> string \<Rightarrow> string" where
  "git_bash_path windows p = (case p of
     d # c # r \<Rightarrow> if windows \<and> c = CHR '':'' then CHR ''/'' # lower [d] @ r else p | _ \<Rightarrow> p)"

definition worker_launch ::
  "bool \<Rightarrow> worker_name \<Rightarrow> string \<Rightarrow> file_path \<Rightarrow> file_path \<Rightarrow> string list" where
  "worker_launch windows name harness_name run_dir ws =
     (let configs = path_join run_dir ''configs'' in
      (''cd '' @ dquoted (git_bash_path windows ws)) #
      (if harness_name = ''codex'' then
         [''CODEX_HOME='' @ dquoted (path_join configs (codex_home_name name)) @ '' codex exec --ephemeral -C . --add-dir '' @
            dquoted (path_join ws ''.git'') @ '' --approve-for-me - < '' @
            dquoted (git_bash_path windows (path_join run_dir (name @ ''.prompt.md'')))]
       else [run_mcp_line (path_join configs (name @ ''.mcp.json''))]))"

definition remote_token_path :: "string option \<Rightarrow> string \<Rightarrow> string" where
  "remote_token_path distro token_path = (case distro of
     Some d \<Rightarrow> if d = [] then token_path
       else [CHR 0x5C, CHR 0x5C] @ ''wsl.localhost'' @ [CHR 0x5C] @ d @
         map (\<lambda>c. if c = CHR ''/'' then CHR 0x5C else c) token_path
   | None \<Rightarrow> token_path)"

definition worker_only_command ::
  "string option \<Rightarrow> worker_name \<Rightarrow> string \<Rightarrow> web_address \<Rightarrow> file_path \<Rightarrow> string \<Rightarrow> string \<Rightarrow> string option \<Rightarrow> string \<Rightarrow> string" where
  "worker_only_command distro name repository hub_url token_path harness_name mdl prov caps =
     (let option_value = (\<lambda>flag v. if v = [] then [] else [''--'' @ name @ flag @ '' '' @ squoted v]) in
      join '' '' ([''uv run --locked python scripts/prepare-run.py'', ''--worker-only '' @ name,
        ''--repository '' @ squoted repository, ''--run-dir '' @ squoted ''<absolute run directory on the worker host>'',
        ''--hub-url '' @ squoted hub_url, ''--token-file '' @ squoted (remote_token_path distro token_path),
        ''--'' @ name @ '' '' @ harness_name] @ option_value ''-model'' mdl @
        option_value ''-provider'' (case prov of None \<Rightarrow> [] | Some p \<Rightarrow> p) @ option_value ''-capabilities'' caps))"

definition preflight_lines :: "host_os \<Rightarrow> string \<Rightarrow> string option \<Rightarrow> int option \<Rightarrow> run_error + string list" where
  "preflight_lines os hub_url public_url hub_port =
     ebind (url_port os hub_url ''--hub-url'') (\<lambda>dial_port.
     ebind (url_host os hub_url ''--hub-url'') (\<lambda>host. Inr (
       [''Preflight (run on each worker host that is not the hub host; PowerShell needs curl.exe, since curl is an alias there):''] @
       (case hub_port of None \<Rightarrow> [] | Some p \<Rightarrow> if p = dial_port then [] else
          [''The hub binds port '' @ show_int p @ '' but workers dial port '' @ show_int dial_port @ ''; forward '' @
             show_int dial_port @ '' to '' @ show_int p @ '' before running these checks.'']) @
       [''curl.exe -fsS '' @ hub_url @ ''/healthz'',
        ''curl.exe -fsS '' @ hub_url @ ''/.well-known/agent-card.json   # its url must be '' @
          (case public_url of Some u \<Rightarrow> u @ ''/a2a'' | None \<Rightarrow> ''the hub run'' @ [CHR 0x27] @ ''s --public-url + /a2a''),
        ''Warning: if '' @ host @ '' is a WSL2 NAT address (eth0), it changes whenever WSL restarts and the LAN cannot reach it; re-read it with `ip -4 -o addr show eth0` and render the run again after a restart.''])))"

end
