(* ===== verification/RunFiles.thy ===== *)
theory RunFiles
  imports RunRender JsonLayout
begin

text \<open>
  What \<^verbatim>\<open>prepare-run.py\<close> does to its host: the files it writes with their modes, directories, links, the
  programs it runs and the lines it prints. A step returns a value or an exception, and what was done before
  an exception stays done. Programs, permissions and paths are the parameter \<open>run_host\<close>; what a program
  itself writes (a clone) is not part of the world.
\<close>

section \<open>The host and the world\<close>

datatype program_answer = Program_absent | Program_failed string string | Program_done string string

text \<open>
  \<open>rh_program vars args\<close> is what a program answers, run with the variables \<open>vars\<close> added; \<open>rh_chmod p m\<close> the
  mode \<open>p\<close> has after \<^verbatim>\<open>chmod m\<close>; \<open>rh_writable p\<close> says that a file or directory can be made at \<open>p\<close>, and
  \<open>rh_readable p\<close> that the file can be read as UTF-8.
\<close>

record run_host =
  rh_windows :: bool
  rh_os :: host_os
  rh_loopback :: "string \<Rightarrow> bool"
  rh_root :: string
  rh_resolve :: "string \<Rightarrow> string"
  rh_present :: "string \<Rightarrow> bool"
  rh_environ :: "string \<Rightarrow> string option"
  rh_program :: "(string \<times> string) list \<Rightarrow> string list \<Rightarrow> program_answer"
  rh_readable :: "string \<Rightarrow> bool"
  rh_writable :: "string \<Rightarrow> bool"
  rh_chmod :: "string \<Rightarrow> nat \<Rightarrow> nat"
  rh_symlink :: "string \<Rightarrow> bool"
  rh_hardlink :: "string \<Rightarrow> bool"
  rh_hex :: string
  rh_sha256 :: "string \<Rightarrow> string"
  rh_codex_tools :: "string list"
  rh_float_repr :: "rat \<Rightarrow> string"

record run_file =
  f_content :: string
  f_mode :: nat

datatype link_kind = Symbolic | Hard | Copied

record run_world =
  w_files :: "string \<Rightarrow> run_file option"
  w_dirs :: "string list"
  w_links :: "(string \<times> link_kind \<times> string) list"
  w_ran :: "string list list"
  w_out :: "string list"

type_synonym 'a run = "run_world \<Rightarrow> (run_error + 'a) \<times> run_world"

definition rret :: "'a \<Rightarrow> 'a run" where
  "rret x w = (Inr x, w)"

definition rfail :: "run_error \<Rightarrow> 'a run" where
  "rfail e w = (Inl e, w)"

definition rbind :: "'a run \<Rightarrow> ('a \<Rightarrow> 'b run) \<Rightarrow> 'b run" where
  "rbind m f w = (case m w of (Inl e, w') \<Rightarrow> (Inl e, w') | (Inr x, w') \<Rightarrow> f x w')"

definition rlift :: "run_error + 'a \<Rightarrow> 'a run" where
  "rlift r w = (r, w)"

definition rcheck :: "bool \<Rightarrow> string \<Rightarrow> unit run" where
  "rcheck bad why = (if bad then rfail (Run_error why) else rret ())"

definition rprint :: "string \<Rightarrow> unit run" where
  "rprint line w = (Inr (), w\<lparr>w_out := w_out w @ [line]\<rparr>)"

fun reach :: "('a \<Rightarrow> 'b run) \<Rightarrow> 'a list \<Rightarrow> 'b list run" where
  "reach f [] = rret []"
| "reach f (x # xs) = rbind (f x) (\<lambda>y. rbind (reach f xs) (\<lambda>ys. rret (y # ys)))"

section \<open>Files\<close>

definition occupied :: "run_world \<Rightarrow> string \<Rightarrow> bool" where
  "occupied w p = (w_files w p \<noteq> None \<or> p \<in> set (w_dirs w) \<or> p \<in> fst ` set (w_links w))"

text \<open>\<^verbatim>\<open>Path.exists\<close> follows a symbolic link.\<close>

definition exists_at :: "run_world \<Rightarrow> string \<Rightarrow> bool" where
  "exists_at w p = (w_files w p \<noteq> None \<or> p \<in> set (w_dirs w) \<or>
     list_ex (\<lambda>(l, k, t). l = p \<and> (k \<noteq> Symbolic \<or> w_files w t \<noteq> None \<or> t \<in> set (w_dirs w))) (w_links w))"

definition put_file :: "string \<Rightarrow> run_file \<Rightarrow> run_world \<Rightarrow> run_world" where
  "put_file p f w = w\<lparr>w_files := (w_files w)(p \<mapsto> f)\<rparr>"

definition unlink :: "string \<Rightarrow> unit run" where
  "unlink p w = (Inr (), w\<lparr>w_files := (w_files w)(p := None)\<rparr>)"

definition make_dir :: "run_host \<Rightarrow> string \<Rightarrow> unit run" where
  "make_dir h p w = (if w_files w p \<noteq> None \<or> \<not> rh_writable h p then (Inl Run_os_error, w)
     else (Inr (), if p \<in> set (w_dirs w) then w else w\<lparr>w_dirs := w_dirs w @ [p]\<rparr>))"

text \<open>
  \<^verbatim>\<open>open(p, "w")\<close> empties the file, or makes one with the mode the process gives; \<^verbatim>\<open>chmod\<close>; writing to the
  opened file; and \<^verbatim>\<open>Path.replace\<close>, which moves a file over another.
\<close>

definition open_write :: "run_host \<Rightarrow> string \<Rightarrow> unit run" where
  "open_write h p w = (if \<not> rh_writable h p then (Inl Run_os_error, w)
     else (Inr (), put_file p \<lparr>f_content = [], f_mode = (case w_files w p of None \<Rightarrow> 420 | Some f \<Rightarrow> f_mode f)\<rparr> w))"

definition on_file :: "string \<Rightarrow> (run_file \<Rightarrow> run_file) \<Rightarrow> unit run" where
  "on_file p g w = (case w_files w p of None \<Rightarrow> (Inl Run_os_error, w) | Some f \<Rightarrow> (Inr (), put_file p (g f) w))"

definition chmod_file :: "run_host \<Rightarrow> string \<Rightarrow> nat \<Rightarrow> unit run" where
  "chmod_file h p m = on_file p (\<lambda>f. f\<lparr>f_mode := rh_chmod h p m\<rparr>)"

definition fill_file :: "string \<Rightarrow> string \<Rightarrow> unit run" where
  "fill_file p t = on_file p (\<lambda>f. f\<lparr>f_content := t\<rparr>)"

definition replace_file :: "run_host \<Rightarrow> string \<Rightarrow> string \<Rightarrow> unit run" where
  "replace_file h source p w = (case w_files w source of None \<Rightarrow> (Inl Run_os_error, w)
     | Some f \<Rightarrow> if \<not> rh_writable h p then (Inl Run_os_error, w)
         else (Inr (), w\<lparr>w_files := (w_files w)(source := None, p \<mapsto> f)\<rparr>))"

text \<open>The temporary file is made owner-only, filled, and moved over the path; if the move fails, it stays.\<close>

definition temporary :: "string \<Rightarrow> string" where
  "temporary p = p @ ''.tmp''"

definition write_private_text :: "run_host \<Rightarrow> string \<Rightarrow> string \<Rightarrow> unit run" where
  "write_private_text h p t =
     rbind (open_write h (temporary p)) (\<lambda>_.
     rbind (chmod_file h (temporary p) 384) (\<lambda>_.
     rbind (fill_file (temporary p) t) (\<lambda>_. replace_file h (temporary p) p)))"

definition json_file_text :: "run_host \<Rightarrow> json \<Rightarrow> string" where
  "json_file_text h v = pretty (rh_float_repr h) True 0 v @ newline"

definition save :: "run_host \<Rightarrow> string \<Rightarrow> json \<Rightarrow> unit run" where
  "save h p v = write_private_text h p (json_file_text h v)"

text \<open>\<^verbatim>\<open>Path.write_text\<close>: a file that is there keeps its mode.\<close>

definition write_text :: "run_host \<Rightarrow> string \<Rightarrow> string \<Rightarrow> unit run" where
  "write_text h p t = rbind (open_write h p) (\<lambda>_. fill_file p t)"

definition read_text :: "run_host \<Rightarrow> string \<Rightarrow> string run" where
  "read_text h p w = (case w_files w p of None \<Rightarrow> (Inl Run_os_error, w)
     | Some f \<Rightarrow> (if rh_readable h p then Inr (f_content f) else Inl Run_os_error, w))"

definition link_or_copy :: "run_host \<Rightarrow> string \<Rightarrow> string \<Rightarrow> unit run" where
  "link_or_copy h source destination w = (if exists_at w destination then (Inr (), w)
     else if rh_symlink h destination \<and> \<not> occupied w destination then
       (Inr (), w\<lparr>w_links := w_links w @ [(destination, Symbolic, source)]\<rparr>)
     else if rh_writable h destination \<and> \<not> occupied w destination then
       (Inr (), w\<lparr>w_links := w_links w @ [(destination, Copied, source)]\<rparr>)
     else (Inl Run_os_error, w))"

definition auth_path :: "run_host \<Rightarrow> string" where
  "auth_path h = path_join (path_text (env_get (rh_environ h) ''CODEX_HOME'' (path_join (home_dir (rh_os h)) ''.codex''))) ''auth.json''"

definition link_auth :: "run_host \<Rightarrow> string \<Rightarrow> string \<Rightarrow> unit run" where
  "link_auth h home link w = (if \<not> exists_at w (auth_path h) \<or> exists_at w link then (Inr (), w)
     else if rh_symlink h link \<and> \<not> occupied w link then
       (Inr (), w\<lparr>w_links := w_links w @ [(link, Symbolic, auth_path h)]\<rparr>)
     else if rh_hardlink h link \<and> \<not> occupied w link then
       (Inr (), w\<lparr>w_links := w_links w @ [(link, Hard, auth_path h)]\<rparr>)
     else (Inl (Run_error (''cannot link '' @ auth_path h @ '' into '' @ home @
       ''; hard links need the same volume, so place RUN_DIR on the drive holding CODEX_HOME'')), w))"

definition codex_home :: "run_host \<Rightarrow> string \<Rightarrow> string \<Rightarrow> string run" where
  "codex_home h directory name = (let home = path_join directory name in
     rbind (make_dir h home) (\<lambda>_. rbind (link_auth h home (path_join home ''auth.json'')) (\<lambda>_. rret home)))"

section \<open>Secrets\<close>

text \<open>\<^verbatim>\<open>0o600\<close> is 384 and \<^verbatim>\<open>0o077\<close> the low six bits.\<close>

definition loose :: "run_host \<Rightarrow> run_file \<Rightarrow> bool" where
  "loose h f = (\<not> rh_windows h \<and> f_mode f mod 64 \<noteq> 0)"

definition parent_of :: "string \<Rightarrow> string" where
  "parent_of p = (let q = rev (drop 1 (dropWhile (\<lambda>c. c \<noteq> CHR ''/'') (rev p)))
     in if q = [] then (if is_absolute p then ''/'' else ''.'') else q)"

definition name_of :: "string \<Rightarrow> string" where
  "name_of p = rev (takeWhile (\<lambda>c. c \<noteq> CHR ''/'') (rev p))"

definition require_owner_only :: "run_host \<Rightarrow> string \<Rightarrow> unit run" where
  "require_owner_only h p w = (case w_files w p of
     None \<Rightarrow> (if rh_windows h then Inr () else Inl Run_os_error, w)
   | Some f \<Rightarrow> if loose h f then
         rbind (unlink p) (\<lambda>_. rfail (Run_error (parent_of p @
           '' ignores POSIX permissions (chmod 0600 left a file readable by other users); put the run directory on a filesystem that honours them''))) w
       else (Inr (), w))"

definition probe_path :: "string \<Rightarrow> string" where
  "probe_path p = path_join (parent_of p) (''.'' @ name_of p @ ''.permission-probe'')"

definition write_secret :: "run_host \<Rightarrow> string \<Rightarrow> (string \<Rightarrow> unit run) \<Rightarrow> unit run" where
  "write_secret h p write =
     rbind (write_private_text h (probe_path p) []) (\<lambda>_.
     rbind (require_owner_only h (probe_path p)) (\<lambda>_.
     rbind (unlink (probe_path p)) (\<lambda>_.
     rbind (write p) (\<lambda>_. require_owner_only h p))))"

text \<open>The token is written with the mode of any new file, then made owner-only.\<close>

definition ensure_token :: "run_host \<Rightarrow> string \<Rightarrow> string run" where
  "ensure_token h p =
     rbind (make_dir h (parent_of p)) (\<lambda>_.
     rbind (\<lambda>w. if exists_at w p then (Inr (), w)
        else rbind (write_text h p (rh_hex h @ newline)) (\<lambda>_. chmod_file h p 384) w) (\<lambda>_.
     rbind (read_text h p) (\<lambda>t. rret (strip t))))"

definition read_hub_token :: "run_host \<Rightarrow> string \<Rightarrow> string run" where
  "read_hub_token h p w = (case w_files w p of
     None \<Rightarrow> (Inl (Run_error (''--token-file '' @ p @
       '' does not exist; pass the hub'' @ [CHR 0x27] @ ''s <state-dir>/token as this host reads it'')), w)
   | Some f \<Rightarrow> (if loose h f then
         Inl (Run_error (''--token-file '' @ p @ '' must be owner-only (mode 0600), as the hub requires''))
       else if \<not> rh_readable h p then Inl (Run_error (''--token-file '' @ p @ '' is not readable''))
       else if strip (f_content f) = [] then Inl (Run_error (''--token-file '' @ p @ '' is empty''))
       else Inr (strip (f_content f)), w))"

text \<open>The statement of work, its path and the hash of the file.\<close>

definition read_work_file :: "run_host \<Rightarrow> string \<Rightarrow> (string \<times> string \<times> string) run" where
  "read_work_file h p w = (case w_files w p of
     None \<Rightarrow> (Inl (Run_error (''--work-file '' @ p @ '' does not exist'')), w)
   | Some f \<Rightarrow> (if \<not> rh_readable h p then
         Inl (Run_error (''--work-file '' @ p @ '' is not a readable UTF-8 text file''))
       else if strip (f_content f) = [] then
         Inl (Run_error (''--work-file '' @ p @ '' is empty; write the statement of work first''))
       else Inr (strip (f_content f), p, rh_sha256 h (f_content f)), w))"

section \<open>Programs\<close>

definition run_program :: "run_host \<Rightarrow> (string \<times> string) list \<Rightarrow> string list \<Rightarrow> program_answer run" where
  "run_program h vars args w = (Inr (rh_program h vars args), w\<lparr>w_ran := w_ran w @ [args]\<rparr>)"

text \<open>\<^verbatim>\<open>run\<close>, where the caller turns every failure into one error.\<close>

definition run_or :: "run_host \<Rightarrow> string list \<Rightarrow> run_error \<Rightarrow> string run" where
  "run_or h args e = rbind (run_program h [] args) (\<lambda>a. case a of
     Program_done out err \<Rightarrow> rret (strip out) | _ \<Rightarrow> rfail e)"

definition json_or_error :: "string \<Rightarrow> json run" where
  "json_or_error t = rlift (from_option (Run_error ''Expecting value'') (loads t))"

definition check_gh_auth :: "run_host \<Rightarrow> unit run" where
  "check_gh_auth h = rbind (run_or h [''gh'', ''auth'', ''status'']
     (Run_error ''gh is not authenticated (gh auth status failed); run `gh auth login` and retry'')) (\<lambda>_. rret ())"

definition repo_settings :: "run_host \<Rightarrow> string \<Rightarrow> json run" where
  "repo_settings h slug = rbind (run_or h [''gh'', ''repo'', ''view'', slug, ''--json'',
       ''viewerPermission,squashMergeAllowed,mergeCommitAllowed,rebaseMergeAllowed'']
     (Run_error (''cannot read repository settings for '' @ slug @ ''; check `gh auth status` and the repository name'')))
     json_or_error"

definition repo_has_workflows :: "run_host \<Rightarrow> string \<Rightarrow> bool run" where
  "repo_has_workflows h slug =
     rbind (run_or h [''gh'', ''api'', ''repos/'' @ slug @ ''/actions/workflows'']
       (Run_error (''cannot list workflows for '' @ slug @ ''; check `gh auth status` and repo access''))) (\<lambda>t.
     rbind (json_or_error t) (\<lambda>v. rret (case v of JObj d \<Rightarrow> truthy_opt (dict_get ''workflows'' d) | _ \<Rightarrow> False)))"

text \<open>\<^verbatim>\<open>str.splitlines()\<close>, without the line ends.\<close>

fun without_break :: "string \<Rightarrow> string" where
  "without_break [] = []"
| "without_break (c # s) = (if line_break (c # s) \<noteq> 0 then [] else c # without_break s)"

definition bare_lines :: "string \<Rightarrow> string list" where
  "bare_lines s = map without_break (splitlines s)"

definition status_line :: "string \<Rightarrow> string" where
  "status_line output =
     (let candidates = filter (\<lambda>l. strip l \<noteq> []) (bare_lines output);
          preferred = filter (\<lambda>l. \<not> startswith (lstrip l) ''WARNING:'') candidates;
          line = (case (if preferred \<noteq> [] then preferred else candidates) of [] \<Rightarrow> [] | l # _ \<Rightarrow> l)
      in if line = [] then ''logged in (empty status)'' else line)"

definition codex_login_status :: "run_host \<Rightarrow> string \<Rightarrow> string run" where
  "codex_login_status h home = rbind (run_program h [(''CODEX_HOME'', home)] [''codex'', ''login'', ''status'']) (\<lambda>a.
     rret (case a of
       Program_done out err \<Rightarrow> status_line (if strip out \<noteq> [] then strip out else strip err)
     | _ \<Rightarrow> ''not logged in (codex login status failed)''))"

definition cli_missing :: "string \<Rightarrow> string \<Rightarrow> run_error" where
  "cli_missing harness_name cli = Run_error (''harness '' @ repr_str harness_name @ '' requires the '' @ repr_str cli @
     '' CLI on PATH ('' @ cli @ '' --version failed); install and authenticate it first'')"

text \<open>The output by CLI and the version by harness, of the harnesses in order.\<close>

definition probe_one :: "run_host \<Rightarrow> string \<Rightarrow> ((string \<times> string) \<times> (string \<times> string)) run" where
  "probe_one h harness_name =
     rbind (rlift (from_option (Run_key_error harness_name) (map_of VERSION_COMMANDS harness_name))) (\<lambda>cli.
     rbind (run_or h [cli, ''--version''] (cli_missing harness_name cli)) (\<lambda>output.
     rbind (rlift (parse_harness_version harness_name output)) (\<lambda>v.
     rret ((cli, output), (harness_name, v)))))"

definition probe_versions :: "run_host \<Rightarrow> string list \<Rightarrow> ((string \<times> string) list \<times> (string \<times> string) list) run" where
  "probe_versions h harnesses = rbind (reach (probe_one h) (sort (remdups harnesses))) (\<lambda>ps.
     rret (map fst ps, map snd ps))"

definition probe_harness_version :: "run_host \<Rightarrow> string \<Rightarrow> (string \<times> string) run" where
  "probe_harness_version h harness_name = (case map_of VERSION_COMMANDS harness_name of
     None \<Rightarrow> rfail (Run_error (''unknown harness '' @ repr_str harness_name @ ''; expected one of '' @
       ''['' @ join '', '' (map repr_str (sort (map fst VERSION_COMMANDS))) @ '']''))
   | Some cli \<Rightarrow> rbind (run_or h [cli, ''--version''] (cli_missing harness_name cli)) (\<lambda>output.
       rbind (rlift (parse_harness_version harness_name output)) (\<lambda>v. rret (output, v))))"

text \<open>What is left of the child's error text: its last three lines that no traceback frame is.\<close>

definition last_lines :: "string \<Rightarrow> string" where
  "last_lines detail =
     (let nonempty = filter (\<lambda>l. strip l \<noteq> []) (bare_lines detail);
          substantive = filter (\<lambda>l. l \<noteq> ''Traceback (most recent call last):'' \<and> \<not> startswith l ''  '') nonempty;
          lines = (if substantive \<noteq> [] then substantive else nonempty)
      in join newline (drop (length lines - 3) lines))"

definition bootstrap_failed :: "string \<Rightarrow> string \<Rightarrow> string \<Rightarrow> run_error" where
  "bootstrap_failed agent destination tail_text = Run_error (''bootstrap failed for '' @ agent @ '' at '' @ destination @
     (if tail_text = [] then [] else '': '' @ tail_text))"

definition bootstrap_clone :: "run_host \<Rightarrow> string \<Rightarrow> string \<Rightarrow> string \<Rightarrow> dict run" where
  "bootstrap_clone h agent destination repository =
     rbind (run_program h [] [''uv'', ''run'', ''--locked'', ''--project'', rh_root h, ''python'',
       path_join (rh_root h) ''scripts/bootstrap-workspace.py'', agent, destination, repository]) (\<lambda>a.
     case a of
       Program_absent \<Rightarrow> rfail Run_os_error
     | Program_failed out err \<Rightarrow> rfail (bootstrap_failed agent destination (last_lines (strip (err @ newline @ out))))
     | Program_done out err \<Rightarrow> rbind (json_or_error (strip out)) (\<lambda>v. case v of
           JObj d \<Rightarrow> rret d
         | _ \<Rightarrow> rfail (Run_error ''bootstrap-workspace.py did not return an identity object'')))"

definition check_manifest :: "string \<Rightarrow> string \<Rightarrow> string \<Rightarrow> unit run" where
  "check_manifest manifest_path run_dir repository w = (case w_files w manifest_path of
     None \<Rightarrow> (Inr (), w)
   | Some f \<Rightarrow> rbind (json_or_error (f_content f)) (\<lambda>v. case v of
         JObj d \<Rightarrow>
           rbind (rcheck (dict_get ''run_dir'' d \<noteq> Some (JStr run_dir)) ''manifest belongs to a different run directory'') (\<lambda>_.
           rcheck (dict_get ''repository'' d \<noteq> Some (JStr repository))
             ''run directory already prepared for another repository; use a fresh one'')
       | _ \<Rightarrow> rfail Run_type_error) w)"

section \<open>What the steps do\<close>

lemma rbind_Inr: "rbind m f w = (Inr y, w') \<longleftrightarrow> (\<exists>x v. m w = (Inr x, v) \<and> f x v = (Inr y, w'))"
  by (auto simp: rbind_def split: prod.splits sum.splits)

lemma rbind_Inl: "rbind m f w = (Inl e, w') \<longleftrightarrow> m w = (Inl e, w') \<or> (\<exists>x v. m w = (Inr x, v) \<and> f x v = (Inl e, w'))"
  by (auto simp: rbind_def split: prod.splits sum.splits)

text \<open>The files after a write, succeeded or failed.\<close>

lemma write_private_cases:
  assumes "write_private_text h p t w = (r, w')"
  obtains (untouched) "r = Inl Run_os_error" "w' = w"
  | (unmoved) "r = Inl Run_os_error"
      "w_files w' = (w_files w)(temporary p \<mapsto> \<lparr>f_content = t, f_mode = rh_chmod h (temporary p) 384\<rparr>)"
  | (written) "r = Inr ()"
      "w_files w' = (w_files w)(temporary p := None, p \<mapsto> \<lparr>f_content = t, f_mode = rh_chmod h (temporary p) 384\<rparr>)"
  using assms
  by (auto simp: write_private_text_def rbind_def open_write_def chmod_file_def fill_file_def on_file_def replace_file_def
      put_file_def split: if_splits)

lemma write_text_cases:
  assumes "write_text h p t w = (r, w')"
  obtains (untouched) "r = Inl Run_os_error" "w' = w"
  | (written) "r = Inr ()"
      "w_files w' = (w_files w)(p \<mapsto> \<lparr>f_content = t, f_mode = (case w_files w p of None \<Rightarrow> 420 | Some f \<Rightarrow> f_mode f)\<rparr>)"
  using assms
  by (auto simp: write_text_def rbind_def open_write_def fill_file_def on_file_def put_file_def split: if_splits)

end
