(* ===== verification/RunPrepare.thy ===== *)
theory RunPrepare
  imports RunFiles
begin

text \<open>
  \<^verbatim>\<open>prepare-run.py\<close>: \<^verbatim>\<open>prepare\<close> with its checks, GitHub questions and writes in their order, \<^verbatim>\<open>prepare_worker\<close>
  (\<^verbatim>\<open>--worker-only\<close>) and \<^verbatim>\<open>main\<close>. The path and the id of an identity are text, as \<^verbatim>\<open>bootstrap-workspace.py\<close>
  prints them.
\<close>

section \<open>The request\<close>

record worker_request =
  wq_harness :: string
  wq_model :: string
  wq_provider :: "string option"
  wq_capabilities :: string
  wq_dir :: "string option"

record run_request =
  q_repository :: string
  q_run_dir :: string
  q_issue :: "int option"
  q_work_file :: "string option"
  q_account :: "string option"
  q_bob :: worker_request
  q_charlie :: worker_request
  q_state_dir :: "string option"
  q_merge_method :: string
  q_allow_no_ci :: string
  q_skip_github :: bool
  q_hub_host :: string
  q_hub_url :: string
  q_hub_port :: "int option"
  q_public_url :: "string option"
  q_remote :: "string option"

definition worker_of :: "run_request \<Rightarrow> string \<Rightarrow> worker_request" where
  "worker_of q name = (if name = ''bob'' then q_bob q else q_charlie q)"

definition SUPPORTED_HARNESSES :: "string list" where
  "SUPPORTED_HARNESSES = [''claude-code'', ''codex'']"

definition WORKERS :: "string list" where
  "WORKERS = [''bob'', ''charlie'']"

definition repr_list :: "string list \<Rightarrow> string" where
  "repr_list xs = ''['' @ join '', '' (map repr_str xs) @ '']''"

definition require_that :: "bool \<Rightarrow> string \<Rightarrow> run_error + unit" where
  "require_that b why = guard_that b (Run_error why)"

section \<open>Checks before anything is touched\<close>

definition inside :: "string \<Rightarrow> string \<Rightarrow> bool" where
  "inside root_dir p = (p \<noteq> root_dir \<and> startswith p (if root_dir = ''/'' then ''/'' else root_dir @ ''/''))"

definition canonical_path :: "run_host \<Rightarrow> string \<Rightarrow> bool" where
  "canonical_path h p = (is_absolute p \<and> rh_resolve h p = p)"

definition run_place :: "run_host \<Rightarrow> string \<Rightarrow> run_error + unit" where
  "run_place h run_dir =
     ebind (require_that (canonical_path h run_dir) ''RUN_DIR must be absolute and canonical'') (\<lambda>_.
     require_that (run_dir \<noteq> rh_root h \<and> \<not> inside (rh_root h) run_dir) ''RUN_DIR must be outside the coordination checkout'')"

definition supported :: "string \<Rightarrow> worker_request \<Rightarrow> run_error + unit" where
  "supported label r = require_that (wq_harness r \<in> set SUPPORTED_HARNESSES)
     (''--'' @ label @ '' harness '' @ repr_str (wq_harness r) @ '' is not yet supported by prepare-run; expected one of '' @
      repr_list SUPPORTED_HARNESSES @ '' (assemble other topologies via the manual walkthrough in docs/user-guide.md)'')"

definition provider_of :: "worker_request \<Rightarrow> run_error + string" where
  "provider_of r = (case wq_provider r of
     Some p \<Rightarrow> if p \<noteq> [] then Inr p else from_option (Run_key_error (wq_harness r)) (map_of PROVIDERS (wq_harness r))
   | None \<Rightarrow> from_option (Run_key_error (wq_harness r)) (map_of PROVIDERS (wq_harness r)))"

record run_plan =
  p_network :: network
  p_networked :: bool
  p_local :: "string list"
  p_provider :: "string \<Rightarrow> string"
  p_path :: "string \<Rightarrow> string"
  p_state :: string

definition default_network :: network where
  "default_network = \<lparr>n_host = DEFAULT_HUB_HOST, n_port = DEFAULT_HUB_PORT, n_hub_url = DEFAULT_HUB_URL, n_public_url = DEFAULT_HUB_URL\<rparr>"

definition or_path :: "string option \<Rightarrow> string \<Rightarrow> string" where
  "or_path given dflt = (case given of Some p \<Rightarrow> p | None \<Rightarrow> dflt)"

definition run_plan_of :: "run_host \<Rightarrow> run_request \<Rightarrow> run_error + run_plan" where
  "run_plan_of h q =
     ebind (run_place h (q_run_dir q)) (\<lambda>_.
     ebind (require_that (q_repository q \<noteq> []) ''--repository must not be empty'') (\<lambda>_.
     ebind (supported ''bob'' (q_bob q)) (\<lambda>_.
     ebind (supported ''charlie'' (q_charlie q)) (\<lambda>_.
     ebind (require_that (q_merge_method q \<in> {''squash'', ''merge'', ''rebase''}) ''--merge-method must be one of squash, merge, rebase'') (\<lambda>_.
     ebind (require_that (q_allow_no_ci q \<in> {''auto'', ''true'', ''false''}) ''--allow-no-ci must be one of auto, true, false'') (\<lambda>_.
     ebind (require_that (case q_remote q of None \<Rightarrow> True | Some r \<Rightarrow> r \<in> set WORKERS)
       (''--remote-worker must be one of '' @ repr_list WORKERS)) (\<lambda>_.
     ebind (network_settings (rh_os h) (rh_loopback h) (q_hub_host q) (q_hub_url q) (q_public_url q) (q_remote q) (q_hub_port q)) (\<lambda>n.
     ebind (require_that (case q_remote q of None \<Rightarrow> True | Some r \<Rightarrow> wq_dir (worker_of q r) = None)
       (case q_remote q of None \<Rightarrow> [] | Some r \<Rightarrow> ''--'' @ r @ ''-dir names a clone on this host; pass the remote clone to --worker-only '' @
          r @ '' on the worker host instead'')) (\<lambda>_.
     ebind (provider_of (q_bob q)) (\<lambda>bob_provider.
     ebind (provider_of (q_charlie q)) (\<lambda>charlie_provider.
     let bob_path = or_path (wq_dir (q_bob q)) (path_join (q_run_dir q) ''bob'');
         charlie_path = or_path (wq_dir (q_charlie q)) (path_join (q_run_dir q) ''charlie'');
         state = or_path (q_state_dir q) (path_join (q_run_dir q) ''hub-state'') in
     ebind (require_that (canonical_path h bob_path) ''--bob-dir must be absolute and canonical'') (\<lambda>_.
     ebind (require_that (canonical_path h charlie_path) ''--charlie-dir must be absolute and canonical'') (\<lambda>_.
     ebind (require_that (bob_path \<noteq> charlie_path) ''--bob-dir and --charlie-dir must differ'') (\<lambda>_.
     ebind (require_that (canonical_path h state) ''--state-dir must be absolute and canonical'') (\<lambda>_.
     Inr \<lparr>p_network = n, p_networked = (q_remote q \<noteq> None \<or> n \<noteq> default_network),
          p_local = filter (\<lambda>w. Some w \<noteq> q_remote q) WORKERS,
          p_provider = (\<lambda>w. if w = ''bob'' then bob_provider else charlie_provider),
          p_path = (\<lambda>w. if w = ''bob'' then bob_path else charlie_path), p_state = state\<rparr>)))))))))))))))"

section \<open>What GitHub says\<close>

record github_checks =
  g_skipped :: bool
  g_no_ci :: bool
  g_merge_note :: string
  g_ci_note :: string

definition SKIPPED_NOTE :: string where
  "SKIPPED_NOTE = ''skipped (local repository or --skip-github-checks)''"

definition merge_flag :: "string \<Rightarrow> string" where
  "merge_flag m = (if m = ''squash'' then ''squashMergeAllowed'' else if m = ''merge'' then ''mergeCommitAllowed'' else ''rebaseMergeAllowed'')"

definition push_permission :: "dict \<Rightarrow> bool" where
  "push_permission d = (case dict_get ''viewerPermission'' d of
     Some (JStr p) \<Rightarrow> p \<in> {''ADMIN'', ''MAINTAIN'', ''WRITE''} | _ \<Rightarrow> False)"

text \<open>\<^verbatim>\<open>repr\<close> of a decoded value.\<close>

fun repr_json :: "(rat \<Rightarrow> string) \<Rightarrow> json \<Rightarrow> string"
and repr_jsons :: "(rat \<Rightarrow> string) \<Rightarrow> json list \<Rightarrow> string list"
and repr_items :: "(rat \<Rightarrow> string) \<Rightarrow> dict \<Rightarrow> string list" where
  "repr_json fr JNull = ''None''"
| "repr_json fr (JBool b) = (if b then ''True'' else ''False'')"
| "repr_json fr (JInt i) = show_int i"
| "repr_json fr (JFloat q) = fr q"
| "repr_json fr (JStr s) = repr_str s"
| "repr_json fr (JList xs) = ''['' @ join '', '' (repr_jsons fr xs) @ '']''"
| "repr_json fr (JObj d) = ''{'' @ join '', '' (repr_items fr d) @ ''}''"
| "repr_jsons fr [] = []"
| "repr_jsons fr (x # xs) = repr_json fr x # repr_jsons fr xs"
| "repr_items fr [] = []"
| "repr_items fr ((k, v) # d) = (repr_str k @ '': '' @ repr_json fr v) # repr_items fr d"

definition ask_github :: "run_host \<Rightarrow> run_request \<Rightarrow> string \<Rightarrow> github_checks run" where
  "ask_github h q slug =
     rbind (repo_settings h slug) (\<lambda>v. case v of
       JObj d \<Rightarrow>
         rbind (rcheck (\<not> push_permission d) (''repository '' @ slug @ '' requires push access (viewerPermission '' @
           repr_json (rh_float_repr h) (case dict_get ''viewerPermission'' d of None \<Rightarrow> JNull | Some v \<Rightarrow> v) @ ''); check `gh auth status` and repo permissions'')) (\<lambda>_.
         rbind (rcheck (\<not> truthy_opt (dict_get (merge_flag (q_merge_method q)) d)) (''repository '' @ slug @ '' does not allow the '' @
           repr_str (q_merge_method q) @ '' merge method; enable it in repository settings or pass another --merge-method'')) (\<lambda>_.
         rbind (repo_has_workflows h slug) (\<lambda>has.
         rret \<lparr>g_skipped = False,
               g_no_ci = (if q_allow_no_ci q = ''auto'' then \<not> has else q_allow_no_ci q = ''true''),
               g_merge_note = slug @ '' allows '' @ q_merge_method q,
               g_ci_note = slug @ (if has then '' has workflows (allow_no_ci=false)'' else '' has no workflows (allow_no_ci=true)'')\<rparr>)))
     | _ \<Rightarrow> rfail Run_type_error)"

definition check_github :: "run_host \<Rightarrow> run_request \<Rightarrow> string option \<Rightarrow> github_checks run" where
  "check_github h q slug = (case slug of
     Some s \<Rightarrow> if \<not> q_skip_github q then rbind (check_gh_auth h) (\<lambda>_. ask_github h q s)
       else rret \<lparr>g_skipped = True, g_no_ci = (q_allow_no_ci q = ''true''), g_merge_note = SKIPPED_NOTE, g_ci_note = SKIPPED_NOTE\<rparr>
   | None \<Rightarrow> rret \<lparr>g_skipped = True,
       g_no_ci = (if q_allow_no_ci q = ''auto'' then True else q_allow_no_ci q = ''true''), g_merge_note = SKIPPED_NOTE,
       g_ci_note = (if q_allow_no_ci q = ''auto'' then ''local repository has no GitHub workflows (allow_no_ci=true)'' else SKIPPED_NOTE)\<rparr>)"

definition git_protocol :: "run_host \<Rightarrow> string option run" where
  "git_protocol h = rbind (run_program h [] [''gh'', ''config'', ''get'', ''-h'', ''github.com'', ''git_protocol'']) (\<lambda>a.
     rret (case a of Program_done out err \<Rightarrow> Some (strip out) | _ \<Rightarrow> None))"

text \<open>\<^verbatim>\<open>clone_source\<close>, which asks \<^verbatim>\<open>gh\<close> only for a bare slug.\<close>

definition clone_from :: "run_host \<Rightarrow> string \<Rightarrow> string option \<Rightarrow> string run" where
  "clone_from h repository slug = (let t = strip repository in
     if slug = None \<or> contains t ''://'' \<or> startswith t ''git@'' \<or> rh_present h t then rret repository
     else rbind (git_protocol h) (\<lambda>p. rret (clone_source (rh_present h) p repository slug)))"

section \<open>What is written\<close>

definition identity_str :: "string \<Rightarrow> dict \<Rightarrow> run_error + string" where
  "identity_str k d = (case dict_get k d of Some (JStr s) \<Rightarrow> Inr s | None \<Rightarrow> Inl (Run_key_error k) | _ \<Rightarrow> Inl Run_type_error)"

definition claude_config ::
  "run_host \<Rightarrow> file_path \<Rightarrow> variables \<Rightarrow> json run" where
  "claude_config h directory vars =
     rbind (read_text h (path_join (rh_root h) ''runtimes/claude-code.mcp.json'')) (\<lambda>t.
     rbind (json_or_error t) (\<lambda>v. case v of
       JObj template \<Rightarrow> rbind (rlift (render_claude_mcp template directory vars)) (\<lambda>d. rret (JObj d))
     | _ \<Rightarrow> rfail Run_type_error))"

definition worker_args :: "string \<Rightarrow> string list" where
  "worker_args directory = [''run'', ''--locked'', ''--directory'', directory, ''worker-mcp'']"

definition worker_prompt :: "run_host \<Rightarrow> string \<Rightarrow> string run" where
  "worker_prompt h name = rbind (read_text h (path_join (rh_root h) ''prompts/worker.md'')) (\<lambda>t.
     rlift (render_worker_prompt t name))"

text \<open>A local worker's configuration; the path it is written to.\<close>

definition write_worker_config ::
  "run_host \<Rightarrow> file_path \<Rightarrow> worker_name \<Rightarrow> string \<Rightarrow> variables \<Rightarrow> file_path run" where
  "write_worker_config h configs name harness_name vars =
     (if harness_name = ''codex'' then
        rbind (codex_home h configs (codex_home_name name)) (\<lambda>home.
        rbind (rlift (render_codex_config (rh_windows h) (rh_codex_tools h) vars (worker_args (rh_root h)))) (\<lambda>t.
        rbind (write_private_text h (path_join home ''config.toml'') t) (\<lambda>_. rret (path_join home ''config.toml''))))
      else rbind (claude_config h (rh_root h) vars) (\<lambda>v.
        rbind (save h (path_join configs (name @ ''.mcp.json'')) v) (\<lambda>_. rret (path_join configs (name @ ''.mcp.json'')))))"

definition version_of :: "(string \<times> string) list \<Rightarrow> string \<Rightarrow> run_error + string" where
  "version_of parsed harness_name = from_option (Run_key_error harness_name) (map_of parsed harness_name)"

definition local_worker_env ::
  "run_request \<Rightarrow> run_plan \<Rightarrow> (string \<times> string) list \<Rightarrow> string \<Rightarrow> worker_name \<Rightarrow> dict \<Rightarrow> run_error + variables" where
  "local_worker_env q p parsed token name identity =
     (let r = worker_of q name in
      ebind (identity_str ''path'' identity) (\<lambda>ws.
      ebind (version_of parsed (wq_harness r)) (\<lambda>v.
      Inr (worker_env name (wq_harness r) v (p_provider p name) (wq_model r) (wq_capabilities r) ws token
        (path_join (q_run_dir q) (name @ ''-telemetry.jsonl'')) (n_hub_url (p_network p))))))"

definition write_local_config ::
  "run_host \<Rightarrow> run_request \<Rightarrow> run_plan \<Rightarrow> (string \<times> string) list \<Rightarrow> string \<Rightarrow> string \<times> dict \<Rightarrow> (string \<times> string) run" where
  "write_local_config h q p parsed token worker = (case worker of (name, identity) \<Rightarrow>
     rbind (rlift (local_worker_env q p parsed token name identity)) (\<lambda>vars.
     rbind (write_worker_config h (path_join (q_run_dir q) ''configs'') name (wq_harness (worker_of q name)) vars) (\<lambda>c.
     rret (name, c))))"

definition alice_config ::
  "run_host \<Rightarrow> variables \<Rightarrow> json" where
  "alice_config h vars = JObj [(''mcpServers'', JObj [(''hub'', JObj [(''command'', JStr ''uv''),
     (''args'', strs [''run'', ''--locked'', ''--directory'', rh_root h, ''hub'']), (''env'', env_json vars)])])]"

definition hub_env_of ::
  "run_host \<Rightarrow> run_plan \<Rightarrow> string \<Rightarrow> variables" where
  "hub_env_of h p token = hub_env (p_state p) token (path_join (rh_root h) ''guides'') (p_network p)"

definition policy_of :: "run_request \<Rightarrow> bool \<Rightarrow> dict" where
  "policy_of q no_ci = run_policy (q_merge_method q) no_ci (wq_harness (q_bob q)) (wq_harness (q_charlie q))
     (wq_capabilities (q_bob q)) (wq_capabilities (q_charlie q))"

definition opt_str :: "string option \<Rightarrow> json" where
  "opt_str v = (case v of None \<Rightarrow> JNull | Some s \<Rightarrow> JStr s)"

definition str_dict :: "(string \<times> string) list \<Rightarrow> json" where
  "str_dict xs = JObj (map (\<lambda>(k, v). (k, JStr v)) xs)"

definition opt_int :: "int option \<Rightarrow> json" where
  "opt_int v = (case v of None \<Rightarrow> JNull | Some i \<Rightarrow> JInt i)"

definition network_json :: "run_plan \<Rightarrow> string option \<Rightarrow> json" where
  "network_json p remote = JObj [(''hub_host'', JStr (n_host (p_network p))), (''hub_port'', JInt (n_port (p_network p))),
     (''hub_url'', JStr (n_hub_url (p_network p))), (''public_url'', JStr (n_public_url (p_network p))),
     (''remote_worker'', opt_str remote)]"

definition per_worker :: "(string \<Rightarrow> string) \<Rightarrow> json" where
  "per_worker f = str_dict (map (\<lambda>w. (w, f w)) WORKERS)"

definition run_manifest ::
  "run_request \<Rightarrow> run_plan \<Rightarrow> string \<Rightarrow> string option \<Rightarrow> (string \<times> string) list \<Rightarrow> dict \<Rightarrow> string \<Rightarrow>
    (string \<times> string \<times> string) option \<Rightarrow> (string \<times> dict) list \<Rightarrow> (string \<times> string) list \<Rightarrow> dict" where
  "run_manifest q p clone slug versions policy goal statement workspaces configs =
     [(''schema_version'', JInt 1), (''repository'', JStr (q_repository q)), (''clone_repository'', JStr clone),
      (''slug'', opt_str slug), (''run_dir'', JStr (q_run_dir q)), (''state_dir'', JStr (p_state p)),
      (''workspaces'', JObj (map (\<lambda>(n, d). (n, JObj d)) workspaces)), (''harnesses'', per_worker (\<lambda>w. wq_harness (worker_of q w))),
      (''providers'', per_worker (p_provider p)), (''models'', per_worker (\<lambda>w. wq_model (worker_of q w))),
      (''versions'', str_dict versions), (''policy'', JObj policy),
      (''work'', JObj [(''goal'', JStr goal), (''path'', opt_str (map_option (\<lambda>(t, p, s). p) statement)),
         (''sha256'', opt_str (map_option (\<lambda>(t, p, s). s) statement))]),
      (''issue'', opt_int (q_issue q)), (''account'', opt_str (q_account q)), (''merge_method'', JStr (q_merge_method q)),
      (''configs'', str_dict configs)] @
     (if p_networked p then [(''network'', network_json p (q_remote q))] else [])"

section \<open>What is printed\<close>

definition print_json :: "run_host \<Rightarrow> json \<Rightarrow> unit run" where
  "print_json h v = rprint (pretty (rh_float_repr h) True 0 v)"

definition print_lines :: "string list \<Rightarrow> unit run" where
  "print_lines ls = rbind (reach rprint ls) (\<lambda>_. rret ())"

definition codex_auth_of :: "run_host \<Rightarrow> string \<Rightarrow> string \<Rightarrow> (string \<times> string) run" where
  "codex_auth_of h configs name = rbind (codex_login_status h (path_join configs (codex_home_name name))) (\<lambda>s.
     rret (name, codex_home_name name @ '': '' @ s))"

definition run_report ::
  "run_request \<Rightarrow> run_plan \<Rightarrow> string option \<Rightarrow> (string \<times> string) list \<Rightarrow> (string \<times> string) list \<Rightarrow> github_checks \<Rightarrow>
    (string \<times> string) list \<Rightarrow> (string \<times> string) list \<Rightarrow> json" where
  "run_report q p slug paths configs g versions codex_auth =
     JObj ([(''run_dir'', JStr (q_run_dir q)), (''repository'', JStr (q_repository q)), (''slug'', opt_str slug),
      (''issue'', opt_int (q_issue q)), (''workspaces'', str_dict paths),
      (''configs'', str_dict ((''alice'', path_join (q_run_dir q) ''configs/alice.mcp.json'') # configs)),
      (''prompts'', str_dict (map (\<lambda>n. (n, path_join (q_run_dir q) (n @ ''.prompt.md''))) (''alice'' # p_local p))),
      (''checks'', JObj [(''gh_auth'', JStr (if g_skipped g then ''skipped'' else ''ok'')), (''versions'', str_dict versions),
         (''merge'', JStr (g_merge_note g)), (''ci'', JStr (g_ci_note g)), (''codex_auth'', str_dict codex_auth)])] @
     (if p_networked p then [(''network'', network_json p (q_remote q))] else []))"

definition print_remote :: "run_host \<Rightarrow> run_request \<Rightarrow> run_plan \<Rightarrow> unit run" where
  "print_remote h q p = (case q_remote q of None \<Rightarrow> rret ()
     | Some r \<Rightarrow> print_lines
         [newline @ ''Remote worker '' @ r @ '': on its host, from a robo-agents checkout at this commit, run (then launch it with the lines that prints):'',
          worker_only_command (rh_environ h ''WSL_DISTRO_NAME'') r (q_repository q) (n_hub_url (p_network p))
            (path_join (p_state p) ''token'') (wq_harness (worker_of q r)) (wq_model (worker_of q r))
            (wq_provider (worker_of q r)) (wq_capabilities (worker_of q r))])"

definition print_preflight :: "run_host \<Rightarrow> run_plan \<Rightarrow> unit run" where
  "print_preflight h p =
     rbind (rlift (url_host (rh_os h) (n_hub_url (p_network p)) ''--hub-url'')) (\<lambda>host.
     if is_loopback (rh_loopback h) host then rret ()
     else rbind (rprint []) (\<lambda>_.
       rbind (rlift (preflight_lines (rh_os h) (n_hub_url (p_network p)) (Some (n_public_url (p_network p))) (Some (n_port (p_network p)))))
         print_lines))"

definition print_run ::
  "run_host \<Rightarrow> run_request \<Rightarrow> run_plan \<Rightarrow> (string \<times> string) list \<Rightarrow> bool \<Rightarrow> unit run" where
  "print_run h q p paths stated =
     rbind (rprint (newline @ ''Launch commands (paste in order):'')) (\<lambda>_.
     rbind (print_lines (launch_lines (rh_windows h) (q_run_dir q) (path_join (q_run_dir q) ''configs'')
       (path_join (q_run_dir q) ''alice-runtime'') (map_option path_text (map_of paths ''bob''))
       (map_option path_text (map_of paths ''charlie'')) (wq_harness (q_bob q)) (wq_harness (q_charlie q)) (q_remote q))) (\<lambda>_.
     rbind (print_remote h q p) (\<lambda>_.
     rbind (print_preflight h p) (\<lambda>_.
     rbind (rprint (newline @ ''Alice kickoff prompt: '' @ path_join (q_run_dir q) ''alice.prompt.md'')) (\<lambda>_.
     if q_issue q = None \<and> \<not> stated \<or> q_account q = None
     then rprint ''Fill any remaining <issue>/<account> placeholders before launching Alice.'' else rret ())))))"

end
