(* ===== verification/RunCommand.thy ===== *)
theory RunCommand
  imports RunPrepare
begin

text \<open>
  The two commands of \<^verbatim>\<open>prepare-run.py\<close>, composed of the checks and writes of \<^verbatim>\<open>RunPrepare\<close> in the order of
  the source, and \<^verbatim>\<open>main\<close>, which chooses between them and turns a \<^verbatim>\<open>ValueError\<close> into its message.
\<close>

section \<open>prepare\<close>

definition read_statement :: "run_host \<Rightarrow> run_request \<Rightarrow> (string \<times> string \<times> string) option run" where
  "read_statement h q = (case q_work_file q of
     None \<Rightarrow> rret None
   | Some f \<Rightarrow> if q_issue q \<noteq> None then
         rfail (Run_error ''--work-file and --issue are mutually exclusive; name the issue inside the statement of work, or pass --issue alone'')
       else rbind (read_work_file h (rh_resolve h f)) (\<lambda>s. rret (Some s)))"

definition bootstrap_local :: "run_host \<Rightarrow> run_plan \<Rightarrow> string \<Rightarrow> string \<Rightarrow> (string \<times> dict) run" where
  "bootstrap_local h p clone name = rbind (bootstrap_clone h name (p_path p name) clone) (\<lambda>d. rret (name, d))"

definition identity_value :: "string \<Rightarrow> dict \<Rightarrow> run_error + json" where
  "identity_value k d = from_option (Run_key_error k) (dict_get k d)"

text \<open>Whatever the two programs printed under the key, compared as Python compares it.\<close>

definition distinct_workspaces :: "(string \<times> dict) list \<Rightarrow> run_error + unit" where
  "distinct_workspaces workspaces = (case workspaces of
     [(a, d), (b, e)] \<Rightarrow> ebind (identity_value ''workspace_id'' d) (\<lambda>x. ebind (identity_value ''workspace_id'' e) (\<lambda>y.
       require_that (\<not> json_eq x y) ''bob and charlie must have distinct workspace IDs''))
   | _ \<Rightarrow> Inr ())"

definition write_prompt :: "run_host \<Rightarrow> string \<Rightarrow> string \<Rightarrow> unit run" where
  "write_prompt h run_dir name = rbind (worker_prompt h name) (\<lambda>t.
     write_text h (path_join run_dir (name @ ''.prompt.md'')) t)"

definition alice_prompt :: "run_host \<Rightarrow> string \<Rightarrow> string option \<Rightarrow> dict \<Rightarrow> string run" where
  "alice_prompt h goal account policy = rbind (read_text h (path_join (rh_root h) ''prompts/alice.md'')) (\<lambda>t.
     rlift (render_alice_prompt t goal account (pretty (rh_float_repr h) False 0 (JObj policy))))"

definition identity_paths :: "(string \<times> dict) list \<Rightarrow> run_error + (string \<times> string) list" where
  "identity_paths workspaces = foldr (\<lambda>(n, d) r. ebind (identity_str ''path'' d) (\<lambda>x. ebind r (\<lambda>xs. Inr ((n, x) # xs)))) workspaces (Inr [])"

text \<open>Configurations, the link to the skill and the prompts; the paths of the workers' configurations.\<close>

definition render_run ::
  "run_host \<Rightarrow> run_request \<Rightarrow> run_plan \<Rightarrow> (string \<times> string) list \<Rightarrow> (string \<times> dict) list \<Rightarrow> string \<Rightarrow> string \<Rightarrow> dict \<Rightarrow>
    (string \<times> string) list run" where
  "render_run h q p parsed workspaces token goal policy =
     (let run_dir = q_run_dir q; configs = path_join run_dir ''configs'' in
      rbind (rlift (distinct_workspaces workspaces)) (\<lambda>_.
      rbind (make_dir h configs) (\<lambda>_.
      rbind (reach (write_local_config h q p parsed token) workspaces) (\<lambda>rendered.
      rbind (save h (path_join configs ''alice.mcp.json'') (alice_config h (hub_env_of h p token))) (\<lambda>_.
      rbind (make_dir h (path_join run_dir ''alice-runtime/.claude/skills'')) (\<lambda>_.
      rbind (link_or_copy h (path_join (rh_root h) ''skills/alice-orchestrator'')
        (path_join run_dir ''alice-runtime/.claude/skills/alice-orchestrator'')) (\<lambda>_.
      rbind (reach (write_prompt h run_dir) (p_local p)) (\<lambda>_.
      rbind (alice_prompt h goal (q_account q) policy) (\<lambda>t.
      rbind (write_text h (path_join run_dir ''alice.prompt.md'') t) (\<lambda>_. rret rendered))))))))))"

definition report_run ::
  "run_host \<Rightarrow> run_request \<Rightarrow> run_plan \<Rightarrow> string option \<Rightarrow> (string \<times> dict) list \<Rightarrow> (string \<times> string) list \<Rightarrow> github_checks \<Rightarrow>
    (string \<times> string) list \<Rightarrow> bool \<Rightarrow> unit run" where
  "report_run h q p slug workspaces rendered g versions stated =
     rbind (reach (codex_auth_of h (path_join (q_run_dir q) ''configs''))
       (filter (\<lambda>n. wq_harness (worker_of q n) = ''codex'') (p_local p))) (\<lambda>auth.
     rbind (rlift (identity_paths workspaces)) (\<lambda>paths.
     rbind (print_json h (run_report q p slug paths rendered g versions
       (if auth = [] then [(''codex'', ''no codex worker in this topology'')] else auth))) (\<lambda>_.
     print_run h q p paths stated)))"

text \<open>What follows the token: everything rendered from it, then the manifest, then the report.\<close>

definition write_run ::
  "run_host \<Rightarrow> run_request \<Rightarrow> (string \<times> string \<times> string) option \<Rightarrow> run_plan \<Rightarrow> (string \<times> string) list \<Rightarrow> (string \<times> string) list \<Rightarrow>
    string option \<Rightarrow> string \<Rightarrow> github_checks \<Rightarrow> (string \<times> dict) list \<Rightarrow> string \<Rightarrow> dict run" where
  "write_run h q statement p versions parsed slug clone g workspaces token =
     (let policy = policy_of q (g_no_ci g);
          goal = render_goal slug (q_repository q) (q_issue q) (map_option fst statement) in
      rbind (render_run h q p parsed workspaces token goal policy) (\<lambda>rendered.
      let manifest = run_manifest q p clone slug versions policy goal statement workspaces rendered in
      rbind (save h (path_join (q_run_dir q) ''run.json'') (JObj manifest)) (\<lambda>_.
      rbind (report_run h q p slug workspaces rendered g versions (statement \<noteq> None)) (\<lambda>_.
      rret manifest))))"

record run_front =
  fr_statement :: "(string \<times> string \<times> string) option"
  fr_plan :: run_plan
  fr_versions :: "(string \<times> string) list"
  fr_parsed :: "(string \<times> string) list"
  fr_clone :: string
  fr_github :: github_checks
  fr_workspaces :: "(string \<times> dict) list"

definition slug_of :: "run_host \<Rightarrow> string \<Rightarrow> string option" where
  "slug_of h repository = parse_github_slug (rh_present h) repository"

text \<open>All that comes before the token: checks, questions and clones.\<close>

definition prepare_front :: "run_host \<Rightarrow> run_request \<Rightarrow> run_front run" where
  "prepare_front h q =
     rbind (read_statement h q) (\<lambda>statement.
     rbind (rlift (run_plan_of h q)) (\<lambda>p.
     rbind (probe_versions h (map (\<lambda>n. wq_harness (worker_of q n)) (p_local p))) (\<lambda>versions.
     rbind (clone_from h (q_repository q) (slug_of h (q_repository q))) (\<lambda>clone.
     rbind (check_github h q (slug_of h (q_repository q))) (\<lambda>g.
     rbind (make_dir h (q_run_dir q)) (\<lambda>_.
     rbind (check_manifest (path_join (q_run_dir q) ''run.json'') (q_run_dir q) (q_repository q)) (\<lambda>_.
     rbind (reach (bootstrap_local h p clone) (p_local p)) (\<lambda>workspaces.
     rret \<lparr>fr_statement = statement, fr_plan = p, fr_versions = fst versions, fr_parsed = snd versions, fr_clone = clone,
           fr_github = g, fr_workspaces = workspaces\<rparr>))))))))"

definition prepare :: "run_host \<Rightarrow> run_request \<Rightarrow> dict run" where
  "prepare h q =
     rbind (prepare_front h q) (\<lambda>f.
     rbind (ensure_token h (path_join (p_state (fr_plan f)) ''token'')) (\<lambda>token.
     write_run h q (fr_statement f) (fr_plan f) (fr_versions f) (fr_parsed f) (slug_of h (q_repository q)) (fr_clone f)
       (fr_github f) (fr_workspaces f) token))"

section \<open>prepare_worker\<close>

record worker_only_request =
  wo_name :: string
  wo_repository :: string
  wo_run_dir :: string
  wo_hub_url :: string
  wo_token_file :: string
  wo_worker :: worker_request

definition worker_bundle_env ::
  "worker_name \<Rightarrow> worker_request \<Rightarrow> string \<Rightarrow> string \<Rightarrow> string \<Rightarrow> web_address \<Rightarrow> file_path \<Rightarrow> file_path \<Rightarrow> variables" where
  "worker_bundle_env name r version prov token hub_url run_dir ws =
     worker_env name (wq_harness r) version prov (wq_model r) (wq_capabilities r) ws token
       (path_join run_dir (name @ ''-telemetry.jsonl'')) hub_url"

text \<open>The path of the configuration; \<open>run_dir\<close> is also where this process writes.\<close>

definition write_bundle_config ::
  "run_host \<Rightarrow> file_path \<Rightarrow> worker_name \<Rightarrow> string \<Rightarrow> variables \<Rightarrow> file_path run" where
  "write_bundle_config h configs name harness_name vars =
     (if harness_name = ''codex'' then
        rbind (codex_home h configs (codex_home_name name)) (\<lambda>home.
        rbind (rlift (render_codex_config (rh_windows h) (rh_codex_tools h) vars (worker_args (rh_root h)))) (\<lambda>t.
        rbind (write_secret h (path_join home ''config.toml'') (\<lambda>p. write_private_text h p t)) (\<lambda>_.
        rret (path_join home ''config.toml''))))
      else rbind (claude_config h (rh_root h) vars) (\<lambda>v.
        rbind (write_secret h (path_join configs (name @ ''.mcp.json'')) (\<lambda>p. save h p v)) (\<lambda>_.
        rret (path_join configs (name @ ''.mcp.json'')))))"

definition render_worker_bundle ::
  "run_host \<Rightarrow> worker_name \<Rightarrow> worker_request \<Rightarrow> string \<Rightarrow> string \<Rightarrow> string \<Rightarrow> web_address \<Rightarrow> file_path \<Rightarrow> file_path \<Rightarrow> (file_path \<times> file_path \<times> string list) run" where
  "render_worker_bundle h name r version prov token hub_url run_dir ws =
     rbind (make_dir h (path_join run_dir ''configs'')) (\<lambda>_.
     rbind (write_bundle_config h (path_join run_dir ''configs'') name (wq_harness r)
       (worker_bundle_env name r version prov token hub_url run_dir ws)) (\<lambda>config.
     rbind (write_prompt h run_dir name) (\<lambda>_.
     rret (config, path_join run_dir (name @ ''.prompt.md''), worker_launch (rh_windows h) name (wq_harness r) run_dir ws))))"

definition worker_only_checked :: "run_host \<Rightarrow> worker_only_request \<Rightarrow> run_error + (string \<times> string)" where
  "worker_only_checked h wo =
     (let name = wo_name wo; r = wo_worker wo; path = or_path (wq_dir r) (path_join (wo_run_dir wo) name); dial = trimmed_url (wo_hub_url wo) in
      ebind (require_that (name \<in> set WORKERS) (''--worker-only must be one of '' @ repr_list WORKERS)) (\<lambda>_.
      ebind (require_that (wq_harness r \<in> set SUPPORTED_HARNESSES) (''--'' @ name @ '' harness '' @ repr_str (wq_harness r) @
        '' is not yet supported by prepare-run; expected one of '' @ repr_list SUPPORTED_HARNESSES)) (\<lambda>_.
      ebind (require_that (wo_repository wo \<noteq> []) ''--repository must not be empty'') (\<lambda>_.
      ebind (run_place h (wo_run_dir wo)) (\<lambda>_.
      ebind (require_that (canonical_path h path) (''--'' @ name @ ''-dir must be absolute and canonical'')) (\<lambda>_.
      ebind (url_host (rh_os h) dial ''--hub-url'') (\<lambda>host.
      ebind (require_that (\<not> is_loopback (rh_loopback h) host) (''--worker-only '' @ name @
        '' dials the hub from another host, so --hub-url cannot be loopback ('' @ dial @ ''); pass the hub host'' @ [CHR 0x27] @ ''s address'')) (\<lambda>_.
      ebind (url_port (rh_os h) dial ''--hub-url'') (\<lambda>_. Inr (path, dial))))))))))"

definition worker_manifest ::
  "worker_only_request \<Rightarrow> string \<Rightarrow> string \<Rightarrow> string option \<Rightarrow> dict \<Rightarrow> string \<Rightarrow> (string \<times> string) list \<Rightarrow> string \<Rightarrow> dict" where
  "worker_manifest wo dial clone slug identity prov versions config =
     (let one = (\<lambda>v. JObj [(wo_name wo, v)]) in
      [(''schema_version'', JInt 1), (''worker_only'', JStr (wo_name wo)), (''repository'', JStr (wo_repository wo)),
       (''clone_repository'', JStr clone), (''slug'', opt_str slug), (''run_dir'', JStr (wo_run_dir wo)), (''hub_url'', JStr dial),
       (''workspaces'', one (JObj identity)), (''harnesses'', one (JStr (wq_harness (wo_worker wo)))), (''providers'', one (JStr prov)),
       (''models'', one (JStr (wq_model (wo_worker wo)))), (''versions'', str_dict versions), (''configs'', one (JStr config))])"

definition print_worker ::
  "run_host \<Rightarrow> worker_only_request \<Rightarrow> string \<Rightarrow> string \<Rightarrow> (string \<times> string) list \<Rightarrow> string \<times> string \<times> string list \<Rightarrow>
    (string \<times> string) list \<Rightarrow> unit run" where
  "print_worker h wo dial ws versions bundle auth = (case bundle of (config, prompt, launch) \<Rightarrow>
     rbind (print_json h (JObj [(''run_dir'', JStr (wo_run_dir wo)), (''worker_only'', JStr (wo_name wo)), (''hub_url'', JStr dial),
       (''workspace'', JStr ws), (''config'', JStr config), (''prompt'', JStr prompt),
       (''checks'', JObj ((''versions'', str_dict versions) # (if auth = [] then [] else [(''codex_auth'', str_dict auth)])))])) (\<lambda>_.
     rbind (rprint []) (\<lambda>_.
     rbind (rlift (preflight_lines (rh_os h) dial None None)) (\<lambda>ls.
     rbind (print_lines ls) (\<lambda>_.
     rbind (rprint (newline @ ''Launch command for '' @ wo_name wo @ '' (paste after the preflight passes):'')) (\<lambda>_.
     print_lines launch))))))"

definition prepare_worker :: "run_host \<Rightarrow> worker_only_request \<Rightarrow> dict run" where
  "prepare_worker h wo =
     (let name = wo_name wo; r = wo_worker wo; slug = slug_of h (wo_repository wo); run_dir = wo_run_dir wo in
      rbind (rlift (worker_only_checked h wo)) (\<lambda>(path, dial).
      rbind (read_hub_token h (wo_token_file wo)) (\<lambda>token.
      rbind (probe_versions h [wq_harness r]) (\<lambda>(versions, parsed).
      rbind (clone_from h (wo_repository wo) slug) (\<lambda>clone.
      rbind (make_dir h run_dir) (\<lambda>_.
      rbind (check_manifest (path_join run_dir ''run.json'') run_dir (wo_repository wo)) (\<lambda>_.
      rbind (bootstrap_clone h name path clone) (\<lambda>identity.
      rbind (rlift (provider_of r)) (\<lambda>prov.
      rbind (rlift (version_of parsed (wq_harness r))) (\<lambda>v.
      rbind (rlift (identity_str ''path'' identity)) (\<lambda>ws.
      rbind (render_worker_bundle h name r v prov token dial run_dir (path_text ws)) (\<lambda>bundle.
      let manifest = worker_manifest wo dial clone slug identity prov versions (fst bundle) in
      rbind (save h (path_join run_dir ''run.json'') (JObj manifest)) (\<lambda>_.
      rbind (reach (codex_auth_of h (path_join run_dir ''configs'')) (if wq_harness r = ''codex'' then [name] else [])) (\<lambda>auth.
      rbind (print_worker h wo dial ws versions bundle auth) (\<lambda>_. rret manifest)))))))))))))))"

section \<open>main\<close>

record run_arguments = run_request +
  q_worker_only :: "string option"
  q_token_file :: "string option"

text \<open>How the process ends.\<close>

datatype run_exit = Exit_done dict | Exit_usage string | Exit_error string | Exit_traceback

definition hub_only_flags :: "run_arguments \<Rightarrow> string list" where
  "hub_only_flags a = map fst (filter snd
     [(''--issue'', q_issue a \<noteq> None), (''--work-file'', q_work_file a \<noteq> None), (''--account'', q_account a \<noteq> None),
      (''--state-dir'', q_state_dir a \<noteq> None), (''--remote-worker'', q_remote a \<noteq> None),
      (''--hub-host'', q_hub_host a \<noteq> DEFAULT_HUB_HOST), (''--hub-port'', q_hub_port a \<noteq> None),
      (''--public-url'', q_public_url a \<noteq> None)])"

definition run_exit_of :: "run_error + dict \<Rightarrow> run_exit" where
  "run_exit_of r = (case r of Inr d \<Rightarrow> Exit_done d
     | Inl (Run_error m) \<Rightarrow> Exit_error (''prepare-run: error: '' @ m) | Inl _ \<Rightarrow> Exit_traceback)"

definition worker_only_of :: "run_arguments \<Rightarrow> string \<Rightarrow> string \<Rightarrow> worker_only_request" where
  "worker_only_of a name token_file = \<lparr>wo_name = name, wo_repository = q_repository a, wo_run_dir = q_run_dir a,
     wo_hub_url = q_hub_url a, wo_token_file = token_file,
     wo_worker = (if name = ''bob'' then q_bob a else q_charlie a)\<rparr>"

definition request_of :: "run_arguments \<Rightarrow> run_request" where
  "request_of a = run_request.truncate a"

definition prepare_run_main :: "run_host \<Rightarrow> run_arguments \<Rightarrow> run_world \<Rightarrow> run_exit \<times> run_world" where
  "prepare_run_main h a w = (case q_worker_only a of
     Some name \<Rightarrow>
       (if hub_only_flags a \<noteq> [] then
          (Exit_usage (''hub-host flags do not apply to --worker-only: '' @ join '', '' (hub_only_flags a)), w)
        else case q_token_file a of
          None \<Rightarrow> (Exit_usage (''--worker-only needs --token-file, the hub'' @ [CHR 0x27] @ ''s token file''), w)
        | Some f \<Rightarrow> map_prod run_exit_of id (prepare_worker h (worker_only_of a name f) w))
   | None \<Rightarrow>
       (if q_token_file a \<noteq> None then (Exit_usage ''--token-file is only for --worker-only'', w)
        else map_prod run_exit_of id (prepare h (request_of a) w)))"

end
