(* ===== verification/RunWrites.thy ===== *)
theory RunWrites
  imports RunCommand
begin

text \<open>
  What the commands of \<^verbatim>\<open>prepare-run.py\<close> leave on disk: the steps that write no file, the one file each of the
  others writes, and what follows for the token, the manifest and the secrets.
\<close>

section \<open>Steps that leave files alone\<close>

text \<open>\<open>spares P m\<close>: whatever happens, \<open>m\<close> changes no file whose path satisfies \<open>P\<close>.\<close>

definition spares :: "(string \<Rightarrow> bool) \<Rightarrow> 'a run \<Rightarrow> bool" where
  "spares P m = (\<forall>w p. P p \<longrightarrow> w_files (snd (m w)) p = w_files w p)"

named_theorems spares_intros \<open>steps that spare files\<close>

lemma spares_rret [spares_intros]: "spares P (rret x)"
  by (simp add: spares_def rret_def)

lemma spares_rfail [spares_intros]: "spares P (rfail e)"
  by (simp add: spares_def rfail_def)

lemma spares_rlift [spares_intros]: "spares P (rlift r)"
  by (simp add: spares_def rlift_def)

lemma spares_after:
  assumes "spares P m" "\<And>w x v. m w = (Inr x, v) \<Longrightarrow> spares P (f x)"
  shows "spares P (rbind m f)"
  unfolding spares_def
proof (intro allI impI)
  fix w p
  assume P: "P p"
  obtain r v where m: "m w = (r, v)" by fastforce
  with assms(1) P have v: "w_files v p = w_files w p" unfolding spares_def by (metis snd_conv)
  show "w_files (snd (rbind m f w)) p = w_files w p"
  proof (cases r)
    case (Inr x)
    with assms(2) m P have "w_files (snd (f x v)) p = w_files v p" unfolding spares_def by blast
    with v m Inr show ?thesis by (simp add: rbind_def)
  qed (use v m in \<open>simp add: rbind_def\<close>)
qed

lemma spares_rbind [spares_intros]: "spares P m \<Longrightarrow> (\<And>x. spares P (f x)) \<Longrightarrow> spares P (rbind m f)"
  by (rule spares_after)

lemma spares_reach [spares_intros]: "(\<And>x. spares P (f x)) \<Longrightarrow> spares P (reach f xs)"
  by (induction xs) (auto intro: spares_intros)

lemma spares_rcheck [spares_intros]: "spares P (rcheck b why)"
  by (simp add: rcheck_def spares_intros)

lemma spares_rprint [spares_intros]: "spares P (rprint l)"
  by (simp add: spares_def rprint_def)

lemma spares_run_program [spares_intros]: "spares P (run_program h vars args)"
  by (simp add: spares_def run_program_def)

lemma spares_make_dir [spares_intros]: "spares P (make_dir h d)"
  by (simp add: spares_def make_dir_def)

lemma spares_read_text [spares_intros]: "spares P (read_text h p)"
  by (simp add: spares_def read_text_def split: option.splits)

lemma spares_links [spares_intros]: "spares P (link_or_copy h a b)" "spares P (link_auth h a b)"
  by (simp_all add: spares_def link_or_copy_def link_auth_def)

lemma spares_open_write [spares_intros]: "\<not> P p \<Longrightarrow> spares P (open_write h p)"
  by (auto simp: spares_def open_write_def put_file_def)

lemma spares_on_file [spares_intros]: "\<not> P p \<Longrightarrow> spares P (on_file p g)"
  by (auto simp: spares_def on_file_def put_file_def split: option.splits)

lemma spares_replace_file [spares_intros]: "\<not> P a \<Longrightarrow> \<not> P p \<Longrightarrow> spares P (replace_file h a p)"
  by (auto simp: spares_def replace_file_def split: option.splits)

lemma spares_file_steps [spares_intros]:
  "\<not> P p \<Longrightarrow> spares P (chmod_file h p m)" "\<not> P p \<Longrightarrow> spares P (fill_file p t)"
  by (simp_all add: chmod_file_def fill_file_def spares_intros)

lemma spares_write_private_text [spares_intros]:
  "\<not> P p \<Longrightarrow> \<not> P (temporary p) \<Longrightarrow> spares P (write_private_text h p t)"
  by (simp add: write_private_text_def spares_intros)

lemma spares_save [spares_intros]: "\<not> P p \<Longrightarrow> \<not> P (temporary p) \<Longrightarrow> spares P (save h p v)"
  by (simp add: save_def spares_intros)

lemma spares_write_text [spares_intros]: "\<not> P p \<Longrightarrow> spares P (write_text h p t)"
  by (simp add: write_text_def spares_intros)

lemma spares_read_work_file [spares_intros]: "spares P (read_work_file h p)"
  by (simp add: spares_def read_work_file_def split: option.splits)

lemma spares_read_hub_token [spares_intros]: "spares P (read_hub_token h p)"
  by (simp add: spares_def read_hub_token_def split: option.splits)

lemma spares_json_or_error [spares_intros]: "spares P (json_or_error t)"
  by (simp add: json_or_error_def spares_intros)

lemma spares_check_manifest [spares_intros]: "spares P (check_manifest p d r)"
proof -
  have "spares P (rbind (json_or_error t) (\<lambda>v. case v of
      JObj m \<Rightarrow> rbind (rcheck (a m) x) (\<lambda>_. rcheck (b m) y) | _ \<Rightarrow> rfail Run_type_error))" for t a b x y
    by (auto intro!: spares_intros split: json.splits)
  then show ?thesis unfolding spares_def check_manifest_def by (auto split: option.splits)
qed

lemma spares_run_or [spares_intros]: "spares P (run_or h args e)"
  by (auto simp: run_or_def intro!: spares_intros split: program_answer.splits)

lemma spares_github [spares_intros]: "spares P (check_github h q slug)"
  by (auto simp: check_github_def check_gh_auth_def ask_github_def repo_settings_def repo_has_workflows_def
      intro!: spares_intros split: option.splits json.splits)

lemma spares_clone_from [spares_intros]: "spares P (clone_from h r slug)"
  by (auto simp: clone_from_def git_protocol_def Let_def intro!: spares_intros)

lemma spares_probe_versions [spares_intros]: "spares P (probe_versions h hs)"
  by (auto simp: probe_versions_def probe_one_def intro!: spares_intros)

lemma spares_bootstrap_clone [spares_intros]: "spares P (bootstrap_clone h n d r)"
  by (auto simp: bootstrap_clone_def intro!: spares_intros split: program_answer.splits json.splits)

lemma spares_read_statement [spares_intros]: "spares P (read_statement h q)"
  by (auto simp: read_statement_def intro!: spares_intros split: option.splits)

lemma spares_codex_home [spares_intros]: "spares P (codex_home h d n)"
  by (auto simp: codex_home_def Let_def intro!: spares_intros)

lemma spares_codex_auth [spares_intros]: "spares P (codex_auth_of h d n)"
  by (auto simp: codex_auth_of_def codex_login_status_def intro!: spares_intros)

lemma spares_claude_config [spares_intros]: "spares P (claude_config h d vars)"
  by (auto simp: claude_config_def intro!: spares_intros split: json.splits)

lemma spares_print [spares_intros]: "spares P (print_json h v)" "spares P (print_lines ls)"
  by (auto simp: print_json_def print_lines_def intro!: spares_intros)

lemma spares_print_run [spares_intros]: "spares P (print_run h q p paths stated)"
  by (auto simp: print_run_def print_remote_def print_preflight_def intro!: spares_intros split: option.splits)

lemma spares_report_run [spares_intros]: "spares P (report_run h q p slug ws rendered g vs stated)"
  by (auto simp: report_run_def intro!: spares_intros)

lemma spares_front [spares_intros]: "spares P (prepare_front h q)"
  by (auto simp: prepare_front_def bootstrap_local_def intro!: spares_intros)

section \<open>The clones come before the token\<close>

definition bootstrap_command ::
  "run_host \<Rightarrow> worker_name \<Rightarrow> file_path \<Rightarrow> string \<Rightarrow> string list" where
  "bootstrap_command h name destination clone = [''uv'', ''run'', ''--locked'', ''--project'', rh_root h, ''python'',
     path_join (rh_root h) ''scripts/bootstrap-workspace.py'', name, destination, clone]"

lemma reach_Inr_all:
  assumes "\<And>x y w w'. f x w = (Inr y, w') \<Longrightarrow> Q x"
  shows "reach f xs w = (Inr ys, w') \<Longrightarrow> list_all Q xs"
  by (induction xs arbitrary: w w' ys) (auto simp: rbind_Inr rret_def dest: assms)

lemma spares_all: "spares (\<lambda>_. True) m \<Longrightarrow> m w = (r, w') \<Longrightarrow> w_files w' = w_files w"
  by (rule ext) (metis snd_conv spares_def)

text \<open>
  What every run has been through before its first file: what its request may ask for, its
  statement of work, the tools of its local workers, what GitHub said of the repository, and the
  manifest that was there.
\<close>

definition plan_allowed :: "run_host \<Rightarrow> run_request \<Rightarrow> run_plan \<Rightarrow> bool" where
  "plan_allowed h q p =
     (list_all (canonical_path h) [q_run_dir q, p_path p ''bob'', p_path p ''charlie'', p_state p] \<and>
      q_run_dir q \<noteq> rh_root h \<and> \<not> inside (rh_root h) (q_run_dir q) \<and> p_path p ''bob'' \<noteq> p_path p ''charlie'' \<and>
      q_repository q \<noteq> [] \<and> {wq_harness (q_bob q), wq_harness (q_charlie q)} \<subseteq> set SUPPORTED_HARNESSES \<and>
      q_merge_method q \<in> {''squash'', ''merge'', ''rebase''} \<and> q_allow_no_ci q \<in> {''auto'', ''true'', ''false''} \<and>
      (case q_remote q of None \<Rightarrow> True | Some r \<Rightarrow> r \<in> set WORKERS \<and> wq_dir (worker_of q r) = None) \<and>
      p_local p = filter (\<lambda>n. Some n \<noteq> q_remote q) WORKERS)"

definition statement_allowed :: "run_host \<Rightarrow> run_request \<Rightarrow> run_world \<Rightarrow> bool" where
  "statement_allowed h q w = (case q_work_file q of None \<Rightarrow> True
     | Some f \<Rightarrow> q_issue q = None \<and> (case w_files w (rh_resolve h f) of None \<Rightarrow> False | Some x \<Rightarrow> strip (f_content x) \<noteq> []))"

definition done_with :: "run_host \<Rightarrow> string list \<Rightarrow> string option" where
  "done_with h args = (case rh_program h [] args of Program_done out err \<Rightarrow> Some (strip out) | _ \<Rightarrow> None)"

definition tools_present :: "run_host \<Rightarrow> run_request \<Rightarrow> run_plan \<Rightarrow> bool" where
  "tools_present h q p = list_all (\<lambda>n. case map_of VERSION_COMMANDS (wq_harness (worker_of q n)) of
     None \<Rightarrow> False | Some cli \<Rightarrow> done_with h [cli, ''--version''] \<noteq> None) (p_local p)"

definition github_allows :: "run_host \<Rightarrow> run_request \<Rightarrow> bool" where
  "github_allows h q = (case slug_of h (q_repository q) of None \<Rightarrow> True
     | Some s \<Rightarrow> q_skip_github q \<or> done_with h [''gh'', ''auth'', ''status''] \<noteq> None \<and>
         (case done_with h [''gh'', ''repo'', ''view'', s, ''--json'',
             ''viewerPermission,squashMergeAllowed,mergeCommitAllowed,rebaseMergeAllowed''] of None \<Rightarrow> False
          | Some t \<Rightarrow> (case loads t of Some (JObj d) \<Rightarrow>
               dict_get ''viewerPermission'' d \<in> {Some (JStr ''ADMIN''), Some (JStr ''MAINTAIN''), Some (JStr ''WRITE'')} \<and>
               truthy_opt (dict_get (if q_merge_method q = ''squash'' then ''squashMergeAllowed''
                 else if q_merge_method q = ''merge'' then ''mergeCommitAllowed'' else ''rebaseMergeAllowed'') d)
             | _ \<Rightarrow> False)))"

definition manifest_allows :: "run_request \<Rightarrow> run_world \<Rightarrow> bool" where
  "manifest_allows q w = (case w_files w (path_join (q_run_dir q) ''run.json'') of None \<Rightarrow> True
     | Some f \<Rightarrow> (case loads (f_content f) of Some (JObj d) \<Rightarrow> dict_get ''run_dir'' d = Some (JStr (q_run_dir q)) \<and>
         dict_get ''repository'' d = Some (JStr (q_repository q)) | _ \<Rightarrow> False))"

text \<open>The identity the clone of a worker printed.\<close>

definition cloned :: "run_host \<Rightarrow> run_plan \<Rightarrow> string \<Rightarrow> string \<times> dict \<Rightarrow> bool" where
  "cloned h p clone worker = (case worker of (n, d) \<Rightarrow>
     (case done_with h (bootstrap_command h n (p_path p n) clone) of None \<Rightarrow> False | Some t \<Rightarrow> loads t = Some (JObj d)))"

lemma run_plan_allowed: "run_plan_of h q = Inr p \<Longrightarrow> plan_allowed h q p"
  by (auto simp: run_plan_of_def plan_allowed_def run_place_def supported_def require_that_def Let_def
      split: if_splits option.splits)

lemma run_or_Inr: "run_or h args e w = (Inr t, w') \<Longrightarrow> done_with h args = Some t"
  by (auto simp: run_or_def rbind_Inr run_program_def rret_def rfail_def done_with_def split: program_answer.splits)

lemma read_statement_Inr: "read_statement h q w = (Inr st, w') \<Longrightarrow> statement_allowed h q w"
  by (auto simp: read_statement_def statement_allowed_def read_work_file_def rbind_Inr rret_def rfail_def
      split: option.splits if_splits)

lemma json_or_error_Inr: "json_or_error t w = (Inr v, w') \<longleftrightarrow> loads t = Some v \<and> w' = w"
  by (auto simp: json_or_error_def rlift_def from_option_def split: option.splits)

lemma rcheck_Inr: "rcheck b why w = (Inr u, w') \<longleftrightarrow> \<not> b \<and> w' = w"
  by (auto simp: rcheck_def rret_def rfail_def)

lemma rfail_Inr [simp]: "rfail e w \<noteq> (Inr y, w')"
  by (simp add: rfail_def)

lemma settings_object_Inr:
  "(case v of JObj d \<Rightarrow> f d | _ \<Rightarrow> rfail e) w = (Inr y, w') \<longleftrightarrow> (\<exists>d. v = JObj d \<and> f d w = (Inr y, w'))"
  by (cases v) (auto simp: rfail_def)

lemma ask_github_Inr:
  assumes "ask_github h q s w = (Inr g, w')"
  obtains t d where "done_with h [''gh'', ''repo'', ''view'', s, ''--json'',
      ''viewerPermission,squashMergeAllowed,mergeCommitAllowed,rebaseMergeAllowed''] = Some t" "loads t = Some (JObj d)"
    "push_permission d" "truthy_opt (dict_get (merge_flag (q_merge_method q)) d)"
proof -
  from assms obtain d w1 where v: "repo_settings h s w = (Inr (JObj d), w1)" "push_permission d"
    "truthy_opt (dict_get (merge_flag (q_merge_method q)) d)"
    by (auto simp: ask_github_def rbind_Inr rcheck_Inr settings_object_Inr)
  from v(1) obtain t w2 where "run_or h [''gh'', ''repo'', ''view'', s, ''--json'',
      ''viewerPermission,squashMergeAllowed,mergeCommitAllowed,rebaseMergeAllowed'']
      (Run_error (''cannot read repository settings for '' @ s @ ''; check `gh auth status` and the repository name'')) w = (Inr t, w2)"
    "loads t = Some (JObj d)"
    by (auto simp: repo_settings_def rbind_Inr json_or_error_Inr)
  then show thesis using that v(2,3) run_or_Inr by blast
qed

lemma check_github_Inr:
  assumes "check_github h q (slug_of h (q_repository q)) w = (Inr g, w')"
  shows "github_allows h q"
proof (cases "slug_of h (q_repository q)")
  case (Some s)
  show ?thesis
  proof (cases "q_skip_github q")
    case False
    with assms Some obtain w1 w2 u t where a: "run_or h [''gh'', ''auth'', ''status''] t w = (Inr u, w1)"
      "ask_github h q s w2 = (Inr g, w')"
      by (auto simp: check_github_def check_gh_auth_def rbind_Inr)
    obtain t d where "done_with h [''gh'', ''repo'', ''view'', s, ''--json'',
      ''viewerPermission,squashMergeAllowed,mergeCommitAllowed,rebaseMergeAllowed''] = Some t" "loads t = Some (JObj d)"
      "push_permission d" "truthy_opt (dict_get (merge_flag (q_merge_method q)) d)"
      using ask_github_Inr [OF a(2)] .
    then show ?thesis using Some run_or_Inr [OF a(1)]
      by (auto simp: github_allows_def push_permission_def merge_flag_def split: option.splits json.splits)
  qed (simp add: github_allows_def Some)
qed (simp add: github_allows_def)

lemma probe_versions_Inr:
  assumes "probe_versions h hs w = (Inr x, w')" "hn \<in> set hs"
  shows "\<exists>cli. map_of VERSION_COMMANDS hn = Some cli \<and> done_with h [cli, ''--version''] \<noteq> None"
proof -
  have "\<exists>cli. map_of VERSION_COMMANDS k = Some cli \<and> done_with h [cli, ''--version''] \<noteq> None"
    if "probe_one h k v = (Inr y, v')" for k v y v'
    using that by (auto simp: probe_one_def rbind_Inr rlift_def from_option_def dest!: run_or_Inr split: option.splits)
  from reach_Inr_all [OF this] assms show ?thesis
    by (fastforce simp: probe_versions_def rbind_Inr list_all_iff)
qed

lemma check_manifest_Inr:
  assumes "check_manifest (path_join (q_run_dir q) ''run.json'') (q_run_dir q) (q_repository q) w = (Inr u, w')"
  shows "manifest_allows q w"
  using assms
  by (auto simp: check_manifest_def manifest_allows_def rbind_Inr json_or_error_Inr rcheck_Inr settings_object_Inr split: option.splits)

lemma bootstrap_local_Inr: "bootstrap_local h p clone n w = (Inr x, w') \<Longrightarrow> fst x = n \<and> cloned h p clone x"
  by (auto simp: bootstrap_local_def bootstrap_clone_def rbind_Inr run_program_def cloned_def done_with_def bootstrap_command_def
      json_or_error_Inr settings_object_Inr rret_def split: program_answer.splits)

lemma reach_results:
  assumes "\<And>x y w w'. f x w = (Inr y, w') \<Longrightarrow> g y = x \<and> Q y"
  shows "reach f xs w = (Inr ys, w') \<Longrightarrow> map g ys = xs \<and> list_all Q ys"
  by (induction xs arbitrary: w ys) (auto simp: rbind_Inr rret_def dest: assms)

definition run_accepted :: "run_host \<Rightarrow> run_request \<Rightarrow> run_world \<Rightarrow> run_plan \<Rightarrow> string \<Rightarrow> (string \<times> dict) list \<Rightarrow> bool" where
  "run_accepted h q w p clone workspaces =
     (run_plan_of h q = Inr p \<and> plan_allowed h q p \<and> statement_allowed h q w \<and> tools_present h q p \<and> github_allows h q \<and>
      manifest_allows q w \<and> map fst workspaces = p_local p \<and> list_all (cloned h p clone) workspaces)"

lemma prepare_front_Inr:
  assumes "prepare_front h q w = (Inr f, w')"
  shows "run_accepted h q w (fr_plan f) (fr_clone f) (fr_workspaces f)"
proof -
  let ?m = "check_manifest (path_join (q_run_dir q) ''run.json'') (q_run_dir q) (q_repository q)"
  from assms obtain st p vs c g x w1 w3 w4 w5 w6 w7 w8 where
    f: "run_plan_of h q = Inr p" "fr_plan f = p" "fr_clone f = c" "fr_workspaces f = x"
    and steps: "read_statement h q w = (Inr st, w1)"
      "probe_versions h (map (\<lambda>n. wq_harness (worker_of q n)) (p_local p)) w1 = (Inr vs, w3)"
      "clone_from h (q_repository q) (slug_of h (q_repository q)) w3 = (Inr c, w4)"
      "check_github h q (slug_of h (q_repository q)) w4 = (Inr g, w5)"
      "make_dir h (q_run_dir q) w5 = (Inr (), w6)" "?m w6 = (Inr (), w7)"
      "reach (bootstrap_local h p c) (p_local p) w7 = (Inr x, w8)"
    by (auto simp: prepare_front_def rbind_Inr rlift_def rret_def)
  have "tools_present h q p"
    unfolding tools_present_def list_all_iff using probe_versions_Inr [OF steps(2)] by fastforce
  moreover have "w_files w6 = w_files w"
    using steps by (metis spares_all spares_read_statement spares_probe_versions spares_clone_from spares_github spares_make_dir)
  then have "manifest_allows q w" using check_manifest_Inr [OF steps(6)] by (simp add: manifest_allows_def)
  moreover have "map fst x = p_local p \<and> list_all (cloned h p c) x"
    by (rule reach_results [OF bootstrap_local_Inr steps(7)])
  ultimately show ?thesis
    using f read_statement_Inr [OF steps(1)] check_github_Inr [OF steps(4)] run_plan_allowed [OF f(1)]
    by (simp add: run_accepted_def)
qed

section \<open>The token is never rewritten\<close>

lemma token_reused: "w_files w p = Some f \<Longrightarrow> w_files (snd (ensure_token h p w)) p = Some f"
proof -
  assume f: "w_files w p = Some f"
  obtain r w1 where d: "make_dir h (parent_of p) w = (r, w1)" by fastforce
  then have "w_files w1 p = Some f" using f spares_all [OF spares_make_dir] by metis
  then show ?thesis using d f
    by (cases r) (auto simp: ensure_token_def rbind_def exists_at_def read_text_def rret_def split: prod.splits sum.splits)
qed

lemma ensure_token_value:
  assumes "w_files w p = Some f" "ensure_token h p w = (Inr t, w')"
  shows "t = strip (f_content f)"
proof -
  from assms(2) obtain u w1 w2 where "make_dir h (parent_of p) w = (Inr (), w1)"
    "(if exists_at w1 p then (Inr (), w1)
      else rbind (write_text h p (rh_hex h @ newline)) (\<lambda>_. chmod_file h p 384) w1) = (Inr (), w2)"
    "read_text h p w2 = (Inr u, w')" "t = strip u"
    by (auto simp: ensure_token_def rbind_Inr rret_def)
  moreover from this have "w_files w1 p = Some f" using assms(1) spares_all [OF spares_make_dir] by metis
  ultimately show ?thesis by (auto simp: exists_at_def read_text_def split: if_splits)
qed

lemma spares_ensure_token: "\<not> P p \<Longrightarrow> spares P (ensure_token h p)"
proof -
  assume p: "\<not> P p"
  have "spares P (rbind (write_text h p t) (\<lambda>_. chmod_file h p 384))" for t by (intro spares_intros p)
  then have "spares P (\<lambda>w. if exists_at w p then (Inr (), w)
      else rbind (write_text h p (rh_hex h @ newline)) (\<lambda>_. chmod_file h p 384) w)"
    by (simp add: spares_def)
  then show ?thesis unfolding ensure_token_def by (intro spares_intros)
qed

text \<open>The paths a run writes to, its token apart.\<close>

definition private_paths :: "string \<Rightarrow> string list" where
  "private_paths run_dir = (let configs = path_join run_dir ''configs'' in
     [path_join configs ''alice.mcp.json'', path_join configs ''bob.mcp.json'', path_join configs ''charlie.mcp.json'',
      path_join (path_join configs ''codex'') ''config.toml'', path_join (path_join configs ''bob-codex'') ''config.toml'',
      path_join run_dir ''run.json''])"

definition run_paths :: "string \<Rightarrow> string list" where
  "run_paths run_dir = private_paths run_dir @ map temporary (private_paths run_dir) @
     [path_join run_dir ''alice.prompt.md'', path_join run_dir ''bob.prompt.md'', path_join run_dir ''charlie.prompt.md'']"

lemma codex_home_Inr: "codex_home h d n w = (Inr x, v) \<Longrightarrow> x = path_join d n"
  by (auto simp: codex_home_def Let_def rbind_Inr rret_def)

lemma spares_write_worker_config:
  assumes "\<not> P (path_join (path_join configs (codex_home_name n)) ''config.toml'')" "\<not> P (path_join configs (n @ ''.mcp.json''))"
    "\<not> P (temporary (path_join (path_join configs (codex_home_name n)) ''config.toml''))"
    "\<not> P (temporary (path_join configs (n @ ''.mcp.json'')))"
  shows "spares P (write_worker_config h configs n hn vars)"
proof -
  have "spares P (rbind (codex_home h configs (codex_home_name n)) (\<lambda>home.
      rbind (rlift t) (\<lambda>t. rbind (write_private_text h (path_join home ''config.toml'') t) (\<lambda>_. rret (path_join home ''config.toml'')))))" for t
    by (rule spares_after) (use assms in \<open>auto dest!: codex_home_Inr intro!: spares_intros\<close>)
  moreover have "spares P (rbind (claude_config h d vars) (\<lambda>v.
      rbind (save h (path_join configs (n @ ''.mcp.json'')) v) (\<lambda>_. rret (path_join configs (n @ ''.mcp.json'')))))" for d
    using assms by (auto intro!: spares_intros)
  ultimately show ?thesis by (simp add: write_worker_config_def)
qed

lemma spares_write_local_config:
  assumes "\<And>n. \<not> P (path_join (path_join (path_join (q_run_dir q) ''configs'') (codex_home_name n)) ''config.toml'')"
    "\<And>n. \<not> P (temporary (path_join (path_join (path_join (q_run_dir q) ''configs'') (codex_home_name n)) ''config.toml''))"
    "\<not> P (path_join (path_join (q_run_dir q) ''configs'') (fst worker @ ''.mcp.json''))"
    "\<not> P (temporary (path_join (path_join (q_run_dir q) ''configs'') (fst worker @ ''.mcp.json'')))"
  shows "spares P (write_local_config h q p parsed token worker)"
  using assms by (cases worker) (auto simp: write_local_config_def intro!: spares_intros spares_write_worker_config)

lemma spares_write_prompt [spares_intros]:
  "\<not> P (path_join run_dir (n @ ''.prompt.md'')) \<Longrightarrow> spares P (write_prompt h run_dir n)"
  by (auto simp: write_prompt_def worker_prompt_def intro!: spares_intros)

lemma spares_alice_prompt [spares_intros]: "spares P (alice_prompt h goal a policy)"
  by (auto simp: alice_prompt_def intro!: spares_intros)

lemma spares_reach_set:
  assumes "\<And>x. x \<in> set xs \<Longrightarrow> spares P (f x)"
  shows "spares P (reach f xs)"
  using assms by (induction xs) (auto intro!: spares_intros)

lemma spares_write_run:
  assumes "list_all (\<lambda>p. \<not> P p) (run_paths (q_run_dir q))"
    "set (map fst ws) \<subseteq> {''bob'', ''charlie''}" "set (p_local p) \<subseteq> {''bob'', ''charlie''}"
  shows "spares P (write_run h q st p vs parsed slug clone g ws token)"
proof -
  note paths = assms(1) [unfolded run_paths_def private_paths_def Let_def, simplified]
  have home: "\<not> P (path_join (path_join (path_join (q_run_dir q) ''configs'') (codex_home_name n)) ''config.toml'')"
    "\<not> P (temporary (path_join (path_join (path_join (q_run_dir q) ''configs'') (codex_home_name n)) ''config.toml''))" for n
    using paths by (simp_all add: codex_home_name_def)
  have config: "spares P (reach (write_local_config h q p parsed token) ws)"
  proof (rule spares_reach_set)
    fix x assume "x \<in> set ws"
    then have "fst x = ''bob'' \<or> fst x = ''charlie''" using assms(2) by auto
    then show "spares P (write_local_config h q p parsed token x)"
      by (intro spares_write_local_config [of P] home) (use paths in auto)
  qed
  have prompts: "spares P (reach (write_prompt h (q_run_dir q)) (p_local p))"
  proof (rule spares_reach_set)
    fix n assume "n \<in> set (p_local p)"
    then have "n = ''bob'' \<or> n = ''charlie''" using assms(3) by auto
    then show "spares P (write_prompt h (q_run_dir q) n)" by (intro spares_write_prompt) (use paths in auto)
  qed
  show ?thesis unfolding write_run_def render_run_def Let_def using config prompts paths by (auto intro!: spares_intros)
qed

lemma front_names:
  assumes "prepare_front h q w = (Inr f, w')"
  shows "map fst (fr_workspaces f) = p_local (fr_plan f)"
    and "set (p_local (fr_plan f)) \<subseteq> {''bob'', ''charlie''}"
    and "run_plan_of h q = Inr (fr_plan f)"
  using prepare_front_Inr [OF assms] by (auto simp: run_accepted_def plan_allowed_def WORKERS_def)

lemma prepare_after_front:
  assumes "prepare h q w = (r, w')"
  obtains (stopped) e where "prepare_front h q w = (Inl e, w')" "r = Inl e"
  | (tokenless) f e w1 where "prepare_front h q w = (Inr f, w1)"
      "ensure_token h (path_join (p_state (fr_plan f)) ''token'') w1 = (Inl e, w')"
  | (run) f t w1 w2 where "prepare_front h q w = (Inr f, w1)"
      "ensure_token h (path_join (p_state (fr_plan f)) ''token'') w1 = (Inr t, w2)"
      "write_run h q (fr_statement f) (fr_plan f) (fr_versions f) (fr_parsed f) (slug_of h (q_repository q)) (fr_clone f)
         (fr_github f) (fr_workspaces f) t w2 = (r, w')"
  using assms unfolding prepare_def rbind_def by (auto split: prod.splits sum.splits)

lemma sparesD: "spares P m \<Longrightarrow> m w = (r, w') \<Longrightarrow> P p \<Longrightarrow> w_files w' p = w_files w p"
  unfolding spares_def by (metis snd_conv)

text \<open>A token file that is there when a run is prepared is there, unchanged, whatever happens.\<close>

lemma prepare_keeps_token:
  assumes "run_plan_of h q = Inr p" "tok = path_join (p_state p) ''token''" "w_files w tok = Some f"
    "tok \<notin> set (run_paths (q_run_dir q))" "prepare h q w = (r, w')"
  shows "w_files w' tok = Some f"
  using assms(5)
proof (cases rule: prepare_after_front)
  case (stopped e)
  then show ?thesis using assms(3) spares_all [OF spares_front] by metis
next
  case (tokenless fr e w1)
  then have "w_files w1 tok = Some f" "fr_plan fr = p"
    using assms(1,3) spares_all [OF spares_front] front_names(3) by (metis, fastforce)
  then show ?thesis using tokenless assms(2) token_reused by (metis snd_conv)
next
  case (run fr t w1 w2)
  have plan: "fr_plan fr = p" using assms(1) front_names(3) [OF run(1)] by simp
  have "w_files w1 tok = Some f" using assms(3) run(1) spares_all [OF spares_front] by metis
  then have w2: "w_files w2 tok = Some f" using run(2) plan assms(2) token_reused by (metis snd_conv)
  have "list_all (\<lambda>p. \<not> p = tok) (run_paths (q_run_dir q))" using assms(4) by (auto simp: list_all_iff)
  from sparesD [OF spares_write_run [OF this] run(3)] show ?thesis
    using w2 front_names(1,2) [OF run(1)] by (metis image_set)
qed

text \<open>
  A run that is refused, or whose clones fail, has written no file: no token, no configuration, no
  manifest. Two clones with one identity are found out after the token, and before anything else.
\<close>

definition ids_distinct :: "(string \<times> dict) list \<Rightarrow> bool" where
  "ids_distinct workspaces = (case workspaces of
     [(a, d), (b, e)] \<Rightarrow> (case (dict_get ''workspace_id'' d, dict_get ''workspace_id'' e) of
         (Some x, Some y) \<Rightarrow> \<not> json_eq x y | _ \<Rightarrow> False)
   | _ \<Rightarrow> True)"

lemma distinct_workspaces_Inl: "\<not> ids_distinct ws \<Longrightarrow> \<exists>e. distinct_workspaces ws = Inl e"
  by (auto simp: ids_distinct_def distinct_workspaces_def identity_value_def from_option_def require_that_def
      split: list.splits prod.splits option.splits)

lemma write_run_undistinguished:
  assumes "\<not> ids_distinct ws"
  shows "snd (write_run h q st p vs parsed slug clone g ws token w) = w"
proof -
  obtain e where "distinct_workspaces ws = Inl e" using distinct_workspaces_Inl [OF assms] by blast
  then show ?thesis by (simp add: write_run_def render_run_def rbind_def rlift_def Let_def)
qed

lemma prepare_writes_after_clones:
  assumes "prepare h q w = (r, w')" "w_files w' \<noteq> w_files w"
  obtains p clone ws where "run_accepted h q w p clone ws"
    "ids_distinct ws \<or> (\<forall>x. x \<noteq> path_join (p_state p) ''token'' \<longrightarrow> w_files w' x = w_files w x)"
  using assms(1)
proof (cases rule: prepare_after_front)
  case (stopped e)
  then show thesis using assms(2) spares_all [OF spares_front] by metis
next
  case (tokenless f e w1)
  have "w_files w' x = w_files w x" if "x \<noteq> path_join (p_state (fr_plan f)) ''token''" for x
    using sparesD [OF spares_ensure_token [of "\<lambda>x. x \<noteq> path_join (p_state (fr_plan f)) ''token''"] tokenless(2)] that
      spares_all [OF spares_front tokenless(1)] by simp
  then show thesis using that [OF prepare_front_Inr [OF tokenless(1)]] by blast
next
  case (run f t w1 w2)
  have "w_files w' x = w_files w x" if "\<not> ids_distinct (fr_workspaces f)" "x \<noteq> path_join (p_state (fr_plan f)) ''token''" for x
  proof -
    have "w' = w2" using run(3) write_run_undistinguished [OF that(1)] by (metis snd_conv)
    then show ?thesis
      using sparesD [OF spares_ensure_token [of "\<lambda>x. x \<noteq> path_join (p_state (fr_plan f)) ''token''"] run(2)] that(2)
        spares_all [OF spares_front run(1)] by simp
  qed
  then show thesis using that [OF prepare_front_Inr [OF run(1)]] by blast
qed

section \<open>The manifest\<close>

lemma check_manifest_saved:
  assumes "w_files w p = Some f" "f_content f = json_file_text h (JObj m)" "plain (JObj m)" "distinct (map fst m)"
    "dict_get ''run_dir'' m = Some (JStr d)" "dict_get ''repository'' m = Some (JStr r)"
  shows "check_manifest p d r' w = ((if r' = r then Inr () else
    Inl (Run_error ''run directory already prepared for another repository; use a fresh one'')), w)"
proof -
  have "loads (f_content f) = Some (JObj (sort_key fst (in_order_items True m)))"
    using loads_pretty [OF assms(3), of "rh_float_repr h" True 0] assms(2) by (simp add: json_file_text_def newline_def)
  moreover have "dict_get k (sort_key fst (in_order_items True m)) = map_option (in_order True) (dict_get k m)" for k
    using dict_get_sorted [of "in_order_items True m" k] assms(4) by (simp add: dict_get_in_order)
  ultimately show ?thesis using assms(1,5,6)
    by (auto simp: check_manifest_def json_or_error_def rlift_def rbind_def rcheck_def rret_def rfail_def)
qed

lemma run_manifest_keys:
  "dict_get ''run_dir'' (run_manifest q p clone slug vs policy goal st ws cs) = Some (JStr (q_run_dir q))"
  "dict_get ''repository'' (run_manifest q p clone slug vs policy goal st ws cs) = Some (JStr (q_repository q))"
  "distinct (map fst (run_manifest q p clone slug vs policy goal st ws cs))"
  by (simp_all add: run_manifest_def)

lemma save_Inr: "save h p v w = (Inr u, w') \<Longrightarrow> w_files w' p = Some \<lparr>f_content = json_file_text h v, f_mode = rh_chmod h (temporary p) 384\<rparr>"
  unfolding save_def by (erule write_private_cases) simp_all

lemma write_run_manifest:
  assumes "write_run h q st p vs parsed slug clone g ws token w = (Inr m, w')"
  shows "w_files w' (path_join (q_run_dir q) ''run.json'') =
      Some \<lparr>f_content = json_file_text h (JObj m), f_mode = rh_chmod h (temporary (path_join (q_run_dir q) ''run.json'')) 384\<rparr>"
    and "dict_get ''run_dir'' m = Some (JStr (q_run_dir q))" "dict_get ''repository'' m = Some (JStr (q_repository q))"
    and "distinct (map fst m)"
proof -
  obtain cs pol goal w1 w2 rep where
    m: "m = run_manifest q p clone slug vs pol goal st ws cs"
    and s: "save h (path_join (q_run_dir q) ''run.json'') (JObj m) w1 = (Inr (), w2)" "report_run h q p slug ws cs g vs rep w2 = (Inr (), w')"
    using assms by (auto simp: write_run_def Let_def rbind_Inr rret_def)
  have "w_files w' = w_files w2" using s(2) spares_all [OF spares_report_run] by metis
  then show "w_files w' (path_join (q_run_dir q) ''run.json'') =
      Some \<lparr>f_content = json_file_text h (JObj m), f_mode = rh_chmod h (temporary (path_join (q_run_dir q) ''run.json'')) 384\<rparr>"
    using save_Inr [OF s(1)] by simp
  show "dict_get ''run_dir'' m = Some (JStr (q_run_dir q))" "dict_get ''repository'' m = Some (JStr (q_repository q))"
    "distinct (map fst m)" unfolding m by (rule run_manifest_keys)+
qed

text \<open>A prepared run directory takes another preparation of the same repository, and of no other.\<close>

lemma prepared_again:
  assumes "prepare h q w = (Inr m, w')" "plain (JObj m)"
  shows "check_manifest (path_join (q_run_dir q) ''run.json'') (q_run_dir q) r w' = ((if r = q_repository q then Inr () else
    Inl (Run_error ''run directory already prepared for another repository; use a fresh one'')), w')"
  using assms(1)
proof (cases rule: prepare_after_front)
  case (run f t w1 w2)
  note w = write_run_manifest [OF run(3)]
  show ?thesis by (rule check_manifest_saved [OF w(1) _ assms(2) w(4) w(2) w(3)]) simp
qed (use assms(1) in \<open>auto simp: prepare_def rbind_def\<close>)

section \<open>Secrets\<close>

lemma require_owner_only_cases:
  "require_owner_only h p w = (r, w') \<Longrightarrow> w_files w p = Some f \<Longrightarrow>
   (\<not> loose h f \<and> r = Inr () \<and> w' = w) \<or> (\<exists>e. r = Inl e \<and> w_files w' = (w_files w)(p := None))"
  by (auto simp: require_owner_only_def unlink_def rbind_def rfail_def split: option.splits if_splits)

text \<open>
  Every file a secret's writing leaves behind is a file that was there, or the path with the secret
  in it, readable by no other user, or what a failed move left: the temporary file, which the host
  was asked to make owner-only, with the secret, or an empty probe.
\<close>

lemma write_secret_files:
  assumes "write_secret h p (\<lambda>p. write_private_text h p t) w = (r, w')" "w_files w' x = Some f"
  shows "w_files w x = Some f \<or> x = p \<and> f_content f = t \<and> \<not> loose h f \<or>
    r \<noteq> Inr () \<and> (x = temporary p \<and> f_content f = t \<or> x = temporary (probe_path p) \<and> f_content f = []) \<and>
      f_mode f = rh_chmod h x 384"
proof -
  let ?q = "probe_path p"
  let ?f = "\<lparr>f_content = [], f_mode = rh_chmod h (temporary ?q) 384\<rparr>"
  let ?g = "\<lparr>f_content = t, f_mode = rh_chmod h (temporary p) 384\<rparr>"
  obtain r1 w1 where s1: "write_private_text h ?q [] w = (r1, w1)" by fastforce
  obtain r2 w2 where s2: "require_owner_only h ?q w1 = (r2, w2)" by fastforce
  let ?w3 = "w2\<lparr>w_files := (w_files w2)(?q := None)\<rparr>"
  obtain r4 w4 where s4: "write_private_text h p t ?w3 = (r4, w4)" by fastforce
  obtain r5 w5 where s5: "require_owner_only h p w4 = (r5, w5)" by fastforce
  have eq: "(r, w') = (case r1 of Inl e \<Rightarrow> (Inl e, w1) | Inr _ \<Rightarrow> (case r2 of Inl e \<Rightarrow> (Inl e, w2) | Inr _ \<Rightarrow>
      (case r4 of Inl e \<Rightarrow> (Inl e, w4) | Inr _ \<Rightarrow> (r5, w5))))"
    using assms(1) s1 s2 s4 s5 by (auto simp: write_secret_def rbind_def unlink_def split: sum.splits)
  from s1 show ?thesis
  proof (cases rule: write_private_cases)
    case untouched
    then show ?thesis using eq assms(2) by simp
  next
    case unmoved
    then show ?thesis using eq assms(2) by (auto split: if_splits)
  next
    case f1: written
    then have "w_files w1 ?q = Some ?f" by simp
    from require_owner_only_cases [OF s2 this] consider
      (honoured) "r2 = Inr ()" "w2 = w1" | (ignored) e where "r2 = Inl e" "w_files w2 = (w_files w1)(?q := None)"
      by blast
    then show ?thesis
    proof cases
      case ignored
      then show ?thesis using eq f1 assms(2) by (auto split: if_splits)
    next
      case honoured
      from s4 show ?thesis
      proof (cases rule: write_private_cases)
        case untouched
        then show ?thesis using eq honoured f1 assms(2) by (auto split: if_splits)
      next
        case unmoved
        then show ?thesis using eq honoured f1 assms(2) by (auto split: if_splits)
      next
        case f4: written
        then have g: "w_files w4 p = Some ?g" by simp
        have w': "w' = w5" using eq f1 f4 honoured by simp
        have "w_files w x = Some f \<or> x = p \<and> f = ?g" if "w_files w4 x = Some f"
          using that f4(2) f1(2) honoured(2) by (auto split: if_splits)
        then show ?thesis
          using require_owner_only_cases [OF s5 g] assms(2) unfolding w' by (auto split: if_splits)
      qed
    qed
  qed
qed

text \<open>A directory that ignores the mode of the probe gets no secret at all.\<close>

lemma write_secret_refused:
  assumes "write_secret h p write w = (r, w')"
    and "loose h \<lparr>f_content = [], f_mode = rh_chmod h (temporary (probe_path p)) 384\<rparr>" (is "loose h ?f")
  shows "r \<noteq> Inr () \<and> (\<forall>x f. w_files w' x = Some f \<longrightarrow> w_files w x = Some f \<or> x = temporary (probe_path p) \<and> f_content f = [])"
proof -
  let ?q = "probe_path p"
  obtain r1 w1 where s1: "write_private_text h ?q [] w = (r1, w1)" by fastforce
  obtain r2 w2 where s2: "require_owner_only h ?q w1 = (r2, w2)" by fastforce
  from s1 show ?thesis
  proof (cases rule: write_private_cases)
    case untouched
    then show ?thesis using assms(1) s1 by (auto simp: write_secret_def rbind_def)
  next
    case unmoved
    then show ?thesis using assms(1) s1 by (auto simp: write_secret_def rbind_def split: if_splits)
  next
    case written
    then have "w_files w1 ?q = Some ?f" by simp
    from require_owner_only_cases [OF s2 this] assms(2) obtain e where e: "r2 = Inl e" "w_files w2 = (w_files w1)(?q := None)"
      by blast
    then have "r = Inl e" "w' = w2" using assms(1) s1 s2 written(1) by (simp_all add: write_secret_def rbind_def)
    then show ?thesis using e(2) written(2) by (auto split: if_splits)
  qed
qed

lemma write_secret_Inr:
  assumes "write_secret h p (\<lambda>p. write_private_text h p t) w = (Inr (), w')"
  shows "\<exists>f. w_files w' p = Some f \<and> f_content f = t \<and> \<not> loose h f"
proof -
  from assms obtain w4 w5 where s: "write_private_text h p t w4 = (Inr (), w5)" "require_owner_only h p w5 = (Inr (), w')"
    by (auto simp: write_secret_def rbind_Inr)
  then have f: "w_files w5 p = Some \<lparr>f_content = t, f_mode = rh_chmod h (temporary p) 384\<rparr>"
    by (cases rule: write_private_cases [OF s(1)]) simp_all
  with require_owner_only_cases [OF s(2) f] show ?thesis by auto
qed

end
