(* ===== verification/RunBootstrap.thy ===== *)
theory RunBootstrap
  imports RunPrepare WorkerLink
begin

text \<open>
  \<^verbatim>\<open>bootstrap-workspace.py\<close>: an existing clone is only checked, a missing one is cloned and given its
  identity file. \<open>bh_clone\<close> is the file system after a successful \<^verbatim>\<open>git clone\<close>, \<open>None\<close> where it fails.
\<close>

record bootstrap_host =
  bh_root :: string
  bh_exists :: bool
  bh_before :: workspace_os
  bh_clone :: "workspace_os option"
  bh_chmod :: "nat \<Rightarrow> nat"
  bh_hex :: string

datatype bootstrap_exit = Bootstrap_refused string | Bootstrap_crashed | Bootstrap_printed dict

definition IDENTITY_FILE :: string where
  "IDENTITY_FILE = ''robo-agents-workspace.json''"

definition config_refused :: "config_error + 'a \<Rightarrow> bootstrap_exit + 'a" where
  "config_refused r = (case r of Inl (Config_error m) \<Rightarrow> Inl (Bootstrap_refused m) | Inr x \<Rightarrow> Inr x)"

text \<open>The object \<^verbatim>\<open>read_identity\<close> returns; \<open>WorkerHttp.read_identity\<close> gives its id.\<close>

definition identity_object :: "workspace_os \<Rightarrow> string \<Rightarrow> dict" where
  "identity_object fs ws = (case identity_text fs ws of
     Some t \<Rightarrow> (case loads t of Some (JObj d) \<Rightarrow> d | _ \<Rightarrow> []) | None \<Rightarrow> [])"

definition check_existing :: "workspace_os \<Rightarrow> string \<Rightarrow> string \<Rightarrow> string \<Rightarrow> bootstrap_exit + dict" where
  "check_existing fs agent destination repository =
     ebind (config_refused (canonical_workspace fs destination)) (\<lambda>ws.
     ebind (config_refused (git fs ws [''remote'', ''get-url'', ''origin''])) (\<lambda>origin.
     ebind (guard_that (origin = repository) (Bootstrap_refused ''existing clone has a different origin; leaving it intact'')) (\<lambda>_.
     ebind (config_refused (git fs ws [''status'', ''--porcelain''])) (\<lambda>status.
     ebind (guard_that (status = []) (Bootstrap_refused ''existing clone is dirty; leaving all work intact'')) (\<lambda>_.
     ebind (guard_that (identity_mode fs ws \<noteq> None) (Bootstrap_refused (''existing clone '' @ destination @ '' is missing '' @
       IDENTITY_FILE @ ''; remove the incomplete clone to bootstrap again''))) (\<lambda>_.
     ebind (config_refused (read_identity fs ws agent)) (\<lambda>_. Inr (identity_object fs ws))))))))"

definition new_identity ::
  "string \<Rightarrow> worker_name \<Rightarrow> file_path \<Rightarrow> string \<Rightarrow> dict" where
  "new_identity hex agent ws repository =
     [(''workspace_id'', JStr hex), (''agent'', JStr agent), (''path'', JStr ws), (''repository'', JStr repository)]"

text \<open>\<^verbatim>\<open>O_CREAT | O_EXCL\<close>: a file that is there, even a dangling link, is never written.\<close>

definition create_identity :: "bootstrap_host \<Rightarrow> workspace_os \<Rightarrow> string \<Rightarrow> dict \<Rightarrow> bootstrap_exit + workspace_os" where
  "create_identity b fs ws d = (if identity_link fs ws \<or> identity_mode fs ws \<noteq> None then Inl Bootstrap_crashed
     else Inr (fs\<lparr>identity_mode := (identity_mode fs)(ws \<mapsto> bh_chmod b 384),
                  identity_text := (identity_text fs)(ws \<mapsto> dumps (\<lambda>_. []) False (JObj d) @ newline)\<rparr>))"

definition bootstrap_workspace ::
  "bootstrap_host \<Rightarrow> string \<Rightarrow> string \<Rightarrow> string \<Rightarrow> bootstrap_exit \<times> workspace_os" where
  "bootstrap_workspace b agent destination repository =
     (let before = bh_before b in
      if \<not> is_absolute destination \<or> resolved before destination \<noteq> destination then
        (Bootstrap_refused ''destination must be absolute and canonical'', before)
      else if destination = bh_root b \<or> inside (bh_root b) destination then
        (Bootstrap_refused ''destination must be outside the coordination checkout'', before)
      else if bh_exists b then
        (case check_existing before agent destination repository of
           Inl e \<Rightarrow> e | Inr d \<Rightarrow> Bootstrap_printed d, before)
      else case bh_clone b of None \<Rightarrow> (Bootstrap_crashed, before)
      | Some fs \<Rightarrow> (case config_refused (canonical_workspace fs destination) of
            Inl e \<Rightarrow> (e, fs)
          | Inr ws \<Rightarrow> (let d = new_identity (bh_hex b) agent ws repository in
              case create_identity b fs ws d of Inl e \<Rightarrow> (e, fs) | Inr fs' \<Rightarrow> (Bootstrap_printed d, fs'))))"

end
