(* ===== verification/RunSettings.thy ===== *)
theory RunSettings
  imports RunWrites RunBootstrap
begin

text \<open>
  What a prepared run hands over is what the processes it starts accept: the environment of the hub against
  \<^verbatim>\<open>HubSettings.from_env\<close>, the one of a worker against the worker's settings, a fresh identity file against
  \<^verbatim>\<open>read_identity\<close>.
\<close>

section \<open>Numbers written and read\<close>

lemma digit_group_digits:
  "list_all is_digit s \<Longrightarrow> s \<noteq> [] \<Longrightarrow> digit_group s = Some (s, [])"
proof (induction s rule: digit_group.induct)
  case (2 c r)
  then show ?case by (cases r) (auto split: option.splits)
qed simp

lemma digit_not_special: "is_digit c \<Longrightarrow> \<not> is_space c \<and> c \<noteq> CHR ''-'' \<and> c \<noteq> CHR ''+''"
  by (auto simp: is_digit_def is_space_def Let_def)

lemma int_of_digits_nat: "int_of_digits s = int (number_of_digits s)"
proof -
  have "foldl (\<lambda>n c. 10 * n + int (digit_value c)) (int k) s = int (foldl (\<lambda>n c. 10 * n + digit_value c) k s)" for k
    by (induction s arbitrary: k) (simp, metis (no_types, lifting) foldl_Cons of_nat_add of_nat_mult of_nat_numeral)
  from this [of 0] show ?thesis by (simp add: int_of_digits_def number_of_digits_def)
qed

lemma read_int_show: "0 \<le> i \<Longrightarrow> read_int (show_int i) = Some i"
proof -
  assume "0 \<le> i"
  let ?s = "show_nat (nat i)"
  have d: "list_all is_digit ?s" "number_of_digits ?s = nat i" "?s \<noteq> []" using show_nat_digits by auto
  then have "strip ?s = ?s" using digit_not_special by (intro strip_inside) (auto simp: list_all_iff)
  moreover have "split_sign ?s = (False, ?s)"
    using d digit_not_special [of "hd ?s"] by (cases ?s) (auto simp: split_sign_def)
  ultimately show ?thesis using d \<open>0 \<le> i\<close> by (simp add: read_int_def show_int_def digit_group_digits int_of_digits_nat)
qed

section \<open>The environment of the hub\<close>

lemma hub_env_lookup:
  "map_of (hub_env sd t g n) ''HUB_STATE_DIR'' = Some sd" "map_of (hub_env sd t g n) ''HUB_TOKEN'' = Some t"
  "map_of (hub_env sd t g n) ''HUB_PUBLIC_URL'' = Some (n_public_url n)" "map_of (hub_env sd t g n) ''HUB_GUIDES_DIR'' = Some g"
  "map_of (hub_env sd t g n) ''HUB_HOST'' = (if n_host n \<noteq> DEFAULT_HUB_HOST then Some (n_host n) else None)"
  "map_of (hub_env sd t g n) ''HUB_PORT'' = (if n_port n \<noteq> DEFAULT_HUB_PORT then Some (show_int (n_port n)) else None)"
  "k \<notin> {''HUB_STATE_DIR'', ''HUB_TOKEN'', ''HUB_PUBLIC_URL'', ''HUB_GUIDES_DIR'', ''PYTHONUTF8'', ''HUB_HOST'', ''HUB_PORT''} \<Longrightarrow>
     map_of (hub_env sd t g n) k = None"
  by (auto simp: hub_env_def)

lemma absolute_path_text: "is_absolute p \<Longrightarrow> is_absolute (path_text p)"
  by (cases p) (auto simp: is_absolute_def path_text_def startswith_def Let_def split: if_splits)

lemma absolute_path_join: "is_absolute b \<Longrightarrow> is_absolute (path_join b x)"
proof -
  assume "is_absolute b"
  then have "is_absolute (b @ y)" for y by (cases b) (auto simp: is_absolute_def startswith_def)
  then show ?thesis using absolute_path_text by (auto simp: path_join_def)
qed

lemma strip_absolute: "is_absolute p \<Longrightarrow> is_absolute (strip p)"
proof -
  assume "is_absolute p"
  then obtain r where p: "p = CHR ''/'' # r" by (cases p) (auto simp: is_absolute_def startswith_def)
  have "\<not> is_space (CHR ''/'')" by code_simp
  then have "lstrip p = p" by (simp add: p lstrip_def)
  moreover have "\<exists>q. rstrip (CHR ''/'' # r) = CHR ''/'' # q"
  proof (cases "\<forall>x \<in> set (rev r). is_space x")
    case True
    then have "dropWhile is_space (rev r @ ''/'') = dropWhile is_space ''/''" by (intro dropWhile_append2) blast
    also have "\<dots> = ''/''" using \<open>\<not> is_space (CHR ''/'')\<close> by simp
    finally show ?thesis by (simp add: rstrip_def)
  next
    case False
    then obtain x where "x \<in> set (rev r)" "\<not> is_space x" by blast
    then show ?thesis by (simp add: rstrip_def dropWhile_append1 [of x])
  qed
  ultimately show ?thesis using p by (auto simp: strip_def is_absolute_def startswith_def)
qed

lemma absolute_dir:
  assumes "is_absolute p" "\<And>p. is_absolute p \<Longrightarrow> expanduser os p = p"
  shows "strip p \<noteq> []" "is_absolute (expanduser os (path_text (strip p)))"
  using strip_absolute [OF assms(1)] absolute_path_text assms(2) by (auto simp: is_absolute_def startswith_def)

definition http_url :: "string \<Rightarrow> bool" where
  "http_url u = (startswith u ''http://'' \<or> startswith u ''https://'')"

text \<open>
  The hub started by a run takes the run's port, advertised address and token, unless the token is blank or the
  scheme is not in lower case, which \<^verbatim>\<open>urlsplit\<close> overlooks and the settings do not.
\<close>

lemma hub_env_settings:
  assumes net: "network_settings hos lb host url pub remote port = Inr n"
    and dirs: "is_absolute sd" "is_absolute g" "\<And>p. is_absolute p \<Longrightarrow> expanduser os p = p"
  shows "(\<exists>s. settings_from_env os (map_of (hub_env sd t g n)) = Inr s) \<longleftrightarrow> http_url (trimmed_url (n_public_url n)) \<and> strip t \<noteq> []"
    and "settings_from_env os (map_of (hub_env sd t g n)) = Inr s \<Longrightarrow>
      s_port s = n_port n \<and> s_public_url s = trimmed_url (n_public_url n) \<and> s_token s = Some (strip t) \<and>
      s_state_dir s = expanduser os (path_text (strip sd))"
proof -
  let ?env = "map_of (hub_env sd t g n)"
  note look = hub_env_lookup [where sd = sd and t = t and g = g and n = n]
  have host: "strip (env_get ?env ''HUB_HOST'' ''127.0.0.1'') = n_host n"
  proof -
    have "strip (n_host n) = n_host n" using network_settings_Inr(2) [OF net] by simp
    moreover have "strip ''127.0.0.1'' = ''127.0.0.1''" by code_simp
    ultimately show ?thesis by (simp add: env_get_def look DEFAULT_HUB_HOST_def)
  qed
  have port: "read_int (env_get ?env ''HUB_PORT'' ''8420'') = Some (n_port n)"
  proof -
    have "read_int ''8420'' = Some 8420" by code_simp
    then show ?thesis using read_int_show [of "n_port n"] network_settings_Inr(1) [OF net]
      by (simp add: env_get_def look DEFAULT_HUB_PORT_def)
  qed
  have range: "1 \<le> n_port n \<and> n_port n \<le> 65535" "n_host n \<noteq> []"
    using network_settings_Inr(1,2) [OF net] by auto
  have url: "public_url_of ?env r h a p = (if http_url (trimmed_url (n_public_url n)) then Inr (trimmed_url (n_public_url n))
      else Inl (Config_error ''HUB_PUBLIC_URL must be an http(s) URL''))" for r h a p
    by (simp add: public_url_of_def look http_url_def trimmed_url_def Let_def)
  have tok: "token_of ?env = (if strip t = [] then Inl (Config_error ''HUB_TOKEN cannot be empty'') else Inr (Some (strip t)))"
    by (simp add: token_of_def look)
  have state: "state_dir_of os ?env = Inr (expanduser os (path_text (strip sd)))"
    using absolute_dir [OF dirs(1,3)] by (simp add: state_dir_of_def env_get_def look Let_def)
  have guides: "guides_dir_of os ?env d = Inr (expanduser os (path_text (strip g)))" for d
    using absolute_dir [OF dirs(2,3)] by (simp add: guides_dir_of_def env_get_def look Let_def)
  have secs: "positive_seconds ?env k d = Inr d" if "k \<in> {''HUB_DEFAULT_WAIT_S'', ''HUB_MAX_WAIT_S'', ''HUB_LOST_AFTER_S'',
      ''HUB_SWEEP_INTERVAL_S'', ''HUB_EVENT_LEASE_S''}" for k d
    using that look(7) [of k] by (auto simp: positive_seconds_def)
  have calls: "call_log_of os ?env = Inr (False, None)"
  proof -
    have "lower (strip []) = []" "map_of FLAG_VALUES [] = Some False" by code_simp+
    then show ?thesis by (simp add: call_log_of_def env_get_def look(7) Let_def)
  qed
  have wait: "\<not> MAX_WAIT_FACTOR * DEFAULT_WAIT_S < DEFAULT_WAIT_S"
    by (simp add: MAX_WAIT_FACTOR_def DEFAULT_WAIT_S_def)
  show "(\<exists>s. settings_from_env os ?env = Inr s) \<longleftrightarrow> http_url (trimmed_url (n_public_url n)) \<and> strip t \<noteq> []"
    "settings_from_env os ?env = Inr s \<Longrightarrow>
      s_port s = n_port n \<and> s_public_url s = trimmed_url (n_public_url n) \<and> s_token s = Some (strip t) \<and>
      s_state_dir s = expanduser os (path_text (strip sd))"
    using range by (auto simp: settings_from_env_def Let_def host port url tok state guides secs calls wait split: if_splits)
qed

section \<open>The environment of a worker\<close>

lemma worker_env_lookup:
  "map_of (worker_env nm hn v pr m c ws t lg url) ''HUB_URL'' = Some url"
  "map_of (worker_env nm hn v pr m c ws t lg url) ''HUB_TOKEN'' = Some t"
  "map_of (worker_env nm hn v pr m c ws t lg url) ''AGENT_NAME'' = Some nm"
  "map_of (worker_env nm hn v pr m c ws t lg url) ''HUB_WORKSPACE'' = Some ws"
  "map_of (worker_env nm hn v pr m c ws t lg url) ''HUB_HARNESS'' = Some hn"
  "map_of (worker_env nm hn v pr m c ws t lg url) ''HUB_HARNESS_VERSION'' = Some v"
  "map_of (worker_env nm hn v pr m c ws t lg url) ''HUB_PROVIDER'' = Some pr"
  "map_of (worker_env nm hn v pr m c ws t lg url) ''HUB_TELEMETRY_LOG'' = Some lg"
  "map_of (worker_env nm hn v pr m c ws t lg url) ''HUB_DEFAULT_WAIT_S'' = None"
  "map_of (worker_env nm hn v pr m c ws t lg url) ''HUB_HEARTBEAT_S'' = None"
  "map_of (worker_env nm hn v pr m c ws t lg url) ''HUB_MAX_RETRIES'' = None"
  "map_of (worker_env nm hn v pr m c ws t lg url) ''HUB_BACKOFF_FACTOR_S'' = None"
  by (simp_all add: worker_env_def)

lemma plain_declared: "strip v = v \<Longrightarrow> v \<noteq> [] \<Longrightarrow> env k = Some v \<Longrightarrow> first_declared env (k # ks) = v"
  by (simp add: env_get_def)

lemma worker_env_settings:
  assumes ws: "canonical_workspace fs ws = Inr ws'" "read_identity fs ws' nm = Inr wid"
    and url: "http_url (trimmed_url url)" and tok: "strip t \<noteq> []" and nm: "strip nm = nm" "nm \<noteq> []"
    and hn: "strip hn = hn" "hn \<noteq> []" "strip v = v" "v \<noteq> []" "strip pr = pr" "pr \<noteq> []"
    and lg: "is_absolute lg" "\<And>p. is_absolute p \<Longrightarrow> expanduser os p = p"
  shows "\<exists>s. worker_settings_from_env os fs (map_of (worker_env nm hn v pr m c ws t lg url)) = Inr s \<and>
     ws_hub_url s = trimmed_url url \<and> ws_token s = strip t \<and> ws_agent_name s = nm \<and> ws_workspace s = Some ws' \<and>
     workspace_id (ws_profile s) = Some wid \<and> harness (ws_profile s) = hn \<and> harness_version (ws_profile s) = v \<and>
     provider (ws_profile s) = pr"
proof -
  let ?env = "map_of (worker_env nm hn v pr m c ws t lg url)"
  note look = worker_env_lookup [where nm = nm and hn = hn and v = v and pr = pr and m = m and c = c and ws = ws and t = t and lg = lg and url = url]
  have u: "required_text ?env ''HUB_URL'' = Inr (strip url)" "rstrip_char (CHR ''/'') (strip url) = trimmed_url url"
    using url by (auto simp: required_text_def look trimmed_url_def http_url_def rstrip_char_def startswith_def)
  have others: "required_text ?env ''HUB_TOKEN'' = Inr (strip t)" "required_text ?env ''AGENT_NAME'' = Inr nm"
    "positive_seconds ?env ''HUB_DEFAULT_WAIT_S'' d = Inr d" "positive_seconds ?env ''HUB_HEARTBEAT_S'' d = Inr d"
    "non_negative_int ?env ''HUB_MAX_RETRIES'' k = Inr k" "positive_seconds ?env ''HUB_BACKOFF_FACTOR_S'' d = Inr d" for d k
    using tok nm by (simp_all add: required_text_def positive_seconds_def non_negative_int_def look)
  have log: "\<exists>p. optional_absolute_path os ?env ''HUB_TELEMETRY_LOG'' = Inr (Some p)"
    using absolute_dir [OF lg] by (simp add: optional_absolute_path_def env_get_def look Let_def)
  have prof: "worker_profile fs ?env nm = Inr (Some ws', (profile_from_env ?env)\<lparr>workspace_id := Some wid\<rparr>)"
    using ws by (simp add: worker_profile_def look)
  have fields: "harness (profile_from_env ?env) = hn" "harness_version (profile_from_env ?env) = v" "provider (profile_from_env ?env) = pr"
    using hn by (simp_all add: profile_from_env_def Let_def plain_declared look del: first_declared.simps)
  from log obtain p where p: "optional_absolute_path os ?env ''HUB_TELEMETRY_LOG'' = Inr (Some p)" by blast
  show ?thesis using url fields
    by (simp add: worker_settings_from_env_def Let_def u others p prof http_url_def)
qed

section \<open>A fresh identity\<close>

lemma bootstrap_existing_untouched: "bh_exists b \<Longrightarrow> snd (bootstrap_workspace b agent dest repo) = bh_before b"
  by (simp add: bootstrap_workspace_def Let_def)

lemma git_identity_update [simp]: "git (fs\<lparr>identity_mode := m, identity_text := t\<rparr>) ws args = git fs ws args"
  by (simp add: git_def)

lemma canonical_identity_update [simp]:
  "canonical_workspace (fs\<lparr>identity_mode := m, identity_text := t\<rparr>) dest = canonical_workspace fs dest"
  by (simp add: canonical_workspace_def Let_def cong: if_cong)

lemma create_identity_Inl: "create_identity b fs ws d = Inl e \<Longrightarrow> e = Bootstrap_crashed"
  by (auto simp: create_identity_def split: if_splits)

text \<open>The identity a bootstrap writes is the one the worker settings read, where \<^verbatim>\<open>chmod\<close> holds.\<close>

lemma fresh_identity:
  assumes run: "bootstrap_workspace b agent dest repo = (Bootstrap_printed d, fs)" and new: "\<not> bh_exists b"
    and ok: "workspace_id_ok (bh_hex b)" "bh_chmod b 384 mod 64 = 0"
      "list_all plain_char agent" "list_all plain_char (path_text dest)" "list_all plain_char repo" "list_all plain_char (bh_hex b)"
    and origin: "git fs (path_text dest) [''remote'', ''get-url'', ''origin''] = Inr repo"
  shows "canonical_workspace fs dest = Inr (path_text dest)" "read_identity fs (path_text dest) agent = Inr (bh_hex b)"
    "d = new_identity (bh_hex b) agent (path_text dest) repo"
proof -
  from run new obtain fs0 ws where c: "bh_clone b = Some fs0" "canonical_workspace fs0 dest = Inr ws"
    "create_identity b fs0 ws (new_identity (bh_hex b) agent ws repo) = Inr fs" "d = new_identity (bh_hex b) agent ws repo"
    by (auto simp: bootstrap_workspace_def config_refused_def Let_def dest: create_identity_Inl split: if_splits option.splits sum.splits config_error.splits)
  have ws: "ws = path_text dest" using c(2) by (auto simp: canonical_workspace_def Let_def split: if_splits)
  have fs: "fs = fs0\<lparr>identity_mode := (identity_mode fs0)(ws \<mapsto> bh_chmod b 384),
      identity_text := (identity_text fs0)(ws \<mapsto> dumps (\<lambda>_. []) False (JObj d) @ newline)\<rparr>" "\<not> identity_link fs ws"
    using c(3,4) by (auto simp: create_identity_def split: if_splits)
  show "canonical_workspace fs dest = Inr (path_text dest)" using c(2) ws fs(1) by simp
  show d: "d = new_identity (bh_hex b) agent (path_text dest) repo" using c(4) ws by simp
  have "list_all plain_char ''workspace_id''" "list_all plain_char ''agent''" "list_all plain_char ''path''" "list_all plain_char ''repository''"
    by code_simp+
  then have "plain (JObj d)" using ok by (simp add: d new_identity_def)
  then have "loads (dumps (\<lambda>_. []) False (JObj d) @ newline) = Some (JObj d)"
    by (rule loads_dumps) (simp add: newline_def json_space_def)
  then have "read_identity fs ws agent = identity_checked fs ws agent (JObj d)"
    using ok(2) fs(2) by (simp add: read_identity_def fs(1))
  also have "\<dots> = Inr (bh_hex b)"
    using ok(1) origin ws by (simp add: identity_checked_def d new_identity_def)
  finally show "read_identity fs (path_text dest) agent = Inr (bh_hex b)" using ws by simp
qed

end
