(* ===== verification/RunDemo.thy ===== *)
theory RunDemo
  imports RunSettings
begin

text \<open>A concrete host, request and disk on which both commands of \<^verbatim>\<open>prepare-run.py\<close> can be followed to their end.\<close>

definition demo_template :: string where
  "demo_template = dumps (\<lambda>_. []) False (JObj [(''mcpServers'', JObj [(''hub'', JObj [(''command'', JStr ''uv''),
     (''args'', JList []), (''env'', JObj [])])])])"

definition demo_alice :: string where
  "demo_alice = ''Goal: x GitHub comment identity account: <account> ```json {} ```''"

definition demo_disk :: run_world where
  "demo_disk = \<lparr>w_files = [''/a/runtimes/claude-code.mcp.json'' \<mapsto> \<lparr>f_content = demo_template, f_mode = 420\<rparr>,
       ''/a/prompts/worker.md'' \<mapsto> \<lparr>f_content = ''You are $AGENT_NAME.'', f_mode = 420\<rparr>,
       ''/a/prompts/alice.md'' \<mapsto> \<lparr>f_content = demo_alice, f_mode = 420\<rparr>,
       ''/r/hub-state/token'' \<mapsto> \<lparr>f_content = ''secret'' @ newline, f_mode = 384\<rparr>],
     w_dirs = [], w_links = [], w_ran = [], w_out = []\<rparr>"

definition demo_program :: "string list \<Rightarrow> program_answer" where
  "demo_program args = (if args = [''claude'', ''--version''] then Program_done ''2.0.1'' [] 
     else case args of
       [uv, r, l, p, root_dir, py, script, agent, dest, repo] \<Rightarrow>
         Program_done (dumps (\<lambda>_. []) True (JObj (new_identity agent agent dest repo))) []
     | _ \<Rightarrow> Program_absent)"

definition demo_host :: run_host where
  "demo_host = \<lparr>rh_windows = False, rh_os = demo_os, rh_loopback = (\<lambda>s. s = ''127.0.0.1''), rh_root = ''/a'',
     rh_resolve = (\<lambda>p. p), rh_present = (\<lambda>p. p = ''/o''), rh_environ = (\<lambda>_. None), rh_program = (\<lambda>_. demo_program),
     rh_readable = (\<lambda>_. True), rh_writable = (\<lambda>_. True), rh_chmod = (\<lambda>_ m. m), rh_symlink = (\<lambda>_. True), rh_hardlink = (\<lambda>_. True),
     rh_hex = ''fresh'', rh_sha256 = (\<lambda>s. s), rh_codex_tools = TOOLS, rh_float_repr = (\<lambda>_. [])\<rparr>"

definition demo_run_worker :: worker_request where
  "demo_run_worker = \<lparr>wq_harness = ''claude-code'', wq_model = [], wq_provider = None, wq_capabilities = [], wq_dir = None\<rparr>"

definition demo_run :: run_request where
  "demo_run = \<lparr>q_repository = ''/o'', q_run_dir = ''/r'', q_issue = Some 7, q_work_file = None, q_account = Some ''me'',
     q_bob = demo_run_worker, q_charlie = demo_run_worker, q_state_dir = None, q_merge_method = ''squash'', q_allow_no_ci = ''auto'',
     q_skip_github = False, q_hub_host = DEFAULT_HUB_HOST, q_hub_url = DEFAULT_HUB_URL, q_hub_port = None, q_public_url = None,
     q_remote = None\<rparr>"

lemma case_Inr: "(case r of Inl e \<Rightarrow> False | Inr x \<Rightarrow> P x) \<Longrightarrow> \<exists>x. r = Inr x \<and> P x"
  by (cases r) auto

text \<open>
  The same disk without a token, and a host that lets no directory for the configurations be made:
  the run stops after it has written the token.
\<close>

definition tokenless_world :: run_world where
  "tokenless_world = demo_disk\<lparr>w_files := (w_files demo_disk)(''/r/hub-state/token'' := None)\<rparr>"

definition unwritable_host :: run_host where
  "unwritable_host = demo_host\<lparr>rh_writable := (\<lambda>p. p \<noteq> ''/r/configs'')\<rparr>"

text \<open>A clone as \<^verbatim>\<open>git\<close> describes it, before it has an identity.\<close>

definition demo_clone :: workspace_os where
  "demo_clone = \<lparr>resolved = (\<lambda>p. p), git_directory = (\<lambda>p. p = ''/r/bob''),
     git_output = (\<lambda>p args. if args = [''rev-parse'', ''--show-toplevel''] then Some ''/r/bob''
       else if args = [''rev-parse'', ''--path-format=absolute'', ''--git-common-dir''] then Some ''/r/bob/.git''
       else if args = [''rev-parse'', ''--is-shallow-repository''] then Some ''false''
       else if args = [''remote'', ''get-url'', ''origin''] then Some ''/o'' else None),
     identity_link = (\<lambda>_. False), identity_mode = (\<lambda>_. None), identity_text = (\<lambda>_. None)\<rparr>"

definition demo_bootstrap :: bootstrap_host where
  "demo_bootstrap = \<lparr>bh_root = ''/a'', bh_exists = False, bh_before = demo_clone, bh_clone = Some demo_clone,
     bh_chmod = (\<lambda>m. m), bh_hex = replicate 64 (CHR ''a'')\<rparr>"

end
