(* ===== verification/Spec2Isabelle.thy ===== *)
theory Spec2Isabelle
  imports HubDelivery Waits MergeGateLoop WorkerLink HubTraffic MigrationProps HubProcess WorkerTools ReportText RunDemo
begin

text \<open>
  A verification library for the agent hub (\<^verbatim>\<open>src/packages\<close>): a server through which one
  orchestrator (Alice, over MCP) hands tasks to pull-based worker agents (over A2A JSON-RPC).

  \<^bold>\<open>The program.\<close> \<^verbatim>\<open>store.HubStore\<close> keeps workflow, agents, tasks, transcript, events, decisions
  and recorded operations in SQLite (\<^verbatim>\<open>database.SCHEMA\<close>); each of its methods is one
  transaction. \<^verbatim>\<open>protocol.A2AProtocol\<close> maps JSON-RPC requests of the workers onto store calls.
  Requests that wait (the next assignment, an answer, the next event) are held through
  \<^verbatim>\<open>signals.Signals\<close>, which store calls notify. \<^verbatim>\<open>sweeper\<close> runs \<^verbatim>\<open>HubStore.sweep\<close> on a timer.
  \<^verbatim>\<open>merge_gate\<close> reads GitHub's view of a pull request through \<^verbatim>\<open>gh\<close>. \<^verbatim>\<open>config\<close> reads the settings.

  \<^bold>\<open>Theories and what they model.\<close>
  \<^item> \<^verbatim>\<open>Prelude\<close>: Python strings and their methods, exceptions as sums (\<open>ebind\<close>), SQL-like updates of
    row lists, clock readings; the interfaces \<open>enum_codec\<close>, \<open>keyed_table\<close>, \<open>invariant_system\<close>,
    \<open>evolving_system\<close>.
  \<^item> \<^verbatim>\<open>Json\<close>, \<^verbatim>\<open>JsonRead\<close>, \<^verbatim>\<open>JsonRoundtrip\<close>, \<^verbatim>\<open>Dumps\<close>, \<^verbatim>\<open>Floats\<close>: JSON values, the text written and
    measured, the reader (\<^verbatim>\<open>json.loads\<close>), \<^verbatim>\<open>json.dumps\<close> as hashed, floats with NaN and infinities.
  \<^item> \<^verbatim>\<open>Models\<close>, \<^verbatim>\<open>Policy\<close>: \<^verbatim>\<open>models.py\<close>, the enumerations, the typed results with pydantic's checks,
    the workflow policy.
  \<^item> \<^verbatim>\<open>Tables\<close>: the rows of \<^verbatim>\<open>database.SCHEMA\<close>, one record per table, and \<open>hub_db\<close>.
  \<^item> \<^verbatim>\<open>StoreCore\<close>, \<^verbatim>\<open>StoreAgents\<close>, \<^verbatim>\<open>StoreTasks\<close>, \<^verbatim>\<open>StoreEvents\<close>: every method of \<^verbatim>\<open>HubStore\<close>, by the
    names of \<^verbatim>\<open>store.py\<close>. A committed call is \<open>Inr (result, tables, notified keys)\<close>, a raised
    exception is \<open>Inl error\<close> and leaves the tables alone (rollback).
  \<^item> \<^verbatim>\<open>Waits\<close>: \<^verbatim>\<open>signals.py\<close> and \<^verbatim>\<open>HubStore._wait_for\<close> as a step relation of one waiter among writers.
  \<^item> \<^verbatim>\<open>MergeGate\<close>, \<^verbatim>\<open>MergeGateUrl\<close>, \<^verbatim>\<open>MergeGateLoop\<close>: \<^verbatim>\<open>merge_gate.py\<close>; the runner and the clock are
    the parameter \<open>gate_world\<close>, as they are constructor arguments of \<^verbatim>\<open>MergeGate\<close>.
  \<^item> \<^verbatim>\<open>Config\<close>: \<^verbatim>\<open>config.py\<close> over an environment map.
  \<^item> \<^verbatim>\<open>Protocol\<close>, \<^verbatim>\<open>ProtocolServe\<close>: \<^verbatim>\<open>protocol.py\<close>, the metadata checks, the objects sent, one handler
    per intent, \<open>dispatch\<close>.
  \<^item> \<^verbatim>\<open>WorkerHttp\<close>, \<^verbatim>\<open>WorkerClient\<close>: \<^verbatim>\<open>src/packages/worker_mcp\<close>, the settings with the workspace identity,
    the retry loops over a network given by the outcome of each attempt, and the operations of
    \<^verbatim>\<open>WorkerHubClient\<close> with what they remember between calls. \<^verbatim>\<open>WorkerLink\<close> joins worker and hub.
  \<^item> \<^verbatim>\<open>Schema\<close>, \<^verbatim>\<open>Migrations\<close>: \<^verbatim>\<open>database.py\<close>, the declared schema, the migrations and the rebuild of
    drifted tables over a model of the SQLite statements they use. \<^verbatim>\<open>MigrationProps\<close> shows what they
    keep.
  \<^item> \<^verbatim>\<open>DiffLines\<close>, \<^verbatim>\<open>Accounting\<close>: \<^verbatim>\<open>accounting.py\<close>; \<^verbatim>\<open>HubAccess\<close>: \<^verbatim>\<open>security.py\<close>, \<^verbatim>\<open>token.py\<close> and
    \<^verbatim>\<open>guides.py\<close>; \<^verbatim>\<open>HubApp\<close>: the routes of \<^verbatim>\<open>app.py\<close> with the labels the protocol notes, and the loop of
    \<^verbatim>\<open>sweeper.py\<close>. \<^verbatim>\<open>AccountingProps\<close> and \<^verbatim>\<open>HubTraffic\<close> run the accounting beside the hub and show that
    the log keeps to its closed sets.
  \<^item> \<^verbatim>\<open>McpServer\<close>: \<^verbatim>\<open>mcp.py\<close>, Alice's tools as calls of the store, the held request and the merge gate, and
    the framing of the pipe. \<^verbatim>\<open>WorkerTools\<close>: \<^verbatim>\<open>telemetry.py\<close> and \<^verbatim>\<open>tools.py\<close>, the worker's tools with
    the log lines around them.
  \<^item> \<^verbatim>\<open>HubProcess\<close>: \<^verbatim>\<open>main.py\<close>, \<^verbatim>\<open>card.py\<close> and the start-up of \<^verbatim>\<open>app.py\<close>, with the exit status of the process.
  \<^item> \<^verbatim>\<open>Intervals\<close>, \<^verbatim>\<open>ReportRead\<close>, \<^verbatim>\<open>ReportFigures\<close>, \<^verbatim>\<open>ReportWorkflow\<close>, \<^verbatim>\<open>ReportText\<close>: \<^verbatim>\<open>src/scripts/hub-report.py\<close>,
    the arithmetic of intervals with its meaning as sets of moments, the calls read from telemetry and
    \<^verbatim>\<open>call_log\<close>, the figures of tasks, agents and workflow, and the text and Markdown printed.
  \<^item> \<^verbatim>\<open>JsonLayout\<close>: \<^verbatim>\<open>json.dumps\<close> with \<^verbatim>\<open>indent=2\<close>; every spelling of a value with white space between its
    tokens is read back, both writers produce one.
  \<^item> \<^verbatim>\<open>RunUrl\<close>, \<^verbatim>\<open>RunRender\<close>, \<^verbatim>\<open>RunFiles\<close>, \<^verbatim>\<open>RunPrepare\<close>, \<^verbatim>\<open>RunCommand\<close>: \<^verbatim>\<open>src/scripts/prepare-run.py\<close> with
    \<^verbatim>\<open>run_common.py\<close>, the addresses, the rendered texts, the steps on the host (\<open>run_world\<close>: files with
    modes, links, programs run, lines printed; a step keeps what it did before an exception), and the
    two commands with \<^verbatim>\<open>main\<close>. \<^verbatim>\<open>RunBootstrap\<close>: \<^verbatim>\<open>bootstrap-workspace.py\<close>. \<^verbatim>\<open>RunWrites\<close> shows what a run
    leaves on disk however it ends (\<open>spares\<close>: which files a step cannot touch; \<open>run_accepted\<close>: what was
    checked before the first file), \<^verbatim>\<open>RunSettings\<close> that hub
    and worker accept what it renders. \<^verbatim>\<open>RunDemo\<close> holds the host of the witnesses.

  \<^bold>\<open>What the lemmas show.\<close>
  \<^item> \<^verbatim>\<open>HubInv\<close> states the invariant \<open>hub_ok\<close> (keys and counters, agent and task pointing at each other,
    lease and result shapes, event life cycle, foreign keys, unanswered questions, workspaces);
    \<^verbatim>\<open>HubAgents\<close>, \<^verbatim>\<open>HubTasks\<close>, \<^verbatim>\<open>HubReplies\<close>, \<^verbatim>\<open>HubSweep\<close> prove it kept by every operation.
  \<^item> \<^verbatim>\<open>HubEvolution\<close> proves what never goes backwards, \<^verbatim>\<open>HubSystem\<close> puts the operations into one
    transition system (\<open>hub_step\<close>) and interprets \<open>evolving_system\<close> on it.
  \<^item> \<^verbatim>\<open>HubPromises\<close>, \<^verbatim>\<open>HubInbox\<close>, \<^verbatim>\<open>HubRetries\<close>, \<^verbatim>\<open>HubDelivery\<close>: retries (interface \<open>idempotent_call\<close>,
    interpreted on check-in, progress and result), the inbox, questions, the sweep.
  \<^item> \<^verbatim>\<open>HubWakeups\<close> and the interface \<open>held_request\<close> of \<^verbatim>\<open>Waits\<close>: no wakeup is lost.
  \<^item> \<^verbatim>\<open>ProtocolProps\<close>, \<^verbatim>\<open>ProtocolRetries\<close>: the contract of the endpoint (\<open>answers\<close>: for each request the one
    store operation it stands for and the answer made of its result), that \<open>dispatch\<close> implements it, who
    may send a request, and retried requests end to end.
  \<^item> \<^verbatim>\<open>Samples\<close>: one concrete history for the witnesses.

  \<^bold>\<open>Conventions.\<close> A \<^verbatim>\<open>str\<close> is the list of bytes of its UTF-8 text (sizes are byte sizes); white space,
  digits and letter case are the ASCII ones. Finite floats are exact rationals, their notation a
  parameter (\<open>float_repr\<close>); \<open>py_float\<close> adds NaN and the infinities where the code reads them from the
  outside. Moments are microseconds, stored timestamps milliseconds, both integers; a timestamp
  in JSON is shown as an integer. JSON columns hold decoded values. The readings of the clock and
  the fresh identifiers of one operation are numbered by call site (\<open>env\<close>); \<open>env_ok\<close> says that a
  fresh identifier is not empty. A table is the list of its rows in insertion order; a colliding
  key raises \<open>Integrity_error\<close>; foreign keys are proved as part of the invariant. Texts of error
  messages follow the source where a caller can see the difference. Paths are POSIX.

  \<^bold>\<open>Bounds and fuel.\<close> \<open>loads\<close> recurses with the length of the text as fuel, which each step consumes.
  \<open>poll_gate\<close>, a loop that need not end, is a partial function with values \<open>None\<close> (never returns)
  and \<open>Some\<close>; that it returns is a theorem.

  \<^bold>\<open>Parameters.\<close> The \<^verbatim>\<open>a2a\<close> package (pydantic models and their JSON) and SHA-256 (\<open>a2a_sdk\<close>), \<^verbatim>\<open>gh\<close>,
  the clocks, the operating system's home directories, checkout and IP literals (\<open>host_os\<close>), and for
  the preparation of a run the programs, permissions and resolved paths of its host (\<open>run_host\<close>).

  \<^bold>\<open>Not modelled.\<close> Logging; overflow of \<^verbatim>\<open>datetime\<close>; rounding of binary floats; SQLite itself (locking,
  WAL); the suppressed \<^verbatim>\<open>RuntimeError\<close> of a closed event loop; transports, the threads of
  the pipes and the FastAPI, uvicorn and FastMCP libraries; what a program run by \<^verbatim>\<open>prepare-run.py\<close> writes
  itself, and \<^verbatim>\<open>argparse\<close>; the database a migration that fails before the rebuild leaves behind; the other scripts of \<^verbatim>\<open>src/scripts\<close>, which drive experiments with the hub
  from outside or measure it.
\<close>

section \<open>The hub: states\<close>

text \<open>
  C1. Every state the hub can reach from an empty database, by any sequence of store operations
  with any clock readings, satisfies the invariant: keys are unique, agents and open tasks refer
  to each other, every reference resolves, terminal tasks carry no lease and open ones no result,
  every task waiting for input has an unanswered question, and no two live agents share a
  workspace.
\<close>

theorem hub_invariant:
  assumes "hub_reachable db"
  shows "rows_ok db \<and> coupled db \<and> tasks_ok db \<and> events_ok db \<and> references_ok db \<and> questions_ok db \<and> workspaces_ok db"
  using hub_reachable_ok [OF assms] unfolding hub_ok_def .

theorem hub_invariant_witness:
  "rows_ok db_asked \<and> coupled db_asked \<and> tasks_ok db_asked \<and> events_ok db_asked \<and> references_ok db_asked \<and>
   questions_ok db_asked \<and> workspaces_ok db_asked"
  using hub_invariant [OF asked_reachable] .

text \<open>
  C2. In every reachable state an agent's current task is an open task assigned to it, and every open
  task is the current task of exactly one agent, its assignee; so one agent never holds two tasks
  and no task is held twice.
\<close>

theorem open_task_held_once:
  assumes "hub_reachable db"
  shows "(\<forall>n a i. agent_of db n = Some a \<and> a_current_task a = Some i \<longrightarrow>
      (\<exists>t. task_of db i = Some t \<and> \<not> terminal (t_state t) \<and> t_assignee t = Some n)) \<and>
    (\<forall>i t. task_of db i = Some t \<and> \<not> terminal (t_state t) \<longrightarrow>
      (\<exists>!n. \<exists>a. agent_of db n = Some a \<and> a_current_task a = Some i) \<and>
      (\<exists>n a. t_assignee t = Some n \<and> agent_of db n = Some a \<and> a_current_task a = Some i))"
proof (intro conjI allI impI; elim conjE)
  note C = hub_okD(2) [OF hub_reachable_ok [OF assms]]
  show held: "\<exists>t. task_of db i = Some t \<and> \<not> terminal (t_state t) \<and> t_assignee t = Some n"
    if "agent_of db n = Some a" "a_current_task a = Some i" for n a i
    using coupled_agentD [OF C that] by blast
  fix i t assume t: "task_of db i = Some t" "\<not> terminal (t_state t)"
  obtain n a where n: "t_assignee t = Some n" "agent_of db n = Some a" "a_current_task a = Some i"
    using coupled_taskD [OF C t] by blast
  then show "\<exists>n a. t_assignee t = Some n \<and> agent_of db n = Some a \<and> a_current_task a = Some i" by blast
  have "m = n" if "agent_of db m = Some b" "a_current_task b = Some i" for m b
    using held [OF that] t(1) n(1) by auto
  with n show "\<exists>!n. \<exists>a. agent_of db n = Some a \<and> a_current_task a = Some i" by blast
qed

theorem open_task_held_once_witness:
  "(\<exists>!n. \<exists>a. agent_of db_asked n = Some a \<and> a_current_task a = Some ''id30'') \<and>
   (\<exists>a t. agent_of db_asked ''bob'' = Some a \<and> a_current_task a = Some ''id30'' \<and> task_of db_asked ''id30'' = Some t \<and>
      \<not> terminal (t_state t) \<and> t_assignee t = Some ''bob'')"
proof -
  have t: "task_of db_asked ''id30'' = Some (sample_task\<lparr>t_state := Input_required, t_updated := 501000\<rparr>)"
    by code_simp
  have "map_option a_current_task (agent_of db_asked ''bob'') = Some (Some ''id30'')" by code_simp
  then obtain a where a: "agent_of db_asked ''bob'' = Some a" "a_current_task a = Some ''id30''" by auto
  have "\<not> terminal (t_state (sample_task\<lparr>t_state := Input_required, t_updated := 501000\<rparr>))" by simp
  with open_task_held_once [OF asked_reachable] t a show ?thesis by blast
qed

text \<open>
  C3. A workspace has at most one live (idle or busy) agent in every reachable state: two names
  that declare the same workspace are never admitted side by side.
\<close>

theorem workspace_exclusive:
  assumes "hub_reachable db" and "agent_of db n = Some a" and "agent_of db m = Some b"
    and "live a" and "live b" and "workspace_id (a_profile a) = Some w" and "workspace_id (a_profile b) = Some w"
  shows "n = m"
  using hub_okD(7) [OF hub_reachable_ok [OF assms(1)]] assms(2-7) unfolding workspaces_ok_def by blast

theorem workspace_exclusive_witness:
  "\<exists>d. hub_reachable d \<and> {n. \<exists>a. agent_of d n = Some a \<and> live a \<and> workspace_id (a_profile a) = Some ''ws''} = {''carol''}"
proof -
  let ?p = "DEFAULT_PROFILE\<lparr>workspace_id := Some ''ws''\<rparr>"
  have "map_sum id (\<lambda>(r, d, ks). (map_option (\<lambda>a. live a \<and> workspace_id (a_profile a) = Some ''ws'') (agent_of d ''carol''), ks))
      (check_in (sample_env 7) db_answered ''carol'' ?p (Some ''i2'') None None None None) = Inr (Some True, [EVENT_KEY])"
    by code_simp
  then obtain r d where d: "check_in (sample_env 7) db_answered ''carol'' ?p (Some ''i2'') None None None None = Inr (r, d, [EVENT_KEY])"
    and "\<exists>a. agent_of d ''carol'' = Some a \<and> live a \<and> workspace_id (a_profile a) = Some ''ws''"
    by (auto simp: map_sum_def split: sum.splits)
  then obtain c where c: "agent_of d ''carol'' = Some c" "live c" "workspace_id (a_profile c) = Some ''ws''" by blast
  have r: "hub_reachable d"
    using answered_reachable hub_stepI [OF hub_does.Check_in [OF d]] by (rule rtranclp.rtrancl_into_rtrancl)
  have "n = ''carol''" if "agent_of d n = Some a" "live a" "workspace_id (a_profile a) = Some ''ws''" for n a
    by (rule workspace_exclusive [OF r that(1) c(1) that(2) c(2) that(3) c(3)])
  with r c show ?thesis by blast
qed

text \<open>
  C4. A terminal task is frozen: whatever happens later, its row keeps its state, result and
  every other column. A task that left the submitted state never returns to it.
\<close>

theorem terminal_task_frozen:
  assumes "hub_reachable db" and "hub_steps db d" and "task_of db i = Some t"
  shows "\<exists>u. task_of d i = Some u \<and> (terminal (t_state t) \<longrightarrow> u = t) \<and>
    (t_state t \<noteq> Submitted \<longrightarrow> t_state u \<noteq> Submitted)"
proof -
  have d: "hub_reachable d" using assms(1,2) by (rule rtranclp_trans)
  from evolves_task_of [OF hub_reachable_ok [OF assms(1)] hub_reachable_ok [OF d]
      hub_reachable_evolves [OF assms(1,2)] assms(3)]
  obtain u where "task_of d i = Some u" "task_evolves t u" by blast
  then show ?thesis using task_evolvesD(11,12) by blast
qed

theorem terminal_task_frozen_witness:
  "\<exists>u. task_of db_answered ''id30'' = Some u \<and> t_state u \<noteq> Submitted"
proof -
  have t: "task_of db_asked ''id30'' = Some (sample_task\<lparr>t_state := Input_required, t_updated := 501000\<rparr>)"
    by code_simp
  have "hub_steps db_asked db_answered" using hub_stepI [OF hub_does.Reply [OF answered_result]] by blast
  from terminal_task_frozen [OF asked_reachable this t] show ?thesis by auto
qed

section \<open>Exactly-once operations\<close>

text \<open>
  C5. A progress report carrying an operation id takes effect once: after it committed, and after
  any further history of the hub, sending its id and payload hash again returns the recorded response
  and changes nothing, whatever task and note come with them; sending the same id with another payload hash is an idempotency
  conflict.
\<close>

theorem progress_exactly_once:
  assumes "hub_reachable db"
    and "record_progress e db tid agent msg (Some op) (Some h) (Some b) = Inr (r, db1, ks)" and "hub_steps db1 d"
  shows "\<exists>resp fresh. r = Pair_json resp fresh \<and>
    record_progress e' d tid' agent msg' (Some op) (Some h) (Some b') = Inr (Pair_json resp False, d, []) \<and>
    (h' \<noteq> h \<longrightarrow> (\<exists>m. record_progress e' d tid' agent msg' (Some op) (Some h') (Some b') = Inl (Idempotency_conflict m)))"
  by (rule progress_recorded_once [OF hub_reachable_ok [OF assms(1)] assms(2,3)])

theorem progress_exactly_once_witness:
  "\<exists>d ks. record_progress (sample_env 7) db_claimed ''id30'' ''bob'' ''half'' (Some ''op2'') (Some ''h2'') (Some (\<lambda>_. ''ok''))
       = Inr (Pair_json ''ok'' True, d, ks) \<and>
     record_progress (sample_env 8) d ''id30'' ''bob'' ''other note'' (Some ''op2'') (Some ''h2'') (Some (\<lambda>_. ''no''))
       = Inr (Pair_json ''ok'' False, d, [])"
proof -
  have "map_sum id (\<lambda>(r, d, ks). (r, ks)) (record_progress (sample_env 7) db_claimed ''id30'' ''bob'' ''half''
      (Some ''op2'') (Some ''h2'') (Some (\<lambda>_. ''ok''))) = Inr (Pair_json ''ok'' True, [EVENT_KEY])"
    by code_simp
  then obtain d where d: "record_progress (sample_env 7) db_claimed ''id30'' ''bob'' ''half'' (Some ''op2'') (Some ''h2'')
      (Some (\<lambda>_. ''ok'')) = Inr (Pair_json ''ok'' True, d, [EVENT_KEY])" by (rule outcome_committed)
  from progress_exactly_once [OF claimed_reachable d rtranclp.rtrancl_refl, of "sample_env 8" "''id30''" "''other note''" "\<lambda>_. ''no''" "''h2''"]
  have "record_progress (sample_env 8) d ''id30'' ''bob'' ''other note'' (Some ''op2'') (Some ''h2'') (Some (\<lambda>_. ''no''))
       = Inr (Pair_json ''ok'' False, d, [])" by auto
  with d show ?thesis by blast
qed

text \<open>
  C6. A check-in carrying an operation id admits the worker once: repeated after any history, it
  returns the recorded admission and leaves the hub unchanged, even when the worker was lost or
  replaced meanwhile.
\<close>

theorem check_in_exactly_once:
  assumes "hub_reachable db"
    and "check_in e db name profile inst (Some op) (Some h) (Some b) addr = Inr (r, db1, ks)" and "hub_steps db1 d"
  shows "\<exists>resp fresh. r = Pair_json resp fresh \<and>
    check_in e' d name profile inst (Some op) (Some h) (Some b') addr = Inr (Pair_json resp False, d, []) \<and>
    (h' \<noteq> h \<longrightarrow> (\<exists>m. check_in e' d name profile inst (Some op) (Some h') (Some b') addr = Inl (Idempotency_conflict m)))"
  by (rule admission.exactly_once [OF hub_reachable_ok [OF assms(1)] assms(2,3)])

theorem check_in_exactly_once_witness:
  "check_in (sample_env 9) db_answered ''bob'' DEFAULT_PROFILE (Some ''i1'') (Some ''op1'') (Some ''h1'')
     (Some (\<lambda>a. ''other'')) None = Inr (Pair_json ''admitted'' False, db_answered, [])"
proof -
  have "hub_steps db_checked_in db_answered"
    using hub_stepI [OF hub_does.Assign [OF sample_env_ok assigned_result]] hub_stepI [OF hub_does.Claim [OF claimed_result]]
      hub_stepI [OF hub_does.Question [OF asked_result]] hub_stepI [OF hub_does.Reply [OF answered_result]]
    by (meson converse_rtranclp_into_rtranclp rtranclp.rtrancl_refl)
  from check_in_exactly_once [OF initialized_reachable checked_in_result this, of "sample_env 9" "\<lambda>a. ''other''" "''h1''"]
  show ?thesis by auto
qed

text \<open>
  C7. A result carrying an operation id ends its task once: repeated after any history, the
  submission returns the recorded response, changes nothing and emits no second event.
\<close>

theorem submit_result_exactly_once:
  assumes "hub_reachable db"
    and "submit_result (e\<lparr>float_repr := fr\<rparr>) db tid agent result summary artifacts status (Some op) (Some h) (Some b)
      = Inr (r, db1, ks)" and "hub_steps db1 d"
  shows "\<exists>resp fresh. r = Pair_json resp fresh \<and>
    submit_result (e'\<lparr>float_repr := fr\<rparr>) d tid agent result summary artifacts status (Some op) (Some h) (Some b')
      = Inr (Pair_json resp False, d, []) \<and>
    (h' \<noteq> h \<longrightarrow> (\<exists>m. submit_result (e'\<lparr>float_repr := fr\<rparr>) d tid agent result summary artifacts status
      (Some op) (Some h') (Some b') = Inl (Idempotency_conflict m)))"
  by (rule submission.exactly_once [OF hub_reachable_ok [OF assms(1)] assms(2) [folded submit_as_def] assms(3),
        unfolded submit_as_def])

theorem submit_result_exactly_once_witness:
  "\<exists>d ks. submit_result (sample_env 7\<lparr>float_repr := \<lambda>q. ''0.0''\<rparr>) db_claimed ''id30'' ''bob'' None ''done'' [] (Some Completed)
       (Some ''op2'') (Some ''h2'') (Some (\<lambda>_. ''ok'')) = Inr (Pair_json ''ok'' True, d, ks) \<and>
     submit_result (sample_env 8\<lparr>float_repr := \<lambda>q. ''0.0''\<rparr>) d ''id30'' ''bob'' None ''done'' [] (Some Completed)
       (Some ''op2'') (Some ''h2'') (Some (\<lambda>_. ''ok'')) = Inr (Pair_json ''ok'' False, d, [])"
proof -
  have "map_sum id (\<lambda>(r, d, ks). (r, ks)) (submit_result (sample_env 7\<lparr>float_repr := \<lambda>q. ''0.0''\<rparr>) db_claimed ''id30'' ''bob''
      None ''done'' [] (Some Completed) (Some ''op2'') (Some ''h2'') (Some (\<lambda>_. ''ok''))) = Inr (Pair_json ''ok'' True, [EVENT_KEY])"
    by code_simp
  then obtain d where d: "submit_result (sample_env 7\<lparr>float_repr := \<lambda>q. ''0.0''\<rparr>) db_claimed ''id30'' ''bob''
      None ''done'' [] (Some Completed) (Some ''op2'') (Some ''h2'') (Some (\<lambda>_. ''ok'')) = Inr (Pair_json ''ok'' True, d, [EVENT_KEY])"
    by (rule outcome_committed)
  from submit_result_exactly_once [OF claimed_reachable d rtranclp.rtrancl_refl, of "sample_env 8" "\<lambda>_. ''ok''" "''h2''"]
  show ?thesis using d by auto
qed

text \<open>
  C8. An event-driven assignment is idempotent in its source event: repeating the call after any
  history returns the task it created, as it stands now, and assigns nothing else, whatever the
  agent is doing by then.
\<close>

theorem assign_task_once_per_event:
  assumes "hub_reachable db" and "env_ok e"
    and "assign_task e db agent role title instr lease head (Some v) = Inr (t, db1, ks)" and "hub_steps db1 d"
  shows "\<exists>u. assign_task e' d agent role title instr lease head (Some v) = Inr (u, d, []) \<and>
    t_id u = t_id t \<and> task_of d (t_id t) = Some u"
proof -
  have ok: "hub_ok db" and ok1: "hub_ok db1"
    using hub_reachable_ok [OF assms(1)] assign_task_ok [OF assms(3) _ assms(2)] by blast+
  have d: "hub_ok d" "evolves db1 d" using hub.inv_steps [OF ok1 assms(4)] hub.steps_le [OF ok1 assms(4)] by blast+
  from assign_task_later [OF assms(3) ok1 ok d(2,1)] obtain u where
    u: "assign_task e' d agent role title instr lease head (Some v) = Inr (u, d, [])" "task_evolves t u" by blast
  from assign_task_recorded [OF u(1) d(1)] have "u \<in> set (tasks d)" by metis
  then show ?thesis using u task_evolvesD(1) [OF u(2)] by (auto simp: task_of_iff [OF hub_okD(1) [OF d(1)]])
qed

theorem assign_task_once_per_event_witness:
  "\<exists>u. assign_task (sample_env 9) db_answered ''bob'' ''implementer'' ''title'' ''do it'' 30 None (Some 1) = Inr (u, db_answered, []) \<and>
     t_id u = ''id30''"
proof -
  have "hub_steps db_assigned db_answered"
    using hub_stepI [OF hub_does.Claim [OF claimed_result]] hub_stepI [OF hub_does.Question [OF asked_result]] hub_stepI [OF hub_does.Reply [OF answered_result]]
    by (meson converse_rtranclp_into_rtranclp rtranclp.rtrancl_refl)
  from assign_task_once_per_event [OF checked_in_reachable sample_env_ok assigned_result this, of "sample_env 9"]
  show ?thesis by (auto simp: sample_task_def)
qed

section \<open>Alice's inbox\<close>

text \<open>
  C9. Leasing an event hands out the oldest one that is due (queued, or delivered with its delivery
  lease run out), stamps it with the fresh delivery id, counts the attempt, and leaves every
  other event as it was; nothing is handed out exactly when nothing is due.
\<close>

theorem lease_next_event_fifo:
  assumes "hub_reachable db" and "lease_next_event e dflt db lease = Inr (r, d, ks)"
  shows "case r of None \<Rightarrow> d = db \<and> \<not> (\<exists>v \<in> set (events db). eligible (now_iso e 0) v)
    | Some v \<Rightarrow> \<exists>u. event_of db (e_id v) = Some u \<and> eligible (now_iso e 0) u \<and> event_of d (e_id v) = Some v \<and>
        v = u\<lparr>e_state := Delivered, e_delivery_id := Some (uuid_at e 0), e_attempts := e_attempts u + 1,
              e_delivered_at := Some (now_iso e 0),
              e_delivery_expires := Some (to_iso (now_at e 0 + seconds (case lease of None \<Rightarrow> dflt | Some s \<Rightarrow> s)))\<rparr> \<and>
        (\<forall>x \<in> set (events db). eligible (now_iso e 0) x \<longrightarrow> e_id u \<le> e_id x) \<and>
        (\<forall>i. i \<noteq> e_id v \<longrightarrow> event_of d i = event_of db i)"
  by (rule lease_next_event_effect [OF hub_okD(1) [OF hub_reachable_ok [OF assms(1)]] assms(2)])

theorem lease_next_event_fifo_witness:
  "\<exists>v d. lease_next_event (sample_env 9) 600 db_asked None = Inr (Some v, d, []) \<and> e_id v = 1 \<and> event_of d 2 = event_of db_asked 2"
proof -
  have "map_sum id (\<lambda>(r, d, ks). (map_option e_id r, ks)) (lease_next_event (sample_env 9) 600 db_asked None) = Inr (Some 1, [])"
    by code_simp
  then obtain v d where v: "lease_next_event (sample_env 9) 600 db_asked None = Inr (Some v, d, [])" "e_id v = 1"
    by (auto simp: map_sum_def split: sum.splits)
  from lease_next_event_fifo [OF asked_reachable v(1)] v show ?thesis by auto
qed

text \<open>
  C10. An event becomes acknowledged only through \<^verbatim>\<open>ack_event\<close> with the delivery id of its current
  delivery: no other operation, and no older or unknown delivery id, acknowledges it.
\<close>

theorem event_acked_by_delivery:
  assumes "hub_reachable db" and "hub_step db d"
    and "event_of db i = Some v" "e_state v \<noteq> Acked" and "event_of d i = Some w" "e_state w = Acked"
  shows "\<exists>did e ks. e_state v = Delivered \<and> e_delivery_id v = Some did \<and> ack_event e db (Some did) = Inr (True, d, ks)"
  by (rule acked_by_delivery [OF assms(2) hub_reachable_ok [OF assms(1)] assms(3-6)])

theorem event_acked_by_delivery_witness:
  "\<exists>db v did e d ks. hub_reachable db \<and> event_of db 1 = Some v \<and> e_delivery_id v = Some did \<and> ack_event e db (Some did) = Inr (True, d, ks)"
proof -
  have "map_sum id (\<lambda>(r, d, ks). (map_option (\<lambda>v. (e_state v, e_delivery_id v)) (event_of d 1), ks))
      (lease_next_event (sample_env 9) 600 db_asked None) = Inr (Some (Delivered, Some ''id90''), [])"
    by code_simp
  then obtain r d v where l: "lease_next_event (sample_env 9) 600 db_asked None = Inr (r, d, [])"
    and v: "event_of d 1 = Some v" "e_state v = Delivered" "e_delivery_id v = Some ''id90''"
    by (auto simp: map_sum_def split: sum.splits)
  have "map_sum id (\<lambda>(r, d, ks). map_sum id (\<lambda>(r, d, ks). (r, map_option e_state (event_of d 1), ks)) (ack_event (sample_env 10) d (Some ''id90'')))
      (lease_next_event (sample_env 9) 600 db_asked None) = Inr (Inr (True, Some Acked, []))"
    by code_simp
  then obtain d2 w where a: "ack_event (sample_env 10) d (Some ''id90'') = Inr (True, d2, [])"
    and w: "event_of d2 1 = Some w" "e_state w = Acked"
    using l by (auto simp: map_sum_def split: sum.splits)
  have r: "hub_reachable d" using asked_reachable hub_stepI [OF hub_does.Lease [OF l]] by (rule rtranclp.rtrancl_into_rtrancl)
  from event_acked_by_delivery [OF r hub_stepI [OF hub_does.Ack [OF a]] v(1) _ w] v show ?thesis
    using r by fastforce
qed

text \<open>
  Once an event has been leased again, an acknowledgement that carries an earlier delivery id
  leaves the new delivery outstanding.
\<close>

lemma superseded_delivery_ignored:
  assumes "hub_reachable db" and "lease_next_event e dflt db lease = Inr (Some v, d, ks)"
    and "event_of db (e_id v) = Some u" and "e_delivery_id u = Some old" and "uuid_at e 0 \<noteq> old"
    and "ack_event e' d (Some old) = Inr (b, d', ks')"
  shows "event_of d' (e_id v) = Some v \<and> e_state v = Delivered"
  by (rule superseded_delivery [OF hub_okD(1) [OF hub_reachable_ok [OF assms(1)]] assms(2-6)])

lemma superseded_delivery_ignored_example:
  "\<exists>v d d' ks. lease_next_event (sample_env 20) 600 db_leased None = Inr (Some v, d, []) \<and>
     event_of d' 1 = Some v \<and> (\<exists>b. ack_event (sample_env 21) d (Some ''id90'') = Inr (b, d', ks)) \<and> e_state v = Delivered"
proof -
  have "map_sum id (\<lambda>(r, d, ks). (map_option e_id r, ks)) (lease_next_event (sample_env 20) 600 db_leased None) = Inr (Some 1, [])"
    by code_simp
  then obtain v d where v: "lease_next_event (sample_env 20) 600 db_leased None = Inr (Some v, d, [])" "e_id v = 1"
    by (auto simp: map_sum_def split: sum.splits)
  obtain b d' ks where a: "ack_event (sample_env 21) d (Some ''id90'') = Inr (b, d', ks)"
    by (cases "find (delivered_as ''id90'') (events d) = None") (auto simp: ack_event_def)
  have "map_option e_delivery_id (event_of db_leased 1) = Some (Some ''id90'')" by code_simp
  then obtain u where u: "event_of db_leased 1 = Some u" "e_delivery_id u = Some ''id90''" by auto
  have "uuid_at (sample_env 20) 0 \<noteq> ''id90''" by code_simp
  from superseded_delivery_ignored [OF leased_reachable v(1) _ u(2) this a] u(1) v a show ?thesis by fastforce
qed

section \<open>Questions and replies\<close>

text \<open>
  C11. A question carrying a retry id is asked once: sent again after any history, while its task is
  open, it returns the id of the message first stored and changes nothing (no second message,
  event or state change), whatever the text of the retry.
\<close>

theorem open_question_asked_once:
  assumes "hub_reachable db" and "sent_as \<noteq> []" and "open_question e db tid agent q sent_as = Inr (m, db1, ks)"
    and "hub_steps db1 d" and "task_of d tid = Some t" and "\<not> terminal (t_state t)"
  shows "open_question e' d tid agent q' sent_as = Inr (m, d, [])"
proof -
  have ok: "hub_ok db" using hub_reachable_ok [OF assms(1)] .
  have ok1: "hub_ok db1" using open_question_ok [OF assms(3) ok] .
  have d: "hub_ok d" "evolves db1 d" using hub.inv_steps [OF ok1 assms(4)] hub.steps_le [OF ok1 assms(4)] by blast+
  have "asked_question d tid sent_as = Some m"
    by (rule asked_question_later [OF hub_okD(1) [OF ok1] hub_okD(1) [OF d(1)] d(2)
          open_question_asked [OF assms(3) ok assms(2)]])
  moreover obtain a0 where a0: "agent_of db agent = Some a0" using assms(3) by (auto simp: open_question_def)
  moreover obtain a where "agent_of db1 agent = Some a"
    using evolves_agent_of [OF ok1 open_question_evolves [OF assms(3) ok] a0] by blast
  ultimately show ?thesis using open_question_retry [OF assms(5,6)] evolves_agent_of [OF d] by metis
qed

theorem open_question_asked_once_witness:
  "open_question (sample_env 9) db_answered ''id30'' ''bob'' ''why?'' ''r1'' = Inr (3, db_answered, [])"
proof -
  have t: "task_of db_answered ''id30'' = Some (sample_task\<lparr>t_state := Working, t_updated := 601000\<rparr>)" by code_simp
  have "hub_steps db_asked db_answered" using hub_stepI [OF hub_does.Reply [OF answered_result]] by blast
  from open_question_asked_once [OF claimed_reachable _ asked_result this t] show ?thesis by simp
qed

text \<open>
  C12. A question is answered once: after a reply committed, and after any further history, a second
  reply to the same question is refused without any change, even when the task meanwhile
  finished.
\<close>

theorem question_answered_once:
  assumes "hub_reachable db" and "reply e db tid answer q = Inr (True, db1, ks)" and "hub_steps db1 d"
  shows "reply e' d tid answer' q = Inr (False, d, [])"
proof -
  have ok: "hub_ok db" and ok1: "hub_ok db1"
    using hub_reachable_ok [OF assms(1)] reply_ok [OF assms(2)] by blast+
  have d: "hub_ok d" "evolves db1 d" using hub.inv_steps [OF ok1 assms(3)] hub.steps_le [OF ok1 assms(3)] by blast+
  obtain m where "m \<in> set (messages db1)" "from_alice tid m" "q < m_id m"
    using reply_answered [OF assms(2) hub_okD(1) [OF ok]] by blast
  then have m: "\<exists>m \<in> set (messages d). from_alice tid m \<and> q < m_id m" using evolves_messages [OF d(2)] by auto
  obtain t where t: "task_of db tid = Some t"
    using assms(2) by (auto simp: reply_def)
  obtain t1 where t1: "task_of db1 tid = Some t1" using evolves_task_of [OF ok ok1 reply_evolves [OF assms(2) ok] t] by blast
  obtain u where "task_of d tid = Some u" using evolves_task_of [OF ok1 d t1] by blast
  then show ?thesis using m by (rule reply_refused)
qed

theorem question_answered_once_witness:
  "reply (sample_env 9) db_answered ''id30'' ''again'' 3 = Inr (False, db_answered, [])"
  by (rule question_answered_once [OF asked_reachable answered_result rtranclp.rtrancl_refl])

text \<open>
  C13. A task that waits for input never gets stuck: in every reachable state it has a newest
  question, a reply that fits the size limit and names that question is accepted and wakes the
  worker, and a reply naming any other question is refused without any change.
\<close>

theorem waiting_task_answerable:
  assumes "hub_reachable db" and "task_of db tid = Some t" and "t_state t = Input_required"
    and "json_size_bytes e (text_part answer [(K_KIND, JStr ''reply'')]) \<le> MAX_MESSAGE_PART_BYTES"
  shows "\<exists>q d. newest_question db tid = Some q \<and> reply e db tid answer q = Inr (True, d, [task_key tid]) \<and>
    (\<forall>q'. q' \<noteq> q \<longrightarrow> reply e db tid answer q' = Inr (False, db, []))"
  by (rule reply_accepts [OF hub_reachable_ok [OF assms(1)] assms(2-4)]) blast

theorem waiting_task_answerable_witness:
  "\<exists>d. reply (sample_env 6) db_asked ''id30'' ''because'' 3 = Inr (True, d, [task_key ''id30'']) \<and>
     reply (sample_env 6) db_asked ''id30'' ''because'' 2 = Inr (False, db_asked, [])"
proof -
  have t: "task_of db_asked ''id30'' = Some (sample_task\<lparr>t_state := Input_required, t_updated := 501000\<rparr>)" by code_simp
  have s: "json_size_bytes (sample_env 6) (text_part ''because'' [(K_KIND, JStr ''reply'')]) \<le> MAX_MESSAGE_PART_BYTES" by code_simp
  have q: "newest_question db_asked ''id30'' = Some 3" by code_simp
  from waiting_task_answerable [OF asked_reachable t _ s] q show ?thesis by auto
qed

section \<open>Liveness of workers and leases\<close>

text \<open>
  C14. A heartbeat of a replaced or lost worker instance is refused and changes nothing. Any other one
  moves the liveness stamps of that worker's row forward and notes the address it came from, and
  touches at most one task, the worker's current one when the heartbeat names it: an unexpired lease
  of that task, never past the cap counted from the task's creation, and never backwards when it was
  under the cap. No other agent, no other task and no other table changes, and nobody is woken.
\<close>

theorem heartbeat_bounds:
  assumes "hub_reachable db" and "heartbeat e db name inst cur lease addr = Inr (b, d, ks)" and "agent_of db name = Some a"
  shows "ks = [] \<and>
    (if a_instance a \<noteq> inst \<or> a_status a = Lost then \<not> b \<and> d = db
     else b \<and> agent_of d name = Some (a\<lparr>a_last_heartbeat := max (a_last_heartbeat a) (now_iso e 0),
            a_last_seen := max (a_last_seen a) (now_iso e 0),
            a_last_addr := (case addr of None \<Rightarrow> a_last_addr a | Some r \<Rightarrow> Some r)\<rparr>)) \<and>
    (\<forall>i t. task_of db i = Some t \<longrightarrow> task_of d i = Some t \<or>
       cur = Some i \<and> a_current_task a = Some i \<and> (\<exists>x y. t_lease_expires t = Some x \<and> now_at e 0 < parse_timestamp x \<and>
         y \<le> parse_timestamp (t_created t) + minutes (cap_minutes db (t_workflow t) lease) \<and>
         (parse_timestamp x \<le> parse_timestamp (t_created t) + minutes (cap_minutes db (t_workflow t) lease)
            \<longrightarrow> parse_timestamp x \<le> y) \<and>
         task_of d i = Some (t\<lparr>t_lease_expires := Some (to_iso y), t_updated := now_iso e 0\<rparr>))) \<and>
    (\<forall>n. n \<noteq> name \<longrightarrow> agent_of d n = agent_of db n) \<and>
    d = db\<lparr>agents := agents d, tasks := tasks d\<rparr> \<and> map a_name (agents d) = map a_name (agents db) \<and>
    map t_id (tasks d) = map t_id (tasks db)"
proof -
  note frame = heartbeat_frame [OF assms(2)]
  from assms(2) show ?thesis
  proof (cases rule: heartbeat_cases)
    case 1
    have "a_instance a \<noteq> inst \<or> a_status a = Lost"
      using heartbeat_accepted [OF assms(2,3)] 1(2) by blast
    moreover have "ks = []" using heartbeat_keys [OF assms(2)] .
    ultimately show ?thesis using 1 by auto
  next
    case (2 a')
    with assms(3) have "a' = a" by simp
    with 2 heartbeat_keys [OF assms(2)] show ?thesis by (intro conjI frame) (simp_all add: agent_tbl.get_upd beat_agent_def)
  next
    case (3 a' i t x cap)
    have "task_of d j = (if j = i then Some (t\<lparr>t_lease_expires := Some (to_iso (renewed_lease (now_at e 0) cap
        (t_lease_duration_s t) (parse_timestamp x))), t_updated := now_iso e 0\<rparr>) else task_of db j)" for j
      unfolding 3(13) using 3(7) by (simp add: task_tbl.get_upd)
    then have lease: "task_of db j = Some u \<Longrightarrow> task_of d j \<noteq> Some u \<Longrightarrow>
       cur = Some j \<and> (\<exists>x y. t_lease_expires u = Some x \<and> now_at e 0 < parse_timestamp x \<and>
           y \<le> parse_timestamp (t_created u) + minutes (cap_minutes db (t_workflow u) lease) \<and>
           (parse_timestamp x \<le> parse_timestamp (t_created u) + minutes (cap_minutes db (t_workflow u) lease)
              \<longrightarrow> parse_timestamp x \<le> y) \<and>
           task_of d j = Some (u\<lparr>t_lease_expires := Some (to_iso y), t_updated := now_iso e 0\<rparr>))" for j u
      using 3(5,7,10,11,12) renewed_lease_le_cap [OF 3(11)] renewed_lease_ge [OF 3(11)]
      by (cases "j = i") (simp, metis, simp)
    moreover have "a' = a" using 3(1) assms(3) by simp
    moreover have "agent_of d name = Some (beat_agent (now_iso e 0) addr a)"
      unfolding 3(13) using assms(3) by (simp add: agent_tbl.get_upd beat_agent_def)
    ultimately show ?thesis
      using 3(2-6) heartbeat_keys [OF assms(2)] lease by (intro conjI frame) (auto simp: beat_agent_def)
  qed
qed

theorem heartbeat_bounds_witness:
  "\<exists>d. heartbeat (sample_env 7) db_claimed ''bob'' ''i1'' (Some ''id30'') None None = Inr (True, d, []) \<and>
     map_option a_last_heartbeat (agent_of d ''bob'') = Some 700000 \<and> messages d = messages db_claimed"
proof -
  have "map_sum id (\<lambda>(r, d, ks). (r, ks)) (heartbeat (sample_env 7) db_claimed ''bob'' ''i1'' (Some ''id30'') None None) = Inr (True, [])"
    by code_simp
  then obtain d where d: "heartbeat (sample_env 7) db_claimed ''bob'' ''i1'' (Some ''id30'') None None = Inr (True, d, [])"
    by (rule outcome_committed)
  obtain a where a: "agent_of db_claimed ''bob'' = Some a" "a_last_heartbeat a = 200000"
    by (simp add: db_claimed_def db_assigned_def agent_of_def sample_bob_def)
  have t: "now_iso (sample_env 7) 0 = 700000" by code_simp
  note beat = heartbeat_bounds [OF claimed_reachable d a(1)]
  then have "d = db_claimed\<lparr>agents := agents d, tasks := tasks d\<rparr>" by blast
  then have "messages d = messages db_claimed" by (metis hub_db.select_convs(4) hub_db.surjective hub_db.update_convs(2,3))
  with beat t a(2) d show ?thesis by (auto split: if_splits)
qed

text \<open>
  C15. A sweep appends exactly one queued event for each overdue open task, which names the task, its
  assignee and the lease that ran out, then one for each silent live agent, which names the agent,
  the task it held and its last heartbeat; it reports exactly those, in the order of the tables, and
  wakes the inbox when there are any; a second sweep at the same time finds nothing.
\<close>

theorem sweep_reports_once:
  assumes "hub_reachable db" and "sweep e db lost_after = Inr (r, d, ks)"
  shows "events d = events db @ r \<and>
    map (\<lambda>v. (e_kind v, e_payload v, e_state v)) r =
      map (\<lambda>t. (Lease_expired, [(''task_id'', JStr (t_id t)), (''agent'', jopt (t_assignee t)),
          (''lease_expires'', case t_lease_expires t of None \<Rightarrow> JNull | Some x \<Rightarrow> JInt x)], Queued))
        (filter (\<lambda>t. t_state t \<in> set OPEN_STATES \<and> (\<exists>x. t_lease_expires t = Some x \<and> x \<le> now_iso e 0)) (tasks db)) @
      map (\<lambda>a. (Agent_lost, [(''agent'', JStr (a_name a)), (''task_id'', jopt (a_current_task a)),
          (''last_heartbeat'', JInt (a_last_heartbeat a))], Queued))
        (filter (\<lambda>a. live a \<and> a_last_heartbeat a \<le> to_iso (now_at e 0 - seconds lost_after)) (agents db)) \<and>
    (r \<noteq> [] \<longrightarrow> EVENT_KEY \<in> set ks) \<and>
    (now_at e' 0 = now_at e 0 \<longrightarrow> sweep e' d lost_after = Inr ([], d, []))"
proof -
  have o: "overdue n = (\<lambda>t. t_state t \<in> set OPEN_STATES \<and> (\<exists>x. t_lease_expires t = Some x \<and> x \<le> n))" for n
    by (auto simp: overdue_def split: option.splits)
  have q: "silent c = (\<lambda>a. live a \<and> a_last_heartbeat a \<le> c)" for c by (auto simp: silent_def)
  show ?thesis
    using sweep_report [OF assms(2) hub_reachable_ok [OF assms(1)], unfolded expired_report_def [abs_def] lost_report_def [abs_def] o q]
      sweep_keys [OF assms(2)] sweep_again [OF assms(2)] by blast
qed

theorem sweep_reports_once_witness:
  "\<exists>r d. sweep (sample_env 100) db_claimed 60 = Inr (r, d, [EVENT_KEY]) \<and>
     map (\<lambda>v. (e_kind v, dict_get ''task_id'' (e_payload v), e_state v)) r =
       [(Lease_expired, Some (JStr ''id30''), Queued), (Agent_lost, Some (JStr ''id30''), Queued)] \<and>
     events d = events db_claimed @ r \<and> sweep (sample_env 100) d 60 = Inr ([], d, [])"
proof -
  have "map_sum id (\<lambda>(r, d, ks). (map (\<lambda>v. (e_kind v, dict_get ''task_id'' (e_payload v), e_state v)) r, ks)) (sweep (sample_env 100) db_claimed 60)
    = Inr ([(Lease_expired, Some (JStr ''id30''), Queued), (Agent_lost, Some (JStr ''id30''), Queued)], [EVENT_KEY])"
    by code_simp
  then obtain r d where d: "sweep (sample_env 100) db_claimed 60 = Inr (r, d, [EVENT_KEY])"
    "map (\<lambda>v. (e_kind v, dict_get ''task_id'' (e_payload v), e_state v)) r =
       [(Lease_expired, Some (JStr ''id30''), Queued), (Agent_lost, Some (JStr ''id30''), Queued)]"
    by (auto simp: map_sum_def split: sum.splits)
  from sweep_reports_once [OF claimed_reachable d(1), of "sample_env 100"]
  have "events d = events db_claimed @ r" "sweep (sample_env 100) d 60 = Inr ([], d, [])" by blast+
  with d show ?thesis by (intro exI conjI)
qed

text \<open>
  C16. A sweep marks a live agent whose last heartbeat is not after the cutoff lost and takes its task
  away, and that task fails with the reason worker_lost and no lease.
\<close>

theorem silent_agent_given_up:
  assumes "hub_reachable db" and "sweep e db lost_after = Inr (r, d, ks)"
    and "agent_of db n = Some a" and "live a" and "a_last_heartbeat a \<le> to_iso (now_at e 0 - seconds lost_after)"
  shows "(\<exists>b. agent_of d n = Some b \<and> a_status b = Lost \<and> a_current_task b = None) \<and>
    (\<forall>i. a_current_task a = Some i \<longrightarrow> (\<exists>u. task_of d i = Some u \<and> t_state u = Failed \<and>
        t_lease_expires u = None \<and> t_result u = Some (lost_payload n)))"
proof -
  have "silent (to_iso (now_at e 0 - seconds lost_after)) a" using assms(4,5) by (simp add: silent_def)
  from sweep_gives_up [OF assms(2) hub_reachable_ok [OF assms(1)] assms(3) this]
  show ?thesis using agent_of_name [OF assms(3)] by (simp add: given_up_def)
qed

theorem silent_agent_given_up_witness:
  "\<exists>r d ks u. sweep (sample_env 100) db_claimed 60 = Inr (r, d, ks) \<and> task_of d ''id30'' = Some u \<and> t_state u = Failed"
proof -
  have "map_sum id (\<lambda>(r, d, ks). (map e_kind r, ks)) (sweep (sample_env 100) db_claimed 60) = Inr ([Lease_expired, Agent_lost], [EVENT_KEY])"
    by code_simp
  then obtain r d where d: "sweep (sample_env 100) db_claimed 60 = Inr (r, d, [EVENT_KEY])"
    by (auto simp: map_sum_def split: sum.splits)
  have "map_option (\<lambda>a. (live a, a_last_heartbeat a \<le> to_iso (now_at (sample_env 100) 0 - seconds 60), a_current_task a)) (agent_of db_claimed ''bob'')
      = Some (True, True, Some ''id30'')" by code_simp
  then obtain a where a: "agent_of db_claimed ''bob'' = Some a" "live a"
    "a_last_heartbeat a \<le> to_iso (now_at (sample_env 100) 0 - seconds 60)" "a_current_task a = Some ''id30''" by auto
  from silent_agent_given_up [OF claimed_reachable d a(1-3)] a(4) d show ?thesis by blast
qed

text \<open>
  C17. The workflow's goal, policy and creation time never change after initialisation, an agent's
  context id stays its own, and a released agent stays released whatever it does.
\<close>

theorem policy_and_release_stick:
  assumes "hub_reachable db" and "hub_steps db d"
  shows "(\<forall>w. workflow_row_of db = Some w \<longrightarrow> (\<exists>x. workflow_row_of d = Some x \<and> w_id x = w_id w \<and>
      w_goal x = w_goal w \<and> w_policy x = w_policy w \<and> w_created x = w_created w)) \<and>
    (\<forall>n a. agent_of db n = Some a \<longrightarrow> (\<exists>b. agent_of d n = Some b \<and> a_context_id b = a_context_id a \<and>
      (a_status a = Released_status \<longrightarrow> a_status b = Released_status)))"
proof -
  have d: "hub_ok d" "evolves db d"
    using hub_reachable_ok rtranclp_trans [OF assms] hub_reachable_evolves [OF assms] by blast+
  have "\<exists>x. workflow_row_of d = Some x \<and> w_id x = w_id w \<and> w_goal x = w_goal w \<and> w_policy x = w_policy w \<and>
      w_created x = w_created w" if "workflow_row_of db = Some w" for w
    by (rule evolves_workflow [OF d that]) (blast dest: workflow_coreD)
  moreover have "\<exists>b. agent_of d n = Some b \<and> agent_evolves a b" if "agent_of db n = Some a" for n a
    using evolves_agent_of [OF d that] by blast
  ultimately show ?thesis unfolding agent_evolves_def by blast
qed

theorem policy_and_release_stick_witness:
  "\<exists>x. workflow_row_of db_answered = Some x \<and> w_goal x = ''goal'' \<and> w_policy x = []"
proof -
  have w: "workflow_row_of db_asked = Some \<lparr>w_id = ''id10'', w_goal = ''goal'', w_status = Active, w_policy = [], w_created = 100000\<rparr>"
    by code_simp
  have "hub_steps db_asked db_answered" using hub_stepI [OF hub_does.Reply [OF answered_result]] by blast
  from policy_and_release_stick [OF asked_reachable this] w show ?thesis by fastforce
qed

section \<open>Held requests\<close>

text \<open>
  C18. Lost-wakeup freedom of \<^verbatim>\<open>await_assignment\<close>: in every interleaving of commits, notifications,
  scheduled calls and clock ticks with the wait loop, a worker that sleeps while it has a task to
  claim (or is released) has a wakeup set or on its way, no sleep reaches past the deadline, and
  the wait times out only when the deadline has passed.
\<close>

theorem assignment_never_missed:
  assumes "hub_ok (shared s)" and "\<exists>a. agent_of (shared s) n = Some a \<and> a_context_id a = ctx"
    and "subscribed (context_key ctx) w (sigs s)" and "at_phase s = Subscribed"
    and "(wait_step hub_does (poll_assignment n) next_timeout w deadline)\<^sup>*\<^sup>* s t"
  shows "case at_phase t of
      Waiting until \<Rightarrow> until \<le> max deadline (clock t) \<and>
        (claimable n (shared t) \<longrightarrow> stirred w (sigs t) \<or> context_key ctx \<in> set (unsent t))
    | Timed_out \<Rightarrow> deadline \<le> clock t
    | _ \<Rightarrow> True"
proof -
  have "hub_ok (shared s) \<and> (\<exists>a. agent_of (shared s) n = Some a \<and> a_context_id a = ctx)" using assms(1,2) by blast
  from assignment_wait.never_lost [OF this assms(3-5)] show ?thesis by (simp split: phase.split)
qed

theorem assignment_never_missed_witness:
  "\<exists>t until. (wait_step hub_does (poll_assignment ''bob'') (\<lambda>d. None) 0 30)\<^sup>*\<^sup>*
      \<lparr>shared = db_checked_in, sigs = subscribe (context_key ''id21'') 0 no_signals, clock = 0, unsent = [], at_phase = Subscribed\<rparr> t \<and>
    at_phase t = Waiting until \<and> claimable ''bob'' (shared t) \<and>
    (stirred 0 (sigs t) \<or> context_key ''id21'' \<in> set (unsent t))"
proof -
  let ?s0 = "\<lparr>shared = db_checked_in, sigs = subscribe (context_key ''id21'') 0 no_signals, clock = 0, unsent = [], at_phase = Subscribed\<rparr>"
  have "claim_assignment (sample_env 9) db_checked_in ''bob'' = Inr (None, db_checked_in, [])" by code_simp
  then have "poll_assignment ''bob'' db_checked_in (Inr None) db_checked_in" unfolding poll_assignment_def by fastforce
  from write_while_waiting [where wr = hub_does and poll = "poll_assignment ''bob''", OF this hub_does.Assign [OF sample_env_ok assigned_result], where w = 0 and c = 0 and deadline = 30]
  obtain t where t: "(wait_step hub_does (poll_assignment ''bob'') (\<lambda>d. None) 0 30)\<^sup>*\<^sup>* ?s0 t"
    "at_phase t = Waiting 30" "shared t = db_assigned" by fastforce
  have "\<exists>a. agent_of db_checked_in ''bob'' = Some a \<and> a_context_id a = ''id21''"
    by (simp add: agent_of_def db_checked_in_def sample_bob_def)
  moreover have "subscribed (context_key ''id21'') 0 (sigs ?s0)" by (simp add: subscribe_def subscribed_def no_signals_def)
  moreover have c: "claimable ''bob'' db_assigned" by (simp add: claimable_def db_assigned_def sample_task_def)
  ultimately have "stirred 0 (sigs t) \<or> context_key ''id21'' \<in> set (unsent t)"
    using assignment_never_missed [OF _ _ _ _ t(1), of "''id21''"] hub_reachable_ok [OF checked_in_reachable] t(2,3) by simp
  with t c show ?thesis by metis
qed

text \<open>
  C19. Lost-wakeup freedom of \<^verbatim>\<open>await_reply\<close>: a worker that sleeps while its question has an answer
  has a wakeup set or on its way, in every interleaving.
\<close>

theorem reply_never_missed:
  assumes "hub_ok (shared s)" and "tid \<in> t_id ` set (tasks (shared s))"
    and "subscribed (task_key tid) w (sigs s)" and "at_phase s = Subscribed"
    and "(wait_step hub_does (poll_reply tid after) next_timeout w deadline)\<^sup>*\<^sup>* s t"
  shows "case at_phase t of
      Waiting until \<Rightarrow> until \<le> max deadline (clock t) \<and>
        (pending_reply (shared t) tid after \<noteq> None \<longrightarrow> stirred w (sigs t) \<or> task_key tid \<in> set (unsent t))
    | Timed_out \<Rightarrow> deadline \<le> clock t
    | _ \<Rightarrow> True"
proof -
  have "hub_ok (shared s) \<and> tid \<in> t_id ` set (tasks (shared s))" using assms(1,2) by blast
  from reply_wait.never_lost [OF this assms(3-5)] show ?thesis by (simp split: phase.split)
qed

theorem reply_never_missed_witness:
  "\<exists>t until. (wait_step hub_does (poll_reply ''id30'' 3) (\<lambda>d. None) 0 30)\<^sup>*\<^sup>*
      \<lparr>shared = db_asked, sigs = subscribe (task_key ''id30'') 0 no_signals, clock = 0, unsent = [], at_phase = Subscribed\<rparr> t \<and>
    at_phase t = Waiting until \<and> pending_reply (shared t) ''id30'' 3 \<noteq> None \<and>
    (stirred 0 (sigs t) \<or> task_key ''id30'' \<in> set (unsent t))"
proof -
  let ?s0 = "\<lparr>shared = db_asked, sigs = subscribe (task_key ''id30'') 0 no_signals, clock = 0, unsent = [], at_phase = Subscribed\<rparr>"
  have "pending_reply db_asked ''id30'' 3 = None" by code_simp
  then have "poll_reply ''id30'' 3 db_asked (Inr None) db_asked" by (simp add: poll_reply_def)
  from write_while_waiting [where wr = hub_does and poll = "poll_reply ''id30'' 3", OF this hub_does.Reply [OF answered_result], where w = 0 and c = 0 and deadline = 30]
  obtain t where t: "(wait_step hub_does (poll_reply ''id30'' 3) (\<lambda>d. None) 0 30)\<^sup>*\<^sup>* ?s0 t"
    "at_phase t = Waiting 30" "shared t = db_answered" by fastforce
  have "''id30'' \<in> t_id ` set (tasks db_asked)" by code_simp
  moreover have "subscribed (task_key ''id30'') 0 (sigs ?s0)" by (simp add: subscribe_def subscribed_def no_signals_def)
  moreover have c: "pending_reply db_answered ''id30'' 3 \<noteq> None" by code_simp
  ultimately have "stirred 0 (sigs t) \<or> task_key ''id30'' \<in> set (unsent t)"
    using reply_never_missed [OF _ _ _ _ t(1)] hub_reachable_ok [OF asked_reachable] t(2,3) by simp
  with t c show ?thesis by metis
qed

text \<open>
  C20. Lost-wakeup freedom of \<^verbatim>\<open>wait_for_event\<close>: Alice never sleeps on a queued event without a
  wakeup set or on its way, in every interleaving.
\<close>

theorem event_never_missed:
  assumes "hub_ok (shared s)" and "subscribed EVENT_KEY w (sigs s)" and "at_phase s = Subscribed"
    and "(wait_step hub_does (poll_event dflt lease) next_timeout w deadline)\<^sup>*\<^sup>* s t"
  shows "case at_phase t of
      Waiting until \<Rightarrow> until \<le> max deadline (clock t) \<and>
        ((\<exists>v \<in> set (events (shared t)). e_state v = Queued) \<longrightarrow> stirred w (sigs t) \<or> EVENT_KEY \<in> set (unsent t))
    | Timed_out \<Rightarrow> deadline \<le> clock t
    | _ \<Rightarrow> True"
  using inbox_wait.never_lost [OF assms] by (simp add: queued_event_def split: phase.split)

theorem event_never_missed_witness:
  "\<exists>t until. (wait_step hub_does (poll_event 600 None) (\<lambda>d. None) 0 30)\<^sup>*\<^sup>*
      \<lparr>shared = db_initialized, sigs = subscribe EVENT_KEY 0 no_signals, clock = 0, unsent = [], at_phase = Subscribed\<rparr> t \<and>
    at_phase t = Waiting until \<and> shared t = db_checked_in \<and> (stirred 0 (sigs t) \<or> EVENT_KEY \<in> set (unsent t))"
proof -
  let ?s0 = "\<lparr>shared = db_initialized, sigs = subscribe EVENT_KEY 0 no_signals, clock = 0, unsent = [], at_phase = Subscribed\<rparr>"
  have "lease_next_event (sample_env 9) 600 db_initialized None = Inr (None, db_initialized, [])" by code_simp
  then have "poll_event 600 None db_initialized (Inr None) db_initialized" unfolding poll_event_def by fastforce
  from write_while_waiting [where wr = hub_does and poll = "poll_event 600 None", OF this hub_does.Check_in [OF checked_in_result], where w = 0 and c = 0 and deadline = 30]
  obtain t where t: "(wait_step hub_does (poll_event 600 None) (\<lambda>d. None) 0 30)\<^sup>*\<^sup>* ?s0 t"
    "at_phase t = Waiting 30" "shared t = db_checked_in" by fastforce
  have "subscribed EVENT_KEY 0 (sigs ?s0)" by (simp add: subscribe_def subscribed_def no_signals_def)
  moreover have "list_ex (\<lambda>v. e_state v = Queued) (events db_checked_in)" by code_simp
  then have "\<exists>v \<in> set (events db_checked_in). e_state v = Queued" by (simp add: list_ex_iff)
  ultimately have "stirred 0 (sigs t) \<or> EVENT_KEY \<in> set (unsent t)"
    using event_never_missed [OF _ _ _ t(1)] hub_reachable_ok [OF initialized_reachable] t(2,3) by simp
  with t show ?thesis by metis
qed

section \<open>The merge gate\<close>

text \<open>
  C21. The gate never reports a mergeable pull request that GitHub did not: when a report allows
  the merge (open, head as expected, CI passed, base not behind, clean), one series of \<^verbatim>\<open>gh\<close>
  answers said so: the view of the parsed pull request was OPEN, MERGEABLE, not DIRTY and at the
  expected head, the check list read afterwards was not empty and held only passed or skipped
  checks, and the comparison of that head with its base, read last, was behind by nothing.
\<close>

theorem merge_gate_sound:
  assumes "check_gate w timeout interval url sha s = Some (Inr r, t)" and "merge_allowed r"
  shows "sha_fullmatch sha \<and> (\<exists>ref j k m view head base res compare n merge_state.
     parse_pr_url url = Inr ref \<and>
     answered w j (view_args ref) view \<and>
       dict_get ''state'' view = Some (JStr ''OPEN'') \<and>
       dict_get ''headRefOid'' view = Some (JStr head) \<and> lower head = lower sha \<and>
       dict_get ''baseRefName'' view = Some (JStr base) \<and>
       dict_get ''mergeable'' view = Some (JStr ''MERGEABLE'') \<and>
       dict_get ''mergeStateStatus'' view = Some (JStr merge_state) \<and> merge_state \<noteq> ''DIRTY'' \<and>
     gh_reply w k (checks_args ref) = Inr res \<and>
       read_checks (gate_floats w) (checks_args ref) res = Inr (g_checks r) \<and> g_checks r \<noteq> [] \<and>
       (\<forall>c \<in> set (g_checks r). check_bucket c = ''pass'' \<or> check_bucket c = ''skipping'') \<and>
     answered w m (compare_args ref base (lower sha)) compare \<and>
       dict_get ''behind_by'' compare = Some (JInt n) \<and> n \<le> 0 \<and> j < k \<and> k < m)"
proof -
  obtain ref where ref: "sha_fullmatch sha" "parse_pr_url url = Inr ref"
    "poll_gate w interval ref (lower sha) (now_s s) (now_s s + timeout) s = Some (Inr r, t)"
    using assms(1) by (auto simp: check_gate_def split: if_splits sum.splits)
  obtain s0 r0 where r0: "snapshot w ref (lower sha) s0 = (Inr r0, t)" "r = r0\<lparr>g_elapsed_s := round3 (now_s t - now_s s)\<rparr>"
    using poll_gate_Inr [OF ref(3)] by blast
  have "merge_allowed r0" using assms(2) r0(2) by (simp add: merge_allowed_def)
  then have "backed w ref (lower sha) r0" by (rule merge_allowed_backed [OF r0(1)])
  moreover have "g_checks r = g_checks r0" using r0(2) by simp
  ultimately show ?thesis unfolding backed_def using ref(1,2) by (simp only:) blast
qed

theorem merge_gate_sound_witness:
  "\<exists>t view head. check_gate demo_world 60 10 '' https://h/o/r/pull/7/'' demo_sha demo_start = Some (Inr demo_report, t) \<and>
     merge_allowed demo_report \<and> dict_get ''headRefOid'' view = Some (JStr head) \<and> lower head = lower demo_sha"
proof -
  have c: "check_gate demo_world 60 10 '' https://h/o/r/pull/7/'' demo_sha demo_start
      = Some (Inr demo_report, demo_start\<lparr>gh_calls := 3, now_s := 3\<rparr>)" by (rule demo_check)
  have "merge_allowed demo_report" by code_simp
  with merge_gate_sound [OF c this] c show ?thesis by blast
qed

text \<open>
  C22. The polling loop ends: with a \<^verbatim>\<open>gh\<close> that answers, a clock that does not run backwards and
  sleeps that last at least as long as asked, the gate returns after at most timeout / interval
  sleeps (rounded up), and a report that could still change is returned only when the whole
  timeout has passed.
\<close>

theorem merge_gate_ends:
  assumes "\<And>k. 0 \<le> gh_takes w k" and "\<And>k. 0 \<le> overshoot w k" and "0 < interval"
  shows "\<exists>res t. check_gate w timeout interval url sha s = Some (res, t) \<and>
    sleeps t \<le> sleeps s + nat \<lceil>timeout / interval\<rceil> \<and>
    (case res of Inl _ \<Rightarrow> True | Inr r \<Rightarrow> settled r \<or> now_s s + timeout \<le> now_s t)"
proof -
  obtain res t where t: "check_gate w timeout interval url sha s = Some (res, t)"
    "sleeps t \<le> sleeps s + nat \<lceil>timeout / interval\<rceil>"
    using check_gate_ends [OF assms] by blast
  moreover have "settled r \<or> now_s s + timeout \<le> now_s t" if "res = Inr r" for r
    using t(1) that poll_gate_Inr by (fastforce simp: check_gate_def settled_def split: if_splits sum.splits)
  ultimately show ?thesis by (auto split: sum.split)
qed

theorem merge_gate_ends_witness:
  "\<exists>res t. check_gate demo_world 60 10 ''https://h/o/r/pull/8'' demo_sha demo_start = Some (res, t) \<and> sleeps t \<le> 6"
proof -
  have "\<lceil>60 / 10 :: rat\<rceil> = 6" by simp
  then show ?thesis
    using merge_gate_ends [of demo_world 10 60 "''https://h/o/r/pull/8''" demo_sha demo_start]
    by (auto simp: demo_world_def demo_start_def)
qed

text \<open>
  C23. Only canonical pull request URLs reach \<^verbatim>\<open>gh\<close>: an accepted text is, up to surrounding white
  space and at most one final slash, the URL of the reference it gives, and that URL is spelled from
  the reference's host, owner, repository and number and nothing else; none of these contains a
  slash, each consists of the characters GitHub allows in it, the repository does not start with a
  hyphen and is no dot segment, and parsing the URL again gives the same reference.
\<close>

theorem pr_url_canonical:
  assumes "parse_pr_url url = Inr ref"
  shows "(strip url = pr_url ref \<or> strip url = pr_url ref @ ''/'') \<and>
    pr_url ref = ''https://'' @ pr_host ref @ ''/'' @ pr_owner ref @ ''/'' @ pr_repo ref @ ''/pull/'' @ show_nat (pr_number ref) \<and>
    url_parts (pr_host ref) (pr_owner ref) (pr_repo ref) (show_nat (pr_number ref)) \<and>
    CHR ''/'' \<notin> set (pr_host ref @ pr_owner ref @ pr_repo ref) \<and>
    is_alnum (hd (pr_host ref)) \<and> is_alnum (hd (pr_owner ref)) \<and> hd (pr_repo ref) \<noteq> CHR ''-'' \<and>
    pr_repo ref \<noteq> ''.'' \<and> pr_repo ref \<noteq> ''..'' \<and> 0 < pr_number ref \<and> parse_pr_url (pr_url ref) = Inr ref"
  using parse_pr_url_canonical [OF assms] by (simp only: url_text_def simp_thms)

theorem pr_url_canonical_witness:
  "parse_pr_url ''https://h/o/r/pull/7'' = Inr demo_ref \<and> pr_number demo_ref = 7 \<and>
   (strip '' https://h/o/r/pull/7/'' = ''https://h/o/r/pull/7'' \<or> strip '' https://h/o/r/pull/7/'' = ''https://h/o/r/pull/7'' @ ''/'')"
proof -
  have p: "pr_url demo_ref = ''https://h/o/r/pull/7''" "pr_number demo_ref = 7" by (simp_all add: demo_ref_def)
  show ?thesis using pr_url_canonical [OF demo_parse] p(2) unfolding p(1) by blast
qed

section \<open>The A2A protocol\<close>

text \<open>
  C24. The endpoint implements its contract: an accepted request runs the one store operation its
  method and kind stand for (check-in, heartbeat, progress, result, question, cancellation), on the
  agent, task, operation id and text the request names, and is answered under its own id with the
  result of that operation; a poll and a \<^verbatim>\<open>tasks/get\<close> run none and are answered from the tables. A
  request answered by an error changed nothing and woke nobody.
\<close>

theorem request_runs_one_operation:
  assumes "dispatch e sdk settings db payload addr = (resp, d, ks)"
  shows "(accepted resp \<longrightarrow> resp_status resp = 200 \<and> resp_id resp = request_id payload \<and>
      answers e sdk settings db payload addr (resp_body resp) d ks) \<and>
    (\<not> accepted resp \<longrightarrow> d = db \<and> ks = []) \<and> (d = db \<and> ks = [] \<or> hub_does db d ks)"
  using dispatch_effect [OF assms] dispatch_answered [OF assms] by blast

theorem request_runs_one_operation_witness:
  "\<exists>d. dispatch (sample_env 7) demo_sdk demo_settings db_claimed demo_progress None = (demo_noted, d, [EVENT_KEY]) \<and>
     answers (sample_env 7) demo_sdk demo_settings db_claimed demo_progress None
       (Result_body (A_message (demo_received ''fresh0''))) d [EVENT_KEY]"
proof -
  obtain resp d ks where r: "dispatch (sample_env 7) demo_sdk demo_settings db_claimed demo_progress None = (resp, d, ks)"
    by (rule prod_cases3)
  then have n: "resp = demo_noted" "ks = [EVENT_KEY]" using demo_progress_noted by simp_all
  then have "accepted resp" by (simp add: demo_noted_def accepted_def)
  with request_runs_one_operation [OF r] have "answers (sample_env 7) demo_sdk demo_settings db_claimed demo_progress None
      (resp_body resp) d ks" by blast
  with r n show ?thesis by (auto simp: demo_noted_def)
qed

text \<open>
  C25. A message on a task, sent or streamed, is accepted only from the worker that holds the task:
  the metadata names the instance that runs the resolved agent, the agent is not lost, and the
  task is assigned to it. A superseded process can no longer report for its successor.
\<close>

theorem task_message_from_current_worker:
  assumes "dispatch e sdk settings db payload addr = (resp, d, ks)" "accepted resp"
    and "carried sdk method payload = Some m" "msg_task m = Some tid"
  shows "\<exists>a t i. a \<in> set (agents db) \<and> a_status a \<noteq> Lost \<and>
    dict_get K_WORKER_INSTANCE_ID (message_metadata m) = Some (JStr i) \<and> strip i = a_instance a \<and>
    task_of db tid = Some t \<and> t_assignee t = Some (a_name a)"
  using task_message_owned [OF assms] by (auto simp: current_worker_def)

theorem task_message_from_current_worker_witness:
  "\<exists>a t i. a \<in> set (agents db_claimed) \<and> a_status a \<noteq> Lost \<and> strip i = a_instance a \<and>
    task_of db_claimed ''id30'' = Some t \<and> t_assignee t = Some (a_name a)"
proof -
  obtain resp d ks where r: "dispatch (sample_env 7) demo_sdk demo_settings db_claimed demo_progress None = (resp, d, ks)"
    by (rule prod_cases3)
  then have "accepted resp" using demo_progress_noted by (simp add: demo_noted_def accepted_def)
  moreover have "carried demo_sdk ''message/send'' demo_progress \<noteq> None \<and>
      msg_task (the (carried demo_sdk ''message/send'' demo_progress)) = Some ''id30''" by code_simp
  ultimately show ?thesis
    using task_message_from_current_worker [OF r, of "''message/send''"] by fastforce
qed

text \<open>
  C26. Every accepted \<^verbatim>\<open>message/send\<close> declared the protocol version the hub speaks, and, unless it is
  a heartbeat, an operation id that is not blank, so no change to the hub can escape the check
  for retries. Each of its parts was within the size limit.
\<close>

theorem send_declares_version_and_operation:
  assumes "dispatch e sdk settings db payload addr = (resp, d, ks)" "accepted resp"
    and "carried sdk ''message/send'' payload = Some m"
  shows "dict_get K_SCHEMA_VERSION (message_metadata m) = Some (JInt 1) \<and>
    (is_heartbeat m \<or> (\<exists>s. dict_get K_OPERATION_ID (message_metadata m) = Some (JStr s) \<and> strip s \<noteq> [])) \<and>
    (\<forall>p \<in> set (msg_parts m). json_size_bytes e (part_dump p) \<le> MAX_MESSAGE_PART_BYTES)"
proof -
  obtain r where r: "serve_send e sdk db m addr = (Inr r, d, ks)" "check_message_part_sizes e m = Inr ()"
    using dispatch_send [OF assms(1,3)] assms(2) by blast
  have "\<forall>p \<in> set (msg_parts m). json_size_bytes e (part_dump p) \<le> MAX_MESSAGE_PART_BYTES"
    using r(2) by (auto simp: check_message_part_sizes_def list_all_iff check_parts_Inr split: sum.splits)
  then show ?thesis using send_identified [OF r(1)] by blast
qed

theorem send_declares_version_and_operation_witness:
  "dict_get K_SCHEMA_VERSION (message_metadata (the (carried demo_sdk ''message/send'' demo_progress))) = Some (JInt 1)"
proof -
  obtain resp d ks where r: "dispatch (sample_env 7) demo_sdk demo_settings db_claimed demo_progress None = (resp, d, ks)"
    by (rule prod_cases3)
  then have a: "accepted resp" using demo_progress_noted by (simp add: demo_noted_def accepted_def)
  have "carried demo_sdk ''message/send'' demo_progress \<noteq> None" by code_simp
  then obtain m where "carried demo_sdk ''message/send'' demo_progress = Some m" by blast
  with send_declares_version_and_operation [OF r a this] show ?thesis by simp
qed

text \<open>
  C27. A worker that lost the response may send its request again, from any address: after any
  further history of the hub, a repeated \<^verbatim>\<open>message/send\<close> that is not a heartbeat gets the very
  response of the first time and does nothing more. A message on a task, and no other, may instead be
  refused, and only if by then the hub has given the task's assignee up for lost or another process
  has checked in under its name; then too nothing happens. The measure of the JSON texts is the same
  in both calls; the clock and the fresh identifiers need not be.
\<close>

theorem request_exactly_once:
  assumes "hub_reachable db" and "dispatch e sdk settings db payload addr = (resp, db1, ks)" "accepted resp"
    and "carried sdk ''message/send'' payload = Some m" "\<not> is_heartbeat m"
    and "hub_steps db1 d" and "float_repr e' = float_repr e"
    and "dispatch e' (sdk\<lparr>fresh_id := f\<rparr>) settings' d payload addr' = (resp', d', ks')"
  shows "(resp' = resp \<or> \<not> accepted resp' \<and> (\<exists>tid t a i. msg_task m = Some tid \<and> task_of d tid = Some t \<and>
      t_assignee t = Some (a_name a) \<and> agent_of d (a_name a) = Some a \<and>
      dict_get K_WORKER_INSTANCE_ID (message_metadata m) = Some (JStr i) \<and> (a_status a = Lost \<or> a_instance a \<noteq> strip i))) \<and>
    d' = d \<and> ks' = []"
  using request_retried [OF hub_reachable_ok [OF assms(1)] assms(2-8)] unfolding superseded_def by blast

theorem request_exactly_once_witness:
  "\<exists>d. dispatch (sample_env 7) demo_sdk demo_settings db_claimed demo_progress None = (demo_noted, d, [EVENT_KEY]) \<and>
     dispatch (sample_env 8) (demo_sdk\<lparr>fresh_id := (\<lambda>n. ''later'')\<rparr>) demo_settings d demo_progress (Some ''10.0.0.9'')
       = (demo_noted, d, [])"
proof -
  obtain resp d ks where r: "dispatch (sample_env 7) demo_sdk demo_settings db_claimed demo_progress None = (resp, d, ks)"
    by (rule prod_cases3)
  then have n: "resp = demo_noted" "ks = [EVENT_KEY]" using demo_progress_noted by simp_all
  then have acc: "accepted resp" by (simp add: demo_noted_def accepted_def)
  have "(case dispatch (sample_env 7) demo_sdk demo_settings db_claimed demo_progress None of (_, d, _) \<Rightarrow>
      (map_option (\<lambda>a. (a_status a, a_instance a)) (agent_of d ''bob''), map_option t_assignee (task_of d ''id30'')))
      = (Some (Busy, ''i1''), Some (Some ''bob''))" by code_simp
  then have now: "map_option (\<lambda>a. (a_status a, a_instance a)) (agent_of d ''bob'') = Some (Busy, ''i1'')"
    "map_option t_assignee (task_of d ''id30'') = Some (Some ''bob'')" using r by simp_all
  let ?m = "the (carried demo_sdk ''message/send'' demo_progress)"
  have m: "carried demo_sdk ''message/send'' demo_progress = Some ?m" "\<not> is_heartbeat ?m" "msg_task ?m = Some ''id30''"
    "dict_get K_WORKER_INSTANCE_ID (message_metadata ?m) = Some (JStr ''i1'')" "strip ''i1'' = ''i1''" by code_simp+
  obtain resp' d' ks' where r': "dispatch (sample_env 8) (demo_sdk\<lparr>fresh_id := (\<lambda>n. ''later'')\<rparr>) demo_settings d demo_progress
      (Some ''10.0.0.9'') = (resp', d', ks')" by (rule prod_cases3)
  have "float_repr (sample_env 8) = float_repr (sample_env 7)" by (simp add: sample_env_def)
  from request_exactly_once [OF claimed_reachable r acc m(1,2) rtranclp.rtrancl_refl this r']
  have "resp' = resp" "d' = d" "ks' = []" using now m(3-5) by auto
  then show ?thesis using r r' n by simp
qed

section \<open>Settings\<close>

text \<open>
  Settings read from any environment are usable or refused: a port in range, an http(s) public
  address, no empty token, every duration not below or at zero, a longest wait not below the
  default one, and a raw call log only at an absolute path and with accounting on.
\<close>

lemma settings_valid:
  assumes "settings_from_env os env = Inr s"
  shows "1 \<le> s_port s \<and> s_port s \<le> 65535 \<and>
    (startswith (s_public_url s) ''http://'' \<or> startswith (s_public_url s) ''https://'') \<and> s_token s \<noteq> Some [] \<and>
    (\<forall>d \<in> {s_default_wait s, s_max_wait s, s_lost_after s, s_sweep_interval s, s_event_lease s}. \<not> flt_le d (Finite 0)) \<and>
    \<not> flt_less (s_max_wait s) (s_default_wait s) \<and>
    (\<forall>p. s_call_log_jsonl s = Some p \<longrightarrow> s_call_accounting s \<and> is_absolute p)"
  using settings_Inr [OF assms] by auto

lemma settings_valid_example:
  "\<exists>s. settings_from_env demo_os [''HUB_PUBLIC_URL'' \<mapsto> ''https://hub.example/''] = Inr s \<and>
     s_public_url s = ''https://hub.example'' \<and> s_token s \<noteq> Some []"
proof -
  have "(case settings_from_env demo_os [''HUB_PUBLIC_URL'' \<mapsto> ''https://hub.example/''] of
      Inr s \<Rightarrow> s_public_url s = ''https://hub.example'' | Inl x \<Rightarrow> False)" by code_simp
  then obtain s where s: "settings_from_env demo_os [''HUB_PUBLIC_URL'' \<mapsto> ''https://hub.example/''] = Inr s"
    "s_public_url s = ''https://hub.example''"
    by (auto split: sum.splits)
  with settings_valid [OF s(1)] show ?thesis by blast
qed

text \<open>
  A hold stays within its bounds: under settings whose longest wait is a positive number, the
  wait granted to a caller is between zero and that longest wait whatever the caller asked for,
  negative, infinite or not a number.
\<close>

lemma wait_bounded:
  assumes "flt_less (Finite 0) (s_max_wait s)"
  shows "flt_le (Finite 0) (bounded_wait s r) \<and> flt_le (bounded_wait s r) (s_max_wait s)"
  using bounded_wait_bounds [OF assms] by blast

lemma wait_bounded_example:
  "flt_le (bounded_wait demo_settings (Some Pos_inf)) (Finite 300) \<and> bounded_wait demo_settings (Some Nan) = Finite 0 \<and>
   bounded_wait demo_settings (Some (Finite 30)) = Finite 30"
proof -
  have "flt_less (Finite 0) (s_max_wait demo_settings)" by code_simp
  from wait_bounded [OF this, of "Some Pos_inf"]
  have "flt_le (bounded_wait demo_settings (Some Pos_inf)) (Finite 300)" by (simp add: demo_settings_def)
  moreover have "bounded_wait demo_settings (Some Nan) = Finite 0" "bounded_wait demo_settings (Some (Finite 30)) = Finite 30"
    by code_simp+
  ultimately show ?thesis by blast
qed

text \<open>
  The check of the durations misses one value: \<^verbatim>\<open>HUB_DEFAULT_WAIT_S=nan\<close> is accepted, and under
  those settings every request that names no timeout waits zero seconds, although the check is
  there to reject values that would disable waiting.
\<close>

lemma nan_wait_disables_waiting:
  "\<exists>s. settings_from_env demo_os [''HUB_PUBLIC_URL'' \<mapsto> ''https://hub'', ''HUB_DEFAULT_WAIT_S'' \<mapsto> ''nan''] = Inr s \<and> bounded_wait s None = Finite 0"
proof -
  have "(case settings_from_env demo_os [''HUB_PUBLIC_URL'' \<mapsto> ''https://hub'', ''HUB_DEFAULT_WAIT_S'' \<mapsto> ''nan''] of
      Inr s \<Rightarrow> bounded_wait s None = Finite 0 | Inl x \<Rightarrow> False)" by code_simp
  then show ?thesis by (auto split: sum.splits)
qed

section \<open>The worker and the hub\<close>

text \<open>
  C28. A result whose response was lost is not reported twice: a worker that submits the same typed
  result for the task again uses the operation id it remembered, so, whatever happened to the hub
  in between, the second message changes nothing, and if it is accepted at all it is answered with
  the response the first one had. The message ids and the JSON-RPC ids of the two differ.
\<close>

theorem lost_result_recovered:
  assumes "hub_reachable db" "reads_messages sdk" "float_repr e' = float_repr e"
    and "result_operation ids st tid (result_dump r) None = (i, st1)"
    and "dispatch e sdk settings db (result_request ids st tid (result_dump r) (result_summary r) status arts i) addr
      = (resp, db1, ks)" "accepted resp" and "hub_steps db1 d"
    and "result_operation ids' st1 tid (result_dump r) None = (i', st2)"
    and "dispatch e' (sdk\<lparr>fresh_id := f\<rparr>) settings' d
      (result_request ids' st1 tid (result_dump r) (result_summary r) status arts i') addr' = (resp', d', ks')"
  shows "i' = i \<and> d' = d \<and> ks' = [] \<and> (accepted resp' \<longrightarrow> resp_body resp' = resp_body resp)"
proof -
  note again = result_operation_again [OF assms(4) wf_result_dump]
  have i: "i' = i" using again(1) [of ids'] assms(8) by simp
  show ?thesis
    using message_resent [OF hub_reachable_ok [OF assms(1)] assms(2,3) assms(5) [unfolded result_request_def] assms(6) _
        assms(7) assms(9) [unfolded result_request_def again(2,3) i]] i
    by auto
qed

theorem lost_result_recovered_witness:
  "\<exists>resp d ks. dispatch (sample_env 7) wire_sdk demo_settings db_claimed (result_request (demo_ids ''a'') demo_worker ''id30''
       (result_dump demo_failure) ''no luck'' ''failed'' None ''a0'') None = (resp, d, ks) \<and> accepted resp \<and>
     (case dispatch (sample_env 8) (wire_sdk\<lparr>fresh_id := (\<lambda>n. ''later'')\<rparr>) demo_settings d (result_request (demo_ids ''b'')
        (demo_worker\<lparr>wc_results := [''id30'' \<mapsto> (result_dump demo_failure, ''a0'')]\<rparr>) ''id30''
        (result_dump demo_failure) ''no luck'' ''failed'' None ''a0'') None of (resp', d', ks') \<Rightarrow> d' = d \<and> ks' = [])"
proof -
  let ?p = "result_request (demo_ids ''a'') demo_worker ''id30'' (result_dump demo_failure) ''no luck'' ''failed'' None ''a0''"
  let ?st = "demo_worker\<lparr>wc_results := [''id30'' \<mapsto> (result_dump demo_failure, ''a0'')]\<rparr>"
  obtain resp d ks where r: "dispatch (sample_env 7) wire_sdk demo_settings db_claimed ?p None = (resp, d, ks)"
    by (rule prod_cases3)
  have "(case dispatch (sample_env 7) wire_sdk demo_settings db_claimed ?p None of (resp, d, ks) \<Rightarrow> accepted resp)" by code_simp
  then have a: "accepted resp" using r by simp
  have o1: "result_operation (demo_ids ''a'') demo_worker ''id30'' (result_dump demo_failure) None = (''a0'', ?st)"
    by (simp add: result_operation_def demo_worker_def new_worker_def demo_ids_def)
  obtain resp' d' ks' where r': "dispatch (sample_env 8) (wire_sdk\<lparr>fresh_id := (\<lambda>n. ''later'')\<rparr>) demo_settings d
      (result_request (demo_ids ''b'') ?st ''id30'' (result_dump demo_failure) ''no luck'' ''failed'' None ''a0'') None
      = (resp', d', ks')" by (rule prod_cases3)
  have o2: "result_operation (demo_ids ''b'') ?st ''id30'' (result_dump demo_failure) None = (''a0'', ?st)"
    by (rule result_operation_again(1) [OF o1 wf_result_dump])
  have s: "result_summary demo_failure = ''no luck''" by (simp add: result_summary_def demo_failure_def)
  have "float_repr (sample_env 8) = float_repr (sample_env 7)" by (simp add: sample_env_def)
  from lost_result_recovered [OF claimed_reachable wire_sdk_reads this o1 r [folded s] a rtranclp.rtrancl_refl o2 r' [folded s]]
  show ?thesis using r r' a by auto
qed

text \<open>
  C29. What a worker declares about itself arrives unchanged: for a worker whose settings were read
  from any environment, the hub reads the metadata of its check-in back as exactly the profile the
  worker composed from the launcher's settings and the agent's own declaration.
\<close>

theorem profile_reaches_hub:
  assumes "worker_settings_from_env os fs env = Inr s"
  shows "read_profile (checkin_metadata agent inst op (profile_of s caps mdl)) = Inr (profile_of s caps mdl)"
  by (rule read_declared_profile [OF profile_of_declared [OF worker_settings_profile [OF assms]]])

theorem profile_reaches_hub_witness:
  "\<exists>s. worker_settings_from_env demo_os demo_fs demo_worker_env = Inr s \<and> capabilities (ws_profile s) = [''python'', ''rust''] \<and>
     read_profile (checkin_metadata ''bob'' ''i1'' ''op'' (profile_of s (Some ['' go '']) (Some ''m1''))) =
       Inr (profile_of s (Some ['' go '']) (Some ''m1''))"
proof -
  have "(case worker_settings_from_env demo_os demo_fs demo_worker_env of
      Inr s \<Rightarrow> capabilities (ws_profile s) = [''python'', ''rust''] | Inl x \<Rightarrow> False)" by code_simp
  then obtain s where s: "worker_settings_from_env demo_os demo_fs demo_worker_env = Inr s"
    "capabilities (ws_profile s) = [''python'', ''rust'']" by (auto split: sum.splits)
  with profile_reaches_hub [OF s(1)] show ?thesis by blast
qed

text \<open>
  C30. A request is repeated at most as often as the settings allow: the loop ends with the outcome
  of its last attempt; every earlier attempt met a transport error or a status of 502, 503 or 504;
  it gives up on such an outcome only when the allowance is used up; each repetition is counted
  and each pause is twice the one before.
\<close>

theorem request_retries_bounded:
  assumes "request_with_retry s sent net 0 io = (x, io', pauses)" "0 \<le> ws_max_retries s"
  shows "int (length pauses) \<le> ws_max_retries s \<and> x = net (length pauses) \<and>
    (\<forall>k < length pauses. transient (net k)) \<and> (transient x \<longrightarrow> int (length pauses) = ws_max_retries s) \<and>
    io_retries io' = io_retries io + length pauses \<and>
    map rn_delay pauses = map (\<lambda>k. flt_scale (2 ^ k) (ws_backoff s)) [0..<length pauses]"
proof -
  note r = request_with_retry_runs [OF assms(1)]
  have "int (length pauses) \<le> ws_max_retries s"
  proof (cases "length pauses")
    case (Suc k)
    then have "may_retry s k" using r by auto
    then show ?thesis using Suc by (simp add: may_retry_def)
  qed (use assms(2) in simp)
  then show ?thesis using r by (auto simp: may_retry_def)
qed

theorem request_retries_bounded_witness:
  "\<exists>s x io' pauses. worker_settings_from_env demo_os demo_fs demo_worker_env = Inr s \<and>
     request_with_retry s 10 demo_net 0 new_io = (x, io', pauses) \<and> x = demo_net 2 \<and> length pauses = 2 \<and> io_retries io' = 2"
proof -
  have "(case worker_settings_from_env demo_os demo_fs demo_worker_env of Inr s \<Rightarrow> 0 \<le> ws_max_retries s \<and>
      (case request_with_retry s 10 demo_net 0 new_io of (x, io', pauses) \<Rightarrow> length pauses = 2) | Inl x \<Rightarrow> False)" by code_simp
  then obtain s where s: "worker_settings_from_env demo_os demo_fs demo_worker_env = Inr s" "0 \<le> ws_max_retries s"
    "(case request_with_retry s 10 demo_net 0 new_io of (x, io', pauses) \<Rightarrow> length pauses = 2)" by (auto split: sum.splits)
  obtain x io' pauses where r: "request_with_retry s 10 demo_net 0 new_io = (x, io', pauses)" by (rule prod_cases3)
  from request_retries_bounded [OF r s(2)] s(1,3) r show ?thesis by (auto simp: new_io_def)
qed

section \<open>Accounting, access and migrations\<close>

text \<open>
  C31. Byte accounting stores labels of closed sets only: in every state the hub reaches under any
  traffic, each row of the log names a tool, an outcome and an actor of the fixed sets or a worker the
  hub knows, a task id of the hub's own form, and no more repeated than content bytes; row ids ascend.
\<close>

theorem call_log_closed:
  assumes "(hub_traffic cfg)\<^sup>*\<^sup>* hub_start s"
  shows "(\<forall>r \<in> set (call_log (run_books s)). closed_labels (hc_tools cfg) (run_db s) (cr_call r)) \<and>
    sorted_wrt (<) (map cr_id (call_log (run_books s)))"
  using traffic.inv_reachable [OF assms] by (simp add: traffic_ok_def books_ok_def)

theorem call_log_closed_witness:
  "map (\<lambda>r. (c_tool (cr_call r), c_outcome (cr_call r))) (call_log (run_books demo_traffic)) =
     [(''invalid'', ''error''), (''get_state'', ''ok'')] \<and>
   list_all (\<lambda>r. closed_labels [''get_state''] (run_db demo_traffic) (cr_call r)) (call_log (run_books demo_traffic))"
proof -
  have "map (\<lambda>r. (c_tool (cr_call r), c_outcome (cr_call r))) (call_log (run_books demo_traffic)) =
      [(''invalid'', ''error''), (''get_state'', ''ok'')]" by code_simp
  with call_log_closed [OF demo_traffic_reachable] show ?thesis by (simp add: demo_config_def list_all_iff)
qed

text \<open>
  C32. Alice's calls are paired by their id: a response is recorded with the size, the start and the
  tool of the request it answers, whatever passes on the pipe between the two for other ids, and a
  second response with that id is not recorded again.
\<close>

theorem mcp_call_recorded_once:
  assumes "is_request k rq" and "dict_get ''method'' rq = Some (JStr kind)" and "is_answer k rp" and "is_answer k rp'"
    and "\<forall>ob \<in> set between. \<not> touches k ob"
    and "observe_all tools (Asked t0 rq n # between) m = (rs, m1)"
  shows "\<exists>r m2. observe_response t1 rp z m1 = (Some r, m2) \<and> c_actor r = ALICE \<and>
    c_tool r = mcp_tool tools kind (request_params rq) \<and> c_bytes_in r = n \<and> c_bytes_out r = z \<and>
    c_started r = t0 \<and> c_finished r = t1 \<and> observe_response t2 rp' z' m2 = (None, m2)"
proof -
  let ?p = "\<lparr>p_tool = mcp_tool tools kind (request_params rq), p_bytes_in = n, p_started = t0,
      p_task = mcp_task kind (request_params rq)\<rparr>"
  obtain rs' where b: "observe_all tools between (observe_request tools t0 rq n m) = (rs', m1)"
    using assms(6) by (auto simp: observe_def split: prod.splits)
  have "awaited m1 k = Some ?p"
    using observe_all_untouched [OF assms(5) b] request_awaited [OF assms(1,2)] by simp
  from awaited_answered [OF assms(3) this] unawaited_answer [OF assms(4)] show ?thesis
    by (metis pending_call.select_convs(1-3))
qed

theorem mcp_call_recorded_once_witness:
  "\<exists>r m2. observe_response 3 demo_answer 60 (snd (observe_all [''get_state'']
       [Asked 1 demo_ask 40, Asked 2 [(''id'', JStr ''x''), (''method'', JStr ''ping'')] 9] no_calls)) = (Some r, m2) \<and>
     c_tool r = ''get_state'' \<and> c_bytes_in r = 40 \<and> c_bytes_out r = 60"
proof -
  let ?b = "[Asked 2 [(''id'', JStr ''x''), (''method'', JStr ''ping'')] 9]"
  have h: "is_request (Key_int 7) demo_ask" "dict_get ''method'' demo_ask = Some (JStr ''tools/call'')"
    "is_answer (Key_int 7) demo_answer" "\<forall>ob \<in> set ?b. \<not> touches (Key_int 7) ob"
    "mcp_tool [''get_state''] ''tools/call'' (request_params demo_ask) = ''get_state''"
    by (simp_all add: is_request_def is_answer_def touches_def demo_ask_def demo_answer_def rpc_key_def dict_has_def
        mcp_tool_def request_params_def sub_dict_def)
  obtain rs m1 where o: "observe_all [''get_state''] (Asked 1 demo_ask 40 # ?b) no_calls = (rs, m1)"
    by (rule prod.exhaust)
  from mcp_call_recorded_once [OF h(1,2,3,3,4) o, of 3 60 4 9] show ?thesis unfolding o snd_conv h(5) by blast
qed

text \<open>
  C33. The protected routes answer to the token alone: a request that changes the tables or gets past the
  check of the A2A route carries the loaded token in a bearer header, and so does one that gets a
  guide; and what the guide route hands out is a file below the resolved guides directory.
\<close>

theorem protected_routes:
  "((\<exists>y. sv_answer (a2a_route e sdk settings render token acc t0 t1 db rq) = Inr y) \<or>
      sv_db (a2a_route e sdk settings render token acc t0 t1 db rq) \<noteq> db \<longrightarrow> presents token (rq_authorization rq)) \<and>
    (\<forall>content. fst (guide_route disk dir token acc t0 t1 db auth claimed role) = Inr content \<longrightarrow>
      presents token auth \<and> (\<exists>rest. guide_file disk (resolve disk dir @ rest) = Some content))"
proof (intro conjI impI allI)
  assume "(\<exists>y. sv_answer (a2a_route e sdk settings render token acc t0 t1 db rq) = Inr y) \<or>
      sv_db (a2a_route e sdk settings render token acc t0 t1 db rq) \<noteq> db"
  then show "presents token (rq_authorization rq)"
    by (cases "require_bearer token (rq_authorization rq)") (auto simp: a2a_route_def require_bearer_presents)
next
  fix content assume g: "fst (guide_route disk dir token acc t0 t1 db auth claimed role) = Inr content"
  then have b: "require_bearer token auth = Inr ()"
    by (cases "require_bearer token auth") (auto simp: guide_route_def)
  then show "presents token auth" by (simp add: require_bearer_presents)
  have "guide_response disk dir role = Inr content"
    using g b by (auto simp: guide_route_def Let_def split: sum.splits if_splits)
  then show "\<exists>rest. guide_file disk (resolve disk dir @ rest) = Some content"
    by (rule guide_response_inside) blast
qed

theorem protected_routes_witness:
  "fst (guide_route \<lparr>resolve = (\<lambda>p. p), guide_file = (\<lambda>p. if p = [''g'', ''reviewer.md''] then Some ''# Review'' else None)\<rparr>
      [''g''] (Some ''secret'') False 1 1 empty_db (Some ''BEARER  secret'') None ''reviewer'') = Inr ''# Review'' \<and>
   presents (Some ''secret'') (Some ''BEARER  secret'') \<and>
   (\<exists>y. sv_answer (a2a_route (sample_env 0) demo_sdk demo_settings (\<lambda>_. []) (Some ''secret'') False 1 1 empty_db demo_bad_body) = Inr y) \<and>
   presents (Some ''secret'') (rq_authorization demo_bad_body)"
proof -
  let ?disk = "\<lparr>resolve = (\<lambda>p. p), guide_file = (\<lambda>p. if p = [''g'', ''reviewer.md''] then Some ''# Review'' else None)\<rparr>"
  have g: "fst (guide_route ?disk [''g''] (Some ''secret'') False 1 1 empty_db (Some ''BEARER  secret'') None ''reviewer'') =
      Inr ''# Review''" by code_simp
  have "(case sv_answer (a2a_route (sample_env 0) demo_sdk demo_settings (\<lambda>_. []) (Some ''secret'') False 1 1 empty_db demo_bad_body)
      of Inr y \<Rightarrow> True | Inl x \<Rightarrow> False)" by code_simp
  then have a: "\<exists>y. sv_answer (a2a_route (sample_env 0) demo_sdk demo_settings (\<lambda>_. []) (Some ''secret'') False 1 1 empty_db
      demo_bad_body) = Inr y" by (auto split: sum.splits)
  from protected_routes a g show ?thesis by blast
qed

text \<open>
  C34. A migration from any older schema keeps the data: each table still has its rows in order with the
  cells of the columns both shapes know, apart from those an old column is carried over to (the
  harness of agents with \<^verbatim>\<open>runtime\<close>; state, acknowledgement and attempts of events with \<^verbatim>\<open>consumed\<close>); the
  rebuilt tables have exactly the declared shape; no \<^verbatim>\<open>AUTOINCREMENT\<close> mark falls; the version is
  stamped last, so that a second start changes nothing and a failed rebuild leaves the old version
  and the rows.
\<close>

theorem migration_keeps_data:
  assumes "sq_version db \<notin> {0, SCHEMA_VERSION_DB}" and "plain_name t" and "table_of db t = Some tb"
  shows "(case initialize_database julian db of
      Ready d \<Rightarrow> sq_version d = SCHEMA_VERSION_DB \<and> initialize_database julian d = Ready d \<and>
        (\<exists>tb'. table_of d t = Some tb' \<and> (t \<in> set REBUILT_TABLES \<longrightarrow> tb_items tb' = declared_items t) \<and>
           same_cells (kept_columns t tb) (tb_rows tb) (tb_rows tb')) \<and>
        (\<forall>n. sequence_value db t = Some n \<longrightarrow> (\<exists>m. sequence_value d t = Some m \<and> n \<le> m))
    | Rebuild_failed x d \<Rightarrow> sq_version d = sq_version db \<and>
        (\<exists>tb'. table_of d t = Some tb' \<and> same_cells (kept_columns t tb) (tb_rows tb) (tb_rows tb'))
    | Migration_failed x \<Rightarrow> True)"
proof (cases "sq_version db > SCHEMA_VERSION_DB")
  case False
  show ?thesis
  proof (cases "run_steps (migration_steps julian) db")
    case (Inr e)
    show ?thesis
    proof (cases "rebuild_drifted_tables e")
      case (Inl x)
      have "careful t (kept_columns t tb) db e" by (rule migrations_careful [OF Inr assms(3) kept_apart(2,1)])
      then show ?thesis using Inl Inr False assms kept_apart(2) [of t tb]
        by (auto simp: initialize_database_def careful_def keeps_def)
    next
      case (Inr d)
      obtain tb' where "table_of d t = Some tb'" "t \<in> set REBUILT_TABLES \<Longrightarrow> tb_items tb' = declared_items t"
        "same_cells (kept_columns t tb) (tb_rows tb) (tb_rows tb')" "marks_kept t db d"
        by (rule rebuilt_database [OF \<open>run_steps (migration_steps julian) db = Inr e\<close> Inr assms(2,3)]) blast
      then show ?thesis using Inr \<open>run_steps (migration_steps julian) db = Inr e\<close> False assms(1)
        by (simp add: initialize_database_def marks_kept_def)
    qed
  qed (use False assms(1) in \<open>simp add: initialize_database_def\<close>)
qed (use assms(1) in \<open>simp add: initialize_database_def SCHEMA_VERSION_DB_def\<close>)

theorem migration_keeps_data_witness:
  "\<exists>d tb. initialize_database (\<lambda>_. None) old_db = Ready d \<and> sq_version d = SCHEMA_VERSION_DB \<and>
     table_of d ''event'' = Some tb \<and> tb_items tb = event_items \<and> length (tb_rows tb) = 1 \<and>
     (\<exists>m. sequence_value d ''event'' = Some m \<and> 5 \<le> m)"
proof -
  let ?t = "\<lparr>tb_items = old_event_items, tb_rows = [old_event]\<rparr>"
  have h: "sq_version old_db \<notin> {0, SCHEMA_VERSION_DB}" "plain_name ''event''" "table_of old_db ''event'' = Some ?t"
    "sequence_value old_db ''event'' = Some 5" "''event'' \<in> set REBUILT_TABLES" "declared_items ''event'' = event_items"
    by (simp_all add: old_db_def SCHEMA_VERSION_DB_def plain_nameI table_of_def sequence_value_def REBUILT_TABLES_def
        declared_items_def canonical_tables_def)
  have "(case initialize_database (\<lambda>_. None) old_db of Ready d \<Rightarrow> True | _ \<Rightarrow> False)" by code_simp
  then obtain d where d: "initialize_database (\<lambda>_. None) old_db = Ready d" by (auto split: initialized.splits)
  show ?thesis using migration_keeps_data [OF h(1,2,3), of "\<lambda>_. None"] h(4,5,6) unfolding d
    by (auto simp: same_cells_def dest: list_all2_lengthD)
qed

section \<open>The report\<close>

text \<open>
  C35. The report accounts for the whole time it has seen of an agent. That time runs from the
  agent's first check-in (for Alice, or without one, from its first call) to its release, or to the
  last moment any of its calls shows, or to now while it is still connected, as the report prints it. The
  turn and the waiting are the moments in it in which the agent held a task (for Alice: did not wait), and in
  which it waited beside that; they and the idle time are not negative, and together they are the
  total, up to one millisecond of rounding. Alice is never idle.
\<close>

theorem agent_time_accounted:
  assumes "f \<in> set (agent_figures sn tm tfs expected now)" and "af_times f = Some t"
  shows "(\<exists>a b. a \<le> b \<and>
        seen_from (af_name f = ALICE_NAME) (calls_seen sn tm (af_name f)) a \<and>
        seen_until (released_at tm (af_name f) (calls_seen sn tm (af_name f))) (connected_still sn (af_name f)) now
          (calls_seen sn tm (af_name f)) b \<and>
        af_first_seen f = Some (to_iso a) \<and> af_last_seen f = Some (to_iso b) \<and>
        accounted (af_name f = ALICE_NAME) {a..<b} (covered (active_windows tfs (af_name f) now))
          (covered (holds_of sn tm (af_name f))) t) \<and>
    0 \<le> at_turn t \<and> 0 \<le> at_waiting t \<and> 0 \<le> at_idle t \<and>
    at_total t \<le> at_turn t + at_waiting t + at_idle t \<and>
    at_turn t + at_waiting t + at_idle t \<le> at_total t + 1 / 1000 \<and>
    (af_name f = ALICE_NAME \<longrightarrow> at_idle t \<le> 1 / 1000)"
proof -
  obtain a b where ab: "a \<le> b" and t: "t = times_between (af_name f = ALICE_NAME) (active_windows tfs (af_name f) now)
      (holds_of sn tm (af_name f)) a b"
    and w: "seen_from (af_name f = ALICE_NAME) (calls_seen sn tm (af_name f)) a"
      "seen_until (released_at tm (af_name f) (calls_seen sn tm (af_name f))) (connected_still sn (af_name f)) now
         (calls_seen sn tm (af_name f)) b"
      "af_first_seen f = Some (to_iso a)" "af_last_seen f = Some (to_iso b)"
    by (rule agent_figures_times [OF assms])
  show ?thesis using times_between_accounted [OF ab] times_between_sum [OF ab t] ab w unfolding t by blast
qed

theorem agent_time_accounted_witness:
  "\<exists>f t. f \<in> set (agent_figures demo_snapshot_db demo_telemetry [demo_task_figure] [] 30000) \<and> af_times f = Some t \<and>
     at_total t = 20 / 1000 \<and> at_turn t = 8 / 1000 \<and> at_waiting t = 3 / 1000 \<and> at_idle t = 9 / 1000 \<and>
     at_turn t + at_waiting t + at_idle t \<le> at_total t + 1 / 1000"
proof -
  let ?t = "\<lparr>at_total = 20 / 1000, at_turn = 8 / 1000, at_waiting = 3 / 1000, at_idle = 9 / 1000\<rparr> :: agent_times"
  have "Some ?t \<in> af_times ` set (agent_figures demo_snapshot_db demo_telemetry [demo_task_figure] [] 30000)"
    unfolding set_map [symmetric] demo_times by simp
  then obtain f where f: "f \<in> set (agent_figures demo_snapshot_db demo_telemetry [demo_task_figure] [] 30000)" "af_times f = Some ?t"
    by force
  with agent_time_accounted [OF f] show ?thesis by (metis agent_times.select_convs)
qed

section \<open>The preparation of a run\<close>

text \<open>
  C36. Preparing a run is safe to refuse, to fail and to repeat. A run that changed any file has an
  allowed request, a statement of work that was there, the version of every local worker's tool,
  GitHub's word that the caller may push and that the merge method is allowed (unless the repository
  is local or the checks are skipped), a manifest that was absent or its own, and an identity
  printed by the clone of every local worker; only that two clones have different identities is
  checked later, after the token is there, and a run that fails it has written nothing else. A token
  that was there, at a path that no other file of the run has, is never rewritten; and a prepared
  directory accepts the same repository again and no other, when its manifest is plain text (ASCII
  without quotes and backslashes in its strings, and no floats).
\<close>

theorem run_preparation_safe:
  assumes "prepare h q w = (r, w')"
  shows "(w_files w' \<noteq> w_files w \<longrightarrow> (\<exists>p clone workspaces. run_plan_of h q = Inr p \<and> plan_allowed h q p \<and>
        statement_allowed h q w \<and> tools_present h q p \<and> github_allows h q \<and> manifest_allows q w \<and>
        map fst workspaces = p_local p \<and> list_all (cloned h p clone) workspaces \<and>
        (ids_distinct workspaces \<or> (\<forall>x. x \<noteq> path_join (p_state p) ''token'' \<longrightarrow> w_files w' x = w_files w x)))) \<and>
    (\<forall>p tok g. run_plan_of h q = Inr p \<and> tok = path_join (p_state p) ''token'' \<and> w_files w tok = Some g \<and>
        tok \<notin> set (run_paths (q_run_dir q)) \<longrightarrow> w_files w' tok = Some g) \<and>
    (\<forall>m repository. r = Inr m \<and> plain (JObj m) \<longrightarrow>
        check_manifest (path_join (q_run_dir q) ''run.json'') (q_run_dir q) repository w' =
          ((if repository = q_repository q then Inr ()
            else Inl (Run_error ''run directory already prepared for another repository; use a fresh one'')), w'))"
proof (intro conjI allI impI)
  assume "w_files w' \<noteq> w_files w"
  then show "\<exists>p clone workspaces. run_plan_of h q = Inr p \<and> plan_allowed h q p \<and>
        statement_allowed h q w \<and> tools_present h q p \<and> github_allows h q \<and> manifest_allows q w \<and>
        map fst workspaces = p_local p \<and> list_all (cloned h p clone) workspaces \<and>
        (ids_distinct workspaces \<or> (\<forall>x. x \<noteq> path_join (p_state p) ''token'' \<longrightarrow> w_files w' x = w_files w x))"
    using prepare_writes_after_clones [OF assms] unfolding run_accepted_def by metis
next
  fix p tok g
  assume "run_plan_of h q = Inr p \<and> tok = path_join (p_state p) ''token'' \<and> w_files w tok = Some g \<and> tok \<notin> set (run_paths (q_run_dir q))"
  with assms show "w_files w' tok = Some g" using prepare_keeps_token by blast
next
  fix m repository
  assume "r = Inr m \<and> plain (JObj m)"
  with assms show "check_manifest (path_join (q_run_dir q) ''run.json'') (q_run_dir q) repository w' =
      ((if repository = q_repository q then Inr ()
        else Inl (Run_error ''run directory already prepared for another repository; use a fresh one'')), w')"
    using prepared_again by blast
qed

theorem run_preparation_safe_witness:
  "\<exists>r v s w'. prepare unwritable_host demo_run tokenless_world = (r, v) \<and>
     map_option f_content (w_files v ''/r/hub-state/token'') = Some (''fresh'' @ newline) \<and>
     github_allows unwritable_host demo_run \<and> manifest_allows demo_run tokenless_world \<and>
     prepare unwritable_host demo_run demo_disk = (s, w') \<and>
     w_files w' ''/r/hub-state/token'' = Some \<lparr>f_content = ''secret'' @ newline, f_mode = 384\<rparr>"
proof -
  let ?tok = "''/r/hub-state/token''"
  obtain r v where first: "prepare unwritable_host demo_run tokenless_world = (r, v)" by fastforce
  obtain s w' where again: "prepare unwritable_host demo_run demo_disk = (s, w')" by fastforce
  have "map_option f_content (w_files (snd (prepare unwritable_host demo_run tokenless_world)) ?tok) = Some (''fresh'' @ newline)"
    by code_simp
  then have wrote: "map_option f_content (w_files v ?tok) = Some (''fresh'' @ newline)" using first by simp
  have "w_files tokenless_world ?tok = None" by (simp add: tokenless_world_def)
  then have "w_files v \<noteq> w_files tokenless_world" using wrote by auto
  then have checks: "github_allows unwritable_host demo_run \<and> manifest_allows demo_run tokenless_world"
    using run_preparation_safe [OF first] by blast
  have "(case run_plan_of unwritable_host demo_run of Inr p \<Rightarrow> path_join (p_state p) ''token'' = ?tok | _ \<Rightarrow> False)"
    by code_simp
  then obtain p where p: "run_plan_of unwritable_host demo_run = Inr p" "path_join (p_state p) ''token'' = ?tok"
    by (auto split: sum.splits)
  have "?tok \<notin> set (run_paths (q_run_dir demo_run))" by code_simp
  moreover have "w_files demo_disk ?tok = Some \<lparr>f_content = ''secret'' @ newline, f_mode = 384\<rparr>"
    by (simp add: demo_disk_def)
  ultimately have "w_files w' ?tok = Some \<lparr>f_content = ''secret'' @ newline, f_mode = 384\<rparr>"
    using run_preparation_safe [OF again] p by metis
  with first again wrote checks show ?thesis by blast
qed

text \<open>
  C37. The configuration of a worker on another host holds the token, and its text (for Claude's,
  what \<^verbatim>\<open>save\<close> writes) is only written where the mode of a file is honoured. Where
  \<^verbatim>\<open>chmod\<close> leaves the probe readable by others the writing is refused, and no file but at most an empty
  probe is left behind. Where it succeeds, the file holds the secret and no other user can read
  it. And whatever happens, every file it leaves was there before, or is that one, or is what a
  failed move left, with the mode \<^verbatim>\<open>chmod 0600\<close> gave it: the temporary file or an empty probe.
\<close>

theorem secret_kept_private:
  assumes "write_secret h p (\<lambda>p. write_private_text h p t) w = (r, w')"
  shows "(\<not> rh_windows h \<and> rh_chmod h (temporary (probe_path p)) 384 mod 64 \<noteq> 0 \<longrightarrow> r \<noteq> Inr () \<and>
      (\<forall>x f. w_files w' x = Some f \<longrightarrow> w_files w x = Some f \<or> x = temporary (probe_path p) \<and> f_content f = [])) \<and>
    (r = Inr () \<longrightarrow> (\<exists>f. w_files w' p = Some f \<and> f_content f = t \<and> (rh_windows h \<or> f_mode f mod 64 = 0))) \<and>
    (\<forall>x f. w_files w' x = Some f \<longrightarrow> w_files w x = Some f \<or>
      x = p \<and> f_content f = t \<and> (rh_windows h \<or> f_mode f mod 64 = 0) \<or>
      r \<noteq> Inr () \<and> (x = temporary p \<and> f_content f = t \<or> x = temporary (probe_path p) \<and> f_content f = []) \<and>
        f_mode f = rh_chmod h x 384)"
proof (intro conjI)
  show "\<not> rh_windows h \<and> rh_chmod h (temporary (probe_path p)) 384 mod 64 \<noteq> 0 \<longrightarrow> r \<noteq> Inr () \<and>
      (\<forall>x f. w_files w' x = Some f \<longrightarrow> w_files w x = Some f \<or> x = temporary (probe_path p) \<and> f_content f = [])"
    using write_secret_refused [OF assms] by (simp add: loose_def)
  show "r = Inr () \<longrightarrow> (\<exists>f. w_files w' p = Some f \<and> f_content f = t \<and> (rh_windows h \<or> f_mode f mod 64 = 0))"
    using write_secret_Inr assms by (auto simp: loose_def)
  show "\<forall>x f. w_files w' x = Some f \<longrightarrow> w_files w x = Some f \<or>
      x = p \<and> f_content f = t \<and> (rh_windows h \<or> f_mode f mod 64 = 0) \<or>
      r \<noteq> Inr () \<and> (x = temporary p \<and> f_content f = t \<or> x = temporary (probe_path p) \<and> f_content f = []) \<and>
        f_mode f = rh_chmod h x 384"
    using write_secret_files [OF assms] unfolding loose_def by blast
qed

theorem secret_kept_private_witness:
  "\<exists>w'. write_secret demo_host ''/r/t'' (\<lambda>p. write_private_text demo_host p ''secret'') demo_disk = (Inr (), w') \<and>
     (\<exists>f. w_files w' ''/r/t'' = Some f \<and> f_content f = ''secret'' \<and> f_mode f mod 64 = 0) \<and>
     (\<exists>r v. write_secret (demo_host\<lparr>rh_chmod := (\<lambda>_ _. 420)\<rparr>) ''/r/t''
        (\<lambda>p. write_private_text (demo_host\<lparr>rh_chmod := (\<lambda>_ _. 420)\<rparr>) p ''secret'') demo_disk = (r, v) \<and>
        r \<noteq> Inr () \<and> w_files v ''/r/t'' = None)"
proof -
  let ?loose = "demo_host\<lparr>rh_chmod := (\<lambda>_ _. 420)\<rparr>"
  have "fst (write_secret demo_host ''/r/t'' (\<lambda>p. write_private_text demo_host p ''secret'') demo_disk) = Inr ()" by code_simp
  then obtain w' where w': "write_secret demo_host ''/r/t'' (\<lambda>p. write_private_text demo_host p ''secret'') demo_disk = (Inr (), w')"
    by (metis prod.collapse)
  have h: "\<not> rh_windows demo_host" by (simp add: demo_host_def)
  obtain r v where v: "write_secret ?loose ''/r/t'' (\<lambda>p. write_private_text ?loose p ''secret'') demo_disk = (r, v)" by fastforce
  have l: "\<not> rh_windows ?loose" "rh_chmod ?loose (temporary (probe_path ''/r/t'')) 384 mod 64 \<noteq> 0" using h by simp_all
  have n: "w_files demo_disk ''/r/t'' = None" "''/r/t'' \<noteq> temporary (probe_path ''/r/t'')"
    by (simp add: demo_disk_def) (code_simp)
  have "r \<noteq> Inr ()" "\<And>f. w_files v ''/r/t'' \<noteq> Some f"
    using secret_kept_private [OF v] l n by (metis, metis option.distinct(1))
  moreover have "\<exists>f. w_files w' ''/r/t'' = Some f \<and> f_content f = ''secret'' \<and> f_mode f mod 64 = 0"
    using secret_kept_private [OF w'] h by simp
  ultimately show ?thesis using w' v by (metis not_Some_eq)
qed

text \<open>
  C38. The hub of a prepared run comes up on it: the environment written for it is accepted exactly if the
  advertised address has a lower-case http(s) scheme and the token is not blank, and then the hub
  binds the run's port, advertises the run's address and checks the run's token.
\<close>

theorem run_hub_environment:
  assumes "run_plan_of h q = Inr p" and "is_absolute (rh_root h)" and "\<And>p. is_absolute p \<Longrightarrow> expanduser os p = p"
  shows "(isl (settings_from_env os (map_of (hub_env_of h p token))) \<longleftrightarrow>
      \<not> http_url (trimmed_url (n_public_url (p_network p))) \<or> strip token = []) \<and>
    (\<forall>s. settings_from_env os (map_of (hub_env_of h p token)) = Inr s \<longrightarrow> s_port s = n_port (p_network p) \<and>
      s_public_url s = trimmed_url (n_public_url (p_network p)) \<and> s_token s = Some (strip token))"
proof -
  obtain hos lb host url pub remote port where net: "network_settings hos lb host url pub remote port = Inr (p_network p)"
    and state: "is_absolute (p_state p)"
    using assms(1) by (auto simp: run_plan_of_def require_that_def canonical_path_def Let_def)
  note env = hub_env_settings [OF net state absolute_path_join [OF assms(2), of "''guides''"] assms(3), where t = token, folded hub_env_of_def]
  show ?thesis using env by (cases "settings_from_env os (map_of (hub_env_of h p token))") auto
qed

theorem run_hub_environment_witness:
  "\<exists>p s. run_plan_of demo_host demo_run = Inr p \<and>
     settings_from_env demo_os (map_of (hub_env_of demo_host p ''secret'')) = Inr s \<and> s_port s = 8420 \<and>
     s_public_url s = ''http://127.0.0.1:8420'' \<and> s_token s = Some ''secret''"
proof -
  have "(case run_plan_of demo_host demo_run of Inr p \<Rightarrow> n_port (p_network p) = 8420 \<and>
      http_url (trimmed_url (n_public_url (p_network p))) \<and>
      trimmed_url (n_public_url (p_network p)) = ''http://127.0.0.1:8420'' | _ \<Rightarrow> False)" by code_simp
  then obtain p where p: "run_plan_of demo_host demo_run = Inr p" "n_port (p_network p) = 8420"
      "http_url (trimmed_url (n_public_url (p_network p)))"
      "trimmed_url (n_public_url (p_network p)) = ''http://127.0.0.1:8420''" by (auto split: sum.splits)
  have t: "strip ''secret'' = ''secret''" by code_simp
  have "is_absolute (rh_root demo_host)" "\<And>p. expanduser demo_os p = p"
    by (simp_all add: demo_host_def demo_os_def is_absolute_def startswith_def)
  note env = run_hub_environment [OF p(1) this, of "''secret''"]
  then show ?thesis using p t by (cases "settings_from_env demo_os (map_of (hub_env_of demo_host p ''secret''))") auto
qed

text \<open>
  C39. The hub takes the policy a run is prepared with, whole: a hub without a workflow creates one with
  that policy and the goal, and its leases are capped at the policy's 120 minutes; and when Alice is
  started again, after any history of the hub, the same goal and policy name the same workflow and
  change nothing, while another goal is refused.
\<close>

theorem run_policy_reaches_hub:
  assumes "run_plan_of h q = Inr p" and "hub_reachable db" and "workflow_row_of db = None"
  shows "\<exists>d. initialize_workflow e db goal (Some (policy_of q no_ci)) = Inr (uuid_at e 0, d, []) \<and>
    workflow_row_of d = Some \<lparr>w_id = uuid_at e 0, w_goal = goal, w_status = Active, w_policy = policy_of q no_ci,
      w_created = now_iso e 0\<rparr> \<and> max_task_lease_min d (uuid_at e 0) = 120 \<and>
    (\<forall>d' e'. hub_steps d d' \<longrightarrow>
       initialize_workflow e' d' goal (Some (policy_of q no_ci)) = Inr (uuid_at e 0, d', []) \<and>
       (\<forall>goal'. goal' \<noteq> goal \<longrightarrow> (\<exists>m. initialize_workflow e' d' goal' (Some (policy_of q no_ci)) = Inl (Conflict m))))"
proof -
  let ?w = "\<lparr>w_id = uuid_at e 0, w_goal = goal, w_status = Active, w_policy = policy_of q no_ci, w_created = now_iso e 0\<rparr>"
  let ?d = "db\<lparr>workflows := workflows db @ [?w]\<rparr>"
  have "q_merge_method q \<in> {''squash'', ''merge'', ''rebase''}"
    using run_plan_allowed [OF assms(1)] by (simp add: plan_allowed_def)
  then have v: "validated_workflow_policy (Some (policy_of q no_ci)) = Inr (policy_of q no_ci)"
    unfolding policy_of_def by (rule run_policy_accepted)
  have i: "initialize_workflow e db goal (Some (policy_of q no_ci)) = Inr (uuid_at e 0, ?d, [])"
    using v assms(3) by (simp add: initialize_workflow_def Let_def)
  have none: "workflows db = []"
    using assms(3) unfolding workflow_row_of_def first_by_None by (simp add: filter_empty_conv)
  have w: "workflow_row_of ?d = Some ?w" by (simp add: none workflow_row_of_def first_by_def)
  have l: "max_task_lease_min ?d (uuid_at e 0) = 120"
    by (simp add: none max_task_lease_min_def policy_of_def run_policy_def policy_lease_min_def)
  have "initialize_workflow e' d' goal (Some (policy_of q no_ci)) = Inr (uuid_at e 0, d', []) \<and>
       (\<forall>goal'. goal' \<noteq> goal \<longrightarrow> (\<exists>m. initialize_workflow e' d' goal' (Some (policy_of q no_ci)) = Inl (Conflict m)))"
    if steps: "hub_steps ?d d'" for d' e'
  proof -
    have ok: "hub_ok ?d" using initialize_workflow_ok [OF i hub_reachable_ok [OF assms(2)]] .
    obtain x where x: "workflow_row_of d' = Some x" "workflow_core x = workflow_core ?w"
      by (rule evolves_workflow [OF hub.inv_steps [OF ok steps] hub.steps_le [OF ok steps] w])
    note c = workflow_coreD [OF x(2)]
    have "json_eq (JObj (w_policy x)) (JObj (policy_of q no_ci))" using c run_policy_eq by (simp add: policy_of_def)
    then show ?thesis using v x(1) c by (simp add: initialize_workflow_def Let_def)
  qed
  with i w l show ?thesis by blast
qed

theorem run_policy_reaches_hub_witness:
  "\<exists>d. initialize_workflow (sample_env 1) empty_db ''ship it'' (Some (policy_of demo_run True)) = Inr (''id10'', d, []) \<and>
     initialize_workflow (sample_env 2) d ''ship it'' (Some (policy_of demo_run True)) = Inr (''id10'', d, [])"
proof -
  have "(case run_plan_of demo_host demo_run of Inr p \<Rightarrow> True | _ \<Rightarrow> False)" by code_simp
  then obtain p where p: "run_plan_of demo_host demo_run = Inr p" by (auto split: sum.splits)
  have "workflow_row_of empty_db = None" "uuid_at (sample_env 1) 0 = ''id10''" by code_simp+
  with run_policy_reaches_hub [OF p rtranclp.rtrancl_refl, of "sample_env 1" "''ship it''" True] show ?thesis by force
qed

text \<open>
  C40. A fresh clone serves its worker: after a bootstrap that printed its identity, the worker started with the
  environment rendered from that identity comes up with the printed workspace id, in that
  workspace, under its name, with the run's token and address. This is for a host that honours
  \<^verbatim>\<open>chmod\<close>, a clone whose origin is the repository as it was given, a normalised destination, an absolute
  run directory and texts of printable ASCII without quotes or backslashes; the hub address must have a lower-case http(s)
  scheme, and the token, the name, the harness, its version and the provider must not be blank, the last
  four without white space around them. Without the first two of these last conditions the claim is
  false: the worker refuses such an address and such a token.
\<close>

theorem fresh_clone_serves_worker:
  assumes "bootstrap_workspace b name dest repo = (Bootstrap_printed d, fs)" and "\<not> bh_exists b"
    and "workspace_id_ok (bh_hex b)" and "bh_chmod b 384 = 384" and "path_text dest = dest"
    and "list_all (list_all plain_char) [name, dest, repo, bh_hex b]"
    and "git fs dest [''remote'', ''get-url'', ''origin''] = Inr repo"
    and "local_worker_env q p parsed token name d = Inr vars" and "is_absolute (q_run_dir q)"
    and "http_url (trimmed_url (n_hub_url (p_network p)))" and "strip token \<noteq> []"
    and "list_all (\<lambda>t. strip t = t \<and> t \<noteq> []) [name, wq_harness (worker_of q name), p_provider p name]"
    and "list_all (\<lambda>(k, t). strip t = t \<and> t \<noteq> []) parsed"
    and "\<And>p. is_absolute p \<Longrightarrow> expanduser os p = p"
  shows "\<exists>s. worker_settings_from_env os fs (map_of vars) = Inr s \<and>
    dict_get ''workspace_id'' d = Some (JStr (bh_hex b)) \<and> workspace_id (ws_profile s) = Some (bh_hex b) \<and>
    ws_workspace s = Some dest \<and> ws_agent_name s = name \<and> ws_token s = strip token \<and>
    ws_hub_url s = trimmed_url (n_hub_url (p_network p)) \<and> harness (ws_profile s) = wq_harness (worker_of q name)"
proof -
  note id = fresh_identity [OF assms(1-3), unfolded assms(5)]
  have d: "canonical_workspace fs dest = Inr dest" "read_identity fs dest name = Inr (bh_hex b)"
    "d = new_identity (bh_hex b) name dest repo"
    using id assms(4,6,7) by simp_all
  obtain v where v: "map_of parsed (wq_harness (worker_of q name)) = Some v"
    and vars: "vars = worker_env name (wq_harness (worker_of q name)) v (p_provider p name) (wq_model (worker_of q name))
      (wq_capabilities (worker_of q name)) dest token (path_join (q_run_dir q) (name @ ''-telemetry.jsonl'')) (n_hub_url (p_network p))"
    using assms(8) by (auto simp: local_worker_env_def identity_str_def version_of_def d(3) new_identity_def Let_def)
  have "strip v = v \<and> v \<noteq> []" using v assms(13) by (auto dest!: map_of_SomeD simp: list_all_iff)
  with worker_env_settings [OF d(1,2) assms(10,11), where hn = "wq_harness (worker_of q name)" and v = v and pr = "p_provider p name"
      and lg = "path_join (q_run_dir q) (name @ ''-telemetry.jsonl'')" and m = "wq_model (worker_of q name)"
      and c = "wq_capabilities (worker_of q name)" and os = os] absolute_path_join [OF assms(9)] assms(12,14)
  obtain s where "worker_settings_from_env os fs (map_of vars) = Inr s" "workspace_id (ws_profile s) = Some (bh_hex b)"
    "ws_workspace s = Some dest" "ws_agent_name s = name" "ws_token s = strip token"
    "ws_hub_url s = trimmed_url (n_hub_url (p_network p))" "harness (ws_profile s) = wq_harness (worker_of q name)"
    unfolding vars by auto
  then show ?thesis by (auto simp: d(3) new_identity_def)
qed

theorem fresh_clone_serves_worker_witness:
  "\<exists>d fs p vars s. bootstrap_workspace demo_bootstrap ''bob'' ''/r/bob'' ''/o'' = (Bootstrap_printed d, fs) \<and>
     local_worker_env demo_run p [(''claude-code'', ''2.0.1'')] ''secret'' ''bob'' d = Inr vars \<and>
     worker_settings_from_env demo_os fs (map_of vars) = Inr s \<and> workspace_id (ws_profile s) = Some (replicate 64 (CHR ''a'')) \<and>
     ws_agent_name s = ''bob'' \<and> ws_token s = ''secret''"
proof -
  let ?v = "[(''claude-code'', ''2.0.1'')]"
  have "(case bootstrap_workspace demo_bootstrap ''bob'' ''/r/bob'' ''/o'' of
      (Bootstrap_printed d, fs) \<Rightarrow> git fs ''/r/bob'' [''remote'', ''get-url'', ''origin''] = Inr ''/o'' \<and>
        dict_get ''path'' d = Some (JStr ''/r/bob'') | _ \<Rightarrow> False)" by code_simp
  then obtain d fs where b: "bootstrap_workspace demo_bootstrap ''bob'' ''/r/bob'' ''/o'' = (Bootstrap_printed d, fs)"
    "git fs ''/r/bob'' [''remote'', ''get-url'', ''origin''] = Inr ''/o''" "dict_get ''path'' d = Some (JStr ''/r/bob'')"
    by (auto split: prod.splits bootstrap_exit.splits)
  have "(case run_plan_of demo_host demo_run of Inr p \<Rightarrow> http_url (trimmed_url (n_hub_url (p_network p))) \<and>
      list_all (\<lambda>t. strip t = t \<and> t \<noteq> []) [''bob'', wq_harness (worker_of demo_run ''bob''), p_provider p ''bob''] | _ \<Rightarrow> False)"
    by code_simp
  from case_Inr [OF this] obtain p :: run_plan where p: "http_url (trimmed_url (n_hub_url (p_network p)))"
    "list_all (\<lambda>t. strip t = t \<and> t \<noteq> []) [''bob'', wq_harness (worker_of demo_run ''bob''), p_provider p ''bob'']"
    by blast
  have h: "wq_harness (worker_of demo_run ''bob'') = ''claude-code''"
    by (simp add: worker_of_def demo_run_def demo_run_worker_def)
  obtain vars where vars: "local_worker_env demo_run p ?v ''secret'' ''bob'' d = Inr vars"
    using b(3) by (simp add: local_worker_env_def identity_str_def version_of_def h Let_def)
  have hyps: "\<not> bh_exists demo_bootstrap" "workspace_id_ok (bh_hex demo_bootstrap)" "bh_chmod demo_bootstrap 384 = 384"
    "path_text ''/r/bob'' = ''/r/bob''" "list_all (list_all plain_char) [''bob'', ''/r/bob'', ''/o'', bh_hex demo_bootstrap]"
    "is_absolute (q_run_dir demo_run)" "strip ''secret'' \<noteq> []" "list_all (\<lambda>(k, t). strip t = t \<and> t \<noteq> []) ?v"
    "strip ''secret'' = ''secret''" "bh_hex demo_bootstrap = replicate 64 (CHR ''a'')"
    by code_simp+
  have e: "\<And>p. expanduser demo_os p = p" by (simp add: demo_os_def)
  from fresh_clone_serves_worker [OF b(1) hyps(1-5) b(2) vars hyps(6) p(1) hyps(7) p(2) hyps(8) e] b(1) vars hyps(9,10)
  show ?thesis by metis
qed

end
